(* ===== verification/Prelude.thy ===== *)
theory Prelude
  imports Main "HOL-Library.Word" "HOL-Library.List_Lexorder" "HOL-Library.Product_Lexorder"
    "HOL-Library.Code_Target_Nat"
begin

text \<open>
  Shared vocabulary of the development: Rust's \<open>Result\<close> and \<open>Option\<close> combinators, Unicode
  strings with the measures the sources use (\<open>len\<close>, \<open>chars().count()\<close>, \<open>trim\<close>), the ordered
  containers of \<open>std::collections\<close>, identifiers and time stamps, and the generic lemmas on
  lists used as database tables.
\<close>

section \<open>Collections of facts\<close>

named_theorems result_simps \<open>inversion rules for the Result combinators\<close>
named_theorems table_simps \<open>rewrite rules for rows and tables\<close>

section \<open>Results\<close>

text \<open>
  A fallible Rust function returns \<open>Result<T, E>\<close>; the model returns \<open>'e + 'a\<close>, with \<open>Inl\<close>
  the error. \<open>and_then\<close> is \<open>Result::and_then\<close> and stands for the \<open>?\<close> operator.
\<close>

definition and_then :: "'e + 'a \<Rightarrow> ('a \<Rightarrow> 'e + 'b) \<Rightarrow> 'e + 'b" where
  "and_then r f = (case r of Inl e \<Rightarrow> Inl e | Inr x \<Rightarrow> f x)"

definition map_err :: "('e \<Rightarrow> 'f) \<Rightarrow> 'e + 'a \<Rightarrow> 'f + 'a" where
  "map_err g r = (case r of Inl e \<Rightarrow> Inl (g e) | Inr x \<Rightarrow> Inr x)"

definition ok_or :: "'e \<Rightarrow> 'a option \<Rightarrow> 'e + 'a" where
  "ok_or e v = (case v of None \<Rightarrow> Inl e | Some x \<Rightarrow> Inr x)"

definition reject_if :: "bool \<Rightarrow> 'e \<Rightarrow> 'e + unit" where
  "reject_if c e = (if c then Inl e else Inr ())"

definition is_ok :: "'e + 'a \<Rightarrow> bool" where
  "is_ok r = (case r of Inl _ \<Rightarrow> False | Inr _ \<Rightarrow> True)"

text \<open>\<open>Option<Result<T, E>>::transpose\<close> after a \<open>map\<close>.\<close>

definition map_transpose :: "('a \<Rightarrow> 'e + 'b) \<Rightarrow> 'a option \<Rightarrow> 'e + 'b option" where
  "map_transpose f v =
     (case v of None \<Rightarrow> Inr None
      | Some x \<Rightarrow> (case f x of Inl e \<Rightarrow> Inl e | Inr y \<Rightarrow> Inr (Some y)))"

text \<open>Collecting an iterator of results stops at the first error.\<close>

fun collect_results :: "('a \<Rightarrow> 'e + 'b) \<Rightarrow> 'a list \<Rightarrow> 'e + 'b list" where
  "collect_results f [] = Inr []"
| "collect_results f (x # xs) =
     and_then (f x) (\<lambda>y. and_then (collect_results f xs) (\<lambda>ys. Inr (y # ys)))"

lemma and_then_simps [simp]:
  "and_then (Inl e) f = Inl e"
  "and_then (Inr x) f = f x"
  by (simp_all add: and_then_def)

lemma and_then_eq_Inr [result_simps]:
  "and_then r f = Inr y \<longleftrightarrow> (\<exists>x. r = Inr x \<and> f x = Inr y)"
  by (cases r) auto

lemma and_then_eq_Inl [result_simps]:
  "and_then r f = Inl e \<longleftrightarrow> r = Inl e \<or> (\<exists>x. r = Inr x \<and> f x = Inl e)"
  by (cases r) auto

lemma map_err_simps [simp]:
  "map_err g (Inl e) = Inl (g e)"
  "map_err g (Inr x) = Inr x"
  by (simp_all add: map_err_def)

lemma map_err_eq_Inr [result_simps]: "map_err g r = Inr y \<longleftrightarrow> r = Inr y"
  by (cases r) auto

lemma map_err_eq_Inl [result_simps]: "map_err g r = Inl e \<longleftrightarrow> (\<exists>e'. r = Inl e' \<and> g e' = e)"
  by (cases r) auto

lemma ok_or_simps [simp]:
  "ok_or e None = Inl e"
  "ok_or e (Some x) = Inr x"
  by (simp_all add: ok_or_def)

lemma ok_or_eq_Inr [result_simps]: "ok_or e v = Inr x \<longleftrightarrow> v = Some x"
  by (cases v) auto

lemma ok_or_eq_Inl [result_simps]: "ok_or e v = Inl e' \<longleftrightarrow> v = None \<and> e' = e"
  by (cases v) auto

lemma reject_if_simps [simp]:
  "reject_if True e = Inl e"
  "reject_if False e = Inr ()"
  by (simp_all add: reject_if_def)

lemma reject_if_eq_Inr [result_simps]: "reject_if c e = Inr u \<longleftrightarrow> \<not> c"
  by (cases c) auto

lemma reject_if_eq_Inl [result_simps]: "reject_if c e = Inl e' \<longleftrightarrow> c \<and> e' = e"
  by (cases c) auto

lemma is_ok_simps [simp]:
  "\<not> is_ok (Inl e)"
  "is_ok (Inr x)"
  by (simp_all add: is_ok_def)

lemma is_ok_iff: "is_ok r \<longleftrightarrow> (\<exists>x. r = Inr x)"
  by (cases r) auto

lemma map_transpose_simps [simp]:
  "map_transpose f None = Inr None"
  "map_transpose f (Some x) = and_then (f x) (\<lambda>y. Inr (Some y))"
  by (auto simp: map_transpose_def and_then_def split: sum.splits)

lemma map_transpose_eq_Inr [result_simps]:
  "map_transpose f v = Inr w \<longleftrightarrow>
     (v = None \<and> w = None) \<or> (\<exists>x y. v = Some x \<and> f x = Inr y \<and> w = Some y)"
  by (cases v) (auto simp: result_simps)

lemma collect_results_Inr_length:
  "collect_results f xs = Inr ys \<Longrightarrow> length ys = length xs"
  by (induction xs arbitrary: ys) (auto simp: result_simps)

lemma collect_results_Inr_nth:
  "collect_results f xs = Inr ys \<Longrightarrow> i < length xs \<Longrightarrow> f (xs ! i) = Inr (ys ! i)"
  by (induction xs arbitrary: ys i) (auto simp: result_simps nth_Cons split: nat.splits)

lemma collect_results_all_ok:
  "(\<And>x. x \<in> set xs \<Longrightarrow> f x = Inr (g x)) \<Longrightarrow> collect_results f xs = Inr (map g xs)"
  by (induction xs) auto

lemma collect_results_map_codec:
  "(\<And>x. x \<in> set xs \<Longrightarrow> g (f x) = Inr x) \<Longrightarrow> collect_results g (map f xs) = Inr xs"
  by (induction xs) auto

section \<open>Strings\<close>

text \<open>
  A Rust \<open>String\<close> is a sequence of Unicode scalar values. It is modelled as the list of their
  code points, so that \<open>chars().count()\<close> is \<open>length\<close> and \<open>len()\<close>, which counts UTF-8 bytes, is
  \<open>byte_len\<close>. \<open>lit\<close> turns an ASCII literal of the sources into such a string.
\<close>

type_synonym rstr = "nat list"
type_synonym byte = "8 word"

definition lit :: "string \<Rightarrow> rstr" where
  "lit s = map of_char s"

definition char_width :: "nat \<Rightarrow> nat" where
  "char_width c = (if c < 128 then 1 else if c < 2048 then 2 else if c < 65536 then 3 else 4)"

definition byte_len :: "rstr \<Rightarrow> nat" where
  "byte_len s = sum_list (map char_width s)"

text \<open>\<open>char::is_control\<close> (general category Cc) and \<open>char::is_whitespace\<close> (White\_Space).\<close>

definition is_control :: "nat \<Rightarrow> bool" where
  "is_control c \<longleftrightarrow> c < 32 \<or> (127 \<le> c \<and> c < 160)"

definition is_whitespace :: "nat \<Rightarrow> bool" where
  "is_whitespace c \<longleftrightarrow> (9 \<le> c \<and> c \<le> 13) \<or> c = 32 \<or> c = 133 \<or> c = 160 \<or> c = 5760
     \<or> (8192 \<le> c \<and> c \<le> 8202) \<or> c = 8232 \<or> c = 8233 \<or> c = 8239 \<or> c = 8287 \<or> c = 12288"

definition is_ascii_digit :: "nat \<Rightarrow> bool" where
  "is_ascii_digit c \<longleftrightarrow> 48 \<le> c \<and> c \<le> 57"

definition is_ascii_lowercase :: "nat \<Rightarrow> bool" where
  "is_ascii_lowercase c \<longleftrightarrow> 97 \<le> c \<and> c \<le> 122"

definition is_ascii_uppercase :: "nat \<Rightarrow> bool" where
  "is_ascii_uppercase c \<longleftrightarrow> 65 \<le> c \<and> c \<le> 90"

definition is_ascii_alphanumeric :: "nat \<Rightarrow> bool" where
  "is_ascii_alphanumeric c \<longleftrightarrow> is_ascii_digit c \<or> is_ascii_lowercase c \<or> is_ascii_uppercase c"

definition is_ascii_whitespace :: "nat \<Rightarrow> bool" where
  "is_ascii_whitespace c \<longleftrightarrow> c \<in> {9, 10, 12, 13, 32}"

definition is_ascii_control :: "nat \<Rightarrow> bool" where
  "is_ascii_control c \<longleftrightarrow> c < 32 \<or> c = 127"

definition is_ascii :: "rstr \<Rightarrow> bool" where
  "is_ascii s \<longleftrightarrow> (\<forall>c \<in> set s. c < 128)"

definition to_ascii_lower :: "nat \<Rightarrow> nat" where
  "to_ascii_lower c = (if is_ascii_uppercase c then c + 32 else c)"

definition to_ascii_lowercase :: "rstr \<Rightarrow> rstr" where
  "to_ascii_lowercase s = map to_ascii_lower s"

definition trim_start :: "rstr \<Rightarrow> rstr" where
  "trim_start s = dropWhile is_whitespace s"

definition trim_end :: "rstr \<Rightarrow> rstr" where
  "trim_end s = rev (dropWhile is_whitespace (rev s))"

definition trim :: "rstr \<Rightarrow> rstr" where
  "trim s = trim_end (trim_start s)"

definition blank :: "rstr \<Rightarrow> bool" where
  "blank s \<longleftrightarrow> trim s = []"

text \<open>\<open>str::starts_with\<close>, \<open>str::ends_with\<close> and \<open>str::contains\<close> for string patterns.\<close>

fun starts_with :: "'a list \<Rightarrow> 'a list \<Rightarrow> bool" where
  "starts_with xs [] = True"
| "starts_with [] (y # ys) = False"
| "starts_with (x # xs) (y # ys) = (x = y \<and> starts_with xs ys)"

definition ends_with :: "'a list \<Rightarrow> 'a list \<Rightarrow> bool" where
  "ends_with xs ys = starts_with (rev xs) (rev ys)"

fun contains_str :: "'a list \<Rightarrow> 'a list \<Rightarrow> bool" where
  "contains_str [] ys = (ys = [])"
| "contains_str (x # xs) ys = (starts_with (x # xs) ys \<or> contains_str xs ys)"

definition contains_nul :: "rstr \<Rightarrow> bool" where
  "contains_nul s \<longleftrightarrow> 0 \<in> set s"

lemma starts_with_iff: "starts_with xs ys \<longleftrightarrow> (\<exists>zs. xs = ys @ zs)"
  by (induction xs ys rule: starts_with.induct) auto

lemma ends_with_iff: "ends_with xs ys \<longleftrightarrow> (\<exists>zs. xs = zs @ ys)"
proof -
  have "ends_with xs ys \<longleftrightarrow> (\<exists>zs. rev xs = rev ys @ zs)"
    by (simp add: ends_with_def starts_with_iff)
  also have "\<dots> \<longleftrightarrow> (\<exists>zs. xs = zs @ ys)"
    by (metis rev_append rev_rev_ident)
  finally show ?thesis .
qed

lemma contains_str_iff: "contains_str xs ys \<longleftrightarrow> (\<exists>us vs. xs = us @ ys @ vs)"
proof (induction xs)
  case Nil
  then show ?case by auto
next
  case (Cons x xs)
  have "(\<exists>us vs. x # xs = us @ ys @ vs) \<longleftrightarrow>
      (\<exists>vs. x # xs = ys @ vs) \<or> (\<exists>us vs. xs = us @ ys @ vs)"
    by (metis append_Cons append_Nil list.exhaust list.sel(3))
  with Cons show ?case by (simp add: starts_with_iff del: starts_with.simps)
qed

lemma contains_str_append_left: "contains_str ys zs \<Longrightarrow> contains_str (xs @ ys) zs"
  by (auto simp: contains_str_iff) (metis append_assoc)

lemma set_trim_subset: "set (trim s) \<subseteq> set s"
  unfolding trim_def trim_end_def trim_start_def
  by (metis dual_order.trans set_dropWhileD set_rev subsetI)

lemma in_dropWhile: "c \<in> set s \<Longrightarrow> \<not> p c \<Longrightarrow> c \<in> set (dropWhile p s)"
  by (induction s) auto

lemma in_trim: "c \<in> set s \<Longrightarrow> \<not> is_whitespace c \<Longrightarrow> c \<in> set (trim s)"
  unfolding trim_def trim_end_def trim_start_def by (simp add: in_dropWhile)

lemma length_trim_le: "length (trim s) \<le> length s"
  unfolding trim_def trim_end_def trim_start_def
  by (metis dual_order.trans length_dropWhile_le length_rev)

lemma trim_start_head: "trim_start s = c # r \<Longrightarrow> \<not> is_whitespace c"
  unfolding trim_start_def by (metis hd_dropWhile list.sel(1) list.simps(3))

lemma trim_end_append_iff: "\<exists>w. s = trim_end s @ w \<and> (\<forall>c \<in> set w. is_whitespace c)"
proof -
  let ?w = "rev (takeWhile is_whitespace (rev s))"
  have "s = trim_end s @ ?w"
    unfolding trim_end_def by (metis rev_append rev_rev_ident takeWhile_dropWhile_id)
  moreover have "\<forall>c \<in> set ?w. is_whitespace c"
    by (auto dest: set_takeWhileD)
  ultimately show ?thesis by blast
qed

lemma trim_hd: "trim s = c # r \<Longrightarrow> \<not> is_whitespace c"
proof -
  assume eq: "trim s = c # r"
  obtain w where "trim_start s = trim_end (trim_start s) @ w"
    using trim_end_append_iff by blast
  with eq have "trim_start s = c # (r @ w)" by (simp add: trim_def)
  then show ?thesis by (rule trim_start_head)
qed

lemma trim_end_last: "trim_end s \<noteq> [] \<Longrightarrow> \<not> is_whitespace (last (trim_end s))"
  unfolding trim_end_def by (simp add: last_rev hd_dropWhile)

lemma trim_last: "trim s \<noteq> [] \<Longrightarrow> \<not> is_whitespace (last (trim s))"
  unfolding trim_def by (rule trim_end_last)

lemma dropWhile_id: "xs = [] \<or> \<not> P (hd xs) \<Longrightarrow> dropWhile P xs = xs"
  by (cases xs) auto

lemma trim_trim [simp]: "trim (trim s) = trim s"
proof (cases "trim s")
  case Nil
  then show ?thesis by (simp add: trim_def [of "[]"] trim_start_def trim_end_def)
next
  case (Cons c r)
  then have start: "trim_start (trim s) = trim s"
    using trim_hd [OF Cons] by (simp add: trim_start_def)
  have "trim s \<noteq> []" by (simp add: Cons)
  then have "dropWhile is_whitespace (rev (trim s)) = rev (trim s)"
    by (intro dropWhile_id) (simp add: hd_rev trim_last)
  with start show ?thesis by (simp add: trim_def [of "trim s"] trim_end_def)
qed

lemma byte_len_ge_length: "length s \<le> byte_len s"
  unfolding byte_len_def by (induction s) (auto simp: char_width_def)

lemma byte_len_ascii: "is_ascii s \<Longrightarrow> byte_len s = length s"
  unfolding byte_len_def is_ascii_def by (induction s) (auto simp: char_width_def)

lemma length_to_ascii_lowercase [simp]: "length (to_ascii_lowercase s) = length s"
  by (simp add: to_ascii_lowercase_def)

lemma to_ascii_lowercase_idem [simp]:
  "to_ascii_lowercase (to_ascii_lowercase s) = to_ascii_lowercase s"
  by (simp add: to_ascii_lowercase_def to_ascii_lower_def is_ascii_uppercase_def)

lemma is_ascii_lowercase_string:
  "(\<And>c. c \<in> set s \<Longrightarrow> \<not> is_ascii_uppercase c) \<Longrightarrow> to_ascii_lowercase s = s"
  unfolding to_ascii_lowercase_def by (induction s) (auto simp: to_ascii_lower_def)

text \<open>\<open>str::split\<close> on one character: always at least one piece.\<close>

fun split_on :: "nat \<Rightarrow> rstr \<Rightarrow> rstr list" where
  "split_on c [] = [[]]"
| "split_on c (x # xs) =
     (if x = c then [] # split_on c xs
      else case split_on c xs of [] \<Rightarrow> [[x]] | p # ps \<Rightarrow> (x # p) # ps)"

text \<open>\<open>str::trim_matches('/')\<close>.\<close>

definition trim_slashes :: "rstr \<Rightarrow> rstr" where
  "trim_slashes s = rev (dropWhile (\<lambda>c. c = 47) (rev (dropWhile (\<lambda>c. c = 47) s)))"

text \<open>\<open>str::split_once\<close> on one character.\<close>

definition split_once :: "nat \<Rightarrow> rstr \<Rightarrow> (rstr \<times> rstr) option" where
  "split_once c s = (if c \<in> set s then Some (takeWhile (\<lambda>x. x \<noteq> c) s, tl (dropWhile (\<lambda>x. x \<noteq> c) s)) else None)"

lemma split_once_Cons:
  "split_once c [] = None"
  "split_once c (x # s) = (if x = c then Some ([], s) else map_option (\<lambda>(n, r). (x # n, r)) (split_once c s))"
  by (auto simp: split_once_def)

lemma split_once_keyed: "c \<notin> set n \<Longrightarrow> split_once c (n @ c # r) = Some (n, r)"
  by (induction n) (auto simp: split_once_Cons)

lemma split_once_SomeD: "split_once c s = Some (n, r) \<Longrightarrow> s = n @ c # r \<and> c \<notin> set n"
  by (induction s arbitrary: n) (auto simp: split_once_Cons split: if_splits)

section \<open>UTF-8\<close>

text \<open>\<open>str::as_bytes\<close>: the UTF-8 encoding of a string.\<close>

definition utf8_units :: "nat \<Rightarrow> nat list" where
  "utf8_units c =
     (if c < 128 then [c]
      else if c < 2048 then [192 + c div 64, 128 + c mod 64]
      else if c < 65536 then [224 + c div 4096, 128 + c div 64 mod 64, 128 + c mod 64]
      else [240 + c div 262144, 128 + c div 4096 mod 64, 128 + c div 64 mod 64, 128 + c mod 64])"

definition utf8_string :: "rstr \<Rightarrow> nat list" where
  "utf8_string s = concat (map utf8_units s)"

definition as_bytes :: "rstr \<Rightarrow> byte list" where
  "as_bytes s = map of_nat (utf8_string s)"

definition scalar_values :: "rstr \<Rightarrow> bool" where
  "scalar_values s \<longleftrightarrow> (\<forall>c \<in> set s. c < 1114112)"

lemma length_as_bytes: "length (as_bytes s) = byte_len s"
proof -
  have "length (utf8_units c) = char_width c" for c
    by (simp add: utf8_units_def char_width_def)
  then show ?thesis
    by (simp add: as_bytes_def utf8_string_def byte_len_def length_concat o_def)
qed

text \<open>
  UTF-8 is a prefix code on scalar values, so the encoding of a string determines it, and a
  string without U+0000 has no zero byte in its encoding.
\<close>

lemma scalar_values_Cons [simp]: "scalar_values (c # s) \<longleftrightarrow> c < 1114112 \<and> scalar_values s"
  by (auto simp: scalar_values_def)

lemma utf8_string_simps [simp]:
  "utf8_string [] = []" "utf8_string (c # s) = utf8_units c @ utf8_string s"
  by (simp_all add: utf8_string_def)

lemma utf8_units_nonempty [simp]: "utf8_units c \<noteq> []"
  by (simp add: utf8_units_def)

lemma eq_from_div_mod_64: "c div 64 = c' div 64 \<Longrightarrow> c mod 64 = c' mod 64 \<Longrightarrow> c = (c' :: nat)"
  by (metis div_mult_mod_eq)

lemma div_64_twice: "c div 4096 = c div 64 div (64 :: nat)" "c div 262144 = c div 64 div 64 div (64 :: nat)"
  by (simp_all flip: div_mult2_eq)

lemma utf8_units_byte: "c < 1114112 \<Longrightarrow> b \<in> set (utf8_units c) \<Longrightarrow> b < 256"
  by (auto simp: utf8_units_def split: if_splits)

lemma utf8_string_byte: "scalar_values s \<Longrightarrow> b \<in> set (utf8_string s) \<Longrightarrow> b < 256"
  by (induction s) (auto dest: utf8_units_byte)

lemma utf8_units_zero: "0 \<in> set (utf8_units c) \<longleftrightarrow> c = 0"
  by (auto simp: utf8_units_def)

lemma lead_unit_class:
  "c < 128 \<Longrightarrow> hd (utf8_units c) < 128"
  "128 \<le> c \<Longrightarrow> c < 2048 \<Longrightarrow> 192 \<le> hd (utf8_units c) \<and> hd (utf8_units c) < 224"
  "2048 \<le> c \<Longrightarrow> c < 65536 \<Longrightarrow> 224 \<le> hd (utf8_units c) \<and> hd (utf8_units c) < 240"
  "65536 \<le> c \<Longrightarrow> 240 \<le> hd (utf8_units c)"
  by (auto simp: utf8_units_def)

lemma same_lead_same_class:
  assumes "hd (utf8_units c) = hd (utf8_units c')"
  shows "(c < 128 \<longleftrightarrow> c' < 128) \<and> (c < 2048 \<longleftrightarrow> c' < 2048) \<and> (c < 65536 \<longleftrightarrow> c' < 65536)"
  using assms lead_unit_class [of c] lead_unit_class [of c'] by linarith

lemma utf8_units_prefix:
  assumes "utf8_units c @ r = utf8_units c' @ r'"
  shows "c = c' \<and> r = r'"
proof -
  have "hd (utf8_units c) = hd (utf8_units c')"
    using assms by (metis hd_append2 utf8_units_nonempty)
  note same_class = same_lead_same_class [OF this]
  have "c = c'"
  proof (cases "c < 65536")
    case True
    with same_class assms show ?thesis
      by (auto simp: utf8_units_def div_64_twice intro: eq_from_div_mod_64 split: if_splits)
  next
    case False
    with same_class have "c div 64 div 64 div 64 = c' div 64 div 64 div 64"
      "c div 64 div 64 mod 64 = c' div 64 div 64 mod 64"
      "c div 64 mod 64 = c' div 64 mod 64" "c mod 64 = c' mod 64"
      using assms by (auto simp: utf8_units_def div_64_twice split: if_splits)
    then show ?thesis by (blast intro: eq_from_div_mod_64)
  qed
  with assms show ?thesis by simp
qed

lemma utf8_string_inject: "utf8_string s = utf8_string s' \<Longrightarrow> s = s'"
proof (induction s arbitrary: s')
  case Nil
  then show ?case by (cases s') auto
next
  case (Cons c s)
  then show ?case by (cases s') (auto dest: utf8_units_prefix)
qed

lemma map_unat_as_bytes: "scalar_values s \<Longrightarrow> map unat (as_bytes s) = utf8_string s"
  unfolding as_bytes_def map_map
  by (rule map_idI) (auto dest: utf8_string_byte simp: take_bit_eq_mod unat_of_nat)

lemma as_bytes_inject:
  "scalar_values s \<Longrightarrow> scalar_values s' \<Longrightarrow> as_bytes s = as_bytes s' \<Longrightarrow> s = s'"
  by (metis map_unat_as_bytes utf8_string_inject)

lemma as_bytes_no_nul: "scalar_values s \<Longrightarrow> 0 \<notin> set s \<Longrightarrow> 0 \<notin> set (as_bytes s)"
proof
  assume s: "scalar_values s" "0 \<notin> set s" and "0 \<in> set (as_bytes s)"
  then have "unat (0 :: byte) \<in> set (map unat (as_bytes s))" by (metis image_eqI list.set_map)
  then have "0 \<in> set (utf8_string s)" using s by (simp add: map_unat_as_bytes)
  with s show False by (auto simp: utf8_string_def utf8_units_zero)
qed

lemma split_at_nul:
  "(0 :: byte) \<notin> set xs \<Longrightarrow> 0 \<notin> set ys \<Longrightarrow> xs @ 0 # r = ys @ 0 # r' \<longleftrightarrow> xs = ys \<and> r = r'"
  by (auto simp: append_eq_append_conv2 append_eq_Cons_conv Cons_eq_append_conv)
section \<open>Identifiers and time\<close>

text \<open>
  A \<open>Uuid\<close> is 128 bits; its hyphenated lower-case text sorts as the number does. A
  \<open>DateTime<Utc>\<close> is a count of nanoseconds from the Unix epoch; its RFC 3339 text, which
  the tables store, sorts as the instant does (a shorter fraction ends in \<open>+\<close>, which is less
  than every digit and than the full stop).
\<close>

type_synonym uuid = "128 word"
type_synonym instant = int

definition is_nil :: "uuid \<Rightarrow> bool" where
  "is_nil u \<longleftrightarrow> u = 0"

definition minutes :: "int \<Rightarrow> instant" where
  "minutes n = n * 60000000000"

section \<open>Ordered maps\<close>

text \<open>
  \<open>BTreeMap<String, String>\<close>: entries in strictly increasing key order. The type has one
  representation per map, so equality of maps is equality in HOL.
\<close>

fun insert_entry :: "'k::linorder \<Rightarrow> 'v \<Rightarrow> ('k \<times> 'v) list \<Rightarrow> ('k \<times> 'v) list" where
  "insert_entry k v [] = [(k, v)]"
| "insert_entry k v ((k', v') # r) =
     (if k < k' then (k, v) # (k', v') # r
      else if k = k' then (k, v) # r
      else (k', v') # insert_entry k v r)"

definition sorted_entries :: "('k::linorder \<times> 'v) list \<Rightarrow> bool" where
  "sorted_entries kvs = sorted_wrt (<) (map fst kvs)"

lemma keys_insert_entry: "set (map fst (insert_entry k v kvs)) = insert k (set (map fst kvs))"
  by (induction k v kvs rule: insert_entry.induct) (simp_all add: insert_commute)

lemma sorted_insert_entry: "sorted_entries kvs \<Longrightarrow> sorted_entries (insert_entry k v kvs)"
  unfolding sorted_entries_def
proof (induction k v kvs rule: insert_entry.induct)
  case (1 k v)
  then show ?case by simp
next
  case (2 k v k' v' r)
  show ?case
  proof (cases "k' < k")
    case True
    with 2 have "sorted_wrt (<) (map fst (insert_entry k v r))" by auto
    moreover have "\<forall>x \<in> set (map fst (insert_entry k v r)). k' < x"
      using "2.prems" True by (simp add: keys_insert_entry del: set_map)
    ultimately show ?thesis using True by (auto simp del: set_map)
  next
    case False
    with 2 show ?thesis by fastforce
  qed
qed

typedef (overloaded) ('k::linorder, 'v) btree_map = "{kvs :: ('k \<times> 'v) list. sorted_entries kvs}"
  morphisms entries Btree_Map
  by (rule exI [of _ "[]"]) (simp add: sorted_entries_def)

setup_lifting type_definition_btree_map

lift_definition btree_empty :: "('k::linorder, 'v) btree_map" is "[]"
  by (simp add: sorted_entries_def)

lift_definition btree_insert :: "'k::linorder \<Rightarrow> 'v \<Rightarrow> ('k, 'v) btree_map \<Rightarrow> ('k, 'v) btree_map"
  is insert_entry by (rule sorted_insert_entry)

definition btree_collect :: "('k::linorder \<times> 'v) list \<Rightarrow> ('k, 'v) btree_map" where
  "btree_collect kvs = fold (\<lambda>(k, v). btree_insert k v) kvs btree_empty"

lemma insert_entry_snoc:
  "\<forall>x \<in> set kvs. fst x < k \<Longrightarrow> insert_entry k v kvs = kvs @ [(k, v)]"
  by (induction k v kvs rule: insert_entry.induct) (auto dest: order.asym)

lemma fold_insert_entry_sorted:
  "sorted_entries (acc @ kvs) \<Longrightarrow> fold (\<lambda>(k, v). insert_entry k v) kvs acc = acc @ kvs"
proof (induction kvs arbitrary: acc)
  case Nil
  then show ?case by simp
next
  case (Cons kv kvs)
  obtain k v where kv: "kv = (k, v)" by (cases kv)
  have "insert_entry k v acc = acc @ [(k, v)]"
    using Cons.prems by (intro insert_entry_snoc) (auto simp: kv sorted_entries_def sorted_wrt_append)
  with Cons.IH [of "acc @ [(k, v)]"] Cons.prems show ?case by (simp add: kv)
qed

lemma entries_fold_insert:
  "entries (fold (\<lambda>(k, v). btree_insert k v) kvs m) = fold (\<lambda>(k, v). insert_entry k v) kvs (entries m)"
  by (induction kvs arbitrary: m) (auto simp: btree_insert.rep_eq)

lemma btree_collect_entries [simp]: "btree_collect (entries m) = m"
proof -
  have "sorted_entries (entries m)" using entries [of m] by simp
  then have "entries (btree_collect (entries m)) = entries m"
    by (simp add: btree_collect_def entries_fold_insert btree_empty.rep_eq fold_insert_entry_sorted)
  then show ?thesis by (simp add: entries_inject)
qed

definition btree_get :: "('k::linorder, 'v) btree_map \<Rightarrow> 'k \<Rightarrow> 'v option" where
  "btree_get m k = map_of (entries m) k"

lemma map_of_insert_entry: "map_of (insert_entry k v kvs) = (map_of kvs)(k \<mapsto> v)"
  by (induction k v kvs rule: insert_entry.induct) (auto simp: fun_eq_iff)

lemma btree_get_empty [simp]: "btree_get btree_empty k = None"
  by (simp add: btree_get_def btree_empty.rep_eq)

lemma btree_get_insert [simp]: "btree_get (btree_insert k v m) k' = (if k' = k then Some v else btree_get m k')"
  by (simp add: btree_get_def btree_insert.rep_eq map_of_insert_entry)

text \<open>\<open>PartialEq\<close> of maps compares their entries in order.\<close>

instantiation btree_map :: (linorder, equal) equal
begin

definition equal_btree_map :: "('a, 'b) btree_map \<Rightarrow> ('a, 'b) btree_map \<Rightarrow> bool" where
  "equal_btree_map m m' \<longleftrightarrow>
     list_all2 (\<lambda>p q. fst p \<le> fst q \<and> fst q \<le> fst p \<and> snd p = snd q) (entries m) (entries m')"

instance
proof
  fix m m' :: "('a, 'b) btree_map"
  have "(fst p \<le> fst q \<and> fst q \<le> fst p \<and> snd p = snd q) = (p = q)" for p q :: "'a \<times> 'b"
    by (auto simp: prod_eq_iff)
  then show "HOL.equal m m' \<longleftrightarrow> m = m'"
    by (simp add: equal_btree_map_def list.rel_eq entries_inject)
qed

end

section \<open>Ordered sets built by insertion\<close>

text \<open>
  The validators detect repeated values with \<open>BTreeSet::insert\<close>, which answers whether the
  value was new. \<open>seen\<close> is the set so far.
\<close>

fun all_fresh :: "('a \<Rightarrow> bool) \<Rightarrow> ('a \<Rightarrow> 'k) \<Rightarrow> 'k list \<Rightarrow> 'a list \<Rightarrow> bool" where
  "all_fresh ok key seen [] = True"
| "all_fresh ok key seen (x # xs) =
     (ok x \<and> key x \<notin> set seen \<and> all_fresh ok key (key x # seen) xs)"

lemma all_fresh_iff:
  "all_fresh ok key seen xs \<longleftrightarrow>
     (\<forall>x \<in> set xs. ok x) \<and> distinct (map key xs) \<and> set (map key xs) \<inter> set seen = {}"
  by (induction xs arbitrary: seen) auto

section \<open>Tables\<close>

text \<open>
  A table is the list of its rows. \<open>row_where\<close> is \<open>query_row(...).optional()\<close> on a condition
  that at most one row meets; \<open>update_where\<close> is \<open>UPDATE ... WHERE\<close>, and \<open>order_by\<close> sorts stably
  on a key.
\<close>

definition row_where :: "('r \<Rightarrow> bool) \<Rightarrow> 'r list \<Rightarrow> 'r option" where
  "row_where p t = find p t"

definition update_where :: "('r \<Rightarrow> bool) \<Rightarrow> ('r \<Rightarrow> 'r) \<Rightarrow> 'r list \<Rightarrow> 'r list" where
  "update_where p f t = map (\<lambda>r. if p r then f r else r) t"

definition exists_where :: "('r \<Rightarrow> bool) \<Rightarrow> 'r list \<Rightarrow> bool" where
  "exists_where p t = list_ex p t"

definition order_by :: "('r \<Rightarrow> 'k::linorder) \<Rightarrow> 'r list \<Rightarrow> 'r list" where
  "order_by key t = sort_key key t"

definition order_by_desc :: "('r \<Rightarrow> 'k::linorder) \<Rightarrow> 'r list \<Rightarrow> 'r list" where
  "order_by_desc key t = rev (sort_key key t)"

lemma row_where_Some: "row_where p t = Some r \<Longrightarrow> r \<in> set t \<and> p r"
  unfolding row_where_def by (auto simp: find_Some_iff)

lemma row_where_None: "row_where p t = None \<longleftrightarrow> (\<forall>r \<in> set t. \<not> p r)"
  unfolding row_where_def by (auto simp: find_None_iff)

lemma exists_where_iff [table_simps]: "exists_where p t \<longleftrightarrow> (\<exists>r \<in> set t. p r)"
  by (simp add: exists_where_def list_ex_iff)

lemma set_update_where [table_simps]: "set (update_where p f t) = (\<lambda>r. if p r then f r else r) ` set t"
  by (simp add: update_where_def)

lemma length_update_where [simp]: "length (update_where p f t) = length t"
  by (simp add: update_where_def)

lemma update_where_map_same:
  "(\<And>r. key (f r) = key r) \<Longrightarrow> map key (update_where p f t) = map key t"
  by (simp add: update_where_def)

lemma set_order_by [simp]: "set (order_by key t) = set t"
  by (simp add: order_by_def)

lemma set_order_by_desc [simp]: "set (order_by_desc key t) = set t"
  by (simp add: order_by_desc_def)

lemma distinct_key_eq:
  "distinct (map key t) \<Longrightarrow> r \<in> set t \<Longrightarrow> r' \<in> set t \<Longrightarrow> key r = key r' \<Longrightarrow> r = r'"
  unfolding distinct_map by (auto dest: inj_onD)

lemma row_where_unique_and:
  assumes "distinct (map key t)" and "r \<in> set t" and "p r"
    and "\<And>x. x \<in> set t \<Longrightarrow> p x \<Longrightarrow> key x = key r"
  shows "row_where p t = Some r"
proof (cases "row_where p t")
  case None
  with assms(2,3) show ?thesis by (simp add: row_where_None)
next
  case (Some x)
  then have "x \<in> set t" "p x" by (simp_all add: row_where_Some)
  with assms show ?thesis using Some by (metis distinct_key_eq)
qed

lemma row_where_unique:
  assumes "distinct (map key t)" and "r \<in> set t"
  shows "row_where (\<lambda>x. key x = key r) t = Some r"
  by (rule row_where_unique_and [OF assms]) simp_all

lemma sorted_order_by: "sorted (map key (order_by key t))"
  by (simp add: order_by_def)

lemma sorted_order_by_desc: "sorted_wrt (\<ge>) (map key (order_by_desc key t))"
proof -
  have "sorted_wrt (\<lambda>x y. y \<ge> x) (map key (sort_key key t))" by simp
  then show ?thesis unfolding order_by_desc_def rev_map [symmetric] sorted_wrt_rev .
qed

end
