(* ===== verification/Content_Types.thy ===== *)
theory Content_Types
  imports Prelude
begin

text \<open>
  The data model of \<open>crates/kernel/src/content.rs\<close>: one record per struct, one datatype per
  enum. Fields keep the names of the source behind a prefix for the struct. The JSON trees of
  \<open>serde_json\<close>, the view of \<open>url::Url\<close> the code reads, and the functions of third-party crates
  that the model takes as parameters are declared here as well.
\<close>

section \<open>Values of third-party crates\<close>

text \<open>
  An \<open>f64\<close> is a mantissa and a binary exponent, an infinity or a NaN. A \<open>Url\<close> is what its
  accessors return.
\<close>

datatype f64 = F64_Finite int int | F64_Infinite bool | F64_NaN

fun f64_is_finite :: "f64 \<Rightarrow> bool" where
  "f64_is_finite (F64_Finite m e) = True"
| "f64_is_finite _ = False"

fun f64_negative :: "f64 \<Rightarrow> bool" where
  "f64_negative (F64_Finite m e) = (m < 0)"
| "f64_negative (F64_Infinite neg) = neg"
| "f64_negative F64_NaN = False"

record url =
  url_text :: rstr
  url_scheme :: rstr
  url_host_str :: "rstr option"
  url_username :: rstr
  url_password :: "rstr option"
  url_path :: rstr
  url_query :: "rstr option"
  url_fragment :: "rstr option"

text \<open>
  A JSON value as serde builds it. A string that is the canonical text of a UUID, an instant
  or a URL is kept as that value: the crates \<open>uuid\<close>, \<open>chrono\<close> and \<open>url\<close> own those texts.
\<close>

datatype json =
    JNull
  | JBool bool
  | JNum int
  | JFloat f64
  | JStr rstr
  | JUuid uuid
  | JTime instant
  | JUrl url
  | JArr "json list"
  | JObj "(rstr \<times> json) list"

text \<open>
  The functions of third-party crates the kernel calls: the lower-case hexadecimal SHA-256 of
  a byte string, the bytes \<open>serde_json::to_vec\<close> prints, and \<open>Url::parse\<close>.
\<close>

record extern =
  sha256_hex :: "byte list \<Rightarrow> rstr"
  json_text :: "json \<Rightarrow> byte list"
  url_parse :: "rstr \<Rightarrow> url option"

section \<open>Enums\<close>

datatype DocumentStatus = Draft | Published | Archived

datatype RevisionActorKind = RevisionHuman | RevisionAgent | RevisionImporter | RevisionSystem

datatype PublicAuthorshipKind = AuthorHuman | AiGenerated | AiAssisted | Imported

datatype ContentValidationError =
    InvalidTitle
  | InvalidSlug
  | InvalidMarkdown
  | InvalidIntentLayer
  | InvalidOntologyLayer
  | InvalidIdempotencyKey
  | InvalidEmbed
  | InvalidAuthorship
  | InvalidAiSummaryText
  | InvalidAiSummaryProvenance
  | AiSummaryRequiresHumanReview
  | AiSummarySourceMismatch

section \<open>Structs\<close>

record PublicAuthorship =
  authorship_kind :: PublicAuthorshipKind
  authorship_generator :: "rstr option"
  authorship_human_reviewed :: bool

definition default_authorship :: PublicAuthorship where
  "default_authorship =
     \<lparr>authorship_kind = AuthorHuman, authorship_generator = None,
      authorship_human_reviewed = False\<rparr>"

record RevisionActor =
  actor_kind :: RevisionActorKind
  actor_id :: rstr
  actor_display_name :: "rstr option"

record Provenance =
  prov_origin :: rstr
  prov_source_uri :: "rstr option"
  prov_actor_id :: "rstr option"
  prov_generated_by :: "rstr option"

record IntentLayer =
  intent_format :: rstr
  intent_source_html :: rstr
  intent_renderer_hints :: "(rstr, rstr) btree_map"
  intent_provenance :: "Provenance option"

record OntologyStatement =
  stmt_subject :: rstr
  stmt_predicate :: rstr
  stmt_object :: json
  stmt_evidence :: "rstr option"
  stmt_confirmed_by_author :: bool

record OntologySidecar =
  onto_schema :: rstr
  onto_statements :: "OntologyStatement list"

record EmbedReference =
  embed_id :: rstr
  embed_provider :: rstr
  embed_resource_id :: rstr
  embed_canonical_url :: url
  embed_title :: rstr
  embed_consent_purpose_ids :: "rstr list"

record AiSummaryProvenance =
  sp_provider :: rstr
  sp_model :: rstr
  sp_prompt_version :: rstr
  sp_generated_at :: instant
  sp_human_reviewed :: bool

record AiSummary =
  summary_text :: rstr
  summary_source_hash :: rstr
  summary_provenance :: AiSummaryProvenance

record RevisionSnapshot =
  rev_schema_version :: rstr
  rev_id :: uuid
  rev_document_id :: uuid
  rev_revision_number :: nat
  rev_parent_revision_id :: "uuid option"
  rev_title :: rstr
  rev_slug :: rstr
  rev_source_markdown :: rstr
  rev_embeds :: "EmbedReference list"
  rev_intent :: "IntentLayer option"
  rev_ontology :: "OntologySidecar option"
  rev_ai_summary :: "AiSummary option"
  rev_authorship :: PublicAuthorship
  rev_actor :: RevisionActor
  rev_content_hash :: rstr
  rev_created_at :: instant

record DocumentSnapshot =
  doc_schema_version :: rstr
  doc_id :: uuid
  doc_site_id :: uuid
  doc_status :: DocumentStatus
  doc_current_revision_id :: uuid
  doc_published_revision_id :: "uuid option"
  doc_revision :: RevisionSnapshot
  doc_created_at :: instant
  doc_updated_at :: instant

record NewDocument =
  new_site_id :: uuid
  new_title :: rstr
  new_slug :: rstr
  new_source_markdown :: rstr
  new_embeds :: "EmbedReference list"
  new_intent :: "IntentLayer option"
  new_ontology :: "OntologySidecar option"
  new_ai_summary :: "AiSummary option"
  new_authorship :: PublicAuthorship
  new_actor :: RevisionActor

record ProposedRevision =
  prop_document_id :: uuid
  prop_base_revision_id :: uuid
  prop_title :: rstr
  prop_slug :: rstr
  prop_source_markdown :: rstr
  prop_embeds :: "EmbedReference list"
  prop_intent :: "IntentLayer option"
  prop_ontology :: "OntologySidecar option"
  prop_ai_summary :: "AiSummary option"
  prop_authorship :: PublicAuthorship
  prop_actor :: RevisionActor
  prop_idempotency_key :: "rstr option"

text \<open>The errors of a repository (\<open>ports.rs\<close>), with the message the code builds.\<close>

datatype RepositoryError =
    NotFound
  | DuplicateSlug
  | RevisionConflict
  | DuplicateIdempotencyKey
  | Validation string
  | Storage string

definition CONTENT_SCHEMA_VERSION :: rstr where
  "CONTENT_SCHEMA_VERSION = lit ''1.0''"

definition AI_SUMMARY_SOURCE_HASH_VERSION :: rstr where
  "AI_SUMMARY_SOURCE_HASH_VERSION = lit ''osb-ai-summary-source/1''"

definition AI_SUMMARY_MAX_CHARACTERS :: nat where
  "AI_SUMMARY_MAX_CHARACTERS = 2000"

lemma lit_inject [simp]: "lit a = lit b \<longleftrightarrow> a = b"
proof -
  have "inj (of_char :: char \<Rightarrow> nat)" by (rule injI) simp
  then show ?thesis unfolding lit_def by (simp add: inj_map_eq_map)
qed

end
