(* ===== verification/Policy.thy ===== *)
theory Policy
  imports Content_Types
begin

text \<open>
  Access decisions: the \<open>AccessPolicy\<close> trait and the single-owner fallback of
  \<open>crates/kernel/src/policy.rs\<close>, the role-based policy of \<open>features/rbac\<close>, and the mapping of
  a verified external identity to a principal in \<open>features/external-auth\<close>. The trait is the
  locale \<open>access_policy\<close>; both policies interpret it.
\<close>

section \<open>Principals, actions and decisions\<close>

record Principal =
  principal_id :: rstr
  principal_roles :: "rstr list"
  principal_capabilities :: "rstr list"

datatype ContentAction = ReadPublished | ReadDraft | Create | Revise | Publish | Archive | Purge

record ResourceScope =
  scope_site_id :: uuid
  scope_document_id :: "uuid option"

record AccessDecision =
  allowed :: bool
  reason :: string

section \<open>The contract of a policy\<close>

text \<open>
  What every policy promises: published content is public, an anonymous caller can do nothing
  else, and a decision depends on the principal only through its identity and roles.
\<close>

locale access_policy =
  fixes authorize :: "'p \<Rightarrow> Principal option \<Rightarrow> ContentAction \<Rightarrow> ResourceScope \<Rightarrow> AccessDecision"
  assumes published_is_public: "allowed (authorize p who ReadPublished r)"
    and anonymous_denied: "a \<noteq> ReadPublished \<Longrightarrow> \<not> allowed (authorize p None a r)"
    and capabilities_ignored:
      "authorize p (Some (x\<lparr>principal_capabilities := caps\<rparr>)) a r = authorize p (Some x) a r"
begin

lemma anonymous_iff: "allowed (authorize p None a r) \<longleftrightarrow> a = ReadPublished"
  using published_is_public anonymous_denied by metis

lemma mutation_needs_principal:
  "allowed (authorize p who a r) \<Longrightarrow> a \<noteq> ReadPublished \<Longrightarrow> \<exists>x. who = Some x"
  using anonymous_denied by (cases who) auto

end

section \<open>The single-owner policy\<close>

record SingleOwnerPolicy =
  owner_id :: rstr

definition single_owner_authorize ::
  "SingleOwnerPolicy \<Rightarrow> Principal option \<Rightarrow> ContentAction \<Rightarrow> ResourceScope \<Rightarrow> AccessDecision" where
  "single_owner_authorize p who action resource =
     (if action = ReadPublished
      then \<lparr>allowed = True, reason = ''published content is public''\<rparr>
      else let ok = (case who of None \<Rightarrow> False | Some v \<Rightarrow> principal_id v = owner_id p) in
        \<lparr>allowed = ok,
         reason = (if ok then ''single owner policy'' else ''mutation denied by default'')\<rparr>)"

interpretation single_owner: access_policy single_owner_authorize
  by unfold_locales (auto simp: single_owner_authorize_def Let_def)

section \<open>Role grants\<close>

record RoleGrant =
  grant_role :: rstr
  grant_action :: ContentAction
  grant_site_id :: "uuid option"
  grant_document_id :: "uuid option"

record RbacPolicy =
  fallback :: SingleOwnerPolicy
  grants :: "RoleGrant list"

definition rbac_new :: "rstr \<Rightarrow> RoleGrant list \<Rightarrow> RbacPolicy" where
  "rbac_new owner gs = \<lparr>fallback = \<lparr>owner_id = owner\<rparr>, grants = gs\<rparr>"

definition grant_matches :: "RoleGrant \<Rightarrow> Principal \<Rightarrow> ContentAction \<Rightarrow> ResourceScope \<Rightarrow> bool" where
  "grant_matches g who action resource \<longleftrightarrow>
     grant_action g = action
     \<and> list_ex (\<lambda>role. role = grant_role g) (principal_roles who)
     \<and> (case grant_site_id g of None \<Rightarrow> True | Some s \<Rightarrow> s = scope_site_id resource)
     \<and> (case grant_document_id g of None \<Rightarrow> True | Some d \<Rightarrow> Some d = scope_document_id resource)"

definition rbac_authorize ::
  "RbacPolicy \<Rightarrow> Principal option \<Rightarrow> ContentAction \<Rightarrow> ResourceScope \<Rightarrow> AccessDecision" where
  "rbac_authorize p who action resource =
     (let fb = single_owner_authorize (fallback p) who action resource in
      if allowed fb then fb
      else case who of
          None \<Rightarrow> fb
        | Some x \<Rightarrow>
            let granted = list_ex (\<lambda>g. grant_matches g x action resource) (grants p) in
            \<lparr>allowed = granted,
             reason = (if granted then ''role grant matched the exact resource scope''
                       else ''no role grant matched; deny by default'')\<rparr>)"

lemma rbac_authorize_Some_iff:
  "allowed (rbac_authorize p (Some who) action resource) \<longleftrightarrow>
     action = ReadPublished \<or> principal_id who = owner_id (fallback p)
     \<or> (\<exists>g \<in> set (grants p). grant_matches g who action resource)"
  by (auto simp: rbac_authorize_def single_owner_authorize_def Let_def list_ex_iff)

interpretation rbac: access_policy rbac_authorize
proof unfold_locales
  show "allowed (rbac_authorize p who ReadPublished r)" for p who r
    by (simp add: rbac_authorize_def single_owner.published_is_public Let_def)
  show "\<not> allowed (rbac_authorize p None a r)" if "a \<noteq> ReadPublished" for p a r
    using that by (simp add: rbac_authorize_def single_owner.anonymous_denied Let_def)
  show "rbac_authorize p (Some (who\<lparr>principal_capabilities := caps\<rparr>)) a r = rbac_authorize p (Some who) a r"
    for p who caps a r
    by (simp add: rbac_authorize_def single_owner.capabilities_ignored grant_matches_def Let_def)
qed

text \<open>
  Role-based authorization allows exactly published reads, the owner, and principals
  holding a role granted for this action in this scope; a grant bound to a site or a document
  never applies to another one, and without a grant an authenticated mutation is denied.
\<close>

theorem rbac_authorize_iff:
  "allowed (rbac_authorize p who action resource) \<longleftrightarrow>
     action = ReadPublished
     \<or> (\<exists>x. who = Some x \<and>
          (principal_id x = owner_id (fallback p)
           \<or> (\<exists>g \<in> set (grants p). grant_action g = action \<and> grant_role g \<in> set (principal_roles x)
                \<and> (grant_site_id g = None \<or> grant_site_id g = Some (scope_site_id resource))
                \<and> (grant_document_id g = None \<or> grant_document_id g = scope_document_id resource))))"
proof (cases who)
  case None
  then show ?thesis by (simp add: rbac.anonymous_iff)
next
  case (Some x)
  have "grant_matches g x action resource \<longleftrightarrow>
      grant_action g = action \<and> grant_role g \<in> set (principal_roles x)
      \<and> (grant_site_id g = None \<or> grant_site_id g = Some (scope_site_id resource))
      \<and> (grant_document_id g = None \<or> grant_document_id g = scope_document_id resource)" for g
    by (auto simp: grant_matches_def list_ex_iff split: option.splits)
  with Some show ?thesis by (simp add: rbac_authorize_Some_iff)
qed

text \<open>
  An anonymous caller gets nothing but published reads, under the fallback policy and
  under every set of role grants.
\<close>

theorem anonymous_reads_only:
  "(allowed (single_owner_authorize sp None action resource) \<longleftrightarrow> action = ReadPublished)
   \<and> (allowed (rbac_authorize p None action resource) \<longleftrightarrow> action = ReadPublished)"
  using single_owner.anonymous_iff rbac.anonymous_iff by blast

section \<open>External identities\<close>

record VerifiedExternalIdentity =
  ident_issuer :: rstr
  ident_subject :: rstr
  ident_claims :: "(rstr, rstr) btree_map"

record IdentityMappingPolicy =
  allowed_issuers :: "rstr list"
  role_claim :: "rstr option"
  role_allowlist :: "rstr list"

datatype ExternalAuthError = UntrustedIssuer | InvalidSubject

definition claimed_roles :: "IdentityMappingPolicy \<Rightarrow> VerifiedExternalIdentity \<Rightarrow> rstr list" where
  "claimed_roles p identity =
     (case role_claim p of None \<Rightarrow> []
      | Some claim \<Rightarrow>
          (case btree_get (ident_claims identity) claim of None \<Rightarrow> []
           | Some value \<Rightarrow>
               filter (\<lambda>role. role \<in> set (role_allowlist p)) (map trim (split_on 44 value))))"

definition map_verified ::
  "IdentityMappingPolicy \<Rightarrow> VerifiedExternalIdentity \<Rightarrow> ExternalAuthError + Principal" where
  "map_verified p identity =
     (if \<not> list_ex (\<lambda>v. v = ident_issuer identity) (allowed_issuers p) then Inl UntrustedIssuer
      else if blank (ident_subject identity) \<or> byte_len (ident_subject identity) > 500
      then Inl InvalidSubject
      else Inr \<lparr>principal_id = ident_issuer identity @ lit ''#'' @ ident_subject identity,
                principal_roles = claimed_roles p identity, principal_capabilities = []\<rparr>)"

lemma split_at_first:
  "c \<notin> set xs \<Longrightarrow> c \<notin> set ys \<Longrightarrow> xs @ c # r = ys @ c # r' \<Longrightarrow> xs = ys \<and> r = r'"
  by (auto simp: append_eq_append_conv2 append_eq_Cons_conv Cons_eq_append_conv)

text \<open>
  Mapping a verified identity is contained by the operator's policy: the issuer is one of
  the allowed ones, every role is on the allow list, no capability is conferred, and, as long
  as no allowed issuer contains a number sign, two identities share a principal only if issuer
  and subject are the same.
\<close>

theorem map_verified_contained:
  assumes "map_verified p x = Inr who" and "map_verified p y = Inr who'"
    and "\<forall>i \<in> set (allowed_issuers p). 35 \<notin> set i"
  shows "ident_issuer x \<in> set (allowed_issuers p) \<and> set (principal_roles who) \<subseteq> set (role_allowlist p)
    \<and> principal_capabilities who = []
    \<and> (principal_id who = principal_id who' \<longleftrightarrow>
         ident_issuer x = ident_issuer y \<and> ident_subject x = ident_subject y)"
proof -
  have hash: "lit ''#'' = [35]" by (simp add: lit_def)
  from assms have trusted: "ident_issuer x \<in> set (allowed_issuers p)" "ident_issuer y \<in> set (allowed_issuers p)"
    and who: "principal_id who = ident_issuer x @ 35 # ident_subject x"
      "principal_id who' = ident_issuer y @ 35 # ident_subject y"
      "principal_roles who = claimed_roles p x" "principal_capabilities who = []"
    by (auto simp: map_verified_def list_ex_iff hash split: if_splits)
  have "set (claimed_roles p x) \<subseteq> set (role_allowlist p)"
    by (auto simp: claimed_roles_def split: option.splits)
  moreover have "principal_id who = principal_id who' \<longleftrightarrow>
      ident_issuer x = ident_issuer y \<and> ident_subject x = ident_subject y"
    using trusted assms(3) by (auto simp: who dest: split_at_first)
  ultimately show ?thesis using trusted who by simp
qed

definition example_mapping :: IdentityMappingPolicy where
  "example_mapping = \<lparr>allowed_issuers = [lit ''https://identity.example''],
     role_claim = Some (lit ''roles''), role_allowlist = [lit ''editor'']\<rparr>"

definition example_identity :: VerifiedExternalIdentity where
  "example_identity = \<lparr>ident_issuer = lit ''https://identity.example'', ident_subject = lit ''user-1'',
     ident_claims = btree_insert (lit ''roles'') (lit ''editor,root'') btree_empty\<rparr>"

definition example_principal :: Principal where
  "example_principal = \<lparr>principal_id = lit ''https://identity.example#user-1'',
     principal_roles = [lit ''editor''], principal_capabilities = []\<rparr>"

theorem map_verified_contained_witness:
  "map_verified example_mapping example_identity = Inr example_principal
   \<and> set (principal_roles example_principal) \<subseteq> set (role_allowlist example_mapping)"
proof -
  have ok: "map_verified example_mapping example_identity = Inr example_principal"
    by code_simp
  have "\<forall>i \<in> set (allowed_issuers example_mapping). 35 \<notin> set i"
    by code_simp
  from map_verified_contained [OF ok ok this] ok show ?thesis by blast
qed

end
