(* ===== verification/Moderation.thy ===== *)
theory Moderation
  imports Content_Types
begin

text \<open>
  Comment submission and moderation, \<open>features/comments\<close>: a submission becomes a pending
  comment, moderation moves it between states, and only an approved comment is rendered.
\<close>

section \<open>Data\<close>

datatype CommentStatus = CommentPending | CommentApproved | CommentRejected | CommentSpam | CommentDeleted

record Comment =
  comment_id :: uuid
  comment_site_id :: uuid
  comment_document_id :: uuid
  comment_author_reference :: rstr
  comment_source_markdown :: rstr
  comment_status :: CommentStatus
  comment_created_at :: instant
  comment_updated_at :: instant

record CommentSubmission =
  sub_site_id :: uuid
  sub_document_id :: uuid
  sub_author_reference :: rstr
  sub_source_markdown :: rstr

datatype CommentError = InvalidAuthor | InvalidBody | InvalidTransition

section \<open>Operations\<close>

definition validate_submission :: "CommentSubmission \<Rightarrow> CommentError + unit" where
  "validate_submission s =
     (if blank (sub_author_reference s) \<or> byte_len (sub_author_reference s) > 300 then Inl InvalidAuthor
      else let n = length (trim (sub_source_markdown s)) in
        if \<not> (1 \<le> n \<and> n \<le> 20000) \<or> contains_nul (sub_source_markdown s) then Inl InvalidBody
        else Inr ())"

text \<open>\<open>ident\<close> is the generated identifier and \<open>now\<close> the clock reading.\<close>

definition into_pending :: "uuid \<Rightarrow> instant \<Rightarrow> CommentSubmission \<Rightarrow> CommentError + Comment" where
  "into_pending ident now s =
     and_then (validate_submission s) (\<lambda>_.
       Inr \<lparr>comment_id = ident, comment_site_id = sub_site_id s,
            comment_document_id = sub_document_id s,
            comment_author_reference = sub_author_reference s,
            comment_source_markdown = sub_source_markdown s, comment_status = CommentPending,
            comment_created_at = now, comment_updated_at = now\<rparr>)"

fun transition_allowed :: "CommentStatus \<Rightarrow> CommentStatus \<Rightarrow> bool" where
  "transition_allowed CommentPending CommentApproved = True"
| "transition_allowed CommentPending CommentRejected = True"
| "transition_allowed CommentPending CommentSpam = True"
| "transition_allowed CommentApproved CommentRejected = True"
| "transition_allowed CommentApproved CommentSpam = True"
| "transition_allowed _ CommentDeleted = True"
| "transition_allowed _ _ = False"

definition moderate :: "instant \<Rightarrow> CommentStatus \<Rightarrow> Comment \<Rightarrow> CommentError + Comment" where
  "moderate now next_status c =
     (if \<not> transition_allowed (comment_status c) next_status then Inl InvalidTransition
      else Inr (c\<lparr>comment_status := next_status, comment_updated_at := now\<rparr>))"

definition render_if_approved :: "(rstr \<Rightarrow> rstr) \<Rightarrow> Comment \<Rightarrow> rstr option" where
  "render_if_approved render_markdown c =
     (if comment_status c = CommentApproved then Some (render_markdown (comment_source_markdown c))
      else None)"

section \<open>Runs\<close>

text \<open>
  One moderation call on a comment; a refused call leaves the comment as it was. A history is
  any sequence of calls.
\<close>

inductive moderation_step :: "Comment \<Rightarrow> Comment \<Rightarrow> bool" where
  accepted: "moderate now st c = Inr c' \<Longrightarrow> moderation_step c c'"
| refused: "moderate now st c = Inl e \<Longrightarrow> moderation_step c c"

inductive_cases moderation_stepE: "moderation_step c c'"

lemma moderate_ok [result_simps]:
  "moderate now st c = Inr c' \<longleftrightarrow>
     transition_allowed (comment_status c) st
     \<and> c' = c\<lparr>comment_status := st, comment_updated_at := now\<rparr>"
  by (auto simp: moderate_def)

lemma allowed_to_approved: "transition_allowed s CommentApproved \<longleftrightarrow> s = CommentPending"
  by (cases s) auto

lemma allowed_to_pending: "\<not> transition_allowed s CommentPending"
  by (cases s) auto

definition hidden :: "Comment \<Rightarrow> bool" where
  "hidden c \<longleftrightarrow> comment_status c \<noteq> CommentPending \<and> comment_status c \<noteq> CommentApproved"

lemma hidden_step: "moderation_step c c' \<Longrightarrow> hidden c \<Longrightarrow> hidden c'"
  by (erule moderation_stepE) (auto simp: result_simps hidden_def allowed_to_approved allowed_to_pending)

lemma body_step:
  "moderation_step c c' \<Longrightarrow>
   comment_source_markdown c' = comment_source_markdown c \<and> comment_id c' = comment_id c"
  by (erule moderation_stepE) (auto simp: result_simps)

text \<open>
  Moderation is final: once a comment is rejected, marked as spam or deleted, no sequence
  of moderation calls makes it render again, and no call ever changes its text.
\<close>

theorem hidden_comment_stays_hidden:
  assumes "moderation_step\<^sup>*\<^sup>* c c'" and "hidden c"
  shows "render_if_approved render_markdown c' = None
    \<and> comment_source_markdown c' = comment_source_markdown c"
proof -
  from assms have "hidden c' \<and> comment_source_markdown c' = comment_source_markdown c"
    by (induction rule: rtranclp_induct) (auto dest: hidden_step body_step)
  then show ?thesis by (simp add: render_if_approved_def hidden_def)
qed

definition example_comment :: Comment where
  "example_comment = \<lparr>comment_id = 1, comment_site_id = 2, comment_document_id = 3,
     comment_author_reference = lit ''external:user-1'', comment_source_markdown = lit ''hello'',
     comment_status = CommentSpam, comment_created_at = 0, comment_updated_at = 0\<rparr>"

theorem hidden_comment_stays_hidden_witness:
  "moderation_step\<^sup>*\<^sup>* example_comment (example_comment\<lparr>comment_status := CommentDeleted, comment_updated_at := 5\<rparr>)
   \<and> render_if_approved id (example_comment\<lparr>comment_status := CommentDeleted, comment_updated_at := 5\<rparr>) = None"
proof -
  have "moderate 5 CommentDeleted example_comment
      = Inr (example_comment\<lparr>comment_status := CommentDeleted, comment_updated_at := 5\<rparr>)"
    by (simp add: moderate_def example_comment_def)
  then have run: "moderation_step\<^sup>*\<^sup>* example_comment
      (example_comment\<lparr>comment_status := CommentDeleted, comment_updated_at := 5\<rparr>)"
    by (blast intro: moderation_step.accepted)
  have "hidden example_comment" by (simp add: hidden_def example_comment_def)
  with run show ?thesis using hidden_comment_stays_hidden by blast
qed

text \<open>
  Nothing is public before a moderator approves it: a submission that passes validation
  becomes a pending comment that does not render, and a comment renders after one accepted
  moderation call only if that call approved a pending comment.
\<close>

theorem submission_is_hidden_until_approved:
  assumes "into_pending ident now s = Inr c" and "moderate t st c = Inr c'"
  shows "render_if_approved render_markdown c = None
    \<and> (render_if_approved render_markdown c' \<noteq> None \<longleftrightarrow> st = CommentApproved)
    \<and> 1 \<le> length (trim (comment_source_markdown c')) \<and> length (trim (comment_source_markdown c')) \<le> 20000"
  using assms
  by (auto simp: into_pending_def validate_submission_def render_if_approved_def Let_def
      result_simps split: if_splits)

definition example_submission :: CommentSubmission where
  "example_submission = \<lparr>sub_site_id = 2, sub_document_id = 3, sub_author_reference = lit ''u'',
     sub_source_markdown = lit ''hello''\<rparr>"

definition example_pending :: Comment where
  "example_pending = \<lparr>comment_id = 1, comment_site_id = 2, comment_document_id = 3,
     comment_author_reference = lit ''u'', comment_source_markdown = lit ''hello'',
     comment_status = CommentPending, comment_created_at = 0, comment_updated_at = 0\<rparr>"

theorem submission_is_hidden_until_approved_witness:
  "into_pending 1 0 example_submission = Inr example_pending
   \<and> render_if_approved id (example_pending\<lparr>comment_status := CommentApproved, comment_updated_at := 4\<rparr>) \<noteq> None"
proof -
  have a: "into_pending 1 0 example_submission = Inr example_pending" by code_simp
  have b: "moderate 4 CommentApproved example_pending
      = Inr (example_pending\<lparr>comment_status := CommentApproved, comment_updated_at := 4\<rparr>)"
    by (simp add: moderate_def example_pending_def)
  from submission_is_hidden_until_approved [OF a b, of id] a show ?thesis by simp
qed

end
