(* ===== verification/Admission.thy ===== *)
theory Admission
  imports Prelude "HOL-Library.AList"
begin

text \<open>
  The keyed sliding-window rate limiter of \<open>apps/server/src/admission.rs\<close>. The hash map of
  buckets is the list of its entries in iteration order, which the source leaves open; the
  theorems hold for every order. Instants and durations are natural numbers, so subtraction is
  \<open>saturating_duration_since\<close>.
\<close>

section \<open>State\<close>

type_synonym key = "byte list"

record AttemptBucket =
  attempts :: "nat list"
  last_seen :: nat

record KeyedRateLimiter =
  buckets :: "(key \<times> AttemptBucket) list"
  maximum_buckets :: nat
  attempts_per_window :: nat
  window :: nat

text \<open>The constructor asserts that its three bounds are positive; \<open>None\<close> is the panic.\<close>

definition new_limiter :: "nat \<Rightarrow> nat \<Rightarrow> nat \<Rightarrow> KeyedRateLimiter option" where
  "new_limiter maximum per_window w =
     (if maximum > 0 \<and> per_window > 0 \<and> w > 0
      then Some \<lparr>buckets = [], maximum_buckets = maximum, attempts_per_window = per_window, window = w\<rparr>
      else None)"

section \<open>Operations\<close>

definition forget :: "key \<Rightarrow> KeyedRateLimiter \<Rightarrow> KeyedRateLimiter" where
  "forget k l = l\<lparr>buckets := filter (\<lambda>e. fst e \<noteq> k) (buckets l)\<rparr>"

text \<open>\<open>min_by_key\<close>: the first entry, in iteration order, with the least \<open>last_seen\<close>.\<close>

fun oldest :: "(key \<times> AttemptBucket) list \<Rightarrow> key option" where
  "oldest [] = None"
| "oldest [e] = Some (fst e)"
| "oldest (e # f # r) =
     (if last_seen (snd f) < last_seen (snd e) then oldest (f # r) else oldest (e # r))"

definition make_room :: "nat \<Rightarrow> KeyedRateLimiter \<Rightarrow> (key \<times> AttemptBucket) list" where
  "make_room now l =
     (let live = filter (\<lambda>e. now - last_seen (snd e) < window l) (buckets l) in
      if length live \<ge> maximum_buckets l
      then case oldest live of None \<Rightarrow> live | Some k \<Rightarrow> filter (\<lambda>e. fst e \<noteq> k) live
      else live)"

definition prune :: "nat \<Rightarrow> nat \<Rightarrow> nat list \<Rightarrow> nat list" where
  "prune w now ts = dropWhile (\<lambda>t. now - t \<ge> w) ts"

definition bucket_admit :: "nat \<Rightarrow> nat \<Rightarrow> nat \<Rightarrow> AttemptBucket \<Rightarrow> bool \<times> AttemptBucket" where
  "bucket_admit per_window w now b =
     (let kept = prune w now (attempts b) in
      if length kept \<ge> per_window then (False, \<lparr>attempts = kept, last_seen = now\<rparr>)
      else (True, \<lparr>attempts = kept @ [now], last_seen = now\<rparr>))"

definition admit_at :: "key \<Rightarrow> nat \<Rightarrow> KeyedRateLimiter \<Rightarrow> bool \<times> KeyedRateLimiter" where
  "admit_at k now l =
     (let bs = (if map_of (buckets l) k = None then make_room now l else buckets l);
          b = (case map_of bs k of None \<Rightarrow> \<lparr>attempts = [], last_seen = now\<rparr> | Some b \<Rightarrow> b);
          (ok, b') = bucket_admit (attempts_per_window l) (window l) now b
      in (ok, l\<lparr>buckets := AList.update k b' bs\<rparr>))"

section \<open>Invariant\<close>

definition limiter_inv :: "KeyedRateLimiter \<Rightarrow> bool" where
  "limiter_inv l \<longleftrightarrow>
     maximum_buckets l > 0 \<and> attempts_per_window l > 0 \<and> window l > 0
     \<and> distinct (map fst (buckets l)) \<and> length (buckets l) \<le> maximum_buckets l
     \<and> (\<forall>e \<in> set (buckets l). length (attempts (snd e)) \<le> attempts_per_window l)"

lemma new_limiter_inv: "new_limiter m n w = Some l \<Longrightarrow> limiter_inv l"
  by (auto simp: new_limiter_def limiter_inv_def split: if_splits)

lemma distinct_fst_filter: "distinct (map fst xs) \<Longrightarrow> distinct (map fst (filter p xs))"
  by (induction xs) auto

lemma forget_inv: "limiter_inv l \<Longrightarrow> limiter_inv (forget k l)"
  by (auto simp: limiter_inv_def forget_def distinct_fst_filter intro: le_trans [OF length_filter_le])

lemma oldest_in: "xs \<noteq> [] \<Longrightarrow> \<exists>k. oldest xs = Some k \<and> k \<in> fst ` set xs"
  by (induction xs rule: oldest.induct) auto

lemma make_room_room:
  assumes "limiter_inv l"
  shows "length (make_room now l) < maximum_buckets l \<and> set (make_room now l) \<subseteq> set (buckets l)
    \<and> distinct (map fst (make_room now l))"
proof -
  let ?live = "filter (\<lambda>e. now - last_seen (snd e) < window l) (buckets l)"
  have len: "length ?live \<le> maximum_buckets l" and d: "distinct (map fst ?live)"
    using assms by (auto simp: limiter_inv_def distinct_fst_filter intro: le_trans [OF length_filter_le])
  show ?thesis
  proof (cases "length ?live \<ge> maximum_buckets l")
    case True
    then have "?live \<noteq> []" using assms by (auto simp: limiter_inv_def)
    then obtain k where k: "oldest ?live = Some k" "k \<in> fst ` set ?live"
      using oldest_in by blast
    then have "length (filter (\<lambda>e. fst e \<noteq> k) ?live) < length ?live"
      by (auto simp del: filter_filter intro: length_filter_less [of "(k, b)" for b])
    with True k len d show ?thesis by (auto simp: make_room_def Let_def distinct_fst_filter simp del: filter_filter)
  next
    case False
    with d show ?thesis by (auto simp: make_room_def Let_def)
  qed
qed

lemma length_prune_le: "length (prune w now ts) \<le> length ts"
  by (simp add: prune_def length_dropWhile_le)

lemma bucket_admit_bound:
  "bucket_admit n w now b = (ok, b') \<Longrightarrow> length (attempts b) \<le> n \<Longrightarrow> length (attempts b') \<le> n"
  using length_prune_le [of w now "attempts b"] by (auto simp: bucket_admit_def Let_def split: if_splits)

lemma length_alist_update:
  "length (AList.update k v xs) = (if k \<in> fst ` set xs then length xs else Suc (length xs))"
  by (induction xs) auto

lemma set_alist_update: "set (AList.update k v xs) \<subseteq> insert (k, v) (set xs)"
  by (induction xs) auto

text \<open>
  Every admission keeps the limiter bounded: never more buckets than configured, one
  bucket per key, and never more recorded attempts in a bucket than the limit, whatever the
  stream of keys and clock readings.
\<close>

theorem admit_at_inv:
  assumes "limiter_inv l" and "admit_at k now l = (ok, l')"
  shows "limiter_inv l' \<and> map_of (buckets l') k \<noteq> None"
proof -
  let ?bs = "if map_of (buckets l) k = None then make_room now l else buckets l"
  let ?b = "case map_of ?bs k of None \<Rightarrow> \<lparr>attempts = [], last_seen = now\<rparr> | Some b \<Rightarrow> b"
  obtain b' where b': "bucket_admit (attempts_per_window l) (window l) now ?b = (ok, b')"
    and l': "l' = l\<lparr>buckets := AList.update k b' ?bs\<rparr>"
    using assms(2) by (auto simp: admit_at_def Let_def split: prod.splits)
  have sub: "set ?bs \<subseteq> set (buckets l)" and d: "distinct (map fst ?bs)"
    using assms(1) make_room_room [OF assms(1)] by (auto simp: limiter_inv_def)
  have "length (AList.update k b' ?bs) \<le> maximum_buckets l"
    using assms(1) make_room_room [OF assms(1), of now]
    by (auto simp: length_alist_update limiter_inv_def map_of_eq_None_iff)
  moreover have "length (attempts ?b) \<le> attempts_per_window l"
    using assms(1) sub by (auto simp: limiter_inv_def split: option.splits dest!: map_of_SomeD)
  then have "length (attempts b') \<le> attempts_per_window l" by (rule bucket_admit_bound [OF b'])
  then have "\<forall>e \<in> set (AList.update k b' ?bs). length (attempts (snd e)) \<le> attempts_per_window l"
    using assms(1) sub set_alist_update [of k b' ?bs] by (fastforce simp: limiter_inv_def)
  ultimately show ?thesis
    using assms(1) d by (simp add: l' limiter_inv_def distinct_update update_conv')
qed

definition example_limiter :: KeyedRateLimiter where
  "example_limiter = \<lparr>buckets = [([1], \<lparr>attempts = [3], last_seen = 3\<rparr>)], maximum_buckets = 1,
     attempts_per_window = 1, window = 10\<rparr>"

theorem admit_at_inv_witness:
  "limiter_inv example_limiter \<and> fst (admit_at [2] 5 example_limiter)
   \<and> limiter_inv (snd (admit_at [2] 5 example_limiter))"
proof -
  have inv: "limiter_inv example_limiter" by (simp add: limiter_inv_def example_limiter_def)
  have "fst (admit_at [2] 5 example_limiter)" by code_simp
  moreover have "admit_at [2] 5 example_limiter
      = (fst (admit_at [2] 5 example_limiter), snd (admit_at [2] 5 example_limiter))" by simp
  ultimately show ?thesis using inv admit_at_inv by blast
qed

section \<open>The sliding window\<close>

text \<open>
  Calls for one key at the given clock readings, from a limiter on; the result lists the
  readings at which a call was admitted.
\<close>

fun admitted_times :: "key \<Rightarrow> nat list \<Rightarrow> KeyedRateLimiter \<Rightarrow> nat list" where
  "admitted_times k [] l = []"
| "admitted_times k (t # ts) l =
     (let (ok, l') = admit_at k t l in (if ok then [t] else []) @ admitted_times k ts l')"

text \<open>The same on the bucket of the key alone.\<close>

fun bucket_times :: "nat \<Rightarrow> nat \<Rightarrow> nat list \<Rightarrow> AttemptBucket \<Rightarrow> nat list" where
  "bucket_times n w [] b = []"
| "bucket_times n w (t # ts) b =
     (let (ok, b') = bucket_admit n w t b in (if ok then [t] else []) @ bucket_times n w ts b')"

lemma admit_at_present:
  assumes "map_of (buckets l) k = Some b" and "bucket_admit (attempts_per_window l) (window l) now b = (ok, b')"
  shows "admit_at k now l = (ok, l\<lparr>buckets := AList.update k b' (buckets l)\<rparr>)"
  using assms by (simp add: admit_at_def Let_def)

lemma admitted_times_bucket:
  "map_of (buckets l) k = Some b \<Longrightarrow>
   admitted_times k ts l = bucket_times (attempts_per_window l) (window l) ts b"
proof (induction ts arbitrary: l b)
  case Nil
  then show ?case by simp
next
  case (Cons t ts)
  obtain ok b' where b': "bucket_admit (attempts_per_window l) (window l) t b = (ok, b')" by fastforce
  have "map_of (AList.update k b' (buckets l)) k = Some b'" by (simp add: update_conv')
  with Cons.IH [of "l\<lparr>buckets := AList.update k b' (buckets l)\<rparr>" b'] admit_at_present [OF Cons.prems b']
  show ?case by (simp add: b')
qed

text \<open>
  Any \<open>n + 1\<close> consecutive admissions span at least one window: \<open>spaced n w ts\<close> says so of
  the admission times. A bucket remembers every admission younger than the window.
\<close>

definition spaced :: "nat \<Rightarrow> nat \<Rightarrow> nat list \<Rightarrow> bool" where
  "spaced n w ts \<longleftrightarrow> (\<forall>i. i + n < length ts \<longrightarrow> ts ! (i + n) - ts ! i \<ge> w)"

lemma prune_suffix:
  "\<exists>m \<le> length ts. prune w now ts = drop m ts \<and> (\<forall>x \<in> set (take m ts). now - x \<ge> w)"
proof (induction ts)
  case Nil
  then show ?case by (simp add: prune_def)
next
  case (Cons t ts)
  then obtain m where m: "m \<le> length ts" "prune w now ts = drop m ts" "\<forall>x \<in> set (take m ts). now - x \<ge> w"
    by blast
  show ?case
  proof (cases "now - t \<ge> w")
    case True
    with m show ?thesis by (intro exI [of _ "Suc m"]) (auto simp: prune_def)
  next
    case False
    then show ?thesis by (intro exI [of _ 0]) (auto simp: prune_def)
  qed
qed

lemma spaced_snoc:
  assumes "spaced n w A" and "\<And>i. i + n = length A \<Longrightarrow> t - A ! i \<ge> w" and "0 < n"
  shows "spaced n w (A @ [t])"
  unfolding spaced_def
proof (intro allI impI)
  fix i
  assume "i + n < length (A @ [t])"
  then consider "i + n < length A" | "i + n = length A" by fastforce
  then show "w \<le> (A @ [t]) ! (i + n) - (A @ [t]) ! i"
    using assms by cases (auto simp: spaced_def nth_append)
qed

lemma bucket_times_spaced:
  assumes "attempts b = drop j A" "\<forall>x \<in> set (take j A). last_seen b - x \<ge> w"
    "spaced n w A" "sorted (last_seen b # ts)" "0 < n"
  shows "spaced n w (A @ bucket_times n w ts b)"
  using assms
proof (induction ts arbitrary: A b j)
  case Nil
  then show ?case by simp
next
  case (Cons t ts)
  obtain m where m: "prune w t (attempts b) = drop m (attempts b)"
    "\<forall>x \<in> set (take m (attempts b)). t - x \<ge> w"
    using prune_suffix by blast
  let ?j = "j + m"
  have kept: "prune w t (attempts b) = drop ?j A" using m(1) Cons.prems(1) by (simp add: add.commute)
  have expired: "\<forall>x \<in> set (take ?j A). t - x \<ge> w"
    using m(2) Cons.prems(1,2,4) by (auto simp: take_add intro: le_trans diff_le_mono)
  show ?case
  proof (cases "n \<le> length (prune w t (attempts b))")
    case True
    then have "bucket_admit n w t b = (False, \<lparr>attempts = drop ?j A, last_seen = t\<rparr>)"
      by (simp add: bucket_admit_def kept [symmetric])
    with Cons.IH [of "\<lparr>attempts = drop ?j A, last_seen = t\<rparr>" ?j A] Cons.prems(3,4,5) expired
    show ?thesis by simp
  next
    case False
    then have step: "bucket_admit n w t b = (True, \<lparr>attempts = drop ?j A @ [t], last_seen = t\<rparr>)"
      by (simp add: bucket_admit_def kept [symmetric])
    have few: "length A - ?j < n" using False by (simp add: kept)
    have gap: "t - A ! i \<ge> w" if "i + n = length A" for i
    proof -
      have "i < ?j" and "i < length A" using that few Cons.prems(5) by linarith+
      then have "A ! i \<in> set (take ?j A)" by (metis in_set_conv_nth length_take min_less_iff_conj nth_take)
      with expired show ?thesis by blast
    qed
    have "spaced n w (A @ [t])"
      by (rule spaced_snoc [OF Cons.prems(3) gap Cons.prems(5)])
    moreover have "drop ?j A @ [t] = drop (min ?j (length A)) (A @ [t])"
      by (simp add: min_def)
    moreover have "\<forall>x \<in> set (take (min ?j (length A)) (A @ [t])). t - x \<ge> w"
      using expired by (auto simp: min_def)
    ultimately have "spaced n w ((A @ [t]) @ bucket_times n w ts \<lparr>attempts = drop ?j A @ [t], last_seen = t\<rparr>)"
      using Cons.prems(4,5) by (intro Cons.IH [of _ "min ?j (length A)"]) simp_all
    then show ?thesis by (simp add: step)
  qed
qed

lemma admitted_times_fresh:
  assumes "buckets l = []" "maximum_buckets l > 0"
  shows "admitted_times k ts l =
    bucket_times (attempts_per_window l) (window l) ts \<lparr>attempts = [], last_seen = hd ts\<rparr>"
proof (cases ts)
  case Nil
  then show ?thesis by simp
next
  case (Cons t r)
  obtain ok b' where b': "bucket_admit (attempts_per_window l) (window l) t \<lparr>attempts = [], last_seen = t\<rparr> = (ok, b')"
    by fastforce
  then have "admit_at k t l = (ok, l\<lparr>buckets := [(k, b')]\<rparr>)"
    using assms by (simp add: admit_at_def make_room_def Let_def)
  moreover have "admitted_times k r (l\<lparr>buckets := [(k, b')]\<rparr>) = bucket_times (attempts_per_window l) (window l) r b'"
    by (subst admitted_times_bucket [of _ _ b']) simp_all
  ultimately show ?thesis using Cons b' by simp
qed



text \<open>
  One identity cannot lock out another: whether a call is admitted depends on the key's
  own bucket only, and a key without a live bucket is always admitted, even when the table is
  full of exhausted keys.
\<close>

theorem admission_depends_on_own_bucket:
  assumes "limiter_inv l"
  shows "fst (admit_at k now l) \<longleftrightarrow>
    (case map_of (buckets l) k of
       None \<Rightarrow> True
     | Some b \<Rightarrow> length (prune (window l) now (attempts b)) < attempts_per_window l)"
proof (cases "map_of (buckets l) k")
  case None
  then have "map_of (make_room now l) k = None"
    using make_room_room [OF assms, of now] by (auto simp: map_of_eq_None_iff)
  with None assms show ?thesis
    by (auto simp: admit_at_def bucket_admit_def prune_def limiter_inv_def Let_def)
next
  case (Some b)
  then show ?thesis by (auto simp: admit_at_def bucket_admit_def Let_def)
qed

theorem admission_depends_on_own_bucket_witness:
  "limiter_inv example_limiter \<and> fst (admit_at [2] 5 example_limiter) \<and> \<not> fst (admit_at [1] 5 example_limiter)"
proof -
  have inv: "limiter_inv example_limiter" by (simp add: limiter_inv_def example_limiter_def)
  show ?thesis
    using inv admission_depends_on_own_bucket [OF inv, of "[2]" 5]
      admission_depends_on_own_bucket [OF inv, of "[1]" 5]
    by (simp add: example_limiter_def prune_def)
qed

end
