(* ===== verification/Wire.thy ===== *)
theory Wire
  imports Content_Types "HOL-Library.Monad_Syntax"
begin

text \<open>
  The wire form of the content model: the JSON tree that the \<open>Serialize\<close> derivations of
  \<open>content.rs\<close> produce and the reader that the \<open>Deserialize\<close> derivations produce, with the
  attributes of the source (\<open>rename_all\<close>, \<open>default\<close>, \<open>skip_serializing_if\<close>,
  \<open>deny_unknown_fields\<close>). The round trip of every struct is proved; the storage layer keeps
  revisions in this form.
\<close>

section \<open>Fields of an object\<close>

text \<open>
  A derived reader fails on a repeated known field, skips unknown ones, treats a missing
  \<open>Option\<close> field as \<open>None\<close>, and takes the default of a field marked \<open>default\<close>.
\<close>

definition field_values :: "rstr \<Rightarrow> (rstr \<times> json) list \<Rightarrow> json list" where
  "field_values k obj = map snd (filter (\<lambda>p. fst p = k) obj)"

definition req_field :: "rstr \<Rightarrow> (json \<Rightarrow> 'a option) \<Rightarrow> (rstr \<times> json) list \<Rightarrow> 'a option" where
  "req_field k dec obj = (case field_values k obj of [v] \<Rightarrow> dec v | _ \<Rightarrow> None)"

definition default_field ::
  "rstr \<Rightarrow> 'a \<Rightarrow> (json \<Rightarrow> 'a option) \<Rightarrow> (rstr \<times> json) list \<Rightarrow> 'a option" where
  "default_field k d dec obj =
     (case field_values k obj of [] \<Rightarrow> Some d | [v] \<Rightarrow> dec v | _ \<Rightarrow> None)"

definition opt_value :: "(json \<Rightarrow> 'a option) \<Rightarrow> json \<Rightarrow> 'a option option" where
  "opt_value dec v = (if v = JNull then Some None else map_option Some (dec v))"

definition opt_field ::
  "rstr \<Rightarrow> (json \<Rightarrow> 'a option) \<Rightarrow> (rstr \<times> json) list \<Rightarrow> 'a option option" where
  "opt_field k dec obj = default_field k None (opt_value dec) obj"

definition skip_none :: "rstr \<Rightarrow> ('a \<Rightarrow> json) \<Rightarrow> 'a option \<Rightarrow> (rstr \<times> json) list" where
  "skip_none k enc v = (case v of None \<Rightarrow> [] | Some x \<Rightarrow> [(k, enc x)])"

fun traverse :: "('a \<Rightarrow> 'b option) \<Rightarrow> 'a list \<Rightarrow> 'b list option" where
  "traverse f [] = Some []"
| "traverse f (x # xs) = do { y \<leftarrow> f x; ys \<leftarrow> traverse f xs; Some (y # ys) }"

lemma field_values_Nil [simp]: "field_values k [] = []"
  by (simp add: field_values_def)

lemma field_values_Cons [simp]:
  "field_values k ((k', v) # obj) = (if k' = k then v # field_values k obj else field_values k obj)"
  by (simp add: field_values_def)

lemma field_values_append [simp]:
  "field_values k (xs @ ys) = field_values k xs @ field_values k ys"
  by (simp add: field_values_def)

lemma field_values_skip_none [simp]:
  "field_values k (skip_none k' enc v) =
     (if k' = k then (case v of None \<Rightarrow> [] | Some x \<Rightarrow> [enc x]) else [])"
  by (simp add: skip_none_def split: option.splits)

lemma traverse_map_codec: "(\<And>x. dec (enc x) = Some x) \<Longrightarrow> traverse dec (map enc xs) = Some xs"
  by (induction xs) auto

lemma default_field_option:
  "(\<And>x. enc x \<noteq> JNull) \<Longrightarrow> (\<And>x. dec (enc x) = Some x) \<Longrightarrow>
   (case (case v of None \<Rightarrow> [] | Some x \<Rightarrow> [enc x]) of
      [] \<Rightarrow> Some None | [w] \<Rightarrow> opt_value dec w | _ \<Rightarrow> None) = Some v"
  by (cases v) (simp_all add: opt_value_def)

lemmas field_defs = req_field_def opt_field_def default_field_def

section \<open>Scalars\<close>

fun from_str :: "json \<Rightarrow> rstr option" where
  "from_str (JStr s) = Some s"
| "from_str _ = None"

fun from_bool :: "json \<Rightarrow> bool option" where
  "from_bool (JBool b) = Some b"
| "from_bool _ = None"

fun from_uuid :: "json \<Rightarrow> uuid option" where
  "from_uuid (JUuid u) = Some u"
| "from_uuid _ = None"

fun from_time :: "json \<Rightarrow> instant option" where
  "from_time (JTime t) = Some t"
| "from_time _ = None"

fun from_url :: "json \<Rightarrow> url option" where
  "from_url (JUrl u) = Some u"
| "from_url _ = None"

fun from_u64 :: "json \<Rightarrow> nat option" where
  "from_u64 (JNum n) = (if 0 \<le> n then Some (nat n) else None)"
| "from_u64 _ = None"

fun from_arr :: "(json \<Rightarrow> 'a option) \<Rightarrow> json \<Rightarrow> 'a list option" where
  "from_arr dec (JArr xs) = traverse dec xs"
| "from_arr dec _ = None"

fun from_obj :: "((rstr \<times> json) list \<Rightarrow> 'a option) \<Rightarrow> json \<Rightarrow> 'a option" where
  "from_obj dec (JObj obj) = dec obj"
| "from_obj dec _ = None"

text \<open>\<open>BTreeMap<String, String>\<close> as an object: entries in key order, later duplicates win.\<close>

definition to_string_map :: "(rstr, rstr) btree_map \<Rightarrow> json" where
  "to_string_map m = JObj (map (\<lambda>(k, v). (k, JStr v)) (entries m))"

definition from_string_map :: "json \<Rightarrow> (rstr, rstr) btree_map option" where
  "from_string_map = from_obj (\<lambda>obj.
     map_option btree_collect (traverse (\<lambda>(k, v). map_option (Pair k) (from_str v)) obj))"

lemma from_to_string_map [simp]: "from_string_map (to_string_map m) = Some m"
proof -
  have "traverse (\<lambda>(k, v). map_option (Pair k) (from_str v)) (map (\<lambda>(k, v). (k, JStr v)) kvs) = Some kvs"
    for kvs :: "(rstr \<times> rstr) list"
    by (rule traverse_map_codec) auto
  then show ?thesis by (simp add: from_string_map_def to_string_map_def)
qed

lemma to_string_map_not_null [simp]: "to_string_map m \<noteq> JNull"
  by (simp add: to_string_map_def)

lemma from_arr_map [simp]: "(\<And>x. dec (enc x) = Some x) \<Longrightarrow> from_arr dec (JArr (map enc xs)) = Some xs"
  by (simp add: traverse_map_codec)

section \<open>Enums\<close>

fun actor_kind_to_json :: "RevisionActorKind \<Rightarrow> json" where
  "actor_kind_to_json RevisionHuman = JStr (lit ''human'')"
| "actor_kind_to_json RevisionAgent = JStr (lit ''agent'')"
| "actor_kind_to_json RevisionImporter = JStr (lit ''importer'')"
| "actor_kind_to_json RevisionSystem = JStr (lit ''system'')"

definition actor_kind_from_json :: "json \<Rightarrow> RevisionActorKind option" where
  "actor_kind_from_json v = do {
     s \<leftarrow> from_str v;
     (if s = lit ''human'' then Some RevisionHuman
      else if s = lit ''agent'' then Some RevisionAgent
      else if s = lit ''importer'' then Some RevisionImporter
      else if s = lit ''system'' then Some RevisionSystem
      else None) }"

fun authorship_kind_to_json :: "PublicAuthorshipKind \<Rightarrow> json" where
  "authorship_kind_to_json AuthorHuman = JStr (lit ''human'')"
| "authorship_kind_to_json AiGenerated = JStr (lit ''ai_generated'')"
| "authorship_kind_to_json AiAssisted = JStr (lit ''ai_assisted'')"
| "authorship_kind_to_json Imported = JStr (lit ''imported'')"

definition authorship_kind_from_json :: "json \<Rightarrow> PublicAuthorshipKind option" where
  "authorship_kind_from_json v = do {
     s \<leftarrow> from_str v;
     (if s = lit ''human'' then Some AuthorHuman
      else if s = lit ''ai_generated'' then Some AiGenerated
      else if s = lit ''ai_assisted'' then Some AiAssisted
      else if s = lit ''imported'' then Some Imported
      else None) }"

lemma actor_kind_codec [simp]: "actor_kind_from_json (actor_kind_to_json k) = Some k"
  by (cases k) (simp_all add: actor_kind_from_json_def)

lemma authorship_kind_codec [simp]:
  "authorship_kind_from_json (authorship_kind_to_json k) = Some k"
  by (cases k) (simp_all add: authorship_kind_from_json_def)

section \<open>Structs\<close>

definition authorship_to_json :: "PublicAuthorship \<Rightarrow> json" where
  "authorship_to_json a = JObj
     ([(lit ''kind'', authorship_kind_to_json (authorship_kind a))]
      @ skip_none (lit ''generator'') JStr (authorship_generator a)
      @ [(lit ''humanReviewed'', JBool (authorship_human_reviewed a))])"

definition authorship_from_json :: "json \<Rightarrow> PublicAuthorship option" where
  "authorship_from_json = from_obj (\<lambda>obj. do {
     kind \<leftarrow> req_field (lit ''kind'') authorship_kind_from_json obj;
     generator \<leftarrow> opt_field (lit ''generator'') from_str obj;
     reviewed \<leftarrow> default_field (lit ''humanReviewed'') False from_bool obj;
     Some \<lparr>authorship_kind = kind, authorship_generator = generator,
           authorship_human_reviewed = reviewed\<rparr> })"

definition actor_to_json :: "RevisionActor \<Rightarrow> json" where
  "actor_to_json a = JObj
     ([(lit ''kind'', actor_kind_to_json (actor_kind a)), (lit ''id'', JStr (actor_id a))]
      @ skip_none (lit ''displayName'') JStr (actor_display_name a))"

definition actor_from_json :: "json \<Rightarrow> RevisionActor option" where
  "actor_from_json = from_obj (\<lambda>obj. do {
     kind \<leftarrow> req_field (lit ''kind'') actor_kind_from_json obj;
     ident \<leftarrow> req_field (lit ''id'') from_str obj;
     name \<leftarrow> opt_field (lit ''displayName'') from_str obj;
     Some \<lparr>actor_kind = kind, actor_id = ident, actor_display_name = name\<rparr> })"

definition provenance_to_json :: "Provenance \<Rightarrow> json" where
  "provenance_to_json p = JObj
     ([(lit ''origin'', JStr (prov_origin p))]
      @ skip_none (lit ''sourceUri'') JStr (prov_source_uri p)
      @ skip_none (lit ''actorId'') JStr (prov_actor_id p)
      @ skip_none (lit ''generatedBy'') JStr (prov_generated_by p))"

definition provenance_from_json :: "json \<Rightarrow> Provenance option" where
  "provenance_from_json = from_obj (\<lambda>obj. do {
     origin \<leftarrow> req_field (lit ''origin'') from_str obj;
     source_uri \<leftarrow> opt_field (lit ''sourceUri'') from_str obj;
     actor \<leftarrow> opt_field (lit ''actorId'') from_str obj;
     generated_by \<leftarrow> opt_field (lit ''generatedBy'') from_str obj;
     Some \<lparr>prov_origin = origin, prov_source_uri = source_uri, prov_actor_id = actor,
           prov_generated_by = generated_by\<rparr> })"

definition intent_to_json :: "IntentLayer \<Rightarrow> json" where
  "intent_to_json i = JObj
     ([(lit ''format'', JStr (intent_format i)),
       (lit ''sourceHtml'', JStr (intent_source_html i)),
       (lit ''rendererHints'', to_string_map (intent_renderer_hints i))]
      @ skip_none (lit ''provenance'') provenance_to_json (intent_provenance i))"

definition intent_from_json :: "json \<Rightarrow> IntentLayer option" where
  "intent_from_json = from_obj (\<lambda>obj. do {
     format \<leftarrow> req_field (lit ''format'') from_str obj;
     html \<leftarrow> req_field (lit ''sourceHtml'') from_str obj;
     hints \<leftarrow> default_field (lit ''rendererHints'') btree_empty from_string_map obj;
     prov \<leftarrow> opt_field (lit ''provenance'') provenance_from_json obj;
     Some \<lparr>intent_format = format, intent_source_html = html, intent_renderer_hints = hints,
           intent_provenance = prov\<rparr> })"

definition statement_to_json :: "OntologyStatement \<Rightarrow> json" where
  "statement_to_json s = JObj
     ([(lit ''subject'', JStr (stmt_subject s)), (lit ''predicate'', JStr (stmt_predicate s)),
       (lit ''object'', stmt_object s)]
      @ skip_none (lit ''evidence'') JStr (stmt_evidence s)
      @ [(lit ''confirmedByAuthor'', JBool (stmt_confirmed_by_author s))])"

definition statement_from_json :: "json \<Rightarrow> OntologyStatement option" where
  "statement_from_json = from_obj (\<lambda>obj. do {
     subject \<leftarrow> req_field (lit ''subject'') from_str obj;
     predicate \<leftarrow> req_field (lit ''predicate'') from_str obj;
     object \<leftarrow> req_field (lit ''object'') Some obj;
     evidence \<leftarrow> opt_field (lit ''evidence'') from_str obj;
     confirmed \<leftarrow> default_field (lit ''confirmedByAuthor'') False from_bool obj;
     Some \<lparr>stmt_subject = subject, stmt_predicate = predicate, stmt_object = object,
           stmt_evidence = evidence, stmt_confirmed_by_author = confirmed\<rparr> })"

definition ontology_to_json :: "OntologySidecar \<Rightarrow> json" where
  "ontology_to_json o' = JObj
     [(lit ''schema'', JStr (onto_schema o')),
      (lit ''statements'', JArr (map statement_to_json (onto_statements o')))]"

definition ontology_from_json :: "json \<Rightarrow> OntologySidecar option" where
  "ontology_from_json = from_obj (\<lambda>obj. do {
     schema \<leftarrow> req_field (lit ''schema'') from_str obj;
     statements \<leftarrow> default_field (lit ''statements'') [] (from_arr statement_from_json) obj;
     Some \<lparr>onto_schema = schema, onto_statements = statements\<rparr> })"

definition embed_to_json :: "EmbedReference \<Rightarrow> json" where
  "embed_to_json e = JObj
     [(lit ''id'', JStr (embed_id e)), (lit ''provider'', JStr (embed_provider e)),
      (lit ''resourceId'', JStr (embed_resource_id e)),
      (lit ''canonicalUrl'', JUrl (embed_canonical_url e)),
      (lit ''title'', JStr (embed_title e)),
      (lit ''consentPurposeIds'', JArr (map JStr (embed_consent_purpose_ids e)))]"

definition embed_from_json :: "json \<Rightarrow> EmbedReference option" where
  "embed_from_json = from_obj (\<lambda>obj. do {
     ident \<leftarrow> req_field (lit ''id'') from_str obj;
     provider \<leftarrow> req_field (lit ''provider'') from_str obj;
     resource \<leftarrow> req_field (lit ''resourceId'') from_str obj;
     canonical \<leftarrow> req_field (lit ''canonicalUrl'') from_url obj;
     title \<leftarrow> req_field (lit ''title'') from_str obj;
     purposes \<leftarrow> default_field (lit ''consentPurposeIds'') [] (from_arr from_str) obj;
     Some \<lparr>embed_id = ident, embed_provider = provider, embed_resource_id = resource,
           embed_canonical_url = canonical, embed_title = title,
           embed_consent_purpose_ids = purposes\<rparr> })"

text \<open>\<open>AiSummary\<close> and its provenance reject unknown fields.\<close>

definition known_fields :: "rstr list \<Rightarrow> (rstr \<times> json) list \<Rightarrow> unit option" where
  "known_fields ks obj = (if list_all (\<lambda>p. fst p \<in> set ks) obj then Some () else None)"

definition summary_provenance_to_json :: "AiSummaryProvenance \<Rightarrow> json" where
  "summary_provenance_to_json p = JObj
     [(lit ''provider'', JStr (sp_provider p)), (lit ''model'', JStr (sp_model p)),
      (lit ''promptVersion'', JStr (sp_prompt_version p)),
      (lit ''generatedAt'', JTime (sp_generated_at p)),
      (lit ''humanReviewed'', JBool (sp_human_reviewed p))]"

definition summary_provenance_from_json :: "json \<Rightarrow> AiSummaryProvenance option" where
  "summary_provenance_from_json = from_obj (\<lambda>obj. do {
     _ \<leftarrow> known_fields [lit ''provider'', lit ''model'', lit ''promptVersion'',
       lit ''generatedAt'', lit ''humanReviewed''] obj;
     provider \<leftarrow> req_field (lit ''provider'') from_str obj;
     model \<leftarrow> req_field (lit ''model'') from_str obj;
     prompt \<leftarrow> req_field (lit ''promptVersion'') from_str obj;
     generated_at \<leftarrow> req_field (lit ''generatedAt'') from_time obj;
     reviewed \<leftarrow> req_field (lit ''humanReviewed'') from_bool obj;
     Some \<lparr>sp_provider = provider, sp_model = model, sp_prompt_version = prompt,
           sp_generated_at = generated_at, sp_human_reviewed = reviewed\<rparr> })"

definition summary_to_json :: "AiSummary \<Rightarrow> json" where
  "summary_to_json s = JObj
     [(lit ''text'', JStr (summary_text s)), (lit ''sourceHash'', JStr (summary_source_hash s)),
      (lit ''provenance'', summary_provenance_to_json (summary_provenance s))]"

definition summary_from_json :: "json \<Rightarrow> AiSummary option" where
  "summary_from_json = from_obj (\<lambda>obj. do {
     _ \<leftarrow> known_fields [lit ''text'', lit ''sourceHash'', lit ''provenance''] obj;
     text \<leftarrow> req_field (lit ''text'') from_str obj;
     hash \<leftarrow> req_field (lit ''sourceHash'') from_str obj;
     prov \<leftarrow> req_field (lit ''provenance'') summary_provenance_from_json obj;
     Some \<lparr>summary_text = text, summary_source_hash = hash, summary_provenance = prov\<rparr> })"

definition embeds_to_json :: "EmbedReference list \<Rightarrow> json" where
  "embeds_to_json es = JArr (map embed_to_json es)"

definition revision_to_json :: "RevisionSnapshot \<Rightarrow> json" where
  "revision_to_json r = JObj
     ([(lit ''schemaVersion'', JStr (rev_schema_version r)), (lit ''id'', JUuid (rev_id r)),
       (lit ''documentId'', JUuid (rev_document_id r)),
       (lit ''revisionNumber'', JNum (int (rev_revision_number r)))]
      @ skip_none (lit ''parentRevisionId'') JUuid (rev_parent_revision_id r)
      @ [(lit ''title'', JStr (rev_title r)), (lit ''slug'', JStr (rev_slug r)),
         (lit ''sourceMarkdown'', JStr (rev_source_markdown r)),
         (lit ''embeds'', embeds_to_json (rev_embeds r))]
      @ skip_none (lit ''intent'') intent_to_json (rev_intent r)
      @ skip_none (lit ''ontology'') ontology_to_json (rev_ontology r)
      @ skip_none (lit ''aiSummary'') summary_to_json (rev_ai_summary r)
      @ [(lit ''authorship'', authorship_to_json (rev_authorship r)),
         (lit ''actor'', actor_to_json (rev_actor r)),
         (lit ''contentHash'', JStr (rev_content_hash r)),
         (lit ''createdAt'', JTime (rev_created_at r))])"

definition revision_from_json :: "json \<Rightarrow> RevisionSnapshot option" where
  "revision_from_json = from_obj (\<lambda>obj. do {
     schema \<leftarrow> req_field (lit ''schemaVersion'') from_str obj;
     ident \<leftarrow> req_field (lit ''id'') from_uuid obj;
     document \<leftarrow> req_field (lit ''documentId'') from_uuid obj;
     number \<leftarrow> req_field (lit ''revisionNumber'') from_u64 obj;
     parent \<leftarrow> opt_field (lit ''parentRevisionId'') from_uuid obj;
     title \<leftarrow> req_field (lit ''title'') from_str obj;
     slug \<leftarrow> req_field (lit ''slug'') from_str obj;
     markdown \<leftarrow> req_field (lit ''sourceMarkdown'') from_str obj;
     embeds \<leftarrow> default_field (lit ''embeds'') [] (from_arr embed_from_json) obj;
     intent \<leftarrow> opt_field (lit ''intent'') intent_from_json obj;
     ontology \<leftarrow> opt_field (lit ''ontology'') ontology_from_json obj;
     summary \<leftarrow> opt_field (lit ''aiSummary'') summary_from_json obj;
     authorship \<leftarrow> default_field (lit ''authorship'') default_authorship authorship_from_json obj;
     actor \<leftarrow> req_field (lit ''actor'') actor_from_json obj;
     hash \<leftarrow> req_field (lit ''contentHash'') from_str obj;
     created \<leftarrow> req_field (lit ''createdAt'') from_time obj;
     Some \<lparr>rev_schema_version = schema, rev_id = ident, rev_document_id = document,
           rev_revision_number = number, rev_parent_revision_id = parent, rev_title = title,
           rev_slug = slug, rev_source_markdown = markdown, rev_embeds = embeds,
           rev_intent = intent, rev_ontology = ontology, rev_ai_summary = summary,
           rev_authorship = authorship, rev_actor = actor, rev_content_hash = hash,
           rev_created_at = created\<rparr> })"

section \<open>Round trips\<close>

lemma to_json_not_null [simp]:
  "authorship_to_json a \<noteq> JNull" "actor_to_json b \<noteq> JNull" "provenance_to_json p \<noteq> JNull"
  "intent_to_json i \<noteq> JNull" "statement_to_json s \<noteq> JNull" "ontology_to_json w \<noteq> JNull"
  "embed_to_json e \<noteq> JNull" "summary_provenance_to_json q \<noteq> JNull" "summary_to_json m \<noteq> JNull"
  by (simp_all add: authorship_to_json_def actor_to_json_def provenance_to_json_def
      intent_to_json_def statement_to_json_def ontology_to_json_def embed_to_json_def
      summary_provenance_to_json_def summary_to_json_def)

lemma authorship_codec [simp]: "authorship_from_json (authorship_to_json a) = Some a"
  by (simp add: authorship_from_json_def authorship_to_json_def field_defs default_field_option)

lemma actor_codec [simp]: "actor_from_json (actor_to_json a) = Some a"
  by (simp add: actor_from_json_def actor_to_json_def field_defs default_field_option)

lemma provenance_codec [simp]: "provenance_from_json (provenance_to_json p) = Some p"
  by (simp add: provenance_from_json_def provenance_to_json_def field_defs default_field_option)

lemma intent_codec [simp]: "intent_from_json (intent_to_json i) = Some i"
  by (simp add: intent_from_json_def intent_to_json_def field_defs default_field_option)

lemma statement_codec [simp]: "statement_from_json (statement_to_json s) = Some s"
  by (simp add: statement_from_json_def statement_to_json_def field_defs default_field_option)

lemma ontology_codec [simp]: "ontology_from_json (ontology_to_json w) = Some w"
  by (simp add: ontology_from_json_def ontology_to_json_def field_defs traverse_map_codec)

lemma embed_codec [simp]: "embed_from_json (embed_to_json e) = Some e"
  by (simp add: embed_from_json_def embed_to_json_def field_defs traverse_map_codec)

lemma summary_provenance_codec [simp]:
  "summary_provenance_from_json (summary_provenance_to_json p) = Some p"
  by (simp add: summary_provenance_from_json_def summary_provenance_to_json_def field_defs
      known_fields_def)

lemma summary_codec [simp]: "summary_from_json (summary_to_json s) = Some s"
  by (simp add: summary_from_json_def summary_to_json_def field_defs known_fields_def)

lemma revision_codec [simp]: "revision_from_json (revision_to_json r) = Some r"
  by (simp add: revision_from_json_def revision_to_json_def embeds_to_json_def field_defs
      default_field_option traverse_map_codec)

lemma revision_to_json_inject [simp]: "revision_to_json r = revision_to_json r' \<longleftrightarrow> r = r'"
  by (metis option.inject revision_codec)

end
