(* ===== verification/Content.thy ===== *)
theory Content
  imports Wire
begin

text \<open>
  Validation and hashing of \<open>crates/kernel/src/content.rs\<close>: what a new document or a proposed
  revision must satisfy before it reaches storage, the content hash and the source hash of an
  AI summary, and the boundary that decides whether a stored summary may be published.
\<close>

section \<open>Hashes\<close>

text \<open>
  The bytes fed to the hasher, field by field with NUL delimiters; the optional summary adds a
  tagged tail, so that content without a summary keeps its earlier hash.
\<close>

definition optional_bytes :: "extern \<Rightarrow> ('a \<Rightarrow> json) \<Rightarrow> 'a option \<Rightarrow> byte list" where
  "optional_bytes E enc v = (case v of None \<Rightarrow> [] | Some x \<Rightarrow> json_text E (enc x))"

definition summary_tail :: "extern \<Rightarrow> AiSummary option \<Rightarrow> byte list" where
  "summary_tail E v =
     (case v of None \<Rightarrow> []
      | Some s \<Rightarrow> [0] @ as_bytes (lit ''ai-summary-v1'') @ [0] @ json_text E (summary_to_json s))"

definition content_preimage ::
  "extern \<Rightarrow> rstr \<Rightarrow> rstr \<Rightarrow> rstr \<Rightarrow> EmbedReference list \<Rightarrow> IntentLayer option \<Rightarrow>
   OntologySidecar option \<Rightarrow> AiSummary option \<Rightarrow> byte list" where
  "content_preimage E title slug markdown embeds intent ontology ai_summary =
     as_bytes CONTENT_SCHEMA_VERSION @ [0] @ as_bytes title @ [0] @ as_bytes slug @ [0]
     @ as_bytes markdown @ [0] @ json_text E (embeds_to_json embeds) @ [0]
     @ optional_bytes E intent_to_json intent @ [0]
     @ optional_bytes E ontology_to_json ontology
     @ summary_tail E ai_summary"

definition content_hash_with_ai_summary ::
  "extern \<Rightarrow> rstr \<Rightarrow> rstr \<Rightarrow> rstr \<Rightarrow> EmbedReference list \<Rightarrow> IntentLayer option \<Rightarrow>
   OntologySidecar option \<Rightarrow> AiSummary option \<Rightarrow> rstr" where
  "content_hash_with_ai_summary E title slug markdown embeds intent ontology ai_summary =
     lit ''sha256:''
     @ sha256_hex E (content_preimage E title slug markdown embeds intent ontology ai_summary)"

definition content_hash ::
  "extern \<Rightarrow> rstr \<Rightarrow> rstr \<Rightarrow> rstr \<Rightarrow> EmbedReference list \<Rightarrow> IntentLayer option \<Rightarrow>
   OntologySidecar option \<Rightarrow> rstr" where
  "content_hash E title slug markdown embeds intent ontology =
     content_hash_with_ai_summary E title slug markdown embeds intent ontology None"

definition ai_summary_preimage :: "rstr \<Rightarrow> rstr \<Rightarrow> byte list" where
  "ai_summary_preimage title markdown =
     as_bytes AI_SUMMARY_SOURCE_HASH_VERSION @ [0] @ as_bytes title @ [0] @ as_bytes markdown"

definition ai_summary_source_hash :: "extern \<Rightarrow> rstr \<Rightarrow> rstr \<Rightarrow> rstr" where
  "ai_summary_source_hash E title markdown =
     lit ''sha256:'' @ sha256_hex E (ai_summary_preimage title markdown)"

section \<open>Field validators\<close>

definition valid_summary_label :: "rstr \<Rightarrow> nat \<Rightarrow> bool" where
  "valid_summary_label value max_length \<longleftrightarrow>
     (let n = length (trim value) in 1 \<le> n \<and> n \<le> max_length) \<and> \<not> list_ex is_control value"

definition contains_disallowed_control :: "rstr \<Rightarrow> bool" where
  "contains_disallowed_control value =
     list_ex (\<lambda>c. is_control c \<and> \<not> (c = 10 \<or> c = 13 \<or> c = 9)) value"

definition validate_ready_ai_summary ::
  "extern \<Rightarrow> rstr \<Rightarrow> rstr \<Rightarrow> AiSummary \<Rightarrow> ContentValidationError + unit" where
  "validate_ready_ai_summary E title markdown summary =
     (let text_length = length (trim (summary_text summary)); provenance = summary_provenance summary in
      if \<not> (1 \<le> text_length \<and> text_length \<le> AI_SUMMARY_MAX_CHARACTERS)
         \<or> contains_disallowed_control (summary_text summary)
      then Inl InvalidAiSummaryText
      else if \<not> valid_summary_label (sp_provider provenance) 100
         \<or> \<not> valid_summary_label (sp_model provenance) 300
         \<or> \<not> valid_summary_label (sp_prompt_version provenance) 100
      then Inl InvalidAiSummaryProvenance
      else if \<not> sp_human_reviewed provenance then Inl AiSummaryRequiresHumanReview
      else if summary_source_hash summary \<noteq> ai_summary_source_hash E title markdown
      then Inl AiSummarySourceMismatch
      else Inr ())"

definition validate_for_source ::
  "extern \<Rightarrow> AiSummary \<Rightarrow> rstr \<Rightarrow> rstr \<Rightarrow> ContentValidationError + unit" where
  "validate_for_source E s title markdown = validate_ready_ai_summary E title markdown s"

definition publishable_ai_summary :: "extern \<Rightarrow> RevisionSnapshot \<Rightarrow> AiSummary option" where
  "publishable_ai_summary E r =
     (case rev_ai_summary r of None \<Rightarrow> None
      | Some s \<Rightarrow>
          if is_ok (validate_for_source E s (rev_title r) (rev_source_markdown r))
          then Some s else None)"

definition validate_title :: "rstr \<Rightarrow> ContentValidationError + unit" where
  "validate_title value =
     (let n = length (trim value) in
      reject_if (\<not> (1 \<le> n \<and> n \<le> 300) \<or> contains_nul value) InvalidTitle)"

definition validate_slug :: "rstr \<Rightarrow> ContentValidationError + unit" where
  "validate_slug value =
     (let slug = trim value in
      reject_if
        (slug = [] \<or> byte_len slug > 240 \<or> starts_with slug (lit ''.'') \<or> ends_with slug (lit ''.'')
         \<or> 47 \<in> set slug \<or> 92 \<in> set slug \<or> contains_nul slug \<or> list_ex is_control slug)
        InvalidSlug)"

definition validate_markdown :: "rstr \<Rightarrow> ContentValidationError + unit" where
  "validate_markdown value =
     reject_if (byte_len value > 10 * 1024 * 1024 \<or> contains_nul value) InvalidMarkdown"

definition opt_any :: "('a \<Rightarrow> bool) \<Rightarrow> 'a option \<Rightarrow> bool" where
  "opt_any p v = (case v of None \<Rightarrow> False | Some x \<Rightarrow> p x)"

definition invalid_hint :: "rstr \<times> rstr \<Rightarrow> bool" where
  "invalid_hint kv = (case kv of (key, value) \<Rightarrow>
     blank key \<or> byte_len key > 100 \<or> byte_len value > 1000 \<or> contains_nul key \<or> contains_nul value)"

definition invalid_provenance :: "extern \<Rightarrow> Provenance \<Rightarrow> bool" where
  "invalid_provenance E p \<longleftrightarrow>
     blank (prov_origin p) \<or> byte_len (prov_origin p) > 100
     \<or> opt_any (\<lambda>v. byte_len v > 2048 \<or> url_parse E v = None) (prov_source_uri p)
     \<or> opt_any (\<lambda>v. byte_len v > 200 \<or> contains_nul v) (prov_actor_id p)
     \<or> opt_any (\<lambda>v. byte_len v > 500 \<or> contains_nul v) (prov_generated_by p)"

definition invalid_intent :: "extern \<Rightarrow> IntentLayer \<Rightarrow> bool" where
  "invalid_intent E i \<longleftrightarrow>
     blank (intent_format i) \<or> byte_len (intent_format i) > 100
     \<or> byte_len (intent_source_html i) > 10 * 1024 * 1024 \<or> contains_nul (intent_source_html i)
     \<or> length (entries (intent_renderer_hints i)) > 64
     \<or> list_ex invalid_hint (entries (intent_renderer_hints i))
     \<or> opt_any (invalid_provenance E) (intent_provenance i)"

definition invalid_statement :: "OntologyStatement \<Rightarrow> bool" where
  "invalid_statement s \<longleftrightarrow>
     blank (stmt_subject s) \<or> byte_len (stmt_subject s) > 2048 \<or> contains_nul (stmt_subject s)
     \<or> blank (stmt_predicate s) \<or> byte_len (stmt_predicate s) > 2048 \<or> contains_nul (stmt_predicate s)
     \<or> opt_any (\<lambda>v. byte_len v > 4096 \<or> contains_nul v) (stmt_evidence s)"

definition invalid_ontology :: "extern \<Rightarrow> OntologySidecar \<Rightarrow> bool" where
  "invalid_ontology E w \<longleftrightarrow>
     blank (onto_schema w) \<or> byte_len (onto_schema w) > 2048 \<or> url_parse E (onto_schema w) = None
     \<or> length (onto_statements w) > 100000 \<or> list_ex invalid_statement (onto_statements w)
     \<or> length (json_text E (ontology_to_json w)) > 10 * 1024 * 1024"

definition validate_optional_layers ::
  "extern \<Rightarrow> IntentLayer option \<Rightarrow> OntologySidecar option \<Rightarrow> ContentValidationError + unit" where
  "validate_optional_layers E intent ontology =
     and_then (reject_if (opt_any (invalid_intent E) intent) InvalidIntentLayer)
       (\<lambda>_. reject_if (opt_any (invalid_ontology E) ontology) InvalidOntologyLayer)"

definition validate_authorship :: "PublicAuthorship \<Rightarrow> ContentValidationError + unit" where
  "validate_authorship v =
     (if opt_any (\<lambda>g. blank g \<or> byte_len g > 300 \<or> list_ex is_control g) (authorship_generator v)
      then Inl InvalidAuthorship
      else if authorship_kind v = AuthorHuman \<and> authorship_generator v \<noteq> None
      then Inl InvalidAuthorship
      else if authorship_kind v \<noteq> AuthorHuman \<and> authorship_generator v = None
      then Inl InvalidAuthorship
      else Inr ())"

definition safe_identifier :: "rstr \<Rightarrow> bool" where
  "safe_identifier s \<longleftrightarrow> s \<noteq> [] \<and> byte_len s \<le> 200
     \<and> list_all (\<lambda>c. is_ascii_alphanumeric c \<or> c = 45 \<or> c = 95 \<or> c = 46) s"

definition valid_embed :: "EmbedReference \<Rightarrow> bool" where
  "valid_embed v \<longleftrightarrow>
     safe_identifier (embed_id v) \<and> safe_identifier (embed_provider v)
     \<and> \<not> blank (embed_resource_id v) \<and> byte_len (embed_resource_id v) \<le> 2000
     \<and> \<not> blank (embed_title v) \<and> byte_len (embed_title v) \<le> 500
     \<and> (url_scheme (embed_canonical_url v) = lit ''http''
        \<or> url_scheme (embed_canonical_url v) = lit ''https'')
     \<and> url_host_str (embed_canonical_url v) \<noteq> None
     \<and> url_username (embed_canonical_url v) = []
     \<and> url_password (embed_canonical_url v) = None
     \<and> length (embed_consent_purpose_ids v) \<le> 128
     \<and> list_all safe_identifier (embed_consent_purpose_ids v)
     \<and> length (remdups (embed_consent_purpose_ids v)) = length (embed_consent_purpose_ids v)"

definition validate_embeds :: "EmbedReference list \<Rightarrow> ContentValidationError + unit" where
  "validate_embeds values =
     (if length values > 10000 then Inl InvalidEmbed
      else if all_fresh valid_embed embed_id [] values then Inr () else Inl InvalidEmbed)"

section \<open>Whole inputs\<close>

definition validate_summary_field ::
  "extern \<Rightarrow> rstr \<Rightarrow> rstr \<Rightarrow> AiSummary option \<Rightarrow> ContentValidationError + unit" where
  "validate_summary_field E title markdown v =
     (case v of None \<Rightarrow> Inr () | Some s \<Rightarrow> validate_ready_ai_summary E title markdown s)"

definition validate_new_document :: "extern \<Rightarrow> NewDocument \<Rightarrow> ContentValidationError + unit" where
  "validate_new_document E d =
     and_then (validate_title (new_title d)) (\<lambda>_.
     and_then (validate_slug (new_slug d)) (\<lambda>_.
     and_then (validate_markdown (new_source_markdown d)) (\<lambda>_.
     and_then (validate_embeds (new_embeds d)) (\<lambda>_.
     and_then (validate_authorship (new_authorship d)) (\<lambda>_.
     and_then (validate_optional_layers E (new_intent d) (new_ontology d)) (\<lambda>_.
       validate_summary_field E (new_title d) (new_source_markdown d) (new_ai_summary d)))))))"

definition validate_proposed_revision ::
  "extern \<Rightarrow> ProposedRevision \<Rightarrow> ContentValidationError + unit" where
  "validate_proposed_revision E p =
     and_then (validate_title (prop_title p)) (\<lambda>_.
     and_then (validate_slug (prop_slug p)) (\<lambda>_.
     and_then (validate_markdown (prop_source_markdown p)) (\<lambda>_.
     and_then (validate_embeds (prop_embeds p)) (\<lambda>_.
     and_then (validate_authorship (prop_authorship p)) (\<lambda>_.
     and_then (validate_optional_layers E (prop_intent p) (prop_ontology p)) (\<lambda>_.
     and_then (validate_summary_field E (prop_title p) (prop_source_markdown p) (prop_ai_summary p)) (\<lambda>_.
       reject_if (opt_any (\<lambda>k. blank k \<or> byte_len k > 200) (prop_idempotency_key p))
         InvalidIdempotencyKey)))))))"

section \<open>What an accepted input satisfies\<close>

lemmas opt_any_simps [simp] = opt_any_def [where v = None, simplified]
  opt_any_def [where v = "Some x" for x, simplified]

lemma validate_title_ok [result_simps]:
  "validate_title v = Inr u \<longleftrightarrow> 1 \<le> length (trim v) \<and> length (trim v) \<le> 300 \<and> 0 \<notin> set v"
  by (auto simp: validate_title_def Let_def result_simps contains_nul_def)

lemma validate_slug_ok [result_simps]:
  "validate_slug v = Inr u \<longleftrightarrow>
     trim v \<noteq> [] \<and> byte_len (trim v) \<le> 240
     \<and> \<not> starts_with (trim v) (lit ''.'') \<and> \<not> ends_with (trim v) (lit ''.'')
     \<and> 47 \<notin> set (trim v) \<and> 92 \<notin> set (trim v) \<and> 0 \<notin> set (trim v) \<and> (\<forall>c \<in> set (trim v). \<not> is_control c)"
  by (auto simp: validate_slug_def Let_def result_simps contains_nul_def list_ex_iff is_control_def)

lemma validate_markdown_ok [result_simps]:
  "validate_markdown v = Inr u \<longleftrightarrow> byte_len v \<le> 10485760 \<and> 0 \<notin> set v"
  by (auto simp: validate_markdown_def result_simps contains_nul_def)

lemma validate_embeds_ok [result_simps]:
  "validate_embeds es = Inr u \<longleftrightarrow>
     length es \<le> 10000 \<and> (\<forall>e \<in> set es. valid_embed e) \<and> distinct (map embed_id es)"
  by (auto simp: validate_embeds_def all_fresh_iff)

lemma validate_authorship_ok [result_simps]:
  "validate_authorship a = Inr u \<longleftrightarrow>
     (case authorship_generator a of
        None \<Rightarrow> authorship_kind a = AuthorHuman
      | Some g \<Rightarrow> authorship_kind a \<noteq> AuthorHuman \<and> trim g \<noteq> [] \<and> byte_len g \<le> 300
          \<and> (\<forall>c \<in> set g. \<not> is_control c))"
  by (cases "authorship_generator a")
    (auto simp: validate_authorship_def blank_def list_ex_iff)

lemma validate_optional_layers_ok [result_simps]:
  "validate_optional_layers E i w = Inr u \<longleftrightarrow>
     \<not> opt_any (invalid_intent E) i \<and> \<not> opt_any (invalid_ontology E) w"
  by (auto simp: validate_optional_layers_def result_simps)

lemma validate_ready_ai_summary_ok [result_simps]:
  "validate_ready_ai_summary E title markdown s = Inr u \<longleftrightarrow>
     1 \<le> length (trim (summary_text s)) \<and> length (trim (summary_text s)) \<le> 2000
     \<and> \<not> contains_disallowed_control (summary_text s)
     \<and> valid_summary_label (sp_provider (summary_provenance s)) 100
     \<and> valid_summary_label (sp_model (summary_provenance s)) 300
     \<and> valid_summary_label (sp_prompt_version (summary_provenance s)) 100
     \<and> sp_human_reviewed (summary_provenance s)
     \<and> summary_source_hash s = ai_summary_source_hash E title markdown"
  by (auto simp: validate_ready_ai_summary_def Let_def AI_SUMMARY_MAX_CHARACTERS_def)

lemma validate_summary_field_ok [result_simps]:
  "validate_summary_field E title markdown v = Inr u \<longleftrightarrow>
     (case v of None \<Rightarrow> True | Some s \<Rightarrow> validate_ready_ai_summary E title markdown s = Inr ())"
  by (cases v) (auto simp: validate_summary_field_def)

text \<open>
  A validated new document and a validated proposal satisfy the same content conditions; the
  proposal adds the bound on its idempotency key.
\<close>

definition content_ok ::
  "extern \<Rightarrow> rstr \<Rightarrow> rstr \<Rightarrow> rstr \<Rightarrow> EmbedReference list \<Rightarrow> IntentLayer option \<Rightarrow>
   OntologySidecar option \<Rightarrow> AiSummary option \<Rightarrow> PublicAuthorship \<Rightarrow> bool" where
  "content_ok E title slug markdown embeds intent ontology summary authorship \<longleftrightarrow>
     is_ok (validate_title title) \<and> is_ok (validate_slug slug) \<and> is_ok (validate_markdown markdown)
     \<and> is_ok (validate_embeds embeds) \<and> is_ok (validate_authorship authorship)
     \<and> is_ok (validate_optional_layers E intent ontology)
     \<and> is_ok (validate_summary_field E title markdown summary)"

lemma validate_new_document_ok:
  "is_ok (validate_new_document E d) \<longleftrightarrow>
     content_ok E (new_title d) (new_slug d) (new_source_markdown d) (new_embeds d)
       (new_intent d) (new_ontology d) (new_ai_summary d) (new_authorship d)"
  by (auto simp: validate_new_document_def content_ok_def is_ok_iff and_then_eq_Inr)

lemma validate_proposed_revision_ok:
  "is_ok (validate_proposed_revision E p) \<longleftrightarrow>
     content_ok E (prop_title p) (prop_slug p) (prop_source_markdown p) (prop_embeds p)
       (prop_intent p) (prop_ontology p) (prop_ai_summary p) (prop_authorship p)
     \<and> \<not> opt_any (\<lambda>k. blank k \<or> byte_len k > 200) (prop_idempotency_key p)"
  by (auto simp: validate_proposed_revision_def content_ok_def is_ok_iff and_then_eq_Inr
      reject_if_eq_Inr)

section \<open>Unambiguous pre-images\<close>

text \<open>
  What the hash construction relies on in \<open>serde_json\<close>: a printed text is never empty and
  holds no zero byte (control characters are escaped).
\<close>

definition json_printer :: "(json \<Rightarrow> byte list) \<Rightarrow> bool" where
  "json_printer f \<longleftrightarrow> (\<forall>v. f v \<noteq> [] \<and> 0 \<notin> set (f v))"

lemma json_printer_simps [simp]:
  "json_printer (json_text E) \<Longrightarrow> 0 \<notin> set (json_text E v)"
  "json_printer (json_text E) \<Longrightarrow> json_text E v \<noteq> []"
  "json_printer (json_text E) \<Longrightarrow> [] \<noteq> json_text E v"
  by (metis json_printer_def)+

lemma optional_bytes_no_nul [simp]:
  "json_printer (json_text E) \<Longrightarrow> 0 \<notin> set (optional_bytes E enc v)"
  by (simp add: optional_bytes_def split: option.splits)

lemma optional_bytes_eq:
  "json_printer (json_text E) \<Longrightarrow> optional_bytes E enc v = optional_bytes E enc w \<Longrightarrow>
   map_option (\<lambda>x. json_text E (enc x)) v = map_option (\<lambda>x. json_text E (enc x)) w"
  by (cases v; cases w) (auto simp: optional_bytes_def)

lemma summary_tag_no_nul [simp]: "0 \<notin> set (as_bytes (lit ''ai-summary-v1''))"
  by (rule as_bytes_no_nul) (simp_all add: lit_def scalar_values_def)

lemma summary_tail_cases:
  "summary_tail E s = [] \<and> s = None
   \<or> (\<exists>x. s = Some x \<and> summary_tail E s
        = 0 # as_bytes (lit ''ai-summary-v1'') @ 0 # json_text E (summary_to_json x))"
  by (cases s) (simp_all add: summary_tail_def)

lemma tagged_tail_eq:
  assumes "0 \<notin> set a" "0 \<notin> set b" and "a @ summary_tail E s = b @ summary_tail E s'"
  shows "a = b \<and> map_option (\<lambda>x. json_text E (summary_to_json x)) s
           = map_option (\<lambda>x. json_text E (summary_to_json x)) s'"
  using summary_tail_cases [of E s] summary_tail_cases [of E s'] assms
  by (auto simp: split_at_nul)

lemma nul_in_trim: "0 \<in> set (trim s) \<longleftrightarrow> 0 \<in> set s"
  using set_trim_subset [of s] in_trim [of 0 s] by (auto simp: is_whitespace_def)

lemma content_ok_no_nul:
  "content_ok E t s m e i w y a \<Longrightarrow> 0 \<notin> set t \<and> 0 \<notin> set s \<and> 0 \<notin> set m"
  by (auto simp: content_ok_def is_ok_iff result_simps nul_in_trim)

lemma text_field_inject:
  assumes "scalar_values a" "scalar_values b" "0 \<notin> set a" "0 \<notin> set b"
    and "as_bytes a @ 0 # r = as_bytes b @ 0 # r'"
  shows "a = b" and "r = r'"
  using assms by (metis as_bytes_inject as_bytes_no_nul split_at_nul)+


text \<open>A concrete instance of the third-party functions, for evaluating the model.\<close>

definition example_extern :: extern where
  "example_extern =
     \<lparr>sha256_hex = (\<lambda>bytes. replicate 64 (48 + length bytes mod 10)), json_text = (\<lambda>v. [91, 93]),
      url_parse = (\<lambda>s. Some \<lparr>url_text = s, url_scheme = lit ''https'', url_host_str = Some s,
        url_username = [], url_password = None, url_path = [], url_query = None,
        url_fragment = None\<rparr>)\<rparr>"

lemma json_printer_example [simp]: "json_printer (json_text example_extern)"
  by (simp add: json_printer_def example_extern_def)

lemma content_ok_example [simp]:
  "content_ok example_extern (lit ''T'') (lit ''t'') (lit ''text'') [] None None None default_authorship"
  by code_simp

lemma scalar_values_lit [simp]: "scalar_values (lit s)"
proof -
  have "(of_char c :: nat) < 1114112" for c
  proof -
    have "(of_char c :: nat) mod 256 < 256" by (rule mod_less_divisor) simp
    then have "(of_char c :: nat) < 256" by (simp only: of_char_mod_256)
    then show ?thesis by (rule less_trans) simp
  qed
  then show ?thesis by (simp add: lit_def scalar_values_def)
qed


text \<open>
  The source hash of an AI summary covers exactly the title and the Markdown: titles
  without a NUL character and Markdown texts are recovered from the hashed bytes, whatever
  the Markdown contains.
\<close>

theorem ai_summary_preimage_unambiguous:
  assumes "scalar_values t" "scalar_values t'" "scalar_values m" "scalar_values m'"
    and "validate_title t = Inr ()" "validate_title t' = Inr ()"
    and "ai_summary_preimage t m = ai_summary_preimage t' m'"
  shows "t = t' \<and> m = m'"
proof -
  from assms(5,6) have nul: "0 \<notin> set t" "0 \<notin> set t'" by (simp_all add: result_simps)
  from assms(7) have eq: "as_bytes t @ 0 # as_bytes m = as_bytes t' @ 0 # as_bytes m'"
    by (simp add: ai_summary_preimage_def)
  then have "t = t'" "as_bytes m = as_bytes m'"
    using text_field_inject [OF assms(1,2) nul] by blast+
  then show ?thesis using assms(3,4) by (simp add: as_bytes_inject)
qed

theorem ai_summary_preimage_unambiguous_witness:
  "validate_title (lit ''Title'') = Inr ()
   \<and> ai_summary_preimage (lit ''Title'') (lit ''Body'') \<noteq> ai_summary_preimage (lit ''Title'') (lit ''Body!'')"
proof -
  have ok: "validate_title (lit ''Title'') = Inr ()" by code_simp
  have "ai_summary_preimage (lit ''Title'') (lit ''Body'') = ai_summary_preimage (lit ''Title'') (lit ''Body!'')
     \<Longrightarrow> lit ''Title'' = lit ''Title'' \<and> lit ''Body'' = lit ''Body!''"
    by (rule ai_summary_preimage_unambiguous) (simp_all only: scalar_values_lit ok)
  with ok show ?thesis by auto
qed

text \<open>
  The publication boundary of AI summaries fails closed: a summary is released exactly
  when the revision stores it, a human has reviewed it, its text and provenance labels are
  within bounds and free of control characters, and its source hash is that of the title and
  Markdown of this very revision.
\<close>

theorem publishable_ai_summary_iff:
  "publishable_ai_summary E r = Some s \<longleftrightarrow>
     rev_ai_summary r = Some s
     \<and> sp_human_reviewed (summary_provenance s)
     \<and> summary_source_hash s = ai_summary_source_hash E (rev_title r) (rev_source_markdown r)
     \<and> 1 \<le> length (trim (summary_text s)) \<and> length (trim (summary_text s)) \<le> 2000
     \<and> (\<forall>c \<in> set (summary_text s). is_control c \<longrightarrow> c = 10 \<or> c = 13 \<or> c = 9)
     \<and> valid_summary_label (sp_provider (summary_provenance s)) 100
     \<and> valid_summary_label (sp_model (summary_provenance s)) 300
     \<and> valid_summary_label (sp_prompt_version (summary_provenance s)) 100"
  by (auto simp: publishable_ai_summary_def validate_for_source_def is_ok_iff result_simps
      contains_disallowed_control_def list_ex_iff split: option.splits)

definition example_summary :: AiSummary where
  "example_summary = \<lparr>summary_text = lit ''Reviewed'',
     summary_source_hash = ai_summary_source_hash example_extern (lit ''Title'') (lit ''Body''),
     summary_provenance = \<lparr>sp_provider = lit ''openai'', sp_model = lit ''m'',
       sp_prompt_version = lit ''v1'', sp_generated_at = 0, sp_human_reviewed = True\<rparr>\<rparr>"

definition example_revision :: RevisionSnapshot where
  "example_revision = \<lparr>rev_schema_version = CONTENT_SCHEMA_VERSION, rev_id = 1, rev_document_id = 2,
     rev_revision_number = 1, rev_parent_revision_id = None, rev_title = lit ''Title'',
     rev_slug = lit ''title'', rev_source_markdown = lit ''Body'', rev_embeds = [],
     rev_intent = None, rev_ontology = None, rev_ai_summary = Some example_summary,
     rev_authorship = default_authorship,
     rev_actor = \<lparr>actor_kind = RevisionHuman, actor_id = lit ''owner'', actor_display_name = None\<rparr>,
     rev_content_hash = [], rev_created_at = 0\<rparr>"

theorem publishable_ai_summary_iff_witness:
  "publishable_ai_summary example_extern example_revision = Some example_summary
   \<and> sp_human_reviewed (summary_provenance example_summary)"
proof -
  have "publishable_ai_summary example_extern example_revision = Some example_summary"
    by code_simp
  then show ?thesis using publishable_ai_summary_iff [of example_extern example_revision example_summary]
    by blast
qed

text \<open>
  An accepted slug is a single safe path segment once the white space around it is
  removed: 1 to 240 bytes, no slash, backslash, NUL or control character inside, not starting
  or ending with a full stop. Trimming is part of the statement: the validator looks at the
  trimmed text only.
\<close>

theorem validate_slug_safe_segment:
  assumes "validate_slug v = Inr ()"
  shows "trim v \<noteq> [] \<and> length (trim v) \<le> 240 \<and> set (trim v) \<inter> {0, 47, 92} = {}
    \<and> hd (trim v) \<noteq> 46 \<and> last (trim v) \<noteq> 46 \<and> (\<forall>c \<in> set (trim v). \<not> is_control c)"
proof -
  from assms have ok: "trim v \<noteq> []" "byte_len (trim v) \<le> 240"
    "\<not> starts_with (trim v) (lit ''.'')" "\<not> ends_with (trim v) (lit ''.'')"
    "47 \<notin> set (trim v)" "92 \<notin> set (trim v)" "0 \<notin> set (trim v)"
    "\<forall>c \<in> set (trim v). \<not> is_control c"
    by (simp_all add: result_simps)
  have "hd (trim v) \<noteq> 46"
    using ok(1,3) by (cases "trim v") (auto simp: lit_def)
  moreover have "last (trim v) \<noteq> 46"
    using ok(1,4) by (cases "trim v" rule: rev_cases) (auto simp: lit_def ends_with_def)
  ultimately show ?thesis
    using ok byte_len_ge_length [of "trim v"] by auto
qed

theorem validate_slug_safe_segment_witness:
  "validate_slug (lit ''my-post'') = Inr () \<and> 47 \<notin> set (trim (lit ''my-post''))"
proof -
  have "validate_slug (lit ''my-post'') = Inr ()" by code_simp
  with validate_slug_safe_segment [OF this] show ?thesis by auto
qed

text \<open>
  The slug kept in a revision is the untrimmed text, so an accepted slug can still begin
  or end with a control character that is also white space: a line feed before a valid
  segment passes the validator, although the error text speaks of a safe single path segment.
\<close>

theorem validate_slug_accepts_edge_control:
  "validate_slug (10 # lit ''post'') = Inr () \<and> is_control (hd (10 # lit ''post''))"
  by code_simp

end
