(* ===== verification/Ai2ai.thy ===== *)
theory Ai2ai
  imports Content
begin

text \<open>
  The AI-to-AI proposal contract of \<open>crates/kernel/src/ai2ai.rs\<close>: the envelope, its policy
  snapshot, context receipts and provenance, the checks an envelope must pass, and its wire
  form, which the storage layer keeps as the audit record.
\<close>

section \<open>Data\<close>

datatype AiActorKind = AiHuman | AiAgent | AiTool | AiService

record AiActor =
  ai_actor_kind :: AiActorKind
  ai_actor_id :: rstr
  ai_actor_provider :: "rstr option"
  ai_actor_model :: "rstr option"

datatype DataBoundary = LocalOnly | ApprovedProviders | RedactBeforeSend | ExternalAllowed

record AiPolicySnapshot =
  pol_data_boundary :: DataBoundary
  pol_allowed_provider_ids :: "rstr list"
  pol_allowed_capabilities :: "rstr list"
  pol_max_cost :: "f64 option"
  pol_max_tokens :: "nat option"

record ContextReceipt =
  rcpt_reference :: rstr
  rcpt_content_hash :: rstr
  rcpt_scope :: rstr
  rcpt_included :: bool
  rcpt_exclusion_reason :: "rstr option"

record AiProvenanceEntry =
  entry_kind :: rstr
  entry_reference :: rstr
  entry_content_hash :: "rstr option"

record Ai2AiEnvelope =
  env_spec_version :: rstr
  env_message_id :: uuid
  env_idempotency_key :: rstr
  env_occurred_at :: instant
  env_actor :: AiActor
  env_intent :: rstr
  env_proposal :: ProposedRevision
  env_policy :: AiPolicySnapshot
  env_context_receipts :: "ContextReceipt list"
  env_provenance :: "AiProvenanceEntry list"

record AiProposalAuditRecord =
  audit_schema_version :: rstr
  audit_document_id :: uuid
  audit_accepted_revision_id :: uuid
  audit_received_at :: instant
  audit_envelope :: Ai2AiEnvelope

datatype Ai2AiValidationError =
    UnsupportedVersion
  | AiInvalidIdempotencyKey
  | MissingIdentityOrIntent
  | InvalidProposal
  | InvalidIdentifier
  | InvalidTimestamp
  | InvalidPolicy
  | InvalidContextReceipt
  | InvalidProvenance

definition AI2AI_SPEC_VERSION :: rstr where
  "AI2AI_SPEC_VERSION = lit ''1.0''"

definition AI_PROPOSAL_AUDIT_SCHEMA_VERSION :: rstr where
  "AI_PROPOSAL_AUDIT_SCHEMA_VERSION = lit ''1.0''"

section \<open>Validation\<close>

definition valid_content_hash :: "rstr \<Rightarrow> bool" where
  "valid_content_hash value \<longleftrightarrow>
     byte_len value = 71 \<and> starts_with value (lit ''sha256:'')
     \<and> list_all (\<lambda>c. is_ascii_digit c \<or> (97 \<le> c \<and> c \<le> 102)) (drop 7 value)"

definition unique_bounded_values :: "rstr list \<Rightarrow> nat \<Rightarrow> bool" where
  "unique_bounded_values values maximum =
     all_fresh (\<lambda>v. \<not> blank v \<and> byte_len v \<le> maximum \<and> \<not> contains_nul v) id [] values"

definition validate_policy :: "AiPolicySnapshot \<Rightarrow> rstr option \<Rightarrow> Ai2AiValidationError + unit" where
  "validate_policy policy actor_provider =
     (if length (pol_allowed_provider_ids policy) > 128
         \<or> length (pol_allowed_capabilities policy) > 128
         \<or> \<not> unique_bounded_values (pol_allowed_provider_ids policy) 300
         \<or> \<not> unique_bounded_values (pol_allowed_capabilities policy) 300
         \<or> opt_any (\<lambda>v. \<not> f64_is_finite v \<or> f64_negative v) (pol_max_cost policy)
      then Inl InvalidPolicy
      else case pol_data_boundary policy of
          LocalOnly \<Rightarrow>
            if pol_allowed_provider_ids policy \<noteq> [] then Inl InvalidPolicy else Inr ()
        | ApprovedProviders \<Rightarrow>
            and_then (ok_or InvalidPolicy actor_provider) (\<lambda>provider.
              if provider \<in> set (pol_allowed_provider_ids policy) then Inr () else Inl InvalidPolicy)
        | _ \<Rightarrow> Inr ())"

definition validate_for_provider ::
  "AiPolicySnapshot \<Rightarrow> rstr option \<Rightarrow> Ai2AiValidationError + unit" where
  "validate_for_provider p actor_provider = validate_policy p actor_provider"

definition valid_receipt :: "ContextReceipt \<Rightarrow> bool" where
  "valid_receipt v \<longleftrightarrow>
     \<not> blank (rcpt_reference v) \<and> byte_len (rcpt_reference v) \<le> 2048
     \<and> \<not> blank (rcpt_scope v) \<and> byte_len (rcpt_scope v) \<le> 100
     \<and> valid_content_hash (rcpt_content_hash v)
     \<and> \<not> opt_any (\<lambda>reason. blank reason \<or> byte_len reason > 1000 \<or> contains_nul reason)
          (rcpt_exclusion_reason v)
     \<and> \<not> (\<not> rcpt_included v \<and> rcpt_exclusion_reason v = None)
     \<and> \<not> (rcpt_included v \<and> rcpt_exclusion_reason v \<noteq> None)"

definition validate_context_receipts :: "ContextReceipt list \<Rightarrow> Ai2AiValidationError + unit" where
  "validate_context_receipts values =
     (if length values > 10000 then Inl InvalidContextReceipt
      else if all_fresh valid_receipt (\<lambda>v. (rcpt_reference v, rcpt_scope v)) [] values
      then Inr () else Inl InvalidContextReceipt)"

definition valid_provenance_entry :: "AiProvenanceEntry \<Rightarrow> bool" where
  "valid_provenance_entry v \<longleftrightarrow>
     \<not> blank (entry_kind v) \<and> byte_len (entry_kind v) \<le> 100
     \<and> \<not> blank (entry_reference v) \<and> byte_len (entry_reference v) \<le> 2048
     \<and> \<not> opt_any (\<lambda>digest. \<not> valid_content_hash digest) (entry_content_hash v)"

definition validate_provenance :: "AiProvenanceEntry list \<Rightarrow> Ai2AiValidationError + unit" where
  "validate_provenance values =
     (if length values > 10000 then Inl InvalidProvenance
      else if list_all valid_provenance_entry values then Inr () else Inl InvalidProvenance)"

text \<open>\<open>now\<close> is the clock reading the check compares with.\<close>

definition validate_envelope ::
  "extern \<Rightarrow> instant \<Rightarrow> Ai2AiEnvelope \<Rightarrow> Ai2AiValidationError + unit" where
  "validate_envelope E now v =
     (if env_spec_version v \<noteq> AI2AI_SPEC_VERSION then Inl UnsupportedVersion
      else if is_nil (env_message_id v) \<or> is_nil (prop_document_id (env_proposal v))
         \<or> is_nil (prop_base_revision_id (env_proposal v))
      then Inl InvalidIdentifier
      else if blank (env_idempotency_key v) \<or> byte_len (env_idempotency_key v) > 200
         \<or> contains_nul (env_idempotency_key v)
      then Inl AiInvalidIdempotencyKey
      else if blank (ai_actor_id (env_actor v)) \<or> byte_len (ai_actor_id (env_actor v)) > 300
         \<or> contains_nul (ai_actor_id (env_actor v))
         \<or> blank (env_intent v) \<or> byte_len (env_intent v) > 2000 \<or> contains_nul (env_intent v)
         \<or> opt_any (\<lambda>s. byte_len s > 300 \<or> contains_nul s) (ai_actor_provider (env_actor v))
         \<or> opt_any (\<lambda>s. byte_len s > 300 \<or> contains_nul s) (ai_actor_model (env_actor v))
      then Inl MissingIdentityOrIntent
      else if env_occurred_at v > now + minutes 5 then Inl InvalidTimestamp
      else
        and_then (validate_for_provider (env_policy v) (ai_actor_provider (env_actor v))) (\<lambda>_.
        and_then (validate_context_receipts (env_context_receipts v)) (\<lambda>_.
        and_then (validate_provenance (env_provenance v)) (\<lambda>_.
          map_err (\<lambda>_. InvalidProposal) (validate_proposed_revision E (env_proposal v))))))"

section \<open>Wire form\<close>

fun ai_kind_to_json :: "AiActorKind \<Rightarrow> json" where
  "ai_kind_to_json AiHuman = JStr (lit ''human'')"
| "ai_kind_to_json AiAgent = JStr (lit ''agent'')"
| "ai_kind_to_json AiTool = JStr (lit ''tool'')"
| "ai_kind_to_json AiService = JStr (lit ''service'')"

definition ai_kind_from_json :: "json \<Rightarrow> AiActorKind option" where
  "ai_kind_from_json v = do {
     s \<leftarrow> from_str v;
     (if s = lit ''human'' then Some AiHuman
      else if s = lit ''agent'' then Some AiAgent
      else if s = lit ''tool'' then Some AiTool
      else if s = lit ''service'' then Some AiService
      else None) }"

fun boundary_to_json :: "DataBoundary \<Rightarrow> json" where
  "boundary_to_json LocalOnly = JStr (lit ''local_only'')"
| "boundary_to_json ApprovedProviders = JStr (lit ''approved_providers'')"
| "boundary_to_json RedactBeforeSend = JStr (lit ''redact_before_send'')"
| "boundary_to_json ExternalAllowed = JStr (lit ''external_allowed'')"

definition boundary_from_json :: "json \<Rightarrow> DataBoundary option" where
  "boundary_from_json v = do {
     s \<leftarrow> from_str v;
     (if s = lit ''local_only'' then Some LocalOnly
      else if s = lit ''approved_providers'' then Some ApprovedProviders
      else if s = lit ''redact_before_send'' then Some RedactBeforeSend
      else if s = lit ''external_allowed'' then Some ExternalAllowed
      else None) }"

text \<open>\<open>serde_json\<close> prints a non-finite number as \<open>null\<close>.\<close>

definition f64_to_json :: "f64 \<Rightarrow> json" where
  "f64_to_json v = (if f64_is_finite v then JFloat v else JNull)"

fun f64_from_json :: "json \<Rightarrow> f64 option" where
  "f64_from_json (JFloat v) = Some v"
| "f64_from_json (JNum n) = Some (F64_Finite n 0)"
| "f64_from_json _ = None"

definition ai_actor_to_json :: "AiActor \<Rightarrow> json" where
  "ai_actor_to_json a = JObj
     ([(lit ''kind'', ai_kind_to_json (ai_actor_kind a)), (lit ''id'', JStr (ai_actor_id a))]
      @ skip_none (lit ''provider'') JStr (ai_actor_provider a)
      @ skip_none (lit ''model'') JStr (ai_actor_model a))"

definition ai_actor_from_json :: "json \<Rightarrow> AiActor option" where
  "ai_actor_from_json = from_obj (\<lambda>obj. do {
     kind \<leftarrow> req_field (lit ''kind'') ai_kind_from_json obj;
     ident \<leftarrow> req_field (lit ''id'') from_str obj;
     provider \<leftarrow> opt_field (lit ''provider'') from_str obj;
     model \<leftarrow> opt_field (lit ''model'') from_str obj;
     Some \<lparr>ai_actor_kind = kind, ai_actor_id = ident, ai_actor_provider = provider,
           ai_actor_model = model\<rparr> })"

definition policy_to_json :: "AiPolicySnapshot \<Rightarrow> json" where
  "policy_to_json p = JObj
     ([(lit ''dataBoundary'', boundary_to_json (pol_data_boundary p)),
       (lit ''allowedProviderIds'', JArr (map JStr (pol_allowed_provider_ids p))),
       (lit ''allowedCapabilities'', JArr (map JStr (pol_allowed_capabilities p)))]
      @ skip_none (lit ''maxCost'') f64_to_json (pol_max_cost p)
      @ skip_none (lit ''maxTokens'') (\<lambda>n. JNum (int n)) (pol_max_tokens p))"

definition policy_from_json :: "json \<Rightarrow> AiPolicySnapshot option" where
  "policy_from_json = from_obj (\<lambda>obj. do {
     boundary \<leftarrow> req_field (lit ''dataBoundary'') boundary_from_json obj;
     providers \<leftarrow> default_field (lit ''allowedProviderIds'') [] (from_arr from_str) obj;
     capabilities \<leftarrow> default_field (lit ''allowedCapabilities'') [] (from_arr from_str) obj;
     cost \<leftarrow> opt_field (lit ''maxCost'') f64_from_json obj;
     tokens \<leftarrow> opt_field (lit ''maxTokens'') from_u64 obj;
     Some \<lparr>pol_data_boundary = boundary, pol_allowed_provider_ids = providers,
           pol_allowed_capabilities = capabilities, pol_max_cost = cost, pol_max_tokens = tokens\<rparr> })"

definition receipt_to_json :: "ContextReceipt \<Rightarrow> json" where
  "receipt_to_json r = JObj
     ([(lit ''reference'', JStr (rcpt_reference r)), (lit ''contentHash'', JStr (rcpt_content_hash r)),
       (lit ''scope'', JStr (rcpt_scope r)), (lit ''included'', JBool (rcpt_included r))]
      @ skip_none (lit ''exclusionReason'') JStr (rcpt_exclusion_reason r))"

definition receipt_from_json :: "json \<Rightarrow> ContextReceipt option" where
  "receipt_from_json = from_obj (\<lambda>obj. do {
     ref \<leftarrow> req_field (lit ''reference'') from_str obj;
     hash \<leftarrow> req_field (lit ''contentHash'') from_str obj;
     scope \<leftarrow> req_field (lit ''scope'') from_str obj;
     included \<leftarrow> req_field (lit ''included'') from_bool obj;
     reason \<leftarrow> opt_field (lit ''exclusionReason'') from_str obj;
     Some \<lparr>rcpt_reference = ref, rcpt_content_hash = hash, rcpt_scope = scope,
           rcpt_included = included, rcpt_exclusion_reason = reason\<rparr> })"

definition entry_to_json :: "AiProvenanceEntry \<Rightarrow> json" where
  "entry_to_json e = JObj
     ([(lit ''kind'', JStr (entry_kind e)), (lit ''reference'', JStr (entry_reference e))]
      @ skip_none (lit ''contentHash'') JStr (entry_content_hash e))"

definition entry_from_json :: "json \<Rightarrow> AiProvenanceEntry option" where
  "entry_from_json = from_obj (\<lambda>obj. do {
     kind \<leftarrow> req_field (lit ''kind'') from_str obj;
     ref \<leftarrow> req_field (lit ''reference'') from_str obj;
     hash \<leftarrow> opt_field (lit ''contentHash'') from_str obj;
     Some \<lparr>entry_kind = kind, entry_reference = ref, entry_content_hash = hash\<rparr> })"

definition proposal_to_json :: "ProposedRevision \<Rightarrow> json" where
  "proposal_to_json p = JObj
     ([(lit ''documentId'', JUuid (prop_document_id p)),
       (lit ''baseRevisionId'', JUuid (prop_base_revision_id p)),
       (lit ''title'', JStr (prop_title p)), (lit ''slug'', JStr (prop_slug p)),
       (lit ''sourceMarkdown'', JStr (prop_source_markdown p)),
       (lit ''embeds'', embeds_to_json (prop_embeds p))]
      @ skip_none (lit ''intent'') intent_to_json (prop_intent p)
      @ skip_none (lit ''ontology'') ontology_to_json (prop_ontology p)
      @ skip_none (lit ''aiSummary'') summary_to_json (prop_ai_summary p)
      @ [(lit ''authorship'', authorship_to_json (prop_authorship p)),
         (lit ''actor'', actor_to_json (prop_actor p))]
      @ skip_none (lit ''idempotencyKey'') JStr (prop_idempotency_key p))"

definition proposal_from_json :: "json \<Rightarrow> ProposedRevision option" where
  "proposal_from_json = from_obj (\<lambda>obj. do {
     document \<leftarrow> req_field (lit ''documentId'') from_uuid obj;
     base \<leftarrow> req_field (lit ''baseRevisionId'') from_uuid obj;
     title \<leftarrow> req_field (lit ''title'') from_str obj;
     slug \<leftarrow> req_field (lit ''slug'') from_str obj;
     markdown \<leftarrow> req_field (lit ''sourceMarkdown'') from_str obj;
     embeds \<leftarrow> default_field (lit ''embeds'') [] (from_arr embed_from_json) obj;
     intent \<leftarrow> opt_field (lit ''intent'') intent_from_json obj;
     ontology \<leftarrow> opt_field (lit ''ontology'') ontology_from_json obj;
     summary \<leftarrow> opt_field (lit ''aiSummary'') summary_from_json obj;
     authorship \<leftarrow> default_field (lit ''authorship'') default_authorship authorship_from_json obj;
     actor \<leftarrow> req_field (lit ''actor'') actor_from_json obj;
     key \<leftarrow> opt_field (lit ''idempotencyKey'') from_str obj;
     Some \<lparr>prop_document_id = document, prop_base_revision_id = base, prop_title = title,
           prop_slug = slug, prop_source_markdown = markdown, prop_embeds = embeds,
           prop_intent = intent, prop_ontology = ontology, prop_ai_summary = summary,
           prop_authorship = authorship, prop_actor = actor, prop_idempotency_key = key\<rparr> })"

definition envelope_to_json :: "Ai2AiEnvelope \<Rightarrow> json" where
  "envelope_to_json v = JObj
     [(lit ''specVersion'', JStr (env_spec_version v)), (lit ''messageId'', JUuid (env_message_id v)),
      (lit ''idempotencyKey'', JStr (env_idempotency_key v)),
      (lit ''occurredAt'', JTime (env_occurred_at v)),
      (lit ''actor'', ai_actor_to_json (env_actor v)), (lit ''intent'', JStr (env_intent v)),
      (lit ''proposal'', proposal_to_json (env_proposal v)),
      (lit ''policy'', policy_to_json (env_policy v)),
      (lit ''contextReceipts'', JArr (map receipt_to_json (env_context_receipts v))),
      (lit ''provenance'', JArr (map entry_to_json (env_provenance v)))]"

definition envelope_from_json :: "json \<Rightarrow> Ai2AiEnvelope option" where
  "envelope_from_json = from_obj (\<lambda>obj. do {
     version \<leftarrow> req_field (lit ''specVersion'') from_str obj;
     message \<leftarrow> req_field (lit ''messageId'') from_uuid obj;
     key \<leftarrow> req_field (lit ''idempotencyKey'') from_str obj;
     occurred \<leftarrow> req_field (lit ''occurredAt'') from_time obj;
     actor \<leftarrow> req_field (lit ''actor'') ai_actor_from_json obj;
     intent \<leftarrow> req_field (lit ''intent'') from_str obj;
     proposal \<leftarrow> req_field (lit ''proposal'') proposal_from_json obj;
     policy \<leftarrow> req_field (lit ''policy'') policy_from_json obj;
     receipts \<leftarrow> default_field (lit ''contextReceipts'') [] (from_arr receipt_from_json) obj;
     provenance \<leftarrow> default_field (lit ''provenance'') [] (from_arr entry_from_json) obj;
     Some \<lparr>env_spec_version = version, env_message_id = message, env_idempotency_key = key,
           env_occurred_at = occurred, env_actor = actor, env_intent = intent,
           env_proposal = proposal, env_policy = policy, env_context_receipts = receipts,
           env_provenance = provenance\<rparr> })"

lemma ai_kind_codec [simp]: "ai_kind_from_json (ai_kind_to_json k) = Some k"
  by (cases k) (simp_all add: ai_kind_from_json_def)

lemma boundary_codec [simp]: "boundary_from_json (boundary_to_json b) = Some b"
  by (cases b) (simp_all add: boundary_from_json_def)

lemma ai_actor_codec [simp]: "ai_actor_from_json (ai_actor_to_json a) = Some a"
  by (simp add: ai_actor_from_json_def ai_actor_to_json_def field_defs default_field_option)

lemma receipt_codec [simp]: "receipt_from_json (receipt_to_json r) = Some r"
  by (simp add: receipt_from_json_def receipt_to_json_def field_defs default_field_option)

lemma entry_codec [simp]: "entry_from_json (entry_to_json e) = Some e"
  by (simp add: entry_from_json_def entry_to_json_def field_defs default_field_option)

lemma proposal_codec [simp]: "proposal_from_json (proposal_to_json p) = Some p"
  by (simp add: proposal_from_json_def proposal_to_json_def embeds_to_json_def field_defs
      default_field_option traverse_map_codec)

lemma max_cost_codec:
  "\<not> opt_any (\<lambda>v. \<not> f64_is_finite v) c \<Longrightarrow>
   (case (case c of None \<Rightarrow> [] | Some x \<Rightarrow> [f64_to_json x]) of
      [] \<Rightarrow> Some None | [w] \<Rightarrow> opt_value f64_from_json w | _ \<Rightarrow> None) = Some c"
  by (cases c) (simp_all add: opt_value_def f64_to_json_def)

lemma policy_codec:
  "\<not> opt_any (\<lambda>v. \<not> f64_is_finite v) (pol_max_cost p) \<Longrightarrow> policy_from_json (policy_to_json p) = Some p"
  by (simp add: policy_from_json_def policy_to_json_def field_defs default_field_option max_cost_codec
      traverse_map_codec)

lemma envelope_codec:
  "\<not> opt_any (\<lambda>v. \<not> f64_is_finite v) (pol_max_cost (env_policy v)) \<Longrightarrow>
   envelope_from_json (envelope_to_json v) = Some v"
  by (simp add: envelope_from_json_def envelope_to_json_def field_defs policy_codec traverse_map_codec)

section \<open>What acceptance guarantees\<close>

lemma unique_bounded_values_iff:
  "unique_bounded_values vs n \<longleftrightarrow>
     (\<forall>v \<in> set vs. \<not> blank v \<and> byte_len v \<le> n \<and> \<not> contains_nul v) \<and> distinct vs"
  by (auto simp: unique_bounded_values_def all_fresh_iff)

lemma validate_policy_ok [result_simps]:
  "validate_policy p provider = Inr u \<longleftrightarrow>
     length (pol_allowed_provider_ids p) \<le> 128 \<and> length (pol_allowed_capabilities p) \<le> 128
     \<and> unique_bounded_values (pol_allowed_provider_ids p) 300
     \<and> unique_bounded_values (pol_allowed_capabilities p) 300
     \<and> \<not> opt_any (\<lambda>v. \<not> f64_is_finite v \<or> f64_negative v) (pol_max_cost p)
     \<and> (pol_data_boundary p = LocalOnly \<longrightarrow> pol_allowed_provider_ids p = [])
     \<and> (pol_data_boundary p = ApprovedProviders \<longrightarrow>
          (\<exists>x. provider = Some x \<and> x \<in> set (pol_allowed_provider_ids p)))"
  by (auto simp: validate_policy_def result_simps split: DataBoundary.splits)

lemma validate_context_receipts_ok [result_simps]:
  "validate_context_receipts vs = Inr u \<longleftrightarrow>
     length vs \<le> 10000 \<and> (\<forall>v \<in> set vs. valid_receipt v)
     \<and> distinct (map (\<lambda>v. (rcpt_reference v, rcpt_scope v)) vs)"
  by (auto simp: validate_context_receipts_def all_fresh_iff)

lemma validate_provenance_ok [result_simps]:
  "validate_provenance vs = Inr u \<longleftrightarrow> length vs \<le> 10000 \<and> (\<forall>v \<in> set vs. valid_provenance_entry v)"
  by (auto simp: validate_provenance_def list_all_iff)

lemma validate_envelope_ok:
  "validate_envelope E now v = Inr u \<Longrightarrow>
     env_spec_version v = AI2AI_SPEC_VERSION
     \<and> env_message_id v \<noteq> 0 \<and> prop_document_id (env_proposal v) \<noteq> 0
     \<and> prop_base_revision_id (env_proposal v) \<noteq> 0
     \<and> \<not> blank (env_idempotency_key v) \<and> byte_len (env_idempotency_key v) \<le> 200
     \<and> env_occurred_at v \<le> now + minutes 5
     \<and> validate_policy (env_policy v) (ai_actor_provider (env_actor v)) = Inr ()
     \<and> validate_context_receipts (env_context_receipts v) = Inr ()
     \<and> validate_provenance (env_provenance v) = Inr ()
     \<and> validate_proposed_revision E (env_proposal v) = Inr ()"
  by (simp add: validate_envelope_def validate_for_provider_def is_nil_def and_then_eq_Inr
      map_err_eq_Inr split: if_splits)

lemma envelope_codec_validated:
  "validate_envelope E now v = Inr u \<Longrightarrow> envelope_from_json (envelope_to_json v) = Some v"
  by (drule validate_envelope_ok, rule envelope_codec)
    (cases "pol_max_cost (env_policy v)"; auto simp: validate_policy_ok)

text \<open>
  An accepted envelope respects its policy and its receipts: under the approved-providers
  boundary the acting provider is one of the listed providers, under the local-only boundary
  no provider is listed, the cost bound is finite and not negative, and every context receipt
  either is included or carries a reason for its exclusion, never both, with no reference
  listed twice in one scope.
\<close>

theorem accepted_envelope_policy_and_receipts:
  assumes "validate_envelope E now v = Inr ()"
  shows "(pol_data_boundary (env_policy v) = ApprovedProviders \<longrightarrow>
           (\<exists>p. ai_actor_provider (env_actor v) = Some p \<and> p \<in> set (pol_allowed_provider_ids (env_policy v))))
    \<and> (pol_data_boundary (env_policy v) = LocalOnly \<longrightarrow> pol_allowed_provider_ids (env_policy v) = [])
    \<and> (\<forall>c. pol_max_cost (env_policy v) = Some c \<longrightarrow> f64_is_finite c \<and> \<not> f64_negative c)
    \<and> (\<forall>r \<in> set (env_context_receipts v). rcpt_included r \<longleftrightarrow> rcpt_exclusion_reason r = None)
    \<and> distinct (map (\<lambda>r. (rcpt_reference r, rcpt_scope r)) (env_context_receipts v))"
  using validate_envelope_ok [OF assms]
  by (auto simp: validate_policy_ok validate_context_receipts_ok valid_receipt_def)

definition example_proposal :: ProposedRevision where
  "example_proposal = \<lparr>prop_document_id = 2, prop_base_revision_id = 1, prop_title = lit ''Title'',
     prop_slug = lit ''title'', prop_source_markdown = lit ''New'', prop_embeds = [],
     prop_intent = None, prop_ontology = None, prop_ai_summary = None,
     prop_authorship = default_authorship,
     prop_actor = \<lparr>actor_kind = RevisionAgent, actor_id = lit ''writer'', actor_display_name = None\<rparr>,
     prop_idempotency_key = None\<rparr>"

definition example_envelope :: Ai2AiEnvelope where
  "example_envelope = \<lparr>env_spec_version = AI2AI_SPEC_VERSION, env_message_id = 9,
     env_idempotency_key = lit ''proposal-1'', env_occurred_at = 0,
     env_actor = \<lparr>ai_actor_kind = AiAgent, ai_actor_id = lit ''writer'',
       ai_actor_provider = Some (lit ''local-model''), ai_actor_model = Some (lit ''model-v1'')\<rparr>,
     env_intent = lit ''clearer'', env_proposal = example_proposal,
     env_policy = \<lparr>pol_data_boundary = ApprovedProviders,
       pol_allowed_provider_ids = [lit ''local-model''], pol_allowed_capabilities = [lit ''content.propose''],
       pol_max_cost = Some (F64_Finite 1 0), pol_max_tokens = Some 2000\<rparr>,
     env_context_receipts = [\<lparr>rcpt_reference = lit ''draft:note'',
       rcpt_content_hash = lit ''sha256:'' @ replicate 64 97, rcpt_scope = lit ''private'',
       rcpt_included = False, rcpt_exclusion_reason = Some (lit ''private'')\<rparr>],
     env_provenance = []\<rparr>"

lemma example_envelope_ok: "validate_envelope example_extern 0 example_envelope = Inr ()"
  by code_simp

theorem accepted_envelope_policy_and_receipts_witness:
  "validate_envelope example_extern 0 example_envelope = Inr ()
   \<and> (\<exists>p. ai_actor_provider (env_actor example_envelope) = Some p
        \<and> p \<in> set (pol_allowed_provider_ids (env_policy example_envelope)))"
proof -
  have "pol_data_boundary (env_policy example_envelope) = ApprovedProviders"
    by (simp add: example_envelope_def)
  then show ?thesis
    using accepted_envelope_policy_and_receipts [OF example_envelope_ok] example_envelope_ok by blast
qed

text \<open>
  The audit form of an accepted envelope loses nothing: reading back what was written
  gives the envelope itself, including absent optional fields and the cost bound, which
  acceptance has made finite.
\<close>

theorem accepted_envelope_round_trip:
  assumes "validate_envelope E now v = Inr ()"
  shows "envelope_from_json (envelope_to_json v) = Some v"
  using assms by (rule envelope_codec_validated)

theorem accepted_envelope_round_trip_witness:
  "envelope_from_json (envelope_to_json example_envelope) = Some example_envelope"
  by (rule accepted_envelope_round_trip [OF example_envelope_ok])

text \<open>
  Every hash the kernel computes is one the envelope checks accept: with a hasher that
  prints 64 lower-case hexadecimal digits, the content hash of a revision and the source hash
  of a summary have the form required of receipts and provenance entries.
\<close>

theorem computed_hashes_are_valid:
  assumes "\<And>b. length (sha256_hex E b) = 64
    \<and> (\<forall>c \<in> set (sha256_hex E b). is_ascii_digit c \<or> (97 \<le> c \<and> c \<le> 102))"
  shows "valid_content_hash (content_hash_with_ai_summary E t s m e i w y)
    \<and> valid_content_hash (ai_summary_source_hash E t m)"
proof -
  have "valid_content_hash (lit ''sha256:'' @ sha256_hex E b)" for b
  proof -
    have "is_ascii (lit ''sha256:'' @ sha256_hex E b)"
      using assms [of b] by (auto simp: is_ascii_def lit_def is_ascii_digit_def)
    then have "byte_len (lit ''sha256:'' @ sha256_hex E b) = 71"
      using assms [of b] by (simp add: byte_len_ascii) (simp add: lit_def)
    then show ?thesis
      using assms [of b] by (auto simp: valid_content_hash_def starts_with_iff list_all_iff lit_def)
  qed
  then show ?thesis
    by (simp add: content_hash_with_ai_summary_def ai_summary_source_hash_def)
qed

lemma example_hasher:
  "length (sha256_hex example_extern b) = 64
    \<and> (\<forall>c \<in> set (sha256_hex example_extern b). is_ascii_digit c \<or> (97 \<le> c \<and> c \<le> 102))"
  by (simp add: example_extern_def is_ascii_digit_def less_Suc_eq_le [symmetric])

theorem computed_hashes_are_valid_witness:
  "valid_content_hash (ai_summary_source_hash example_extern (lit ''Title'') (lit ''Body''))"
  using computed_hashes_are_valid [of example_extern, OF example_hasher] by blast

end
