(* ===== verification/Store.thy ===== *)
theory Store
  imports Ai2ai
begin

text \<open>
  The SQLite schema of \<open>crates/storage-sqlite/src/lib.rs\<close> after its nine migrations, as a
  record of tables, with the SQL statements the content operations execute. Each statement
  checks the constraints the schema declares and answers with the text SQLite reports, which
  the \<open>map_*_constraint_error\<close> functions inspect. Deferred foreign keys are checked when a
  transaction commits. Identifiers and instants are kept as values; their texts in the tables
  are canonical, so equality and order are those of the values.
\<close>

section \<open>Rows\<close>

datatype ThemeProfile = Paper | Ink | Forest | Terminal

datatype CategoryStatus = CategoryActive | CategoryArchived

datatype SiteMembershipRole = Owner | Editor | Writer

datatype AdminAuthMode = AccessKey | External | Disabled

datatype SessionAuthMethod = LegacySession | AccessKeySession | ExternalSession

datatype StoredCommentStatus = StoredPending | StoredApproved

record document_row =
  d_id :: uuid
  d_site_id :: uuid
  d_status :: DocumentStatus
  d_current_revision_id :: uuid
  d_published_revision_id :: "uuid option"
  d_current_slug :: rstr
  d_created_at :: instant
  d_updated_at :: instant

record revision_row =
  r_id :: uuid
  r_document_id :: uuid
  r_revision_number :: int
  r_parent_revision_id :: "uuid option"
  r_slug :: rstr
  r_snapshot_json :: json
  r_idempotency_key :: "rstr option"
  r_created_at :: instant

record route_row =
  rt_site_id :: uuid
  rt_path :: rstr
  rt_document_id :: uuid
  rt_is_canonical :: bool
  rt_created_at :: instant

record ai_audit_row =
  a_schema_version :: rstr
  a_accepted_revision_id :: uuid
  a_document_id :: uuid
  a_message_id :: uuid
  a_idempotency_key :: rstr
  a_received_at :: instant
  a_envelope_json :: json

record CategoryRecord =
  c_id :: uuid
  c_site_id :: uuid
  c_slug :: rstr
  c_title :: rstr
  c_description :: "rstr option"
  c_theme_profile :: "ThemeProfile option"
  c_status :: CategoryStatus
  c_created_by_user_id :: uuid
  c_created_at :: instant
  c_updated_at :: instant

record RevisionCategoryPlacement =
  p_revision_id :: uuid
  p_document_id :: uuid
  p_site_id :: uuid
  p_category_id :: "uuid option"
  p_assigned_by_user_id :: "uuid option"
  p_assigned_at :: instant

record series_row =
  s_id :: uuid
  s_site_id :: uuid
  s_category_id :: uuid
  s_home_position :: int
  s_created_by_user_id :: uuid
  s_created_at :: instant
  s_updated_at :: instant

record SeriesItemRecord =
  i_series_id :: uuid
  i_site_id :: uuid
  i_document_id :: uuid
  i_position :: int
  i_added_at :: instant

record UserRecord =
  u_id :: uuid
  u_email :: rstr
  u_handle :: rstr
  u_display_name :: rstr
  u_password_phc :: rstr
  u_created_at :: instant
  u_updated_at :: instant

record session_row =
  se_id :: uuid
  se_token_hash :: "byte list"
  se_user_id :: uuid
  se_expires_at :: instant
  se_created_at :: instant
  se_revoked_at :: "instant option"
  se_auth_epoch :: nat
  se_auth_method :: SessionAuthMethod

record site_row =
  st_id :: uuid
  st_handle :: rstr
  st_title :: rstr
  st_description :: "rstr option"
  st_current_theme_revision :: int
  st_created_at :: instant
  st_updated_at :: instant

record theme_revision_row =
  tr_site_id :: uuid
  tr_revision :: int
  tr_profile :: ThemeProfile
  tr_custom_css :: "rstr option"
  tr_created_by_user_id :: uuid
  tr_created_at :: instant

record SiteMembershipRecord =
  m_site_id :: uuid
  m_user_id :: uuid
  m_role :: SiteMembershipRole
  m_created_at :: instant

record CommentRecord =
  cm_id :: uuid
  cm_site_id :: uuid
  cm_document_id :: uuid
  cm_author_user_id :: uuid
  cm_source_markdown :: rstr
  cm_status :: StoredCommentStatus
  cm_created_at :: instant
  cm_updated_at :: instant

record AdminControlPlaneRecord =
  cp_primary_site_id :: uuid
  cp_owner_user_id :: uuid
  cp_auth_mode :: AdminAuthMode
  cp_auth_epoch :: nat
  cp_setup_complete :: bool
  cp_binding_fingerprint :: "byte list"
  cp_created_at :: instant
  cp_updated_at :: instant

record ExternalIdentityRecord =
  xi_adapter :: rstr
  xi_issuer :: rstr
  xi_subject_hash :: "byte list"
  xi_user_id :: uuid
  xi_created_at :: instant
  xi_last_seen_at :: instant

record home_pin_row =
  hp_slot :: nat
  hp_document_id :: uuid
  hp_pinned_by_user_id :: uuid
  hp_pinned_at :: instant

record db =
  documents :: "document_row list"
  revisions :: "revision_row list"
  routes :: "route_row list"
  ai_proposal_audits :: "ai_audit_row list"
  categories :: "CategoryRecord list"
  revision_categories :: "RevisionCategoryPlacement list"
  series :: "series_row list"
  series_items :: "SeriesItemRecord list"
  users :: "UserRecord list"
  sessions :: "session_row list"
  sites :: "site_row list"
  site_memberships :: "SiteMembershipRecord list"
  site_theme_revisions :: "theme_revision_row list"
  comments :: "CommentRecord list"
  admin_control_plane :: "AdminControlPlaneRecord option"
  external_identities :: "ExternalIdentityRecord list"
  home_pins :: "home_pin_row list"

definition empty_db :: db where
  "empty_db = \<lparr>documents = [], revisions = [], routes = [], ai_proposal_audits = [], categories = [],
     revision_categories = [], series = [], series_items = [], users = [], sessions = [], sites = [],
     site_memberships = [], site_theme_revisions = [], comments = [], admin_control_plane = None,
     external_identities = [], home_pins = []\<rparr>"

section \<open>Constraint errors\<close>

type_synonym sql_error = string

definition fk_failed :: sql_error where
  "fk_failed = ''FOREIGN KEY constraint failed''"

definition unique_failed :: "string \<Rightarrow> sql_error" where
  "unique_failed columns = ''UNIQUE constraint failed: '' @ columns"

definition storage_error :: "string \<Rightarrow> RepositoryError" where
  "storage_error text = Storage text"

definition map_constraint_error :: "sql_error \<Rightarrow> RepositoryError" where
  "map_constraint_error text =
     (if contains_str text ''UNIQUE constraint failed'' then DuplicateSlug else storage_error text)"

definition map_revision_constraint_error :: "sql_error \<Rightarrow> RepositoryError" where
  "map_revision_constraint_error text =
     (if contains_str text ''idempotency_key'' then DuplicateIdempotencyKey
      else map_constraint_error text)"

definition map_category_constraint_error :: "sql_error \<Rightarrow> RepositoryError" where
  "map_category_constraint_error text =
     (if contains_str text ''categories.site_id, categories.slug''
         \<or> contains_str text ''documents.site_id, documents.current_slug'' then DuplicateSlug
      else if contains_str text ''FOREIGN KEY constraint failed'' then NotFound
      else if contains_str text ''CHECK constraint failed''
      then Validation ''category record violates a storage constraint''
      else storage_error text)"

definition map_series_constraint_error :: "sql_error \<Rightarrow> RepositoryError" where
  "map_series_constraint_error text =
     (if contains_str text ''series.site_id, series.category_id''
      then Validation ''the category is already a series''
      else if contains_str text ''FOREIGN KEY constraint failed'' then NotFound
      else if contains_str text ''CHECK constraint failed''
      then Validation ''series record violates a storage constraint''
      else storage_error text)"

definition map_community_constraint_error :: "sql_error \<Rightarrow> RepositoryError" where
  "map_community_constraint_error text =
     (if contains_str text ''users.email'' then Validation ''email is already registered''
      else if contains_str text ''users.handle'' then Validation ''user handle is already registered''
      else if contains_str text ''sites.handle'' then Validation ''site handle is already registered''
      else if contains_str text ''sessions.token_hash''
      then Validation ''session credential is already registered''
      else if contains_str text ''FOREIGN KEY constraint failed'' then NotFound
      else if contains_str text ''CHECK constraint failed''
         \<or> contains_str text ''UNIQUE constraint failed''
      then Validation ''community record violates a storage constraint''
      else storage_error text)"

definition map_ai_proposal_constraint_error :: "sql_error \<Rightarrow> RepositoryError" where
  "map_ai_proposal_constraint_error text =
     (if contains_str text ''ai_proposal_audits.message_id''
         \<or> contains_str text ''ai_proposal_audits.idempotency_key''
      then DuplicateIdempotencyKey else storage_error text)"

section \<open>Statements on the content tables\<close>

definition category_fk_ok :: "db \<Rightarrow> uuid \<Rightarrow> uuid option \<Rightarrow> bool" where
  "category_fk_ok db site cat =
     (case cat of None \<Rightarrow> True
      | Some c \<Rightarrow> exists_where (\<lambda>x. c_id x = c \<and> c_site_id x = site) (categories db))"

definition sql_insert_document :: "document_row \<Rightarrow> db \<Rightarrow> sql_error + db" where
  "sql_insert_document row db =
     (if exists_where (\<lambda>x. d_id x = d_id row) (documents db)
      then Inl (unique_failed ''documents.id'')
      else if exists_where (\<lambda>x. d_site_id x = d_site_id row \<and> d_current_slug x = d_current_slug row) (documents db)
      then Inl (unique_failed ''documents.site_id, documents.current_slug'')
      else Inr (db\<lparr>documents := documents db @ [row]\<rparr>))"

text \<open>
  Inserting a revision fires the trigger \<open>revisions_default_category_placement\<close>: the new
  revision inherits the category of its parent, in the site of its document.
\<close>

definition default_placement :: "db \<Rightarrow> revision_row \<Rightarrow> RevisionCategoryPlacement option" where
  "default_placement db row =
     (case row_where (\<lambda>d. d_id d = r_document_id row) (documents db) of
        None \<Rightarrow> None
      | Some d \<Rightarrow>
          Some \<lparr>p_revision_id = r_id row, p_document_id = r_document_id row, p_site_id = d_site_id d,
                p_category_id =
                  (case r_parent_revision_id row of None \<Rightarrow> None
                   | Some parent \<Rightarrow>
                       (case row_where (\<lambda>p. p_revision_id p = parent) (revision_categories db) of
                          None \<Rightarrow> None | Some p \<Rightarrow> p_category_id p)),
                p_assigned_by_user_id = None, p_assigned_at = r_created_at row\<rparr>)"

definition sql_insert_revision :: "revision_row \<Rightarrow> db \<Rightarrow> sql_error + db" where
  "sql_insert_revision row db =
     (if exists_where (\<lambda>x. r_id x = r_id row) (revisions db)
      then Inl (unique_failed ''revisions.id'')
      else if r_idempotency_key row \<noteq> None
         \<and> exists_where (\<lambda>x. r_idempotency_key x = r_idempotency_key row) (revisions db)
      then Inl (unique_failed ''revisions.idempotency_key'')
      else if exists_where (\<lambda>x. r_document_id x = r_document_id row
         \<and> r_revision_number x = r_revision_number row) (revisions db)
      then Inl (unique_failed ''revisions.document_id, revisions.revision_number'')
      else
        let db1 = db\<lparr>revisions := revisions db @ [row]\<rparr> in
        if (case r_parent_revision_id row of None \<Rightarrow> False
            | Some parent \<Rightarrow> \<not> exists_where (\<lambda>x. r_id x = parent) (revisions db1))
        then Inl fk_failed
        else case default_placement db row of
            None \<Rightarrow> Inr db1
          | Some p \<Rightarrow>
              if exists_where (\<lambda>x. p_revision_id x = p_revision_id p) (revision_categories db)
              then Inl (unique_failed ''revision_categories.revision_id'')
              else if \<not> category_fk_ok db (p_site_id p) (p_category_id p) then Inl fk_failed
              else Inr (db1\<lparr>revision_categories := revision_categories db @ [p]\<rparr>))"

text \<open>
  Updating a placement: the trigger \<open>published_revision_category_immutable\<close> aborts when a
  document publishes the revision. The answer carries the number of rows changed.
\<close>

definition sql_update_placement ::
  "uuid option \<Rightarrow> uuid \<Rightarrow> instant \<Rightarrow> uuid \<Rightarrow> uuid \<Rightarrow> uuid \<Rightarrow> db \<Rightarrow> sql_error + nat \<times> db" where
  "sql_update_placement category actor now revision document site db =
     (let hit = (\<lambda>p. p_revision_id p = revision \<and> p_document_id p = document \<and> p_site_id p = site) in
      if exists_where (\<lambda>p. hit p \<and> exists_where
            (\<lambda>d. d_id d = p_document_id p \<and> d_published_revision_id d = Some (p_revision_id p)) (documents db))
          (revision_categories db)
      then Inl ''published revision category placement is immutable''
      else if exists_where hit (revision_categories db)
         \<and> (\<not> category_fk_ok db site category
            \<or> \<not> exists_where (\<lambda>u. u_id u = actor) (users db))
      then Inl fk_failed
      else Inr (length (filter hit (revision_categories db)),
                db\<lparr>revision_categories := update_where hit
                   (\<lambda>p. p\<lparr>p_category_id := category, p_assigned_by_user_id := Some actor, p_assigned_at := now\<rparr>)
                   (revision_categories db)\<rparr>))"

text \<open>\<open>UPDATE documents\<close>: the pair (site, current slug) stays unique.\<close>

definition sql_update_documents ::
  "(document_row \<Rightarrow> bool) \<Rightarrow> (document_row \<Rightarrow> document_row) \<Rightarrow> db \<Rightarrow> sql_error + db" where
  "sql_update_documents p f db =
     (let docs = update_where p f (documents db) in
      if distinct (map (\<lambda>d. (d_site_id d, d_current_slug d)) docs) then Inr (db\<lparr>documents := docs\<rparr>)
      else Inl (unique_failed ''documents.site_id, documents.current_slug''))"

text \<open>
  The upsert of a route: a conflicting row keeps its document, and becomes canonical only if
  it already belongs to the document being routed.
\<close>

definition sql_upsert_route :: "route_row \<Rightarrow> db \<Rightarrow> sql_error + db" where
  "sql_upsert_route row db =
     (let same = (\<lambda>x. rt_site_id x = rt_site_id row \<and> rt_path x = rt_path row) in
      if exists_where same (routes db)
      then Inr (db\<lparr>routes := update_where same
             (\<lambda>x. x\<lparr>rt_document_id := (if rt_document_id x = rt_document_id row then rt_document_id row
                                        else rt_document_id x),
                    rt_is_canonical := (if rt_document_id x = rt_document_id row then True
                                         else rt_is_canonical x)\<rparr>)
             (routes db)\<rparr>)
      else if \<not> exists_where (\<lambda>d. d_id d = rt_document_id row) (documents db) then Inl fk_failed
      else Inr (db\<lparr>routes := routes db @ [row]\<rparr>))"

definition sql_insert_ai_audit :: "ai_audit_row \<Rightarrow> db \<Rightarrow> sql_error + db" where
  "sql_insert_ai_audit row db =
     (if exists_where (\<lambda>x. a_accepted_revision_id x = a_accepted_revision_id row) (ai_proposal_audits db)
      then Inl (unique_failed ''ai_proposal_audits.accepted_revision_id'')
      else if exists_where (\<lambda>x. a_message_id x = a_message_id row) (ai_proposal_audits db)
      then Inl (unique_failed ''ai_proposal_audits.message_id'')
      else if exists_where (\<lambda>x. a_idempotency_key x = a_idempotency_key row) (ai_proposal_audits db)
      then Inl (unique_failed ''ai_proposal_audits.idempotency_key'')
      else if \<not> exists_where (\<lambda>r. r_id r = a_accepted_revision_id row \<and> r_document_id r = a_document_id row)
           (revisions db)
      then Inl fk_failed
      else Inr (db\<lparr>ai_proposal_audits := ai_proposal_audits db @ [row]\<rparr>))"

definition sql_insert_series_item :: "SeriesItemRecord \<Rightarrow> db \<Rightarrow> sql_error + db" where
  "sql_insert_series_item row db =
     (if i_position row \<le> 0 then Inl ''CHECK constraint failed: position > 0''
      else if exists_where (\<lambda>x. i_series_id x = i_series_id row \<and> i_document_id x = i_document_id row)
           (series_items db)
      then Inl (unique_failed ''series_items.series_id, series_items.document_id'')
      else if \<not> exists_where (\<lambda>x. s_id x = i_series_id row \<and> s_site_id x = i_site_id row) (series db)
         \<or> \<not> exists_where (\<lambda>x. d_id x = i_document_id row \<and> d_site_id x = i_site_id row) (documents db)
      then Inl fk_failed
      else Inr (db\<lparr>series_items := series_items db @ [row]\<rparr>))"

section \<open>Transactions\<close>

text \<open>
  Deferred foreign keys: the pointers of a document to its revisions, the document of a
  revision, and the current theme of a site.
\<close>

definition deferred_fks_ok :: "db \<Rightarrow> bool" where
  "deferred_fks_ok db \<longleftrightarrow>
     list_all (\<lambda>d. exists_where (\<lambda>r. r_id r = d_current_revision_id d) (revisions db)
       \<and> (case d_published_revision_id d of None \<Rightarrow> True
          | Some p \<Rightarrow> exists_where (\<lambda>r. r_id r = p) (revisions db))) (documents db)
     \<and> list_all (\<lambda>r. exists_where (\<lambda>d. d_id d = r_document_id r) (documents db)) (revisions db)
     \<and> list_all (\<lambda>s. exists_where (\<lambda>t. tr_site_id t = st_id s \<and> tr_revision t = st_current_theme_revision s)
         (site_theme_revisions db)) (sites db)"

text \<open>
  A transaction that returns an error is dropped and rolled back; one that returns a value is
  committed, which fails if a deferred foreign key is violated. The connection is behind a
  mutex, so operations run one after another.
\<close>

definition transact ::
  "(db \<Rightarrow> RepositoryError + 'a \<times> db) \<Rightarrow> db \<Rightarrow> (RepositoryError + 'a) \<times> db" where
  "transact f db =
     (case f db of
        Inl e \<Rightarrow> (Inl e, db)
      | Inr (x, db') \<Rightarrow>
          if deferred_fks_ok db' then (Inr x, db') else (Inl (storage_error fk_failed), db))"

lemma transact_error_unchanged: "transact f db = (Inl e, db') \<Longrightarrow> db' = db"
  by (auto simp: transact_def split: sum.splits prod.splits if_splits)

lemma transact_Inr [result_simps]:
  "transact f db = (Inr x, db') \<longleftrightarrow> f db = Inr (x, db') \<and> deferred_fks_ok db'"
  by (auto simp: transact_def split: sum.splits prod.splits if_splits)

section \<open>Reads\<close>

datatype RevisionSelector = SelectCurrent | SelectPublished

definition load_category_by_id :: "db \<Rightarrow> uuid \<Rightarrow> uuid \<Rightarrow> RepositoryError + CategoryRecord" where
  "load_category_by_id db site category =
     ok_or NotFound (row_where (\<lambda>c. c_id c = category \<and> c_site_id c = site) (categories db))"

definition nocase_eq :: "rstr \<Rightarrow> rstr \<Rightarrow> bool" where
  "nocase_eq a b \<longleftrightarrow> to_ascii_lowercase a = to_ascii_lowercase b"

definition load_category_by_slug :: "db \<Rightarrow> uuid \<Rightarrow> rstr \<Rightarrow> RepositoryError + CategoryRecord" where
  "load_category_by_slug db site slug =
     ok_or NotFound (row_where (\<lambda>c. c_site_id c = site \<and> nocase_eq (c_slug c) slug) (categories db))"

definition load_revision_category_placement ::
  "db \<Rightarrow> uuid \<Rightarrow> uuid \<Rightarrow> uuid \<Rightarrow> RepositoryError + RevisionCategoryPlacement" where
  "load_revision_category_placement db site document revision =
     ok_or NotFound (row_where
       (\<lambda>p. p_revision_id p = revision \<and> p_document_id p = document \<and> p_site_id p = site)
       (revision_categories db))"

text \<open>The revision a selector joins to a document, and the \<open>updated_at\<close> it reports.\<close>

definition selected_revision :: "db \<Rightarrow> RevisionSelector \<Rightarrow> document_row \<Rightarrow> revision_row option" where
  "selected_revision db sel d =
     (case sel of
        SelectCurrent \<Rightarrow>
          row_where (\<lambda>r. r_id r = d_current_revision_id d \<and> r_document_id r = d_id d) (revisions db)
      | SelectPublished \<Rightarrow>
          if d_published_revision_id d \<noteq> None \<and> d_status d \<noteq> Archived
          then row_where (\<lambda>r. Some (r_id r) = d_published_revision_id d \<and> r_document_id r = d_id d) (revisions db)
          else None)"

definition load_document :: "db \<Rightarrow> uuid \<Rightarrow> RevisionSelector \<Rightarrow> RepositoryError + DocumentSnapshot" where
  "load_document db document sel =
     and_then (ok_or NotFound (row_where (\<lambda>d. d_id d = document) (documents db))) (\<lambda>d.
     and_then (ok_or NotFound (selected_revision db sel d)) (\<lambda>r.
     and_then (ok_or (Storage ''invalid snapshot'') (revision_from_json (r_snapshot_json r))) (\<lambda>snap.
       Inr \<lparr>doc_schema_version = CONTENT_SCHEMA_VERSION, doc_id = document, doc_site_id = d_site_id d,
            doc_status = d_status d, doc_current_revision_id = d_current_revision_id d,
            doc_published_revision_id = d_published_revision_id d, doc_revision = snap,
            doc_created_at = d_created_at d,
            doc_updated_at = (case sel of SelectCurrent \<Rightarrow> d_updated_at d
                              | SelectPublished \<Rightarrow> r_created_at r)\<rparr>)))"

definition get_document :: "db \<Rightarrow> uuid \<Rightarrow> RepositoryError + DocumentSnapshot" where
  "get_document db document = load_document db document SelectCurrent"

definition get_published_by_slug :: "db \<Rightarrow> uuid \<Rightarrow> rstr \<Rightarrow> RepositoryError + DocumentSnapshot" where
  "get_published_by_slug db site slug =
     and_then (ok_or NotFound (row_where
        (\<lambda>rt. rt_site_id rt = site \<and> rt_path rt = slug
           \<and> exists_where (\<lambda>d. d_id d = rt_document_id rt \<and> d_site_id d = rt_site_id rt) (documents db))
        (routes db)))
       (\<lambda>rt. load_document db (rt_document_id rt) SelectPublished)"

section \<open>Guards\<close>

definition ensure_document_exists :: "db \<Rightarrow> uuid \<Rightarrow> RepositoryError + unit" where
  "ensure_document_exists db document =
     reject_if (\<not> exists_where (\<lambda>d. d_id d = document) (documents db)) NotFound"

definition ensure_document_in_site :: "db \<Rightarrow> uuid \<Rightarrow> uuid \<Rightarrow> RepositoryError + unit" where
  "ensure_document_in_site db site document =
     reject_if (\<not> exists_where (\<lambda>d. d_id d = document \<and> d_site_id d = site) (documents db)) NotFound"

definition ensure_published_document_in_site :: "db \<Rightarrow> uuid \<Rightarrow> uuid \<Rightarrow> RepositoryError + unit" where
  "ensure_published_document_in_site db site document =
     reject_if (\<not> exists_where (\<lambda>d. d_id d = document \<and> d_site_id d = site
        \<and> d_published_revision_id d \<noteq> None \<and> d_status d \<noteq> Archived) (documents db)) NotFound"

definition ensure_category_in_site :: "db \<Rightarrow> uuid \<Rightarrow> uuid \<Rightarrow> RepositoryError + unit" where
  "ensure_category_in_site db site category =
     reject_if (\<not> exists_where (\<lambda>c. c_id c = category \<and> c_site_id c = site) (categories db)) NotFound"

definition ensure_site_exists :: "db \<Rightarrow> uuid \<Rightarrow> RepositoryError + unit" where
  "ensure_site_exists db site = reject_if (\<not> exists_where (\<lambda>s. st_id s = site) (sites db)) NotFound"

definition ensure_user_exists :: "db \<Rightarrow> uuid \<Rightarrow> RepositoryError + unit" where
  "ensure_user_exists db user = reject_if (\<not> exists_where (\<lambda>u. u_id u = user) (users db)) NotFound"

definition category_route_path :: "CategoryRecord option \<Rightarrow> rstr \<Rightarrow> rstr" where
  "category_route_path category slug =
     (case category of None \<Rightarrow> slug | Some c \<Rightarrow> c_slug c @ lit ''/'' @ slug)"

definition ensure_category_landing_available :: "db \<Rightarrow> uuid \<Rightarrow> rstr \<Rightarrow> RepositoryError + unit" where
  "ensure_category_landing_available db site slug =
     reject_if
       (exists_where (\<lambda>d. d_site_id d = site \<and> d_current_slug d = slug) (documents db)
        \<or> exists_where (\<lambda>rt. rt_site_id rt = site \<and> rt_path rt = slug) (routes db))
       DuplicateSlug"

definition ensure_root_slug_not_category :: "db \<Rightarrow> uuid \<Rightarrow> rstr \<Rightarrow> RepositoryError + unit" where
  "ensure_root_slug_not_category db site slug =
     reject_if (exists_where (\<lambda>c. c_site_id c = site \<and> nocase_eq (c_slug c) slug) (categories db))
       DuplicateSlug"

definition ensure_document_route_available ::
  "db \<Rightarrow> uuid \<Rightarrow> uuid \<Rightarrow> rstr \<Rightarrow> RepositoryError + unit" where
  "ensure_document_route_available db site document path =
     reject_if
       (exists_where (\<lambda>d. d_site_id d = site \<and> d_current_slug d = path \<and> d_id d \<noteq> document) (documents db)
        \<or> exists_where (\<lambda>rt. rt_site_id rt = site \<and> rt_path rt = path \<and> rt_document_id rt \<noteq> document)
            (routes db))
       DuplicateSlug"

definition revision_category_route_path ::
  "db \<Rightarrow> uuid \<Rightarrow> uuid \<Rightarrow> uuid \<Rightarrow> rstr \<Rightarrow> bool \<Rightarrow> RepositoryError + rstr" where
  "revision_category_route_path db site document revision slug require_active =
     and_then (load_revision_category_placement db site document revision) (\<lambda>placement.
     and_then (map_transpose (load_category_by_id db site) (p_category_id placement)) (\<lambda>category.
     and_then (reject_if (require_active \<and> opt_any (\<lambda>c. c_status c \<noteq> CategoryActive) category)
        (Validation ''archived categories cannot receive publications'')) (\<lambda>_.
     and_then (if category = None then ensure_root_slug_not_category db site slug else Inr ()) (\<lambda>_.
       Inr (category_route_path category slug)))))"

lemmas guard_defs = ensure_document_exists_def ensure_document_in_site_def
  ensure_published_document_in_site_def ensure_category_in_site_def ensure_site_exists_def
  ensure_user_exists_def ensure_category_landing_available_def ensure_root_slug_not_category_def
  ensure_document_route_available_def

end
