(* ===== verification/Store_Documents.thy ===== *)
theory Store_Documents
  imports Store
begin

text \<open>
  The content operations of the SQLite repository: creating a document, appending a revision,
  accepting an AI proposal, moving a draft between categories, publishing a revision, and the
  reads. Generated identifiers and clock readings are arguments. Every public operation is a
  transaction on the tables of theory \<open>Store\<close>.
\<close>

section \<open>Error texts\<close>

fun content_error_text :: "ContentValidationError \<Rightarrow> string" where
  "content_error_text InvalidTitle = ''title must be 1 to 300 characters and contain no null bytes''"
| "content_error_text InvalidSlug = ''slug is not a safe single path segment''"
| "content_error_text InvalidMarkdown = ''Markdown exceeds the size limit or contains a null byte''"
| "content_error_text InvalidIntentLayer = ''intent layer is invalid''"
| "content_error_text InvalidOntologyLayer = ''ontology sidecar is invalid''"
| "content_error_text InvalidIdempotencyKey = ''idempotency key is invalid''"
| "content_error_text InvalidEmbed = ''embed reference is invalid or duplicated''"
| "content_error_text InvalidAuthorship = ''public authorship metadata is invalid''"
| "content_error_text InvalidAiSummaryText =
     ''AI summary text must be 1 to 2000 characters and contain no active controls''"
| "content_error_text InvalidAiSummaryProvenance = ''AI summary provenance is invalid''"
| "content_error_text AiSummaryRequiresHumanReview =
     ''AI summary must be reviewed by a human before it is stored or published''"
| "content_error_text AiSummarySourceMismatch =
     ''AI summary was generated from different title or Markdown source''"

fun ai_error_text :: "Ai2AiValidationError \<Rightarrow> string" where
  "ai_error_text UnsupportedVersion = ''unsupported AI2AI version''"
| "ai_error_text AiInvalidIdempotencyKey = ''invalid idempotency key''"
| "ai_error_text MissingIdentityOrIntent = ''actor identity and intent are required''"
| "ai_error_text InvalidProposal = ''proposed revision is invalid''"
| "ai_error_text InvalidIdentifier =
     ''message, document, and base revision identifiers must be non-nil UUIDs''"
| "ai_error_text InvalidTimestamp = ''AI2AI timestamp is unreasonably far in the future''"
| "ai_error_text InvalidPolicy = ''AI policy snapshot is inconsistent or out of bounds''"
| "ai_error_text InvalidContextReceipt = ''AI context receipt is invalid, duplicated, or inconsistent''"
| "ai_error_text InvalidProvenance = ''AI provenance entry is invalid''"

section \<open>Inserting revisions\<close>

definition with_computed_hash :: "extern \<Rightarrow> RevisionSnapshot \<Rightarrow> RevisionSnapshot" where
  "with_computed_hash E r = r\<lparr>rev_content_hash :=
     content_hash_with_ai_summary E (rev_title r) (rev_slug r) (rev_source_markdown r) (rev_embeds r)
       (rev_intent r) (rev_ontology r) (rev_ai_summary r)\<rparr>"

definition revision_row_of :: "RevisionSnapshot \<Rightarrow> rstr option \<Rightarrow> revision_row" where
  "revision_row_of r key =
     \<lparr>r_id = rev_id r, r_document_id = rev_document_id r, r_revision_number = int (rev_revision_number r),
      r_parent_revision_id = rev_parent_revision_id r, r_slug = rev_slug r,
      r_snapshot_json = revision_to_json r, r_idempotency_key = key, r_created_at = rev_created_at r\<rparr>"

definition insert_revision :: "RevisionSnapshot \<Rightarrow> rstr option \<Rightarrow> db \<Rightarrow> RepositoryError + db" where
  "insert_revision r key db =
     map_err map_revision_constraint_error (sql_insert_revision (revision_row_of r key) db)"

definition insert_ai_proposal :: "AiProposalAuditRecord \<Rightarrow> db \<Rightarrow> RepositoryError + db" where
  "insert_ai_proposal record db =
     map_err map_ai_proposal_constraint_error
       (sql_insert_ai_audit
          \<lparr>a_schema_version = audit_schema_version record,
           a_accepted_revision_id = audit_accepted_revision_id record,
           a_document_id = audit_document_id record,
           a_message_id = env_message_id (audit_envelope record),
           a_idempotency_key = env_idempotency_key (audit_envelope record),
           a_received_at = audit_received_at record,
           a_envelope_json = envelope_to_json (audit_envelope record)\<rparr> db)"

section \<open>Category placement of a draft\<close>

definition assign_revision_category_in_transaction ::
  "uuid \<Rightarrow> uuid \<Rightarrow> uuid \<Rightarrow> uuid \<Rightarrow> uuid option \<Rightarrow> instant \<Rightarrow> db \<Rightarrow>
   RepositoryError + RevisionCategoryPlacement \<times> db" where
  "assign_revision_category_in_transaction actor site document revision category_id now db =
     and_then (ok_or NotFound (row_where (\<lambda>d. d_id d = document \<and> d_site_id d = site) (documents db))) (\<lambda>d.
     and_then (reject_if (d_current_revision_id d \<noteq> revision) RevisionConflict) (\<lambda>_.
     and_then (reject_if (d_published_revision_id d = Some (d_current_revision_id d))
        (Validation ''published revision placement is immutable; create a new revision before moving it'')) (\<lambda>_.
     and_then (map_transpose (load_category_by_id db site) category_id) (\<lambda>category.
     and_then (reject_if (opt_any (\<lambda>c. c_status c \<noteq> CategoryActive) category)
        (Validation ''archived categories cannot receive revisions'')) (\<lambda>_.
     and_then (ok_or NotFound (row_where (\<lambda>r. r_id r = revision \<and> r_document_id r = document) (revisions db))) (\<lambda>r.
     let route_path = category_route_path category (r_slug r) in
     and_then (ensure_document_route_available db site document route_path) (\<lambda>_.
     and_then (if category = None then ensure_root_slug_not_category db site (r_slug r) else Inr ()) (\<lambda>_.
     and_then (map_err map_category_constraint_error
        (sql_update_placement category_id actor now revision document site db)) (\<lambda>(changed, db).
     and_then (reject_if (changed \<noteq> 1) NotFound) (\<lambda>_.
     and_then (map_err map_constraint_error
        (sql_update_documents
           (\<lambda>d. d_id d = document \<and> d_site_id d = site \<and> d_current_revision_id d = revision)
           (\<lambda>d. d\<lparr>d_current_slug := route_path, d_updated_at := now\<rparr>) db)) (\<lambda>db.
     and_then (load_revision_category_placement db site document revision) (\<lambda>placement.
       Inr (placement, db)))))))))))))"

section \<open>Creating a document\<close>

definition create_document_in_transaction ::
  "extern \<Rightarrow> uuid \<Rightarrow> uuid \<Rightarrow> NewDocument \<Rightarrow> instant \<Rightarrow> (uuid \<times> uuid) option \<Rightarrow> rstr option \<Rightarrow> db \<Rightarrow>
   RepositoryError + DocumentSnapshot \<times> db" where
  "create_document_in_transaction E document_id revision_id input now initial_category key db =
     (let site = new_site_id input;
          revision = with_computed_hash E
            \<lparr>rev_schema_version = CONTENT_SCHEMA_VERSION, rev_id = revision_id,
             rev_document_id = document_id, rev_revision_number = 1, rev_parent_revision_id = None,
             rev_title = new_title input, rev_slug = new_slug input,
             rev_source_markdown = new_source_markdown input, rev_embeds = new_embeds input,
             rev_intent = new_intent input, rev_ontology = new_ontology input,
             rev_ai_summary = new_ai_summary input, rev_authorship = new_authorship input,
             rev_actor = new_actor input, rev_content_hash = [], rev_created_at = now\<rparr> in
      and_then (map_transpose (\<lambda>(_, category). load_category_by_id db site category) initial_category) (\<lambda>category.
      and_then (reject_if (opt_any (\<lambda>c. c_status c \<noteq> CategoryActive) category)
         (Validation ''archived categories cannot receive revisions'')) (\<lambda>_.
      and_then (if category = None then ensure_root_slug_not_category db site (rev_slug revision) else Inr ()) (\<lambda>_.
      let path = category_route_path category (rev_slug revision) in
      and_then (ensure_document_route_available db site document_id path) (\<lambda>_.
      and_then (map_err map_constraint_error (sql_insert_document
         \<lparr>d_id = document_id, d_site_id = site, d_status = Draft, d_current_revision_id = revision_id,
          d_published_revision_id = None, d_current_slug = path, d_created_at = now,
          d_updated_at = now\<rparr> db)) (\<lambda>db.
      and_then (insert_revision revision key db) (\<lambda>db.
      and_then (case initial_category of None \<Rightarrow> Inr db
         | Some (actor, category_id) \<Rightarrow>
             and_then (assign_revision_category_in_transaction actor site document_id revision_id
                (Some category_id) now db) (\<lambda>(_, db). Inr db)) (\<lambda>db.
        Inr (\<lparr>doc_schema_version = CONTENT_SCHEMA_VERSION, doc_id = document_id, doc_site_id = site,
              doc_status = Draft, doc_current_revision_id = revision_id,
              doc_published_revision_id = None, doc_revision = revision, doc_created_at = now,
              doc_updated_at = now\<rparr>, db)))))))))"

definition create_document ::
  "extern \<Rightarrow> uuid \<Rightarrow> uuid \<Rightarrow> instant \<Rightarrow> NewDocument \<Rightarrow> db \<Rightarrow> (RepositoryError + DocumentSnapshot) \<times> db" where
  "create_document E document_id revision_id now input db =
     (case validate_new_document E input of
        Inl e \<Rightarrow> (Inl (Validation (content_error_text e)), db)
      | Inr _ \<Rightarrow> transact (create_document_in_transaction E document_id revision_id input now None None) db)"

section \<open>Appending a revision\<close>

definition append_revision_in_transaction_with_category ::
  "extern \<Rightarrow> uuid \<Rightarrow> ProposedRevision \<Rightarrow> instant \<Rightarrow> (uuid \<times> uuid option) option \<Rightarrow> db \<Rightarrow>
   RepositoryError + RevisionSnapshot \<times> db" where
  "append_revision_in_transaction_with_category E revision_id input now category_assignment db =
     and_then (map_err (\<lambda>e. Validation (content_error_text e)) (validate_proposed_revision E input)) (\<lambda>_.
     and_then (ok_or NotFound (row_where (\<lambda>d. d_id d = prop_document_id input
          \<and> exists_where (\<lambda>r. r_id r = d_current_revision_id d) (revisions db)) (documents db))) (\<lambda>d.
     and_then (ok_or NotFound (row_where (\<lambda>r. r_id r = d_current_revision_id d) (revisions db))) (\<lambda>current.
     and_then (reject_if (d_current_revision_id d \<noteq> prop_base_revision_id input) RevisionConflict) (\<lambda>_.
     let site = d_site_id d;
         revision = with_computed_hash E
           \<lparr>rev_schema_version = CONTENT_SCHEMA_VERSION, rev_id = revision_id,
            rev_document_id = prop_document_id input,
            rev_revision_number = nat (r_revision_number current + 1),
            rev_parent_revision_id = Some (prop_base_revision_id input),
            rev_title = prop_title input, rev_slug = prop_slug input,
            rev_source_markdown = prop_source_markdown input, rev_embeds = prop_embeds input,
            rev_intent = prop_intent input, rev_ontology = prop_ontology input,
            rev_ai_summary = prop_ai_summary input, rev_authorship = prop_authorship input,
            rev_actor = prop_actor input, rev_content_hash = [], rev_created_at = now\<rparr> in
     and_then (insert_revision revision (prop_idempotency_key input) db) (\<lambda>db.
     and_then (case category_assignment of None \<Rightarrow> Inr db
        | Some (actor, category_id) \<Rightarrow>
            and_then (map_transpose (load_category_by_id db site) category_id) (\<lambda>category.
            and_then (reject_if (opt_any (\<lambda>c. c_status c \<noteq> CategoryActive) category)
               (Validation ''archived categories cannot receive revisions'')) (\<lambda>_.
            and_then (map_err map_category_constraint_error
               (sql_update_placement category_id actor now revision_id (prop_document_id input) site db)) (\<lambda>(changed, db).
            and_then (reject_if (changed \<noteq> 1) NotFound) (\<lambda>_. Inr db))))) (\<lambda>db.
     and_then (revision_category_route_path db site (prop_document_id input) revision_id (prop_slug input) False) (\<lambda>path.
     and_then (ensure_document_route_available db site (prop_document_id input) path) (\<lambda>_.
     and_then (map_err map_constraint_error (sql_update_documents (\<lambda>x. d_id x = prop_document_id input)
        (\<lambda>x. x\<lparr>d_current_revision_id := revision_id, d_current_slug := path,
               d_status := (if d_published_revision_id x = None then Draft else Published),
               d_updated_at := now\<rparr>) db)) (\<lambda>db.
       Inr (revision, db))))))))))"

definition append_revision_in_transaction ::
  "extern \<Rightarrow> uuid \<Rightarrow> ProposedRevision \<Rightarrow> instant \<Rightarrow> db \<Rightarrow> RepositoryError + RevisionSnapshot \<times> db" where
  "append_revision_in_transaction E revision_id input now db =
     append_revision_in_transaction_with_category E revision_id input now None db"

definition append_revision ::
  "extern \<Rightarrow> uuid \<Rightarrow> instant \<Rightarrow> ProposedRevision \<Rightarrow> db \<Rightarrow> (RepositoryError + RevisionSnapshot) \<times> db" where
  "append_revision E revision_id now input db =
     (case validate_proposed_revision E input of
        Inl e \<Rightarrow> (Inl (Validation (content_error_text e)), db)
      | Inr _ \<Rightarrow> transact (append_revision_in_transaction E revision_id input now) db)"

section \<open>Accepting an AI proposal\<close>

text \<open>The revision an envelope proposes, with actor, authorship and key taken from the envelope.\<close>

definition proposal_of_envelope :: "Ai2AiEnvelope \<Rightarrow> ProposedRevision" where
  "proposal_of_envelope v =
     (env_proposal v)\<lparr>
       prop_actor := \<lparr>actor_kind = RevisionAgent, actor_id = ai_actor_id (env_actor v),
                      actor_display_name = None\<rparr>,
       prop_authorship := \<lparr>authorship_kind = AiGenerated,
         authorship_generator = Some (case ai_actor_model (env_actor v) of
             Some m \<Rightarrow> m
           | None \<Rightarrow> (case ai_actor_provider (env_actor v) of Some p \<Rightarrow> p | None \<Rightarrow> lit ''ai2ai'')),
         authorship_human_reviewed = False\<rparr>,
       prop_idempotency_key := Some (env_idempotency_key v)\<rparr>"

definition append_ai_proposal ::
  "extern \<Rightarrow> uuid \<Rightarrow> instant \<Rightarrow> instant \<Rightarrow> Ai2AiEnvelope \<Rightarrow> db \<Rightarrow> (RepositoryError + RevisionSnapshot) \<times> db" where
  "append_ai_proposal E revision_id checked_at received_at envelope db =
     (case validate_envelope E checked_at envelope of
        Inl e \<Rightarrow> (Inl (Validation (ai_error_text e)), db)
      | Inr _ \<Rightarrow>
          let proposal = proposal_of_envelope envelope in
          case validate_proposed_revision E proposal of
            Inl e \<Rightarrow> (Inl (Validation (content_error_text e)), db)
          | Inr _ \<Rightarrow> transact (\<lambda>db.
              and_then (append_revision_in_transaction E revision_id proposal received_at db) (\<lambda>(revision, db).
              and_then (insert_ai_proposal
                 \<lparr>audit_schema_version = AI_PROPOSAL_AUDIT_SCHEMA_VERSION,
                  audit_document_id = rev_document_id revision,
                  audit_accepted_revision_id = rev_id revision, audit_received_at = received_at,
                  audit_envelope = envelope\<rparr> db) (\<lambda>db.
                Inr (revision, db)))) db)"

section \<open>Publishing\<close>

definition SERIES_POSITION_STEP :: int where
  "SERIES_POSITION_STEP = 1024"

definition published_series_item :: "db \<Rightarrow> SeriesItemRecord \<Rightarrow> bool" where
  "published_series_item db item \<longleftrightarrow>
     exists_where (\<lambda>s. s_id s = i_series_id item \<and> s_site_id s = i_site_id item
       \<and> exists_where (\<lambda>d. d_id d = i_document_id item \<and> d_site_id d = i_site_id item
           \<and> d_published_revision_id d \<noteq> None \<and> d_status d \<noteq> Archived
           \<and> exists_where (\<lambda>p. Some (p_revision_id p) = d_published_revision_id d
                \<and> p_document_id p = d_id d \<and> p_site_id p = d_site_id d
                \<and> p_category_id p = Some (s_category_id s)) (revision_categories db))
           (documents db)) (series db)"

definition ensure_series_item_for_revision_in_transaction ::
  "uuid \<Rightarrow> uuid \<Rightarrow> uuid \<Rightarrow> instant \<Rightarrow> db \<Rightarrow> RepositoryError + db" where
  "ensure_series_item_for_revision_in_transaction site document revision now db =
     (case row_where (\<lambda>s. exists_where (\<lambda>p. p_revision_id p = revision \<and> p_document_id p = document
             \<and> p_site_id p = site \<and> p_category_id p = Some (s_category_id s)
             \<and> p_site_id p = s_site_id s) (revision_categories db)) (series db) of
        None \<Rightarrow> Inr db
      | Some s \<Rightarrow>
          if exists_where (\<lambda>i. i_series_id i = s_id s \<and> i_site_id i = site \<and> i_document_id i = document)
             (series_items db)
          then Inr db
          else
            let items = filter (\<lambda>i. i_series_id i = s_id s \<and> i_site_id i = site) (series_items db);
                next_position = fold max (map i_position items) 0 + SERIES_POSITION_STEP in
            if length (filter (published_series_item db) items) \<ge> 500
            then Inl (Validation ''a series cannot contain more than 500 published documents'')
            else if next_position \<ge> 2 ^ 63 then Inl (Storage ''Invalid column type Real'')
            else if next_position \<le> 0 then Inl (Validation ''series position overflow'')
            else map_err map_series_constraint_error (sql_insert_series_item
              \<lparr>i_series_id = s_id s, i_site_id = site, i_document_id = document,
               i_position = next_position, i_added_at = now\<rparr> db))"

definition publish_in_transaction_at ::
  "uuid \<Rightarrow> uuid \<Rightarrow> instant \<Rightarrow> db \<Rightarrow> RepositoryError + unit \<times> db" where
  "publish_in_transaction_at document revision_id now db =
     and_then (ok_or NotFound (row_where (\<lambda>r. r_id r = revision_id \<and> r_document_id r = document) (revisions db))) (\<lambda>row.
     and_then (ok_or (Storage ''invalid snapshot'') (revision_from_json (r_snapshot_json row))) (\<lambda>revision.
     and_then (ok_or NotFound (row_where (\<lambda>d. d_id d = document) (documents db))) (\<lambda>d.
     let site = d_site_id d in
     and_then (revision_category_route_path db site document revision_id (rev_slug revision) True) (\<lambda>path.
     and_then (ensure_document_route_available db site document path) (\<lambda>_.
     let db = db\<lparr>routes := update_where (\<lambda>rt. rt_document_id rt = document)
                (\<lambda>rt. rt\<lparr>rt_is_canonical := False\<rparr>) (routes db)\<rparr> in
     and_then (map_err map_constraint_error (sql_upsert_route
        \<lparr>rt_site_id = site, rt_path = path, rt_document_id = document, rt_is_canonical = True,
         rt_created_at = now\<rparr> db)) (\<lambda>db.
     and_then (ok_or (Storage ''Query returned no rows'')
        (row_where (\<lambda>rt. rt_site_id rt = site \<and> rt_path rt = path) (routes db))) (\<lambda>routed.
     and_then (reject_if (rt_document_id routed \<noteq> document) DuplicateSlug) (\<lambda>_.
     and_then (ensure_series_item_for_revision_in_transaction site document revision_id now db) (\<lambda>db.
     and_then (map_err storage_error (sql_update_documents (\<lambda>x. d_id x = document)
        (\<lambda>x. x\<lparr>d_status := Published, d_published_revision_id := Some revision_id, d_updated_at := now\<rparr>) db)) (\<lambda>db.
       Inr ((), db)))))))))))"

definition publish_in_transaction ::
  "uuid \<Rightarrow> uuid \<Rightarrow> instant \<Rightarrow> db \<Rightarrow> RepositoryError + unit \<times> db" where
  "publish_in_transaction document revision_id now db = publish_in_transaction_at document revision_id now db"

definition publish :: "uuid \<Rightarrow> uuid \<Rightarrow> instant \<Rightarrow> db \<Rightarrow> (RepositoryError + DocumentSnapshot) \<times> db" where
  "publish document revision_id now db =
     (case transact (publish_in_transaction document revision_id now) db of
        (Inl e, db') \<Rightarrow> (Inl e, db')
      | (Inr _, db') \<Rightarrow> (load_document db' document SelectPublished, db'))"

section \<open>Lists\<close>

definition join_published :: "db \<Rightarrow> document_row \<Rightarrow> revision_row option" where
  "join_published db d = row_where (\<lambda>r. Some (r_id r) = d_published_revision_id d) (revisions db)"

definition list_published :: "db \<Rightarrow> uuid \<Rightarrow> nat \<Rightarrow> RepositoryError + DocumentSnapshot list" where
  "list_published db site limit =
     collect_results (\<lambda>d. load_document db (d_id d) SelectPublished)
       (take (min limit 500)
         (order_by_desc (\<lambda>d. (case join_published db d of None \<Rightarrow> 0 | Some r \<Rightarrow> r_created_at r, uint (d_id d)))
           (filter (\<lambda>d. d_site_id d = site \<and> d_published_revision_id d \<noteq> None \<and> d_status d \<noteq> Archived
              \<and> join_published db d \<noteq> None) (documents db))))"

definition list_documents :: "db \<Rightarrow> uuid \<Rightarrow> nat \<Rightarrow> RepositoryError + DocumentSnapshot list" where
  "list_documents db site limit =
     collect_results (\<lambda>d. load_document db (d_id d) SelectCurrent)
       (take (min limit 500)
         (order_by_desc (\<lambda>d. (d_updated_at d, uint (d_id d)))
           (filter (\<lambda>d. d_site_id d = site) (documents db))))"

definition list_revisions :: "db \<Rightarrow> uuid \<Rightarrow> nat \<Rightarrow> RepositoryError + RevisionSnapshot list" where
  "list_revisions db document limit =
     and_then (ensure_document_exists db document) (\<lambda>_.
       collect_results (\<lambda>r. ok_or (Storage ''invalid snapshot'') (revision_from_json (r_snapshot_json r)))
         (take (min limit 1000)
           (order_by_desc r_revision_number (filter (\<lambda>r. r_document_id r = document) (revisions db)))))"

datatype AuditOrder = AuditNewestFirst | AuditOldestFirst

definition parse_audit_row :: "uuid \<Rightarrow> ai_audit_row \<Rightarrow> RepositoryError + AiProposalAuditRecord" where
  "parse_audit_row document row =
     and_then (ok_or (Storage ''invalid envelope'') (envelope_from_json (a_envelope_json row))) (\<lambda>v.
     and_then (reject_if (a_document_id row \<noteq> document \<or> prop_document_id (env_proposal v) \<noteq> document
          \<or> env_message_id v \<noteq> a_message_id row \<or> env_idempotency_key v \<noteq> a_idempotency_key row)
        (Storage ''AI proposal audit columns do not match the stored envelope'')) (\<lambda>_.
       Inr \<lparr>audit_schema_version = a_schema_version row, audit_document_id = document,
            audit_accepted_revision_id = a_accepted_revision_id row,
            audit_received_at = a_received_at row, audit_envelope = v\<rparr>))"

text \<open>A limit of \<open>usize::MAX\<close> means no limit; it is \<open>None\<close> here.\<close>

definition load_ai_proposals ::
  "db \<Rightarrow> uuid \<Rightarrow> nat option \<Rightarrow> AuditOrder \<Rightarrow> RepositoryError + AiProposalAuditRecord list" where
  "load_ai_proposals db document limit order =
     (let rows = filter (\<lambda>a. a_document_id a = document) (ai_proposal_audits db);
          key = (\<lambda>a. (a_received_at a, uint (a_accepted_revision_id a)));
          sorted_rows = (case order of AuditNewestFirst \<Rightarrow> order_by_desc key rows
                         | AuditOldestFirst \<Rightarrow> order_by key rows) in
      collect_results (parse_audit_row document)
        (case limit of None \<Rightarrow> sorted_rows | Some n \<Rightarrow> take (min n 1000) sorted_rows))"

definition list_ai_proposals :: "db \<Rightarrow> uuid \<Rightarrow> nat option \<Rightarrow> RepositoryError + AiProposalAuditRecord list" where
  "list_ai_proposals db document limit =
     and_then (ensure_document_exists db document) (\<lambda>_.
       load_ai_proposals db document limit AuditNewestFirst)"

end
