(* ===== verification/Store_Invariant.thy ===== *)
theory Store_Invariant
  imports Store_Documents
begin

text \<open>
  The consistency of the content tables and its preservation: one lemma per operation states
  the effect of a successful call on the tables, and one lemma per effect states that the
  invariant is kept.
\<close>

section \<open>Rows appended and updated\<close>

lemma row_where_append_fresh [table_simps]:
  "\<forall>x \<in> set xs. \<not> p x \<Longrightarrow> row_where p (xs @ [y]) = (if p y then Some y else None)"
  unfolding row_where_def by (induction xs) auto

lemma update_where_append [table_simps]:
  "update_where p f (xs @ ys) = update_where p f xs @ update_where p f ys"
  by (simp add: update_where_def)

lemma update_where_single [table_simps]: "update_where p f [y] = [if p y then f y else y]"
  by (simp add: update_where_def)

lemma update_where_none [table_simps]: "\<forall>x \<in> set xs. \<not> p x \<Longrightarrow> update_where p f xs = xs"
  by (simp add: update_where_def map_idI)

lemma distinct_map_snoc [table_simps]:
  "distinct (map f (xs @ [y])) \<longleftrightarrow> distinct (map f xs) \<and> (\<forall>x \<in> set xs. f x \<noteq> f y)"
  by (auto simp: image_iff)

section \<open>The invariant\<close>

definition keys_ok :: "db \<Rightarrow> bool" where
  "keys_ok db \<longleftrightarrow>
     distinct (map d_id (documents db)) \<and> distinct (map r_id (revisions db))
     \<and> distinct (map p_revision_id (revision_categories db))
     \<and> distinct (map (\<lambda>rt. (rt_site_id rt, rt_path rt)) (routes db))
     \<and> distinct (map (\<lambda>d. (d_site_id d, d_current_slug d)) (documents db))
     \<and> distinct (map c_id (categories db))"

text \<open>The current and the published pointer of a document lead to revisions of that document.\<close>

definition pointers_ok :: "db \<Rightarrow> bool" where
  "pointers_ok db \<longleftrightarrow>
     (\<forall>d \<in> set (documents db).
        (\<exists>r \<in> set (revisions db). r_id r = d_current_revision_id d \<and> r_document_id r = d_id d)
        \<and> (\<forall>p. d_published_revision_id d = Some p \<longrightarrow>
             (\<exists>r \<in> set (revisions db). r_id r = p \<and> r_document_id r = d_id d)))
     \<and> (\<forall>r \<in> set (revisions db). \<exists>d \<in> set (documents db). d_id d = r_document_id r)"

text \<open>
  The columns of a revision are those of its snapshot, and the snapshot carries the hash of
  its own content.
\<close>

definition row_matches_snapshot :: "extern \<Rightarrow> revision_row \<Rightarrow> bool" where
  "row_matches_snapshot E r \<longleftrightarrow>
     (\<exists>s. r = revision_row_of s (r_idempotency_key r) \<and> with_computed_hash E s = s)"

definition snapshots_ok :: "extern \<Rightarrow> db \<Rightarrow> bool" where
  "snapshots_ok E db \<longleftrightarrow> (\<forall>r \<in> set (revisions db). row_matches_snapshot E r)"

text \<open>Every revision has its placement, in the site of its document and a category of that site.\<close>

definition placements_ok :: "db \<Rightarrow> bool" where
  "placements_ok db \<longleftrightarrow>
     (\<forall>r \<in> set (revisions db). \<exists>p \<in> set (revision_categories db).
        p_revision_id p = r_id r \<and> p_document_id p = r_document_id r)
     \<and> (\<forall>p \<in> set (revision_categories db).
        (\<exists>r \<in> set (revisions db). r_id r = p_revision_id p \<and> r_document_id r = p_document_id p)
        \<and> (\<exists>d \<in> set (documents db). d_id d = p_document_id p \<and> d_site_id d = p_site_id p)
        \<and> (\<forall>c. p_category_id p = Some c \<longrightarrow>
             (\<exists>x \<in> set (categories db). c_id x = c \<and> c_site_id x = p_site_id p)))"

text \<open>A public path belongs to one document, as a route or as the slug of a draft.\<close>

definition routes_ok :: "db \<Rightarrow> bool" where
  "routes_ok db \<longleftrightarrow>
     (\<forall>rt \<in> set (routes db).
        (\<exists>d \<in> set (documents db). d_id d = rt_document_id rt \<and> d_site_id d = rt_site_id rt)
        \<and> (\<forall>d \<in> set (documents db).
             d_site_id d = rt_site_id rt \<and> d_current_slug d = rt_path rt \<longrightarrow> d_id d = rt_document_id rt))"

text \<open>A published document has exactly one canonical route; a document never published has no route.\<close>

definition canonical_ok :: "db \<Rightarrow> bool" where
  "canonical_ok db \<longleftrightarrow>
     (\<forall>d \<in> set (documents db).
        if d_published_revision_id d = None then \<forall>rt \<in> set (routes db). rt_document_id rt \<noteq> d_id d
        else \<exists>rt \<in> set (routes db). rt_document_id rt = d_id d \<and> rt_is_canonical rt
          \<and> (\<forall>rt' \<in> set (routes db). rt_document_id rt' = d_id d \<and> rt_is_canonical rt' \<longrightarrow> rt' = rt))"

text \<open>
  Revisions of a document are numbered from 1 without gaps towards the current one; each has
  the previous one as its parent.
\<close>

definition follows_parent :: "revision_row list \<Rightarrow> revision_row \<Rightarrow> bool" where
  "follows_parent rs r \<longleftrightarrow>
     (case r_parent_revision_id r of
        None \<Rightarrow> r_revision_number r = 1
      | Some q \<Rightarrow> \<exists>x \<in> set rs. r_id x = q \<and> r_document_id x = r_document_id r
           \<and> r_revision_number r = r_revision_number x + 1)"

lemma follows_parent_mono: "follows_parent rs r \<Longrightarrow> set rs \<subseteq> set rs' \<Longrightarrow> follows_parent rs' r"
  unfolding follows_parent_def by (cases "r_parent_revision_id r") (simp, force)

definition numbering_ok :: "db \<Rightarrow> bool" where
  "numbering_ok db \<longleftrightarrow>
     distinct (map (\<lambda>r. (r_document_id r, r_revision_number r)) (revisions db))
     \<and> (\<forall>d \<in> set (documents db). \<forall>c \<in> set (revisions db). r_id c = d_current_revision_id d \<longrightarrow>
          (\<forall>r \<in> set (revisions db). r_document_id r = d_id d \<longrightarrow>
             1 \<le> r_revision_number r \<and> r_revision_number r \<le> r_revision_number c))
     \<and> (\<forall>r \<in> set (revisions db). follows_parent (revisions db) r)"

text \<open>The status says whether a revision is published.\<close>

definition status_ok :: "db \<Rightarrow> bool" where
  "status_ok db \<longleftrightarrow>
     (\<forall>d \<in> set (documents db). d_status d = (if d_published_revision_id d = None then Draft else Published))"

text \<open>No two revisions share an idempotency key.\<close>

definition idempotency_ok :: "db \<Rightarrow> bool" where
  "idempotency_ok db \<longleftrightarrow> distinct (map r_idempotency_key (filter (\<lambda>r. r_idempotency_key r \<noteq> None) (revisions db)))"

definition db_inv :: "extern \<Rightarrow> db \<Rightarrow> bool" where
  "db_inv E db \<longleftrightarrow> keys_ok db \<and> pointers_ok db \<and> snapshots_ok E db \<and> placements_ok db \<and> routes_ok db
     \<and> canonical_ok db \<and> numbering_ok db \<and> status_ok db \<and> idempotency_ok db"

lemma db_inv_empty: "db_inv E empty_db"
  by (simp add: db_inv_def keys_ok_def pointers_ok_def snapshots_ok_def placements_ok_def routes_ok_def
      canonical_ok_def numbering_ok_def status_ok_def idempotency_ok_def empty_db_def)

lemmas inv_defs = keys_ok_def pointers_ok_def snapshots_ok_def placements_ok_def routes_ok_def
  canonical_ok_def numbering_ok_def status_ok_def idempotency_ok_def

text \<open>Tables the invariant does not mention may change freely.\<close>

lemma db_inv_cong:
  assumes "documents db' = documents db" "revisions db' = revisions db" "routes db' = routes db"
    "categories db' = categories db" "revision_categories db' = revision_categories db"
  shows "db_inv E db' = db_inv E db"
  unfolding db_inv_def inv_defs assms ..

lemma db_inv_frame [simp]:
  "db_inv E (db\<lparr>ai_proposal_audits := x1\<rparr>) = db_inv E db"
  "db_inv E (db\<lparr>series := x2\<rparr>) = db_inv E db"
  "db_inv E (db\<lparr>series_items := x3\<rparr>) = db_inv E db"
  "db_inv E (db\<lparr>users := x4\<rparr>) = db_inv E db"
  "db_inv E (db\<lparr>sessions := x5\<rparr>) = db_inv E db"
  "db_inv E (db\<lparr>sites := x6\<rparr>) = db_inv E db"
  "db_inv E (db\<lparr>site_memberships := x7\<rparr>) = db_inv E db"
  "db_inv E (db\<lparr>site_theme_revisions := x8\<rparr>) = db_inv E db"
  "db_inv E (db\<lparr>comments := x9\<rparr>) = db_inv E db"
  "db_inv E (db\<lparr>admin_control_plane := x10\<rparr>) = db_inv E db"
  "db_inv E (db\<lparr>external_identities := x11\<rparr>) = db_inv E db"
  "db_inv E (db\<lparr>home_pins := x12\<rparr>) = db_inv E db"
  by (rule db_inv_cong; simp)+

section \<open>Effects on the tables\<close>

definition category_in_site :: "db \<Rightarrow> uuid \<Rightarrow> uuid option \<Rightarrow> bool" where
  "category_in_site db site cat \<longleftrightarrow>
     (\<forall>c. cat = Some c \<longrightarrow> (\<exists>x \<in> set (categories db). c_id x = c \<and> c_site_id x = site))"

definition path_free :: "db \<Rightarrow> uuid \<Rightarrow> uuid \<Rightarrow> rstr \<Rightarrow> bool" where
  "path_free db site document path \<longleftrightarrow>
     (\<forall>x \<in> set (documents db). d_site_id x = site \<and> d_current_slug x = path \<longrightarrow> d_id x = document)
     \<and> (\<forall>rt \<in> set (routes db). rt_site_id rt = site \<and> rt_path rt = path \<longrightarrow> rt_document_id rt = document)"

text \<open>A revision row that may be added: a fresh identifier, a fresh key, a snapshot with its hash.\<close>

definition fresh_revision :: "extern \<Rightarrow> db \<Rightarrow> revision_row \<Rightarrow> bool" where
  "fresh_revision E db r \<longleftrightarrow>
     (\<forall>x \<in> set (revisions db). r_id x \<noteq> r_id r)
     \<and> (r_idempotency_key r \<noteq> None \<longrightarrow> (\<forall>x \<in> set (revisions db). r_idempotency_key x \<noteq> r_idempotency_key r))
     \<and> row_matches_snapshot E r"

text \<open>The placement added with a revision of a document of a site.\<close>

definition fresh_placement :: "db \<Rightarrow> uuid \<Rightarrow> revision_row \<Rightarrow> RevisionCategoryPlacement \<Rightarrow> bool" where
  "fresh_placement db site r pl \<longleftrightarrow>
     p_revision_id pl = r_id r \<and> p_document_id pl = r_document_id r \<and> p_site_id pl = site
     \<and> category_in_site db site (p_category_id pl)
     \<and> (\<forall>x \<in> set (revision_categories db). p_revision_id x \<noteq> r_id r)"

definition created :: "extern \<Rightarrow> document_row \<Rightarrow> revision_row \<Rightarrow> RevisionCategoryPlacement \<Rightarrow> db \<Rightarrow> db \<Rightarrow> bool" where
  "created E d r pl db db' \<longleftrightarrow>
     db' = db\<lparr>documents := documents db @ [d], revisions := revisions db @ [r],
              revision_categories := revision_categories db @ [pl]\<rparr>
     \<and> (\<forall>x \<in> set (documents db). d_id x \<noteq> d_id d) \<and> path_free db (d_site_id d) (d_id d) (d_current_slug d)
     \<and> d_status d = Draft \<and> d_published_revision_id d = None \<and> d_current_revision_id d = r_id r \<and> r_document_id r = d_id d
     \<and> r_revision_number r = 1 \<and> r_parent_revision_id r = None
     \<and> fresh_revision E db r \<and> fresh_placement db (d_site_id d) r pl"

definition appended_document :: "uuid \<Rightarrow> rstr \<Rightarrow> instant \<Rightarrow> document_row \<Rightarrow> document_row" where
  "appended_document rid path now x =
     x\<lparr>d_current_revision_id := rid, d_current_slug := path,
       d_status := (if d_published_revision_id x = None then Draft else Published), d_updated_at := now\<rparr>"

definition appended ::
  "extern \<Rightarrow> document_row \<Rightarrow> revision_row \<Rightarrow> RevisionCategoryPlacement \<Rightarrow> rstr \<Rightarrow> instant \<Rightarrow> db \<Rightarrow> db \<Rightarrow> bool" where
  "appended E d r pl path now db db' \<longleftrightarrow>
     db' = db\<lparr>revisions := revisions db @ [r], revision_categories := revision_categories db @ [pl],
              documents := update_where (\<lambda>x. d_id x = d_id d) (appended_document (r_id r) path now)
                (documents db)\<rparr>
     \<and> d \<in> set (documents db) \<and> path_free db (d_site_id d) (d_id d) path
     \<and> r_document_id r = d_id d \<and> r_parent_revision_id r = Some (d_current_revision_id d)
     \<and> (\<exists>c \<in> set (revisions db). r_id c = d_current_revision_id d
          \<and> r_document_id c = d_id d \<and> r_revision_number r = r_revision_number c + 1)
     \<and> fresh_revision E db r \<and> fresh_placement db (d_site_id d) r pl"

definition moved ::
  "document_row \<Rightarrow> uuid option \<Rightarrow> uuid \<Rightarrow> rstr \<Rightarrow> instant \<Rightarrow> db \<Rightarrow> db \<Rightarrow> bool" where
  "moved d cat actor path now db db' \<longleftrightarrow>
     db' = db\<lparr>revision_categories := update_where
         (\<lambda>p. p_revision_id p = d_current_revision_id d \<and> p_document_id p = d_id d \<and> p_site_id p = d_site_id d)
         (\<lambda>p. p\<lparr>p_category_id := cat, p_assigned_by_user_id := Some actor, p_assigned_at := now\<rparr>)
         (revision_categories db),
       documents := update_where
         (\<lambda>x. d_id x = d_id d \<and> d_site_id x = d_site_id d \<and> d_current_revision_id x = d_current_revision_id d)
         (\<lambda>x. x\<lparr>d_current_slug := path, d_updated_at := now\<rparr>) (documents db)\<rparr>
     \<and> d \<in> set (documents db) \<and> path_free db (d_site_id d) (d_id d) path
     \<and> d_published_revision_id d \<noteq> Some (d_current_revision_id d)
     \<and> category_in_site db (d_site_id d) cat"

definition reroute :: "uuid \<Rightarrow> rstr \<Rightarrow> uuid \<Rightarrow> route_row \<Rightarrow> route_row" where
  "reroute site path document rt = rt\<lparr>rt_is_canonical :=
     (if rt_site_id rt = site \<and> rt_path rt = path then True
      else if rt_document_id rt = document then False else rt_is_canonical rt)\<rparr>"

lemma reroute_other:
  "\<not> (rt_site_id rt = site \<and> rt_path rt = path) \<Longrightarrow> rt_document_id rt \<noteq> i \<Longrightarrow> reroute site path i rt = rt"
  by (auto simp: reroute_def)

definition route_published :: "uuid \<Rightarrow> rstr \<Rightarrow> uuid \<Rightarrow> instant \<Rightarrow> route_row list \<Rightarrow> route_row list" where
  "route_published site path document now rts =
     map (reroute site path document) rts
     @ (if \<exists>rt \<in> set rts. rt_site_id rt = site \<and> rt_path rt = path then []
        else [\<lparr>rt_site_id = site, rt_path = path, rt_document_id = document,
               rt_is_canonical = True, rt_created_at = now\<rparr>])"

lemma reroute_sel [simp]:
  "rt_site_id (reroute site path i rt) = rt_site_id rt" "rt_path (reroute site path i rt) = rt_path rt"
  "rt_document_id (reroute site path i rt) = rt_document_id rt"
  "rt_created_at (reroute site path i rt) = rt_created_at rt"
  "rt_is_canonical (reroute site path i rt) \<longleftrightarrow> rt_site_id rt = site \<and> rt_path rt = path
     \<or> rt_document_id rt \<noteq> i \<and> rt_is_canonical rt"
  by (auto simp: reroute_def)

definition published_document :: "uuid \<Rightarrow> instant \<Rightarrow> document_row \<Rightarrow> document_row" where
  "published_document rid now x =
     x\<lparr>d_status := Published, d_published_revision_id := Some rid, d_updated_at := now\<rparr>"

definition published_as ::
  "document_row \<Rightarrow> revision_row \<Rightarrow> rstr \<Rightarrow> instant \<Rightarrow> db \<Rightarrow> db \<Rightarrow> bool" where
  "published_as d r path now db db' \<longleftrightarrow>
     (\<exists>items. db' = db\<lparr>routes := route_published (d_site_id d) path (d_id d) now (routes db),
        series_items := items,
        documents := update_where (\<lambda>x. d_id x = d_id d) (published_document (r_id r) now) (documents db)\<rparr>)
     \<and> d \<in> set (documents db) \<and> r \<in> set (revisions db) \<and> r_document_id r = d_id d
     \<and> path_free db (d_site_id d) (d_id d) path"


lemmas effect_defs = created_def appended_def moved_def published_as_def

section \<open>The invariant is kept by adding a document\<close>

lemma created_keys:
  assumes inv: "keys_ok db" and cr: "created E d r pl db db'"
  shows "keys_ok db'"
proof -
  have tab: "documents db' = documents db @ [d]" "revisions db' = revisions db @ [r]"
      "revision_categories db' = revision_categories db @ [pl]" "routes db' = routes db"
      "categories db' = categories db"
    and ids: "\<forall>x \<in> set (revisions db). r_id x \<noteq> r_id r" "\<forall>x \<in> set (documents db). d_id x \<noteq> d_id d"
      "\<forall>x \<in> set (revision_categories db). p_revision_id x \<noteq> p_revision_id pl"
    and free: "path_free db (d_site_id d) (d_id d) (d_current_slug d)"
    using cr by (simp_all add: created_def fresh_revision_def fresh_placement_def)
  have "\<forall>x \<in> set (documents db). (d_site_id x, d_current_slug x) \<noteq> (d_site_id d, d_current_slug d)"
    using free ids(2) by (auto simp: path_free_def)
  with inv ids show ?thesis
    unfolding keys_ok_def tab by (simp add: distinct_map_snoc del: map_append)
qed

lemma created_pointers: "pointers_ok db \<Longrightarrow> created E d r pl db db' \<Longrightarrow> pointers_ok db'"
  by (auto simp: pointers_ok_def created_def)

lemma created_snapshots: "snapshots_ok E db \<Longrightarrow> created E d r pl db db' \<Longrightarrow> snapshots_ok E db'"
  unfolding snapshots_ok_def created_def fresh_revision_def by auto

lemma created_placements: "placements_ok db \<Longrightarrow> created E d r pl db db' \<Longrightarrow> placements_ok db'"
  by (auto simp: placements_ok_def created_def fresh_placement_def category_in_site_def)

lemma created_routes: "routes_ok db \<Longrightarrow> created E d r pl db db' \<Longrightarrow> routes_ok db'"
  by (auto simp: routes_ok_def created_def path_free_def)

lemma created_canonical:
  "routes_ok db \<Longrightarrow> canonical_ok db \<Longrightarrow> created E d r pl db db' \<Longrightarrow> canonical_ok db'"
  by (auto simp: canonical_ok_def created_def routes_ok_def)

lemma created_numbering:
  assumes ptr: "pointers_ok db" and num: "numbering_ok db" and cr: "created E d r pl db db'"
  shows "numbering_ok db'"
proof -
  have new: "r_document_id x \<noteq> d_id d" if "x \<in> set (revisions db)" for x
    using ptr cr that unfolding pointers_ok_def created_def by metis
  have old: "\<forall>x \<in> set (documents db). r_id r \<noteq> d_current_revision_id x"
    using ptr cr unfolding pointers_ok_def created_def fresh_revision_def by metis
  have cur: "d_current_revision_id d = r_id r" and doc: "r_document_id r = d_id d"
    and one: "r_revision_number r = 1" "r_parent_revision_id r = None"
    and tab: "revisions db' = revisions db @ [r]" "documents db' = documents db @ [d]"
    and ids: "\<forall>x \<in> set (revisions db). r_id x \<noteq> r_id r"  "\<forall>x \<in> set (documents db). d_id x \<noteq> d_id d"
    using cr by (simp_all add: created_def fresh_revision_def)
  show ?thesis unfolding numbering_ok_def tab
  proof (intro conjI)
    show "distinct (map (\<lambda>r. (r_document_id r, r_revision_number r)) (revisions db @ [r]))"
      using num new doc by (simp add: numbering_ok_def distinct_map_snoc del: map_append)
    show "\<forall>x \<in> set (documents db @ [d]). \<forall>c \<in> set (revisions db @ [r]). r_id c = d_current_revision_id x \<longrightarrow>
        (\<forall>y \<in> set (revisions db @ [r]). r_document_id y = d_id x \<longrightarrow>
           1 \<le> r_revision_number y \<and> r_revision_number y \<le> r_revision_number c)"
      using num new old cur doc one ids by (auto simp: numbering_ok_def)
    have "follows_parent (revisions db @ [r]) r" using one by (simp add: follows_parent_def)
    with num show "\<forall>y \<in> set (revisions db @ [r]). follows_parent (revisions db @ [r]) y"
      by (auto simp: numbering_ok_def intro: follows_parent_mono)
  qed
qed

lemma fresh_revision_idempotency:
  "idempotency_ok db \<Longrightarrow> fresh_revision E db r \<Longrightarrow> revisions db' = revisions db @ [r] \<Longrightarrow> idempotency_ok db'"
  by (auto simp: idempotency_ok_def fresh_revision_def)

lemma created_status: "status_ok db \<Longrightarrow> created E d r pl db db' \<Longrightarrow> status_ok db'"
  by (auto simp: status_ok_def created_def)

lemma created_inv: "db_inv E db \<Longrightarrow> created E d r pl db db' \<Longrightarrow> db_inv E db'"
  unfolding db_inv_def
  by (intro conjI; elim conjE)
    (auto intro: created_keys created_pointers created_snapshots created_placements created_routes
      created_canonical created_numbering created_status fresh_revision_idempotency simp: created_def)

section \<open>The invariant is kept by changing the rows of a document\<close>

text \<open>
  Updates of \<open>documents\<close> keep identifiers and sites. A row that moves to a free path keeps the
  uniqueness of paths.
\<close>

definition keeps_identity :: "(document_row \<Rightarrow> document_row) \<Rightarrow> bool" where
  "keeps_identity f \<longleftrightarrow> (\<forall>x. d_id (f x) = d_id x \<and> d_site_id (f x) = d_site_id x)"

lemma in_updated_documents:
  assumes "keeps_identity f" and "y \<in> set (update_where p f docs)"
  obtains x where "x \<in> set docs" "d_id y = d_id x" "d_site_id y = d_site_id x" "y = (if p x then f x else x)"
  using assms by (auto simp: set_update_where keeps_identity_def)

lemma updated_document_exists:
  assumes "keeps_identity f" and "x \<in> set docs"
  obtains y where "y \<in> set (update_where p f docs)" "d_id y = d_id x" "d_site_id y = d_site_id x"
proof (rule that [of "if p x then f x else x"])
  show "(if p x then f x else x) \<in> set (update_where p f docs)"
    using assms(2) by (simp add: set_update_where)
qed (use assms(1) in \<open>simp_all add: keeps_identity_def\<close>)

lemma relocated_distinct:
  assumes keys: "keys_ok db" and free: "path_free db site i path" and d: "keeps_identity f"
    and p: "\<And>x. p x \<Longrightarrow> d_id x = i" and f: "\<And>x. p x \<Longrightarrow> d_current_slug (f x) = path"
    and s: "\<And>x. x \<in> set (documents db) \<Longrightarrow> p x \<Longrightarrow> d_site_id x = site"
  shows "distinct (map (\<lambda>d. (d_site_id d, d_current_slug d)) (update_where p f (documents db)))"
proof -
  let ?u = "\<lambda>x. if p x then f x else x"
  have ids: "distinct (map d_id (documents db))"
    and slugs: "distinct (map (\<lambda>d. (d_site_id d, d_current_slug d)) (documents db))"
    using keys by (simp_all add: keys_ok_def)
  have "x = y" if x: "x \<in> set (documents db)" and y: "y \<in> set (documents db)"
    and eq: "d_site_id (?u x) = d_site_id (?u y)" "d_current_slug (?u x) = d_current_slug (?u y)" for x y
  proof (cases "p x \<or> p y")
    case True
    have "d_id x = d_id y"
      using True x y eq p f s free d unfolding path_free_def keeps_identity_def by (metis (full_types))
    then show ?thesis using distinct_key_eq [OF ids x y] by simp
  next
    case False
    then show ?thesis using eq distinct_key_eq [OF slugs x y] by simp
  qed
  moreover have "distinct (documents db)" using ids by (simp add: distinct_map)
  ultimately show ?thesis
    by (auto simp: update_where_def distinct_map inj_on_def)
qed

lemma updated_routes_ok:
  assumes inv: "routes_ok db" and d: "keeps_identity f"
    and tabs: "routes db' = routes db" "documents db' = update_where p f (documents db)"
    and slug: "\<And>x. x \<in> set (documents db) \<Longrightarrow> p x \<Longrightarrow>
       d_current_slug (f x) = d_current_slug x \<or> path_free db (d_site_id x) (d_id x) (d_current_slug (f x))"
  shows "routes_ok db'"
  unfolding routes_ok_def tabs
proof (intro ballI conjI impI)
  fix rt assume rt: "rt \<in> set (routes db)"
  with inv obtain x where x: "x \<in> set (documents db)" "d_id x = rt_document_id rt" "d_site_id x = rt_site_id rt"
    unfolding routes_ok_def by blast
  with updated_document_exists [OF d x(1), of p]
  show "\<exists>y \<in> set (update_where p f (documents db)). d_id y = rt_document_id rt \<and> d_site_id y = rt_site_id rt"
    by metis
  fix y assume y: "y \<in> set (update_where p f (documents db))"
    and eq: "d_site_id y = rt_site_id rt \<and> d_current_slug y = rt_path rt"
  obtain x where "x \<in> set (documents db)" "d_id y = d_id x" "d_site_id y = d_site_id x" "y = (if p x then f x else x)"
    using in_updated_documents [OF d y] .
  with eq rt inv slug [of x] show "d_id y = rt_document_id rt"
    unfolding routes_ok_def path_free_def by (metis (full_types))
qed

lemma updated_canonical_ok:
  assumes inv: "canonical_ok db" and d: "keeps_identity f"
    and tabs: "routes db' = routes db" "documents db' = update_where p f (documents db)"
    and same: "\<And>x. d_published_revision_id (f x) = d_published_revision_id x"
  shows "canonical_ok db'"
  unfolding canonical_ok_def tabs
proof
  fix y assume "y \<in> set (update_where p f (documents db))"
  then obtain x where "x \<in> set (documents db)" "d_id y = d_id x" "y = (if p x then f x else x)"
    using in_updated_documents [OF d] by metis
  then have "x \<in> set (documents db)" "d_id y = d_id x" "d_published_revision_id y = d_published_revision_id x"
    using same by (auto split: if_splits)
  with inv show "if d_published_revision_id y = None then \<forall>rt \<in> set (routes db). rt_document_id rt \<noteq> d_id y
        else \<exists>rt \<in> set (routes db). rt_document_id rt = d_id y \<and> rt_is_canonical rt
          \<and> (\<forall>rt' \<in> set (routes db). rt_document_id rt' = d_id y \<and> rt_is_canonical rt' \<longrightarrow> rt' = rt)"
    unfolding canonical_ok_def by metis
qed

lemma updated_status:
  assumes inv: "status_ok db" and tab: "documents db' = update_where p f (documents db)"
    and f: "\<And>x. d_status x = (if d_published_revision_id x = None then Draft else Published) \<Longrightarrow>
       d_status (f x) = (if d_published_revision_id (f x) = None then Draft else Published)"
  shows "status_ok db'"
  unfolding status_ok_def tab set_update_where
proof
  fix y assume "y \<in> (\<lambda>r. if p r then f r else r) ` set (documents db)"
  then obtain x where x: "x \<in> set (documents db)" and y: "y = (if p x then f x else x)" by blast
  from inv x have "d_status x = (if d_published_revision_id x = None then Draft else Published)"
    by (simp add: status_ok_def)
  with f [of x] y show "d_status y = (if d_published_revision_id y = None then Draft else Published)" by simp
qed

section \<open>The invariant is kept by appending a revision\<close>

lemma appended_tables:
  assumes "appended E d r pl path now db db'"
  shows "documents db' = update_where (\<lambda>x. d_id x = d_id d) (appended_document (r_id r) path now) (documents db)"
    "revisions db' = revisions db @ [r]" "revision_categories db' = revision_categories db @ [pl]"
    "routes db' = routes db" "categories db' = categories db"
    "d \<in> set (documents db)" "path_free db (d_site_id d) (d_id d) path" "r_document_id r = d_id d"
    "fresh_revision E db r" "fresh_placement db (d_site_id d) r pl"
    "keeps_identity (appended_document (r_id r) path now)"
  using assms by (auto simp: appended_def appended_document_def keeps_identity_def)

lemma same_document:
  "keys_ok db \<Longrightarrow> d \<in> set (documents db) \<Longrightarrow> x \<in> set (documents db) \<Longrightarrow> d_id x = d_id d \<Longrightarrow> x = d"
  unfolding keys_ok_def by (blast intro: distinct_key_eq)

lemma same_revision:
  "keys_ok db \<Longrightarrow> r \<in> set (revisions db) \<Longrightarrow> x \<in> set (revisions db) \<Longrightarrow> r_id x = r_id r \<Longrightarrow> x = r"
  unfolding keys_ok_def by (blast intro: distinct_key_eq)

lemma appended_keys:
  assumes inv: "keys_ok db" and ap: "appended E d r pl path now db db'"
  shows "keys_ok db'"
proof -
  note tab = appended_tables [OF ap]
  have "distinct (map (\<lambda>d. (d_site_id d, d_current_slug d)) (documents db'))"
    unfolding tab(1)
    by (rule relocated_distinct [OF inv tab(7,11)])
      (use same_document [OF inv tab(6)] in \<open>auto simp: appended_document_def\<close>)
  moreover have "map d_id (documents db') = map d_id (documents db)"
    unfolding tab(1) by (rule update_where_map_same) (simp add: appended_document_def)
  moreover have "p_revision_id pl = r_id r"
    using tab(10) by (simp add: fresh_placement_def)
  ultimately show ?thesis
    using inv tab(9,10)
    unfolding keys_ok_def tab(2-5)
    by (simp add: distinct_map_snoc fresh_revision_def fresh_placement_def del: map_append)
qed

lemma appended_pointers:
  assumes inv: "keys_ok db" "pointers_ok db" and ap: "appended E d r pl path now db db'"
  shows "pointers_ok db'"
  unfolding pointers_ok_def
proof (intro conjI ballI)
  note tab = appended_tables [OF ap]
  fix y assume "y \<in> set (documents db')"
  then have "y \<in> set (update_where (\<lambda>x. d_id x = d_id d) (appended_document (r_id r) path now) (documents db))"
    unfolding tab(1) .
  then obtain x where x: "x \<in> set (documents db)" "d_id y = d_id x" "d_site_id y = d_site_id x"
    and y: "y = (if d_id x = d_id d then appended_document (r_id r) path now x else x)"
    by (rule in_updated_documents [OF tab(11)])
  show "\<exists>q \<in> set (revisions db'). r_id q = d_current_revision_id y \<and> r_document_id q = d_id y"
  proof (cases "d_id x = d_id d")
    case True
    with y tab(8) have "r_id r = d_current_revision_id y \<and> r_document_id r = d_id y"
      by (simp add: appended_document_def)
    then show ?thesis unfolding tab(2) by simp
  next
    case False
    with x y inv(2) show ?thesis unfolding tab(2) pointers_ok_def by auto
  qed
  have "d_published_revision_id y = d_published_revision_id x"
    using y by (simp add: appended_document_def)
  with x inv(2) show "\<forall>p. d_published_revision_id y = Some p \<longrightarrow>
      (\<exists>q \<in> set (revisions db'). r_id q = p \<and> r_document_id q = d_id y)"
    unfolding tab(2) pointers_ok_def by auto
next
  note tab = appended_tables [OF ap]
  fix q assume "q \<in> set (revisions db')"
  then obtain x where x: "x \<in> set (documents db)" and "d_id x = r_document_id q"
    using inv(2) tab(6,8) unfolding tab(2) pointers_ok_def by auto
  then show "\<exists>d \<in> set (documents db'). d_id d = r_document_id q"
    unfolding tab(1) using updated_document_exists [OF tab(11) x] by metis
qed

lemma appended_placements:
  assumes inv: "keys_ok db" "placements_ok db" and ap: "appended E d r pl path now db db'"
  shows "placements_ok db'"
proof -
  note tab = appended_tables [OF ap]
  have doc: "\<exists>y \<in> set (documents db'). d_id y = d_id x \<and> d_site_id y = d_site_id x" if "x \<in> set (documents db)" for x
    unfolding tab(1) using updated_document_exists [OF tab(11) that] by metis
  show ?thesis
    unfolding placements_ok_def
  proof (intro conjI ballI)
    fix q assume "q \<in> set (revisions db')"
    with inv(2) tab(10) show "\<exists>p \<in> set (revision_categories db').
        p_revision_id p = r_id q \<and> p_document_id p = r_document_id q"
      unfolding placements_ok_def tab(2,3) fresh_placement_def by auto
  next
    fix p assume p: "p \<in> set (revision_categories db')"
    with inv(2) tab(10) show "\<exists>q \<in> set (revisions db'). r_id q = p_revision_id p \<and> r_document_id q = p_document_id p"
      unfolding placements_ok_def tab(2,3) fresh_placement_def by auto
    have "\<exists>x \<in> set (documents db). d_id x = p_document_id p \<and> d_site_id x = p_site_id p"
      using p inv(2) tab(6,8,10) unfolding placements_ok_def tab(3) fresh_placement_def by auto
    then show "\<exists>x \<in> set (documents db'). d_id x = p_document_id p \<and> d_site_id x = p_site_id p"
      using doc by metis
    show "\<forall>c. p_category_id p = Some c \<longrightarrow> (\<exists>x \<in> set (categories db'). c_id x = c \<and> c_site_id x = p_site_id p)"
      using p inv(2) tab(10) unfolding placements_ok_def tab(3,5) fresh_placement_def category_in_site_def by auto
  qed
qed

lemma appended_numbering:
  assumes inv: "keys_ok db" "pointers_ok db" "numbering_ok db" and ap: "appended E d r pl path now db db'"
  shows "numbering_ok db'"
proof -
  note tab = appended_tables [OF ap]
  obtain c where c: "c \<in> set (revisions db)" "r_id c = d_current_revision_id d" "r_document_id c = d_id d"
      "r_revision_number r = r_revision_number c + 1"
    and parent: "r_parent_revision_id r = Some (d_current_revision_id d)"
    using ap by (auto simp: appended_def)
  have top: "1 \<le> r_revision_number q \<and> r_revision_number q \<le> r_revision_number c"
    if "q \<in> set (revisions db)" "r_document_id q = d_id d" for q
    using inv(3) tab(6) c(1,2) that unfolding numbering_ok_def by metis
  have fresh: "\<forall>x \<in> set (revisions db). r_id x \<noteq> r_id r"
    using tab(9) by (simp add: fresh_revision_def)
  show ?thesis
    unfolding numbering_ok_def
  proof (intro conjI ballI impI)
    have "\<forall>x \<in> set (revisions db). (r_document_id x, r_revision_number x) \<noteq> (r_document_id r, r_revision_number r)"
      using top c(4) tab(8) by fastforce
    with inv(3) show "distinct (map (\<lambda>r. (r_document_id r, r_revision_number r)) (revisions db'))"
      unfolding tab(2) by (simp only: numbering_ok_def distinct_map_snoc)
  next
    fix q assume "q \<in> set (revisions db')"
    moreover have "follows_parent (revisions db @ [r]) r"
      using c parent tab(8) by (auto simp: follows_parent_def)
    ultimately show "follows_parent (revisions db') q"
      using inv(3) unfolding tab(2) numbering_ok_def by (auto intro: follows_parent_mono)
  next
    fix y k q
    assume y: "y \<in> set (documents db')" and k: "k \<in> set (revisions db')" "r_id k = d_current_revision_id y"
      and q: "q \<in> set (revisions db')" "r_document_id q = d_id y"
    obtain x where x: "x \<in> set (documents db)" "d_id y = d_id x" "d_site_id y = d_site_id x"
      and yx: "y = (if d_id x = d_id d then appended_document (r_id r) path now x else x)"
      using in_updated_documents [OF tab(11) y [unfolded tab(1)]] .
    have "1 \<le> r_revision_number q \<and> r_revision_number q \<le> r_revision_number k"
    proof (cases "d_id x = d_id d")
      case True
      then have "k = r" using k fresh yx unfolding tab(2) by (auto simp: appended_document_def)
      with True q x(2) top [of q] top [OF c(1,3)] c(4) show ?thesis unfolding tab(2) by auto
    next
      case False
      then have "q \<noteq> r" "y = x" using q(2) x(2) yx tab(8) by auto
      moreover have "k \<noteq> r"
        using k(2) \<open>y = x\<close> x(1) inv(2) fresh unfolding pointers_ok_def by metis
      ultimately show ?thesis
        using inv(3) x(1) k q unfolding tab(2) numbering_ok_def by auto
    qed
    then show "1 \<le> r_revision_number q" "r_revision_number q \<le> r_revision_number k" by simp_all
  qed
qed

lemma appended_inv:
  assumes inv: "db_inv E db" and ap: "appended E d r pl path now db db'"
  shows "db_inv E db'"
proof -
  note tab = appended_tables [OF ap]
  have "snapshots_ok E db'"
    using inv tab(9) unfolding db_inv_def snapshots_ok_def tab(2) fresh_revision_def by simp
  moreover have "idempotency_ok db'"
    using inv tab(9) by (auto simp: db_inv_def tab(2) intro: fresh_revision_idempotency)
  moreover have "routes_ok db'"
    by (rule updated_routes_ok [OF _ tab(11,4,1)])
      (use inv tab(6,7) same_document [of db d] in \<open>auto simp: db_inv_def appended_document_def\<close>)
  moreover have "canonical_ok db'"
    by (rule updated_canonical_ok [OF _ tab(11,4,1)]) (use inv in \<open>simp_all add: db_inv_def appended_document_def\<close>)
  moreover have "status_ok db'"
    by (rule updated_status [OF _ tab(1)]) (use inv in \<open>simp_all add: db_inv_def appended_document_def\<close>)
  ultimately show ?thesis
    using inv ap unfolding db_inv_def
    by (blast intro: appended_keys appended_pointers appended_placements appended_numbering)
qed

section \<open>The invariant is kept by updates that add no revision\<close>

lemma updated_pointers:
  assumes inv: "pointers_ok db" and d: "keeps_identity f"
    and tabs: "revisions db' = revisions db" "documents db' = update_where p f (documents db)"
    and cur: "\<And>x. d_current_revision_id (f x) = d_current_revision_id x"
    and pub: "\<And>x q. x \<in> set (documents db) \<Longrightarrow> p x \<Longrightarrow> d_published_revision_id (f x) = Some q \<Longrightarrow>
       d_published_revision_id x = Some q \<or> (\<exists>r \<in> set (revisions db). r_id r = q \<and> r_document_id r = d_id x)"
  shows "pointers_ok db'"
  unfolding pointers_ok_def
proof (intro conjI ballI)
  fix y assume y: "y \<in> set (documents db')"
  obtain x where x: "x \<in> set (documents db)" "d_id y = d_id x" "d_site_id y = d_site_id x"
    and yx: "y = (if p x then f x else x)"
    using in_updated_documents [OF d y [unfolded tabs(2)]] .
  have "d_current_revision_id y = d_current_revision_id x" using yx cur by simp
  with x inv show "\<exists>q \<in> set (revisions db'). r_id q = d_current_revision_id y \<and> r_document_id q = d_id y"
    unfolding tabs pointers_ok_def by metis
  show "\<forall>q. d_published_revision_id y = Some q \<longrightarrow>
      (\<exists>r \<in> set (revisions db'). r_id r = q \<and> r_document_id r = d_id y)"
    using x yx pub [OF x(1)] inv unfolding tabs pointers_ok_def by (metis (full_types))
next
  fix q assume "q \<in> set (revisions db')"
  then obtain x where x: "x \<in> set (documents db)" "d_id x = r_document_id q"
    using inv unfolding tabs pointers_ok_def by metis
  then show "\<exists>d \<in> set (documents db'). d_id d = r_document_id q"
    unfolding tabs using updated_document_exists [OF d x(1)] by metis
qed

lemma updated_placements:
  assumes inv: "placements_ok db" and d: "keeps_identity f"
    and tabs: "revisions db' = revisions db" "documents db' = update_where p f (documents db)"
      "categories db' = categories db" "revision_categories db' = update_where h g (revision_categories db)"
    and g: "\<And>x. p_revision_id (g x) = p_revision_id x \<and> p_document_id (g x) = p_document_id x
       \<and> p_site_id (g x) = p_site_id x"
    and cat: "\<And>x. h x \<Longrightarrow> category_in_site db (p_site_id x) (p_category_id (g x))"
  shows "placements_ok db'"
  unfolding placements_ok_def
proof (intro conjI ballI)
  fix q assume "q \<in> set (revisions db')"
  with inv obtain x where "x \<in> set (revision_categories db)" "p_revision_id x = r_id q" "p_document_id x = r_document_id q"
    unfolding placements_ok_def tabs by metis
  then show "\<exists>p \<in> set (revision_categories db'). p_revision_id p = r_id q \<and> p_document_id p = r_document_id q"
    unfolding tabs(4) set_update_where by (intro bexI [of _ "if h x then g x else x"]) (simp_all add: g)
next
  fix y assume "y \<in> set (revision_categories db')"
  then obtain x where x: "x \<in> set (revision_categories db)" and y: "y = (if h x then g x else x)"
    unfolding tabs(4) set_update_where by blast
  have same: "p_revision_id y = p_revision_id x" "p_document_id y = p_document_id x" "p_site_id y = p_site_id x"
    using y g by simp_all
  show "\<exists>r \<in> set (revisions db'). r_id r = p_revision_id y \<and> r_document_id r = p_document_id y"
    using inv x same unfolding placements_ok_def tabs by metis
  obtain w where w: "w \<in> set (documents db)" "d_id w = p_document_id y" "d_site_id w = p_site_id y"
    using inv x same unfolding placements_ok_def by metis
  then show "\<exists>d \<in> set (documents db'). d_id d = p_document_id y \<and> d_site_id d = p_site_id y"
    unfolding tabs(2) using updated_document_exists [OF d w(1)] by metis
  show "\<forall>c. p_category_id y = Some c \<longrightarrow> (\<exists>x \<in> set (categories db'). c_id x = c \<and> c_site_id x = p_site_id y)"
    using inv x y same cat [of x] unfolding placements_ok_def category_in_site_def tabs(3) by (cases "h x") simp_all
qed

lemma updated_numbering:
  assumes inv: "numbering_ok db" and d: "keeps_identity f"
    and tabs: "revisions db' = revisions db" "documents db' = update_where p f (documents db)"
    and cur: "\<And>x. d_current_revision_id (f x) = d_current_revision_id x"
  shows "numbering_ok db'"
proof -
  have "d_current_revision_id y = d_current_revision_id x \<and> d_id y = d_id x"
    if "y = (if p x then f x else x)" for x y
    using that cur d by (simp add: keeps_identity_def)
  then have "\<exists>x \<in> set (documents db). d_current_revision_id y = d_current_revision_id x \<and> d_id y = d_id x"
    if "y \<in> set (documents db')" for y
    using that unfolding tabs set_update_where by blast
  then have 1: "\<forall>d \<in> set (documents db'). \<forall>c \<in> set (revisions db). r_id c = d_current_revision_id d \<longrightarrow>
      (\<forall>r \<in> set (revisions db). r_document_id r = d_id d \<longrightarrow>
         1 \<le> r_revision_number r \<and> r_revision_number r \<le> r_revision_number c)"
    using inv unfolding numbering_ok_def by metis
  with inv show ?thesis unfolding numbering_ok_def tabs(1) by blast
qed

lemma updated_keys:
  assumes inv: "keys_ok db" and d: "keeps_identity f"
    and tabs: "revisions db' = revisions db" "documents db' = update_where p f (documents db)"
      "categories db' = categories db"
    and pls: "map p_revision_id (revision_categories db') = map p_revision_id (revision_categories db)"
    and rts: "distinct (map (\<lambda>rt. (rt_site_id rt, rt_path rt)) (routes db'))"
    and slugs: "distinct (map (\<lambda>d. (d_site_id d, d_current_slug d)) (documents db'))"
  shows "keys_ok db'"
proof -
  have "map d_id (documents db') = map d_id (documents db)"
    unfolding tabs by (rule update_where_map_same) (use d in \<open>simp add: keeps_identity_def\<close>)
  with inv pls rts slugs show ?thesis by (simp add: keys_ok_def tabs(1,3))
qed

section \<open>The invariant is kept by moving a draft\<close>

lemma moved_inv:
  assumes inv: "db_inv E db" and mv: "moved d cat actor path now db db'"
  shows "db_inv E db'"
proof -
  let ?p = "\<lambda>x. d_id x = d_id d \<and> d_site_id x = d_site_id d \<and> d_current_revision_id x = d_current_revision_id d"
  let ?f = "\<lambda>x. x\<lparr>d_current_slug := path, d_updated_at := now\<rparr>"
  let ?h = "\<lambda>p. p_revision_id p = d_current_revision_id d \<and> p_document_id p = d_id d \<and> p_site_id p = d_site_id d"
  let ?g = "\<lambda>p. p\<lparr>p_category_id := cat, p_assigned_by_user_id := Some actor, p_assigned_at := now\<rparr>"
  have tabs: "revisions db' = revisions db" "documents db' = update_where ?p ?f (documents db)"
      "categories db' = categories db" "revision_categories db' = update_where ?h ?g (revision_categories db)"
    and rts: "routes db' = routes db"
    and free: "path_free db (d_site_id d) (d_id d) path" and cat: "category_in_site db (d_site_id d) cat"
    using mv unfolding moved_def by (elim conjE, simp)+
  have id: "keeps_identity ?f" by (simp add: keeps_identity_def)
  have ok: "keys_ok db" "pointers_ok db" "placements_ok db" "routes_ok db" "canonical_ok db" "numbering_ok db"
    using inv by (simp_all add: db_inv_def)
  have "keys_ok db'"
  proof (rule updated_keys [OF ok(1) id tabs(1-3)])
    show "distinct (map (\<lambda>d. (d_site_id d, d_current_slug d)) (documents db'))"
      unfolding tabs(2) by (rule relocated_distinct [OF ok(1) free id]) simp_all
    show "map p_revision_id (revision_categories db') = map p_revision_id (revision_categories db)"
      unfolding tabs(4) by (rule update_where_map_same) simp
  qed (use ok(1) in \<open>simp add: rts keys_ok_def\<close>)
  moreover have "pointers_ok db'"
    by (rule updated_pointers [OF ok(2) id tabs(1,2)]) simp_all
  moreover have "placements_ok db'"
    by (rule updated_placements [OF ok(3) id tabs]) (use cat in simp_all)
  moreover have "routes_ok db'"
    by (rule updated_routes_ok [OF ok(4) id rts tabs(2)]) (use free in auto)
  moreover have "canonical_ok db'"
    by (rule updated_canonical_ok [OF ok(5) id rts tabs(2)]) simp
  moreover have "numbering_ok db'"
    by (rule updated_numbering [OF ok(6) id tabs(1,2)]) simp
  moreover have "status_ok db'"
    by (rule updated_status [OF _ tabs(2)]) (use inv in \<open>simp_all add: db_inv_def\<close>)
  ultimately show ?thesis
    using inv by (simp add: db_inv_def snapshots_ok_def idempotency_ok_def tabs(1))
qed

section \<open>The invariant is kept by publishing\<close>

lemma in_route_published:
  assumes "rt' \<in> set (route_published site path i now rts)"
  obtains (old) rt where "rt \<in> set rts" "rt' = reroute site path i rt"
  | (new) "rt_site_id rt' = site" "rt_path rt' = path" "rt_document_id rt' = i" "rt_is_canonical rt'"
      "\<forall>rt \<in> set rts. \<not> (rt_site_id rt = site \<and> rt_path rt = path)"
  using assms by (auto simp: route_published_def split: if_splits)

lemma route_published_keys:
  assumes "distinct (map (\<lambda>rt. (rt_site_id rt, rt_path rt)) rts)"
  shows "distinct (map (\<lambda>rt. (rt_site_id rt, rt_path rt)) (route_published site path i now rts))"
  using assms by (auto simp: route_published_def o_def)

lemma route_published_routed:
  assumes free: "\<forall>rt \<in> set rts. rt_site_id rt = site \<and> rt_path rt = path \<longrightarrow> rt_document_id rt = i"
  shows "\<exists>rt \<in> set (route_published site path i now rts).
     rt_site_id rt = site \<and> rt_path rt = path \<and> rt_document_id rt = i \<and> rt_is_canonical rt"
  using free by (auto simp: route_published_def)

lemma route_published_canonical:
  assumes free: "\<forall>rt \<in> set rts. rt_site_id rt = site \<and> rt_path rt = path \<longrightarrow> rt_document_id rt = i"
    and rt: "rt \<in> set (route_published site path i now rts)" "rt_document_id rt = i" "rt_is_canonical rt"
  shows "rt_site_id rt = site \<and> rt_path rt = path"
  using rt by (cases rule: in_route_published [OF rt(1)]) auto


lemma published_tables:
  assumes "published_as d r path now db db'"
  shows "documents db' = update_where (\<lambda>x. d_id x = d_id d) (published_document (r_id r) now) (documents db)"
    "revisions db' = revisions db" "revision_categories db' = revision_categories db"
    "routes db' = route_published (d_site_id d) path (d_id d) now (routes db)" "categories db' = categories db"
    "d \<in> set (documents db)" "r \<in> set (revisions db)" "r_document_id r = d_id d"
    "path_free db (d_site_id d) (d_id d) path" "keeps_identity (published_document (r_id r) now)"
  using assms by (auto simp: published_as_def published_document_def keeps_identity_def)

lemma published_routes:
  assumes inv: "keys_ok db" "routes_ok db" and pb: "published_as d r path now db db'"
  shows "routes_ok db'"
proof -
  note tab = published_tables [OF pb]
  have "routes_ok (db\<lparr>documents := documents db'\<rparr>)"
    by (rule updated_routes_ok [OF inv(2) tab(10), where p = "\<lambda>x. d_id x = d_id d"])
      (simp_all add: tab(1) published_document_def)
  then have kept: "\<exists>x \<in> set (documents db'). d_id x = rt_document_id rt \<and> d_site_id x = rt_site_id rt"
      "\<forall>x \<in> set (documents db'). d_site_id x = rt_site_id rt \<and> d_current_slug x = rt_path rt \<longrightarrow> d_id x = rt_document_id rt"
    if "rt \<in> set (routes db)" for rt
    using that by (simp_all add: routes_ok_def)
  obtain y where y: "y \<in> set (documents db')" "d_id y = d_id d" "d_site_id y = d_site_id d"
    unfolding tab(1) using updated_document_exists [OF tab(10,6)] by metis
  have here: "d_id x = d_id d" if x: "x \<in> set (documents db')" "d_site_id x = d_site_id d" "d_current_slug x = path" for x
  proof -
    obtain w where w: "w \<in> set (documents db)" "d_id x = d_id w" "d_site_id x = d_site_id w"
        "x = (if d_id w = d_id d then published_document (r_id r) now w else w)"
      using in_updated_documents [OF tab(10) x(1) [unfolded tab(1)]] .
    with x tab(9) show ?thesis unfolding path_free_def by (metis (full_types))
  qed
  show ?thesis
    unfolding routes_ok_def
  proof
    fix rt assume "rt \<in> set (routes db')"
    then show "(\<exists>d \<in> set (documents db'). d_id d = rt_document_id rt \<and> d_site_id d = rt_site_id rt)
        \<and> (\<forall>d \<in> set (documents db').
             d_site_id d = rt_site_id rt \<and> d_current_slug d = rt_path rt \<longrightarrow> d_id d = rt_document_id rt)"
      unfolding tab(4)
    proof (cases rule: in_route_published)
      case (old x)
      then show ?thesis using kept by simp
    next
      case new
      then show ?thesis using y here by auto
    qed
  qed
qed

lemma published_canonical:
  assumes inv: "keys_ok db" "routes_ok db" "canonical_ok db" and pb: "published_as d r path now db db'"
  shows "canonical_ok db'"
  unfolding canonical_ok_def
proof
  note tab = published_tables [OF pb]
  let ?rts = "route_published (d_site_id d) path (d_id d) now (routes db)"
  have free: "\<forall>rt \<in> set (routes db). rt_site_id rt = d_site_id d \<and> rt_path rt = path \<longrightarrow> rt_document_id rt = d_id d"
    using tab(9) by (simp add: path_free_def)
  have keys: "distinct (map (\<lambda>rt. (rt_site_id rt, rt_path rt)) ?rts)"
    using inv(1) by (simp add: keys_ok_def route_published_keys)
  fix y assume "y \<in> set (documents db')"
  then obtain x where x: "x \<in> set (documents db)" "d_id y = d_id x" "d_site_id y = d_site_id x"
    and y: "y = (if d_id x = d_id d then published_document (r_id r) now x else x)"
    unfolding tab(1) by (rule in_updated_documents [OF tab(10)])
  show "if d_published_revision_id y = None then \<forall>rt \<in> set (routes db'). rt_document_id rt \<noteq> d_id y
        else \<exists>rt \<in> set (routes db'). rt_document_id rt = d_id y \<and> rt_is_canonical rt
          \<and> (\<forall>rt' \<in> set (routes db'). rt_document_id rt' = d_id y \<and> rt_is_canonical rt' \<longrightarrow> rt' = rt)"
  proof (cases "d_id x = d_id d")
    case True
    obtain rt where rt: "rt \<in> set ?rts" "rt_site_id rt = d_site_id d" "rt_path rt = path"
        "rt_document_id rt = d_id d" "rt_is_canonical rt"
      using route_published_routed [OF free] by metis
    have "rt' = rt" if "rt' \<in> set ?rts" "rt_document_id rt' = d_id d" "rt_is_canonical rt'" for rt'
      using distinct_key_eq [OF keys that(1) rt(1)] route_published_canonical [OF free that] rt(2,3) by simp
    moreover from True x(2) y have "d_id y = d_id d" "d_published_revision_id y \<noteq> None"
      by (simp_all add: published_document_def)
    ultimately show ?thesis unfolding tab(4) using rt by (metis (no_types, lifting))
  next
    case False
    have other: "rt \<in> set ?rts \<and> rt_document_id rt = d_id x \<longleftrightarrow> rt \<in> set (routes db) \<and> rt_document_id rt = d_id x" for rt
    proof
      assume rt: "rt \<in> set ?rts \<and> rt_document_id rt = d_id x"
      then have "rt \<in> set ?rts" ..
      then show "rt \<in> set (routes db) \<and> rt_document_id rt = d_id x"
      proof (cases rule: in_route_published)
        case (old w)
        with rt False free have "rt = w" using reroute_other [of w] by (metis reroute_sel(3))
        with old rt show ?thesis by simp
      qed (use rt False in simp)
    next
      assume rt: "rt \<in> set (routes db) \<and> rt_document_id rt = d_id x"
      then have "reroute (d_site_id d) path (d_id d) rt = rt"
        using False free by (intro reroute_other) auto
      with rt show "rt \<in> set ?rts \<and> rt_document_id rt = d_id x"
        by (auto simp: route_published_def intro!: rev_image_eqI)
    qed
    from False y have "y = x" by simp
    with inv(3) x(1) show ?thesis unfolding tab(4) canonical_ok_def using other by (metis (no_types, lifting))
  qed
qed

lemma published_inv:
  assumes inv: "db_inv E db" and pb: "published_as d r path now db db'"
  shows "db_inv E db'"
proof -
  note tab = published_tables [OF pb]
  have ok: "keys_ok db" "pointers_ok db" "placements_ok db" "routes_ok db" "canonical_ok db" "numbering_ok db"
    using inv by (simp_all add: db_inv_def)
  have pls: "revision_categories db' = update_where (\<lambda>_. False) id (revision_categories db)"
    by (simp add: tab(3) update_where_none)
  have "keys_ok db'"
  proof (rule updated_keys [OF ok(1) tab(10,2,1,5)])
    have "map (\<lambda>d. (d_site_id d, d_current_slug d)) (documents db') = map (\<lambda>d. (d_site_id d, d_current_slug d)) (documents db)"
      unfolding tab(1) by (rule update_where_map_same) (simp add: published_document_def)
    then show "distinct (map (\<lambda>d. (d_site_id d, d_current_slug d)) (documents db'))"
      using ok(1) by (simp add: keys_ok_def)
    show "distinct (map (\<lambda>rt. (rt_site_id rt, rt_path rt)) (routes db'))"
      unfolding tab(4) using ok(1) by (simp add: keys_ok_def route_published_keys)
  qed (simp add: tab(3))
  moreover have "pointers_ok db'"
    by (rule updated_pointers [OF ok(2) tab(10,2,1)]) (use tab(7,8) in \<open>auto simp: published_document_def\<close>)
  moreover have "placements_ok db'"
    by (rule updated_placements [OF ok(3) tab(10,2,1,5) pls]) simp_all
  moreover have "routes_ok db'" by (rule published_routes [OF ok(1,4) pb])
  moreover have "canonical_ok db'" by (rule published_canonical [OF ok(1,4,5) pb])
  moreover have "numbering_ok db'"
    by (rule updated_numbering [OF ok(6) tab(10,2,1)]) (simp add: published_document_def)
  moreover have "status_ok db'"
    by (rule updated_status [OF _ tab(1)]) (use inv in \<open>simp_all add: db_inv_def published_document_def\<close>)
  ultimately show ?thesis
    using inv by (simp add: db_inv_def snapshots_ok_def idempotency_ok_def tab(2))
qed

end
