(* ===== verification/Store_Effects.thy ===== *)
theory Store_Effects
  imports Store_Invariant
begin

text \<open>
  What a successful call of each content operation does to the tables: it creates a document,
  appends a revision, moves a draft or publishes a revision, in the sense of theory
  \<open>Store_Invariant\<close>.
\<close>

section \<open>Statements\<close>

lemma exists_where_update:
  "(\<And>r. p (f r) = p r) \<Longrightarrow> exists_where p (update_where q f t) = exists_where p t"
  by (induction t) (simp_all add: exists_where_def update_where_def)

lemma load_category_in_site:
  "map_transpose (load_category_by_id db site) cat = Inr c \<Longrightarrow> category_in_site db site cat"
  by (auto simp: category_in_site_def load_category_by_id_def result_simps dest!: row_where_Some)

lemma route_available_iff [result_simps]:
  "ensure_document_route_available db site document path = Inr u \<longleftrightarrow> path_free db site document path"
  by (auto simp: ensure_document_route_available_def path_free_def result_simps table_simps)

lemma sql_update_placement_effect:
  assumes "sql_update_placement cat actor now rid doc site db = Inr (n, db')"
  shows "db' = db\<lparr>revision_categories := update_where
       (\<lambda>p. p_revision_id p = rid \<and> p_document_id p = doc \<and> p_site_id p = site)
       (\<lambda>p. p\<lparr>p_category_id := cat, p_assigned_by_user_id := Some actor, p_assigned_at := now\<rparr>)
       (revision_categories db)\<rparr>"
  using assms by (auto simp: sql_update_placement_def Let_def split: if_splits)

lemma sql_update_documents_effect:
  "sql_update_documents p f db = Inr db' \<Longrightarrow> db' = db\<lparr>documents := update_where p f (documents db)\<rparr>"
  by (auto simp: sql_update_documents_def Let_def split: if_splits)

lemma sql_insert_document_effect:
  "sql_insert_document row db = Inr db' \<longleftrightarrow>
     db' = db\<lparr>documents := documents db @ [row]\<rparr> \<and> (\<forall>x \<in> set (documents db). d_id x \<noteq> d_id row)
     \<and> (\<forall>x \<in> set (documents db). d_site_id x = d_site_id row \<longrightarrow> d_current_slug x \<noteq> d_current_slug row)"
  by (auto simp: sql_insert_document_def table_simps)

text \<open>The insertion of a revision of an existing document adds the revision and its placement.\<close>

lemma insert_revision_effect:
  assumes ins: "insert_revision s key db = Inr db'" and hash: "with_computed_hash E s = s"
    and d: "row_where (\<lambda>x. d_id x = rev_document_id s) (documents db) = Some d"
  obtains pl where
    "db' = db\<lparr>revisions := revisions db @ [revision_row_of s key],
              revision_categories := revision_categories db @ [pl]\<rparr>"
    "fresh_revision E db (revision_row_of s key)"
    "fresh_placement db (d_site_id d) (revision_row_of s key) pl"
proof -
  let ?r = "revision_row_of s key"
  obtain pl where pl: "default_placement db ?r = Some pl"
      "p_revision_id pl = r_id ?r" "p_document_id pl = r_document_id ?r" "p_site_id pl = d_site_id d"
    using d by (simp add: default_placement_def revision_row_of_def)
  have sql: "sql_insert_revision ?r db = Inr db'"
    using ins by (simp add: insert_revision_def result_simps)
  have fresh: "\<not> exists_where (\<lambda>x. r_id x = r_id ?r) (revisions db)"
      "\<not> (r_idempotency_key ?r \<noteq> None \<and> exists_where (\<lambda>x. r_idempotency_key x = r_idempotency_key ?r) (revisions db))"
    and place: "\<not> exists_where (\<lambda>x. p_revision_id x = p_revision_id pl) (revision_categories db)"
      "category_fk_ok db (p_site_id pl) (p_category_id pl)"
    and db': "db' = db\<lparr>revisions := revisions db @ [?r], revision_categories := revision_categories db @ [pl]\<rparr>"
    using sql unfolding sql_insert_revision_def Let_def pl(1)
    by (simp_all split: if_splits)
  have "row_matches_snapshot E ?r"
    unfolding row_matches_snapshot_def using hash by (intro exI [of _ s]) (simp add: revision_row_of_def)
  with fresh have "fresh_revision E db ?r"
    by (auto simp: fresh_revision_def exists_where_iff)
  moreover have "fresh_placement db (d_site_id d) ?r pl"
    using place pl(2-4)
    by (auto simp: fresh_placement_def category_in_site_def category_fk_ok_def exists_where_iff split: option.splits)
  ultimately show thesis using that db' by blast
qed

lemma with_computed_hash_idem [simp]: "with_computed_hash E (with_computed_hash E s) = with_computed_hash E s"
  by (simp add: with_computed_hash_def)

lemma with_computed_hash_sel [simp]:
  "rev_id (with_computed_hash E s) = rev_id s"
  "rev_document_id (with_computed_hash E s) = rev_document_id s"
  "rev_revision_number (with_computed_hash E s) = rev_revision_number s"
  "rev_parent_revision_id (with_computed_hash E s) = rev_parent_revision_id s"
  "rev_slug (with_computed_hash E s) = rev_slug s"
  "rev_created_at (with_computed_hash E s) = rev_created_at s"
  by (simp_all add: with_computed_hash_def)

lemma revision_row_of_sel [simp]:
  "r_id (revision_row_of s key) = rev_id s"
  "r_document_id (revision_row_of s key) = rev_document_id s"
  "r_revision_number (revision_row_of s key) = int (rev_revision_number s)"
  "r_parent_revision_id (revision_row_of s key) = rev_parent_revision_id s"
  "r_slug (revision_row_of s key) = rev_slug s"
  "r_snapshot_json (revision_row_of s key) = revision_to_json s"
  "r_idempotency_key (revision_row_of s key) = key"
  "r_created_at (revision_row_of s key) = rev_created_at s"
  by (simp_all add: revision_row_of_def)

section \<open>Moving a draft\<close>

lemma assign_effect:
  assumes "assign_revision_category_in_transaction actor site doc rid cat now db = Inr (pl, db')"
  obtains d c r where
    "d_id d = doc" "d_site_id d = site" "d_current_revision_id d = rid"
    "map_transpose (load_category_by_id db site) cat = Inr c"
    "r \<in> set (revisions db)" "r_id r = rid" "r_document_id r = doc"
    "moved d cat actor (category_route_path c (r_slug r)) now db db'"
proof -
  from assms obtain d c r n db1 where
    d: "row_where (\<lambda>d. d_id d = doc \<and> d_site_id d = site) (documents db) = Some d"
       "d_current_revision_id d = rid" "d_published_revision_id d \<noteq> Some (d_current_revision_id d)"
    and c: "map_transpose (load_category_by_id db site) cat = Inr c"
    and r: "row_where (\<lambda>r. r_id r = rid \<and> r_document_id r = doc) (revisions db) = Some r"
    and free: "path_free db site doc (category_route_path c (r_slug r))"
    and u1: "sql_update_placement cat actor now rid doc site db = Inr (n, db1)"
    and u2: "sql_update_documents
         (\<lambda>d. d_id d = doc \<and> d_site_id d = site \<and> d_current_revision_id d = rid)
         (\<lambda>d. d\<lparr>d_current_slug := category_route_path c (r_slug r), d_updated_at := now\<rparr>) db1 = Inr db'"
    unfolding assign_revision_category_in_transaction_def Let_def
    by (auto simp: and_then_eq_Inr map_err_eq_Inr ok_or_eq_Inr reject_if_eq_Inr route_available_iff)
  from row_where_Some [OF d(1)] row_where_Some [OF r]
  have dr: "d \<in> set (documents db)" "d_id d = doc" "d_site_id d = site"
    "r \<in> set (revisions db)" "r_id r = rid" "r_document_id r = doc" by simp_all
  have "db' = db\<lparr>revision_categories := update_where
         (\<lambda>p. p_revision_id p = rid \<and> p_document_id p = doc \<and> p_site_id p = site)
         (\<lambda>p. p\<lparr>p_category_id := cat, p_assigned_by_user_id := Some actor, p_assigned_at := now\<rparr>)
         (revision_categories db),
       documents := update_where
         (\<lambda>d. d_id d = doc \<and> d_site_id d = site \<and> d_current_revision_id d = rid)
         (\<lambda>d. d\<lparr>d_current_slug := category_route_path c (r_slug r), d_updated_at := now\<rparr>) (documents db)\<rparr>"
    using sql_update_placement_effect [OF u1] sql_update_documents_effect [OF u2] by simp
  then have "moved d cat actor (category_route_path c (r_slug r)) now db db'"
    using d(2,3) dr free load_category_in_site [OF c] by (simp add: moved_def)
  with dr d(2) c show thesis by (intro that [of d c r])
qed

section \<open>Creating a document\<close>

text \<open>The first revision and the row of a created document.\<close>

definition first_revision :: "extern \<Rightarrow> uuid \<Rightarrow> uuid \<Rightarrow> NewDocument \<Rightarrow> instant \<Rightarrow> RevisionSnapshot" where
  "first_revision E document_id revision_id input now = with_computed_hash E
     \<lparr>rev_schema_version = CONTENT_SCHEMA_VERSION, rev_id = revision_id,
      rev_document_id = document_id, rev_revision_number = 1, rev_parent_revision_id = None,
      rev_title = new_title input, rev_slug = new_slug input,
      rev_source_markdown = new_source_markdown input, rev_embeds = new_embeds input,
      rev_intent = new_intent input, rev_ontology = new_ontology input,
      rev_ai_summary = new_ai_summary input, rev_authorship = new_authorship input,
      rev_actor = new_actor input, rev_content_hash = [], rev_created_at = now\<rparr>"

definition draft_row :: "uuid \<Rightarrow> uuid \<Rightarrow> uuid \<Rightarrow> rstr \<Rightarrow> instant \<Rightarrow> document_row" where
  "draft_row document_id site revision_id path now =
     \<lparr>d_id = document_id, d_site_id = site, d_status = Draft, d_current_revision_id = revision_id,
      d_published_revision_id = None, d_current_slug = path, d_created_at = now, d_updated_at = now\<rparr>"

lemma first_revision_sel [simp]:
  "rev_id (first_revision E i rid input now) = rid"
  "rev_document_id (first_revision E i rid input now) = i"
  "rev_revision_number (first_revision E i rid input now) = 1"
  "rev_parent_revision_id (first_revision E i rid input now) = None"
  "rev_slug (first_revision E i rid input now) = new_slug input"
  "with_computed_hash E (first_revision E i rid input now) = first_revision E i rid input now"
  by (simp_all add: first_revision_def)

lemma moved_after_insert:
  assumes mv: "moved d' (Some cat) actor path now
       (db\<lparr>documents := documents db @ [d], revisions := rs, revision_categories := revision_categories db @ [pl]\<rparr>) db'"
    and d: "\<forall>x \<in> set (documents db). d_id x \<noteq> d_id d" "d_current_slug d = path" "d_updated_at d = now"
    and d': "d_id d' = d_id d" "d_site_id d' = d_site_id d" "d_current_revision_id d' = r_id r"
    and pl: "fresh_placement db (d_site_id d) r pl" "r_document_id r = d_id d"
  shows "\<exists>pl'. db' = db\<lparr>documents := documents db @ [d], revisions := rs,
       revision_categories := revision_categories db @ [pl']\<rparr> \<and> fresh_placement db (d_site_id d) r pl'"
proof -
  have "update_where (\<lambda>x. d_id x = d_id d \<and> d_site_id x = d_site_id d \<and> d_current_revision_id x = r_id r)
      (\<lambda>x. x\<lparr>d_current_slug := path, d_updated_at := now\<rparr>) (documents db @ [d]) = documents db @ [d]"
    using d by (auto simp: update_where_append update_where_single update_where_none)
  moreover have "update_where (\<lambda>p. p_revision_id p = r_id r \<and> p_document_id p = d_id d \<and> p_site_id p = d_site_id d)
      (\<lambda>p. p\<lparr>p_category_id := Some cat, p_assigned_by_user_id := Some actor, p_assigned_at := now\<rparr>)
      (revision_categories db @ [pl])
    = revision_categories db @ [pl\<lparr>p_category_id := Some cat, p_assigned_by_user_id := Some actor, p_assigned_at := now\<rparr>]"
    using pl by (auto simp: update_where_append update_where_single update_where_none fresh_placement_def)
  ultimately show ?thesis
    using mv pl unfolding moved_def d'
    by (intro exI [of _ "pl\<lparr>p_category_id := Some cat, p_assigned_by_user_id := Some actor, p_assigned_at := now\<rparr>"])
      (simp add: fresh_placement_def category_in_site_def)
qed

lemma create_effect:
  assumes "create_document_in_transaction E i rid input now initial key db = Inr (snap, db')"
  obtains c pl where
    "map_transpose (\<lambda>(_, cat). load_category_by_id db (new_site_id input) cat) initial = Inr c"
    "created E (draft_row i (new_site_id input) rid (category_route_path c (new_slug input)) now)
       (revision_row_of (first_revision E i rid input now) key) pl db db'"
    "snap = \<lparr>doc_schema_version = CONTENT_SCHEMA_VERSION, doc_id = i, doc_site_id = new_site_id input,
       doc_status = Draft, doc_current_revision_id = rid, doc_published_revision_id = None,
       doc_revision = first_revision E i rid input now, doc_created_at = now, doc_updated_at = now\<rparr>"
proof -
  let ?s = "first_revision E i rid input now"
  let ?site = "new_site_id input"
  let ?r = "revision_row_of ?s key"
  from assms obtain c db1 db2 where
    c: "map_transpose (\<lambda>(_, cat). load_category_by_id db ?site cat) initial = Inr c"
    and free: "path_free db ?site i (category_route_path c (new_slug input))"
    and doc: "sql_insert_document (draft_row i ?site rid (category_route_path c (new_slug input)) now) db = Inr db1"
    and rv: "insert_revision ?s key db1 = Inr db2"
    and fin: "(case initial of None \<Rightarrow> Inr db2
         | Some (actor, cat) \<Rightarrow> and_then (assign_revision_category_in_transaction actor ?site i rid
              (Some cat) now db2) (\<lambda>(_, db). Inr db)) = (Inr db' :: RepositoryError + db)"
    and snap: "snap = \<lparr>doc_schema_version = CONTENT_SCHEMA_VERSION, doc_id = i, doc_site_id = ?site,
       doc_status = Draft, doc_current_revision_id = rid, doc_published_revision_id = None,
       doc_revision = ?s, doc_created_at = now, doc_updated_at = now\<rparr>"
    unfolding create_document_in_transaction_def Let_def first_revision_def [symmetric] draft_row_def [symmetric]
    by (auto simp: and_then_eq_Inr map_err_eq_Inr reject_if_eq_Inr route_available_iff)
  let ?d = "draft_row i ?site rid (category_route_path c (new_slug input)) now"
  have db1: "db1 = db\<lparr>documents := documents db @ [?d]\<rparr>" and new: "\<forall>x \<in> set (documents db). d_id x \<noteq> i"
    using doc by (auto simp: sql_insert_document_effect draft_row_def)
  have "row_where (\<lambda>x. d_id x = rev_document_id ?s) (documents db1) = Some ?d"
    using new by (simp add: db1 row_where_append_fresh draft_row_def)
  then obtain pl where db2: "db2 = db1\<lparr>revisions := revisions db1 @ [?r], revision_categories := revision_categories db1 @ [pl]\<rparr>"
    and fr: "fresh_revision E db1 ?r" and fp: "fresh_placement db1 (d_site_id ?d) ?r pl"
    using insert_revision_effect [OF rv first_revision_sel(6)] by metis
  have fp': "fresh_placement db (d_site_id ?d) ?r pl"
    using fp by (simp add: db1 fresh_placement_def category_in_site_def)
  have "\<exists>pl'. db' = db\<lparr>documents := documents db @ [?d], revisions := revisions db @ [?r],
      revision_categories := revision_categories db @ [pl']\<rparr> \<and> fresh_placement db (d_site_id ?d) ?r pl'"
  proof (cases initial)
    case None
    with fin fp' show ?thesis by (auto simp: db1 db2)
  next
    case (Some a)
    obtain actor cat where a: "a = (actor, cat)" by (cases a)
    with fin Some obtain x where as: "assign_revision_category_in_transaction actor ?site i rid (Some cat) now db2 = Inr (x, db')"
      by (auto simp: and_then_eq_Inr)
    obtain d' c' r' where d': "d_id d' = i" "d_site_id d' = ?site" "d_current_revision_id d' = rid"
      and c': "map_transpose (load_category_by_id db2 ?site) (Some cat) = Inr c'"
      and r': "r' \<in> set (revisions db2)" "r_id r' = rid"
      and mv: "moved d' (Some cat) actor (category_route_path c' (r_slug r')) now db2 db'"
      using assign_effect [OF as] by metis
    have "r' \<notin> set (revisions db)" using r'(2) fr by (auto simp: db1 fresh_revision_def)
    with r'(1) have "r' = ?r" by (simp add: db1 db2)
    then have "r_slug r' = new_slug input" by simp
    moreover have "c' = c"
      using c c' Some a by (auto simp: db1 db2 load_category_by_id_def result_simps)
    ultimately have mv': "moved d' (Some cat) actor (category_route_path c (new_slug input)) now
       (db\<lparr>documents := documents db @ [?d], revisions := revisions db @ [?r],
           revision_categories := revision_categories db @ [pl]\<rparr>) db'"
      using mv by (simp add: db1 db2)
    show ?thesis
      by (rule moved_after_insert [OF mv' _ _ _ _ _ _ fp']) (use new d' in \<open>simp_all add: draft_row_def\<close>)
  qed
  then obtain pl' where db': "db' = db\<lparr>documents := documents db @ [?d], revisions := revisions db @ [?r],
      revision_categories := revision_categories db @ [pl']\<rparr>" and "fresh_placement db (d_site_id ?d) ?r pl'" by blast
  moreover have "fresh_revision E db ?r" using fr by (simp add: db1 fresh_revision_def)
  ultimately have "created E ?d ?r pl' db db'"
    using new free by (simp add: created_def draft_row_def)
  then show thesis by (rule that [OF c _ snap])
qed

section \<open>Appending a revision\<close>

definition next_revision ::
  "extern \<Rightarrow> uuid \<Rightarrow> ProposedRevision \<Rightarrow> int \<Rightarrow> instant \<Rightarrow> RevisionSnapshot" where
  "next_revision E revision_id input number now = with_computed_hash E
     \<lparr>rev_schema_version = CONTENT_SCHEMA_VERSION, rev_id = revision_id,
      rev_document_id = prop_document_id input, rev_revision_number = nat (number + 1),
      rev_parent_revision_id = Some (prop_base_revision_id input),
      rev_title = prop_title input, rev_slug = prop_slug input,
      rev_source_markdown = prop_source_markdown input, rev_embeds = prop_embeds input,
      rev_intent = prop_intent input, rev_ontology = prop_ontology input,
      rev_ai_summary = prop_ai_summary input, rev_authorship = prop_authorship input,
      rev_actor = prop_actor input, rev_content_hash = [], rev_created_at = now\<rparr>"

lemma next_revision_sel [simp]:
  "rev_id (next_revision E rid input n now) = rid"
  "rev_document_id (next_revision E rid input n now) = prop_document_id input"
  "rev_revision_number (next_revision E rid input n now) = nat (n + 1)"
  "rev_parent_revision_id (next_revision E rid input n now) = Some (prop_base_revision_id input)"
  "rev_slug (next_revision E rid input n now) = prop_slug input"
  "rev_title (next_revision E rid input n now) = prop_title input"
  "rev_source_markdown (next_revision E rid input n now) = prop_source_markdown input"
  "rev_actor (next_revision E rid input n now) = prop_actor input"
  "rev_authorship (next_revision E rid input n now) = prop_authorship input"
  "with_computed_hash E (next_revision E rid input n now) = next_revision E rid input n now"
  by (simp_all add: next_revision_def) (simp_all add: with_computed_hash_def)

text \<open>Every document row leads to its current revision.\<close>

lemma current_revision:
  assumes inv: "keys_ok db" "pointers_ok db" "numbering_ok db" and d: "d \<in> set (documents db)"
  obtains c where "row_where (\<lambda>r. r_id r = d_current_revision_id d) (revisions db) = Some c"
    "c \<in> set (revisions db)" "r_id c = d_current_revision_id d" "r_document_id c = d_id d" "1 \<le> r_revision_number c"
proof -
  obtain c where c: "c \<in> set (revisions db)" "r_id c = d_current_revision_id d" "r_document_id c = d_id d"
    using inv(2) d unfolding pointers_ok_def by metis
  moreover have "row_where (\<lambda>r. r_id r = d_current_revision_id d) (revisions db) = Some c"
    using row_where_unique [of r_id "revisions db" c] inv(1) c by (simp add: keys_ok_def)
  moreover have "1 \<le> r_revision_number c"
    using inv(3) d c unfolding numbering_ok_def by metis
  ultimately show thesis by (intro that)
qed

lemma document_row:
  assumes "keys_ok db" "d \<in> set (documents db)"
  shows "row_where (\<lambda>x. d_id x = d_id d) (documents db) = Some d"
  using row_where_unique [of d_id "documents db" d] assms by (simp add: keys_ok_def)

lemma placement_update_after_insert:
  assumes up: "sql_update_placement cat actor now (r_id r) (r_document_id r) site
       (db\<lparr>revisions := rs, revision_categories := revision_categories db @ [pl]\<rparr>) = Inr (n, db')"
    and pl: "fresh_placement db site r pl" and cat: "category_in_site db site cat"
  shows "\<exists>pl'. db' = db\<lparr>revisions := rs, revision_categories := revision_categories db @ [pl']\<rparr>
     \<and> fresh_placement db site r pl'"
proof -
  let ?g = "\<lambda>p. p\<lparr>p_category_id := cat, p_assigned_by_user_id := Some actor, p_assigned_at := now\<rparr>"
  have "update_where (\<lambda>p. p_revision_id p = r_id r \<and> p_document_id p = r_document_id r \<and> p_site_id p = site) ?g
      (revision_categories db @ [pl]) = revision_categories db @ [?g pl]"
    using pl by (auto simp: update_where_append update_where_single update_where_none fresh_placement_def)
  with sql_update_placement_effect [OF up] pl cat show ?thesis
    by (intro exI [of _ "?g pl"]) (simp add: fresh_placement_def)
qed

lemma appended_document_fun:
  "appended_document rid path now = (\<lambda>x. x\<lparr>d_current_revision_id := rid, d_current_slug := path,
     d_status := (if d_published_revision_id x = None then Draft else Published), d_updated_at := now\<rparr>)"
  by (simp add: appended_document_def fun_eq_iff)

lemma append_effect:
  assumes inv: "db_inv E db"
    and app: "append_revision_in_transaction_with_category E rid input now assignment db = Inr (s, db')"
  obtains d c pl path where
    "d \<in> set (documents db)" "d_id d = prop_document_id input"
    "d_current_revision_id d = prop_base_revision_id input"
    "c \<in> set (revisions db)" "r_id c = prop_base_revision_id input" "r_document_id c = prop_document_id input"
    "s = next_revision E rid input (r_revision_number c) now" "1 \<le> r_revision_number c"
    "appended E d (revision_row_of s (prop_idempotency_key input)) pl path now db db'"
proof -
  have ok: "keys_ok db" "pointers_ok db" "numbering_ok db" using inv by (simp_all add: db_inv_def)
  from app obtain d c db1 db2 path where
    d: "row_where (\<lambda>d. d_id d = prop_document_id input
          \<and> exists_where (\<lambda>r. r_id r = d_current_revision_id d) (revisions db)) (documents db) = Some d"
    and c: "row_where (\<lambda>r. r_id r = d_current_revision_id d) (revisions db) = Some c"
    and base: "d_current_revision_id d = prop_base_revision_id input"
    and s: "s = next_revision E rid input (r_revision_number c) now"
    and ins: "insert_revision s (prop_idempotency_key input) db = Inr db1"
    and asg: "(case assignment of None \<Rightarrow> Inr db1
        | Some (actor, category_id) \<Rightarrow>
            and_then (map_transpose (load_category_by_id db1 (d_site_id d)) category_id) (\<lambda>category.
            and_then (reject_if (opt_any (\<lambda>c. c_status c \<noteq> CategoryActive) category)
               (Validation ''archived categories cannot receive revisions'')) (\<lambda>_.
            and_then (map_err map_category_constraint_error
               (sql_update_placement category_id actor now rid (prop_document_id input) (d_site_id d) db1)) (\<lambda>(changed, db).
            and_then (reject_if (changed \<noteq> 1) NotFound) (\<lambda>_. Inr db))))) = Inr db2"
    and free: "path_free db2 (d_site_id d) (prop_document_id input) path"
    and upd: "sql_update_documents (\<lambda>x. d_id x = prop_document_id input) (appended_document rid path now) db2 = Inr db'"
    unfolding append_revision_in_transaction_with_category_def Let_def next_revision_def [symmetric]
      appended_document_fun [symmetric]
    by (auto simp: and_then_eq_Inr map_err_eq_Inr reject_if_eq_Inr ok_or_eq_Inr route_available_iff)
  have dd: "d \<in> set (documents db)" "d_id d = prop_document_id input" using row_where_Some [OF d] by simp_all
  obtain c' where "row_where (\<lambda>r. r_id r = d_current_revision_id d) (revisions db) = Some c'"
    and cc: "c' \<in> set (revisions db)" "r_id c' = d_current_revision_id d" "r_document_id c' = d_id d" "1 \<le> r_revision_number c'"
    using current_revision [OF ok dd(1)] .
  with c have "c' = c" by simp
  note cc = cc [unfolded this]
  let ?r = "revision_row_of s (prop_idempotency_key input)"
  have "row_where (\<lambda>x. d_id x = rev_document_id s) (documents db) = Some d"
    using document_row [OF ok(1) dd(1)] dd(2) by (simp add: s)
  then obtain pl where db1: "db1 = db\<lparr>revisions := revisions db @ [?r], revision_categories := revision_categories db @ [pl]\<rparr>"
    and fr: "fresh_revision E db ?r" and fp: "fresh_placement db (d_site_id d) ?r pl"
    using insert_revision_effect [OF ins, of E d] by (auto simp: s)
  have "\<exists>pl'. db2 = db\<lparr>revisions := revisions db @ [?r], revision_categories := revision_categories db @ [pl']\<rparr>
      \<and> fresh_placement db (d_site_id d) ?r pl'"
  proof (cases assignment)
    case None
    with asg db1 fp show ?thesis by auto
  next
    case (Some a)
    obtain actor cat where a: "a = (actor, cat)" by (cases a)
    with asg Some obtain k n where k: "map_transpose (load_category_by_id db1 (d_site_id d)) cat = Inr k"
      and up: "sql_update_placement cat actor now rid (prop_document_id input) (d_site_id d) db1 = Inr (n, db2)"
      by (auto simp: and_then_eq_Inr map_err_eq_Inr reject_if_eq_Inr)
    have "category_in_site db (d_site_id d) cat"
      using load_category_in_site [OF k] by (simp add: db1 category_in_site_def)
    moreover have "sql_update_placement cat actor now (r_id ?r) (r_document_id ?r) (d_site_id d)
        (db\<lparr>revisions := revisions db @ [?r], revision_categories := revision_categories db @ [pl]\<rparr>) = Inr (n, db2)"
      using up by (simp add: db1 s)
    ultimately show ?thesis using placement_update_after_insert fp by blast
  qed
  then obtain pl' where db2: "db2 = db\<lparr>revisions := revisions db @ [?r], revision_categories := revision_categories db @ [pl']\<rparr>"
    and fp': "fresh_placement db (d_site_id d) ?r pl'" by blast
  have "appended E d ?r pl' path now db db'"
    using dd cc base fr fp' free sql_update_documents_effect [OF upd]
    by (auto simp: appended_def db2 path_free_def s intro!: bexI [of _ c])
  with dd base cc s show thesis by (intro that [of d c]) simp_all
qed

section \<open>Publishing\<close>

lemma sql_insert_series_item_effect:
  "sql_insert_series_item row db = Inr db' \<Longrightarrow> db' = db\<lparr>series_items := series_items db @ [row]\<rparr>"
  by (simp add: sql_insert_series_item_def split: if_splits)

lemma ensure_series_item_effect:
  assumes "ensure_series_item_for_revision_in_transaction site document rid now db = Inr db'"
  shows "\<exists>items. db' = db\<lparr>series_items := items\<rparr>"
proof -
  have "db' = db\<lparr>series_items := series_items db\<rparr> \<or> (\<exists>row. db' = db\<lparr>series_items := series_items db @ [row]\<rparr>)"
    using assms unfolding ensure_series_item_for_revision_in_transaction_def Let_def
    by (auto simp: map_err_eq_Inr dest!: sql_insert_series_item_effect split: option.splits if_splits)
  then show ?thesis by blast
qed

lemma upsert_routes:
  assumes up: "sql_upsert_route \<lparr>rt_site_id = site, rt_path = path, rt_document_id = i,
         rt_is_canonical = True, rt_created_at = now\<rparr>
       (db\<lparr>routes := update_where (\<lambda>rt. rt_document_id rt = i) (\<lambda>rt. rt\<lparr>rt_is_canonical := False\<rparr>) (routes db)\<rparr>) = Inr db'"
    and free: "path_free db site i path"
  shows "db' = db\<lparr>routes := route_published site path i now (routes db)\<rparr>"
proof -
  let ?demote = "\<lambda>rt. if rt_document_id rt = i then rt\<lparr>rt_is_canonical := False\<rparr> else rt"
  let ?here = "\<lambda>rt. rt_site_id rt = site \<and> rt_path rt = path"
  let ?d = "update_where (\<lambda>rt. rt_document_id rt = i) (\<lambda>rt. rt\<lparr>rt_is_canonical := False\<rparr>) (routes db)"
  let ?promote = "\<lambda>x. x\<lparr>rt_document_id := (if rt_document_id x = i then i else rt_document_id x),
     rt_is_canonical := (if rt_document_id x = i then True else rt_is_canonical x)\<rparr>"
  have ex: "exists_where ?here ?d = (\<exists>rt \<in> set (routes db). ?here rt)"
    by (subst exists_where_update) (simp_all add: exists_where_iff)
  have up': "(if exists_where ?here ?d then Inr (db\<lparr>routes := update_where ?here ?promote ?d\<rparr>)
      else if \<not> exists_where (\<lambda>d. d_id d = i) (documents db) then Inl fk_failed
      else Inr (db\<lparr>routes := ?d @ [\<lparr>rt_site_id = site, rt_path = path, rt_document_id = i,
         rt_is_canonical = True, rt_created_at = now\<rparr>]\<rparr>)) = Inr db'"
    using up by (simp add: sql_upsert_route_def Let_def cong: if_cong)
  have "update_where ?here ?promote ?d = map (reroute site path i) (routes db)"
    unfolding update_where_def map_map
  proof (rule map_cong [OF refl])
    fix rt assume rt: "rt \<in> set (routes db)"
    show "((\<lambda>r. if ?here r then ?promote r else r) \<circ> ?demote) rt = reroute site path i rt"
      using rt free by (cases "?here rt") (simp_all add: reroute_def path_free_def)
  qed
  moreover have "?d = map (reroute site path i) (routes db)" if "\<not> (\<exists>rt \<in> set (routes db). ?here rt)"
    unfolding update_where_def
  proof (rule map_cong [OF refl])
    fix rt assume "rt \<in> set (routes db)"
    then have "\<not> ?here rt" using that by blast
    then show "?demote rt = reroute site path i rt" by (auto simp: reroute_def)
  qed
  ultimately show ?thesis
    using up' unfolding ex route_published_def
    by (cases "\<exists>rt \<in> set (routes db). ?here rt") (simp_all only: if_True if_False not_True_eq_False
        append_Nil2 sum.inject sum.simps simp_thms split: if_splits)
qed

lemma published_document_fun:
  "published_document rid now = (\<lambda>x. x\<lparr>d_status := Published, d_published_revision_id := Some rid, d_updated_at := now\<rparr>)"
  by (simp add: published_document_def fun_eq_iff)

lemma publish_effect:
  assumes inv: "db_inv E db" and pub: "publish_in_transaction_at i rid now db = Inr (u, db')"
  obtains d r s path where
    "d \<in> set (documents db)" "d_id d = i" "r \<in> set (revisions db)" "r_id r = rid" "r_document_id r = i"
    "revision_from_json (r_snapshot_json r) = Some s"
    "revision_category_route_path db (d_site_id d) i rid (rev_slug s) True = Inr path"
    "published_as d r path now db db'"
proof -
  from pub obtain r s d path db1 db2 where
    r: "row_where (\<lambda>r. r_id r = rid \<and> r_document_id r = i) (revisions db) = Some r"
    and s: "revision_from_json (r_snapshot_json r) = Some s"
    and d: "row_where (\<lambda>d. d_id d = i) (documents db) = Some d"
    and path: "revision_category_route_path db (d_site_id d) i rid (rev_slug s) True = Inr path"
    and free: "path_free db (d_site_id d) i path"
    and up: "sql_upsert_route \<lparr>rt_site_id = d_site_id d, rt_path = path, rt_document_id = i,
         rt_is_canonical = True, rt_created_at = now\<rparr>
       (db\<lparr>routes := update_where (\<lambda>rt. rt_document_id rt = i) (\<lambda>rt. rt\<lparr>rt_is_canonical := False\<rparr>) (routes db)\<rparr>) = Inr db1"
    and item: "ensure_series_item_for_revision_in_transaction (d_site_id d) i rid now db1 = Inr db2"
    and upd: "sql_update_documents (\<lambda>x. d_id x = i) (published_document rid now) db2 = Inr db'"
    unfolding publish_in_transaction_at_def Let_def published_document_fun
    by (auto simp: and_then_eq_Inr map_err_eq_Inr reject_if_eq_Inr ok_or_eq_Inr route_available_iff)
  have rr: "r \<in> set (revisions db)" "r_id r = rid" "r_document_id r = i" and dd: "d \<in> set (documents db)" "d_id d = i"
    using row_where_Some [OF r] row_where_Some [OF d] by simp_all
  obtain items where "db2 = db1\<lparr>series_items := items\<rparr>"
    using ensure_series_item_effect [OF item] by blast
  with upsert_routes [OF up free] sql_update_documents_effect [OF upd]
  have "published_as d r path now db db'"
    using rr dd free by (auto simp: published_as_def)
  with rr dd s path show thesis by (intro that [of d r s path])
qed

end
