(* ===== verification/Custom_Css.thy ===== *)
theory Custom_Css
  imports Content_Types
begin

text \<open>
  The validation of owner-supplied style sheets in \<open>crates/storage-sqlite/src/lib.rs\<close>
  (\<open>validate_custom_css\<close> and the scanners it calls), on the UTF-8 bytes of the text.
\<close>

section \<open>Scanners\<close>

datatype ScanState = ScanNormal | SingleQuoted | DoubleQuoted | Comment

definition u32_max :: nat where
  "u32_max = 2 ^ 32 - 1"

text \<open>
  One turn of the loop on a byte and its successor: the next state, the next depth (a
  saturating \<open>u32\<close>), and whether the cursor skips the successor.
\<close>

definition css_step :: "ScanState \<Rightarrow> nat \<Rightarrow> nat \<Rightarrow> nat option \<Rightarrow> string + ScanState \<times> nat \<times> bool" where
  "css_step state depth b next =
     (case state of
        ScanNormal \<Rightarrow>
          if b = 47 \<and> next = Some 42 then Inr (Comment, depth, True)
          else if b = 39 then Inr (SingleQuoted, depth, False)
          else if b = 34 then Inr (DoubleQuoted, depth, False)
          else if b = 123 then Inr (ScanNormal, min (depth + 1) u32_max, False)
          else if b = 125
          then (if depth = 0 then Inl ''custom CSS contains an unmatched closing brace''
                else Inr (ScanNormal, depth - 1, False))
          else Inr (ScanNormal, depth, False)
      | SingleQuoted \<Rightarrow> Inr (if b = 39 then ScanNormal else SingleQuoted, depth, False)
      | DoubleQuoted \<Rightarrow> Inr (if b = 34 then ScanNormal else DoubleQuoted, depth, False)
      | Comment \<Rightarrow>
          if b = 42 \<and> next = Some 47 then Inr (ScanNormal, depth, True)
          else Inr (Comment, depth, False))"

definition first_byte :: "nat list \<Rightarrow> nat option" where
  "first_byte xs = (case xs of [] \<Rightarrow> None | x # _ \<Rightarrow> Some x)"

fun css_scan :: "ScanState \<Rightarrow> nat \<Rightarrow> nat list \<Rightarrow> string + ScanState \<times> nat" where
  "css_scan state depth [] = Inr (state, depth)"
| "css_scan state depth (b # rest) =
     (case css_step state depth b (first_byte rest) of
        Inl e \<Rightarrow> Inl e
      | Inr (state', depth', skip) \<Rightarrow> css_scan state' depth' (if skip then tl rest else rest))"

definition validate_css_block_structure :: "rstr \<Rightarrow> RepositoryError + unit" where
  "validate_css_block_structure value =
     (case css_scan ScanNormal 0 (utf8_string value) of
        Inl e \<Rightarrow> Inl (Validation e)
      | Inr (state, depth) \<Rightarrow>
          if state \<noteq> ScanNormal
          then Inl (Validation ''custom CSS contains an unterminated string or comment'')
          else if depth \<noteq> 0 then Inl (Validation ''custom CSS contains an unclosed block'')
          else Inr ())"

text \<open>The text after the first occurrence of a pattern, as \<open>str::find\<close> locates it.\<close>

fun after_first :: "nat list \<Rightarrow> nat list \<Rightarrow> nat list option" where
  "after_first pat [] = (if pat = [] then Some [] else None)"
| "after_first pat (x # xs) =
     (if starts_with (x # xs) pat then Some (drop (length pat) (x # xs)) else after_first pat xs)"

lemma after_first_shorter: "after_first pat xs = Some r \<Longrightarrow> pat \<noteq> [] \<Longrightarrow> length r < length xs"
  by (induction pat xs rule: after_first.induct) (auto simp: neq_Nil_conv split: if_splits)

text \<open>The search for a function name \<open>c # cs\<close>; after a miss it continues behind the name.\<close>

function css_function_scan :: "nat \<Rightarrow> nat list \<Rightarrow> nat list \<Rightarrow> bool" where
  "css_function_scan c cs value =
     (case after_first (c # cs) value of
        None \<Rightarrow> False
      | Some rest \<Rightarrow>
          starts_with (dropWhile is_ascii_whitespace rest) [40]
          \<or> (rest \<noteq> [] \<and> css_function_scan c cs rest))"
  by pat_completeness auto
termination
  by (relation "measure (\<lambda>(c, cs, value). length value)") (auto dest: after_first_shorter)

declare css_function_scan.simps [simp del]

text \<open>No caller asks for the empty name.\<close>

definition contains_css_function :: "rstr \<Rightarrow> string \<Rightarrow> bool" where
  "contains_css_function value name =
     (case lit name of [] \<Rightarrow> False | c # cs \<Rightarrow> css_function_scan c cs (utf8_string value))"

definition unsafe_css_fragment :: "rstr \<Rightarrow> bool" where
  "unsafe_css_fragment value =
     (let lower = to_ascii_lowercase value in
      60 \<in> set value \<or> 62 \<in> set value \<or> 92 \<in> set value
      \<or> 64 \<in> set lower
      \<or> contains_str lower (lit ''http:'') \<or> contains_str lower (lit ''https:'')
      \<or> contains_str lower (lit ''data:'') \<or> contains_str lower (lit ''javascript:'')
      \<or> contains_str lower (lit ''//'') \<or> contains_str lower (lit ''expression('')
      \<or> contains_str lower (lit ''behavior:'') \<or> contains_str lower (lit ''-moz-binding'')
      \<or> contains_css_function lower ''url'' \<or> contains_css_function lower ''image-set''
      \<or> contains_css_function lower ''src'')"

definition validate_custom_css :: "rstr option \<Rightarrow> RepositoryError + rstr option" where
  "validate_custom_css value =
     (case value of None \<Rightarrow> Inr None
      | Some v0 \<Rightarrow>
          let v = trim v0 in
          if v = [] then Inr None
          else
            and_then (reject_if (byte_len v > 64 * 1024) (Validation ''custom CSS must not exceed 65536 bytes'')) (\<lambda>_.
            and_then (reject_if (contains_nul v
                 \<or> list_ex (\<lambda>c. is_control c \<and> c \<noteq> 10 \<and> c \<noteq> 13 \<and> c \<noteq> 9) v)
               (Validation ''custom CSS contains unsupported control characters'')) (\<lambda>_.
            and_then (reject_if (unsafe_css_fragment v)
               (Validation ''custom CSS must not contain HTML, at-rules, escapes, or external resource loaders'')) (\<lambda>_.
            and_then (validate_css_block_structure v) (\<lambda>_.
              Inr (Some v))))))"

section \<open>The search for a function call is exact\<close>

lemma after_first_here: "after_first pat (pat @ zs) = Some zs"
proof (cases "pat @ zs")
  case Nil
  then show ?thesis by simp
next
  case (Cons x xs)
  then have "starts_with (x # xs) pat" unfolding starts_with_iff by metis
  moreover have "drop (length pat) (x # xs) = zs" unfolding Cons [symmetric] by simp
  ultimately show ?thesis unfolding Cons by simp
qed

lemma after_first_split: "after_first pat xs = Some r \<Longrightarrow> \<exists>us. xs = us @ pat @ r"
proof (induction pat xs rule: after_first.induct)
  case (1 pat)
  then show ?case by (simp split: if_splits)
next
  case (2 pat x xs)
  show ?case
  proof (cases "starts_with (x # xs) pat")
    case True
    then obtain zs where zs: "x # xs = pat @ zs" unfolding starts_with_iff by blast
    with 2(2) have "zs = r" by (simp only: after_first_here option.inject)
    with zs show ?thesis by (intro exI [of _ "[]"]) simp
  next
    case False
    with 2 obtain us where "xs = us @ pat @ r" by auto
    then have "x # xs = (x # us) @ pat @ r" by simp
    then show ?thesis by blast
  qed
qed

text \<open>The occurrence found is the first: no other starts further left.\<close>

lemma after_first_first:
  "after_first pat (us @ pat @ vs) = Some r \<Longrightarrow> \<exists>us'. us @ pat @ vs = us' @ pat @ r \<and> length us' \<le> length us"
proof (induction us)
  case Nil
  then show ?case by (simp add: after_first_here)
next
  case (Cons u us)
  show ?case
  proof (cases "starts_with ((u # us) @ pat @ vs) pat")
    case True
    then obtain zs where zs: "(u # us) @ pat @ vs = pat @ zs" unfolding starts_with_iff by blast
    with Cons.prems have "zs = r" by (simp only: after_first_here option.inject)
    with zs show ?thesis by (intro exI [of _ "[]"]) simp
  next
    case False
    with Cons.prems Cons.IH obtain us' where "us @ pat @ vs = us' @ pat @ r" "length us' \<le> length us" by auto
    then show ?thesis by (intro exI [of _ "u # us'"]) simp
  qed
qed

lemma after_first_complete: "\<exists>r. after_first pat (us @ pat @ vs) = Some r"
proof (induction us)
  case Nil
  then show ?case by (simp add: after_first_here)
next
  case (Cons u us)
  then show ?case by auto
qed

text \<open>A name without borders does not overlap itself.\<close>

definition unbordered :: "nat list \<Rightarrow> bool" where
  "unbordered pat \<longleftrightarrow> (\<forall>k \<in> {1..<length pat}. drop k pat \<noteq> take (length pat - k) pat)"

lemma unbordered_no_overlap:
  assumes "us' @ pat @ r = us @ pat @ vs" and "length us' < length us" and "unbordered pat"
  shows "\<exists>zs. us = us' @ pat @ zs \<and> r = zs @ pat @ vs"
proof -
  obtain z where "us' = us @ z \<or> us' @ z = us \<and> pat @ r = z @ (pat @ vs)"
    using assms(1) unfolding append_eq_append_conv2 by blast
  with assms(2) have us: "us = us' @ z" and z: "pat @ r = z @ (pat @ vs)" "z \<noteq> []" by auto
  from z(1) consider (overlap) w where "pat = z @ w" "w @ r = pat @ vs" | (apart) w where "z = pat @ w" "r = w @ pat @ vs"
    unfolding append_eq_append_conv2 by metis
  then show ?thesis
  proof cases
    case overlap
    then have len: "length w \<le> length pat" by simp
    have "take (length w) (w @ r) = take (length w) pat"
      unfolding overlap(2) using len by simp
    then have "w = take (length w) pat" by simp
    moreover have "w = drop (length z) pat" "length w = length pat - length z" using overlap(1) by simp_all
    ultimately have border: "drop (length z) pat = take (length pat - length z) pat" by simp
    show ?thesis
    proof (cases "w = []")
      case True
      with overlap us show ?thesis by (intro exI [of _ "[]"]) simp
    next
      case False
      with overlap(1) z(2) have "length z \<in> {1..<length pat}" by (auto simp: Suc_le_eq)
      with border assms(3) show ?thesis by (simp add: unbordered_def)
    qed
  next
    case apart
    with us show ?thesis by auto
  qed
qed

lemma css_function_scan_sound:
  "css_function_scan c cs value \<Longrightarrow>
   \<exists>us ws vs. value = us @ (c # cs) @ ws @ 40 # vs \<and> (\<forall>w \<in> set ws. is_ascii_whitespace w)"
proof (induction c cs "value" rule: css_function_scan.induct)
  case (1 c cs "value")
  then obtain rest where rest: "after_first (c # cs) value = Some rest"
    and hit: "starts_with (dropWhile is_ascii_whitespace rest) [40] \<or> (rest \<noteq> [] \<and> css_function_scan c cs rest)"
    by (subst (asm) css_function_scan.simps) (auto split: option.splits)
  obtain us where v: "value = us @ (c # cs) @ rest" using after_first_split [OF rest] by blast
  from hit show ?case
  proof
    assume "starts_with (dropWhile is_ascii_whitespace rest) [40]"
    then obtain vs where "dropWhile is_ascii_whitespace rest = 40 # vs" by (auto simp: starts_with_iff)
    then have "rest = takeWhile is_ascii_whitespace rest @ 40 # vs" by (metis takeWhile_dropWhile_id)
    with v show ?thesis by (metis set_takeWhileD)
  next
    assume "rest \<noteq> [] \<and> css_function_scan c cs rest"
    with 1 rest obtain us' ws vs where "rest = us' @ (c # cs) @ ws @ 40 # vs" "\<forall>w \<in> set ws. is_ascii_whitespace w"
      by blast
    with v have "value = (us @ (c # cs) @ us') @ (c # cs) @ ws @ 40 # vs" by simp
    with \<open>\<forall>w \<in> set ws. is_ascii_whitespace w\<close> show ?thesis by blast
  qed
qed

lemma css_function_scan_complete:
  assumes "unbordered (c # cs)" and "value = us @ (c # cs) @ ws @ 40 # vs" and "\<forall>w \<in> set ws. is_ascii_whitespace w"
  shows "css_function_scan c cs value"
  using assms
proof (induction c cs "value" arbitrary: us rule: css_function_scan.induct)
  case (1 c cs "value")
  obtain rest where rest: "after_first (c # cs) value = Some rest"
    using after_first_complete [of "c # cs" us "ws @ 40 # vs"] unfolding 1(3) by blast
  then obtain us' where us': "us @ (c # cs) @ ws @ 40 # vs = us' @ (c # cs) @ rest" "length us' \<le> length us"
    using after_first_first [of "c # cs" us "ws @ 40 # vs"] unfolding 1(3) by blast
  show ?case
  proof (cases "length us' = length us")
    case True
    with us'(1) have "us = us' \<and> (c # cs) @ ws @ 40 # vs = (c # cs) @ rest"
      by (subst (asm) append_eq_append_conv) simp_all
    then have "rest = ws @ 40 # vs" by simp
    then have "starts_with (dropWhile is_ascii_whitespace rest) [40]"
      using 1(4) by (simp add: dropWhile_append is_ascii_whitespace_def)
    with rest show ?thesis by (simp add: css_function_scan.simps [of c cs "value"])
  next
    case False
    with us'(2) have "length us' < length us" by simp
    then obtain zs where zs: "rest = zs @ (c # cs) @ ws @ 40 # vs"
      using unbordered_no_overlap [OF us'(1) [symmetric] _ 1(2)] by blast
    then have "css_function_scan c cs rest" using 1(1) [OF rest 1(2) zs 1(4)] by simp
    with rest zs show ?thesis by (subst css_function_scan.simps) simp
  qed
qed

text \<open>
  The search for loader functions is exact: for the names the validator looks for, it
  answers yes exactly when the name occurs in the text followed by an opening parenthesis,
  with nothing but ASCII white space in between.
\<close>

theorem contains_css_function_iff:
  assumes n: "n = ''url'' \<or> n = ''image-set'' \<or> n = ''src''"
  shows "contains_css_function value n \<longleftrightarrow>
     (\<exists>us ws vs. utf8_string value = us @ lit n @ ws @ 40 # vs \<and> (\<forall>w \<in> set ws. is_ascii_whitespace w))"
proof -
  have "unbordered (lit ''url'')" "unbordered (lit ''image-set'')" "unbordered (lit ''src'')" by code_simp+
  with n have un: "unbordered (lit n)" by auto
  from n obtain c cs where lit: "lit n = c # cs" by (auto simp: lit_def)
  show ?thesis
    using css_function_scan_sound [of c cs "utf8_string value"]
      css_function_scan_complete [OF un [unfolded lit], of "utf8_string value"]
    unfolding contains_css_function_def lit by (auto simp del: append_Cons)
qed

theorem contains_css_function_iff_witness:
  "contains_css_function (lit ''a: url (x)'') ''url'' \<and>
   (\<exists>us ws vs. utf8_string (lit ''a: url (x)'') = us @ lit ''url'' @ ws @ 40 # vs
      \<and> (\<forall>w \<in> set ws. is_ascii_whitespace w))"
proof -
  have "contains_css_function (lit ''a: url (x)'') ''url''" by code_simp
  with contains_css_function_iff [of "''url''" "lit ''a: url (x)''"] show ?thesis by auto
qed

section \<open>An accepted style sheet stays inside the block that wraps it\<close>

lemma css_step_skip: "css_step st d b n = Inr (st', d', True) \<Longrightarrow> \<exists>x. n = Some x"
  by (auto simp: css_step_def split: ScanState.splits if_splits)

text \<open>A closing brace behind the text is not the second byte of any comment delimiter.\<close>

lemma css_step_brace: "css_step st d b (Some 125) = css_step st d b None"
  by (simp add: css_step_def split: ScanState.splits)

lemma css_scan_append_brace:
  "css_scan st d xs = Inr (st', d') \<Longrightarrow> css_scan st d (xs @ 125 # ys) = css_scan st' d' (125 # ys)"
proof (induction st d xs rule: css_scan.induct)
  case (1 st d)
  then show ?case by simp
next
  case (2 st d b rest)
  have "css_step st d b (first_byte (rest @ 125 # ys)) = css_step st d b (first_byte rest)"
    by (cases rest) (simp_all add: first_byte_def css_step_brace)
  moreover obtain s1 d1 skip where step: "css_step st d b (first_byte rest) = Inr (s1, d1, skip)"
    using "2.prems" by (auto split: sum.splits)
  moreover have "skip \<longrightarrow> rest \<noteq> []"
    using css_step_skip [of st d b "first_byte rest" s1 d1] step by (auto simp: first_byte_def)
  ultimately show ?case using 2 by (cases skip) (auto simp: tl_append split: list.splits)
qed

text \<open>One more enclosing block shifts every depth by one, as nothing saturates.\<close>

lemma css_step_shift:
  "css_step st d b n = Inr (st', d', skip) \<Longrightarrow> d + 1 < u32_max \<Longrightarrow>
   css_step st (d + 1) b n = Inr (st', d' + 1, skip) \<and> d' \<le> d + 1"
  by (auto simp: css_step_def split: ScanState.splits if_splits)

lemma css_scan_shift:
  "css_scan st d xs = Inr (st', d') \<Longrightarrow> d + length xs < u32_max \<Longrightarrow>
   css_scan st (d + 1) xs = Inr (st', d' + 1)"
proof (induction st d xs rule: css_scan.induct)
  case (1 st d)
  then show ?case by simp
next
  case (2 st d b rest)
  obtain s1 d1 skip where step: "css_step st d b (first_byte rest) = Inr (s1, d1, skip)"
    using "2.prems"(1) by (auto split: sum.splits)
  from css_step_shift [OF step] "2.prems"(2)
  have up: "css_step st (d + 1) b (first_byte rest) = Inr (s1, d1 + 1, skip)" "d1 \<le> d + 1" by simp_all
  have "d1 + length (if skip then tl rest else rest) < u32_max"
    using up(2) "2.prems"(2) by auto
  with "2.IH" [OF step refl refl] "2.prems"(1) step up(1) show ?case by simp
qed

text \<open>The depth of every prefix at which the scanner stands between two steps.\<close>

fun css_depths :: "ScanState \<Rightarrow> nat \<Rightarrow> nat list \<Rightarrow> nat list" where
  "css_depths state depth [] = [depth]"
| "css_depths state depth (b # rest) = depth #
     (case css_step state depth b (first_byte rest) of
        Inl e \<Rightarrow> []
      | Inr (state', depth', skip) \<Rightarrow> css_depths state' depth' (if skip then tl rest else rest))"

lemma css_depths_shift:
  "css_scan st d xs = Inr (st', d') \<Longrightarrow> d + length xs < u32_max \<Longrightarrow>
   css_depths st (d + 1) xs = map (\<lambda>n. n + 1) (css_depths st d xs)"
proof (induction st d xs rule: css_scan.induct)
  case (1 st d)
  then show ?case by simp
next
  case (2 st d b rest)
  obtain s1 d1 skip where step: "css_step st d b (first_byte rest) = Inr (s1, d1, skip)"
    using "2.prems"(1) by (auto split: sum.splits)
  from css_step_shift [OF step] "2.prems"(2)
  have up: "css_step st (d + 1) b (first_byte rest) = Inr (s1, d1 + 1, skip)" "d1 \<le> d + 1" by simp_all
  have "d1 + length (if skip then tl rest else rest) < u32_max"
    using up(2) "2.prems"(2) by auto
  with "2.IH" [OF step refl refl] "2.prems"(1) step up(1) show ?case by simp
qed



end
