(* ===== verification/Store_Sites.thy ===== *)
theory Store_Sites
  imports Store_Documents Custom_Css
begin

text \<open>
  Accounts, sites, memberships, categories and series of the SQLite repository, and the
  document operations that a site owner or writer performs. As in theory \<open>Store\<close>, a statement
  checks the constraints of its table; SQLite does not say which of several violated
  constraints it reports, and the model takes them in the order of the schema.
\<close>

section \<open>Normalisation of names\<close>

fun decimal :: "nat \<Rightarrow> string" where
  "decimal n = (if n < 10 then [char_of (48 + n)] else decimal (n div 10) @ [char_of (48 + n mod 10)])"

declare decimal.simps [simp del]

definition quote :: char where
  "quote = CHR 0x27"

definition text_of :: "rstr \<Rightarrow> string" where
  "text_of s = map char_of s"

definition valid_handle :: "rstr \<Rightarrow> bool" where
  "valid_handle s \<longleftrightarrow> s \<noteq> [] \<and> byte_len s \<le> 40 \<and> is_ascii s \<and> hd s \<noteq> 45 \<and> last s \<noteq> 45
     \<and> (\<forall>c \<in> set s. is_ascii_lowercase c \<or> is_ascii_digit c \<or> c = 45)"

definition normalize_handle :: "rstr \<Rightarrow> string \<Rightarrow> RepositoryError + rstr" where
  "normalize_handle value field =
     (let normalized = to_ascii_lowercase (trim value) in
      if normalized = [] \<or> byte_len normalized > 40 \<or> \<not> is_ascii normalized
         \<or> starts_with normalized (lit ''-'') \<or> ends_with normalized (lit ''-'')
         \<or> list_ex (\<lambda>c. \<not> is_ascii_lowercase c \<and> \<not> is_ascii_digit c \<and> c \<noteq> 45) normalized
      then Inl (Validation (field @ '' must contain 1-40 lowercase ASCII letters, digits, or interior hyphens''))
      else Inr normalized)"

fun split_char :: "nat \<Rightarrow> rstr \<Rightarrow> rstr list" where
  "split_char sep [] = [[]]"
| "split_char sep (c # s) =
     (if c = sep then [] # split_char sep s
      else case split_char sep s of [] \<Rightarrow> [[c]] | p # ps \<Rightarrow> (c # p) # ps)"

definition normalize_email :: "rstr \<Rightarrow> RepositoryError + rstr" where
  "normalize_email value =
     (let normalized = to_ascii_lowercase (trim value);
          parts = split_char 64 normalized;
          local = (if parts = [] then [] else hd parts);
          domain = (if length parts < 2 then [] else parts ! 1) in
      if byte_len normalized > 320 \<or> \<not> is_ascii normalized \<or> local = [] \<or> domain = []
         \<or> length parts > 2
         \<or> list_ex (\<lambda>c. is_ascii_whitespace c \<or> is_ascii_control c) normalized
      then Inl (Validation ''email must be a valid ASCII address'')
      else Inr normalized)"

definition validate_required_text :: "rstr \<Rightarrow> string \<Rightarrow> nat \<Rightarrow> RepositoryError + rstr" where
  "validate_required_text value field max_chars =
     (let v = trim value in
      if v = [] \<or> length v > max_chars \<or> contains_nul v
      then Inl (Validation (field @ '' must contain 1-'' @ decimal max_chars @ '' characters''))
      else Inr v)"

definition validate_optional_text :: "rstr option \<Rightarrow> string \<Rightarrow> nat \<Rightarrow> RepositoryError + rstr option" where
  "validate_optional_text value field max_chars =
     (case map_option trim value of
        None \<Rightarrow> Inr None
      | Some v \<Rightarrow>
          if v = [] then Inr None
          else if length v > max_chars \<or> contains_nul v
          then Inl (Validation (field @ '' must not exceed '' @ decimal max_chars @ '' characters''))
          else Inr (Some v))"

definition validate_password_phc :: "rstr \<Rightarrow> RepositoryError + unit" where
  "validate_password_phc value =
     reject_if (\<not> starts_with value (lit ''$argon2id$'') \<or> byte_len value > 1024 \<or> contains_nul value
          \<or> 13 \<in> set value \<or> 10 \<in> set value)
       (Validation ''password must be stored as a bounded Argon2id PHC string'')"

definition normalize_category_slug :: "rstr \<Rightarrow> RepositoryError + rstr" where
  "normalize_category_slug value = normalize_handle value ''category slug''"

definition RESERVED_CATEGORY_SLUGS :: "string list" where
  "RESERVED_CATEGORY_SLUGS = [''api'', ''assets'', ''blog'', ''docs'', ''healthz'', ''livez'', ''login'',
     ''media'', ''onboarding'', ''openapi'', ''providers'', ''references'', ''readyz'', ''schemas'',
     ''studio'', ''vendor'']"

definition normalize_new_category_slug :: "rstr \<Rightarrow> RepositoryError + rstr" where
  "normalize_new_category_slug value =
     and_then (normalize_category_slug value) (\<lambda>slug.
     and_then (reject_if (slug \<in> set (map lit RESERVED_CATEGORY_SLUGS))
        (Validation (''category slug '' @ [quote] @ text_of slug @ [quote] @ '' is reserved by the application''))) (\<lambda>_.
       Inr slug))"

section \<open>Statements\<close>

definition sql_insert_user :: "UserRecord \<Rightarrow> db \<Rightarrow> sql_error + db" where
  "sql_insert_user row db =
     (if to_ascii_lowercase (u_email row) \<noteq> u_email row
      then Inl ''CHECK constraint failed: email = lower(email)''
      else if to_ascii_lowercase (u_handle row) \<noteq> u_handle row
      then Inl ''CHECK constraint failed: handle = lower(handle)''
      else if u_handle row = [] \<or> length (u_handle row) > 40
      then Inl ''CHECK constraint failed: length(handle) BETWEEN 1 AND 40''
      else if list_ex (\<lambda>c. \<not> is_ascii_lowercase c \<and> \<not> is_ascii_digit c \<and> c \<noteq> 45) (u_handle row)
      then Inl (''CHECK constraint failed: handle NOT GLOB '' @ [quote] @ ''*[^a-z0-9-]*'' @ [quote])
      else if \<not> starts_with (to_ascii_lowercase (u_password_phc row)) (lit ''$argon2id$'')
      then Inl (''CHECK constraint failed: password_phc LIKE '' @ [quote] @ ''$argon2id$%'' @ [quote])
      else if exists_where (\<lambda>x. u_id x = u_id row) (users db) then Inl (unique_failed ''users.id'')
      else if exists_where (\<lambda>x. nocase_eq (u_email x) (u_email row)) (users db)
      then Inl (unique_failed ''users.email'')
      else if exists_where (\<lambda>x. nocase_eq (u_handle x) (u_handle row)) (users db)
      then Inl (unique_failed ''users.handle'')
      else Inr (db\<lparr>users := users db @ [row]\<rparr>))"

definition sql_insert_site :: "site_row \<Rightarrow> db \<Rightarrow> sql_error + db" where
  "sql_insert_site row db =
     (if st_current_theme_revision row \<le> 0
      then Inl ''CHECK constraint failed: current_theme_revision > 0''
      else if to_ascii_lowercase (st_handle row) \<noteq> st_handle row
      then Inl ''CHECK constraint failed: handle = lower(handle)''
      else if st_handle row = [] \<or> length (st_handle row) > 40
      then Inl ''CHECK constraint failed: length(handle) BETWEEN 1 AND 40''
      else if list_ex (\<lambda>c. \<not> is_ascii_lowercase c \<and> \<not> is_ascii_digit c \<and> c \<noteq> 45) (st_handle row)
      then Inl (''CHECK constraint failed: handle NOT GLOB '' @ [quote] @ ''*[^a-z0-9-]*'' @ [quote])
      else if exists_where (\<lambda>x. st_id x = st_id row) (sites db) then Inl (unique_failed ''sites.id'')
      else if exists_where (\<lambda>x. nocase_eq (st_handle x) (st_handle row)) (sites db)
      then Inl (unique_failed ''sites.handle'')
      else Inr (db\<lparr>sites := sites db @ [row]\<rparr>))"

text \<open>A site has at most one owner (\<open>site_single_owner_idx\<close>).\<close>

definition sql_insert_membership :: "SiteMembershipRecord \<Rightarrow> db \<Rightarrow> sql_error + db" where
  "sql_insert_membership row db =
     (if exists_where (\<lambda>x. m_site_id x = m_site_id row \<and> m_user_id x = m_user_id row) (site_memberships db)
      then Inl (unique_failed ''site_memberships.site_id, site_memberships.user_id'')
      else if m_role row = Owner
         \<and> exists_where (\<lambda>x. m_site_id x = m_site_id row \<and> m_role x = Owner) (site_memberships db)
      then Inl (unique_failed ''site_memberships.site_id'')
      else if \<not> exists_where (\<lambda>s. st_id s = m_site_id row) (sites db)
         \<or> \<not> exists_where (\<lambda>u. u_id u = m_user_id row) (users db)
      then Inl fk_failed
      else Inr (db\<lparr>site_memberships := site_memberships db @ [row]\<rparr>))"

definition sql_insert_theme_revision :: "theme_revision_row \<Rightarrow> db \<Rightarrow> sql_error + db" where
  "sql_insert_theme_revision row db =
     (if tr_revision row \<le> 0 then Inl ''CHECK constraint failed: revision > 0''
      else if opt_any (\<lambda>css. byte_len css > 65536) (tr_custom_css row)
      then Inl ''CHECK constraint failed: custom_css IS NULL OR length(CAST(custom_css AS BLOB)) <= 65536''
      else if exists_where (\<lambda>x. tr_site_id x = tr_site_id row \<and> tr_revision x = tr_revision row)
         (site_theme_revisions db)
      then Inl (unique_failed ''site_theme_revisions.site_id, site_theme_revisions.revision'')
      else if \<not> exists_where (\<lambda>s. st_id s = tr_site_id row) (sites db)
         \<or> \<not> exists_where (\<lambda>u. u_id u = tr_created_by_user_id row) (users db)
      then Inl fk_failed
      else Inr (db\<lparr>site_theme_revisions := site_theme_revisions db @ [row]\<rparr>))"

definition sql_insert_category :: "CategoryRecord \<Rightarrow> db \<Rightarrow> sql_error + db" where
  "sql_insert_category row db =
     (if to_ascii_lowercase (c_slug row) \<noteq> c_slug row
      then Inl ''CHECK constraint failed: slug = lower(slug)''
      else if c_slug row = [] \<or> length (c_slug row) > 40
      then Inl ''CHECK constraint failed: length(slug) BETWEEN 1 AND 40''
      else if list_ex (\<lambda>c. \<not> is_ascii_lowercase c \<and> \<not> is_ascii_digit c \<and> c \<noteq> 45) (c_slug row)
      then Inl (''CHECK constraint failed: slug NOT GLOB '' @ [quote] @ ''*[^a-z0-9-]*'' @ [quote])
      else if hd (c_slug row) = 45 \<or> last (c_slug row) = 45
      then Inl (''CHECK constraint failed: substr(slug, 1, 1) != '' @ [quote] @ ''-'' @ [quote] @ '' AND substr(slug, -1, 1) != '' @ [quote] @ ''-'' @ [quote])
      else if exists_where (\<lambda>x. c_id x = c_id row) (categories db) then Inl (unique_failed ''categories.id'')
      else if exists_where (\<lambda>x. c_site_id x = c_site_id row \<and> nocase_eq (c_slug x) (c_slug row)) (categories db)
      then Inl (unique_failed ''categories.site_id, categories.slug'')
      else if \<not> exists_where (\<lambda>s. st_id s = c_site_id row) (sites db)
         \<or> \<not> exists_where (\<lambda>u. u_id u = c_created_by_user_id row) (users db)
      then Inl fk_failed
      else Inr (db\<lparr>categories := categories db @ [row]\<rparr>))"

definition sql_insert_series :: "series_row \<Rightarrow> db \<Rightarrow> sql_error + db" where
  "sql_insert_series row db =
     (if s_home_position row \<le> 0 then Inl ''CHECK constraint failed: home_position > 0''
      else if exists_where (\<lambda>x. s_id x = s_id row) (series db) then Inl (unique_failed ''series.id'')
      else if exists_where (\<lambda>x. s_site_id x = s_site_id row \<and> s_category_id x = s_category_id row) (series db)
      then Inl (unique_failed ''series.site_id, series.category_id'')
      else if \<not> category_fk_ok db (s_site_id row) (Some (s_category_id row))
         \<or> \<not> exists_where (\<lambda>u. u_id u = s_created_by_user_id row) (users db)
      then Inl fk_failed
      else Inr (db\<lparr>series := series db @ [row]\<rparr>))"

text \<open>\<open>INSERT OR IGNORE\<close> ignores every violation but that of a foreign key.\<close>

definition or_ignore :: "('r \<Rightarrow> db \<Rightarrow> sql_error + db) \<Rightarrow> 'r \<Rightarrow> db \<Rightarrow> sql_error + db" where
  "or_ignore statement row db =
     (case statement row db of
        Inr db' \<Rightarrow> Inr db'
      | Inl e \<Rightarrow> if e = fk_failed then Inl e else Inr db)"

section \<open>Accounts and sites\<close>

record SiteRecord =
  site_id :: uuid
  site_handle :: rstr
  site_title :: rstr
  site_description :: "rstr option"
  site_owner_user_id :: uuid
  site_theme_profile :: ThemeProfile
  site_theme_revision :: int
  site_custom_css :: "rstr option"
  site_created_at :: instant
  site_updated_at :: instant

definition load_user_by_id :: "db \<Rightarrow> uuid \<Rightarrow> RepositoryError + UserRecord" where
  "load_user_by_id db i = ok_or NotFound (row_where (\<lambda>u. u_id u = i) (users db))"

definition get_user_by_handle :: "db \<Rightarrow> rstr \<Rightarrow> RepositoryError + UserRecord" where
  "get_user_by_handle db handle =
     and_then (normalize_handle handle ''user handle'') (\<lambda>h.
       ok_or NotFound (row_where (\<lambda>u. nocase_eq (u_handle u) h) (users db)))"

definition find_user_by_email :: "db \<Rightarrow> rstr \<Rightarrow> RepositoryError + UserRecord" where
  "find_user_by_email db email =
     and_then (normalize_email email) (\<lambda>e.
       ok_or NotFound (row_where (\<lambda>u. nocase_eq (u_email u) e) (users db)))"

text \<open>A single statement outside a transaction commits by itself.\<close>

definition create_user ::
  "uuid \<Rightarrow> instant \<Rightarrow> rstr \<Rightarrow> rstr \<Rightarrow> rstr \<Rightarrow> rstr \<Rightarrow> db \<Rightarrow> (RepositoryError + UserRecord) \<times> db" where
  "create_user i now email handle display_name password_phc db =
     (case and_then (normalize_email email) (\<lambda>email.
           and_then (normalize_handle handle ''user handle'') (\<lambda>handle.
           and_then (validate_required_text display_name ''display name'' 100) (\<lambda>display_name.
           and_then (validate_password_phc password_phc) (\<lambda>_.
             map_err map_community_constraint_error (sql_insert_user
               \<lparr>u_id = i, u_email = email, u_handle = handle, u_display_name = display_name,
                u_password_phc = password_phc, u_created_at = now, u_updated_at = now\<rparr> db))))) of
        Inl e \<Rightarrow> (Inl e, db)
      | Inr db' \<Rightarrow> (load_user_by_id db' i, db'))"

text \<open>The join of a site with its owner and its current theme.\<close>

definition site_rows :: "db \<Rightarrow> SiteRecord list" where
  "site_rows db =
     concat (map (\<lambda>s. concat (map (\<lambda>m. map (\<lambda>t.
         \<lparr>site_id = st_id s, site_handle = st_handle s, site_title = st_title s,
          site_description = st_description s, site_owner_user_id = m_user_id m,
          site_theme_profile = tr_profile t, site_theme_revision = tr_revision t,
          site_custom_css = tr_custom_css t, site_created_at = st_created_at s,
          site_updated_at = st_updated_at s\<rparr>)
       (filter (\<lambda>t. tr_site_id t = st_id s \<and> tr_revision t = st_current_theme_revision s) (site_theme_revisions db)))
       (filter (\<lambda>m. m_site_id m = st_id s \<and> m_role m = Owner) (site_memberships db)))) (sites db))"

definition load_site_by_id :: "db \<Rightarrow> uuid \<Rightarrow> uuid option \<Rightarrow> RepositoryError + SiteRecord" where
  "load_site_by_id db i owner =
     ok_or NotFound (row_where (\<lambda>s. site_id s = i \<and> (case owner of None \<Rightarrow> True | Some u \<Rightarrow> site_owner_user_id s = u))
       (site_rows db))"

definition load_sites :: "db \<Rightarrow> uuid option \<Rightarrow> nat \<Rightarrow> SiteRecord list" where
  "load_sites db owner limit =
     take (min limit 500) (order_by_desc (\<lambda>s. (site_created_at s, uint (site_id s)))
       (filter (\<lambda>s. case owner of None \<Rightarrow> True | Some u \<Rightarrow> site_owner_user_id s = u) (site_rows db)))"

definition get_site_by_handle :: "db \<Rightarrow> rstr \<Rightarrow> RepositoryError + SiteRecord" where
  "get_site_by_handle db handle =
     and_then (normalize_handle handle ''site handle'') (\<lambda>h.
     and_then (ok_or NotFound (row_where (\<lambda>s. nocase_eq (st_handle s) h) (sites db))) (\<lambda>s.
       load_site_by_id db (st_id s) None))"

text \<open>After a committed transaction the operation reads the row back.\<close>

definition then_load :: "(db \<Rightarrow> RepositoryError + 'b) \<Rightarrow> (RepositoryError + 'a) \<times> db \<Rightarrow> (RepositoryError + 'b) \<times> db" where
  "then_load load r = (case r of (Inl e, db) \<Rightarrow> (Inl e, db) | (Inr _, db) \<Rightarrow> (load db, db))"

definition create_site ::
  "uuid \<Rightarrow> instant \<Rightarrow> uuid \<Rightarrow> rstr \<Rightarrow> rstr \<Rightarrow> rstr option \<Rightarrow> ThemeProfile \<Rightarrow> db \<Rightarrow>
   (RepositoryError + SiteRecord) \<times> db" where
  "create_site i now owner handle title description theme db =
     (case and_then (normalize_handle handle ''site handle'') (\<lambda>handle.
           and_then (validate_required_text title ''site title'' 200) (\<lambda>title.
           and_then (validate_optional_text description ''site description'' 2000) (\<lambda>description.
             Inr (handle, title, description)))) of
        Inl e \<Rightarrow> (Inl e, db)
      | Inr (handle, title, description) \<Rightarrow>
          then_load (\<lambda>db. load_site_by_id db i None) (transact (\<lambda>db.
            and_then (ensure_user_exists db owner) (\<lambda>_.
            and_then (reject_if (exists_where (\<lambda>m. m_user_id m = owner \<and> m_role m = Owner) (site_memberships db))
               (Validation ''an account can own one site in this deployment'')) (\<lambda>_.
            and_then (map_err map_community_constraint_error (sql_insert_site
               \<lparr>st_id = i, st_handle = handle, st_title = title, st_description = description,
                st_current_theme_revision = 1, st_created_at = now, st_updated_at = now\<rparr> db)) (\<lambda>db.
            and_then (map_err map_community_constraint_error (sql_insert_membership
               \<lparr>m_site_id = i, m_user_id = owner, m_role = Owner, m_created_at = now\<rparr> db)) (\<lambda>db.
            and_then (map_err map_community_constraint_error (sql_insert_theme_revision
               \<lparr>tr_site_id = i, tr_revision = 1, tr_profile = theme, tr_custom_css = None,
                tr_created_by_user_id = owner, tr_created_at = now\<rparr> db)) (\<lambda>db.
              Inr ((), db))))))) db))"

text \<open>\<open>Uuid::simple\<close>: 32 lower-case hexadecimal digits.\<close>

definition hex_digit :: "nat \<Rightarrow> nat" where
  "hex_digit n = (if n < 10 then 48 + n else 87 + n)"

definition uuid_simple :: "uuid \<Rightarrow> rstr" where
  "uuid_simple u = map (\<lambda>i. hex_digit (unat u div 16 ^ i mod 16)) (List.rev [0..<32])"

definition ensure_legacy_site :: "uuid \<Rightarrow> instant \<Rightarrow> db \<Rightarrow> (RepositoryError + SiteRecord) \<times> db" where
  "ensure_legacy_site i now db =
     (case load_site_by_id db i None of
        Inr site \<Rightarrow> (Inr site, db)
      | Inl e \<Rightarrow>
          if e \<noteq> NotFound then (Inl e, db)
          else
            let handle = lit ''legacy-'' @ uuid_simple i; email = handle @ lit ''@localhost'' in
            then_load (\<lambda>db. load_site_by_id db i None) (transact (\<lambda>db.
              and_then (map_err map_community_constraint_error (or_ignore sql_insert_user
                 \<lparr>u_id = i, u_email = email, u_handle = handle, u_display_name = lit ''Legacy owner'',
                  u_password_phc = lit ''$argon2id$disabled-for-legacy-readonly-owner'',
                  u_created_at = now, u_updated_at = now\<rparr> db)) (\<lambda>db.
              and_then (map_err map_community_constraint_error (or_ignore sql_insert_site
                 \<lparr>st_id = i, st_handle = handle, st_title = lit ''Legacy blog'',
                  st_description = Some (lit ''Content retained from the single-site deployment profile.''),
                  st_current_theme_revision = 1, st_created_at = now, st_updated_at = now\<rparr> db)) (\<lambda>db.
              and_then (map_err map_community_constraint_error (or_ignore sql_insert_membership
                 \<lparr>m_site_id = i, m_user_id = i, m_role = Owner, m_created_at = now\<rparr> db)) (\<lambda>db.
              and_then (map_err map_community_constraint_error (or_ignore sql_insert_theme_revision
                 \<lparr>tr_site_id = i, tr_revision = 1, tr_profile = Paper, tr_custom_css = None,
                  tr_created_by_user_id = i, tr_created_at = now\<rparr> db)) (\<lambda>db.
                Inr ((), db)))))) db))"

section \<open>Memberships\<close>

fun can_write :: "SiteMembershipRole \<Rightarrow> bool" where
  "can_write Owner = True" | "can_write Editor = True" | "can_write Writer = True"

definition load_site_membership :: "db \<Rightarrow> uuid \<Rightarrow> uuid \<Rightarrow> RepositoryError + SiteMembershipRecord" where
  "load_site_membership db site user =
     ok_or NotFound (row_where (\<lambda>m. m_site_id m = site \<and> m_user_id m = user) (site_memberships db))"

definition owns_site_in_connection :: "db \<Rightarrow> uuid \<Rightarrow> uuid \<Rightarrow> bool" where
  "owns_site_in_connection db user site =
     exists_where (\<lambda>m. m_site_id m = site \<and> m_user_id m = user \<and> m_role m = Owner) (site_memberships db)"

definition ensure_site_owner :: "db \<Rightarrow> uuid \<Rightarrow> uuid \<Rightarrow> RepositoryError + unit" where
  "ensure_site_owner db user site = reject_if (\<not> owns_site_in_connection db user site) NotFound"

definition ensure_site_writer :: "db \<Rightarrow> uuid \<Rightarrow> uuid \<Rightarrow> RepositoryError + SiteMembershipRole" where
  "ensure_site_writer db user site =
     and_then (load_site_membership db site user) (\<lambda>m.
       if can_write (m_role m) then Inr (m_role m) else Inl NotFound)"

definition role_rank :: "SiteMembershipRole \<Rightarrow> nat" where
  "role_rank r = (case r of Owner \<Rightarrow> 0 | Editor \<Rightarrow> 1 | Writer \<Rightarrow> 2)"

definition list_site_memberships :: "db \<Rightarrow> uuid \<Rightarrow> uuid \<Rightarrow> nat \<Rightarrow> RepositoryError + SiteMembershipRecord list" where
  "list_site_memberships db owner site limit =
     and_then (ensure_site_owner db owner site) (\<lambda>_.
       Inr (take (min limit 500) (order_by (\<lambda>m. (role_rank (m_role m), m_created_at m, uint (m_user_id m)))
         (filter (\<lambda>m. m_site_id m = site) (site_memberships db)))))"

definition list_accessible_sites :: "db \<Rightarrow> uuid \<Rightarrow> nat \<Rightarrow> RepositoryError + SiteRecord list" where
  "list_accessible_sites db user limit =
     collect_results (\<lambda>m. load_site_by_id db (m_site_id m) None)
       (take (min limit 500)
         (order_by (\<lambda>m. (if m_role m = Owner then 0 else 1 :: nat, - m_created_at m, - uint (m_site_id m)))
           (filter (\<lambda>m. m_user_id m = user) (site_memberships db))))"

definition add_site_collaborator ::
  "instant \<Rightarrow> uuid \<Rightarrow> uuid \<Rightarrow> rstr \<Rightarrow> SiteMembershipRole \<Rightarrow> db \<Rightarrow> (RepositoryError + SiteMembershipRecord) \<times> db" where
  "add_site_collaborator now owner site collaborator_email role db =
     (if role = Owner then (Inl (Validation ''owner membership cannot be invited or reassigned''), db)
      else case normalize_email collaborator_email of
        Inl e \<Rightarrow> (Inl e, db)
      | Inr email \<Rightarrow>
          (case transact (\<lambda>db.
             and_then (ensure_site_owner db owner site) (\<lambda>_.
             and_then (ok_or NotFound (row_where (\<lambda>u. nocase_eq (u_email u) email) (users db))) (\<lambda>u.
             and_then (map_err (\<lambda>e. if contains_str e ''site_memberships.site_id''
                  then Validation ''account is already a member of this site''
                  else map_community_constraint_error e)
                (sql_insert_membership
                   \<lparr>m_site_id = site, m_user_id = u_id u, m_role = role, m_created_at = now\<rparr> db)) (\<lambda>db.
               Inr (u_id u, db))))) db of
             (Inl e, db') \<Rightarrow> (Inl e, db')
           | (Inr u, db') \<Rightarrow> (load_site_membership db' site u, db')))"

definition remove_site_collaborator ::
  "uuid \<Rightarrow> uuid \<Rightarrow> uuid \<Rightarrow> db \<Rightarrow> (RepositoryError + SiteMembershipRecord) \<times> db" where
  "remove_site_collaborator owner site collaborator db = transact (\<lambda>db.
     and_then (ensure_site_owner db owner site) (\<lambda>_.
     and_then (load_site_membership db site collaborator) (\<lambda>membership.
     and_then (reject_if (m_role membership = Owner)
        (Validation ''owner membership cannot be removed or demoted'')) (\<lambda>_.
     let hit = (\<lambda>m. m_site_id m = site \<and> m_user_id m = collaborator) in
     and_then (reject_if (length (filter hit (site_memberships db)) \<noteq> 1) NotFound) (\<lambda>_.
       Inr (membership, db\<lparr>site_memberships := filter (\<lambda>m. \<not> hit m) (site_memberships db)\<rparr>)))))) db"

section \<open>Appearance\<close>

definition append_site_appearance_revision ::
  "uuid \<Rightarrow> uuid \<Rightarrow> ThemeProfile \<Rightarrow> rstr option \<Rightarrow> instant \<Rightarrow> db \<Rightarrow> RepositoryError + db" where
  "append_site_appearance_revision owner site theme custom_css now db =
     (let next_revision = fold max (map tr_revision (filter (\<lambda>t. tr_site_id t = site) (site_theme_revisions db))) 0 + 1 in
      and_then (map_err map_community_constraint_error (sql_insert_theme_revision
         \<lparr>tr_site_id = site, tr_revision = next_revision, tr_profile = theme, tr_custom_css = custom_css,
          tr_created_by_user_id = owner, tr_created_at = now\<rparr> db)) (\<lambda>db.
        Inr (db\<lparr>sites := update_where (\<lambda>s. st_id s = site)
               (\<lambda>s. s\<lparr>st_current_theme_revision := next_revision, st_updated_at := now\<rparr>) (sites db)\<rparr>)))"

definition change_site_theme ::
  "instant \<Rightarrow> uuid \<Rightarrow> uuid \<Rightarrow> ThemeProfile \<Rightarrow> db \<Rightarrow> (RepositoryError + SiteRecord) \<times> db" where
  "change_site_theme now owner site theme db =
     then_load (\<lambda>db. load_site_by_id db site (Some owner)) (transact (\<lambda>db.
       and_then (ensure_site_owner db owner site) (\<lambda>_.
       and_then (ok_or (Storage ''Query returned no rows'')
          (row_where (\<lambda>t. exists_where (\<lambda>s. st_id s = site \<and> tr_site_id t = st_id s
               \<and> tr_revision t = st_current_theme_revision s) (sites db)) (site_theme_revisions db))) (\<lambda>current.
       and_then (append_site_appearance_revision owner site theme (tr_custom_css current) now db) (\<lambda>db.
         Inr ((), db))))) db)"

definition change_site_appearance ::
  "instant \<Rightarrow> uuid \<Rightarrow> uuid \<Rightarrow> ThemeProfile \<Rightarrow> rstr option \<Rightarrow> db \<Rightarrow> (RepositoryError + SiteRecord) \<times> db" where
  "change_site_appearance now owner site theme custom_css db =
     (case validate_custom_css custom_css of
        Inl e \<Rightarrow> (Inl e, db)
      | Inr css \<Rightarrow>
          then_load (\<lambda>db. load_site_by_id db site (Some owner)) (transact (\<lambda>db.
            and_then (ensure_site_owner db owner site) (\<lambda>_.
            and_then (append_site_appearance_revision owner site theme css now db) (\<lambda>db.
              Inr ((), db)))) db))"

section \<open>Categories\<close>

record CreateCategoryInput =
  cc_slug :: rstr
  cc_title :: rstr
  cc_description :: "rstr option"
  cc_theme_profile :: "ThemeProfile option"

record UpdateCategoryInput =
  uc_title :: rstr
  uc_description :: "rstr option"
  uc_theme_profile :: "ThemeProfile option"

definition create_category_in_transaction ::
  "uuid \<Rightarrow> instant \<Rightarrow> uuid \<Rightarrow> uuid \<Rightarrow> CreateCategoryInput \<Rightarrow> db \<Rightarrow> RepositoryError + CategoryRecord \<times> db" where
  "create_category_in_transaction i now owner site input db =
     and_then (normalize_new_category_slug (cc_slug input)) (\<lambda>slug.
     and_then (validate_required_text (cc_title input) ''category title'' 200) (\<lambda>title.
     and_then (validate_optional_text (cc_description input) ''category description'' 2000) (\<lambda>description.
     and_then (ensure_category_landing_available db site slug) (\<lambda>_.
     and_then (map_err map_category_constraint_error (sql_insert_category
        \<lparr>c_id = i, c_site_id = site, c_slug = slug, c_title = title, c_description = description,
         c_theme_profile = cc_theme_profile input, c_status = CategoryActive,
         c_created_by_user_id = owner, c_created_at = now, c_updated_at = now\<rparr> db)) (\<lambda>db.
     and_then (load_category_by_id db site i) (\<lambda>category.
       Inr (category, db)))))))"

definition create_category ::
  "uuid \<Rightarrow> instant \<Rightarrow> uuid \<Rightarrow> uuid \<Rightarrow> CreateCategoryInput \<Rightarrow> db \<Rightarrow> (RepositoryError + CategoryRecord) \<times> db" where
  "create_category i now owner site input db = transact (\<lambda>db.
     and_then (ensure_site_owner db owner site) (\<lambda>_.
       create_category_in_transaction i now owner site input db)) db"

definition get_category_by_slug :: "db \<Rightarrow> uuid \<Rightarrow> rstr \<Rightarrow> RepositoryError + CategoryRecord" where
  "get_category_by_slug db site slug =
     and_then (normalize_category_slug slug) (\<lambda>slug. load_category_by_slug db site slug)"

definition sql_update_categories :: "(CategoryRecord \<Rightarrow> CategoryRecord) \<Rightarrow> uuid \<Rightarrow> uuid \<Rightarrow> db \<Rightarrow> db" where
  "sql_update_categories f category site db =
     db\<lparr>categories := update_where (\<lambda>c. c_id c = category \<and> c_site_id c = site) f (categories db)\<rparr>"

definition update_category ::
  "instant \<Rightarrow> uuid \<Rightarrow> uuid \<Rightarrow> uuid \<Rightarrow> UpdateCategoryInput \<Rightarrow> db \<Rightarrow> (RepositoryError + CategoryRecord) \<times> db" where
  "update_category now owner site category input db =
     (case and_then (validate_required_text (uc_title input) ''category title'' 200) (\<lambda>title.
           and_then (validate_optional_text (uc_description input) ''category description'' 2000) (\<lambda>description.
             Inr (title, description))) of
        Inl e \<Rightarrow> (Inl e, db)
      | Inr (title, description) \<Rightarrow>
          then_load (\<lambda>db. load_category_by_id db site category) (transact (\<lambda>db.
            and_then (ensure_site_owner db owner site) (\<lambda>_.
            and_then (load_category_by_id db site category) (\<lambda>_.
              Inr ((), sql_update_categories (\<lambda>c. c\<lparr>c_title := title, c_description := description,
                 c_theme_profile := uc_theme_profile input, c_updated_at := now\<rparr>) category site db)))) db))"

definition archive_category ::
  "instant \<Rightarrow> uuid \<Rightarrow> uuid \<Rightarrow> uuid \<Rightarrow> db \<Rightarrow> (RepositoryError + CategoryRecord) \<times> db" where
  "archive_category now owner site category db =
     then_load (\<lambda>db. load_category_by_id db site category) (transact (\<lambda>db.
       and_then (ensure_site_owner db owner site) (\<lambda>_.
       and_then (load_category_by_id db site category) (\<lambda>c.
         Inr ((), if c_status c = CategoryActive
                  then sql_update_categories (\<lambda>c. c\<lparr>c_status := CategoryArchived, c_updated_at := now\<rparr>) category site db
                  else db)))) db)"

definition category_sort_key :: "CategoryRecord \<Rightarrow> nat \<times> rstr \<times> rstr" where
  "category_sort_key c = (if c_status c = CategoryActive then 0 else 1, c_title c, to_ascii_lowercase (c_slug c))"

definition list_categories :: "db \<Rightarrow> uuid \<Rightarrow> bool \<Rightarrow> nat \<Rightarrow> RepositoryError + CategoryRecord list" where
  "list_categories db site include_archived limit =
     and_then (load_site_by_id db site None) (\<lambda>_.
       Inr (take (min limit 500) (order_by category_sort_key
         (filter (\<lambda>c. c_site_id c = site \<and> (include_archived \<or> c_status c = CategoryActive)) (categories db)))))"

section \<open>Series\<close>

record SeriesRecord =
  sr_id :: uuid
  sr_site_id :: uuid
  sr_category_id :: uuid
  sr_slug :: rstr
  sr_title :: rstr
  sr_description :: "rstr option"
  sr_theme_profile :: "ThemeProfile option"
  sr_status :: CategoryStatus
  sr_home_position :: int
  sr_created_by_user_id :: uuid
  sr_created_at :: instant
  sr_updated_at :: instant

text \<open>A series reads its presentation from the category behind it.\<close>

definition series_rows :: "db \<Rightarrow> SeriesRecord list" where
  "series_rows db =
     concat (map (\<lambda>s. map (\<lambda>c.
         \<lparr>sr_id = s_id s, sr_site_id = s_site_id s, sr_category_id = s_category_id s, sr_slug = c_slug c,
          sr_title = c_title c, sr_description = c_description c, sr_theme_profile = c_theme_profile c,
          sr_status = c_status c, sr_home_position = s_home_position s,
          sr_created_by_user_id = s_created_by_user_id s, sr_created_at = s_created_at s,
          sr_updated_at = max (c_updated_at c) (s_updated_at s)\<rparr>)
       (filter (\<lambda>c. c_id c = s_category_id s \<and> c_site_id c = s_site_id s) (categories db))) (series db))"

definition load_series_by_id :: "db \<Rightarrow> uuid \<Rightarrow> uuid \<Rightarrow> RepositoryError + SeriesRecord" where
  "load_series_by_id db site i =
     ok_or NotFound (row_where (\<lambda>s. sr_id s = i \<and> sr_site_id s = site) (series_rows db))"

definition load_series_by_category_id :: "db \<Rightarrow> uuid \<Rightarrow> uuid \<Rightarrow> RepositoryError + SeriesRecord" where
  "load_series_by_category_id db site category =
     ok_or NotFound (row_where (\<lambda>s. sr_category_id s = category \<and> sr_site_id s = site) (series_rows db))"

definition load_series_by_slug :: "db \<Rightarrow> uuid \<Rightarrow> rstr \<Rightarrow> RepositoryError + SeriesRecord" where
  "load_series_by_slug db site slug =
     ok_or NotFound (row_where (\<lambda>s. sr_site_id s = site \<and> nocase_eq (sr_slug s) slug) (series_rows db))"

definition list_series_with_connection :: "db \<Rightarrow> uuid \<Rightarrow> bool \<Rightarrow> nat \<Rightarrow> SeriesRecord list" where
  "list_series_with_connection db site include_archived limit =
     take (min limit 500)
       (order_by (\<lambda>s. (if sr_status s = CategoryActive then 0 else 1 :: nat, sr_home_position s, uint (sr_id s)))
         (filter (\<lambda>s. sr_site_id s = site \<and> (include_archived \<or> sr_status s = CategoryActive)) (series_rows db)))"

text \<open>\<open>series_position\<close>: checked \<open>u64\<close> arithmetic, then a conversion to \<open>i64\<close>.\<close>

definition series_position :: "nat \<Rightarrow> RepositoryError + int" where
  "series_position index =
     and_then (reject_if (index + 1 \<ge> 2 ^ 64 \<or> (index + 1) * 1024 \<ge> 2 ^ 64)
        (Validation ''series position overflow'')) (\<lambda>_.
     and_then (reject_if ((index + 1) * 1024 \<ge> 2 ^ 63)
        (Validation ''out of range integral type conversion attempted'')) (\<lambda>_.
       Inr (int (index + 1) * SERIES_POSITION_STEP)))"

definition published_in_category :: "db \<Rightarrow> uuid \<Rightarrow> document_row \<Rightarrow> bool" where
  "published_in_category db category d \<longleftrightarrow>
     d_published_revision_id d \<noteq> None \<and> d_status d \<noteq> Archived
     \<and> exists_where (\<lambda>p. Some (p_revision_id p) = d_published_revision_id d \<and> p_document_id p = d_id d
          \<and> p_site_id p = d_site_id d \<and> p_category_id p = Some category) (revision_categories db)"

fun insert_series_items :: "uuid \<Rightarrow> uuid \<Rightarrow> instant \<Rightarrow> nat \<Rightarrow> uuid list \<Rightarrow> db \<Rightarrow> RepositoryError + db" where
  "insert_series_items i site added_at index [] db = Inr db"
| "insert_series_items i site added_at index (document # later) db =
     and_then (series_position index) (\<lambda>position.
     and_then (map_err map_series_constraint_error (sql_insert_series_item
        \<lparr>i_series_id = i, i_site_id = site, i_document_id = document, i_position = position,
         i_added_at = added_at\<rparr> db)) (\<lambda>db.
       insert_series_items i site added_at (index + 1) later db))"

definition backfill_series_items_in_transaction ::
  "uuid \<Rightarrow> uuid \<Rightarrow> uuid \<Rightarrow> instant \<Rightarrow> db \<Rightarrow> RepositoryError + db" where
  "backfill_series_items_in_transaction site i category added_at db =
     (let ids = map d_id (take 501 (order_by (\<lambda>d. (d_created_at d, uint (d_id d)))
            (filter (\<lambda>d. d_site_id d = site \<and> published_in_category db category d) (documents db)))) in
      and_then (reject_if (length ids > 500)
         (Validation ''a series cannot contain more than 500 published documents'')) (\<lambda>_.
        insert_series_items i site added_at 0 ids db))"

definition create_series_for_category_in_transaction ::
  "uuid \<Rightarrow> instant \<Rightarrow> uuid \<Rightarrow> uuid \<Rightarrow> uuid \<Rightarrow> db \<Rightarrow> RepositoryError + SeriesRecord \<times> db" where
  "create_series_for_category_in_transaction i now owner site category db =
     and_then (load_category_by_id db site category) (\<lambda>_.
     let here = filter (\<lambda>s. s_site_id s = site) (series db);
         next_home_position = fold max (map s_home_position here) 0 + SERIES_POSITION_STEP in
     and_then (reject_if (length here \<ge> 500) (Validation ''a site cannot contain more than 500 series'')) (\<lambda>_.
     and_then (reject_if (next_home_position \<ge> 2 ^ 63) (Storage ''Invalid column type Real'')) (\<lambda>_.
     and_then (reject_if (next_home_position \<le> 0) (Validation ''series home position overflow'')) (\<lambda>_.
     and_then (map_err map_series_constraint_error (sql_insert_series
        \<lparr>s_id = i, s_site_id = site, s_category_id = category, s_home_position = next_home_position,
         s_created_by_user_id = owner, s_created_at = now, s_updated_at = now\<rparr> db)) (\<lambda>db.
     and_then (backfill_series_items_in_transaction site i category now db) (\<lambda>db.
     and_then (load_series_by_id db site i) (\<lambda>record.
       Inr (record, db))))))))"

definition create_series ::
  "uuid \<Rightarrow> uuid \<Rightarrow> instant \<Rightarrow> instant \<Rightarrow> uuid \<Rightarrow> uuid \<Rightarrow> CreateCategoryInput \<Rightarrow> db \<Rightarrow>
   (RepositoryError + SeriesRecord) \<times> db" where
  "create_series category i now now' owner site input db = transact (\<lambda>db.
     and_then (ensure_site_owner db owner site) (\<lambda>_.
     and_then (create_category_in_transaction category now owner site input db) (\<lambda>(c, db).
       create_series_for_category_in_transaction i now' owner site (c_id c) db))) db"

definition promote_category_to_series ::
  "uuid \<Rightarrow> instant \<Rightarrow> uuid \<Rightarrow> uuid \<Rightarrow> uuid \<Rightarrow> db \<Rightarrow> (RepositoryError + SeriesRecord) \<times> db" where
  "promote_category_to_series i now owner site category db = transact (\<lambda>db.
     and_then (ensure_site_owner db owner site) (\<lambda>_.
     and_then (load_category_by_id db site category) (\<lambda>_.
       case load_series_by_category_id db site category of
         Inr record \<Rightarrow> Inr (record, db)
       | Inl e \<Rightarrow> if e = NotFound then create_series_for_category_in_transaction i now owner site category db
                   else Inl e))) db"

definition touch_series :: "uuid \<Rightarrow> uuid \<Rightarrow> instant \<Rightarrow> db \<Rightarrow> db" where
  "touch_series i site now db =
     db\<lparr>series := update_where (\<lambda>s. s_id s = i \<and> s_site_id s = site) (\<lambda>s. s\<lparr>s_updated_at := now\<rparr>) (series db)\<rparr>"

definition update_series ::
  "instant \<Rightarrow> uuid \<Rightarrow> uuid \<Rightarrow> uuid \<Rightarrow> UpdateCategoryInput \<Rightarrow> db \<Rightarrow> (RepositoryError + SeriesRecord) \<times> db" where
  "update_series now owner site i input db =
     (case and_then (validate_required_text (uc_title input) ''series title'' 200) (\<lambda>title.
           and_then (validate_optional_text (uc_description input) ''series description'' 2000) (\<lambda>description.
             Inr (title, description))) of
        Inl e \<Rightarrow> (Inl e, db)
      | Inr (title, description) \<Rightarrow>
          then_load (\<lambda>db. load_series_by_id db site i) (transact (\<lambda>db.
            and_then (ensure_site_owner db owner site) (\<lambda>_.
            and_then (load_series_by_id db site i) (\<lambda>record.
              Inr ((), touch_series i site now (sql_update_categories
                 (\<lambda>c. c\<lparr>c_title := title, c_description := description,
                        c_theme_profile := uc_theme_profile input, c_updated_at := now\<rparr>)
                 (sr_category_id record) site db))))) db))"

definition archive_series ::
  "instant \<Rightarrow> uuid \<Rightarrow> uuid \<Rightarrow> uuid \<Rightarrow> db \<Rightarrow> (RepositoryError + SeriesRecord) \<times> db" where
  "archive_series now owner site i db =
     then_load (\<lambda>db. load_series_by_id db site i) (transact (\<lambda>db.
       and_then (ensure_site_owner db owner site) (\<lambda>_.
       and_then (load_series_by_id db site i) (\<lambda>record.
         Inr ((), if sr_status record = CategoryActive
                  then touch_series i site now (sql_update_categories
                    (\<lambda>c. c\<lparr>c_status := CategoryArchived, c_updated_at := now\<rparr>) (sr_category_id record) site db)
                  else db)))) db)"

definition list_published_series_items_with_connection :: "db \<Rightarrow> uuid \<Rightarrow> uuid \<Rightarrow> nat \<Rightarrow> SeriesItemRecord list" where
  "list_published_series_items_with_connection db site i limit =
     take (min limit 501) (order_by (\<lambda>x. (i_position x, uint (i_document_id x)))
       (filter (\<lambda>x. i_site_id x = site \<and> i_series_id x = i \<and> published_series_item db x) (series_items db)))"

definition list_published_in_series_with_connection ::
  "db \<Rightarrow> uuid \<Rightarrow> uuid \<Rightarrow> nat \<Rightarrow> RepositoryError + DocumentSnapshot list" where
  "list_published_in_series_with_connection db site i limit =
     collect_results (\<lambda>x. load_document db (i_document_id x) SelectPublished)
       (list_published_series_items_with_connection db site i limit)"

definition list_published_in_series :: "db \<Rightarrow> uuid \<Rightarrow> uuid \<Rightarrow> nat \<Rightarrow> RepositoryError + DocumentSnapshot list" where
  "list_published_in_series db site i limit =
     and_then (load_series_by_id db site i) (\<lambda>_.
       list_published_in_series_with_connection db site i limit)"

fun reorder_series_items :: "uuid \<Rightarrow> uuid \<Rightarrow> nat \<Rightarrow> uuid list \<Rightarrow> db \<Rightarrow> RepositoryError + db" where
  "reorder_series_items i site index [] db = Inr db"
| "reorder_series_items i site index (document # later) db =
     and_then (series_position index) (\<lambda>position.
     let hit = (\<lambda>x. i_series_id x = i \<and> i_site_id x = site \<and> i_document_id x = document);
         changed = length (filter hit (series_items db));
         db' = db\<lparr>series_items := update_where hit (\<lambda>x. x\<lparr>i_position := position\<rparr>) (series_items db)\<rparr> in
     and_then (reject_if (changed \<noteq> 1) RevisionConflict) (\<lambda>_.
       reorder_series_items i site (index + 1) later db'))"

definition replace_series_order ::
  "instant \<Rightarrow> uuid \<Rightarrow> uuid \<Rightarrow> uuid \<Rightarrow> uuid list \<Rightarrow> db \<Rightarrow> (RepositoryError + SeriesItemRecord list) \<times> db" where
  "replace_series_order now owner site i ids db =
     (if length ids > 500 \<or> \<not> distinct ids
      then (Inl (Validation ''series order must contain at most 500 unique document ids''), db)
      else
        then_load (\<lambda>db. Inr (list_published_series_items_with_connection db site i 500)) (transact (\<lambda>db.
          and_then (ensure_site_owner db owner site) (\<lambda>_.
          and_then (load_series_by_id db site i) (\<lambda>_.
          let current = list_published_series_items_with_connection db site i 501 in
          and_then (reject_if (length current \<noteq> length ids \<or> set (map i_document_id current) \<noteq> set ids)
             RevisionConflict) (\<lambda>_.
          and_then (reorder_series_items i site 0 ids db) (\<lambda>db.
            Inr ((), touch_series i site now db)))))) db))"

section \<open>Documents of a site\<close>

definition assign_revision_category_in_writable_site ::
  "instant \<Rightarrow> uuid \<Rightarrow> uuid \<Rightarrow> uuid \<Rightarrow> uuid \<Rightarrow> uuid option \<Rightarrow> db \<Rightarrow>
   (RepositoryError + RevisionCategoryPlacement) \<times> db" where
  "assign_revision_category_in_writable_site now actor site document revision category db = transact (\<lambda>db.
     and_then (ensure_site_writer db actor site) (\<lambda>_.
       assign_revision_category_in_transaction actor site document revision category now db)) db"

definition create_document_in_owned_site ::
  "extern \<Rightarrow> uuid \<Rightarrow> uuid \<Rightarrow> instant \<Rightarrow> uuid \<Rightarrow> NewDocument \<Rightarrow> db \<Rightarrow> (RepositoryError + DocumentSnapshot) \<times> db" where
  "create_document_in_owned_site E document_id revision_id now owner input db =
     (case validate_new_document E input of
        Inl e \<Rightarrow> (Inl (Validation (content_error_text e)), db)
      | Inr _ \<Rightarrow> transact (\<lambda>db.
          and_then (ensure_site_owner db owner (new_site_id input)) (\<lambda>_.
            create_document_in_transaction E document_id revision_id input now None None db)) db)"

definition create_document_in_writable_site_with_category ::
  "extern \<Rightarrow> uuid \<Rightarrow> uuid \<Rightarrow> instant \<Rightarrow> uuid \<Rightarrow> NewDocument \<Rightarrow> uuid option \<Rightarrow> db \<Rightarrow>
   (RepositoryError + DocumentSnapshot) \<times> db" where
  "create_document_in_writable_site_with_category E document_id revision_id now actor input category db =
     (case validate_new_document E input of
        Inl e \<Rightarrow> (Inl (Validation (content_error_text e)), db)
      | Inr _ \<Rightarrow> transact (\<lambda>db.
          and_then (ensure_site_writer db actor (new_site_id input)) (\<lambda>_.
            create_document_in_transaction E document_id revision_id input now
              (map_option (\<lambda>c. (actor, c)) category) None db)) db)"

definition create_document_in_writable_site ::
  "extern \<Rightarrow> uuid \<Rightarrow> uuid \<Rightarrow> instant \<Rightarrow> uuid \<Rightarrow> NewDocument \<Rightarrow> db \<Rightarrow> (RepositoryError + DocumentSnapshot) \<times> db" where
  "create_document_in_writable_site E document_id revision_id now actor input db =
     (case validate_new_document E input of
        Inl e \<Rightarrow> (Inl (Validation (content_error_text e)), db)
      | Inr _ \<Rightarrow> transact (\<lambda>db.
          and_then (ensure_site_writer db actor (new_site_id input)) (\<lambda>_.
            create_document_in_transaction E document_id revision_id input now None None db)) db)"

definition revise_document_in_owned_site ::
  "extern \<Rightarrow> uuid \<Rightarrow> instant \<Rightarrow> uuid \<Rightarrow> uuid \<Rightarrow> ProposedRevision \<Rightarrow> db \<Rightarrow>
   (RepositoryError + RevisionSnapshot) \<times> db" where
  "revise_document_in_owned_site E revision_id now owner site input db =
     (case validate_proposed_revision E input of
        Inl e \<Rightarrow> (Inl (Validation (content_error_text e)), db)
      | Inr _ \<Rightarrow> transact (\<lambda>db.
          and_then (ensure_site_owner db owner site) (\<lambda>_.
          and_then (ensure_document_in_site db site (prop_document_id input)) (\<lambda>_.
            append_revision_in_transaction E revision_id input now db))) db)"

text \<open>The selection is absent (inherit), the site root, or a category.\<close>

definition revise_document_in_writable_site_with_category ::
  "extern \<Rightarrow> uuid \<Rightarrow> instant \<Rightarrow> uuid \<Rightarrow> uuid \<Rightarrow> ProposedRevision \<Rightarrow> uuid option option \<Rightarrow> db \<Rightarrow>
   (RepositoryError + RevisionSnapshot) \<times> db" where
  "revise_document_in_writable_site_with_category E revision_id now actor site input selection db =
     (case validate_proposed_revision E input of
        Inl e \<Rightarrow> (Inl (Validation (content_error_text e)), db)
      | Inr _ \<Rightarrow> transact (\<lambda>db.
          and_then (ensure_site_writer db actor site) (\<lambda>_.
          and_then (ensure_document_in_site db site (prop_document_id input)) (\<lambda>_.
            append_revision_in_transaction_with_category E revision_id input now
              (map_option (\<lambda>c. (actor, c)) selection) db))) db)"

definition revise_document_in_writable_site ::
  "extern \<Rightarrow> uuid \<Rightarrow> instant \<Rightarrow> uuid \<Rightarrow> uuid \<Rightarrow> ProposedRevision \<Rightarrow> db \<Rightarrow>
   (RepositoryError + RevisionSnapshot) \<times> db" where
  "revise_document_in_writable_site E revision_id now actor site input db =
     (case validate_proposed_revision E input of
        Inl e \<Rightarrow> (Inl (Validation (content_error_text e)), db)
      | Inr _ \<Rightarrow> transact (\<lambda>db.
          and_then (ensure_site_writer db actor site) (\<lambda>_.
          and_then (ensure_document_in_site db site (prop_document_id input)) (\<lambda>_.
            append_revision_in_transaction E revision_id input now db))) db)"

definition publish_document_in_owned_site ::
  "instant \<Rightarrow> uuid \<Rightarrow> uuid \<Rightarrow> uuid \<Rightarrow> uuid \<Rightarrow> db \<Rightarrow> (RepositoryError + DocumentSnapshot) \<times> db" where
  "publish_document_in_owned_site now owner site document revision_id db =
     then_load (\<lambda>db. load_document db document SelectPublished) (transact (\<lambda>db.
       and_then (ensure_site_owner db owner site) (\<lambda>_.
       and_then (ensure_document_in_site db site document) (\<lambda>_.
         publish_in_transaction document revision_id now db))) db)"

definition get_document_in_owned_site :: "db \<Rightarrow> uuid \<Rightarrow> uuid \<Rightarrow> uuid \<Rightarrow> RepositoryError + DocumentSnapshot" where
  "get_document_in_owned_site db owner site document =
     and_then (ensure_site_owner db owner site) (\<lambda>_.
     and_then (ensure_document_in_site db site document) (\<lambda>_.
       load_document db document SelectCurrent))"

definition get_document_in_writable_site :: "db \<Rightarrow> uuid \<Rightarrow> uuid \<Rightarrow> uuid \<Rightarrow> RepositoryError + DocumentSnapshot" where
  "get_document_in_writable_site db actor site document =
     and_then (ensure_site_writer db actor site) (\<lambda>_.
     and_then (ensure_document_in_site db site document) (\<lambda>_.
       load_document db document SelectCurrent))"

definition list_documents_with_selector ::
  "db \<Rightarrow> uuid option \<Rightarrow> nat \<Rightarrow> RevisionSelector \<Rightarrow> RepositoryError + DocumentSnapshot list" where
  "list_documents_with_selector db site limit sel =
     (let in_site = (\<lambda>d. (case site of None \<Rightarrow> True | Some s \<Rightarrow> d_site_id d = s)
            \<and> exists_where (\<lambda>s. st_id s = d_site_id d) (sites db));
          ids = (case sel of
              SelectCurrent \<Rightarrow> order_by_desc (\<lambda>d. (d_updated_at d, uint (d_id d))) (filter in_site (documents db))
            | SelectPublished \<Rightarrow>
                order_by_desc (\<lambda>d. (case join_published db d of None \<Rightarrow> 0 | Some r \<Rightarrow> r_created_at r, uint (d_id d)))
                  (filter (\<lambda>d. in_site d \<and> d_published_revision_id d \<noteq> None \<and> d_status d \<noteq> Archived
                     \<and> join_published db d \<noteq> None) (documents db))) in
      collect_results (\<lambda>d. load_document db (d_id d) sel) (take (min limit 500) ids))"

definition published_noncanonical_route_exists :: "db \<Rightarrow> uuid \<Rightarrow> rstr \<Rightarrow> bool" where
  "published_noncanonical_route_exists db site path =
     exists_where (\<lambda>rt. rt_site_id rt = site \<and> rt_path rt = path \<and> \<not> rt_is_canonical rt
       \<and> exists_where (\<lambda>d. d_id d = rt_document_id rt \<and> d_site_id d = rt_site_id rt
            \<and> d_published_revision_id d \<noteq> None \<and> d_status d \<noteq> Archived) (documents db)) (routes db)"

definition get_unique_published_by_leaf_slug ::
  "db \<Rightarrow> uuid \<Rightarrow> rstr \<Rightarrow> RepositoryError + DocumentSnapshot option" where
  "get_unique_published_by_leaf_slug db site leaf =
     (let ids = take 2 (order_by (\<lambda>d. uint (d_id d))
            (filter (\<lambda>d. d_site_id d = site \<and> d_published_revision_id d \<noteq> None \<and> d_status d \<noteq> Archived
               \<and> opt_any (\<lambda>r. r_slug r = leaf) (join_published db d)) (documents db))) in
      if length ids \<noteq> 1 then Inr None
      else and_then (load_document db (d_id (hd ids)) SelectPublished) (\<lambda>snap. Inr (Some snap)))"

definition load_document_category ::
  "db \<Rightarrow> uuid \<Rightarrow> uuid \<Rightarrow> RevisionSelector \<Rightarrow> RepositoryError + CategoryRecord option" where
  "load_document_category db site document sel =
     and_then (ok_or NotFound (row_where (\<lambda>d. d_id d = document \<and> d_site_id d = site) (documents db))) (\<lambda>d.
     let selected = (case sel of SelectCurrent \<Rightarrow> Some (d_current_revision_id d)
                     | SelectPublished \<Rightarrow> d_published_revision_id d) in
     and_then (ok_or NotFound (row_where (\<lambda>p. Some (p_revision_id p) = selected \<and> p_document_id p = document
          \<and> p_site_id p = site) (revision_categories db))) (\<lambda>p.
       map_transpose (load_category_by_id db site) (p_category_id p)))"

end
