(* ===== verification/Store_Steps.thy ===== *)
theory Store_Steps
  imports Store_Effects Store_Sites
begin

text \<open>
  The invariant of the site tables beside that of the content tables, and that every write
  operation on documents, sites, categories and series keeps both.
\<close>

section \<open>Operations that keep an invariant\<close>

definition keeps :: "(db \<Rightarrow> bool) \<Rightarrow> (db \<Rightarrow> 'a \<times> db) \<Rightarrow> bool" where
  "keeps P f \<longleftrightarrow> (\<forall>db. P db \<longrightarrow> P (snd (f db)))"

lemma keepsD: "keeps P f \<Longrightarrow> P db \<Longrightarrow> f db = (x, db') \<Longrightarrow> P db'"
  unfolding keeps_def by (metis snd_conv)

lemma keeps_transact:
  "(\<And>db x db'. P db \<Longrightarrow> f db = Inr (x, db') \<Longrightarrow> P db') \<Longrightarrow> keeps P (transact f)"
  unfolding keeps_def transact_def by (auto split: sum.splits)

lemma keeps_then_load: "keeps P f \<Longrightarrow> keeps P (\<lambda>db. then_load l (f db))"
  unfolding keeps_def then_load_def by (auto split: sum.splits prod.splits)

lemma keeps_case_result:
  "keeps P f \<Longrightarrow> keeps P (\<lambda>db. case f db of (Inl e, db') \<Rightarrow> (Inl e, db') | (Inr u, db') \<Rightarrow> (l u db', db'))"
  unfolding keeps_def by (auto split: sum.splits prod.splits)

lemma snd_then_load:
  "P db \<Longrightarrow> (\<And>x db'. f db = Inr (x, db') \<Longrightarrow> P db') \<Longrightarrow> P (snd (then_load l (transact f db)))"
  by (auto simp: then_load_def transact_def split: sum.splits prod.splits if_splits)

lemma keeps_unchanged: "keeps P (\<lambda>db. (x db, db))"
  by (simp add: keeps_def)

lemma keeps_case_sum:
  "(\<And>y. keeps P (g y)) \<Longrightarrow> keeps P (\<lambda>db. case r of Inl e \<Rightarrow> (Inl (h e), db) | Inr y \<Rightarrow> g y db)"
  by (cases r) (simp_all add: keeps_def)

section \<open>The content invariant\<close>

lemma create_in_transaction_inv:
  "db_inv E db \<Longrightarrow> create_document_in_transaction E i rid input now initial key db = Inr (x, db') \<Longrightarrow> db_inv E db'"
  by (erule create_effect) (rule created_inv)

lemma append_in_transaction_inv:
  "db_inv E db \<Longrightarrow> append_revision_in_transaction_with_category E rid input now assignment db = Inr (x, db') \<Longrightarrow> db_inv E db'"
  by (rule append_effect) (auto intro: appended_inv)

lemma assign_in_transaction_inv:
  "db_inv E db \<Longrightarrow> assign_revision_category_in_transaction actor site doc rid cat now db = Inr (x, db') \<Longrightarrow> db_inv E db'"
  by (erule assign_effect) (auto intro: moved_inv)

lemma publish_in_transaction_inv:
  "db_inv E db \<Longrightarrow> publish_in_transaction_at i rid now db = Inr (x, db') \<Longrightarrow> db_inv E db'"
  by (rule publish_effect) (auto intro: published_inv)

lemma sql_insert_ai_audit_effect:
  "sql_insert_ai_audit row db = Inr db' \<Longrightarrow> db' = db\<lparr>ai_proposal_audits := ai_proposal_audits db @ [row]\<rparr>"
  by (simp add: sql_insert_ai_audit_def split: if_splits)

lemma category_append_inv:
  assumes "db_inv E db" and "\<forall>x \<in> set (categories db). c_id x \<noteq> c_id c"
  shows "db_inv E (db\<lparr>categories := categories db @ [c]\<rparr>)"
  using assms unfolding db_inv_def
  by (simp add: keys_ok_def pointers_ok_def snapshots_ok_def placements_ok_def routes_ok_def canonical_ok_def
      numbering_ok_def status_ok_def idempotency_ok_def distinct_map_snoc del: map_append)

lemma category_update_inv:
  assumes inv: "db_inv E db" and f: "\<And>c. c_id (f c) = c_id c \<and> c_site_id (f c) = c_site_id c"
  shows "db_inv E (sql_update_categories f category site db)"
proof -
  let ?db = "sql_update_categories f category site db"
  have tabs: "documents ?db = documents db" "revisions ?db = revisions db" "routes ?db = routes db"
    "revision_categories ?db = revision_categories db"
    "categories ?db = update_where (\<lambda>c. c_id c = category \<and> c_site_id c = site) f (categories db)"
    by (simp_all add: sql_update_categories_def)
  have ids: "map c_id (categories ?db) = map c_id (categories db)"
    unfolding tabs by (rule update_where_map_same) (simp add: f)
  have "\<exists>y \<in> set (categories ?db). c_id y = c_id x \<and> c_site_id y = c_site_id x" if "x \<in> set (categories db)" for x
    unfolding tabs set_update_where using that f
    by (intro bexI [of _ "if c_id x = category \<and> c_site_id x = site then f x else x"]) auto
  then have "\<exists>y \<in> set (categories ?db). c_id y = k \<and> c_site_id y = s"
    if "\<exists>x \<in> set (categories db). c_id x = k \<and> c_site_id x = s" for k s
    using that by metis
  with inv ids show ?thesis
    unfolding db_inv_def keys_ok_def pointers_ok_def snapshots_ok_def placements_ok_def routes_ok_def
      canonical_ok_def numbering_ok_def status_ok_def idempotency_ok_def tabs(1-4) by simp
qed

lemma create_category_effect:
  assumes "create_category_in_transaction i now owner site input db = Inr (c, db')"
  obtains slug where "normalize_new_category_slug (cc_slug input) = Inr slug"
    "db' = db\<lparr>categories := categories db @ [c]\<rparr>"
    "c_slug c = slug" "c_site_id c = site" "c_id c = i" "c_status c = CategoryActive"
    "\<forall>x \<in> set (categories db). c_id x \<noteq> i"
    "\<forall>x \<in> set (categories db). c_site_id x = site \<longrightarrow> \<not> nocase_eq (c_slug x) slug"
    "ensure_category_landing_available db site slug = Inr ()"
proof -
  from assms obtain slug title description db1 where
    slug: "normalize_new_category_slug (cc_slug input) = Inr slug"
    and landing: "ensure_category_landing_available db site slug = Inr ()"
    and ins: "sql_insert_category
        \<lparr>c_id = i, c_site_id = site, c_slug = slug, c_title = title, c_description = description,
         c_theme_profile = cc_theme_profile input, c_status = CategoryActive,
         c_created_by_user_id = owner, c_created_at = now, c_updated_at = now\<rparr> db = Inr db1" (is "sql_insert_category ?row db = _")
    and load: "load_category_by_id db1 site i = Inr c" and db': "db' = db1"
    unfolding create_category_in_transaction_def
    by (auto simp: and_then_eq_Inr map_err_eq_Inr)
  from ins have db1: "db1 = db\<lparr>categories := categories db @ [?row]\<rparr>"
    and fresh: "\<forall>x \<in> set (categories db). c_id x \<noteq> i"
      "\<forall>x \<in> set (categories db). c_site_id x = site \<longrightarrow> \<not> nocase_eq (c_slug x) slug"
    unfolding sql_insert_category_def exists_where_iff by (auto split: if_splits)
  have "c = ?row"
    using load fresh(1) by (simp add: db1 load_category_by_id_def row_where_append_fresh ok_or_eq_Inr)
  then show thesis using slug landing db1 db' fresh by (intro that [of slug]) simp_all
qed

lemma insert_series_items_effect:
  "insert_series_items i site added index ids db = Inr db' \<Longrightarrow> \<exists>items. db' = db\<lparr>series_items := items\<rparr>"
proof (induction ids arbitrary: index db)
  case Nil
  then have "db' = db\<lparr>series_items := series_items db\<rparr>" by simp
  then show ?case by blast
next
  case (Cons d ids)
  then obtain pos db1 where "sql_insert_series_item \<lparr>i_series_id = i, i_site_id = site, i_document_id = d,
        i_position = pos, i_added_at = added\<rparr> db = Inr db1"
    and rest: "insert_series_items i site added (index + 1) ids db1 = Inr db'"
    by (auto simp: and_then_eq_Inr map_err_eq_Inr)
  from sql_insert_series_item_effect [OF this(1)] Cons.IH [OF rest] show ?case by auto
qed

lemma reorder_series_items_effect:
  "reorder_series_items i site index ids db = Inr db' \<Longrightarrow> \<exists>items. db' = db\<lparr>series_items := items\<rparr>"
proof (induction ids arbitrary: index db)
  case Nil
  then have "db' = db\<lparr>series_items := series_items db\<rparr>" by simp
  then show ?case by blast
next
  case (Cons d ids)
  then obtain items index' where "reorder_series_items i site index' ids (db\<lparr>series_items := items\<rparr>) = Inr db'"
    by (auto simp: and_then_eq_Inr Let_def)
  from Cons.IH [OF this] show ?case by auto
qed

lemma create_series_effect:
  assumes "create_series_for_category_in_transaction i now owner site category db = Inr (x, db')"
  obtains row items where "db' = db\<lparr>series := series db @ [row], series_items := items\<rparr>"
    "s_site_id row = site" "s_category_id row = category"
    "\<forall>y \<in> set (series db). s_id y \<noteq> s_id row"
    "\<forall>y \<in> set (series db). \<not> (s_site_id y = site \<and> s_category_id y = category)"
proof -
  from assms obtain row db1 where ins: "sql_insert_series row db = Inr db1"
    and row: "s_site_id row = site" "s_category_id row = category"
    and fill: "backfill_series_items_in_transaction site i category now db1 = Inr db'"
    unfolding create_series_for_category_in_transaction_def Let_def
    by (auto simp: and_then_eq_Inr map_err_eq_Inr)
  from fill obtain items where "db' = db1\<lparr>series_items := items\<rparr>"
    unfolding backfill_series_items_in_transaction_def Let_def
    by (auto simp: and_then_eq_Inr dest: insert_series_items_effect)
  moreover from ins have "db1 = db\<lparr>series := series db @ [row]\<rparr>"
    "\<forall>y \<in> set (series db). s_id y \<noteq> s_id row"
    "\<forall>y \<in> set (series db). \<not> (s_site_id y = site \<and> s_category_id y = category)"
    unfolding sql_insert_series_def exists_where_iff row by (auto split: if_splits)
  ultimately show thesis using row by (intro that) simp_all
qed

section \<open>The invariants of the site tables\<close>

text \<open>Every site has exactly one owner, a registered user, and a current theme.\<close>

definition owners_ok :: "db \<Rightarrow> bool" where
  "owners_ok db \<longleftrightarrow>
     (\<forall>s \<in> set (sites db). \<exists>m \<in> set (site_memberships db). m_site_id m = st_id s \<and> m_role m = Owner)
     \<and> (\<forall>m \<in> set (site_memberships db). \<forall>m' \<in> set (site_memberships db).
          m_role m = Owner \<and> m_role m' = Owner \<and> m_site_id m = m_site_id m' \<longrightarrow> m = m')"

definition members_ok :: "db \<Rightarrow> bool" where
  "members_ok db \<longleftrightarrow>
     distinct (map (\<lambda>m. (m_site_id m, m_user_id m)) (site_memberships db))
     \<and> (\<forall>m \<in> set (site_memberships db). (\<exists>s \<in> set (sites db). st_id s = m_site_id m)
          \<and> (\<exists>u \<in> set (users db). u_id u = m_user_id m))"

definition themes_ok :: "db \<Rightarrow> bool" where
  "themes_ok db \<longleftrightarrow>
     distinct (map (\<lambda>t. (tr_site_id t, tr_revision t)) (site_theme_revisions db))
     \<and> (\<forall>t \<in> set (site_theme_revisions db). \<exists>s \<in> set (sites db). st_id s = tr_site_id t)
     \<and> (\<forall>s \<in> set (sites db). \<exists>t \<in> set (site_theme_revisions db).
          tr_site_id t = st_id s \<and> tr_revision t = st_current_theme_revision s)"

definition accounts_ok :: "db \<Rightarrow> bool" where
  "accounts_ok db \<longleftrightarrow> distinct (map u_id (users db)) \<and> distinct (map st_id (sites db))
     \<and> distinct (map (\<lambda>u. to_ascii_lowercase (u_email u)) (users db))
     \<and> distinct (map (\<lambda>u. to_ascii_lowercase (u_handle u)) (users db))
     \<and> distinct (map (\<lambda>s. to_ascii_lowercase (st_handle s)) (sites db))"

definition taxonomy_ok :: "db \<Rightarrow> bool" where
  "taxonomy_ok db \<longleftrightarrow>
     distinct (map (\<lambda>c. (c_site_id c, to_ascii_lowercase (c_slug c))) (categories db))
     \<and> (\<forall>c \<in> set (categories db). valid_handle (c_slug c) \<and> c_slug c \<notin> set (map lit RESERVED_CATEGORY_SLUGS))
     \<and> distinct (map s_id (series db))
     \<and> distinct (map (\<lambda>s. (s_site_id s, s_category_id s)) (series db))"

definition site_inv :: "db \<Rightarrow> bool" where
  "site_inv db \<longleftrightarrow> owners_ok db \<and> members_ok db \<and> themes_ok db \<and> accounts_ok db \<and> taxonomy_ok db"

lemmas site_defs = owners_ok_def members_ok_def themes_ok_def accounts_ok_def taxonomy_ok_def

definition repo_inv :: "extern \<Rightarrow> db \<Rightarrow> bool" where
  "repo_inv E db \<longleftrightarrow> db_inv E db \<and> site_inv db"

lemma repo_inv_empty: "repo_inv E empty_db"
  by (simp add: repo_inv_def db_inv_empty site_inv_def site_defs) (simp add: empty_db_def)

lemma site_inv_cong:
  assumes "users db' = users db" "sites db' = sites db" "site_memberships db' = site_memberships db"
    "site_theme_revisions db' = site_theme_revisions db" "categories db' = categories db" "series db' = series db"
  shows "site_inv db' = site_inv db"
  unfolding site_inv_def site_defs assms ..

lemma content_effects_keep_sites:
  "created E d r pl db db' \<Longrightarrow> site_inv db' = site_inv db"
  "appended E d r pl path now db db' \<Longrightarrow> site_inv db' = site_inv db"
  "moved d cat actor path now db db' \<Longrightarrow> site_inv db' = site_inv db"
  "published_as d r path now db db' \<Longrightarrow> site_inv db' = site_inv db"
  by (rule site_inv_cong; auto simp: effect_defs)+

section \<open>Content operations keep both invariants\<close>

lemma create_step_inv:
  "repo_inv E db \<Longrightarrow> create_document_in_transaction E i rid input now initial key db = Inr (x, db') \<Longrightarrow> repo_inv E db'"
  unfolding repo_inv_def by (erule create_effect) (auto intro: created_inv simp: content_effects_keep_sites)

lemma append_step_inv:
  "repo_inv E db \<Longrightarrow> append_revision_in_transaction_with_category E rid input now assignment db = Inr (x, db') \<Longrightarrow> repo_inv E db'"
  unfolding repo_inv_def
  by (elim conjE, rule append_effect) (auto intro: appended_inv simp: content_effects_keep_sites)

lemma assign_step_inv:
  "repo_inv E db \<Longrightarrow> assign_revision_category_in_transaction actor site doc rid cat now db = Inr (x, db') \<Longrightarrow> repo_inv E db'"
  unfolding repo_inv_def by (erule assign_effect) (auto intro: moved_inv simp: content_effects_keep_sites)

lemma publish_step_inv:
  "repo_inv E db \<Longrightarrow> publish_in_transaction_at i rid now db = Inr (x, db') \<Longrightarrow> repo_inv E db'"
  unfolding repo_inv_def
  by (elim conjE, rule publish_effect) (auto intro: published_inv simp: content_effects_keep_sites)

lemma repo_inv_audits [simp]: "repo_inv E (db\<lparr>ai_proposal_audits := x\<rparr>) = repo_inv E db"
  using site_inv_cong [of "db\<lparr>ai_proposal_audits := x\<rparr>" db] by (simp add: repo_inv_def)

lemma repo_inv_series_items [simp]: "repo_inv E (db\<lparr>series_items := x\<rparr>) = repo_inv E db"
  using site_inv_cong [of "db\<lparr>series_items := x\<rparr>" db] by (simp add: repo_inv_def)

lemmas content_step_invs = create_step_inv append_step_inv assign_step_inv publish_step_inv

lemma create_document_keeps: "keeps (repo_inv E) (create_document E i rid now input)"
  unfolding create_document_def by (intro keeps_case_sum keeps_transact) (rule create_step_inv)

lemma append_revision_keeps: "keeps (repo_inv E) (append_revision E rid now input)"
  unfolding append_revision_def append_revision_in_transaction_def
  by (intro keeps_case_sum keeps_transact) (rule append_step_inv)

lemma append_ai_proposal_keeps: "keeps (repo_inv E) (append_ai_proposal E rid checked received envelope)"
  unfolding append_ai_proposal_def append_revision_in_transaction_def Let_def
proof (intro keeps_case_sum keeps_transact)
  fix db x db'
  assume inv: "repo_inv E db"
  assume "and_then (append_revision_in_transaction_with_category E rid (proposal_of_envelope envelope) received None db)
     (\<lambda>(revision, db). and_then (insert_ai_proposal
         \<lparr>audit_schema_version = AI_PROPOSAL_AUDIT_SCHEMA_VERSION, audit_document_id = rev_document_id revision,
          audit_accepted_revision_id = rev_id revision, audit_received_at = received,
          audit_envelope = envelope\<rparr> db) (\<lambda>db. Inr (revision, db))) = Inr (x, db')"
  then obtain r db1 where "append_revision_in_transaction_with_category E rid (proposal_of_envelope envelope) received None db = Inr (r, db1)"
    and "\<exists>rows. db' = db1\<lparr>ai_proposal_audits := rows\<rparr>"
    by (auto simp: and_then_eq_Inr insert_ai_proposal_def map_err_eq_Inr dest!: sql_insert_ai_audit_effect)
  with append_step_inv [OF inv] show "repo_inv E db'" by auto
qed

lemma publish_keeps: "keeps (repo_inv E) (publish i rid now)"
proof -
  have "keeps (repo_inv E) (transact (publish_in_transaction i rid now))"
    unfolding publish_in_transaction_def by (rule keeps_transact) (rule publish_step_inv)
  then have "keeps (repo_inv E) (\<lambda>db. then_load (\<lambda>db. load_document db i SelectPublished)
      (transact (publish_in_transaction i rid now) db))" by (rule keeps_then_load)
  then show ?thesis unfolding publish_def then_load_def .
qed

lemma keeps_guarded:
  assumes "\<And>db x db'. P db \<Longrightarrow> f db = Inr (x, db') \<Longrightarrow> P db'"
  shows "keeps P (transact (\<lambda>db. and_then (g db) (\<lambda>_. f db)))"
  by (rule keeps_transact) (auto simp: and_then_eq_Inr intro: assms)

lemma keeps_guarded_twice:
  assumes "\<And>db x db'. P db \<Longrightarrow> f db = Inr (x, db') \<Longrightarrow> P db'"
  shows "keeps P (transact (\<lambda>db. and_then (g db) (\<lambda>_. and_then (h db) (\<lambda>_. f db))))"
  by (rule keeps_transact) (auto simp: and_then_eq_Inr intro: assms)

lemma site_documents_keep:
  "keeps (repo_inv E) (assign_revision_category_in_writable_site now actor site doc rid cat)"
  "keeps (repo_inv E) (create_document_in_owned_site E i rid now owner new_doc)"
  "keeps (repo_inv E) (create_document_in_writable_site E i rid now actor new_doc)"
  "keeps (repo_inv E) (create_document_in_writable_site_with_category E i rid now actor new_doc cat)"
  "keeps (repo_inv E) (revise_document_in_owned_site E rid now owner site input)"
  "keeps (repo_inv E) (revise_document_in_writable_site E rid now actor site input)"
  "keeps (repo_inv E) (revise_document_in_writable_site_with_category E rid now actor site input selection)"
  "keeps (repo_inv E) (publish_document_in_owned_site now owner site doc rid)"
  unfolding assign_revision_category_in_writable_site_def create_document_in_owned_site_def
    create_document_in_writable_site_def create_document_in_writable_site_with_category_def
    revise_document_in_owned_site_def revise_document_in_writable_site_def
    revise_document_in_writable_site_with_category_def publish_document_in_owned_site_def
    append_revision_in_transaction_def publish_in_transaction_def
  by (intro keeps_case_sum keeps_then_load keeps_guarded keeps_guarded_twice, erule (1) content_step_invs)+

section \<open>Site operations keep both invariants\<close>

lemma sql_insert_user_effect:
  "sql_insert_user row db = Inr db' \<Longrightarrow> db' = db\<lparr>users := users db @ [row]\<rparr>
     \<and> (\<forall>u \<in> set (users db). u_id u \<noteq> u_id row \<and> \<not> nocase_eq (u_email u) (u_email row)
          \<and> \<not> nocase_eq (u_handle u) (u_handle row))"
  by (auto simp: sql_insert_user_def exists_where_iff split: if_splits)

lemma sql_insert_site_effect:
  "sql_insert_site row db = Inr db' \<Longrightarrow> db' = db\<lparr>sites := sites db @ [row]\<rparr>
     \<and> (\<forall>s \<in> set (sites db). st_id s \<noteq> st_id row \<and> \<not> nocase_eq (st_handle s) (st_handle row))"
  by (auto simp: sql_insert_site_def exists_where_iff split: if_splits)

lemma sql_insert_membership_effect:
  "sql_insert_membership row db = Inr db' \<Longrightarrow> db' = db\<lparr>site_memberships := site_memberships db @ [row]\<rparr>
     \<and> (\<forall>m \<in> set (site_memberships db). \<not> (m_site_id m = m_site_id row \<and> m_user_id m = m_user_id row)
          \<and> \<not> (m_role row = Owner \<and> m_role m = Owner \<and> m_site_id m = m_site_id row))
     \<and> (\<exists>s \<in> set (sites db). st_id s = m_site_id row) \<and> (\<exists>u \<in> set (users db). u_id u = m_user_id row)"
  by (auto simp: sql_insert_membership_def exists_where_iff split: if_splits)

lemma sql_insert_theme_effect:
  "sql_insert_theme_revision row db = Inr db' \<Longrightarrow>
     db' = db\<lparr>site_theme_revisions := site_theme_revisions db @ [row]\<rparr>
     \<and> (\<forall>t \<in> set (site_theme_revisions db). \<not> (tr_site_id t = tr_site_id row \<and> tr_revision t = tr_revision row))
     \<and> (\<exists>s \<in> set (sites db). st_id s = tr_site_id row)"
  by (auto simp: sql_insert_theme_revision_def exists_where_iff split: if_splits)

lemma db_inv_sites:
  assumes "documents db' = documents db" "revisions db' = revisions db" "routes db' = routes db"
    "categories db' = categories db" "revision_categories db' = revision_categories db" "series db' = series db"
    "db_inv E db" "taxonomy_ok db"
  shows "db_inv E db' \<and> taxonomy_ok db'"
  using assms db_inv_cong [of db' db E] by (simp add: taxonomy_ok_def)

lemma user_added_inv:
  assumes inv: "repo_inv E db" and ins: "sql_insert_user row db = Inr db'"
  shows "repo_inv E db'"
proof -
  note eff = sql_insert_user_effect [OF ins]
  then have db': "db' = db\<lparr>users := users db @ [row]\<rparr>" ..
  have "accounts_ok db'"
    using inv eff by (simp add: repo_inv_def site_inv_def accounts_ok_def nocase_eq_def distinct_map_snoc del: map_append)
  moreover have "owners_ok db'" "members_ok db'" "themes_ok db'"
    using inv by (auto simp: repo_inv_def site_inv_def owners_ok_def members_ok_def themes_ok_def db')
  ultimately show ?thesis
    using inv db_inv_sites [of db' db E] by (simp add: repo_inv_def site_inv_def db')
qed

text \<open>A site is added together with its owner and its first theme.\<close>

lemma site_added_inv:
  assumes inv: "repo_inv E db"
    and s: "sql_insert_site \<lparr>st_id = i, st_handle = h, st_title = title, st_description = description,
        st_current_theme_revision = 1, st_created_at = now, st_updated_at = now\<rparr> db = Inr db1"
    and m: "sql_insert_membership \<lparr>m_site_id = i, m_user_id = owner, m_role = Owner, m_created_at = now\<rparr> db1 = Inr db2"
    and t: "sql_insert_theme_revision \<lparr>tr_site_id = i, tr_revision = 1, tr_profile = theme, tr_custom_css = css,
        tr_created_by_user_id = owner, tr_created_at = now\<rparr> db2 = Inr db3"
  shows "repo_inv E db3"
proof -
  note site = sql_insert_site_effect [OF s]
  note member = sql_insert_membership_effect [OF m]
  note theme = sql_insert_theme_effect [OF t]
  have ok: "owners_ok db" "members_ok db" "themes_ok db" "accounts_ok db" "taxonomy_ok db" "db_inv E db"
    using inv by (simp_all add: repo_inv_def site_inv_def)
  have fresh: "\<forall>x \<in> set (sites db). st_id x \<noteq> i" using site by simp
  have tabs: "sites db3 = sites db @ [\<lparr>st_id = i, st_handle = h, st_title = title, st_description = description,
        st_current_theme_revision = 1, st_created_at = now, st_updated_at = now\<rparr>]"
    "site_memberships db3 = site_memberships db @ [\<lparr>m_site_id = i, m_user_id = owner, m_role = Owner, m_created_at = now\<rparr>]"
    "site_theme_revisions db3 = site_theme_revisions db @ [\<lparr>tr_site_id = i, tr_revision = 1, tr_profile = theme,
        tr_custom_css = css, tr_created_by_user_id = owner, tr_created_at = now\<rparr>]"
    "users db3 = users db"
    using site member theme by simp_all
  have "accounts_ok db3"
    using ok(4) site unfolding accounts_ok_def tabs by (simp add: nocase_eq_def distinct_map_snoc del: map_append)
  moreover have "owners_ok db3"
    using ok(1,2) fresh unfolding owners_ok_def members_ok_def tabs by (auto 0 3)
  moreover have "members_ok db3"
    using ok(2) fresh member site unfolding members_ok_def tabs by (auto simp: distinct_map_snoc simp del: map_append)
  moreover have "themes_ok db3"
    using ok(3) fresh unfolding themes_ok_def tabs by (auto simp: distinct_map_snoc simp del: map_append)
  moreover have "db_inv E db3 \<and> taxonomy_ok db3"
    by (rule db_inv_sites [OF _ _ _ _ _ _ ok(6,5)]) (use site member theme in simp_all)
  ultimately show ?thesis by (simp add: repo_inv_def site_inv_def)
qed

lemma create_user_keeps: "keeps (repo_inv E) (create_user i now email handle name phc)"
  unfolding keeps_def create_user_def
  by (auto simp: and_then_eq_Inr map_err_eq_Inr intro: user_added_inv split: sum.splits)

lemma create_site_keeps: "keeps (repo_inv E) (create_site i now owner handle title description theme)"
  unfolding keeps_def create_site_def
  by (auto intro!: snd_then_load [where P = "repo_inv E"] split: sum.splits)
    (auto simp: and_then_eq_Inr map_err_eq_Inr intro: site_added_inv)

lemma or_ignore_Inr:
  "or_ignore f row db = Inr db' \<Longrightarrow> f row db = Inr db' \<or> (\<exists>e. f row db = Inl e) \<and> db' = db"
  by (auto simp: or_ignore_def split: sum.splits if_splits)

text \<open>
  The legacy site: without a site of the identifier, an ignored insertion of the site or of the
  user makes the insertion of the owner violate a foreign key, which is not ignored.
\<close>

lemma load_site_of_inv:
  assumes inv: "site_inv db" and s: "s \<in> set (sites db)"
  shows "\<exists>x. load_site_by_id db (st_id s) None = Inr x"
proof -
  obtain m where m: "m \<in> set (site_memberships db)" "m_site_id m = st_id s" "m_role m = Owner"
    using inv s unfolding site_inv_def owners_ok_def by metis
  obtain t where t: "t \<in> set (site_theme_revisions db)" "tr_site_id t = st_id s" "tr_revision t = st_current_theme_revision s"
    using inv s unfolding site_inv_def themes_ok_def by metis
  have "\<exists>x \<in> set (site_rows db). site_id x = st_id s"
    unfolding site_rows_def using s m t by fastforce
  then show ?thesis
    unfolding load_site_by_id_def by (cases "row_where (\<lambda>x. site_id x = st_id s) (site_rows db)") (auto simp: row_where_None)
qed

lemma legacy_site_added_inv:
  assumes inv: "repo_inv E db" and new: "\<forall>s \<in> set (sites db). st_id s \<noteq> i"
    and u: "or_ignore sql_insert_user \<lparr>u_id = i, u_email = em, u_handle = ha, u_display_name = na,
        u_password_phc = ph, u_created_at = now, u_updated_at = now\<rparr> db = Inr db0"
    and s: "or_ignore sql_insert_site \<lparr>st_id = i, st_handle = h, st_title = title, st_description = description,
        st_current_theme_revision = 1, st_created_at = now, st_updated_at = now\<rparr> db0 = Inr db1"
    and m: "or_ignore sql_insert_membership \<lparr>m_site_id = i, m_user_id = i, m_role = Owner, m_created_at = now\<rparr> db1 = Inr db2"
    and t: "or_ignore sql_insert_theme_revision \<lparr>tr_site_id = i, tr_revision = 1, tr_profile = theme, tr_custom_css = None,
        tr_created_by_user_id = i, tr_created_at = now\<rparr> db2 = Inr db3"
  shows "repo_inv E db3"
proof -
  have db0: "repo_inv E db0" "sites db0 = sites db" "site_memberships db0 = site_memberships db"
      "site_theme_revisions db0 = site_theme_revisions db"
    using or_ignore_Inr [OF u] inv by (auto intro: user_added_inv dest: sql_insert_user_effect)
  have nomember: "\<forall>x \<in> set (site_memberships db). m_site_id x \<noteq> i"
    and notheme: "\<forall>x \<in> set (site_theme_revisions db). tr_site_id x \<noteq> i"
    using inv new unfolding repo_inv_def site_inv_def members_ok_def themes_ok_def by metis+
  have s': "sql_insert_site \<lparr>st_id = i, st_handle = h, st_title = title, st_description = description,
        st_current_theme_revision = 1, st_created_at = now, st_updated_at = now\<rparr> db0 = Inr db1"
  proof (rule ccontr)
    assume "\<not> ?thesis"
    then have "db1 = db0" using or_ignore_Inr [OF s] by blast
    then show False using m new nomember
      by (auto simp: db0 or_ignore_def sql_insert_membership_def exists_where_iff split: sum.splits if_splits)
  qed
  have db1: "site_memberships db1 = site_memberships db" "site_theme_revisions db1 = site_theme_revisions db"
      "users db1 = users db0"
    using sql_insert_site_effect [OF s'] by (simp_all add: db0)
  have m': "sql_insert_membership \<lparr>m_site_id = i, m_user_id = i, m_role = Owner, m_created_at = now\<rparr> db1 = Inr db2"
    using m nomember
    by (auto simp: db1 or_ignore_def sql_insert_membership_def exists_where_iff split: sum.splits if_splits)
  have db2: "site_theme_revisions db2 = site_theme_revisions db"
    using sql_insert_membership_effect [OF m'] by (simp add: db1)
  have no: "\<not> exists_where (\<lambda>x. tr_site_id x = i \<and> tr_revision x = 1) (site_theme_revisions db2)"
    using notheme by (auto simp: db2 exists_where_iff)
  have t': "sql_insert_theme_revision \<lparr>tr_site_id = i, tr_revision = 1, tr_profile = theme, tr_custom_css = None,
        tr_created_by_user_id = i, tr_created_at = now\<rparr> db2 = Inr db3"
    using t no by (auto simp: or_ignore_def sql_insert_theme_revision_def opt_any_def split: sum.splits if_splits)
  show ?thesis by (rule site_added_inv [OF db0(1) s' m' t'])
qed

lemma ensure_legacy_site_keeps: "keeps (repo_inv E) (ensure_legacy_site i now)"
  unfolding keeps_def
proof (intro allI impI)
  fix db assume inv: "repo_inv E db"
  have new: "\<forall>s \<in> set (sites db). st_id s \<noteq> i" if "load_site_by_id db i None = Inl e" for e
    using that inv load_site_of_inv [of db] by (force simp: repo_inv_def)
  show "repo_inv E (snd (ensure_legacy_site i now db))"
    unfolding ensure_legacy_site_def Let_def using inv new
    by (auto intro!: snd_then_load [where P = "repo_inv E"] split: sum.splits)
      (auto simp: and_then_eq_Inr map_err_eq_Inr intro: legacy_site_added_inv)
qed

lemma collaborator_added_inv:
  assumes inv: "repo_inv E db" and ins: "sql_insert_membership row db = Inr db'" and role: "m_role row \<noteq> Owner"
  shows "repo_inv E db'"
proof -
  note eff = sql_insert_membership_effect [OF ins]
  then have db': "db' = db\<lparr>site_memberships := site_memberships db @ [row]\<rparr>" ..
  have "members_ok db'"
    using inv eff by (auto simp: repo_inv_def site_inv_def members_ok_def distinct_map_snoc simp del: map_append)
  moreover have "owners_ok db'"
    using inv role by (auto simp: repo_inv_def site_inv_def owners_ok_def db')
  moreover have "themes_ok db'" "accounts_ok db'"
    using inv by (simp_all add: repo_inv_def site_inv_def themes_ok_def accounts_ok_def db')
  ultimately show ?thesis
    using inv db_inv_sites [of db' db E] by (simp add: repo_inv_def site_inv_def db')
qed

lemma add_site_collaborator_keeps: "keeps (repo_inv E) (add_site_collaborator now owner site email role)"
proof -
  have "keeps (repo_inv E) (transact (\<lambda>db.
       and_then (ensure_site_owner db owner site) (\<lambda>_.
       and_then (ok_or NotFound (row_where (\<lambda>u. nocase_eq (u_email u) e) (users db))) (\<lambda>u.
       and_then (map_err f (sql_insert_membership
           \<lparr>m_site_id = site, m_user_id = u_id u, m_role = role, m_created_at = now\<rparr> db)) (\<lambda>db.
         Inr (u_id u, db))))))" if "role \<noteq> Owner" for e f
    using that by (intro keeps_transact) (auto simp: and_then_eq_Inr map_err_eq_Inr intro: collaborator_added_inv)
  note step = keeps_case_result [OF this]
  show ?thesis
  proof (cases "role = Owner")
    case True
    then show ?thesis by (simp add: add_site_collaborator_def [abs_def] keeps_unchanged)
  next
    case False
    show ?thesis
      unfolding add_site_collaborator_def if_not_P [OF False]
      by (intro keeps_case_sum [where h = "\<lambda>e. e"] step False)
  qed
qed

lemma remove_site_collaborator_keeps: "keeps (repo_inv E) (remove_site_collaborator owner site collaborator)"
  unfolding remove_site_collaborator_def
proof (rule keeps_transact)
  fix db x db'
  assume inv: "repo_inv E db" and "and_then (ensure_site_owner db owner site) (\<lambda>_.
     and_then (load_site_membership db site collaborator) (\<lambda>membership.
     and_then (reject_if (m_role membership = Owner)
        (Validation ''owner membership cannot be removed or demoted'')) (\<lambda>_.
     let hit = (\<lambda>m. m_site_id m = site \<and> m_user_id m = collaborator) in
     and_then (reject_if (length (filter hit (site_memberships db)) \<noteq> 1) NotFound) (\<lambda>_.
       Inr (membership, db\<lparr>site_memberships := filter (\<lambda>m. \<not> hit m) (site_memberships db)\<rparr>))))) = Inr (x, db')"
  then have load: "row_where (\<lambda>m. m_site_id m = site \<and> m_user_id m = collaborator) (site_memberships db) = Some x"
    and role: "m_role x \<noteq> Owner"
    and db': "db' = db\<lparr>site_memberships := filter (\<lambda>m. \<not> (m_site_id m = site \<and> m_user_id m = collaborator)) (site_memberships db)\<rparr>"
    by (auto simp: and_then_eq_Inr reject_if_eq_Inr load_site_membership_def ok_or_eq_Inr Let_def)
  have ok: "owners_ok db" "members_ok db" "themes_ok db" "accounts_ok db" "taxonomy_ok db" "db_inv E db"
    using inv by (simp_all add: repo_inv_def site_inv_def)
  have x: "x \<in> set (site_memberships db)" "m_site_id x = site" "m_user_id x = collaborator"
    using row_where_Some [OF load] by simp_all
  have "m = x" if "m \<in> set (site_memberships db)" "m_site_id m = site" "m_user_id m = collaborator" for m
    using ok(2) x that unfolding members_ok_def by (blast intro: distinct_key_eq)
  then have keep: "\<not> (m_site_id m = site \<and> m_user_id m = collaborator)" if "m \<in> set (site_memberships db)" "m_role m = Owner" for m
    using role that by auto
  have "owners_ok db'"
    using ok(1) keep unfolding owners_ok_def db' by simp metis
  moreover have "members_ok db'"
    using ok(2) unfolding members_ok_def db' by (auto simp: distinct_map_filter)
  moreover have "themes_ok db'" "accounts_ok db'"
    using ok(3,4) by (simp_all add: themes_ok_def accounts_ok_def db')
  ultimately show "repo_inv E db'"
    using db_inv_sites [of db' db E] ok(5,6) by (simp add: repo_inv_def site_inv_def db')
qed

lemma appearance_inv:
  assumes inv: "repo_inv E db" and app: "append_site_appearance_revision owner site theme css now db = Inr db'"
  shows "repo_inv E db'"
proof -
  let ?n = "fold max (map tr_revision (filter (\<lambda>t. tr_site_id t = site) (site_theme_revisions db))) 0 + 1"
  let ?row = "\<lparr>tr_site_id = site, tr_revision = ?n, tr_profile = theme, tr_custom_css = css,
          tr_created_by_user_id = owner, tr_created_at = now\<rparr>"
  let ?f = "\<lambda>s. s\<lparr>st_current_theme_revision := ?n, st_updated_at := now\<rparr>"
  from app obtain db1 where ins: "sql_insert_theme_revision ?row db = Inr db1"
    and db': "db' = db1\<lparr>sites := update_where (\<lambda>s. st_id s = site) ?f (sites db1)\<rparr>"
    unfolding append_site_appearance_revision_def Let_def by (auto simp: and_then_eq_Inr map_err_eq_Inr)
  note eff = sql_insert_theme_effect [OF ins]
  have ok: "owners_ok db" "members_ok db" "themes_ok db" "accounts_ok db" "taxonomy_ok db" "db_inv E db"
    using inv by (simp_all add: repo_inv_def site_inv_def)
  have tabs: "sites db' = update_where (\<lambda>s. st_id s = site) ?f (sites db)"
    "site_memberships db' = site_memberships db" "users db' = users db"
    "site_theme_revisions db' = site_theme_revisions db @ [?row]"
    using eff by (simp_all add: db')
  have ids: "map st_id (sites db') = map st_id (sites db)"
    "map (\<lambda>s. to_ascii_lowercase (st_handle s)) (sites db') = map (\<lambda>s. to_ascii_lowercase (st_handle s)) (sites db)"
    unfolding tabs by (rule update_where_map_same, simp)+
  then have sid: "st_id ` set (sites db') = st_id ` set (sites db)" by (metis set_map)
  have same: "(\<exists>s \<in> set (sites db'). st_id s = k) \<longleftrightarrow> (\<exists>s \<in> set (sites db). st_id s = k)" for k
    using sid by (metis (no_types, lifting) image_iff)
  have "accounts_ok db'" using ok(4) by (simp add: accounts_ok_def ids tabs(3))
  moreover have "members_ok db'" using ok(2) unfolding members_ok_def tabs(2,3) same .
  moreover have "owners_ok db'"
    using ok(1) unfolding owners_ok_def tabs(2) by (metis (no_types, lifting) same)
  moreover have "themes_ok db'"
    unfolding themes_ok_def same
  proof (intro conjI ballI)
    show "distinct (map (\<lambda>t. (tr_site_id t, tr_revision t)) (site_theme_revisions db'))"
      using ok(3) eff unfolding themes_ok_def tabs(4) by (simp add: distinct_map_snoc del: map_append)
    show "\<exists>s \<in> set (sites db). st_id s = tr_site_id t" if "t \<in> set (site_theme_revisions db')" for t
      using that ok(3) eff unfolding themes_ok_def tabs(4) by auto
    show "\<exists>t \<in> set (site_theme_revisions db'). tr_site_id t = st_id s \<and> tr_revision t = st_current_theme_revision s"
      if s: "s \<in> set (sites db')" for s
    proof -
      obtain s0 where s0: "s0 \<in> set (sites db)" "s = (if st_id s0 = site then ?f s0 else s0)"
        using s unfolding tabs(1) set_update_where by blast
      show ?thesis
        using s0 ok(3) unfolding themes_ok_def tabs(4) by (cases "st_id s0 = site") auto
    qed
  qed
  moreover have "db_inv E db' \<and> taxonomy_ok db'"
    by (rule db_inv_sites [OF _ _ _ _ _ _ ok(6,5)]) (use eff in \<open>simp_all add: db'\<close>)
  ultimately show ?thesis by (simp add: repo_inv_def site_inv_def)
qed

lemma appearance_keeps:
  "keeps (repo_inv E) (change_site_theme now owner site theme)"
  "keeps (repo_inv E) (change_site_appearance now owner site theme css)"
  unfolding change_site_theme_def change_site_appearance_def
  by (intro keeps_then_load keeps_transact keeps_case_sum [where h = "\<lambda>e. e"],
      auto simp: and_then_eq_Inr intro: appearance_inv)+

section \<open>Categories and series keep both invariants\<close>

lemma normalize_handle_valid:
  assumes "normalize_handle v f = Inr s"
  shows "valid_handle s" and "s = to_ascii_lowercase (trim v)"
proof -
  let ?s = "to_ascii_lowercase (trim v)"
  have s: "s = ?s" "?s \<noteq> []" "byte_len ?s \<le> 40" "is_ascii ?s" "\<not> starts_with ?s [45]" "\<not> ends_with ?s [45]"
    "\<forall>c \<in> set ?s. is_ascii_lowercase c \<or> is_ascii_digit c \<or> c = 45"
    using assms by (auto simp: normalize_handle_def Let_def lit_def list_ex_iff split: if_splits)
  have "hd ?s \<noteq> 45" using s(2,5) by (cases ?s) auto
  moreover have "last ?s \<noteq> 45"
  proof
    assume "last ?s = 45"
    then have "?s = butlast ?s @ [45]" using s(2) by (metis append_butlast_last_id)
    with s(6) show False unfolding ends_with_iff by blast
  qed
  ultimately show "valid_handle s" "s = ?s" using s by (auto simp: valid_handle_def)
qed

lemma new_category_slug_valid:
  "normalize_new_category_slug v = Inr s \<Longrightarrow> valid_handle s \<and> s \<notin> set (map lit RESERVED_CATEGORY_SLUGS)"
  by (auto simp: normalize_new_category_slug_def normalize_category_slug_def and_then_eq_Inr reject_if_eq_Inr
      dest: normalize_handle_valid)

lemma create_category_step_inv:
  assumes inv: "repo_inv E db" and cr: "create_category_in_transaction i now owner site input db = Inr (c, db')"
  shows "repo_inv E db'"
proof -
  obtain slug where slug: "normalize_new_category_slug (cc_slug input) = Inr slug"
    and db': "db' = db\<lparr>categories := categories db @ [c]\<rparr>"
    and c: "c_slug c = slug" "c_site_id c = site" "c_id c = i"
    and fresh: "\<forall>x \<in> set (categories db). c_id x \<noteq> i"
      "\<forall>x \<in> set (categories db). c_site_id x = site \<longrightarrow> \<not> nocase_eq (c_slug x) slug"
    using create_category_effect [OF cr] by metis
  have "db_inv E db'"
    unfolding db' using inv fresh(1) c by (intro category_append_inv) (simp_all add: repo_inv_def)
  moreover have "taxonomy_ok db'"
    using inv fresh(2) c new_category_slug_valid [OF slug]
    by (auto simp: repo_inv_def site_inv_def taxonomy_ok_def db' nocase_eq_def distinct_map_snoc simp del: map_append set_map)
  moreover have "owners_ok db'" "members_ok db'" "themes_ok db'" "accounts_ok db'"
    using inv by (simp_all add: repo_inv_def site_inv_def owners_ok_def members_ok_def themes_ok_def accounts_ok_def db')
  ultimately show ?thesis by (simp add: repo_inv_def site_inv_def)
qed

lemma update_categories_inv:
  assumes inv: "repo_inv E db" and f: "\<And>c. c_id (f c) = c_id c \<and> c_site_id (f c) = c_site_id c \<and> c_slug (f c) = c_slug c"
  shows "repo_inv E (sql_update_categories f category site db)"
proof -
  let ?db = "sql_update_categories f category site db"
  have tab: "categories ?db = update_where (\<lambda>c. c_id c = category \<and> c_site_id c = site) f (categories db)"
    by (simp add: sql_update_categories_def)
  have "db_inv E ?db" using inv f by (intro category_update_inv) (simp_all add: repo_inv_def)
  moreover have "map (\<lambda>c. (c_site_id c, to_ascii_lowercase (c_slug c))) (categories ?db)
      = map (\<lambda>c. (c_site_id c, to_ascii_lowercase (c_slug c))) (categories db)"
    unfolding tab by (rule update_where_map_same) (simp add: f)
  moreover have "series ?db = series db" "sites ?db = sites db" "users ?db = users db"
      "site_memberships ?db = site_memberships db" "site_theme_revisions ?db = site_theme_revisions db"
    by (simp_all add: sql_update_categories_def)
  moreover have "(\<forall>c \<in> set (categories ?db). valid_handle (c_slug c) \<and> c_slug c \<notin> set (map lit RESERVED_CATEGORY_SLUGS))
     \<longleftrightarrow> (\<forall>c \<in> set (categories db). valid_handle (c_slug c) \<and> c_slug c \<notin> set (map lit RESERVED_CATEGORY_SLUGS))"
  proof -
    have "map c_slug (categories ?db) = map c_slug (categories db)"
      unfolding tab by (rule update_where_map_same) (simp add: f)
    then have "c_slug ` set (categories ?db) = c_slug ` set (categories db)" by (metis set_map)
    then show ?thesis by (metis (no_types, lifting) image_iff)
  qed
  ultimately show ?thesis
    using inv unfolding repo_inv_def site_inv_def site_defs by simp
qed

lemma category_keeps:
  "keeps (repo_inv E) (create_category i now owner site input)"
  "keeps (repo_inv E) (update_category now owner site cat uinput)"
  "keeps (repo_inv E) (archive_category now owner site cat)"
proof -
  show "keeps (repo_inv E) (create_category i now owner site input)"
    unfolding create_category_def by (rule keeps_guarded) (rule create_category_step_inv)
  show "keeps (repo_inv E) (update_category now owner site cat uinput)"
    unfolding keeps_def update_category_def
    by (auto intro!: snd_then_load [where P = "repo_inv E"] split: sum.splits)
      (auto simp: and_then_eq_Inr intro!: update_categories_inv)
  show "keeps (repo_inv E) (archive_category now owner site cat)"
    unfolding archive_category_def
    by (intro keeps_then_load keeps_transact) (auto simp: and_then_eq_Inr intro!: update_categories_inv split: if_splits)
qed

lemma series_added_inv:
  assumes inv: "repo_inv E db" and cr: "create_series_for_category_in_transaction i now owner site category db = Inr (x, db')"
  shows "repo_inv E db'"
proof -
  obtain row items where db': "db' = db\<lparr>series := series db @ [row], series_items := items\<rparr>"
    and row: "s_site_id row = site" "s_category_id row = category"
    and fresh: "\<forall>y \<in> set (series db). s_id y \<noteq> s_id row"
      "\<forall>y \<in> set (series db). \<not> (s_site_id y = site \<and> s_category_id y = category)"
    using create_series_effect [OF cr] by metis
  have "taxonomy_ok db'"
    using inv fresh row
    by (auto simp: repo_inv_def site_inv_def taxonomy_ok_def db' distinct_map_snoc simp del: map_append set_map)
  moreover have "owners_ok db'" "members_ok db'" "themes_ok db'" "accounts_ok db'" "db_inv E db'"
    using inv by (simp_all add: repo_inv_def site_inv_def owners_ok_def members_ok_def themes_ok_def accounts_ok_def db')
  ultimately show ?thesis by (simp add: repo_inv_def site_inv_def)
qed

lemma touch_series_inv: "repo_inv E db \<Longrightarrow> repo_inv E (touch_series i site now db)"
proof -
  assume inv: "repo_inv E db"
  let ?db = "touch_series i site now db"
  have tab: "series ?db = update_where (\<lambda>s. s_id s = i \<and> s_site_id s = site) (\<lambda>s. s\<lparr>s_updated_at := now\<rparr>) (series db)"
    by (simp add: touch_series_def)
  have "map s_id (series ?db) = map s_id (series db)"
    "map (\<lambda>s. (s_site_id s, s_category_id s)) (series ?db) = map (\<lambda>s. (s_site_id s, s_category_id s)) (series db)"
    unfolding tab by (rule update_where_map_same, simp)+
  with inv show ?thesis
    by (simp add: repo_inv_def site_inv_def site_defs) (simp add: touch_series_def)
qed

lemma series_keeps:
  "keeps (repo_inv E) (create_series cat i now now' owner site input)"
  "keeps (repo_inv E) (promote_category_to_series i now owner site cat)"
  "keeps (repo_inv E) (update_series now owner site i uinput)"
  "keeps (repo_inv E) (archive_series now owner site i)"
  "keeps (repo_inv E) (replace_series_order now owner site i ids)"
proof -
  show "keeps (repo_inv E) (create_series cat i now now' owner site input)"
    unfolding create_series_def
    by (rule keeps_guarded) (auto simp: and_then_eq_Inr intro: series_added_inv create_category_step_inv)
  show "keeps (repo_inv E) (promote_category_to_series i now owner site cat)"
    unfolding promote_category_to_series_def
    by (rule keeps_guarded_twice) (auto intro: series_added_inv split: sum.splits if_splits)
  show "keeps (repo_inv E) (update_series now owner site i uinput)"
    unfolding keeps_def update_series_def
    by (auto intro!: snd_then_load [where P = "repo_inv E"] split: sum.splits)
      (auto simp: and_then_eq_Inr intro!: touch_series_inv update_categories_inv)
  show "keeps (repo_inv E) (archive_series now owner site i)"
    unfolding archive_series_def
    by (intro keeps_then_load keeps_transact)
      (auto simp: and_then_eq_Inr intro!: touch_series_inv update_categories_inv split: if_splits)
  show "keeps (repo_inv E) (replace_series_order now owner site i ids)"
    unfolding keeps_def replace_series_order_def
    by (auto intro!: snd_then_load [where P = "repo_inv E"] split: if_splits)
      (auto simp: and_then_eq_Inr Let_def intro!: touch_series_inv dest!: reorder_series_items_effect)
qed

end
