(* ===== verification/Store_Admin.thy ===== *)
theory Store_Admin
  imports Store_Sites
begin

text \<open>
  Sessions, the administration control plane, external identities, comments and home pins of
  the SQLite repository. A session is stored under the hash of its token; the control plane is
  a table of at most one row that binds the primary site and its owner to one authentication
  mode, one fingerprint and an epoch. Every call of the clock is a parameter of its own.
\<close>

section \<open>Validation\<close>

definition validate_token_hash :: "byte list \<Rightarrow> RepositoryError + unit" where
  "validate_token_hash value =
     reject_if (length value \<noteq> 32) (Validation ''session token hash must be exactly 32 bytes'')"

definition validate_session_expiry :: "instant \<Rightarrow> instant \<Rightarrow> RepositoryError + unit" where
  "validate_session_expiry now expires_at =
     reject_if (expires_at \<le> now) (Validation ''session expiry must be in the future'')"

definition validate_fingerprint :: "byte list \<Rightarrow> RepositoryError + unit" where
  "validate_fingerprint value =
     reject_if (length value \<noteq> 32) (Validation ''admin binding fingerprint must be exactly 32 bytes'')"

definition validate_subject_hash :: "byte list \<Rightarrow> RepositoryError + unit" where
  "validate_subject_hash value =
     reject_if (length value \<noteq> 32) (Validation ''external subject hash must be exactly 32 bytes'')"

definition fixed_hash :: "byte list \<Rightarrow> string \<Rightarrow> RepositoryError + byte list" where
  "fixed_hash value label =
     (if length value = 32 then Inr value else Inl (Storage (label @ '' is not 32 bytes'')))"

definition validate_external_adapter :: "rstr \<Rightarrow> RepositoryError + rstr" where
  "validate_external_adapter value =
     (let normalized = to_ascii_lowercase (trim value) in
      if normalized = [] \<or> byte_len normalized > 64
         \<or> \<not> list_all (\<lambda>b. is_ascii_lowercase (unat b) \<or> is_ascii_digit (unat b) \<or> unat b \<in> {95, 45})
               (as_bytes normalized)
      then Inl (Validation ''external adapter must contain 1-64 lowercase ASCII letters, digits, _, or -'')
      else Inr normalized)"

definition validate_external_issuer :: "rstr \<Rightarrow> RepositoryError + rstr" where
  "validate_external_issuer value =
     (let v = trim value in
      if v = [] \<or> byte_len v > 2048 \<or> contains_nul v \<or> 13 \<in> set v \<or> 10 \<in> set v
      then Inl (Validation ''external issuer must contain 1-2048 bounded characters'')
      else Inr v)"

definition validate_comment_markdown :: "rstr \<Rightarrow> RepositoryError + rstr" where
  "validate_comment_markdown value =
     (let v = trim value in
      if v = [] \<or> byte_len v > 64 * 1024 \<or> contains_nul v
      then Inl (Validation ''comment Markdown must contain 1-65536 bytes'')
      else Inr v)"

section \<open>Statements\<close>

definition sql_insert_session :: "session_row \<Rightarrow> db \<Rightarrow> sql_error + db" where
  "sql_insert_session row db =
     (if length (se_token_hash row) \<noteq> 32 then Inl ''CHECK constraint failed: length(token_hash) = 32''
      else if exists_where (\<lambda>x. se_id x = se_id row) (sessions db) then Inl (unique_failed ''sessions.id'')
      else if exists_where (\<lambda>x. se_token_hash x = se_token_hash row) (sessions db)
      then Inl (unique_failed ''sessions.token_hash'')
      else if \<not> exists_where (\<lambda>u. u_id u = se_user_id row) (users db) then Inl fk_failed
      else Inr (db\<lparr>sessions := sessions db @ [row]\<rparr>))"

definition sql_insert_control_plane :: "AdminControlPlaneRecord \<Rightarrow> db \<Rightarrow> sql_error + db" where
  "sql_insert_control_plane row db =
     (if cp_auth_epoch row = 0 then Inl ''CHECK constraint failed: auth_epoch > 0''
      else if length (cp_binding_fingerprint row) \<noteq> 32
      then Inl ''CHECK constraint failed: length(binding_fingerprint) = 32''
      else if admin_control_plane db \<noteq> None then Inl (unique_failed ''admin_control_plane.singleton'')
      else if \<not> exists_where (\<lambda>s. st_id s = cp_primary_site_id row) (sites db)
         \<or> \<not> exists_where (\<lambda>u. u_id u = cp_owner_user_id row) (users db)
      then Inl fk_failed
      else Inr (db\<lparr>admin_control_plane := Some row\<rparr>))"

definition sql_insert_external_identity :: "ExternalIdentityRecord \<Rightarrow> db \<Rightarrow> sql_error + db" where
  "sql_insert_external_identity row db =
     (if length (xi_subject_hash row) \<noteq> 32 then Inl ''CHECK constraint failed: length(subject_hash) = 32''
      else if xi_adapter row = [] \<or> length (xi_adapter row) > 64
      then Inl ''CHECK constraint failed: length(adapter) BETWEEN 1 AND 64''
      else if xi_issuer row = [] \<or> length (xi_issuer row) > 2048
      then Inl ''CHECK constraint failed: length(issuer) BETWEEN 1 AND 2048''
      else if exists_where (\<lambda>x. xi_adapter x = xi_adapter row \<and> xi_issuer x = xi_issuer row
           \<and> xi_subject_hash x = xi_subject_hash row) (external_identities db)
      then Inl (unique_failed ''external_identities.adapter, external_identities.issuer, external_identities.subject_hash'')
      else if \<not> exists_where (\<lambda>u. u_id u = xi_user_id row) (users db) then Inl fk_failed
      else Inr (db\<lparr>external_identities := external_identities db @ [row]\<rparr>))"

definition sql_insert_comment :: "CommentRecord \<Rightarrow> db \<Rightarrow> sql_error + db" where
  "sql_insert_comment row db =
     (if exists_where (\<lambda>x. cm_id x = cm_id row) (comments db) then Inl (unique_failed ''comments.id'')
      else if \<not> exists_where (\<lambda>s. st_id s = cm_site_id row) (sites db)
         \<or> \<not> exists_where (\<lambda>d. d_id d = cm_document_id row \<and> d_site_id d = cm_site_id row) (documents db)
         \<or> \<not> exists_where (\<lambda>u. u_id u = cm_author_user_id row) (users db)
      then Inl fk_failed
      else Inr (db\<lparr>comments := comments db @ [row]\<rparr>))"

definition sql_insert_home_pin :: "home_pin_row \<Rightarrow> db \<Rightarrow> sql_error + db" where
  "sql_insert_home_pin row db =
     (if hp_slot row < 1 \<or> hp_slot row > 3 then Inl ''CHECK constraint failed: slot BETWEEN 1 AND 3''
      else if exists_where (\<lambda>x. hp_slot x = hp_slot row) (home_pins db) then Inl (unique_failed ''home_pins.slot'')
      else if exists_where (\<lambda>x. hp_document_id x = hp_document_id row) (home_pins db)
      then Inl (unique_failed ''home_pins.document_id'')
      else if \<not> exists_where (\<lambda>d. d_id d = hp_document_id row) (documents db)
         \<or> \<not> exists_where (\<lambda>u. u_id u = hp_pinned_by_user_id row) (users db)
      then Inl fk_failed
      else Inr (db\<lparr>home_pins := home_pins db @ [row]\<rparr>))"

text \<open>\<open>UPDATE sites SET handle, title, description\<close>: the handle keeps its checks and stays unique.\<close>

definition sql_update_site_profile ::
  "uuid \<Rightarrow> rstr \<Rightarrow> rstr \<Rightarrow> rstr option \<Rightarrow> instant \<Rightarrow> db \<Rightarrow> sql_error + db" where
  "sql_update_site_profile i handle title description now db =
     (let hit = (\<lambda>s. st_id s = i) in
      if exists_where hit (sites db) \<and> to_ascii_lowercase handle \<noteq> handle
      then Inl ''CHECK constraint failed: handle = lower(handle)''
      else if exists_where hit (sites db) \<and> (handle = [] \<or> length handle > 40)
      then Inl ''CHECK constraint failed: length(handle) BETWEEN 1 AND 40''
      else if exists_where hit (sites db)
         \<and> list_ex (\<lambda>c. \<not> is_ascii_lowercase c \<and> \<not> is_ascii_digit c \<and> c \<noteq> 45) handle
      then Inl (''CHECK constraint failed: handle NOT GLOB '' @ [quote] @ ''*[^a-z0-9-]*'' @ [quote])
      else if exists_where hit (sites db)
         \<and> exists_where (\<lambda>s. st_id s \<noteq> i \<and> nocase_eq (st_handle s) handle) (sites db)
      then Inl (unique_failed ''sites.handle'')
      else Inr (db\<lparr>sites := update_where hit
             (\<lambda>s. s\<lparr>st_handle := handle, st_title := title, st_description := description, st_updated_at := now\<rparr>)
             (sites db)\<rparr>))"

section \<open>Sessions\<close>

record SessionRecord =
  ss_id :: uuid
  ss_user_id :: uuid
  ss_auth_epoch :: nat
  ss_auth_method :: SessionAuthMethod
  ss_expires_at :: instant
  ss_created_at :: instant
  ss_revoked_at :: "instant option"

definition parse_session_row :: "session_row \<Rightarrow> SessionRecord" where
  "parse_session_row row =
     \<lparr>ss_id = se_id row, ss_user_id = se_user_id row, ss_auth_epoch = se_auth_epoch row,
      ss_auth_method = se_auth_method row, ss_expires_at = se_expires_at row,
      ss_created_at = se_created_at row, ss_revoked_at = se_revoked_at row\<rparr>"

definition load_session_by_id :: "db \<Rightarrow> uuid \<Rightarrow> RepositoryError + SessionRecord" where
  "load_session_by_id db i =
     and_then (ok_or NotFound (row_where (\<lambda>s. se_id s = i) (sessions db))) (\<lambda>row. Inr (parse_session_row row))"

definition insert_session ::
  "uuid \<Rightarrow> instant \<Rightarrow> instant \<Rightarrow> uuid \<Rightarrow> byte list \<Rightarrow> instant \<Rightarrow> nat \<Rightarrow> SessionAuthMethod \<Rightarrow> db \<Rightarrow>
   RepositoryError + SessionRecord \<times> db" where
  "insert_session i checked now user token_hash expires_at auth_epoch auth_method db =
     and_then (validate_token_hash token_hash) (\<lambda>_.
     and_then (validate_session_expiry checked expires_at) (\<lambda>_.
     and_then (reject_if (auth_epoch \<ge> 2 ^ 63) (Validation ''session auth epoch is too large'')) (\<lambda>_.
     and_then (map_err map_community_constraint_error (sql_insert_session
        \<lparr>se_id = i, se_token_hash = token_hash, se_user_id = user, se_expires_at = expires_at,
         se_created_at = now, se_revoked_at = None, se_auth_epoch = auth_epoch,
         se_auth_method = auth_method\<rparr> db)) (\<lambda>db.
     and_then (load_session_by_id db i) (\<lambda>record.
       Inr (record, db))))))"

definition load_active_session_by_hash :: "db \<Rightarrow> instant \<Rightarrow> byte list \<Rightarrow> RepositoryError + SessionRecord" where
  "load_active_session_by_hash db now token_hash =
     and_then (ok_or NotFound (row_where (\<lambda>s. se_token_hash s = token_hash \<and> se_revoked_at s = None)
        (sessions db))) (\<lambda>row.
       if ss_expires_at (parse_session_row row) \<le> now then Inl NotFound else Inr (parse_session_row row))"

text \<open>A single statement outside a transaction commits by itself.\<close>

definition create_session ::
  "uuid \<Rightarrow> instant \<Rightarrow> instant \<Rightarrow> instant \<Rightarrow> uuid \<Rightarrow> byte list \<Rightarrow> instant \<Rightarrow> db \<Rightarrow>
   (RepositoryError + SessionRecord) \<times> db" where
  "create_session i checked checked' now user token_hash expires_at db =
     (case and_then (validate_token_hash token_hash) (\<lambda>_.
           and_then (validate_session_expiry checked expires_at) (\<lambda>_.
             insert_session i checked' now user token_hash expires_at 0 LegacySession db)) of
        Inl e \<Rightarrow> (Inl e, db)
      | Inr (record, db') \<Rightarrow> (Inr record, db'))"

definition revoke_session :: "instant \<Rightarrow> byte list \<Rightarrow> db \<Rightarrow> (RepositoryError + bool) \<times> db" where
  "revoke_session now token_hash db =
     (case validate_token_hash token_hash of
        Inl e \<Rightarrow> (Inl e, db)
      | Inr _ \<Rightarrow>
          let hit = (\<lambda>s. se_token_hash s = token_hash \<and> se_revoked_at s = None) in
          (Inr (length (filter hit (sessions db)) > 0),
           db\<lparr>sessions := update_where hit (\<lambda>s. s\<lparr>se_revoked_at := Some now\<rparr>) (sessions db)\<rparr>))"

section \<open>The administration control plane\<close>

fun session_method :: "AdminAuthMode \<Rightarrow> SessionAuthMethod option" where
  "session_method AccessKey = Some AccessKeySession"
| "session_method External = Some ExternalSession"
| "session_method Disabled = None"

definition load_admin_control_plane_optional :: "db \<Rightarrow> RepositoryError + AdminControlPlaneRecord option" where
  "load_admin_control_plane_optional db =
     map_transpose (\<lambda>row. and_then (fixed_hash (cp_binding_fingerprint row) ''admin binding fingerprint'') (\<lambda>_. Inr row))
       (admin_control_plane db)"

definition load_admin_control_plane :: "db \<Rightarrow> RepositoryError + AdminControlPlaneRecord" where
  "load_admin_control_plane db = and_then (load_admin_control_plane_optional db) (ok_or NotFound)"

definition insert_admin_control_plane ::
  "instant \<Rightarrow> uuid \<Rightarrow> uuid \<Rightarrow> AdminAuthMode \<Rightarrow> byte list \<Rightarrow> bool \<Rightarrow> db \<Rightarrow>
   RepositoryError + AdminControlPlaneRecord \<times> db" where
  "insert_admin_control_plane now primary_site owner auth_mode fingerprint setup_complete db =
     and_then (validate_fingerprint fingerprint) (\<lambda>_.
     and_then (ensure_site_owner db owner primary_site) (\<lambda>_.
     and_then (map_err map_community_constraint_error (sql_insert_control_plane
        \<lparr>cp_primary_site_id = primary_site, cp_owner_user_id = owner, cp_auth_mode = auth_mode,
         cp_auth_epoch = 1, cp_setup_complete = setup_complete, cp_binding_fingerprint = fingerprint,
         cp_created_at = now, cp_updated_at = now\<rparr> db)) (\<lambda>db.
     and_then (load_admin_control_plane db) (\<lambda>record.
       Inr (record, db)))))"

definition validate_control_plane_binding ::
  "AdminControlPlaneRecord \<Rightarrow> uuid \<Rightarrow> AdminAuthMode \<Rightarrow> byte list \<Rightarrow> RepositoryError + unit" where
  "validate_control_plane_binding existing primary_site auth_mode fingerprint =
     (if cp_primary_site_id existing = primary_site \<and> cp_auth_mode existing = auth_mode
         \<and> cp_binding_fingerprint existing = fingerprint
      then Inr ()
      else Inl (Validation ''admin control-plane binding differs from persisted state; use an explicit authentication migration or rotation''))"

record PrimaryOwnerBootstrap =
  pb_site_id :: uuid
  pb_site_handle :: rstr
  pb_site_title :: rstr
  pb_site_description :: "rstr option"
  pb_owner_display_name :: rstr
  pb_theme_profile :: ThemeProfile

definition provision_primary_owner_site ::
  "instant \<Rightarrow> instant \<Rightarrow> PrimaryOwnerBootstrap \<Rightarrow> AdminAuthMode \<Rightarrow> byte list \<Rightarrow> db \<Rightarrow>
   (RepositoryError + AdminControlPlaneRecord) \<times> db" where
  "provision_primary_owner_site now now' bootstrap auth_mode fingerprint db =
     (case and_then (validate_fingerprint fingerprint) (\<lambda>_.
           and_then (normalize_handle (pb_site_handle bootstrap) ''site handle'') (\<lambda>handle.
           and_then (validate_required_text (pb_site_title bootstrap) ''site title'' 200) (\<lambda>title.
           and_then (validate_optional_text (pb_site_description bootstrap) ''site description'' 2000) (\<lambda>description.
           and_then (validate_required_text (pb_owner_display_name bootstrap) ''owner display name'' 100) (\<lambda>name.
             Inr (handle, title, description, name)))))) of
        Inl e \<Rightarrow> (Inl e, db)
      | Inr (handle, title, description, name) \<Rightarrow> transact (\<lambda>db.
          and_then (load_admin_control_plane_optional db) (\<lambda>control.
          case control of
            Some existing \<Rightarrow>
              and_then (validate_control_plane_binding existing (pb_site_id bootstrap) auth_mode fingerprint) (\<lambda>_.
              and_then (ensure_site_owner db (cp_owner_user_id existing) (cp_primary_site_id existing)) (\<lambda>_.
                Inr (existing, db)))
          | None \<Rightarrow>
              and_then (case load_site_by_id db (pb_site_id bootstrap) None of
                  Inr site \<Rightarrow> Inr (site, True, db)
                | Inl e \<Rightarrow>
                    if e \<noteq> NotFound then Inl e
                    else
                      let i = pb_site_id bootstrap; owner_handle = lit ''owner-'' @ uuid_simple i in
                      and_then (reject_if (length (sites db) \<noteq> 0)
                         (Validation ''refusing to guess a primary owner because another site already exists'')) (\<lambda>_.
                      and_then (map_err map_community_constraint_error (sql_insert_user
                         \<lparr>u_id = i, u_email = owner_handle @ lit ''@localhost'', u_handle = owner_handle,
                          u_display_name = name, u_password_phc = lit ''$argon2id$disabled-for-primary-owner'',
                          u_created_at = now, u_updated_at = now\<rparr> db)) (\<lambda>db.
                      and_then (map_err map_community_constraint_error (sql_insert_site
                         \<lparr>st_id = i, st_handle = handle, st_title = title, st_description = description,
                          st_current_theme_revision = 1, st_created_at = now, st_updated_at = now\<rparr> db)) (\<lambda>db.
                      and_then (map_err map_community_constraint_error (sql_insert_membership
                         \<lparr>m_site_id = i, m_user_id = i, m_role = Owner, m_created_at = now\<rparr> db)) (\<lambda>db.
                      and_then (map_err map_community_constraint_error (sql_insert_theme_revision
                         \<lparr>tr_site_id = i, tr_revision = 1, tr_profile = pb_theme_profile bootstrap,
                          tr_custom_css = None, tr_created_by_user_id = i, tr_created_at = now\<rparr> db)) (\<lambda>db.
                      and_then (load_site_by_id db i None) (\<lambda>site.
                        Inr (site, False, db)))))))) (\<lambda>(site, setup_complete, db).
                insert_admin_control_plane now' (site_id site) (site_owner_user_id site) auth_mode fingerprint
                  setup_complete db))) db)"

definition reconcile_admin_control_plane ::
  "instant \<Rightarrow> uuid \<Rightarrow> AdminAuthMode \<Rightarrow> byte list \<Rightarrow> db \<Rightarrow> (RepositoryError + AdminControlPlaneRecord) \<times> db" where
  "reconcile_admin_control_plane now primary_site auth_mode fingerprint db =
     (case validate_fingerprint fingerprint of
        Inl e \<Rightarrow> (Inl e, db)
      | Inr _ \<Rightarrow> transact (\<lambda>db.
          and_then (load_admin_control_plane_optional db) (\<lambda>control.
          case control of
            Some existing \<Rightarrow>
              and_then (validate_control_plane_binding existing primary_site auth_mode fingerprint) (\<lambda>_.
              and_then (ensure_site_owner db (cp_owner_user_id existing) (cp_primary_site_id existing)) (\<lambda>_.
                Inr (existing, db)))
          | None \<Rightarrow>
              and_then (load_site_by_id db primary_site None) (\<lambda>site.
                insert_admin_control_plane now (site_id site) (site_owner_user_id site) auth_mode fingerprint True db))) db)"

text \<open>
  Rotation: a new epoch, every session that is not a legacy one revoked, every external
  identity removed. The epoch is a \<open>u64\<close> stored as an \<open>i64\<close>.
\<close>

definition rotated_control :: "instant \<Rightarrow> nat \<Rightarrow> AdminAuthMode \<Rightarrow> byte list \<Rightarrow> AdminControlPlaneRecord \<Rightarrow> AdminControlPlaneRecord" where
  "rotated_control now epoch auth_mode fingerprint c =
     (if cp_auth_epoch c = epoch
      then c\<lparr>cp_auth_mode := auth_mode, cp_auth_epoch := epoch + 1, cp_binding_fingerprint := fingerprint,
             cp_updated_at := now\<rparr>
      else c)"

definition revoke_admin_sessions :: "instant \<Rightarrow> session_row list \<Rightarrow> session_row list" where
  "revoke_admin_sessions now rows =
     update_where (\<lambda>s. se_auth_method s \<noteq> LegacySession)
       (\<lambda>s. s\<lparr>se_revoked_at := (case se_revoked_at s of None \<Rightarrow> Some now | Some t \<Rightarrow> Some t)\<rparr>) rows"

definition rotate_in_transaction ::
  "instant \<Rightarrow> uuid \<Rightarrow> AdminAuthMode \<Rightarrow> byte list \<Rightarrow> db \<Rightarrow> RepositoryError + AdminControlPlaneRecord \<times> db" where
  "rotate_in_transaction now primary_site auth_mode fingerprint db =
     and_then (load_admin_control_plane db) (\<lambda>existing.
     and_then (reject_if (cp_primary_site_id existing \<noteq> primary_site)
        (Validation ''administrator authentication rotation cannot change the primary site'')) (\<lambda>_.
     and_then (ensure_site_owner db (cp_owner_user_id existing) (cp_primary_site_id existing)) (\<lambda>_.
     if cp_auth_mode existing = auth_mode \<and> cp_binding_fingerprint existing = fingerprint
     then Inr (existing, db)
     else
       and_then (reject_if (cp_auth_epoch existing + 1 \<ge> 2 ^ 64)
          (Validation ''administrator authentication epoch is exhausted'')) (\<lambda>_.
       and_then (reject_if (cp_auth_epoch existing + 1 \<ge> 2 ^ 63)
          (Validation ''administrator authentication epoch is too large'')) (\<lambda>_.
       and_then (reject_if (\<not> opt_any (\<lambda>c. cp_auth_epoch c = cp_auth_epoch existing) (admin_control_plane db))
          (Storage ''administrator authentication binding changed concurrently'')) (\<lambda>_.
       let db' = db\<lparr>admin_control_plane := map_option (rotated_control now (cp_auth_epoch existing) auth_mode fingerprint)
                     (admin_control_plane db),
                   sessions := revoke_admin_sessions now (sessions db),
                   external_identities := []\<rparr> in
       and_then (load_admin_control_plane db') (\<lambda>record.
         Inr (record, db'))))))))"

definition rotate_admin_control_plane ::
  "instant \<Rightarrow> uuid \<Rightarrow> AdminAuthMode \<Rightarrow> byte list \<Rightarrow> db \<Rightarrow> (RepositoryError + AdminControlPlaneRecord) \<times> db" where
  "rotate_admin_control_plane now primary_site auth_mode fingerprint db =
     (case validate_fingerprint fingerprint of
        Inl e \<Rightarrow> (Inl e, db)
      | Inr _ \<Rightarrow> transact (rotate_in_transaction now primary_site auth_mode fingerprint) db)"

definition complete_primary_owner_setup ::
  "instant \<Rightarrow> instant \<Rightarrow> instant \<Rightarrow> uuid \<Rightarrow> rstr \<Rightarrow> rstr \<Rightarrow> rstr option \<Rightarrow> ThemeProfile \<Rightarrow> db \<Rightarrow>
   (RepositoryError + SiteRecord) \<times> db" where
  "complete_primary_owner_setup now now' now'' owner handle title description theme db =
     (case and_then (normalize_handle handle ''site handle'') (\<lambda>handle.
           and_then (validate_required_text title ''site title'' 200) (\<lambda>title.
           and_then (validate_optional_text description ''site description'' 2000) (\<lambda>description.
             Inr (handle, title, description)))) of
        Inl e \<Rightarrow> (Inl e, db)
      | Inr (handle, title, description) \<Rightarrow> transact (\<lambda>db.
          and_then (load_admin_control_plane db) (\<lambda>control.
          and_then (reject_if (cp_owner_user_id control \<noteq> owner) NotFound) (\<lambda>_.
          and_then (reject_if (cp_setup_complete control)
             (Validation ''primary owner setup is already complete'')) (\<lambda>_.
          and_then (ensure_site_owner db (cp_owner_user_id control) (cp_primary_site_id control)) (\<lambda>_.
          and_then (map_err map_community_constraint_error (sql_update_site_profile
             (cp_primary_site_id control) handle title description now db)) (\<lambda>db.
          and_then (append_site_appearance_revision (cp_owner_user_id control) (cp_primary_site_id control)
             theme None now' db) (\<lambda>db.
          let updated = opt_any (\<lambda>c. \<not> cp_setup_complete c) (admin_control_plane db);
              db = db\<lparr>admin_control_plane := map_option (\<lambda>c. if cp_setup_complete c then c
                     else c\<lparr>cp_setup_complete := True, cp_updated_at := now''\<rparr>) (admin_control_plane db)\<rparr> in
          and_then (reject_if (\<not> updated) (Validation ''primary owner setup is already complete'')) (\<lambda>_.
          and_then (load_site_by_id db (cp_primary_site_id control) (Some (cp_owner_user_id control))) (\<lambda>site.
            Inr (site, db)))))))))) db)"

section \<open>External identities\<close>

definition load_external_identity_optional ::
  "db \<Rightarrow> rstr \<Rightarrow> rstr \<Rightarrow> byte list \<Rightarrow> RepositoryError + ExternalIdentityRecord option" where
  "load_external_identity_optional db adapter issuer subject_hash =
     map_transpose (\<lambda>row. and_then (fixed_hash (xi_subject_hash row) ''external subject hash'') (\<lambda>_. Inr row))
       (row_where (\<lambda>x. xi_adapter x = adapter \<and> xi_issuer x = issuer \<and> xi_subject_hash x = subject_hash)
          (external_identities db))"

definition load_external_identity ::
  "db \<Rightarrow> rstr \<Rightarrow> rstr \<Rightarrow> byte list \<Rightarrow> RepositoryError + ExternalIdentityRecord" where
  "load_external_identity db adapter issuer subject_hash =
     and_then (load_external_identity_optional db adapter issuer subject_hash) (ok_or NotFound)"

definition bind_external_identity ::
  "instant \<Rightarrow> rstr \<Rightarrow> rstr \<Rightarrow> byte list \<Rightarrow> byte list \<Rightarrow> db \<Rightarrow> (RepositoryError + ExternalIdentityRecord) \<times> db" where
  "bind_external_identity now adapter issuer subject_hash fingerprint db =
     (case and_then (validate_external_adapter adapter) (\<lambda>adapter.
           and_then (validate_external_issuer issuer) (\<lambda>issuer.
           and_then (validate_subject_hash subject_hash) (\<lambda>_.
           and_then (validate_fingerprint fingerprint) (\<lambda>_.
             Inr (adapter, issuer))))) of
        Inl e \<Rightarrow> (Inl e, db)
      | Inr (adapter, issuer) \<Rightarrow> transact (\<lambda>db.
          and_then (load_admin_control_plane db) (\<lambda>control.
          and_then (reject_if (cp_auth_mode control \<noteq> External \<or> cp_binding_fingerprint control \<noteq> fingerprint)
             (Validation ''external identity binding does not match the active administrator authentication binding'')) (\<lambda>_.
          and_then (ensure_site_owner db (cp_owner_user_id control) (cp_primary_site_id control)) (\<lambda>_.
          and_then (load_external_identity_optional db adapter issuer subject_hash) (\<lambda>found.
          and_then (case found of
              Some existing \<Rightarrow>
                and_then (reject_if (xi_user_id existing \<noteq> cp_owner_user_id control)
                   (Validation ''external identity is already bound to a different user'')) (\<lambda>_.
                  Inr (db\<lparr>external_identities := update_where
                     (\<lambda>x. xi_adapter x = adapter \<and> xi_issuer x = issuer \<and> xi_subject_hash x = subject_hash)
                     (\<lambda>x. x\<lparr>xi_last_seen_at := now\<rparr>) (external_identities db)\<rparr>))
            | None \<Rightarrow> map_err map_community_constraint_error (sql_insert_external_identity
                \<lparr>xi_adapter = adapter, xi_issuer = issuer, xi_subject_hash = subject_hash,
                 xi_user_id = cp_owner_user_id control, xi_created_at = now, xi_last_seen_at = now\<rparr> db)) (\<lambda>db.
          and_then (load_external_identity db adapter issuer subject_hash) (\<lambda>record.
            Inr (record, db)))))))) db)"

definition get_external_identity ::
  "db \<Rightarrow> rstr \<Rightarrow> rstr \<Rightarrow> byte list \<Rightarrow> RepositoryError + ExternalIdentityRecord" where
  "get_external_identity db adapter issuer subject_hash =
     and_then (validate_external_adapter adapter) (\<lambda>adapter.
     and_then (validate_external_issuer issuer) (\<lambda>issuer.
     and_then (validate_subject_hash subject_hash) (\<lambda>_.
       load_external_identity db adapter issuer subject_hash)))"

section \<open>Sessions of the primary owner\<close>

definition create_primary_owner_session ::
  "uuid \<Rightarrow> instant \<Rightarrow> instant \<Rightarrow> instant \<Rightarrow> byte list \<Rightarrow> instant \<Rightarrow> SessionAuthMethod \<Rightarrow> byte list \<Rightarrow> db \<Rightarrow>
   (RepositoryError + SessionRecord) \<times> db" where
  "create_primary_owner_session i checked checked' now token_hash expires_at auth_method fingerprint db =
     (case and_then (validate_token_hash token_hash) (\<lambda>_.
           and_then (validate_session_expiry checked expires_at) (\<lambda>_.
             validate_fingerprint fingerprint)) of
        Inl e \<Rightarrow> (Inl e, db)
      | Inr _ \<Rightarrow> transact (\<lambda>db.
          and_then (load_admin_control_plane db) (\<lambda>control.
          and_then (reject_if (session_method (cp_auth_mode control) \<noteq> Some auth_method
               \<or> cp_binding_fingerprint control \<noteq> fingerprint)
             (Validation ''session issuance does not match the active administrator authentication binding'')) (\<lambda>_.
          and_then (ensure_site_owner db (cp_owner_user_id control) (cp_primary_site_id control)) (\<lambda>_.
            insert_session i checked' now (cp_owner_user_id control) token_hash expires_at
              (cp_auth_epoch control) auth_method db)))) db)"

text \<open>A session other than a legacy one is bound to the owner, the epoch and the mode of the control plane.\<close>

definition ensure_bound_session :: "AdminControlPlaneRecord \<Rightarrow> SessionRecord \<Rightarrow> RepositoryError + unit" where
  "ensure_bound_session control session =
     reject_if (ss_user_id session \<noteq> cp_owner_user_id control \<or> ss_auth_epoch session \<noteq> cp_auth_epoch control
        \<or> session_method (cp_auth_mode control) \<noteq> Some (ss_auth_method session)) NotFound"

record PrimaryOwnerSession =
  po_session :: SessionRecord
  po_user :: UserRecord
  po_site :: SiteRecord

definition get_primary_owner_session :: "db \<Rightarrow> instant \<Rightarrow> byte list \<Rightarrow> RepositoryError + PrimaryOwnerSession" where
  "get_primary_owner_session db now token_hash =
     and_then (validate_token_hash token_hash) (\<lambda>_.
     and_then (load_active_session_by_hash db now token_hash) (\<lambda>session.
     and_then (load_admin_control_plane db) (\<lambda>control.
     and_then (ensure_bound_session control session) (\<lambda>_.
     and_then (load_user_by_id db (cp_owner_user_id control)) (\<lambda>user.
     and_then (load_site_by_id db (cp_primary_site_id control) None) (\<lambda>site.
       Inr \<lparr>po_session = session, po_user = user, po_site = site\<rparr>))))))"

definition get_session :: "db \<Rightarrow> instant \<Rightarrow> byte list \<Rightarrow> RepositoryError + SessionRecord" where
  "get_session db now token_hash =
     and_then (validate_token_hash token_hash) (\<lambda>_.
     and_then (load_active_session_by_hash db now token_hash) (\<lambda>session.
     and_then (if ss_auth_method session \<noteq> LegacySession
               then and_then (load_admin_control_plane db) (\<lambda>control. ensure_bound_session control session)
               else Inr ()) (\<lambda>_.
       Inr session)))"

section \<open>Comments\<close>

definition load_comment_by_id :: "db \<Rightarrow> uuid \<Rightarrow> bool \<Rightarrow> RepositoryError + CommentRecord" where
  "load_comment_by_id db i approved_only =
     ok_or NotFound (row_where (\<lambda>c. cm_id c = i \<and> (\<not> approved_only \<or> cm_status c = StoredApproved)) (comments db))"

definition create_comment ::
  "uuid \<Rightarrow> instant \<Rightarrow> uuid \<Rightarrow> uuid \<Rightarrow> uuid \<Rightarrow> rstr \<Rightarrow> db \<Rightarrow> (RepositoryError + CommentRecord) \<times> db" where
  "create_comment i now author site document source_markdown db =
     (case validate_comment_markdown source_markdown of
        Inl e \<Rightarrow> (Inl e, db)
      | Inr markdown \<Rightarrow>
          then_load (\<lambda>db. load_comment_by_id db i False) (transact (\<lambda>db.
            and_then (ensure_user_exists db author) (\<lambda>_.
            and_then (ensure_published_document_in_site db site document) (\<lambda>_.
            and_then (map_err map_community_constraint_error (sql_insert_comment
               \<lparr>cm_id = i, cm_site_id = site, cm_document_id = document, cm_author_user_id = author,
                cm_source_markdown = markdown, cm_status = StoredApproved, cm_created_at = now,
                cm_updated_at = now\<rparr> db)) (\<lambda>db.
              Inr ((), db))))) db))"

definition approved_comments :: "db \<Rightarrow> uuid \<Rightarrow> uuid \<Rightarrow> CommentRecord list" where
  "approved_comments db site document =
     filter (\<lambda>c. cm_site_id c = site \<and> cm_document_id c = document \<and> cm_status c = StoredApproved) (comments db)"

definition list_approved_comments :: "db \<Rightarrow> uuid \<Rightarrow> uuid \<Rightarrow> nat \<Rightarrow> RepositoryError + CommentRecord list" where
  "list_approved_comments db site document limit =
     and_then (ensure_published_document_in_site db site document) (\<lambda>_.
       Inr (take (min limit 1000) (order_by (\<lambda>c. (cm_created_at c, uint (cm_id c)))
         (approved_comments db site document))))"

definition count_approved_comments :: "db \<Rightarrow> uuid \<Rightarrow> uuid \<Rightarrow> RepositoryError + nat" where
  "count_approved_comments db site document =
     and_then (ensure_published_document_in_site db site document) (\<lambda>_.
       Inr (length (approved_comments db site document)))"

definition get_comment :: "db \<Rightarrow> uuid \<Rightarrow> RepositoryError + CommentRecord" where
  "get_comment db i = load_comment_by_id db i True"

section \<open>Home pins\<close>

record HomePinRecord =
  pin_slot :: nat
  pin_document_id :: uuid
  pin_pinned_at :: instant

definition load_home_pins :: "db \<Rightarrow> HomePinRecord list" where
  "load_home_pins db =
     map (\<lambda>p. \<lparr>pin_slot = hp_slot p, pin_document_id = hp_document_id p, pin_pinned_at = hp_pinned_at p\<rparr>)
       (order_by hp_slot (home_pins db))"

fun insert_home_pins :: "uuid \<Rightarrow> instant \<Rightarrow> nat \<Rightarrow> uuid list \<Rightarrow> db \<Rightarrow> RepositoryError + db" where
  "insert_home_pins administrator now index [] db = Inr db"
| "insert_home_pins administrator now index (document # later) db =
     and_then (map_err map_constraint_error (sql_insert_home_pin
        \<lparr>hp_slot = index + 1, hp_document_id = document, hp_pinned_by_user_id = administrator,
         hp_pinned_at = now\<rparr> db)) (\<lambda>db.
       insert_home_pins administrator now (index + 1) later db)"

definition replace_home_pins ::
  "instant \<Rightarrow> uuid \<Rightarrow> uuid list \<Rightarrow> db \<Rightarrow> (RepositoryError + HomePinRecord list) \<times> db" where
  "replace_home_pins now administrator ids db =
     (if length ids > 3 \<or> card (set ids) \<noteq> length ids
      then (Inl (Validation ''home pins must contain at most three unique document ids''), db)
      else transact (\<lambda>db.
        and_then (load_admin_control_plane db) (\<lambda>control.
        and_then (reject_if (cp_owner_user_id control \<noteq> administrator) NotFound) (\<lambda>_.
        and_then (collect_results (\<lambda>document. reject_if (\<not> exists_where (\<lambda>d. d_id d = document
             \<and> d_published_revision_id d \<noteq> None \<and> d_status d \<noteq> Archived) (documents db))
           (Validation ''only currently published documents can be pinned'')) ids) (\<lambda>_.
        and_then (insert_home_pins administrator now 0 ids (db\<lparr>home_pins := []\<rparr>)) (\<lambda>db.
          Inr (load_home_pins db, db)))))) db)"

end
