(* ===== verification/Store_Calls.thy ===== *)
theory Store_Calls
  imports Store_Steps Store_Admin
begin

text \<open>
  The operations on sessions, the control plane, external identities, comments and home pins
  keep the invariants; then all write operations of the repository as calls, and the databases
  a sequence of calls reaches from an empty one. Failing calls are steps too: they leave the
  database as it was.
\<close>

section \<open>Administration operations keep the invariants\<close>

lemma repo_inv_frame [simp]:
  "repo_inv E (db\<lparr>sessions := x1\<rparr>) = repo_inv E db"
  "repo_inv E (db\<lparr>admin_control_plane := x2\<rparr>) = repo_inv E db"
  "repo_inv E (db\<lparr>external_identities := x3\<rparr>) = repo_inv E db"
  "repo_inv E (db\<lparr>comments := x4\<rparr>) = repo_inv E db"
  "repo_inv E (db\<lparr>home_pins := x5\<rparr>) = repo_inv E db"
  using site_inv_cong [of "db\<lparr>sessions := x1\<rparr>" db] site_inv_cong [of "db\<lparr>admin_control_plane := x2\<rparr>" db]
    site_inv_cong [of "db\<lparr>external_identities := x3\<rparr>" db] site_inv_cong [of "db\<lparr>comments := x4\<rparr>" db]
    site_inv_cong [of "db\<lparr>home_pins := x5\<rparr>" db]
  by (simp_all add: repo_inv_def)

lemma sql_insert_session_effect:
  "sql_insert_session row db = Inr db' \<Longrightarrow> db' = db\<lparr>sessions := sessions db @ [row]\<rparr>
     \<and> length (se_token_hash row) = 32
     \<and> (\<forall>s \<in> set (sessions db). se_id s \<noteq> se_id row \<and> se_token_hash s \<noteq> se_token_hash row)
     \<and> (\<exists>u \<in> set (users db). u_id u = se_user_id row)"
  by (auto simp: sql_insert_session_def exists_where_iff split: if_splits)

lemma insert_session_effect:
  assumes "insert_session i checked now user hash expires epoch auth db = Inr (record, db')"
  shows "\<exists>row. db' = db\<lparr>sessions := sessions db @ [row]\<rparr> \<and> record = parse_session_row row
     \<and> row = \<lparr>se_id = i, se_token_hash = hash, se_user_id = user, se_expires_at = expires, se_created_at = now,
          se_revoked_at = None, se_auth_epoch = epoch, se_auth_method = auth\<rparr>
     \<and> length hash = 32 \<and> checked < expires
     \<and> (\<forall>s \<in> set (sessions db). se_id s \<noteq> i \<and> se_token_hash s \<noteq> hash)
     \<and> (\<exists>u \<in> set (users db). u_id u = user)"
proof -
  let ?row = "\<lparr>se_id = i, se_token_hash = hash, se_user_id = user, se_expires_at = expires, se_created_at = now,
          se_revoked_at = None, se_auth_epoch = epoch, se_auth_method = auth\<rparr>"
  from assms have ins: "sql_insert_session ?row db = Inr db'" and load: "load_session_by_id db' i = Inr record"
    and ok: "length hash = 32" "checked < expires"
    by (auto simp: insert_session_def validate_token_hash_def validate_session_expiry_def and_then_eq_Inr
        map_err_eq_Inr reject_if_eq_Inr)
  note eff = sql_insert_session_effect [OF ins]
  have "row_where (\<lambda>s. se_id s = i) (sessions db @ [?row]) = Some ?row"
    using eff by (subst row_where_append_fresh) auto
  then have "record = parse_session_row ?row"
    using load eff by (auto simp: load_session_by_id_def and_then_eq_Inr ok_or_eq_Inr)
  with eff ok show ?thesis by (intro exI [of _ ?row]) auto
qed

lemma insert_admin_control_plane_effect:
  "insert_admin_control_plane now site owner mode fingerprint setup db = Inr (record, db') \<Longrightarrow>
   admin_control_plane db = None \<and> db' = db\<lparr>admin_control_plane := Some record\<rparr>
     \<and> record = \<lparr>cp_primary_site_id = site, cp_owner_user_id = owner, cp_auth_mode = mode, cp_auth_epoch = 1,
          cp_setup_complete = setup, cp_binding_fingerprint = fingerprint, cp_created_at = now, cp_updated_at = now\<rparr>
     \<and> owns_site_in_connection db owner site \<and> length fingerprint = 32"
  by (auto simp: validate_fingerprint_def insert_admin_control_plane_def and_then_eq_Inr map_err_eq_Inr reject_if_eq_Inr ensure_site_owner_def
      sql_insert_control_plane_def load_admin_control_plane_def load_admin_control_plane_optional_def
      map_transpose_eq_Inr ok_or_eq_Inr split: if_splits)

lemma load_admin_control_plane_Inr:
  "load_admin_control_plane db = Inr c \<longleftrightarrow> admin_control_plane db = Some c \<and> length (cp_binding_fingerprint c) = 32"
  by (cases "admin_control_plane db")
    (auto simp: load_admin_control_plane_def load_admin_control_plane_optional_def and_then_eq_Inr ok_or_eq_Inr
      map_transpose_eq_Inr fixed_hash_def split: if_splits)

lemma rotate_effect:
  assumes "rotate_in_transaction now site mode fingerprint db = Inr (record, db')"
  obtains (same) "db' = db" "admin_control_plane db = Some record" "cp_primary_site_id record = site"
      "cp_auth_mode record = mode" "cp_binding_fingerprint record = fingerprint"
  | (rotated) existing where "admin_control_plane db = Some existing" "cp_primary_site_id existing = site"
      "cp_auth_mode existing \<noteq> mode \<or> cp_binding_fingerprint existing \<noteq> fingerprint"
      "cp_auth_epoch existing + 1 < 2 ^ 63" "length fingerprint = 32"
      "record = existing\<lparr>cp_auth_mode := mode, cp_auth_epoch := cp_auth_epoch existing + 1,
         cp_binding_fingerprint := fingerprint, cp_updated_at := now\<rparr>"
      "db' = db\<lparr>admin_control_plane := Some record, sessions := revoke_admin_sessions now (sessions db),
         external_identities := []\<rparr>"
proof -
  from assms obtain existing where c: "admin_control_plane db = Some existing" "cp_primary_site_id existing = site"
    unfolding rotate_in_transaction_def by (auto simp: and_then_eq_Inr load_admin_control_plane_Inr reject_if_eq_Inr)
  show thesis
  proof (cases "cp_auth_mode existing = mode \<and> cp_binding_fingerprint existing = fingerprint")
    case True
    with assms c show thesis
      by (intro same) (auto simp: rotate_in_transaction_def and_then_eq_Inr load_admin_control_plane_Inr)
  next
    case False
    with assms c show thesis
      by (intro rotated [OF c])
        (auto simp: rotate_in_transaction_def Let_def and_then_eq_Inr load_admin_control_plane_Inr reject_if_eq_Inr rotated_control_def)
  qed
qed

lemma site_profile_inv:
  assumes inv: "repo_inv E db" and up: "sql_update_site_profile i h title description now db = Inr db'"
  shows "repo_inv E db'"
proof -
  let ?f = "\<lambda>s. s\<lparr>st_handle := h, st_title := title, st_description := description, st_updated_at := now\<rparr>"
  have db': "db' = db\<lparr>sites := update_where (\<lambda>s. st_id s = i) ?f (sites db)\<rparr>"
    and fresh: "\<forall>s \<in> set (sites db). st_id s = i \<longrightarrow> (\<forall>s' \<in> set (sites db). st_id s' \<noteq> i \<longrightarrow> \<not> nocase_eq (st_handle s') h)"
    using up by (auto simp: sql_update_site_profile_def Let_def exists_where_iff split: if_splits)
  have ok: "owners_ok db" "members_ok db" "themes_ok db" "accounts_ok db" "taxonomy_ok db" "db_inv E db"
    using inv by (simp_all add: repo_inv_def site_inv_def)
  have ids: "map (\<lambda>s. (st_id s, st_current_theme_revision s)) (sites db') = map (\<lambda>s. (st_id s, st_current_theme_revision s)) (sites db)"
    "map st_id (sites db') = map st_id (sites db)"
    unfolding db' by (simp_all, (rule update_where_map_same, simp)+)
  have img: "(\<lambda>s. (st_id s, st_current_theme_revision s)) ` set (sites db') = (\<lambda>s. (st_id s, st_current_theme_revision s)) ` set (sites db)"
    "st_id ` set (sites db') = st_id ` set (sites db)"
    using arg_cong [OF ids(1), of set] arg_cong [OF ids(2), of set] unfolding set_map .
  have same: "(\<exists>s \<in> set (sites db'). st_id s = k) \<longleftrightarrow> (\<exists>s \<in> set (sites db). st_id s = k)" for k
    using img(2) by (metis (no_types, lifting) image_iff)
  have tabs: "site_memberships db' = site_memberships db" "users db' = users db"
    "site_theme_revisions db' = site_theme_revisions db" by (simp_all add: db')
  have "distinct (map (\<lambda>s. to_ascii_lowercase (st_handle s)) (sites db'))"
  proof -
    have one: "inj_on st_id (set (sites db))" "inj_on (\<lambda>s. to_ascii_lowercase (st_handle s)) (set (sites db))" "distinct (sites db)"
      using ok(4) by (auto simp: accounts_ok_def distinct_map)
    have "inj_on (\<lambda>s. to_ascii_lowercase (st_handle (if st_id s = i then ?f s else s))) (set (sites db))"
      using one(1,2) fresh unfolding inj_on_def nocase_eq_def by (auto split: if_splits)
    then have "distinct (map (\<lambda>s. to_ascii_lowercase (st_handle (if st_id s = i then ?f s else s))) (sites db))"
      using one(3) by (simp add: distinct_map)
    then show ?thesis by (simp add: db' update_where_def comp_def)
  qed
  then have "accounts_ok db'" using ok(4) by (simp add: accounts_ok_def ids(2) tabs(2))
  moreover have "members_ok db'" using ok(2) unfolding members_ok_def tabs same .
  moreover have "owners_ok db'"
    using ok(1) unfolding owners_ok_def tabs by (metis (no_types, lifting) same)
  moreover have "themes_ok db'"
  proof -
    have "\<exists>t \<in> set (site_theme_revisions db). tr_site_id t = st_id s \<and> tr_revision t = st_current_theme_revision s"
      if "s \<in> set (sites db')" for s
    proof -
      have "(st_id s, st_current_theme_revision s) \<in> (\<lambda>s. (st_id s, st_current_theme_revision s)) ` set (sites db)"
        using that img(1) by blast
      then show ?thesis using ok(3) by (auto simp: themes_ok_def)
    qed
    then show ?thesis using ok(3) unfolding themes_ok_def tabs same by blast
  qed
  moreover have "db_inv E db' \<and> taxonomy_ok db'"
    by (rule db_inv_sites [OF _ _ _ _ _ _ ok(6,5)]) (simp_all add: db')
  ultimately show ?thesis by (simp add: repo_inv_def site_inv_def)
qed

lemma snd_transact:
  "P db \<Longrightarrow> (\<And>x db'. f db = Inr (x, db') \<Longrightarrow> P db') \<Longrightarrow> P (snd (transact f db))"
  by (auto simp: transact_def split: sum.splits)

lemma control_plane_inv:
  "repo_inv E db \<Longrightarrow> insert_admin_control_plane now site owner mode fingerprint setup db = Inr (x, db') \<Longrightarrow> repo_inv E db'"
  by (auto dest: insert_admin_control_plane_effect)

lemma session_inv:
  "repo_inv E db \<Longrightarrow> insert_session i checked now user hash expires epoch auth db = Inr (x, db') \<Longrightarrow> repo_inv E db'"
  by (auto dest!: insert_session_effect)

lemma insert_home_pins_effect:
  "insert_home_pins administrator now index ids db = Inr db' \<Longrightarrow> \<exists>pins. db' = db\<lparr>home_pins := pins\<rparr>"
proof (induction ids arbitrary: index db)
  case Nil
  then show ?case by (intro exI [of _ "home_pins db"]) simp
next
  case (Cons document ids)
  then show ?case
    by (fastforce simp: and_then_eq_Inr map_err_eq_Inr sql_insert_home_pin_def split: if_splits)
qed

lemmas primary_site_inv = control_plane_inv [OF site_added_inv [OF user_added_inv]]

lemma control_plane_keeps:
  "keeps (repo_inv E) (provision_primary_owner_site now now' bootstrap mode fingerprint)"
  "keeps (repo_inv E) (reconcile_admin_control_plane now site mode fingerprint)"
  "keeps (repo_inv E) (rotate_admin_control_plane now site mode fingerprint)"
  "keeps (repo_inv E) (complete_primary_owner_setup now now' now'' owner handle title description theme)"
proof -
  show "keeps (repo_inv E) (provision_primary_owner_site now now' bootstrap mode fingerprint)"
    unfolding keeps_def provision_primary_owner_site_def Let_def
    by (auto intro!: snd_transact [where P = "repo_inv E"] split: sum.splits)
      (auto simp: and_then_eq_Inr map_err_eq_Inr intro: control_plane_inv primary_site_inv
        split: option.splits sum.splits if_splits)
  show "keeps (repo_inv E) (reconcile_admin_control_plane now site mode fingerprint)"
    unfolding reconcile_admin_control_plane_def
    by (intro keeps_case_sum [where h = "\<lambda>e. e"] keeps_transact)
      (auto simp: and_then_eq_Inr intro: control_plane_inv split: option.splits)
  show "keeps (repo_inv E) (rotate_admin_control_plane now site mode fingerprint)"
    unfolding rotate_admin_control_plane_def
    by (intro keeps_case_sum [where h = "\<lambda>e. e"] keeps_transact) (auto elim!: rotate_effect)
  show "keeps (repo_inv E) (complete_primary_owner_setup now now' now'' owner handle title description theme)"
    unfolding keeps_def complete_primary_owner_setup_def Let_def
    by (auto intro!: snd_transact [where P = "repo_inv E"] split: sum.splits)
      (auto simp: and_then_eq_Inr map_err_eq_Inr intro: appearance_inv [OF site_profile_inv])
qed

lemma session_keeps:
  "keeps (repo_inv E) (create_session i checked checked' now user hash expires)"
  "keeps (repo_inv E) (create_primary_owner_session i checked checked' now hash expires auth fingerprint)"
  "keeps (repo_inv E) (revoke_session now hash)"
  "keeps (repo_inv E) (bind_external_identity now adapter issuer subject fingerprint)"
proof -
  show "keeps (repo_inv E) (create_session i checked checked' now user hash expires)"
    unfolding keeps_def create_session_def
    by (auto simp: and_then_eq_Inr intro: session_inv split: sum.splits)
  show "keeps (repo_inv E) (create_primary_owner_session i checked checked' now hash expires auth fingerprint)"
    unfolding create_primary_owner_session_def
    by (intro keeps_case_sum [where h = "\<lambda>e. e"] keeps_transact) (auto simp: and_then_eq_Inr intro: session_inv)
  show "keeps (repo_inv E) (revoke_session now hash)"
    unfolding keeps_def revoke_session_def Let_def by (auto split: sum.splits)
  show "keeps (repo_inv E) (bind_external_identity now adapter issuer subject fingerprint)"
    unfolding keeps_def bind_external_identity_def Let_def
    by (auto intro!: snd_transact [where P = "repo_inv E"] split: sum.splits)
      (auto simp: and_then_eq_Inr map_err_eq_Inr sql_insert_external_identity_def split: option.splits if_splits)
qed

lemma community_keeps:
  "keeps (repo_inv E) (create_comment i now author site doc markdown)"
  "keeps (repo_inv E) (replace_home_pins now administrator ids)"
proof -
  show "keeps (repo_inv E) (create_comment i now author site doc markdown)"
    unfolding create_comment_def
    by (intro keeps_case_sum [where h = "\<lambda>e. e"] keeps_then_load keeps_transact)
      (auto simp: and_then_eq_Inr map_err_eq_Inr sql_insert_comment_def split: if_splits)
  show "keeps (repo_inv E) (replace_home_pins now administrator ids)"
    unfolding keeps_def replace_home_pins_def
    by (auto intro!: snd_transact [where P = "repo_inv E"])
      (auto simp: and_then_eq_Inr dest!: insert_home_pins_effect)
qed

section \<open>Relations every operation respects\<close>

text \<open>
  What holds between the database before and after an operation, whatever its result. A
  relation that allows a step to change nothing passes through transactions, guards and the
  reads after a commit.
\<close>

definition related :: "(db \<Rightarrow> db \<Rightarrow> bool) \<Rightarrow> extern \<Rightarrow> (db \<Rightarrow> 'a \<times> db) \<Rightarrow> bool" where
  "related R E f \<longleftrightarrow> (\<forall>db. repo_inv E db \<longrightarrow> R db (snd (f db)))"

locale step_relation =
  fixes E :: extern and R :: "db \<Rightarrow> db \<Rightarrow> bool"
  assumes unchanged: "R db db"
begin

lemma transaction:
  "(\<And>db x db'. repo_inv E db \<Longrightarrow> f db = Inr (x, db') \<Longrightarrow> R db db') \<Longrightarrow> related R E (transact f)"
  unfolding related_def transact_def by (auto intro: unchanged split: sum.splits)

lemma loaded: "related R E f \<Longrightarrow> related R E (\<lambda>db. then_load l (f db))"
  unfolding related_def then_load_def by (auto split: sum.splits prod.splits)

lemma validated:
  "(\<And>y. related R E (g y)) \<Longrightarrow> related R E (\<lambda>db. case r of Inl e \<Rightarrow> (Inl (h e), db) | Inr y \<Rightarrow> g y db)"
  by (cases r) (simp_all add: related_def unchanged)

lemma checked:
  "(\<And>y. r = Inr y \<Longrightarrow> related R E (g y)) \<Longrightarrow> related R E (\<lambda>db. case r of Inl e \<Rightarrow> (Inl (h e), db) | Inr y \<Rightarrow> g y db)"
  by (cases r) (simp_all add: related_def unchanged)

lemma guarded:
  assumes "\<And>db x db'. repo_inv E db \<Longrightarrow> f db = Inr (x, db') \<Longrightarrow> R db db'"
  shows "related R E (transact (\<lambda>db. and_then (g db) (\<lambda>_. f db)))"
  by (rule transaction) (auto simp: and_then_eq_Inr intro: assms)

lemma guarded_twice:
  assumes "\<And>db x db'. repo_inv E db \<Longrightarrow> f db = Inr (x, db') \<Longrightarrow> R db db'"
  shows "related R E (transact (\<lambda>db. and_then (g db) (\<lambda>_. and_then (h db) (\<lambda>_. f db))))"
  by (rule transaction) (auto simp: and_then_eq_Inr intro: assms)

lemma transaction_step:
  "(\<And>x db'. f db = Inr (x, db') \<Longrightarrow> R db db') \<Longrightarrow> R db (snd (transact f db))"
  by (auto simp: transact_def intro: unchanged split: sum.splits)

lemma loaded_step:
  "(\<And>x db'. f db = Inr (x, db') \<Longrightarrow> R db db') \<Longrightarrow> R db (snd (then_load l (transact f db)))"
  by (auto simp: then_load_def transact_def intro: unchanged split: sum.splits prod.splits if_splits)

end

section \<open>Calls and reachable databases\<close>

text \<open>The calls on sessions, the control plane, external identities, comments and home pins.\<close>

datatype admin_call =
    ProvisionOwnerSite instant instant PrimaryOwnerBootstrap AdminAuthMode "byte list"
  | ReconcileControlPlane instant uuid AdminAuthMode "byte list"
  | RotateControlPlane instant uuid AdminAuthMode "byte list"
  | CompleteOwnerSetup instant instant instant uuid rstr rstr "rstr option" ThemeProfile
  | BindExternalIdentity instant rstr rstr "byte list" "byte list"
  | CreateOwnerSession uuid instant instant instant "byte list" instant SessionAuthMethod "byte list"
  | CreateSession uuid instant instant instant uuid "byte list" instant
  | RevokeSession instant "byte list"
  | CreateComment uuid instant uuid uuid uuid rstr
  | ReplaceHomePins instant uuid "uuid list"

fun perform_admin :: "admin_call \<Rightarrow> db \<Rightarrow> db" where
  "perform_admin (ProvisionOwnerSite now now' bootstrap mode fingerprint) db =
     snd (provision_primary_owner_site now now' bootstrap mode fingerprint db)"
| "perform_admin (ReconcileControlPlane now site mode fingerprint) db =
     snd (reconcile_admin_control_plane now site mode fingerprint db)"
| "perform_admin (RotateControlPlane now site mode fingerprint) db =
     snd (rotate_admin_control_plane now site mode fingerprint db)"
| "perform_admin (CompleteOwnerSetup now now' now'' owner handle title description theme) db =
     snd (complete_primary_owner_setup now now' now'' owner handle title description theme db)"
| "perform_admin (BindExternalIdentity now adapter issuer subject fingerprint) db =
     snd (bind_external_identity now adapter issuer subject fingerprint db)"
| "perform_admin (CreateOwnerSession i checked checked' now hash expires auth fingerprint) db =
     snd (create_primary_owner_session i checked checked' now hash expires auth fingerprint db)"
| "perform_admin (CreateSession i checked checked' now user hash expires) db =
     snd (create_session i checked checked' now user hash expires db)"
| "perform_admin (RevokeSession now hash) db = snd (revoke_session now hash db)"
| "perform_admin (CreateComment i now author site doc markdown) db = snd (create_comment i now author site doc markdown db)"
| "perform_admin (ReplaceHomePins now administrator ids) db = snd (replace_home_pins now administrator ids db)"

text \<open>
  A call of a write operation with its arguments, the identifiers it generates and the clock it
  reads. The connection is behind a mutex, so any interleaving of clients is a sequence of calls.
\<close>

datatype repo_call =
    CreateDocument uuid uuid instant NewDocument
  | AppendRevision uuid instant ProposedRevision
  | AppendAiProposal uuid instant instant Ai2AiEnvelope
  | PublishRevision uuid uuid instant
  | AssignCategory instant uuid uuid uuid uuid "uuid option"
  | CreateInOwnedSite uuid uuid instant uuid NewDocument
  | CreateInWritableSite uuid uuid instant uuid NewDocument
  | CreateInCategory uuid uuid instant uuid NewDocument "uuid option"
  | ReviseInOwnedSite uuid instant uuid uuid ProposedRevision
  | ReviseInWritableSite uuid instant uuid uuid ProposedRevision
  | ReviseInCategory uuid instant uuid uuid ProposedRevision "uuid option option"
  | PublishInOwnedSite instant uuid uuid uuid uuid
  | CreateUser uuid instant rstr rstr rstr rstr
  | CreateSite uuid instant uuid rstr rstr "rstr option" ThemeProfile
  | EnsureLegacySite uuid instant
  | AddCollaborator instant uuid uuid rstr SiteMembershipRole
  | RemoveCollaborator uuid uuid uuid
  | ChangeTheme instant uuid uuid ThemeProfile
  | ChangeAppearance instant uuid uuid ThemeProfile "rstr option"
  | CreateCategory uuid instant uuid uuid CreateCategoryInput
  | UpdateCategory instant uuid uuid uuid UpdateCategoryInput
  | ArchiveCategory instant uuid uuid uuid
  | CreateSeries uuid uuid instant instant uuid uuid CreateCategoryInput
  | PromoteCategory uuid instant uuid uuid uuid
  | UpdateSeries instant uuid uuid uuid UpdateCategoryInput
  | ArchiveSeries instant uuid uuid uuid
  | ReplaceSeriesOrder instant uuid uuid uuid "uuid list"
  | AdminCall admin_call

fun perform :: "extern \<Rightarrow> repo_call \<Rightarrow> db \<Rightarrow> db" where
  "perform E (CreateDocument i rid now input) db = snd (create_document E i rid now input db)"
| "perform E (AppendRevision rid now input) db = snd (append_revision E rid now input db)"
| "perform E (AppendAiProposal rid checked received envelope) db =
     snd (append_ai_proposal E rid checked received envelope db)"
| "perform E (PublishRevision i rid now) db = snd (publish i rid now db)"
| "perform E (AssignCategory now actor site doc rid cat) db =
     snd (assign_revision_category_in_writable_site now actor site doc rid cat db)"
| "perform E (CreateInOwnedSite i rid now owner input) db = snd (create_document_in_owned_site E i rid now owner input db)"
| "perform E (CreateInWritableSite i rid now actor input) db =
     snd (create_document_in_writable_site E i rid now actor input db)"
| "perform E (CreateInCategory i rid now actor input cat) db =
     snd (create_document_in_writable_site_with_category E i rid now actor input cat db)"
| "perform E (ReviseInOwnedSite rid now owner site input) db =
     snd (revise_document_in_owned_site E rid now owner site input db)"
| "perform E (ReviseInWritableSite rid now actor site input) db =
     snd (revise_document_in_writable_site E rid now actor site input db)"
| "perform E (ReviseInCategory rid now actor site input selection) db =
     snd (revise_document_in_writable_site_with_category E rid now actor site input selection db)"
| "perform E (PublishInOwnedSite now owner site doc rid) db =
     snd (publish_document_in_owned_site now owner site doc rid db)"
| "perform E (CreateUser i now email handle name phc) db = snd (create_user i now email handle name phc db)"
| "perform E (CreateSite i now owner handle title description theme) db =
     snd (create_site i now owner handle title description theme db)"
| "perform E (EnsureLegacySite i now) db = snd (ensure_legacy_site i now db)"
| "perform E (AddCollaborator now owner site email role) db = snd (add_site_collaborator now owner site email role db)"
| "perform E (RemoveCollaborator owner site collaborator) db = snd (remove_site_collaborator owner site collaborator db)"
| "perform E (ChangeTheme now owner site theme) db = snd (change_site_theme now owner site theme db)"
| "perform E (ChangeAppearance now owner site theme css) db = snd (change_site_appearance now owner site theme css db)"
| "perform E (CreateCategory i now owner site input) db = snd (create_category i now owner site input db)"
| "perform E (UpdateCategory now owner site cat input) db = snd (update_category now owner site cat input db)"
| "perform E (ArchiveCategory now owner site cat) db = snd (archive_category now owner site cat db)"
| "perform E (CreateSeries cat i now now' owner site input) db = snd (create_series cat i now now' owner site input db)"
| "perform E (PromoteCategory i now owner site cat) db = snd (promote_category_to_series i now owner site cat db)"
| "perform E (UpdateSeries now owner site i input) db = snd (update_series now owner site i input db)"
| "perform E (ArchiveSeries now owner site i) db = snd (archive_series now owner site i db)"
| "perform E (ReplaceSeriesOrder now owner site i ids) db = snd (replace_series_order now owner site i ids db)"
| "perform E (AdminCall call) db = perform_admin call db"

inductive reachable :: "extern \<Rightarrow> db \<Rightarrow> bool" for E where
  reachable_init: "reachable E empty_db"
| reachable_call: "reachable E db \<Longrightarrow> reachable E (perform E call db)"

lemmas admin_keeps = control_plane_keeps session_keeps community_keeps

lemma perform_admin_inv: "repo_inv E db \<Longrightarrow> repo_inv E (perform_admin call db)"
  by (cases call; simp; erule admin_keeps [unfolded keeps_def, rule_format])

lemmas operation_keeps = create_document_keeps append_revision_keeps append_ai_proposal_keeps publish_keeps
  site_documents_keep create_user_keeps create_site_keeps ensure_legacy_site_keeps add_site_collaborator_keeps
  remove_site_collaborator_keeps appearance_keeps category_keeps series_keeps

lemma perform_inv: "repo_inv E db \<Longrightarrow> repo_inv E (perform E call db)"
  by (cases call; simp; (erule perform_admin_inv | erule operation_keeps [unfolded keeps_def, rule_format]))

lemma reachable_repo_inv: "reachable E db \<Longrightarrow> repo_inv E db"
  by (induction rule: reachable.induct) (auto intro: repo_inv_empty perform_inv)

lemma reachable_run: "reachable E db \<Longrightarrow> reachable E (fold (perform E) calls db)"
  by (induction calls arbitrary: db) (auto intro: reachable_call)

end
