(* ===== verification/Store_History.thy ===== *)
theory Store_History
  imports Store_Calls
begin

text \<open>
  The content tables as a state machine: every call of a write operation is idle, creates a
  document, appends a revision (possibly with the audit row of a proposal), moves a draft or
  publishes. The properties of histories are proved by cases on these steps.
\<close>

section \<open>Steps of the content tables\<close>

text \<open>An audit row whose stored envelope reads back as the list of proposals requires.\<close>

definition audit_readable :: "ai_audit_row \<Rightarrow> bool" where
  "audit_readable a \<longleftrightarrow> (\<exists>record. parse_audit_row (a_document_id a) a = Inr record)"

text \<open>The flag \<open>allow\<close> says whether the step may publish.\<close>

definition same_content :: "db \<Rightarrow> db \<Rightarrow> bool" where
  "same_content db db' \<longleftrightarrow>
     documents db' = documents db \<and> revisions db' = revisions db \<and> routes db' = routes db
     \<and> revision_categories db' = revision_categories db \<and> ai_proposal_audits db' = ai_proposal_audits db
     \<and> (\<forall>c \<in> set (categories db). \<exists>c' \<in> set (categories db'). c_id c' = c_id c \<and> c_site_id c' = c_site_id c
          \<and> c_slug c' = c_slug c)"

inductive content_step :: "extern \<Rightarrow> bool \<Rightarrow> db \<Rightarrow> db \<Rightarrow> bool" for E allow where
  idle: "same_content db db' \<Longrightarrow> content_step E allow db db'"
| create: "created E d r pl db db' \<Longrightarrow> content_step E allow db db'"
| append: "appended E d r pl path now db db' \<Longrightarrow> content_step E allow db db'"
| propose: "appended E d r pl path now db db1 \<Longrightarrow> a_accepted_revision_id a = r_id r \<Longrightarrow>
     a_document_id a = r_document_id r \<Longrightarrow> r_idempotency_key r = Some (a_idempotency_key a) \<Longrightarrow> audit_readable a \<Longrightarrow>
     (\<forall>x \<in> set (ai_proposal_audits db). a_message_id x \<noteq> a_message_id a) \<Longrightarrow>
     db' = db1\<lparr>ai_proposal_audits := ai_proposal_audits db @ [a]\<rparr> \<Longrightarrow> content_step E allow db db'"
| move: "moved d cat actor path now db db' \<Longrightarrow> content_step E allow db db'"
| publish: "allow \<Longrightarrow> published_as d r path now db db' \<Longrightarrow> content_step E allow db db'"

inductive_cases content_stepE: "content_step E allow db db'"

lemma same_content_refl [simp]: "same_content db db"
  by (auto simp: same_content_def)

lemma content_step_refl: "content_step E allow db db"
  by (rule idle) simp

interpretation content: step_relation E "content_step E allow" for E allow
  by unfold_locales (rule content_step_refl)

abbreviation acts :: "extern \<Rightarrow> bool \<Rightarrow> (db \<Rightarrow> 'a \<times> db) \<Rightarrow> bool" where
  "acts E allow \<equiv> related (content_step E allow) E"

section \<open>Every operation is a step\<close>

lemma create_acts:
  "repo_inv E db \<Longrightarrow> create_document_in_transaction E i rid input now initial key db = Inr (x, db') \<Longrightarrow> content_step E allow db db'"
  by (erule create_effect) (rule content_step.create)

lemma append_acts:
  "repo_inv E db \<Longrightarrow> append_revision_in_transaction_with_category E rid input now assignment db = Inr (x, db') \<Longrightarrow>
   content_step E allow db db'"
  unfolding repo_inv_def by (elim conjE, rule append_effect) (auto intro: content_step.append)

lemma assign_acts:
  "repo_inv E db \<Longrightarrow> assign_revision_category_in_transaction actor site doc rid cat now db = Inr (x, db') \<Longrightarrow>
   content_step E allow db db'"
  by (erule assign_effect) (rule content_step.move)

lemma publish_acts:
  "repo_inv E db \<Longrightarrow> publish_in_transaction_at i rid now db = Inr (x, db') \<Longrightarrow> content_step E True db db'"
  unfolding repo_inv_def by (elim conjE, rule publish_effect) (auto intro: content_step.publish)

lemmas content_acts = create_acts append_acts assign_acts publish_acts

lemma proposal_key [simp]: "prop_idempotency_key (proposal_of_envelope v) = Some (env_idempotency_key v)"
  by (simp add: proposal_of_envelope_def)

lemma proposal_document: "prop_document_id (proposal_of_envelope v) = prop_document_id (env_proposal v)"
  by (simp add: proposal_of_envelope_def)

lemma ai_proposal_acts:
  assumes inv: "repo_inv E db" and valid: "validate_envelope E checked v = Inr u"
    and step: "and_then (append_revision_in_transaction_with_category E rid (proposal_of_envelope v) received None db)
     (\<lambda>(revision, db). and_then (insert_ai_proposal
         \<lparr>audit_schema_version = AI_PROPOSAL_AUDIT_SCHEMA_VERSION, audit_document_id = rev_document_id revision,
          audit_accepted_revision_id = rev_id revision, audit_received_at = received,
          audit_envelope = v\<rparr> db) (\<lambda>db. Inr (revision, db))) = Inr (x, db')"
  shows "content_step E allow db db'"
proof -
  from step obtain db1 where ap: "append_revision_in_transaction_with_category E rid (proposal_of_envelope v) received None db = Inr (x, db1)"
    and ins: "sql_insert_ai_audit \<lparr>a_schema_version = AI_PROPOSAL_AUDIT_SCHEMA_VERSION,
       a_accepted_revision_id = rev_id x, a_document_id = rev_document_id x, a_message_id = env_message_id v,
       a_idempotency_key = env_idempotency_key v, a_received_at = received,
       a_envelope_json = envelope_to_json v\<rparr> db1 = Inr db'" (is "sql_insert_ai_audit ?a db1 = _")
    by (auto simp: and_then_eq_Inr insert_ai_proposal_def map_err_eq_Inr)
  have dbi: "db_inv E db" using inv by (simp add: repo_inv_def)
  obtain d pl path where app: "appended E d (revision_row_of x (Some (env_idempotency_key v))) pl path received db db1"
      and doc: "rev_document_id x = prop_document_id (env_proposal v)"
    using append_effect [OF dbi ap] unfolding proposal_key by (metis next_revision_sel(2) proposal_document)
  have "audit_readable ?a"
    using envelope_codec_validated [OF valid] doc by (simp add: audit_readable_def parse_audit_row_def reject_if_def)
  have "ai_proposal_audits db1 = ai_proposal_audits db" using app by (simp add: appended_def)
  moreover have "db' = db1\<lparr>ai_proposal_audits := ai_proposal_audits db1 @ [?a]\<rparr>"
    "\<forall>y \<in> set (ai_proposal_audits db1). a_message_id y \<noteq> a_message_id ?a"
    using ins by (auto simp: sql_insert_ai_audit_def exists_where_iff split: if_splits)
  moreover note \<open>audit_readable ?a\<close>
  ultimately show ?thesis by (intro content_step.propose [OF app, of ?a]) simp_all
qed

lemma content_operations_act:
  "acts E allow (create_document E i rid now new_doc)"
  "acts E allow (append_revision E rid now input)"
  "acts E allow (append_ai_proposal E rid checked received envelope)"
  "acts E True (publish doc rid now)"
  "acts E allow (assign_revision_category_in_writable_site now actor site doc rid cat)"
  "acts E allow (create_document_in_owned_site E i rid now owner new_doc)"
  "acts E allow (create_document_in_writable_site E i rid now actor new_doc)"
  "acts E allow (create_document_in_writable_site_with_category E i rid now actor new_doc cat)"
  "acts E allow (revise_document_in_owned_site E rid now owner site input)"
  "acts E allow (revise_document_in_writable_site E rid now actor site input)"
  "acts E allow (revise_document_in_writable_site_with_category E rid now actor site input selection)"
  "acts E True (publish_document_in_owned_site now owner site doc rid)"
proof -
  show "acts E allow (append_ai_proposal E rid checked received envelope)"
    unfolding append_ai_proposal_def append_revision_in_transaction_def Let_def
    by (intro content.checked content.transaction) (rule ai_proposal_acts)
  have "acts E True (\<lambda>db. then_load (\<lambda>db. load_document db doc SelectPublished) (transact (publish_in_transaction doc rid now) db))"
    unfolding publish_in_transaction_def by (intro content.loaded content.transaction) (erule (1) publish_acts)
  then show "acts E True (publish doc rid now)" unfolding publish_def then_load_def .
  show "acts E allow (create_document E i rid now new_doc)" "acts E allow (append_revision E rid now input)"
    unfolding create_document_def append_revision_def append_revision_in_transaction_def
    by (intro content.validated content.transaction, erule (1) content_acts)+
qed (unfold assign_revision_category_in_writable_site_def create_document_in_owned_site_def
    create_document_in_writable_site_def create_document_in_writable_site_with_category_def
    revise_document_in_owned_site_def revise_document_in_writable_site_def
    revise_document_in_writable_site_with_category_def publish_document_in_owned_site_def
    append_revision_in_transaction_def publish_in_transaction_def,
  (intro content.validated content.loaded content.guarded content.guarded_twice, erule (1) content_acts)+)

text \<open>The operations on sites do not touch the content.\<close>

lemma snd_then_load_idle:
  "(\<And>x db'. f db = Inr (x, db') \<Longrightarrow> same_content db db') \<Longrightarrow> content_step E allow db (snd (then_load l (transact f db)))"
  by (rule content.loaded_step) (rule idle)

lemma statement_idle:
  "sql_insert_user u db = Inr db' \<Longrightarrow> same_content db db'"
  "sql_insert_site s db = Inr db' \<Longrightarrow> same_content db db'"
  "sql_insert_membership m db = Inr db' \<Longrightarrow> same_content db db'"
  "sql_insert_theme_revision t db = Inr db' \<Longrightarrow> same_content db db'"
  by (auto dest!: sql_insert_user_effect sql_insert_site_effect sql_insert_membership_effect sql_insert_theme_effect
      simp: same_content_def)

lemma same_content_trans: "same_content db db1 \<Longrightarrow> same_content db1 db2 \<Longrightarrow> same_content db db2"
  unfolding same_content_def by (elim conjE, intro conjI) (simp_all, metis)

lemma or_ignore_idle:
  "or_ignore sql_insert_user u db = Inr db' \<Longrightarrow> same_content db db'"
  "or_ignore sql_insert_site s db = Inr db' \<Longrightarrow> same_content db db'"
  "or_ignore sql_insert_membership m db = Inr db' \<Longrightarrow> same_content db db'"
  "or_ignore sql_insert_theme_revision t db = Inr db' \<Longrightarrow> same_content db db'"
  by (auto dest!: or_ignore_Inr dest: statement_idle)

lemma appearance_idle:
  "append_site_appearance_revision owner site theme css now db = Inr db' \<Longrightarrow> same_content db db'"
  unfolding append_site_appearance_revision_def Let_def
  by (auto simp: and_then_eq_Inr map_err_eq_Inr dest!: sql_insert_theme_effect simp: same_content_def)

lemma update_categories_idle:
  assumes "\<And>c. c_id (f c) = c_id c \<and> c_site_id (f c) = c_site_id c \<and> c_slug (f c) = c_slug c"
  shows "same_content db (sql_update_categories f category site db)"
proof -
  have "\<exists>c' \<in> set (update_where p f (categories db)). c_id c' = c_id c \<and> c_site_id c' = c_site_id c \<and> c_slug c' = c_slug c"
    if "c \<in> set (categories db)" for p c
    using that assms unfolding set_update_where by (intro bexI [of _ "if p c then f c else c"]) auto
  then show ?thesis by (simp add: same_content_def sql_update_categories_def)
qed

lemma create_category_idle:
  "create_category_in_transaction i now owner site input db = Inr (c, db') \<Longrightarrow> same_content db db'"
  by (erule create_category_effect) (auto simp: same_content_def)

lemma create_series_idle:
  "create_series_for_category_in_transaction i now owner site category db = Inr (x, db') \<Longrightarrow> same_content db db'"
  by (erule create_series_effect) (auto simp: same_content_def)

lemma touch_series_idle: "same_content db db' \<Longrightarrow> same_content db (touch_series i site now db')"
  by (simp add: same_content_def touch_series_def)

lemma reorder_idle: "reorder_series_items i site index ids db = Inr db' \<Longrightarrow> same_content db db'"
  by (auto dest!: reorder_series_items_effect simp: same_content_def)

lemmas idle_rules = statement_idle appearance_idle update_categories_idle create_category_idle create_series_idle
  touch_series_idle reorder_idle

lemma account_operations_act:
  "acts E allow (create_user i now email handle name phc)"
  "acts E allow (create_site i now owner handle title description theme)"
  "acts E allow (ensure_legacy_site i now)"
proof -
  show "acts E allow (create_user i now email handle name phc)"
    unfolding related_def create_user_def
    by (auto simp: and_then_eq_Inr map_err_eq_Inr intro: content_step_refl idle idle_rules split: sum.splits)
  show "acts E allow (create_site i now owner handle title description theme)"
    unfolding related_def create_site_def
    by (auto intro!: snd_then_load_idle intro: content_step_refl split: sum.splits)
      (auto simp: and_then_eq_Inr map_err_eq_Inr dest!: statement_idle intro: same_content_trans)
  show "acts E allow (ensure_legacy_site i now)"
    unfolding related_def ensure_legacy_site_def Let_def
    by (auto intro!: snd_then_load_idle intro: content_step_refl split: sum.splits)
      (auto simp: and_then_eq_Inr map_err_eq_Inr dest!: or_ignore_idle intro: same_content_trans)
qed

lemma site_operations_act:
  "acts E allow (add_site_collaborator now owner site email role)"
  "acts E allow (remove_site_collaborator owner site collaborator)"
  "acts E allow (change_site_theme now owner site theme)"
  "acts E allow (change_site_appearance now owner site theme css)"
proof -
  show "acts E allow (add_site_collaborator now owner site email role)"
    unfolding related_def add_site_collaborator_def transact_def
    by (auto simp: and_then_eq_Inr map_err_eq_Inr intro!: content_step_refl idle dest: statement_idle
        split: sum.splits prod.splits if_splits)
  show "acts E allow (remove_site_collaborator owner site collaborator)"
    unfolding remove_site_collaborator_def
    by (rule content.transaction, rule idle) (auto simp: and_then_eq_Inr Let_def same_content_def)
  show "acts E allow (change_site_theme now owner site theme)" "acts E allow (change_site_appearance now owner site theme css)"
    unfolding change_site_theme_def change_site_appearance_def
    by (intro content.loaded content.transaction content.validated [where h = "\<lambda>e. e"],
        auto simp: and_then_eq_Inr intro: idle appearance_idle)+
qed

lemma taxonomy_operations_act:
  "acts E allow (create_category i now owner site input)"
  "acts E allow (update_category now owner site cat uinput)"
  "acts E allow (archive_category now owner site cat)"
  "acts E allow (create_series cat i now now' owner site input)"
  "acts E allow (promote_category_to_series i now owner site cat)"
  "acts E allow (update_series now owner site i uinput)"
  "acts E allow (archive_series now owner site i)"
  "acts E allow (replace_series_order now owner site i ids)"
proof -
  show "acts E allow (create_category i now owner site input)"
    unfolding create_category_def by (rule content.guarded) (auto intro: idle create_category_idle)
  show "acts E allow (update_category now owner site cat uinput)"
    unfolding related_def update_category_def
    by (auto intro!: snd_then_load_idle intro: content_step_refl split: sum.splits)
      (auto simp: and_then_eq_Inr intro!: update_categories_idle)
  show "acts E allow (archive_category now owner site cat)"
    unfolding archive_category_def
    by (intro content.loaded content.transaction) (auto simp: and_then_eq_Inr intro!: idle update_categories_idle split: if_splits)
  show "acts E allow (create_series cat i now now' owner site input)"
    unfolding create_series_def
    by (rule content.guarded, rule idle)
      (auto simp: and_then_eq_Inr intro: same_content_trans create_category_idle create_series_idle)
  show "acts E allow (promote_category_to_series i now owner site cat)"
    unfolding promote_category_to_series_def
    by (rule content.guarded_twice, rule idle) (auto intro: create_series_idle split: sum.splits if_splits)
  show "acts E allow (update_series now owner site i uinput)"
    unfolding related_def update_series_def
    by (auto intro!: snd_then_load_idle intro: content_step_refl split: sum.splits)
      (auto simp: and_then_eq_Inr intro!: touch_series_idle update_categories_idle)
  show "acts E allow (archive_series now owner site i)"
    unfolding archive_series_def
    by (intro content.loaded content.transaction)
      (auto simp: and_then_eq_Inr intro!: idle touch_series_idle update_categories_idle split: if_splits)
  show "acts E allow (replace_series_order now owner site i ids)"
    unfolding related_def replace_series_order_def
    by (auto intro!: snd_then_load_idle intro: content_step_refl)
      (auto simp: and_then_eq_Inr Let_def intro: touch_series_idle dest!: reorder_idle)
qed

lemma session_idle:
  "insert_session i checked now user hash expires epoch auth db = Inr (x, db') \<Longrightarrow> same_content db db'"
  "insert_admin_control_plane now site owner mode fingerprint setup db = Inr (y, db') \<Longrightarrow> same_content db db'"
  "sql_update_site_profile site handle title description now db = Inr db' \<Longrightarrow> same_content db db'"
  "insert_home_pins owner now index ids db = Inr db' \<Longrightarrow> same_content db db'"
  by (auto dest!: insert_session_effect insert_admin_control_plane_effect insert_home_pins_effect
      simp: same_content_def sql_update_site_profile_def Let_def split: if_splits)

lemma same_content_control [simp]: "same_content db (db'\<lparr>admin_control_plane := x\<rparr>) = same_content db db'"
  by (simp add: same_content_def)

lemma snd_transact_idle:
  "(\<And>x db'. f db = Inr (x, db') \<Longrightarrow> same_content db db') \<Longrightarrow> content_step E allow db (snd (transact f db))"
  by (rule content.transaction_step) (rule idle)

lemmas same_content_chain = same_content_trans [OF same_content_trans [OF same_content_trans [OF same_content_trans]]]

lemma control_plane_operations_act:
  "acts E allow (provision_primary_owner_site now now' bootstrap mode fingerprint)"
  "acts E allow (reconcile_admin_control_plane now site mode fingerprint)"
  "acts E allow (rotate_admin_control_plane now site mode fingerprint)"
  "acts E allow (complete_primary_owner_setup now now' now'' owner handle title description theme)"
proof -
  show "acts E allow (provision_primary_owner_site now now' bootstrap mode fingerprint)"
    unfolding related_def provision_primary_owner_site_def Let_def
    by (auto intro!: snd_transact_idle intro: content_step_refl split: sum.splits)
      (auto simp: and_then_eq_Inr map_err_eq_Inr dest!: session_idle statement_idle intro: same_content_chain
        split: option.splits sum.splits if_splits)
  show "acts E allow (reconcile_admin_control_plane now site mode fingerprint)"
    unfolding reconcile_admin_control_plane_def
    by (intro content.validated [where h = "\<lambda>e. e"] content.transaction, rule idle)
      (auto simp: and_then_eq_Inr intro: session_idle(2) split: option.splits)
  show "acts E allow (rotate_admin_control_plane now site mode fingerprint)"
    unfolding rotate_admin_control_plane_def
    by (intro content.validated [where h = "\<lambda>e. e"] content.transaction, rule idle)
      (auto simp: same_content_def elim!: rotate_effect)
  show "acts E allow (complete_primary_owner_setup now now' now'' owner handle title description theme)"
    unfolding related_def complete_primary_owner_setup_def Let_def
    by (auto intro!: snd_transact_idle intro: content_step_refl split: sum.splits)
      (auto simp: and_then_eq_Inr map_err_eq_Inr dest!: session_idle appearance_idle intro: same_content_trans)
qed

lemma session_operations_act:
  "acts E allow (create_session i checked checked' now user hash expires)"
  "acts E allow (create_primary_owner_session i checked checked' now hash expires auth fingerprint)"
  "acts E allow (revoke_session now hash)"
  "acts E allow (bind_external_identity now adapter issuer subject fingerprint)"
proof -
  show "acts E allow (create_session i checked checked' now user hash expires)"
    unfolding related_def create_session_def
    by (auto simp: and_then_eq_Inr intro: content_step_refl idle session_idle split: sum.splits)
  show "acts E allow (create_primary_owner_session i checked checked' now hash expires auth fingerprint)"
    unfolding create_primary_owner_session_def
    by (intro content.validated [where h = "\<lambda>e. e"] content.transaction, rule idle)
      (auto simp: and_then_eq_Inr intro: session_idle(1))
  show "acts E allow (revoke_session now hash)"
    unfolding related_def revoke_session_def Let_def
    by (auto intro!: content_step_refl idle simp: same_content_def split: sum.splits)
  show "acts E allow (bind_external_identity now adapter issuer subject fingerprint)"
    unfolding related_def bind_external_identity_def Let_def
    by (auto intro!: snd_transact_idle intro: content_step_refl split: sum.splits)
      (auto simp: and_then_eq_Inr map_err_eq_Inr sql_insert_external_identity_def same_content_def
        split: option.splits if_splits)
qed

lemma community_operations_act:
  "acts E allow (create_comment i now author site doc markdown)"
  "acts E allow (replace_home_pins now administrator ids)"
proof -
  show "acts E allow (create_comment i now author site doc markdown)"
    unfolding create_comment_def
    by (intro content.validated [where h = "\<lambda>e. e"] content.loaded content.transaction, rule idle)
      (auto simp: and_then_eq_Inr map_err_eq_Inr sql_insert_comment_def same_content_def split: if_splits)
  show "acts E allow (replace_home_pins now administrator ids)"
    unfolding related_def replace_home_pins_def
    by (auto intro!: snd_transact_idle intro: content_step_refl)
      (auto simp: and_then_eq_Inr same_content_def dest!: insert_home_pins_effect)
qed

lemmas admin_operations_act = control_plane_operations_act session_operations_act community_operations_act

lemma perform_admin_step: "repo_inv E db \<Longrightarrow> content_step E allow db (perform_admin call db)"
  by (cases call; simp; erule admin_operations_act [unfolded related_def, rule_format])

lemmas operations_act = content_operations_act account_operations_act site_operations_act taxonomy_operations_act

definition publishes :: "repo_call \<Rightarrow> bool" where
  "publishes call = (case call of PublishRevision _ _ _ \<Rightarrow> True | PublishInOwnedSite _ _ _ _ _ \<Rightarrow> True | _ \<Rightarrow> False)"

lemma perform_step: "repo_inv E db \<Longrightarrow> content_step E (publishes call) db (perform E call db)"
  by (cases call; simp add: publishes_def;
      (erule perform_admin_step | erule operations_act [unfolded related_def, rule_format]))

section \<open>Histories\<close>

lemma step_revisions: "content_step E allow db db' \<Longrightarrow> \<exists>rs. revisions db' = revisions db @ rs"
  by (erule content_stepE) (auto simp: same_content_def effect_defs)

lemma route_published_keeps:
  "rt \<in> set rts \<Longrightarrow> reroute site path i rt \<in> set (route_published site path i now rts)"
  by (simp add: route_published_def)

lemma step_routes:
  assumes "content_step E allow db db'" and rt: "rt \<in> set (routes db)"
  shows "\<exists>rt' \<in> set (routes db'). rt_site_id rt' = rt_site_id rt \<and> rt_path rt' = rt_path rt
     \<and> rt_document_id rt' = rt_document_id rt \<and> rt_created_at rt' = rt_created_at rt"
  using assms(1)
proof cases
  case (publish d r path now)
  have "reroute (d_site_id d) path (d_id d) rt \<in> set (routes db')"
    using rt published_tables(4) [OF publish(2)] by (simp add: route_published_keeps)
  then show ?thesis by (rule rev_bexI) simp
qed (use rt in \<open>auto simp: same_content_def effect_defs\<close>)

text \<open>Sequences of calls.\<close>

lemma run_inv: "repo_inv E db \<Longrightarrow> repo_inv E (fold (perform E) calls db)"
  by (induction calls arbitrary: db) (auto intro: perform_inv)

lemma run_revisions:
  "repo_inv E db \<Longrightarrow> \<exists>rs. revisions (fold (perform E) calls db) = revisions db @ rs"
proof (induction calls arbitrary: db)
  case Nil
  then show ?case by simp
next
  case (Cons call calls)
  from step_revisions [OF perform_step [OF Cons.prems]] obtain rs where "revisions (perform E call db) = revisions db @ rs" by blast
  with Cons.IH [OF perform_inv [OF Cons.prems]] show ?case by (metis append.assoc fold_simps(2))
qed

lemma run_routes:
  "repo_inv E db \<Longrightarrow> rt \<in> set (routes db) \<Longrightarrow>
   \<exists>rt' \<in> set (routes (fold (perform E) calls db)). rt_site_id rt' = rt_site_id rt \<and> rt_path rt' = rt_path rt
     \<and> rt_document_id rt' = rt_document_id rt \<and> rt_created_at rt' = rt_created_at rt"
proof (induction calls arbitrary: db rt)
  case Nil
  then show ?case by auto
next
  case (Cons call calls)
  from step_routes [OF perform_step [OF Cons.prems(1)] Cons.prems(2)] obtain rt1 where rt1: "rt1 \<in> set (routes (perform E call db))"
    "rt_site_id rt1 = rt_site_id rt" "rt_path rt1 = rt_path rt" "rt_document_id rt1 = rt_document_id rt"
    "rt_created_at rt1 = rt_created_at rt" by blast
  from Cons.IH [OF perform_inv [OF Cons.prems(1)] rt1(1)] rt1(2-) show ?case by simp
qed

section \<open>The published view\<close>

definition published_row :: "db \<Rightarrow> uuid \<Rightarrow> revision_row option" where
  "published_row db i =
     (case row_where (\<lambda>d. d_id d = i) (documents db) of None \<Rightarrow> None
      | Some d \<Rightarrow> selected_revision db SelectPublished d)"

definition published_revision :: "db \<Rightarrow> uuid \<Rightarrow> rstr \<Rightarrow> RepositoryError + RevisionSnapshot" where
  "published_revision db site slug = and_then (get_published_by_slug db site slug) (\<lambda>snap. Inr (doc_revision snap))"

lemma load_published_revision:
  "and_then (load_document db i SelectPublished) (\<lambda>snap. Inr (doc_revision snap)) =
     (case published_row db i of None \<Rightarrow> Inl NotFound
      | Some r \<Rightarrow> ok_or (Storage ''invalid snapshot'') (revision_from_json (r_snapshot_json r)))"
  unfolding load_document_def published_row_def
  by (auto simp: and_then_def ok_or_def split: option.splits sum.splits)

lemma get_published_by_slug_eq:
  assumes "routes_ok db"
  shows "get_published_by_slug db site slug =
     and_then (ok_or NotFound (row_where (\<lambda>rt. rt_site_id rt = site \<and> rt_path rt = slug) (routes db)))
       (\<lambda>rt. load_document db (rt_document_id rt) SelectPublished)"
proof -
  have "row_where (\<lambda>rt. rt_site_id rt = site \<and> rt_path rt = slug
           \<and> exists_where (\<lambda>d. d_id d = rt_document_id rt \<and> d_site_id d = rt_site_id rt) (documents db)) (routes db)
      = row_where (\<lambda>rt. rt_site_id rt = site \<and> rt_path rt = slug) (routes db)"
    unfolding row_where_def using assms by (intro find_cong) (auto simp: routes_ok_def exists_where_iff)
  then show ?thesis by (simp add: get_published_by_slug_def)
qed

lemma published_revision_eq:
  assumes "routes_ok db"
  shows "published_revision db site slug =
     and_then (ok_or NotFound (row_where (\<lambda>rt. rt_site_id rt = site \<and> rt_path rt = slug) (routes db)))
       (\<lambda>rt. case published_row db (rt_document_id rt) of None \<Rightarrow> Inl NotFound
          | Some r \<Rightarrow> ok_or (Storage ''invalid snapshot'') (revision_from_json (r_snapshot_json r)))"
  unfolding published_revision_def get_published_by_slug_eq [OF assms] load_published_revision [symmetric]
  by (auto simp: and_then_def split: sum.splits)

lemma row_where_update:
  "(\<And>x. p (f x) = p x) \<Longrightarrow>
   row_where p (update_where q f xs) = map_option (\<lambda>x. if q x then f x else x) (row_where p xs)"
  unfolding row_where_def update_where_def by (induction xs) auto

lemma row_where_snoc_other: "\<not> p y \<Longrightarrow> row_where p (xs @ [y]) = row_where p xs"
  unfolding row_where_def by (induction xs) auto

lemma published_row_cong:
  assumes "documents db' = documents db" "revisions db' = revisions db"
  shows "published_row db' i = published_row db i"
  unfolding published_row_def selected_revision_def assms ..

lemma published_row_created:
  assumes cr: "created E d r pl db db'"
  shows "published_row db' i = published_row db i"
proof (cases "i = d_id d")
  case True
  then have "row_where (\<lambda>x. d_id x = i) (documents db) = None" using cr by (auto simp: created_def row_where_None)
  moreover have "row_where (\<lambda>x. d_id x = i) (documents db') = Some d"
    using cr True by (simp add: created_def row_where_append_fresh)
  moreover have "d_published_revision_id d = None" using cr by (simp add: created_def)
  ultimately show ?thesis by (simp add: published_row_def selected_revision_def)
next
  case False
  then have "row_where (\<lambda>x. d_id x = i) (documents db') = row_where (\<lambda>x. d_id x = i) (documents db)"
    using cr by (simp add: created_def row_where_snoc_other)
  moreover have "selected_revision db' SelectPublished x = selected_revision db SelectPublished x"
    if "row_where (\<lambda>x. d_id x = i) (documents db) = Some x" for x
    using row_where_Some [OF that] cr False by (simp add: selected_revision_def created_def row_where_snoc_other)
  ultimately show ?thesis by (auto simp: published_row_def split: option.splits)
qed

lemma published_row_updated:
  assumes tab: "documents db' = update_where p f (documents db)"
    and f: "\<And>x. d_id (f x) = d_id x \<and> d_published_revision_id (f x) = d_published_revision_id x"
    and st: "\<And>x. x \<in> set (documents db) \<Longrightarrow> d_published_revision_id x \<noteq> None \<Longrightarrow>
       (d_status (f x) = Archived) = (d_status x = Archived)"
    and sel: "\<And>x. x \<in> set (documents db) \<Longrightarrow>
       row_where (\<lambda>r. Some (r_id r) = d_published_revision_id x \<and> r_document_id r = d_id x) (revisions db')
       = row_where (\<lambda>r. Some (r_id r) = d_published_revision_id x \<and> r_document_id r = d_id x) (revisions db)"
  shows "published_row db' i = published_row db i"
proof -
  have row: "row_where (\<lambda>x. d_id x = i) (documents db') =
      map_option (\<lambda>x. if p x then f x else x) (row_where (\<lambda>x. d_id x = i) (documents db))"
    unfolding tab by (rule row_where_update) (simp add: f)
  have "selected_revision db' SelectPublished (if p x then f x else x) = selected_revision db SelectPublished x"
    if "row_where (\<lambda>x. d_id x = i) (documents db) = Some x" for x
    using row_where_Some [OF that] f [of x] st [of x] sel [of x] by (auto simp: selected_revision_def)
  then show ?thesis by (auto simp: published_row_def row split: option.splits)
qed

lemma published_row_appended:
  assumes inv: "db_inv E db" and ap: "appended E d r pl path now db db'"
  shows "published_row db' i = published_row db i"
proof (rule published_row_updated)
  note tab = appended_tables [OF ap]
  show "documents db' = update_where (\<lambda>x. d_id x = d_id d) (appended_document (r_id r) path now) (documents db)"
    by (rule tab(1))
  fix x assume x: "x \<in> set (documents db)"
  show "(d_status (appended_document (r_id r) path now x) = Archived) = (d_status x = Archived)"
    if "d_published_revision_id x \<noteq> None"
    using inv x that by (simp add: db_inv_def status_ok_def appended_document_def)
  have "Some (r_id r) \<noteq> d_published_revision_id x"
    using inv x tab(9) unfolding db_inv_def pointers_ok_def fresh_revision_def by metis
  then show "row_where (\<lambda>r. Some (r_id r) = d_published_revision_id x \<and> r_document_id r = d_id x) (revisions db')
       = row_where (\<lambda>r. Some (r_id r) = d_published_revision_id x \<and> r_document_id r = d_id x) (revisions db)"
    unfolding tab(2) by (simp add: row_where_snoc_other)
qed (simp add: appended_document_def)

lemma published_row_moved: "moved d cat actor path now db db' \<Longrightarrow> published_row db' i = published_row db i"
  by (rule published_row_updated [where f = "\<lambda>x. x\<lparr>d_current_slug := path, d_updated_at := now\<rparr>"])
    (auto simp: moved_def)

text \<open>Only publishing changes what a path shows.\<close>

lemma published_revision_cong:
  assumes "routes_ok db" "routes_ok db'" "routes db' = routes db" "\<And>i. published_row db' i = published_row db i"
  shows "published_revision db' site slug = published_revision db site slug"
  by (simp only: published_revision_eq [OF assms(1)] published_revision_eq [OF assms(2)] assms(3,4))

lemma step_published_revision:
  assumes inv: "repo_inv E db" "repo_inv E db'" and step: "content_step E False db db'"
  shows "published_revision db' site slug = published_revision db site slug"
proof -
  have ok: "routes_ok db" "routes_ok db'" "db_inv E db" using inv by (simp_all add: repo_inv_def db_inv_def)
  from step show ?thesis
  proof cases
    case idle
    then show ?thesis
      by (intro published_revision_cong ok published_row_cong) (simp_all add: same_content_def)
  next
    case (create d r pl)
    then show ?thesis
      by (intro published_revision_cong ok published_row_created) (auto simp: created_def)
  next
    case (append d r pl path now)
    then show ?thesis
      by (intro published_revision_cong ok published_row_appended [OF ok(3)]) (auto simp: appended_def)
  next
    case (propose d r pl path now db1 a)
    have "published_row db' i = published_row db1 i" for i
      by (rule published_row_cong) (simp_all add: propose)
    moreover have "routes db' = routes db" using propose by (simp add: appended_def)
    ultimately show ?thesis
      by (intro published_revision_cong ok) (simp_all add: published_row_appended [OF ok(3) propose(1)])
  next
    case (move d cat actor path now)
    then show ?thesis
      by (intro published_revision_cong ok published_row_moved) (auto simp: moved_def)
  qed simp
qed

end
