(* ===== verification/Store_Sessions.thy ===== *)
theory Store_Sessions
  imports Store_History
begin

text \<open>
  Sessions and the administration control plane over sequences of calls: which calls change
  them and how. A session row, once stored, keeps its token, its user and its binding; the only
  change it ever sees is its revocation. The control plane, once set, keeps its site and its
  owner, and its mode and fingerprint change only together with its epoch.
\<close>

section \<open>Calls that leave the administration tables alone\<close>

definition untouched :: "db \<Rightarrow> db \<Rightarrow> bool" where
  "untouched db db' \<longleftrightarrow>
     sessions db' = sessions db \<and> admin_control_plane db' = admin_control_plane db
     \<and> external_identities db' = external_identities db \<and> comments db' = comments db
     \<and> home_pins db' = home_pins db
     \<and> (\<forall>m \<in> set (site_memberships db). m_role m = Owner \<longrightarrow> m \<in> set (site_memberships db'))
     \<and> u_id ` set (users db) \<subseteq> u_id ` set (users db')"

lemma untouched_refl [simp]: "untouched db db"
  by (simp add: untouched_def)

lemma untouched_trans: "untouched db db1 \<Longrightarrow> untouched db1 db2 \<Longrightarrow> untouched db db2"
  unfolding untouched_def
  by (elim conjE, intro conjI, simp, simp, simp, simp, simp, blast, rule subset_trans)

interpretation frame: step_relation E untouched for E
  by unfold_locales simp

abbreviation frames :: "extern \<Rightarrow> (db \<Rightarrow> 'a \<times> db) \<Rightarrow> bool" where
  "frames E \<equiv> related untouched E"

lemma effects_untouched:
  "created E d r pl db db' \<Longrightarrow> untouched db db'"
  "appended E d r pl path now db db' \<Longrightarrow> untouched db db'"
  "moved d cat actor path now db db' \<Longrightarrow> untouched db db'"
  "published_as d r path now db db' \<Longrightarrow> untouched db db'"
  by (auto simp: effect_defs untouched_def)

lemma create_untouched:
  "repo_inv E db \<Longrightarrow> create_document_in_transaction E i rid input now initial key db = Inr (x, db') \<Longrightarrow> untouched db db'"
  by (erule create_effect) (rule effects_untouched)

lemma append_untouched:
  "repo_inv E db \<Longrightarrow> append_revision_in_transaction_with_category E rid input now assignment db = Inr (x, db') \<Longrightarrow>
   untouched db db'"
  unfolding repo_inv_def by (elim conjE, rule append_effect) (auto intro: effects_untouched)

lemma assign_untouched:
  "repo_inv E db \<Longrightarrow> assign_revision_category_in_transaction actor site doc rid cat now db = Inr (x, db') \<Longrightarrow> untouched db db'"
  by (erule assign_effect) (rule effects_untouched)

lemma publish_untouched:
  "repo_inv E db \<Longrightarrow> publish_in_transaction_at i rid now db = Inr (x, db') \<Longrightarrow> untouched db db'"
  unfolding repo_inv_def by (elim conjE, rule publish_effect) (auto intro: effects_untouched)

lemmas content_untouched = create_untouched append_untouched assign_untouched publish_untouched

lemma audit_untouched: "insert_ai_proposal record db = Inr db' \<Longrightarrow> untouched db db'"
  by (auto simp: insert_ai_proposal_def map_err_eq_Inr untouched_def dest!: sql_insert_ai_audit_effect)

lemma content_operations_frame:
  "frames E (create_document E i rid now new_doc)"
  "frames E (append_revision E rid now input)"
  "frames E (append_ai_proposal E rid checked received envelope)"
  "frames E (publish doc rid now)"
  "frames E (assign_revision_category_in_writable_site now actor site doc rid cat)"
  "frames E (create_document_in_owned_site E i rid now owner new_doc)"
  "frames E (create_document_in_writable_site E i rid now actor new_doc)"
  "frames E (create_document_in_writable_site_with_category E i rid now actor new_doc cat)"
  "frames E (revise_document_in_owned_site E rid now owner site input)"
  "frames E (revise_document_in_writable_site E rid now actor site input)"
  "frames E (revise_document_in_writable_site_with_category E rid now actor site input selection)"
  "frames E (publish_document_in_owned_site now owner site doc rid)"
proof -
  show "frames E (append_ai_proposal E rid checked received envelope)"
    unfolding append_ai_proposal_def append_revision_in_transaction_def Let_def
    by (intro frame.validated frame.transaction)
      (auto simp: and_then_eq_Inr intro: untouched_trans content_untouched audit_untouched)
  have "frames E (\<lambda>db. then_load (\<lambda>db. load_document db doc SelectPublished) (transact (publish_in_transaction doc rid now) db))"
    unfolding publish_in_transaction_def by (intro frame.loaded frame.transaction) (erule (1) publish_untouched)
  then show "frames E (publish doc rid now)" unfolding publish_def then_load_def .
  show "frames E (create_document E i rid now new_doc)" "frames E (append_revision E rid now input)"
    unfolding create_document_def append_revision_def append_revision_in_transaction_def
    by (intro frame.validated frame.transaction, erule (1) content_untouched)+
qed (unfold assign_revision_category_in_writable_site_def create_document_in_owned_site_def
    create_document_in_writable_site_def create_document_in_writable_site_with_category_def
    revise_document_in_owned_site_def revise_document_in_writable_site_def
    revise_document_in_writable_site_with_category_def publish_document_in_owned_site_def
    append_revision_in_transaction_def publish_in_transaction_def,
  (intro frame.validated frame.loaded frame.guarded frame.guarded_twice, erule (1) content_untouched)+)

lemma statement_untouched:
  "sql_insert_user u db = Inr db' \<Longrightarrow> untouched db db'"
  "sql_insert_site s db = Inr db' \<Longrightarrow> untouched db db'"
  "sql_insert_membership m db = Inr db' \<Longrightarrow> untouched db db'"
  "sql_insert_theme_revision t db = Inr db' \<Longrightarrow> untouched db db'"
  by (auto dest!: sql_insert_user_effect sql_insert_site_effect sql_insert_membership_effect sql_insert_theme_effect
      simp: untouched_def)

lemma or_ignore_untouched:
  "or_ignore sql_insert_user u db = Inr db' \<Longrightarrow> untouched db db'"
  "or_ignore sql_insert_site s db = Inr db' \<Longrightarrow> untouched db db'"
  "or_ignore sql_insert_membership m db = Inr db' \<Longrightarrow> untouched db db'"
  "or_ignore sql_insert_theme_revision t db = Inr db' \<Longrightarrow> untouched db db'"
  by (auto dest!: or_ignore_Inr dest: statement_untouched)

lemma taxonomy_untouched:
  "append_site_appearance_revision owner site theme css now db = Inr db' \<Longrightarrow> untouched db db'"
  "sql_update_site_profile site handle title description now db = Inr db' \<Longrightarrow> untouched db db'"
  "create_category_in_transaction i now owner site input db = Inr (c, db') \<Longrightarrow> untouched db db'"
  "create_series_for_category_in_transaction i now owner site category db = Inr (x, db') \<Longrightarrow> untouched db db'"
  "reorder_series_items i site index ids db = Inr db' \<Longrightarrow> untouched db db'"
proof -
  show "append_site_appearance_revision owner site theme css now db = Inr db' \<Longrightarrow> untouched db db'"
    unfolding append_site_appearance_revision_def Let_def
    by (auto simp: and_then_eq_Inr map_err_eq_Inr untouched_def dest!: sql_insert_theme_effect)
  show "sql_update_site_profile site handle title description now db = Inr db' \<Longrightarrow> untouched db db'"
    by (auto simp: sql_update_site_profile_def Let_def untouched_def split: if_splits)
  show "create_category_in_transaction i now owner site input db = Inr (c, db') \<Longrightarrow> untouched db db'"
    by (erule create_category_effect) (auto simp: untouched_def)
  show "create_series_for_category_in_transaction i now owner site category db = Inr (x, db') \<Longrightarrow> untouched db db'"
    by (erule create_series_effect) (auto simp: untouched_def)
  show "reorder_series_items i site index ids db = Inr db' \<Longrightarrow> untouched db db'"
    by (auto dest!: reorder_series_items_effect simp: untouched_def)
qed

lemma update_untouched [simp]:
  "untouched db (touch_series i site now db') = untouched db db'"
  "untouched db (sql_update_categories f category site db') = untouched db db'"
  by (simp_all add: untouched_def touch_series_def sql_update_categories_def)

lemma account_operations_frame:
  "frames E (create_user i now email handle name phc)"
  "frames E (create_site i now owner handle title description theme)"
  "frames E (ensure_legacy_site i now)"
proof -
  show "frames E (create_user i now email handle name phc)"
    unfolding related_def create_user_def
    by (auto simp: and_then_eq_Inr map_err_eq_Inr intro: statement_untouched split: sum.splits)
  show "frames E (create_site i now owner handle title description theme)"
    unfolding related_def create_site_def
    by (auto intro!: frame.loaded_step split: sum.splits)
      (auto simp: and_then_eq_Inr map_err_eq_Inr dest!: statement_untouched intro: untouched_trans)
  show "frames E (ensure_legacy_site i now)"
    unfolding related_def ensure_legacy_site_def Let_def
    by (auto intro!: frame.loaded_step split: sum.splits)
      (auto simp: and_then_eq_Inr map_err_eq_Inr dest!: or_ignore_untouched intro: untouched_trans)
qed

lemma remove_site_collaborator_frames: "frames E (remove_site_collaborator owner site collaborator)"
  unfolding remove_site_collaborator_def
proof (rule frame.transaction)
  fix db x db'
  assume inv: "repo_inv E db" and "and_then (ensure_site_owner db owner site) (\<lambda>_.
     and_then (load_site_membership db site collaborator) (\<lambda>membership.
     and_then (reject_if (m_role membership = Owner)
        (Validation ''owner membership cannot be removed or demoted'')) (\<lambda>_.
     let hit = (\<lambda>m. m_site_id m = site \<and> m_user_id m = collaborator) in
     and_then (reject_if (length (filter hit (site_memberships db)) \<noteq> 1) NotFound) (\<lambda>_.
       Inr (membership, db\<lparr>site_memberships := filter (\<lambda>m. \<not> hit m) (site_memberships db)\<rparr>))))) = Inr (x, db')"
  then have load: "row_where (\<lambda>m. m_site_id m = site \<and> m_user_id m = collaborator) (site_memberships db) = Some x"
    and role: "m_role x \<noteq> Owner"
    and db': "db' = db\<lparr>site_memberships := filter (\<lambda>m. \<not> (m_site_id m = site \<and> m_user_id m = collaborator)) (site_memberships db)\<rparr>"
    by (auto simp: and_then_eq_Inr reject_if_eq_Inr load_site_membership_def ok_or_eq_Inr Let_def)
  have x: "x \<in> set (site_memberships db)" "m_site_id x = site" "m_user_id x = collaborator"
    using row_where_Some [OF load] by simp_all
  have "m = x" if "m \<in> set (site_memberships db)" "m_site_id m = site" "m_user_id m = collaborator" for m
    using inv x that unfolding repo_inv_def site_inv_def members_ok_def by (blast intro: distinct_key_eq)
  then show "untouched db db'" using role by (auto simp: untouched_def db')
qed

lemma site_operations_frame:
  "frames E (add_site_collaborator now owner site email role)"
  "frames E (change_site_theme now owner site theme)"
  "frames E (change_site_appearance now owner site theme css)"
proof -
  show "frames E (add_site_collaborator now owner site email role)"
    unfolding related_def add_site_collaborator_def transact_def
    by (auto simp: and_then_eq_Inr map_err_eq_Inr dest: statement_untouched split: sum.splits prod.splits if_splits)
  show "frames E (change_site_theme now owner site theme)" "frames E (change_site_appearance now owner site theme css)"
    unfolding change_site_theme_def change_site_appearance_def
    by (intro frame.loaded frame.transaction frame.validated [where h = "\<lambda>e. e"],
        auto simp: and_then_eq_Inr intro: taxonomy_untouched)+
qed

lemma taxonomy_operations_frame:
  "frames E (create_category i now owner site input)"
  "frames E (update_category now owner site cat uinput)"
  "frames E (archive_category now owner site cat)"
  "frames E (create_series cat i now now' owner site input)"
  "frames E (promote_category_to_series i now owner site cat)"
  "frames E (update_series now owner site i uinput)"
  "frames E (archive_series now owner site i)"
  "frames E (replace_series_order now owner site i ids)"
proof -
  show "frames E (create_category i now owner site input)"
    unfolding create_category_def by (rule frame.guarded) (auto intro: taxonomy_untouched)
  show "frames E (update_category now owner site cat uinput)"
    unfolding related_def update_category_def
    by (auto intro!: frame.loaded_step split: sum.splits) (auto simp: and_then_eq_Inr)
  show "frames E (archive_category now owner site cat)"
    unfolding archive_category_def
    by (intro frame.loaded frame.transaction) (auto simp: and_then_eq_Inr split: if_splits)
  show "frames E (create_series cat i now now' owner site input)"
    unfolding create_series_def
    by (rule frame.guarded) (auto simp: and_then_eq_Inr intro: untouched_trans taxonomy_untouched)
  show "frames E (promote_category_to_series i now owner site cat)"
    unfolding promote_category_to_series_def
    by (rule frame.guarded_twice) (auto intro: taxonomy_untouched split: sum.splits if_splits)
  show "frames E (update_series now owner site i uinput)"
    unfolding related_def update_series_def
    by (auto intro!: frame.loaded_step split: sum.splits) (auto simp: and_then_eq_Inr)
  show "frames E (archive_series now owner site i)"
    unfolding archive_series_def
    by (intro frame.loaded frame.transaction) (auto simp: and_then_eq_Inr split: if_splits)
  show "frames E (replace_series_order now owner site i ids)"
    unfolding related_def replace_series_order_def
    by (auto intro!: frame.loaded_step) (auto simp: and_then_eq_Inr Let_def intro: taxonomy_untouched)
qed

lemmas operations_frame = content_operations_frame account_operations_frame remove_site_collaborator_frames
  site_operations_frame taxonomy_operations_frame

lemma perform_frame:
  "repo_inv E db \<Longrightarrow> \<forall>c. call \<noteq> AdminCall c \<Longrightarrow> untouched db (perform E call db)"
  by (cases call; simp; erule operations_frame [unfolded related_def, rule_format])

section \<open>Steps of the administration tables\<close>

definition owner_of :: "db \<Rightarrow> uuid \<Rightarrow> uuid \<Rightarrow> bool" where
  "owner_of db user site \<longleftrightarrow>
     (\<exists>m \<in> set (site_memberships db). m_site_id m = site \<and> m_user_id m = user \<and> m_role m = Owner)"

definition bound_session :: "AdminControlPlaneRecord \<Rightarrow> session_row \<Rightarrow> bool" where
  "bound_session c s \<longleftrightarrow> se_user_id s = cp_owner_user_id c \<and> se_auth_epoch s = cp_auth_epoch c
     \<and> session_method (cp_auth_mode c) = Some (se_auth_method s)"

inductive admin_step :: "db \<Rightarrow> db \<Rightarrow> bool" where
  idle: "untouched db db' \<Longrightarrow> admin_step db db'"
| bind: "admin_control_plane db = None \<Longrightarrow> untouched db db1 \<Longrightarrow> owner_of db1 (cp_owner_user_id c) (cp_primary_site_id c) \<Longrightarrow>
     cp_auth_epoch c = 1 \<Longrightarrow> length (cp_binding_fingerprint c) = 32 \<Longrightarrow> db' = db1\<lparr>admin_control_plane := Some c\<rparr> \<Longrightarrow> admin_step db db'"
| rotate: "admin_control_plane db = Some c \<Longrightarrow>
     c' = c\<lparr>cp_auth_mode := mode, cp_auth_epoch := cp_auth_epoch c + 1, cp_binding_fingerprint := fp, cp_updated_at := now\<rparr> \<Longrightarrow>
     length fp = 32 \<Longrightarrow>
     db' = db\<lparr>admin_control_plane := Some c', sessions := revoke_admin_sessions now (sessions db), external_identities := []\<rparr> \<Longrightarrow>
     admin_step db db'"
| complete: "admin_control_plane db = Some c \<Longrightarrow> untouched db db1 \<Longrightarrow>
     db' = db1\<lparr>admin_control_plane := Some (c\<lparr>cp_setup_complete := True, cp_updated_at := now\<rparr>)\<rparr> \<Longrightarrow> admin_step db db'"
| identify: "admin_control_plane db = Some c \<Longrightarrow> cp_auth_mode c = External \<Longrightarrow> cp_binding_fingerprint c = fp \<Longrightarrow>
     \<forall>x \<in> set ids. xi_user_id x = cp_owner_user_id c \<or> (\<exists>y \<in> set (external_identities db). xi_user_id y = xi_user_id x) \<Longrightarrow>
     db' = db\<lparr>external_identities := ids\<rparr> \<Longrightarrow> admin_step db db'"
| issue: "\<forall>s \<in> set (sessions db). se_id s \<noteq> se_id row \<and> se_token_hash s \<noteq> se_token_hash row \<Longrightarrow>
     \<exists>u \<in> set (users db). u_id u = se_user_id row \<Longrightarrow> se_revoked_at row = None \<Longrightarrow>
     length (se_token_hash row) = 32 \<Longrightarrow>
     se_auth_method row = LegacySession \<or> (\<exists>c. admin_control_plane db = Some c \<and> bound_session c row) \<Longrightarrow>
     db' = db\<lparr>sessions := sessions db @ [row]\<rparr> \<Longrightarrow> admin_step db db'"
| revoke: "db' = db\<lparr>sessions := update_where (\<lambda>s. se_token_hash s = hash \<and> se_revoked_at s = None)
       (\<lambda>s. s\<lparr>se_revoked_at := Some now\<rparr>) (sessions db)\<rparr> \<Longrightarrow> admin_step db db'"
| comment: "db' = db\<lparr>comments := rows\<rparr> \<Longrightarrow> admin_step db db'"
| pin: "db' = db\<lparr>home_pins := pins\<rparr> \<Longrightarrow> admin_step db db'"

inductive_cases admin_stepE: "admin_step db db'"

interpretation admin: step_relation E admin_step for E
  by unfold_locales (rule admin_step.idle, simp)

abbreviation administers :: "extern \<Rightarrow> (db \<Rightarrow> 'a \<times> db) \<Rightarrow> bool" where
  "administers E \<equiv> related admin_step E"

lemma owns_site_iff: "owns_site_in_connection db user site \<longleftrightarrow> owner_of db user site"
  by (simp add: owns_site_in_connection_def owner_of_def exists_where_iff)

lemma insert_control_step:
  assumes "untouched db db1" "insert_admin_control_plane now site owner mode fp setup db1 = Inr (x, db')"
  shows "admin_step db db'"
  using insert_admin_control_plane_effect [OF assms(2)] assms(1)
  by (intro admin_step.bind [where c = x]) (auto simp: owns_site_iff untouched_def)

lemma control_plane_administers:
  "administers E (provision_primary_owner_site now now' bootstrap mode fp)"
  "administers E (reconcile_admin_control_plane now site mode fp)"
  "administers E (rotate_admin_control_plane now site mode fp)"
  "administers E (complete_primary_owner_setup now now' now'' owner handle title description theme)"
proof -
  have chain: "untouched db db4" if "sql_insert_user u db = Inr db1" "sql_insert_site st db1 = Inr db2"
      "sql_insert_membership m db2 = Inr db3" "sql_insert_theme_revision t db3 = Inr db4" for u st m t db db1 db2 db3 db4
    using that by (blast intro: untouched_trans dest: statement_untouched)
  show "administers E (provision_primary_owner_site now now' bootstrap mode fp)"
    unfolding related_def provision_primary_owner_site_def Let_def
    by (auto intro!: admin.transaction_step intro: admin.unchanged split: sum.splits)
      (auto simp: and_then_eq_Inr map_err_eq_Inr intro: admin.unchanged
        insert_control_step [OF untouched_refl] insert_control_step [OF chain] split: option.splits sum.splits if_splits)
  show "administers E (reconcile_admin_control_plane now site mode fp)"
    unfolding reconcile_admin_control_plane_def
    by (intro admin.validated [where h = "\<lambda>e. e"] admin.transaction)
      (auto simp: and_then_eq_Inr intro: admin.unchanged insert_control_step [OF untouched_refl]
        split: option.splits)
  show "administers E (rotate_admin_control_plane now site mode fp)"
    unfolding rotate_admin_control_plane_def
    by (intro admin.validated [where h = "\<lambda>e. e"] admin.transaction)
      (auto elim!: rotate_effect intro: admin.unchanged admin_step.rotate)
  have completed: "admin_step db (db2\<lparr>admin_control_plane := map_option (\<lambda>c. if cp_setup_complete c then c
          else c\<lparr>cp_setup_complete := True, cp_updated_at := now''\<rparr>) (admin_control_plane db2)\<rparr>)"
    if "load_admin_control_plane db = Inr c" "sql_update_site_profile i h ti de now db = Inr db1"
      "append_site_appearance_revision o' i th None now' db1 = Inr db2" "opt_any (\<lambda>c. \<not> cp_setup_complete c) (admin_control_plane db2)"
    for db c i h ti de db1 o' th db2
  proof -
    have un: "untouched db db2" using that(2,3) by (blast intro: untouched_trans taxonomy_untouched)
    then have c: "admin_control_plane db = Some c" "admin_control_plane db2 = Some c"
      using that(1) by (simp_all add: load_admin_control_plane_Inr untouched_def)
    with that(4) show ?thesis by (intro admin_step.complete [OF c(1) un]) (simp add: opt_any_def)
  qed
  show "administers E (complete_primary_owner_setup now now' now'' owner handle title description theme)"
    unfolding related_def complete_primary_owner_setup_def Let_def
    by (auto intro!: admin.transaction_step intro: admin.unchanged split: sum.splits)
      (auto simp: and_then_eq_Inr map_err_eq_Inr reject_if_eq_Inr intro: completed)
qed

lemma issue_step:
  assumes "insert_session i checked now user hash expires epoch auth db = Inr (x, db')"
    and "auth = LegacySession \<or> (\<exists>c. admin_control_plane db = Some c \<and> user = cp_owner_user_id c
       \<and> epoch = cp_auth_epoch c \<and> session_method (cp_auth_mode c) = Some auth)"
  shows "admin_step db db'"
  using insert_session_effect [OF assms(1)] assms(2)
  by (elim exE conjE) (rule admin_step.issue, auto simp: bound_session_def)

lemma session_administers:
  "administers E (create_session i checked checked' now user hash expires)"
  "administers E (create_primary_owner_session i checked checked' now hash expires auth fp)"
  "administers E (revoke_session now hash)"
  "administers E (bind_external_identity now adapter issuer subject fp)"
proof -
  show "administers E (create_session i checked checked' now user hash expires)"
    unfolding related_def create_session_def
    by (auto simp: and_then_eq_Inr intro: admin.unchanged issue_step split: sum.splits)
  show "administers E (create_primary_owner_session i checked checked' now hash expires auth fp)"
    unfolding create_primary_owner_session_def
    by (intro admin.validated [where h = "\<lambda>e. e"] admin.transaction)
      (auto simp: and_then_eq_Inr reject_if_eq_Inr load_admin_control_plane_Inr intro: issue_step)
  show "administers E (revoke_session now hash)"
    unfolding related_def revoke_session_def Let_def
    by (auto intro: admin.unchanged admin_step.revoke split: sum.splits)
  have known: "admin_step db (db\<lparr>external_identities := update_where p (\<lambda>x. x\<lparr>xi_last_seen_at := now\<rparr>) (external_identities db)\<rparr>)"
    if "admin_control_plane db = Some c" "cp_auth_mode c = External" for db c p
    using that by (intro admin_step.identify [OF that refl]) (auto simp: set_update_where)
  have new: "admin_step db db'" if "admin_control_plane db = Some c" "cp_auth_mode c = External"
      "sql_insert_external_identity row db = Inr db'" "xi_user_id row = cp_owner_user_id c" for db c row db'
    using that
    by (intro admin_step.identify [OF that(1,2) refl, where ids = "external_identities db @ [row]"])
      (auto simp: sql_insert_external_identity_def split: if_splits)
  show "administers E (bind_external_identity now adapter issuer subject fp)"
    unfolding related_def bind_external_identity_def Let_def
    by (auto intro!: admin.transaction_step intro: admin.unchanged split: sum.splits)
      (auto simp: and_then_eq_Inr map_err_eq_Inr reject_if_eq_Inr load_admin_control_plane_Inr intro: known new
        split: option.splits)
qed

lemma community_administers:
  "administers E (create_comment i now author site doc markdown)"
  "administers E (replace_home_pins now administrator ids)"
proof -
  show "administers E (create_comment i now author site doc markdown)"
    unfolding create_comment_def
    by (intro admin.validated [where h = "\<lambda>e. e"] admin.loaded admin.transaction)
      (auto simp: and_then_eq_Inr map_err_eq_Inr sql_insert_comment_def intro: admin_step.comment split: if_splits)
  show "administers E (replace_home_pins now administrator ids)"
    unfolding related_def replace_home_pins_def
    by (auto intro!: admin.transaction_step intro: admin.unchanged)
      (auto simp: and_then_eq_Inr intro: admin_step.pin dest!: insert_home_pins_effect)
qed

lemmas operations_administer = control_plane_administers session_administers community_administers

lemma perform_admin_steps: "repo_inv E db \<Longrightarrow> admin_step db (perform_admin call db)"
  by (cases call; simp; erule operations_administer [unfolded related_def, rule_format])

lemma perform_administers: "repo_inv E db \<Longrightarrow> admin_step db (perform E call db)"
proof (cases "\<exists>c. call = AdminCall c")
  case True
  then show "repo_inv E db \<Longrightarrow> ?thesis" by (auto intro: perform_admin_steps)
next
  case False
  then show "repo_inv E db \<Longrightarrow> ?thesis" by (auto intro: admin_step.idle perform_frame)
qed

section \<open>The invariant of the administration tables\<close>

definition control_ok :: "db \<Rightarrow> bool" where
  "control_ok db \<longleftrightarrow> (\<forall>c. admin_control_plane db = Some c \<longrightarrow>
     owner_of db (cp_owner_user_id c) (cp_primary_site_id c) \<and> 1 \<le> cp_auth_epoch c
     \<and> length (cp_binding_fingerprint c) = 32)"

definition session_keys_ok :: "db \<Rightarrow> bool" where
  "session_keys_ok db \<longleftrightarrow> distinct (map se_id (sessions db)) \<and> distinct (map se_token_hash (sessions db))
     \<and> (\<forall>s \<in> set (sessions db). length (se_token_hash s) = 32 \<and> (\<exists>u \<in> set (users db). u_id u = se_user_id s))"

text \<open>
  A session that is not a legacy one was issued to the owner in an epoch up to the current one;
  one that is not revoked carries the current binding.
\<close>

definition bindings_ok :: "db \<Rightarrow> bool" where
  "bindings_ok db \<longleftrightarrow> (\<forall>s \<in> set (sessions db). se_auth_method s \<noteq> LegacySession \<longrightarrow>
     (\<exists>c. admin_control_plane db = Some c \<and> (se_revoked_at s = None \<longrightarrow> bound_session c s)))"

definition identities_ok :: "db \<Rightarrow> bool" where
  "identities_ok db \<longleftrightarrow> (\<forall>x \<in> set (external_identities db). \<exists>c. admin_control_plane db = Some c
     \<and> cp_auth_mode c = External \<and> xi_user_id x = cp_owner_user_id c)"

definition admin_inv :: "db \<Rightarrow> bool" where
  "admin_inv db \<longleftrightarrow> control_ok db \<and> session_keys_ok db \<and> bindings_ok db \<and> identities_ok db"

lemmas admin_inv_defs = admin_inv_def control_ok_def session_keys_ok_def bindings_ok_def identities_ok_def

lemma admin_inv_empty: "admin_inv empty_db"
  by (simp add: admin_inv_defs empty_db_def)

lemma untouched_admin_inv:
  assumes un: "untouched db db'" and inv: "admin_inv db"
  shows "admin_inv db'"
proof -
  have "owner_of db' u s" if "owner_of db u s" for u s
    using un that by (auto simp: untouched_def owner_of_def)
  moreover have "\<exists>u \<in> set (users db'). u_id u = k" if "\<exists>u \<in> set (users db). u_id u = k" for k
    using un that unfolding untouched_def by (metis (no_types, lifting) imageE image_eqI subsetD)
  ultimately show ?thesis
    using un inv unfolding admin_inv_defs untouched_def by simp
qed

lemma revoked_keys:
  assumes "\<And>s. se_id (f s) = se_id s \<and> se_token_hash (f s) = se_token_hash s"
  shows "map se_id (update_where p f rows) = map se_id rows"
    "map se_token_hash (update_where p f rows) = map se_token_hash rows"
  by (rule update_where_map_same, simp add: assms)+

lemma admin_step_inv:
  assumes step: "admin_step db db'" and inv: "admin_inv db"
  shows "admin_inv db'"
  using step
proof cases
  case idle
  then show ?thesis using inv by (rule untouched_admin_inv)
next
  case (bind db1 c)
  have inv1: "admin_inv db1" using bind(2) inv by (rule untouched_admin_inv)
  moreover have "admin_control_plane db1 = None" using bind(1,2) by (simp add: untouched_def)
  ultimately have "\<forall>s \<in> set (sessions db1). se_auth_method s = LegacySession" "external_identities db1 = []"
    unfolding admin_inv_defs by auto
  with inv1 bind show ?thesis unfolding admin_inv_defs by (simp add: owner_of_def)
next
  case (rotate c c' now fp mode)
  have "map se_id (revoke_admin_sessions now (sessions db)) = map se_id (sessions db)"
    "map se_token_hash (revoke_admin_sessions now (sessions db)) = map se_token_hash (sessions db)"
    unfolding revoke_admin_sessions_def by (rule revoked_keys, simp)+
  with inv rotate show ?thesis
    unfolding admin_inv_defs by (auto simp: owner_of_def revoke_admin_sessions_def set_update_where split: option.splits)
next
  case (complete c db1 now)
  have inv1: "admin_inv db1" using complete(2) inv by (rule untouched_admin_inv)
  have c1: "admin_control_plane db1 = Some c" using complete(1,2) by (simp add: untouched_def)
  show ?thesis using inv1 unfolding complete(3) admin_inv_defs c1 by (simp add: owner_of_def bound_session_def)
next
  case (identify c fp ids)
  then show ?thesis using inv unfolding admin_inv_defs by (auto simp: owner_of_def)
next
  case (issue row)
  then show ?thesis using inv unfolding admin_inv_defs by (auto simp: owner_of_def)
next
  case (revoke hash now)
  let ?rows = "update_where (\<lambda>s. se_token_hash s = hash \<and> se_revoked_at s = None) (\<lambda>s. s\<lparr>se_revoked_at := Some now\<rparr>) (sessions db)"
  have "map se_id ?rows = map se_id (sessions db)" "map se_token_hash ?rows = map se_token_hash (sessions db)"
    by (rule revoked_keys, simp)+
  with inv revoke show ?thesis unfolding admin_inv_defs by (auto simp: owner_of_def set_update_where)
qed (use inv in \<open>simp_all add: admin_inv_defs owner_of_def\<close>)

lemma reachable_admin_inv: "reachable E db \<Longrightarrow> admin_inv db"
  by (induction rule: reachable.induct)
    (auto intro: admin_inv_empty admin_step_inv perform_administers reachable_repo_inv)

section \<open>Sessions and the control plane over time\<close>

definition later_session :: "session_row \<Rightarrow> session_row \<Rightarrow> bool" where
  "later_session s s' \<longleftrightarrow> s' = s \<or> (se_revoked_at s = None \<and> (\<exists>t. s' = s\<lparr>se_revoked_at := Some t\<rparr>))"

lemma later_session_trans: "later_session s s' \<Longrightarrow> later_session s' s'' \<Longrightarrow> later_session s s''"
  by (auto simp: later_session_def)

lemma later_session_sel:
  assumes "later_session s s'"
  shows "se_token_hash s' = se_token_hash s" "se_expires_at s' = se_expires_at s" "se_auth_method s' = se_auth_method s"
    "se_revoked_at s \<noteq> None \<Longrightarrow> se_revoked_at s' \<noteq> None"
  using assms by (auto simp: later_session_def)

lemma step_sessions:
  assumes "admin_step db db'" and s: "s \<in> set (sessions db)"
  shows "\<exists>s' \<in> set (sessions db'). later_session s s'"
  using assms(1)
proof cases
  case (rotate c c' now fp mode)
  let ?s = "if se_auth_method s \<noteq> LegacySession
    then s\<lparr>se_revoked_at := (case se_revoked_at s of None \<Rightarrow> Some now | Some t \<Rightarrow> Some t)\<rparr> else s"
  have "?s \<in> set (sessions db')" using s rotate by (simp add: revoke_admin_sessions_def set_update_where)
  moreover have "later_session s ?s" by (cases "se_revoked_at s") (auto simp: later_session_def)
  ultimately show ?thesis by blast
next
  case (revoke hash now)
  let ?s = "if se_token_hash s = hash \<and> se_revoked_at s = None then s\<lparr>se_revoked_at := Some now\<rparr> else s"
  have "?s \<in> set (sessions db')" using s revoke by (simp add: set_update_where)
  moreover have "later_session s ?s" by (auto simp: later_session_def)
  ultimately show ?thesis by blast
qed (use s in \<open>auto simp: untouched_def later_session_def\<close>)

definition later_control :: "AdminControlPlaneRecord \<Rightarrow> AdminControlPlaneRecord \<Rightarrow> bool" where
  "later_control c c' \<longleftrightarrow>
     cp_primary_site_id c' = cp_primary_site_id c \<and> cp_owner_user_id c' = cp_owner_user_id c
     \<and> cp_auth_epoch c \<le> cp_auth_epoch c' \<and> (cp_setup_complete c \<longrightarrow> cp_setup_complete c')
     \<and> (cp_auth_epoch c' = cp_auth_epoch c \<longrightarrow>
          cp_auth_mode c' = cp_auth_mode c \<and> cp_binding_fingerprint c' = cp_binding_fingerprint c)"

lemma later_control_trans: "later_control c c' \<Longrightarrow> later_control c' c'' \<Longrightarrow> later_control c c''"
  unfolding later_control_def by (elim conjE) (intro conjI; force)

lemma step_control:
  assumes "admin_step db db'" and c: "admin_control_plane db = Some c"
  shows "\<exists>c'. admin_control_plane db' = Some c' \<and> later_control c c'"
  using assms(1) by cases (use c in \<open>auto simp: untouched_def later_control_def\<close>)

lemma run_administration:
  assumes "repo_inv E db"
  shows "s \<in> set (sessions db) \<Longrightarrow> \<exists>s' \<in> set (sessions (fold (perform E) calls db)). later_session s s'"
    and "admin_control_plane db = Some c \<Longrightarrow>
      \<exists>c'. admin_control_plane (fold (perform E) calls db) = Some c' \<and> later_control c c'"
  using assms
proof (induction calls arbitrary: db s c)
  case Nil
  { case 1 then show ?case by (auto simp: later_session_def) }
  { case 2 then show ?case by (auto simp: later_control_def) }
next
  case (Cons call calls)
  have step: "admin_step db (perform E call db)" and inv: "repo_inv E (perform E call db)"
    if "repo_inv E db" for db using that by (auto intro: perform_administers perform_inv)
  { case 1
    from step_sessions [OF step [OF 1(2)] 1(1)] obtain s'
      where s': "s' \<in> set (sessions (perform E call db))" "later_session s s'" ..
    from Cons.IH(1) [OF s'(1) inv [OF 1(2)]] s'(2) show ?case by (auto intro: later_session_trans) }
  { case 2
    from step_control [OF step [OF 2(2)] 2(1)] obtain c'
      where c': "admin_control_plane (perform E call db) = Some c'" "later_control c c'" by blast
    from Cons.IH(2) [OF c'(1) inv [OF 2(2)]] c'(2) show ?case by (auto intro: later_control_trans) }
qed

lemma dead_session:
  assumes inv: "admin_inv db" and s: "s \<in> set (sessions db)" and dead: "se_revoked_at s \<noteq> None \<or> se_expires_at s \<le> now"
  shows "load_active_session_by_hash db now (se_token_hash s) = Inl NotFound"
proof -
  have one: "s' = s" if "s' \<in> set (sessions db)" "se_token_hash s' = se_token_hash s" for s'
    using inv s that unfolding admin_inv_def session_keys_ok_def by (blast intro: distinct_key_eq)
  show ?thesis
  proof (cases "row_where (\<lambda>x. se_token_hash x = se_token_hash s \<and> se_revoked_at x = None) (sessions db)")
    case None
    then show ?thesis by (simp add: load_active_session_by_hash_def)
  next
    case (Some x)
    with one row_where_Some [OF Some] have "x = s" "se_revoked_at s = None" by auto
    with Some dead show ?thesis by (simp add: load_active_session_by_hash_def parse_session_row_def)
  qed
qed

lemma active_session:
  assumes "load_active_session_by_hash db now hash = Inr x"
  obtains s where "s \<in> set (sessions db)" "se_token_hash s = hash" "se_revoked_at s = None" "now < se_expires_at s"
    "x = parse_session_row s"
proof -
  from assms obtain s where row: "row_where (\<lambda>s. se_token_hash s = hash \<and> se_revoked_at s = None) (sessions db) = Some s"
    and s: "\<not> ss_expires_at (parse_session_row s) \<le> now" "x = parse_session_row s"
    by (auto simp: load_active_session_by_hash_def and_then_eq_Inr ok_or_eq_Inr split: if_splits)
  show thesis using row_where_Some [OF row] s by (intro that [of s]) (simp_all add: parse_session_row_def)
qed

lemma session_method_not_legacy [simp]: "session_method m \<noteq> Some LegacySession"
  by (cases m) simp_all

end
