(* ===== verification/Store_Properties.thy ===== *)
theory Store_Properties
  imports Store_History
begin

text \<open>
  What the content repository promises its clients, on every database its operations reach:
  optimistic concurrency, immutable history, stable public paths, a published view that
  drafting does not change, and the marking of what agents propose.
\<close>

section \<open>Example\<close>

text \<open>A user with a site, a category and a document, as a sequence of calls.\<close>

definition example_new :: NewDocument where
  "example_new = \<lparr>new_site_id = 20, new_title = lit ''Title'', new_slug = lit ''first'',
     new_source_markdown = lit ''Body'', new_embeds = [], new_intent = None, new_ontology = None,
     new_ai_summary = None, new_authorship = default_authorship,
     new_actor = \<lparr>actor_kind = RevisionHuman, actor_id = lit ''ann'', actor_display_name = None\<rparr>\<rparr>"

definition example_site_db :: db where
  "example_site_db = empty_db\<lparr>
     users := [\<lparr>u_id = 10, u_email = lit ''ann@example.org'', u_handle = lit ''ann'', u_display_name = lit ''Ann'',
                u_password_phc = lit ''$argon2id$x'', u_created_at = 1, u_updated_at = 1\<rparr>],
     sites := [\<lparr>st_id = 20, st_handle = lit ''ann'', st_title = lit ''Notes'', st_description = None,
                st_current_theme_revision = 1, st_created_at = 2, st_updated_at = 2\<rparr>],
     site_memberships := [\<lparr>m_site_id = 20, m_user_id = 10, m_role = Owner, m_created_at = 2\<rparr>],
     site_theme_revisions := [\<lparr>tr_site_id = 20, tr_revision = 1, tr_profile = Paper, tr_custom_css = None,
                tr_created_by_user_id = 10, tr_created_at = 2\<rparr>]\<rparr>"

definition example_db :: db where
  "example_db = example_site_db\<lparr>
     documents := [draft_row 2 20 1 (lit ''first'') 3],
     revisions := [revision_row_of (first_revision example_extern 2 1 example_new 3) None],
     revision_categories := [\<lparr>p_revision_id = 1, p_document_id = 2, p_site_id = 20, p_category_id = None,
        p_assigned_by_user_id = None, p_assigned_at = 3\<rparr>]\<rparr>"

lemma example_user_created:
  "snd (create_user 10 1 (lit ''Ann@Example.org'') (lit ''ann'') (lit ''Ann'') (lit ''$argon2id$x'') empty_db) =
   empty_db\<lparr>users := [\<lparr>u_id = 10, u_email = lit ''ann@example.org'', u_handle = lit ''ann'', u_display_name = lit ''Ann'',
                u_password_phc = lit ''$argon2id$x'', u_created_at = 1, u_updated_at = 1\<rparr>]\<rparr>"
  by code_simp

lemma example_site_created:
  "snd (create_site 20 2 10 (lit ''ann'') (lit ''Notes'') None Paper
     (empty_db\<lparr>users := [\<lparr>u_id = 10, u_email = lit ''ann@example.org'', u_handle = lit ''ann'', u_display_name = lit ''Ann'',
                u_password_phc = lit ''$argon2id$x'', u_created_at = 1, u_updated_at = 1\<rparr>]\<rparr>)) = example_site_db"
  by code_simp

lemma example_document_created:
  "snd (create_document example_extern 2 1 3 example_new example_site_db) = example_db"
  by code_simp

lemma example_db_reachable: "reachable example_extern example_db"
proof -
  have "example_db = fold (perform example_extern)
     [CreateUser 10 1 (lit ''Ann@Example.org'') (lit ''ann'') (lit ''Ann'') (lit ''$argon2id$x''),
      CreateSite 20 2 10 (lit ''ann'') (lit ''Notes'') None Paper,
      CreateDocument 2 1 3 example_new] empty_db"
    by (simp add: example_user_created example_site_created example_document_created)
  then show ?thesis by (metis reachable_run reachable_init)
qed

section \<open>Consistency of every reachable database\<close>

text \<open>
  (C1) Every database the write operations reach from an empty one is consistent: identifiers,
  idempotency keys and public paths are unique; the pointers of a document lead to its own
  revisions; every revision carries the hash of its content and a placement in a category of
  its site; revisions are numbered without gaps along their parents; a published document has
  exactly one canonical route and an unpublished one has none; every site has exactly one owner
  and a current theme; category slugs are well-formed and not reserved.
\<close>

theorem reachable_database_consistent:
  assumes "reachable E db"
  shows "repo_inv E db"
  using assms by (rule reachable_repo_inv)

theorem reachable_database_consistent_witness:
  "repo_inv example_extern example_db"
  using reachable_database_consistent [OF example_db_reachable] .

lemma inv_deferred_fks:
  assumes "repo_inv E db"
  shows "deferred_fks_ok db"
proof -
  have "pointers_ok db" "themes_ok db" using assms by (simp_all add: repo_inv_def db_inv_def site_inv_def)
  then show ?thesis
    unfolding deferred_fks_ok_def pointers_ok_def themes_ok_def list_all_iff exists_where_iff
    by (auto split: option.splits)
qed

lemma transact_from_inv:
  assumes "\<And>x db'. f db = Inr (x, db') \<Longrightarrow> repo_inv E db'"
  shows "transact f db = (case f db of Inl e \<Rightarrow> (Inl e, db) | Inr (x, db') \<Rightarrow> (Inr x, db'))"
  using inv_deferred_fks [OF assms] by (auto simp: transact_def split: sum.splits)

text \<open>
  (C21) Nothing is lost at commit time: from a reachable database, when the statements of a
  creation, a revision or a publication have all succeeded, the deferred foreign keys hold and
  the transaction commits.
\<close>

theorem content_transactions_commit:
  assumes "reachable E db"
  shows "transact (create_document_in_transaction E i rid input now initial key) db =
      (case create_document_in_transaction E i rid input now initial key db of
         Inl e \<Rightarrow> (Inl e, db) | Inr (x, db') \<Rightarrow> (Inr x, db'))
    \<and> transact (append_revision_in_transaction_with_category E rid proposal now assignment) db =
      (case append_revision_in_transaction_with_category E rid proposal now assignment db of
         Inl e \<Rightarrow> (Inl e, db) | Inr (x, db') \<Rightarrow> (Inr x, db'))
    \<and> transact (publish_in_transaction i rid now) db =
      (case publish_in_transaction i rid now db of Inl e \<Rightarrow> (Inl e, db) | Inr (x, db') \<Rightarrow> (Inr x, db'))"
  unfolding publish_in_transaction_def
  by (intro conjI transact_from_inv [where E = E]) (erule content_step_invs [OF reachable_repo_inv [OF assms]])+

theorem content_transactions_commit_witness:
  "transact (publish_in_transaction 2 1 4) example_db =
     (case publish_in_transaction 2 1 4 example_db of Inl e \<Rightarrow> (Inl e, example_db) | Inr (x, db') \<Rightarrow> (Inr x, db'))"
  using content_transactions_commit [OF example_db_reachable] by blast

text \<open>Reading the current revision of a document.\<close>

lemma load_current:
  assumes inv: "repo_inv E db" and d: "d \<in> set (documents db)"
    and r: "r \<in> set (revisions db)" "r_id r = d_current_revision_id d" "r_document_id r = d_id d"
    and snap: "r_snapshot_json r = revision_to_json s"
  shows "load_document db (d_id d) SelectCurrent = Inr
     \<lparr>doc_schema_version = CONTENT_SCHEMA_VERSION, doc_id = d_id d, doc_site_id = d_site_id d,
      doc_status = d_status d, doc_current_revision_id = d_current_revision_id d,
      doc_published_revision_id = d_published_revision_id d, doc_revision = s,
      doc_created_at = d_created_at d, doc_updated_at = d_updated_at d\<rparr>"
proof -
  have keys: "keys_ok db" using inv by (simp add: repo_inv_def db_inv_def)
  have "row_where (\<lambda>r. r_id r = d_current_revision_id d \<and> r_document_id r = d_id d) (revisions db) = Some r"
    by (rule row_where_unique_and [where key = r_id]) (use keys r in \<open>auto simp: keys_ok_def\<close>)
  then have "selected_revision db SelectCurrent d = Some r" by (simp add: selected_revision_def)
  with document_row [OF keys d] snap show ?thesis by (simp add: load_document_def)
qed

section \<open>Optimistic concurrency\<close>

lemma document_of_id:
  assumes "repo_inv E db" "d \<in> set (documents db)"
  obtains c where "row_where (\<lambda>x. d_id x = d_id d
        \<and> exists_where (\<lambda>r. r_id r = d_current_revision_id x) (revisions db)) (documents db) = Some d"
    "row_where (\<lambda>r. r_id r = d_current_revision_id d) (revisions db) = Some c"
proof -
  have ok: "keys_ok db" "pointers_ok db" "numbering_ok db" using assms(1) by (simp_all add: repo_inv_def db_inv_def)
  obtain c where c: "row_where (\<lambda>r. r_id r = d_current_revision_id d) (revisions db) = Some c"
      "c \<in> set (revisions db)" "r_id c = d_current_revision_id d"
    using current_revision [OF ok assms(2)] by metis
  have "row_where (\<lambda>x. d_id x = d_id d
        \<and> exists_where (\<lambda>r. r_id r = d_current_revision_id x) (revisions db)) (documents db) = Some d"
    by (rule row_where_unique_and [where key = d_id])
      (use ok(1) assms(2) c in \<open>auto simp: keys_ok_def exists_where_iff\<close>)
  with c show thesis by (intro that)
qed

lemma stale_base_conflicts:
  assumes inv: "repo_inv E db" and d: "d \<in> set (documents db)" "d_id d = prop_document_id input"
    and stale: "d_current_revision_id d \<noteq> prop_base_revision_id input"
    and valid: "validate_proposed_revision E input = Inr u"
  shows "append_revision E rid now input db = (Inl RevisionConflict, db)"
proof -
  obtain c where c: "row_where (\<lambda>x. d_id x = d_id d
        \<and> exists_where (\<lambda>r. r_id r = d_current_revision_id x) (revisions db)) (documents db) = Some d"
    "row_where (\<lambda>r. r_id r = d_current_revision_id d) (revisions db) = Some c"
    using document_of_id [OF inv d(1)] .
  have "append_revision_in_transaction E rid input now db = Inl RevisionConflict"
    unfolding append_revision_in_transaction_def append_revision_in_transaction_with_category_def
    using c [unfolded d(2)] stale valid by simp
  with valid show ?thesis by (simp add: append_revision_def transact_def)
qed

text \<open>
  A revision based on anything but the current revision of its document is refused as a
  conflict, and the database is unchanged.
\<close>

theorem stale_revision_rejected:
  assumes "reachable E db" and "d \<in> set (documents db)" and "d_id d = prop_document_id input"
    and "d_current_revision_id d \<noteq> prop_base_revision_id input"
    and "validate_proposed_revision E input = Inr ()"
  shows "append_revision E rid now input db = (Inl RevisionConflict, db)"
  using stale_base_conflicts [OF reachable_repo_inv [OF assms(1)] assms(2-5)] .

definition example_draft_revision :: ProposedRevision where
  "example_draft_revision = example_proposal\<lparr>prop_document_id := 2, prop_base_revision_id := 1\<rparr>"

lemma example_draft_revision_valid: "validate_proposed_revision example_extern example_draft_revision = Inr ()"
  by code_simp

theorem stale_revision_rejected_witness:
  "append_revision example_extern 5 6 (example_draft_revision\<lparr>prop_base_revision_id := 77\<rparr>) example_db
     = (Inl RevisionConflict, example_db)"
proof (rule stale_revision_rejected [OF example_db_reachable])
  show "draft_row 2 20 1 (lit ''first'') 3 \<in> set (documents example_db)" by (simp add: example_db_def)
  show "validate_proposed_revision example_extern (example_draft_revision\<lparr>prop_base_revision_id := 77\<rparr>) = Inr ()" by code_simp
qed (simp_all add: draft_row_def example_draft_revision_def)

text \<open>The document revised by its owner.\<close>

definition example_revised_db :: db where
  "example_revised_db = snd (append_revision example_extern 5 6 example_draft_revision example_db)"

lemma example_revised:
  "append_revision example_extern 5 6 example_draft_revision example_db =
     (Inr (next_revision example_extern 5 example_draft_revision 1 6), example_revised_db)"
proof -
  have "fst (append_revision example_extern 5 6 example_draft_revision example_db) =
      Inr (next_revision example_extern 5 example_draft_revision 1 6)" by code_simp
  then show ?thesis unfolding example_revised_db_def by (metis prod.collapse)
qed

lemma example_revised_reachable: "reachable example_extern example_revised_db"
  unfolding example_revised_db_def
  using reachable_call [OF example_db_reachable, of "AppendRevision 5 6 example_draft_revision"] by simp

lemma append_revision_success:
  assumes inv: "repo_inv E db" and app: "append_revision E rid now input db = (Inr s, db')"
  obtains d c pl path where
    "d \<in> set (documents db)" "d_id d = prop_document_id input" "d_current_revision_id d = prop_base_revision_id input"
    "c \<in> set (revisions db)" "r_id c = prop_base_revision_id input" "r_document_id c = prop_document_id input"
    "s = next_revision E rid input (r_revision_number c) now" "1 \<le> r_revision_number c"
    "appended E d (revision_row_of s (prop_idempotency_key input)) pl path now db db'"
proof -
  have "append_revision_in_transaction_with_category E rid input now None db = Inr (s, db')"
    using app by (auto simp: append_revision_def append_revision_in_transaction_def transact_Inr split: sum.splits)
  then show thesis using inv by (elim append_effect [rotated]) (auto simp: repo_inv_def intro: that)
qed

text \<open>
  (C20) Of two revisions based on the same revision of a document, at most one is accepted: once
  the first has been, the second is refused as a conflict and changes nothing.
\<close>

theorem concurrent_revisions_one_wins:
  assumes "reachable E db" and first: "append_revision E rid now input db = (Inr s, db')"
    and same: "prop_document_id input' = prop_document_id input"
      "prop_base_revision_id input' = prop_base_revision_id input"
    and valid: "validate_proposed_revision E input' = Inr ()"
  shows "append_revision E rid' now' input' db' = (Inl RevisionConflict, db')"
proof -
  have inv: "repo_inv E db" using assms(1) by (rule reachable_repo_inv)
  obtain d c pl path where d: "d \<in> set (documents db)" "d_id d = prop_document_id input"
    and c: "c \<in> set (revisions db)" "r_id c = prop_base_revision_id input"
    and s: "s = next_revision E rid input (r_revision_number c) now"
    and ap: "appended E d (revision_row_of s (prop_idempotency_key input)) pl path now db db'"
    using append_revision_success [OF inv first] by metis
  note tab = appended_tables [OF ap]
  let ?d = "appended_document rid path now d"
  have "?d \<in> set (documents db')"
    unfolding tab(1) set_update_where using d(1) by (intro rev_image_eqI [of d]) (simp_all add: s)
  moreover have "d_id ?d = prop_document_id input'" using d(2) same(1) by (simp add: appended_document_def)
  moreover have "rid \<noteq> prop_base_revision_id input'"
    using c tab(9) same(2) by (auto simp: fresh_revision_def s)
  then have "d_current_revision_id ?d \<noteq> prop_base_revision_id input'" by (simp add: appended_document_def)
  moreover have "repo_inv E db'" using keepsD [OF append_revision_keeps inv first] .
  ultimately show ?thesis using valid by (blast intro: stale_base_conflicts)
qed

theorem concurrent_revisions_one_wins_witness:
  "append_revision example_extern 8 9 (example_draft_revision\<lparr>prop_title := lit ''Other''\<rparr>) example_revised_db
     = (Inl RevisionConflict, example_revised_db)"
proof (rule concurrent_revisions_one_wins [OF example_db_reachable example_revised])
  show "validate_proposed_revision example_extern (example_draft_revision\<lparr>prop_title := lit ''Other''\<rparr>) = Inr ()" by code_simp
qed simp_all

text \<open>What a client reads before and after an accepted revision.\<close>

lemma append_reads:
  assumes inv: "repo_inv E db" "repo_inv E db'"
    and app: "append_revision_in_transaction_with_category E rid input now assignment db = Inr (s, db1)"
    and db': "documents db' = documents db1" "revisions db' = revisions db1"
  obtains before after where
    "get_document db (prop_document_id input) = Inr before" "get_document db' (prop_document_id input) = Inr after"
    "doc_current_revision_id before = prop_base_revision_id input"
    "s = next_revision E rid input (int (rev_revision_number (doc_revision before))) now"
    "doc_revision after = s" "doc_current_revision_id after = rid"
    "doc_published_revision_id after = doc_published_revision_id before"
proof -
  have dbi: "db_inv E db" using inv(1) by (simp add: repo_inv_def)
  obtain d c pl path where d: "d \<in> set (documents db)" "d_id d = prop_document_id input"
      "d_current_revision_id d = prop_base_revision_id input"
    and c: "c \<in> set (revisions db)" "r_id c = prop_base_revision_id input" "r_document_id c = prop_document_id input"
    and s: "s = next_revision E rid input (r_revision_number c) now" "1 \<le> r_revision_number c"
    and ap: "appended E d (revision_row_of s (prop_idempotency_key input)) pl path now db db1"
    using append_effect [OF dbi app] .
  note tab = appended_tables [OF ap]
  obtain t where t: "c = revision_row_of t (r_idempotency_key c)"
    using inv(1) c(1) unfolding repo_inv_def db_inv_def snapshots_ok_def row_matches_snapshot_def by metis
  then have num: "r_revision_number c = int (rev_revision_number t)" and snap: "r_snapshot_json c = revision_to_json t"
    by (metis revision_row_of_sel(3), metis revision_row_of_sel(6))
  have before: "get_document db (prop_document_id input) = Inr
     \<lparr>doc_schema_version = CONTENT_SCHEMA_VERSION, doc_id = prop_document_id input, doc_site_id = d_site_id d,
      doc_status = d_status d, doc_current_revision_id = d_current_revision_id d,
      doc_published_revision_id = d_published_revision_id d, doc_revision = t,
      doc_created_at = d_created_at d, doc_updated_at = d_updated_at d\<rparr>"
    using load_current [OF inv(1) d(1) c(1)] d c snap by (simp add: get_document_def)
  let ?d = "appended_document rid path now d"
  have dd: "?d \<in> set (documents db')"
    unfolding db' tab(1) set_update_where using d(1) by (intro rev_image_eqI [of d]) (simp_all add: s)
  have rr: "revision_row_of s (prop_idempotency_key input) \<in> set (revisions db')" unfolding db' tab(2) by simp
  have after: "get_document db' (prop_document_id input) = Inr
     \<lparr>doc_schema_version = CONTENT_SCHEMA_VERSION, doc_id = prop_document_id input, doc_site_id = d_site_id d,
      doc_status = d_status ?d, doc_current_revision_id = rid,
      doc_published_revision_id = d_published_revision_id d, doc_revision = s,
      doc_created_at = d_created_at d, doc_updated_at = now\<rparr>"
    using load_current [OF inv(2) dd rr] d by (simp add: get_document_def appended_document_def s)
  show thesis
    using before after d s num by (intro that [OF before after]) simp_all
qed

text \<open>
  An accepted revision is the proposal itself, numbered one above its base, with the base
  as its parent and the hash of its own content; the document read back shows it as current,
  and what is published, if anything, stays published.
\<close>

theorem accepted_revision_is_current:
  assumes "reachable E db" and app: "append_revision E rid now input db = (Inr s, db')"
  shows "\<exists>before after. get_document db (prop_document_id input) = Inr before
     \<and> get_document db' (prop_document_id input) = Inr after
     \<and> doc_current_revision_id before = prop_base_revision_id input
     \<and> rev_parent_revision_id s = Some (prop_base_revision_id input)
     \<and> rev_revision_number s = rev_revision_number (doc_revision before) + 1
     \<and> rev_title s = prop_title input \<and> rev_source_markdown s = prop_source_markdown input
     \<and> rev_actor s = prop_actor input \<and> rev_authorship s = prop_authorship input
     \<and> with_computed_hash E s = s
     \<and> doc_revision after = s \<and> doc_current_revision_id after = rid
     \<and> doc_published_revision_id after = doc_published_revision_id before"
proof -
  have inv: "repo_inv E db" using assms(1) by (rule reachable_repo_inv)
  have inv': "repo_inv E db'" using keepsD [OF append_revision_keeps inv app] .
  have "append_revision_in_transaction_with_category E rid input now None db = Inr (s, db')"
    using app by (auto simp: append_revision_def append_revision_in_transaction_def transact_Inr split: sum.splits)
  from append_reads [OF inv inv' this refl refl] obtain before after where
    "get_document db (prop_document_id input) = Inr before" "get_document db' (prop_document_id input) = Inr after"
    "doc_current_revision_id before = prop_base_revision_id input"
    "s = next_revision E rid input (int (rev_revision_number (doc_revision before))) now"
    "doc_revision after = s" "doc_current_revision_id after = rid"
    "doc_published_revision_id after = doc_published_revision_id before" .
  then show ?thesis by (simp add: nat_add_distrib)
qed

theorem accepted_revision_is_current_witness:
  "\<exists>after. get_document example_revised_db 2 = Inr after
     \<and> doc_revision after = next_revision example_extern 5 example_draft_revision 1 6
     \<and> doc_current_revision_id after = 5"
proof -
  have "prop_document_id example_draft_revision = 2" by (simp add: example_draft_revision_def)
  with accepted_revision_is_current [OF example_db_reachable example_revised] show ?thesis by auto
qed

section \<open>History and public paths\<close>

text \<open>
  (C2) History is append-only: whatever calls are made, the stored revisions of a reachable
  database remain, unchanged and in their order, and new ones are added behind them.
\<close>

theorem history_is_append_only:
  assumes "reachable E db"
  shows "\<exists>new. revisions (fold (perform E) calls db) = revisions db @ new"
  using assms by (intro run_revisions reachable_repo_inv)

theorem history_is_append_only_witness:
  "\<exists>new. revisions (fold (perform example_extern) [PublishRevision 2 1 4] example_db) = revisions example_db @ new"
  using history_is_append_only [OF example_db_reachable] .

text \<open>
  Public paths are permanent: a path that leads to a document leads to the same document
  after any further calls, whatever is renamed, moved or published.
\<close>

theorem public_paths_are_permanent:
  assumes "reachable E db" and "rt \<in> set (routes db)"
  shows "\<exists>rt' \<in> set (routes (fold (perform E) calls db)).
     rt_site_id rt' = rt_site_id rt \<and> rt_path rt' = rt_path rt \<and> rt_document_id rt' = rt_document_id rt
     \<and> (\<forall>other \<in> set (routes (fold (perform E) calls db)).
          rt_site_id other = rt_site_id rt \<and> rt_path other = rt_path rt \<longrightarrow> other = rt')"
proof -
  let ?db = "fold (perform E) calls db"
  have inv: "repo_inv E db" using assms(1) by (rule reachable_repo_inv)
  then have keys: "distinct (map (\<lambda>rt. (rt_site_id rt, rt_path rt)) (routes ?db))"
    using run_inv [of E db calls] by (simp add: repo_inv_def db_inv_def keys_ok_def)
  obtain rt' where rt': "rt' \<in> set (routes ?db)" "rt_site_id rt' = rt_site_id rt" "rt_path rt' = rt_path rt"
      "rt_document_id rt' = rt_document_id rt"
    using run_routes [OF inv assms(2)] by blast
  then show ?thesis using distinct_key_eq [OF keys] by (intro bexI [of _ rt']) auto
qed

definition example_route :: route_row where
  "example_route = \<lparr>rt_site_id = 20, rt_path = lit ''first'', rt_document_id = 2, rt_is_canonical = True, rt_created_at = 4\<rparr>"

definition example_published_db :: db where
  "example_published_db = example_db\<lparr>documents := [published_document 1 4 (draft_row 2 20 1 (lit ''first'') 3)],
     routes := [example_route]\<rparr>"

lemma example_published: "snd (publish 2 1 4 example_db) = example_published_db"
  by code_simp

lemma example_published_reachable: "reachable example_extern example_published_db"
  unfolding example_published [symmetric]
  using reachable_call [OF example_db_reachable, of "PublishRevision 2 1 4"] by simp

theorem public_paths_are_permanent_witness:
  "\<exists>rt' \<in> set (routes (fold (perform example_extern) [AppendRevision 5 6 example_draft_revision] example_published_db)).
     rt_path rt' = lit ''first'' \<and> rt_document_id rt' = 2"
proof -
  have "example_route \<in> set (routes example_published_db)" by (simp add: example_published_db_def)
  from public_paths_are_permanent [OF example_published_reachable this, of "[AppendRevision 5 6 example_draft_revision]"]
  show ?thesis by (auto simp: example_route_def)
qed

text \<open>
  (C3) Only publishing changes what visitors see: after any other call, every path of every
  site shows exactly the revision it showed before, or fails as it did before.
\<close>

theorem only_publishing_changes_public_view:
  assumes "reachable E db" and "\<not> publishes call"
  shows "published_revision (perform E call db) site slug = published_revision db site slug"
proof -
  have inv: "repo_inv E db" using assms(1) by (rule reachable_repo_inv)
  have "content_step E False db (perform E call db)" using perform_step [OF inv, of call] assms(2) by simp
  then show ?thesis by (rule step_published_revision [OF inv perform_inv [OF inv]])
qed

theorem only_publishing_changes_public_view_witness:
  "published_revision (perform example_extern (AppendRevision 5 6 example_draft_revision) example_published_db) 20 (lit ''first'')
     = published_revision example_published_db 20 (lit ''first'')"
  by (rule only_publishing_changes_public_view [OF example_published_reachable]) (simp add: publishes_def)

end
