(* ===== verification/Store_Publishing.thy ===== *)
theory Store_Publishing
  imports Store_Properties
begin

text \<open>
  Publication and agent proposals: what a successful publication serves, on the new path and on
  every earlier path of the document, and what an accepted proposal may and may not do.
\<close>

section \<open>Publishing\<close>

lemma load_published:
  assumes inv: "repo_inv E db" and d: "d \<in> set (documents db)" "d_published_revision_id d = Some (r_id r)"
    and r: "r \<in> set (revisions db)" "r_document_id r = d_id d"
    and snap: "r_snapshot_json r = revision_to_json s"
  shows "load_document db (d_id d) SelectPublished = Inr
     \<lparr>doc_schema_version = CONTENT_SCHEMA_VERSION, doc_id = d_id d, doc_site_id = d_site_id d,
      doc_status = Published, doc_current_revision_id = d_current_revision_id d,
      doc_published_revision_id = d_published_revision_id d, doc_revision = s,
      doc_created_at = d_created_at d, doc_updated_at = r_created_at r\<rparr>"
proof -
  have keys: "keys_ok db" and st: "status_ok db" using inv by (simp_all add: repo_inv_def db_inv_def)
  have "row_where (\<lambda>x. Some (r_id x) = d_published_revision_id d \<and> r_document_id x = d_id d) (revisions db) = Some r"
    by (rule row_where_unique_and [where key = r_id]) (use keys r d in \<open>auto simp: keys_ok_def\<close>)
  moreover have "d_status d = Published" using st d by (simp add: status_ok_def)
  ultimately have "selected_revision db SelectPublished d = Some r" using d by (simp add: selected_revision_def)
  with document_row [OF keys d(1)] snap \<open>d_status d = Published\<close> show ?thesis by (simp add: load_document_def)
qed

lemma route_resolves:
  assumes inv: "repo_inv E db" and rt: "rt \<in> set (routes db)"
  shows "get_published_by_slug db (rt_site_id rt) (rt_path rt) = load_document db (rt_document_id rt) SelectPublished"
proof -
  have ok: "keys_ok db" "routes_ok db" using inv by (simp_all add: repo_inv_def db_inv_def)
  have "row_where (\<lambda>x. rt_site_id x = rt_site_id rt \<and> rt_path x = rt_path rt) (routes db) = Some rt"
    by (rule row_where_unique_and [where key = "\<lambda>x. (rt_site_id x, rt_path x)"])
      (use ok(1) rt in \<open>auto simp: keys_ok_def\<close>)
  then show ?thesis by (simp add: get_published_by_slug_eq [OF ok(2)])
qed

lemma publish_success:
  assumes inv: "repo_inv E db" and pub: "publish i rid now db = (res, db')" and ok: "res = Inr snap"
  obtains d r s path where "d \<in> set (documents db)" "d_id d = i" "r \<in> set (revisions db)" "r_id r = rid"
    "r_document_id r = i" "r_snapshot_json r = revision_to_json s"
    "revision_category_route_path db (d_site_id d) i rid (rev_slug s) True = Inr path"
    "published_as d r path now db db'" "rev_id s = rid"
proof -
  have at: "publish_in_transaction_at i rid now db = Inr ((), db')"
    using pub ok by (auto simp: publish_def publish_in_transaction_def transact_Inr split: prod.splits sum.splits)
  have dbi: "db_inv E db" using inv by (simp add: repo_inv_def)
  obtain d r s path where eff: "d \<in> set (documents db)" "d_id d = i" "r \<in> set (revisions db)" "r_id r = rid"
      "r_document_id r = i" "revision_from_json (r_snapshot_json r) = Some s"
      "revision_category_route_path db (d_site_id d) i rid (rev_slug s) True = Inr path"
      "published_as d r path now db db'"
    using publish_effect [OF dbi at] .
  obtain t where t: "r = revision_row_of t (r_idempotency_key r)"
    using dbi eff(3) unfolding db_inv_def snapshots_ok_def row_matches_snapshot_def by metis
  then have "r_snapshot_json r = revision_to_json t" "r_id r = rev_id t"
    by (metis revision_row_of_sel(6), metis revision_row_of_sel(1))
  with eff show thesis by (intro that [of d r t path]) simp_all
qed

text \<open>
  (C19) A successful publication serves exactly the revision asked for: the snapshot it answers
  with is the published view of the document, there is one canonical route to the document, its
  path is built from the category and the slug of the published revision, and the new path as
  well as every path the document ever had resolve to this snapshot.
\<close>

theorem publication_serves_revision:
  assumes "reachable E db" and pub: "publish i rid now db = (Inr snap, db')"
  shows "doc_id snap = i \<and> doc_status snap = Published \<and> doc_published_revision_id snap = Some rid
     \<and> rev_id (doc_revision snap) = rid
     \<and> (\<exists>rt \<in> set (routes db'). rt_document_id rt = i \<and> rt_is_canonical rt
          \<and> revision_category_route_path db (doc_site_id snap) i rid (rev_slug (doc_revision snap)) True = Inr (rt_path rt)
          \<and> (\<forall>rt' \<in> set (routes db'). rt_document_id rt' = i \<and> rt_is_canonical rt' \<longrightarrow> rt' = rt))
     \<and> (\<forall>rt \<in> set (routes db'). rt_document_id rt = i \<longrightarrow>
          get_published_by_slug db' (rt_site_id rt) (rt_path rt) = Inr snap)
     \<and> (\<forall>rt \<in> set (routes db). rt_document_id rt = i \<longrightarrow>
          get_published_by_slug db' (rt_site_id rt) (rt_path rt) = Inr snap)"
proof -
  have inv: "repo_inv E db" using assms(1) by (rule reachable_repo_inv)
  have inv': "repo_inv E db'" using keepsD [OF publish_keeps inv pub] .
  obtain d r s path where d: "d \<in> set (documents db)" "d_id d = i"
    and r: "r \<in> set (revisions db)" "r_id r = rid" "r_document_id r = i" "r_snapshot_json r = revision_to_json s"
    and path: "revision_category_route_path db (d_site_id d) i rid (rev_slug s) True = Inr path"
    and eff: "published_as d r path now db db'" and s: "rev_id s = rid"
    using publish_success [OF inv pub refl] .
  note tab = published_tables [OF eff]
  let ?d = "published_document rid now d"
  have dd: "?d \<in> set (documents db')"
    unfolding tab(1) set_update_where using d(1) r(2) by (intro rev_image_eqI [of d]) simp_all
  have load: "load_document db' i SelectPublished = Inr
     \<lparr>doc_schema_version = CONTENT_SCHEMA_VERSION, doc_id = i, doc_site_id = d_site_id d,
      doc_status = Published, doc_current_revision_id = d_current_revision_id d,
      doc_published_revision_id = Some rid, doc_revision = s,
      doc_created_at = d_created_at d, doc_updated_at = r_created_at r\<rparr>"
    using load_published [OF inv' dd _ _ _ r(4)] d r tab(2) by (simp add: published_document_def)
  have snap: "load_document db' i SelectPublished = Inr snap"
    using pub by (auto simp: publish_def split: prod.splits sum.splits)
  have now: "\<forall>rt \<in> set (routes db'). rt_document_id rt = i \<longrightarrow>
      get_published_by_slug db' (rt_site_id rt) (rt_path rt) = Inr snap"
    using route_resolves [OF inv'] snap by auto
  have old: "\<exists>rt' \<in> set (routes db'). rt_site_id rt' = rt_site_id rt \<and> rt_path rt' = rt_path rt \<and> rt_document_id rt' = rt_document_id rt"
    if "rt \<in> set (routes db)" for rt
    using step_routes [OF content_step.publish [OF TrueI eff] that] by blast
  have free: "\<forall>rt \<in> set (routes db). rt_site_id rt = d_site_id d \<and> rt_path rt = path \<longrightarrow> rt_document_id rt = i"
    using tab(9) d(2) by (simp add: path_free_def)
  obtain rt where rt: "rt \<in> set (routes db')" "rt_path rt = path" "rt_document_id rt = i" "rt_is_canonical rt"
    using route_published_routed [OF free] d(2) unfolding tab(4) by metis
  have "\<exists>rt0 \<in> set (routes db'). rt_document_id rt0 = i \<and> rt_is_canonical rt0
      \<and> (\<forall>rt' \<in> set (routes db'). rt_document_id rt' = i \<and> rt_is_canonical rt' \<longrightarrow> rt' = rt0)"
    using inv' dd d(2) unfolding repo_inv_def db_inv_def canonical_ok_def by (auto simp: published_document_def)
  then have one: "\<forall>rt' \<in> set (routes db'). rt_document_id rt' = i \<and> rt_is_canonical rt' \<longrightarrow> rt' = rt"
    using rt by metis
  have facts: "doc_id snap = i" "doc_status snap = Published" "doc_published_revision_id snap = Some rid"
      "doc_revision snap = s" "doc_site_id snap = d_site_id d"
    using load snap by auto
  have "\<forall>rt \<in> set (routes db). rt_document_id rt = i \<longrightarrow>
      get_published_by_slug db' (rt_site_id rt) (rt_path rt) = Inr snap"
    using old now by metis
  note before = this
  have "\<exists>rt \<in> set (routes db'). rt_document_id rt = i \<and> rt_is_canonical rt
          \<and> revision_category_route_path db (doc_site_id snap) i rid (rev_slug (doc_revision snap)) True = Inr (rt_path rt)
          \<and> (\<forall>rt' \<in> set (routes db'). rt_document_id rt' = i \<and> rt_is_canonical rt' \<longrightarrow> rt' = rt)"
    using rt(1,3,4) one path unfolding facts(4,5) rt(2) [symmetric] by (intro bexI [of _ rt]) (intro conjI)
  then show ?thesis using facts(1-3) s before now unfolding facts(4) by (intro conjI)
qed

theorem publication_serves_revision_witness:
  "\<exists>snap. publish 2 1 4 example_db = (Inr snap, example_published_db)
     \<and> get_published_by_slug example_published_db 20 (lit ''first'') = Inr snap"
proof -
  have "is_ok (fst (publish 2 1 4 example_db))" by code_simp
  then obtain snap where snap: "publish 2 1 4 example_db = (Inr snap, example_published_db)"
    using example_published by (metis is_ok_iff prod.collapse)
  have "example_route \<in> set (routes example_published_db)" by (simp add: example_published_db_def)
  with publication_serves_revision [OF example_db_reachable snap] snap show ?thesis
    by (auto simp: example_route_def)
qed

section \<open>Tenants\<close>

text \<open>
  A public lookup never leaves its site and never shows a draft: what a path of a site
  yields is a published document of that same site, in its published revision.
\<close>

theorem public_lookup_stays_in_site:
  assumes "reachable E db" and look: "get_published_by_slug db site slug = Inr snap"
  shows "doc_site_id snap = site \<and> doc_status snap = Published
     \<and> doc_published_revision_id snap = Some (rev_id (doc_revision snap))
     \<and> (\<exists>rt \<in> set (routes db). rt_site_id rt = site \<and> rt_path rt = slug \<and> rt_document_id rt = doc_id snap)"
proof -
  have inv: "repo_inv E db" using assms(1) by (rule reachable_repo_inv)
  have ok: "keys_ok db" "routes_ok db" "pointers_ok db" "snapshots_ok E db"
    using inv by (simp_all add: repo_inv_def db_inv_def)
  from look obtain rt where rt: "rt \<in> set (routes db)" "rt_site_id rt = site" "rt_path rt = slug"
    and load: "load_document db (rt_document_id rt) SelectPublished = Inr snap"
    unfolding get_published_by_slug_eq [OF ok(2)] by (auto simp: result_simps dest: row_where_Some)
  obtain d where d: "d \<in> set (documents db)" "d_id d = rt_document_id rt" "d_site_id d = site"
    using ok(2) rt unfolding routes_ok_def by metis
  obtain p where p: "d_published_revision_id d = Some p"
    using load document_row [OF ok(1) d(1)] d(2)
    by (auto simp: load_document_def selected_revision_def result_simps split: if_splits)
  obtain r where r: "r \<in> set (revisions db)" "r_id r = p" "r_document_id r = d_id d"
    using ok(3) d(1) p unfolding pointers_ok_def by metis
  obtain s where s: "r = revision_row_of s (r_idempotency_key r)"
    using ok(4) r(1) unfolding snapshots_ok_def row_matches_snapshot_def by metis
  then have "r_snapshot_json r = revision_to_json s" "rev_id s = p"
    using r(2) by (metis revision_row_of_sel(6), metis revision_row_of_sel(1))
  with load_published [OF inv d(1), of r s] r p load d rt show ?thesis by auto
qed

theorem public_lookup_stays_in_site_witness:
  "\<exists>snap. get_published_by_slug example_published_db 20 (lit ''first'') = Inr snap \<and> doc_site_id snap = 20
     \<and> doc_status snap = Published"
proof -
  have "is_ok (get_published_by_slug example_published_db 20 (lit ''first''))" by code_simp
  then obtain snap where "get_published_by_slug example_published_db 20 (lit ''first'') = Inr snap"
    by (auto simp: is_ok_iff)
  with public_lookup_stays_in_site [OF example_published_reachable this] show ?thesis by blast
qed

end
