(* ===== verification/Store_Access.thy ===== *)
theory Store_Access
  imports Store_Sessions Store_Publishing
begin

text \<open>
  Who may do what: the sessions of the primary owner and the control plane that binds them, on
  every database the operations of the repository reach.
\<close>

section \<open>Example\<close>

definition example_control :: AdminControlPlaneRecord where
  "example_control = \<lparr>cp_primary_site_id = 20, cp_owner_user_id = 10, cp_auth_mode = AccessKey, cp_auth_epoch = 1,
     cp_setup_complete = True, cp_binding_fingerprint = replicate 32 7, cp_created_at = 5, cp_updated_at = 5\<rparr>"

definition example_session :: session_row where
  "example_session = \<lparr>se_id = 30, se_token_hash = replicate 32 9, se_user_id = 10, se_expires_at = 100,
     se_created_at = 6, se_revoked_at = None, se_auth_epoch = 1, se_auth_method = AccessKeySession\<rparr>"

definition example_admin_db :: db where
  "example_admin_db = example_site_db\<lparr>admin_control_plane := Some example_control, sessions := [example_session]\<rparr>"

lemma example_site_db_reachable: "reachable example_extern example_site_db"
proof -
  have "example_site_db = fold (perform example_extern)
     [CreateUser 10 1 (lit ''Ann@Example.org'') (lit ''ann'') (lit ''Ann'') (lit ''$argon2id$x''),
      CreateSite 20 2 10 (lit ''ann'') (lit ''Notes'') None Paper] empty_db"
    by (simp add: example_user_created example_site_created)
  then show ?thesis by (metis reachable_run reachable_init)
qed

lemma example_bound:
  "snd (reconcile_admin_control_plane 5 20 AccessKey (replicate 32 7) example_site_db) =
   example_site_db\<lparr>admin_control_plane := Some example_control\<rparr>"
  by code_simp

lemma example_issued:
  "snd (create_primary_owner_session 30 6 6 6 (replicate 32 9) 100 AccessKeySession (replicate 32 7)
     (example_site_db\<lparr>admin_control_plane := Some example_control\<rparr>)) = example_admin_db"
  by code_simp

lemma example_admin_reachable: "reachable example_extern example_admin_db"
proof -
  have "example_admin_db = fold (perform example_extern)
     [AdminCall (ReconcileControlPlane 5 20 AccessKey (replicate 32 7)),
      AdminCall (CreateOwnerSession 30 6 6 6 (replicate 32 9) 100 AccessKeySession (replicate 32 7))] example_site_db"
    by (simp add: example_bound example_issued)
  then show ?thesis by (metis reachable_run example_site_db_reachable)
qed

section \<open>Sessions of the primary owner\<close>

lemma owner_site_of:
  assumes inv: "repo_inv E db" and "owner_of db user site" and load: "load_site_by_id db site None = Inr x"
  shows "site_id x = site \<and> site_owner_user_id x = user"
proof -
  have "row_where (\<lambda>s. site_id s = site) (site_rows db) = Some x" using load by (simp add: load_site_by_id_def ok_or_eq_Inr)
  from row_where_Some [OF this] obtain m where m: "m \<in> set (site_memberships db)" "m_role m = Owner" "m_site_id m = site"
      "site_owner_user_id x = m_user_id m" and x: "site_id x = site"
    unfolding site_rows_def by auto
  moreover obtain m' where "m' \<in> set (site_memberships db)" "m_site_id m' = site" "m_user_id m' = user" "m_role m' = Owner"
    using assms(2) unfolding owner_of_def by blast
  ultimately have "m = m'" using inv unfolding repo_inv_def site_inv_def owners_ok_def by metis
  with m x \<open>m_user_id m' = user\<close> show ?thesis by simp
qed

text \<open>
  A session accepted for administration belongs to the owner of the primary site: it was
  issued in the current epoch of the control plane by the method the control plane prescribes, it
  is neither revoked nor expired, and the user and the site it is answered with are the owner and
  the site the control plane names, the one owning the other.
\<close>

theorem owner_session_authenticates_owner:
  assumes "reachable E db" and get: "get_primary_owner_session db now hash = Inr po"
  shows "\<exists>c s. admin_control_plane db = Some c \<and> s \<in> set (sessions db) \<and> se_token_hash s = hash
     \<and> se_revoked_at s = None \<and> now < se_expires_at s \<and> se_auth_epoch s = cp_auth_epoch c
     \<and> session_method (cp_auth_mode c) = Some (se_auth_method s)
     \<and> u_id (po_user po) = cp_owner_user_id c \<and> se_user_id s = u_id (po_user po)
     \<and> site_id (po_site po) = cp_primary_site_id c \<and> site_owner_user_id (po_site po) = u_id (po_user po)
     \<and> get_session db now hash = Inr (po_session po)"
proof -
  have inv: "repo_inv E db" "admin_inv db" using assms(1) by (rule reachable_repo_inv, rule reachable_admin_inv)
  from get obtain session c user site where g: "validate_token_hash hash = Inr ()"
      "load_active_session_by_hash db now hash = Inr session" "load_admin_control_plane db = Inr c"
      "ensure_bound_session c session = Inr ()" "load_user_by_id db (cp_owner_user_id c) = Inr user"
      "load_site_by_id db (cp_primary_site_id c) None = Inr site"
      "po = \<lparr>po_session = session, po_user = user, po_site = site\<rparr>"
    unfolding get_primary_owner_session_def by (auto simp: and_then_eq_Inr)
  obtain s where s: "s \<in> set (sessions db)" "se_token_hash s = hash" "se_revoked_at s = None" "now < se_expires_at s"
      "session = parse_session_row s" using active_session [OF g(2)] .
  have c: "admin_control_plane db = Some c" using g(3) by (simp add: load_admin_control_plane_Inr)
  have bound: "se_user_id s = cp_owner_user_id c" "se_auth_epoch s = cp_auth_epoch c"
      "session_method (cp_auth_mode c) = Some (se_auth_method s)"
    using g(4) by (auto simp: ensure_bound_session_def reject_if_eq_Inr s(5) parse_session_row_def)
  have user: "u_id user = cp_owner_user_id c"
    using g(5) by (auto simp: load_user_by_id_def ok_or_eq_Inr dest: row_where_Some)
  have "owner_of db (cp_owner_user_id c) (cp_primary_site_id c)" using inv(2) c by (simp add: admin_inv_def control_ok_def)
  from owner_site_of [OF inv(1) this g(6)]
  have site: "site_id site = cp_primary_site_id c" "site_owner_user_id site = cp_owner_user_id c" by simp_all
  have "get_session db now hash = Inr session"
    using g(1-4) by (simp add: get_session_def)
  with c s bound user site g(7) show ?thesis by (intro exI [of _ c] exI [of _ s]) simp
qed

theorem owner_session_authenticates_owner_witness:
  "\<exists>po c. get_primary_owner_session example_admin_db 50 (replicate 32 9) = Inr po
     \<and> admin_control_plane example_admin_db = Some c \<and> u_id (po_user po) = cp_owner_user_id c"
proof -
  have "is_ok (get_primary_owner_session example_admin_db 50 (replicate 32 9))" by code_simp
  then obtain po where po: "get_primary_owner_session example_admin_db 50 (replicate 32 9) = Inr po"
    by (auto simp: is_ok_iff)
  with owner_session_authenticates_owner [OF example_admin_reachable po] show ?thesis by blast
qed

lemma dead_session_everywhere:
  assumes inv: "admin_inv db" and s: "s \<in> set (sessions db)" and dead: "se_revoked_at s \<noteq> None \<or> se_expires_at s \<le> now"
  shows "get_session db now (se_token_hash s) = Inl NotFound"
    and "get_primary_owner_session db now (se_token_hash s) = Inl NotFound"
proof -
  have "length (se_token_hash s) = 32" using inv s by (simp add: admin_inv_def session_keys_ok_def)
  with dead_session [OF assms] show "get_session db now (se_token_hash s) = Inl NotFound"
    "get_primary_owner_session db now (se_token_hash s) = Inl NotFound"
    by (simp_all add: get_session_def get_primary_owner_session_def validate_token_hash_def)
qed

lemma legacy_session_refused:
  assumes inv: "admin_inv db" and s: "s \<in> set (sessions db)" "se_auth_method s = LegacySession"
    and c: "admin_control_plane db = Some c"
  shows "get_primary_owner_session db now (se_token_hash s) = Inl NotFound"
proof -
  have "load_admin_control_plane db = Inr c"
    using inv c by (simp add: load_admin_control_plane_Inr admin_inv_def control_ok_def)
  moreover have "length (se_token_hash s) = 32" using inv s by (simp add: admin_inv_def session_keys_ok_def)
  moreover have "ss_auth_method x = LegacySession" if act: "load_active_session_by_hash db now (se_token_hash s) = Inr x" for x
  proof -
    obtain s' where s': "s' \<in> set (sessions db)" "se_token_hash s' = se_token_hash s" "x = parse_session_row s'"
      using active_session [OF act] by metis
    then have "s' = s" using inv s unfolding admin_inv_def session_keys_ok_def by (metis distinct_key_eq)
    with s' s(2) show ?thesis by (simp add: parse_session_row_def)
  qed
  moreover have "e = NotFound" if "load_active_session_by_hash db now (se_token_hash s) = Inl e" for e
    using that by (auto simp: load_active_session_by_hash_def and_then_def ok_or_def split: option.splits if_splits)
  ultimately show ?thesis
    by (cases "load_active_session_by_hash db now (se_token_hash s)")
      (auto simp: get_primary_owner_session_def validate_token_hash_def ensure_bound_session_def)
qed

text \<open>
  (C22) Rotating the administrator authentication locks out: once a rotation has changed the mode
  or the fingerprint, no session issued before gives access to the administration again, whatever
  is called later and at whatever time; the sessions of the old binding are refused altogether.
\<close>

theorem rotation_locks_out_sessions:
  assumes "reachable E db" and "admin_control_plane db = Some c0"
    and "cp_auth_mode c0 \<noteq> mode \<or> cp_binding_fingerprint c0 \<noteq> fingerprint"
    and rot: "rotate_admin_control_plane now site mode fingerprint db = (Inr c, db')"
    and s: "s \<in> set (sessions db)"
  shows "get_primary_owner_session (fold (perform E) calls db') t (se_token_hash s) = Inl NotFound
     \<and> (se_auth_method s \<noteq> LegacySession \<longrightarrow>
          get_session (fold (perform E) calls db') t (se_token_hash s) = Inl NotFound)"
proof -
  let ?db = "fold (perform E) calls db'"
  have "reachable E (perform E (AdminCall (RotateControlPlane now site mode fingerprint)) db)"
    using assms(1) by (rule reachable_call)
  then have reach: "reachable E db'" using rot by simp
  then have inv: "repo_inv E db'" "admin_inv ?db" by (auto intro: reachable_repo_inv reachable_admin_inv reachable_run)
  have "rotate_in_transaction now site mode fingerprint db = Inr (c, db')"
    using rot by (auto simp: rotate_admin_control_plane_def transact_Inr split: sum.splits)
  then have db': "db' = db\<lparr>admin_control_plane := Some c, sessions := revoke_admin_sessions now (sessions db), external_identities := []\<rparr>"
    using assms(2,3) by (cases rule: rotate_effect) auto
  let ?s = "if se_auth_method s \<noteq> LegacySession
    then s\<lparr>se_revoked_at := (case se_revoked_at s of None \<Rightarrow> Some now | Some t \<Rightarrow> Some t)\<rparr> else s"
  have "?s \<in> set (sessions db')" using s by (simp add: db' revoke_admin_sessions_def set_update_where)
  from run_administration(1) [OF inv(1) this] obtain s' where s': "s' \<in> set (sessions ?db)" "later_session ?s s'" by blast
  have same: "se_token_hash s' = se_token_hash s" "se_auth_method s' = se_auth_method s"
    using later_session_sel [OF s'(2)] by auto
  show ?thesis
  proof (cases "se_auth_method s = LegacySession")
    case False
    then have "se_revoked_at s' \<noteq> None" using later_session_sel(4) [OF s'(2)] by (simp split: option.splits)
    with dead_session_everywhere [OF inv(2) s'(1)] same show ?thesis by simp
  next
    case True
    have "admin_control_plane db' = Some c" by (simp add: db')
    from run_administration(2) [OF inv(1) this] obtain c' where "admin_control_plane ?db = Some c'" by blast
    from legacy_session_refused [OF inv(2) s'(1) _ this, of t] same True show ?thesis by simp
  qed
qed

theorem rotation_locks_out_sessions_witness:
  "\<exists>db'. snd (rotate_admin_control_plane 7 20 Disabled (replicate 32 8) example_admin_db) = db'
     \<and> get_primary_owner_session (perform example_extern (AdminCall (RotateControlPlane 8 20 AccessKey (replicate 32 7))) db') 50
         (replicate 32 9) = Inl NotFound"
proof -
  have "is_ok (fst (rotate_admin_control_plane 7 20 Disabled (replicate 32 8) example_admin_db))" by code_simp
  then obtain c db' where rot: "rotate_admin_control_plane 7 20 Disabled (replicate 32 8) example_admin_db = (Inr c, db')"
    by (metis is_ok_iff prod.collapse)
  have "example_session \<in> set (sessions example_admin_db)" "admin_control_plane example_admin_db = Some example_control"
      "cp_auth_mode example_control \<noteq> Disabled" "se_token_hash example_session = replicate 32 9"
    by (simp_all add: example_admin_db_def example_control_def example_session_def)
  with rotation_locks_out_sessions [OF example_admin_reachable _ _ rot,
      where calls = "[AdminCall (RotateControlPlane 8 20 AccessKey (replicate 32 7))]" and t = 50] rot
  show ?thesis by (metis fold_simps snd_conv)
qed

text \<open>
  (C26) A session that has ended stays ended: once it is revoked, or has expired at some moment,
  no later sequence of calls makes it acceptable at that moment or after it.
\<close>

theorem ended_session_stays_ended:
  assumes "reachable E db" and s: "s \<in> set (sessions db)" and "se_revoked_at s \<noteq> None \<or> se_expires_at s \<le> t"
    and "t \<le> t'"
  shows "get_session (fold (perform E) calls db) t' (se_token_hash s) = Inl NotFound
     \<and> get_primary_owner_session (fold (perform E) calls db) t' (se_token_hash s) = Inl NotFound"
proof -
  let ?db = "fold (perform E) calls db"
  have inv: "repo_inv E db" "admin_inv ?db"
    using assms(1) by (auto intro: reachable_repo_inv reachable_admin_inv reachable_run)
  from run_administration(1) [OF inv(1) s] obtain s' where s': "s' \<in> set (sessions ?db)" "later_session s s'" by blast
  then have "se_revoked_at s' \<noteq> None \<or> se_expires_at s' \<le> t'"
    using later_session_sel [OF s'(2)] assms(3,4) by auto
  from dead_session_everywhere [OF inv(2) s'(1) this] later_session_sel(1) [OF s'(2)] show ?thesis by simp
qed

theorem ended_session_stays_ended_witness:
  "get_session (fold (perform example_extern) [AdminCall (RevokeSession 60 (replicate 32 1))] example_admin_db) 101
     (replicate 32 9) = Inl NotFound"
proof -
  have "example_session \<in> set (sessions example_admin_db)" "se_expires_at example_session \<le> 100"
      "se_token_hash example_session = replicate 32 9"
    by (simp_all add: example_admin_db_def example_session_def)
  with ended_session_stays_ended [OF example_admin_reachable, of example_session 100 101
      "[AdminCall (RevokeSession 60 (replicate 32 1))]"]
  show ?thesis by simp
qed

text \<open>
  (C25) The control plane is permanent: once a primary site and its owner are set, no sequence of
  calls replaces them or takes the site from its owner; the epoch never goes back, and the
  authentication mode and the fingerprint change only when the epoch grows.
\<close>

theorem control_plane_is_permanent:
  assumes "reachable E db" and c: "admin_control_plane db = Some c"
  shows "\<exists>c'. admin_control_plane (fold (perform E) calls db) = Some c'
     \<and> cp_primary_site_id c' = cp_primary_site_id c \<and> cp_owner_user_id c' = cp_owner_user_id c
     \<and> owns_site_in_connection (fold (perform E) calls db) (cp_owner_user_id c) (cp_primary_site_id c)
     \<and> cp_auth_epoch c \<le> cp_auth_epoch c'
     \<and> (cp_auth_epoch c' = cp_auth_epoch c \<longrightarrow>
          cp_auth_mode c' = cp_auth_mode c \<and> cp_binding_fingerprint c' = cp_binding_fingerprint c)"
proof -
  let ?db = "fold (perform E) calls db"
  have inv: "repo_inv E db" "admin_inv ?db"
    using assms(1) by (auto intro: reachable_repo_inv reachable_admin_inv reachable_run)
  from run_administration(2) [OF inv(1) c] obtain c' where c': "admin_control_plane ?db = Some c'" "later_control c c'" by blast
  moreover have "owner_of ?db (cp_owner_user_id c') (cp_primary_site_id c')"
    using inv(2) c'(1) by (simp add: admin_inv_def control_ok_def)
  ultimately show ?thesis by (auto simp: later_control_def owns_site_iff)
qed

theorem control_plane_is_permanent_witness:
  "\<exists>c'. admin_control_plane (fold (perform example_extern)
       [AdminCall (RotateControlPlane 8 20 External (replicate 32 7)), RemoveCollaborator 10 20 10] example_admin_db) = Some c'
     \<and> cp_primary_site_id c' = 20 \<and> cp_owner_user_id c' = 10"
proof -
  have c: "admin_control_plane example_admin_db = Some example_control" by (simp add: example_admin_db_def)
  show ?thesis
    using control_plane_is_permanent [OF example_admin_reachable c,
        of "[AdminCall (RotateControlPlane 8 20 External (replicate 32 7)), RemoveCollaborator 10 20 10]"]
    by (auto simp: example_control_def)
qed

end
