(* ===== verification/Store_Authority.thy ===== *)
theory Store_Authority
  imports Store_Access
begin

text \<open>
  Authority over a site: what calls on behalf of a user can do without a membership, and what
  agents can do through proposals.
\<close>

section \<open>Memberships\<close>

text \<open>The user a call acts for, the site it acts on, and whether it takes the owner.\<close>

fun acts_for :: "repo_call \<Rightarrow> (uuid \<times> uuid \<times> bool) option" where
  "acts_for (AssignCategory now actor site doc rid cat) = Some (actor, site, False)"
| "acts_for (CreateInOwnedSite i rid now owner input) = Some (owner, new_site_id input, True)"
| "acts_for (CreateInWritableSite i rid now actor input) = Some (actor, new_site_id input, False)"
| "acts_for (CreateInCategory i rid now actor input cat) = Some (actor, new_site_id input, False)"
| "acts_for (ReviseInOwnedSite rid now owner site input) = Some (owner, site, True)"
| "acts_for (ReviseInWritableSite rid now actor site input) = Some (actor, site, False)"
| "acts_for (ReviseInCategory rid now actor site input selection) = Some (actor, site, False)"
| "acts_for (PublishInOwnedSite now owner site doc rid) = Some (owner, site, True)"
| "acts_for (AddCollaborator now owner site email role) = Some (owner, site, True)"
| "acts_for (RemoveCollaborator owner site collaborator) = Some (owner, site, True)"
| "acts_for (ChangeTheme now owner site theme) = Some (owner, site, True)"
| "acts_for (ChangeAppearance now owner site theme css) = Some (owner, site, True)"
| "acts_for (CreateCategory i now owner site input) = Some (owner, site, True)"
| "acts_for (UpdateCategory now owner site cat input) = Some (owner, site, True)"
| "acts_for (ArchiveCategory now owner site cat) = Some (owner, site, True)"
| "acts_for (CreateSeries cat i now now' owner site input) = Some (owner, site, True)"
| "acts_for (PromoteCategory i now owner site cat) = Some (owner, site, True)"
| "acts_for (UpdateSeries now owner site i input) = Some (owner, site, True)"
| "acts_for (ArchiveSeries now owner site i) = Some (owner, site, True)"
| "acts_for (ReplaceSeriesOrder now owner site i ids) = Some (owner, site, True)"
| "acts_for call = None"

definition authorized :: "db \<Rightarrow> uuid \<Rightarrow> uuid \<Rightarrow> bool \<Rightarrow> bool" where
  "authorized db user site owner \<longleftrightarrow>
     (\<exists>m \<in> set (site_memberships db). m_site_id m = site \<and> m_user_id m = user \<and> (owner \<longrightarrow> m_role m = Owner))"

lemma ensure_site_owner_unauthorized:
  "\<not> authorized db user site True \<Longrightarrow> ensure_site_owner db user site = Inl NotFound"
  by (auto simp: authorized_def ensure_site_owner_def owns_site_in_connection_def exists_where_iff reject_if_def)

lemma ensure_site_writer_unauthorized:
  "\<not> authorized db user site False \<Longrightarrow> ensure_site_writer db user site = Inl NotFound"
  unfolding ensure_site_writer_def load_site_membership_def authorized_def
  by (cases "row_where (\<lambda>m. m_site_id m = site \<and> m_user_id m = user) (site_memberships db)")
    (auto dest: row_where_Some)

lemma transact_refused:
  "g db = Inl e \<Longrightarrow> transact (\<lambda>db. and_then (g db) (f db)) db = (Inl e, db)"
  by (simp add: transact_def)

lemmas refused = transact_refused [where g = "\<lambda>db. ensure_site_owner db user site" for user site, OF ensure_site_owner_unauthorized]
  transact_refused [where g = "\<lambda>db. ensure_site_writer db user site" for user site, OF ensure_site_writer_unauthorized]

lemmas site_operation_defs = assign_revision_category_in_writable_site_def create_document_in_owned_site_def
  create_document_in_writable_site_def create_document_in_writable_site_with_category_def
  revise_document_in_owned_site_def revise_document_in_writable_site_def
  revise_document_in_writable_site_with_category_def publish_document_in_owned_site_def
  add_site_collaborator_def remove_site_collaborator_def change_site_theme_def change_site_appearance_def
  create_category_def update_category_def archive_category_def create_series_def promote_category_to_series_def
  update_series_def archive_series_def replace_series_order_def

lemma unauthorized_call_refused:
  assumes "acts_for call = Some (user, site, owner)" and "\<not> authorized db user site owner"
  shows "perform E call db = db"
  using assms
  by (cases call)
    (auto simp: site_operation_defs refused then_load_def split: sum.splits)

text \<open>
  Without a membership nothing can be written: a call on behalf of a user who is not a member
  of the site, or who is not its owner where the operation takes the owner, leaves the whole
  database as it was.
\<close>

theorem unauthorized_call_changes_nothing:
  assumes "acts_for call = Some (user, site, owner)" and "\<not> authorized db user site owner"
  shows "perform E call db = db"
  using assms by (rule unauthorized_call_refused)

theorem unauthorized_call_changes_nothing_witness:
  "perform example_extern (PublishInOwnedSite 9 11 20 2 1) example_db = example_db"
  by (rule unauthorized_call_changes_nothing [where user = 11 and site = 20 and owner = True])
    (simp_all add: authorized_def example_db_def example_site_db_def)

section \<open>Proposals of agents\<close>

lemma appended_audits: "appended E d r pl path now db db' \<Longrightarrow> ai_proposal_audits db' = ai_proposal_audits db"
  by (simp add: effect_defs)

lemma append_ai_proposal_success:
  assumes inv: "repo_inv E db" and acc: "append_ai_proposal E rid checked received v db = (Inr s, db')"
  obtains db1 a where "validate_envelope E checked v = Inr ()"
    "append_revision_in_transaction_with_category E rid (proposal_of_envelope v) received None db = Inr (s, db1)"
    "a = \<lparr>a_schema_version = AI_PROPOSAL_AUDIT_SCHEMA_VERSION, a_accepted_revision_id = rev_id s,
       a_document_id = rev_document_id s, a_message_id = env_message_id v, a_idempotency_key = env_idempotency_key v,
       a_received_at = received, a_envelope_json = envelope_to_json v\<rparr>"
    "db' = db1\<lparr>ai_proposal_audits := ai_proposal_audits db @ [a]\<rparr>"
    "\<forall>x \<in> set (ai_proposal_audits db). a_message_id x \<noteq> env_message_id v \<and> a_idempotency_key x \<noteq> env_idempotency_key v"
proof -
  let ?a = "\<lparr>a_schema_version = AI_PROPOSAL_AUDIT_SCHEMA_VERSION, a_accepted_revision_id = rev_id s,
       a_document_id = rev_document_id s, a_message_id = env_message_id v, a_idempotency_key = env_idempotency_key v,
       a_received_at = received, a_envelope_json = envelope_to_json v\<rparr>"
  have ok: "validate_envelope E checked v = Inr ()"
    using acc by (auto simp: append_ai_proposal_def split: sum.splits)
  from acc obtain db1 where ap: "append_revision_in_transaction_with_category E rid (proposal_of_envelope v) received None db = Inr (s, db1)"
    and ins: "sql_insert_ai_audit ?a db1 = Inr db'"
    by (auto simp: append_ai_proposal_def Let_def append_revision_in_transaction_def transact_Inr and_then_eq_Inr
        insert_ai_proposal_def map_err_eq_Inr split: sum.splits)
  have "db_inv E db" using inv by (simp add: repo_inv_def)
  from append_effect [OF this ap] have "ai_proposal_audits db1 = ai_proposal_audits db" by (metis appended_audits)
  with ins show thesis
    by (intro that [OF ok ap refl]) (auto simp: sql_insert_ai_audit_def exists_where_iff split: if_splits)
qed

lemma proposal_of_envelope_sel:
  "prop_actor (proposal_of_envelope v) = \<lparr>actor_kind = RevisionAgent, actor_id = ai_actor_id (env_actor v), actor_display_name = None\<rparr>"
  "authorship_kind (prop_authorship (proposal_of_envelope v)) = AiGenerated"
  "authorship_human_reviewed (prop_authorship (proposal_of_envelope v)) = False"
  "prop_document_id (proposal_of_envelope v) = prop_document_id (env_proposal v)"
  "prop_base_revision_id (proposal_of_envelope v) = prop_base_revision_id (env_proposal v)"
  by (simp_all add: proposal_of_envelope_def)

text \<open>
  (C23) A proposal of an agent becomes a draft and nothing more: the accepted revision is the
  current one of the document, marked as written by the agent of the envelope, generated by AI
  and not reviewed by a human, whatever actor and authorship the envelope claimed; no path of any
  site shows anything else than before; and the audit table holds the whole envelope, which reads
  back from it, under the message and the key it came with.
\<close>

theorem agent_proposal_stays_draft:
  assumes "reachable E db" and acc: "append_ai_proposal E rid checked received v db = (Inr s, db')"
  shows "rev_actor s = \<lparr>actor_kind = RevisionAgent, actor_id = ai_actor_id (env_actor v), actor_display_name = None\<rparr>
     \<and> authorship_kind (rev_authorship s) = AiGenerated \<and> \<not> authorship_human_reviewed (rev_authorship s)
     \<and> (\<exists>after. get_document db' (prop_document_id (env_proposal v)) = Inr after \<and> doc_revision after = s
          \<and> doc_current_revision_id after = rid)
     \<and> (\<forall>site slug. published_revision db' site slug = published_revision db site slug)
     \<and> (\<exists>a \<in> set (ai_proposal_audits db'). a_accepted_revision_id a = rid \<and> a_message_id a = env_message_id v
          \<and> a_idempotency_key a = env_idempotency_key v \<and> envelope_from_json (a_envelope_json a) = Some v)"
proof -
  have inv: "repo_inv E db" using assms(1) by (rule reachable_repo_inv)
  have inv': "repo_inv E db'" using keepsD [OF append_ai_proposal_keeps inv acc] .
  obtain db1 a where ok: "validate_envelope E checked v = Inr ()"
    and ap: "append_revision_in_transaction_with_category E rid (proposal_of_envelope v) received None db = Inr (s, db1)"
    and a: "a = \<lparr>a_schema_version = AI_PROPOSAL_AUDIT_SCHEMA_VERSION, a_accepted_revision_id = rev_id s,
       a_document_id = rev_document_id s, a_message_id = env_message_id v, a_idempotency_key = env_idempotency_key v,
       a_received_at = received, a_envelope_json = envelope_to_json v\<rparr>"
    and db': "db' = db1\<lparr>ai_proposal_audits := ai_proposal_audits db @ [a]\<rparr>"
    using append_ai_proposal_success [OF inv acc] .
  have tabs: "documents db' = documents db1" "revisions db' = revisions db1" by (simp_all add: db')
  obtain before after where r:
    "get_document db (prop_document_id (proposal_of_envelope v)) = Inr before"
    "get_document db' (prop_document_id (proposal_of_envelope v)) = Inr after"
    "doc_current_revision_id before = prop_base_revision_id (proposal_of_envelope v)"
    "s = next_revision E rid (proposal_of_envelope v) (int (rev_revision_number (doc_revision before))) received"
    "doc_revision after = s" "doc_current_revision_id after = rid"
    "doc_published_revision_id after = doc_published_revision_id before"
    using append_reads [OF inv inv' ap tabs] .
  have view: "published_revision db' site slug = published_revision db site slug" for site slug
  proof -
    have "content_step E False db (snd (append_ai_proposal E rid checked received v db))"
      using content_operations_act(3) inv by (simp add: related_def)
    then show ?thesis using step_published_revision [OF inv inv'] acc by simp
  qed
  have "a \<in> set (ai_proposal_audits db')" "a_accepted_revision_id a = rid" "envelope_from_json (a_envelope_json a) = Some v"
    using envelope_codec_validated [OF ok] by (simp_all add: db' a r(4))
  then have "\<exists>a \<in> set (ai_proposal_audits db'). a_accepted_revision_id a = rid \<and> a_message_id a = env_message_id v
          \<and> a_idempotency_key a = env_idempotency_key v \<and> envelope_from_json (a_envelope_json a) = Some v"
    by (intro bexI [of _ a]) (simp_all add: a)
  with r view show ?thesis by (simp add: proposal_of_envelope_sel)
qed

theorem agent_proposal_stays_draft_witness:
  "\<exists>s db'. append_ai_proposal example_extern 5 0 6 example_envelope example_db = (Inr s, db')
     \<and> authorship_kind (rev_authorship s) = AiGenerated
     \<and> published_revision db' 20 (lit ''title'') = published_revision example_db 20 (lit ''title'')"
proof -
  have "is_ok (fst (append_ai_proposal example_extern 5 0 6 example_envelope example_db))" by code_simp
  then obtain s db' where "append_ai_proposal example_extern 5 0 6 example_envelope example_db = (Inr s, db')"
    by (metis is_ok_iff prod.collapse)
  with agent_proposal_stays_draft [OF example_db_reachable this] show ?thesis by blast
qed

lemma audit_kept:
  assumes "content_step E allow db db'" and "a \<in> set (ai_proposal_audits db)"
  shows "a \<in> set (ai_proposal_audits db')"
  using assms by cases (auto simp: same_content_def effect_defs)

lemma run_audit_kept:
  "repo_inv E db \<Longrightarrow> a \<in> set (ai_proposal_audits db) \<Longrightarrow> a \<in> set (ai_proposal_audits (fold (perform E) calls db))"
  by (induction calls arbitrary: db) (auto intro: audit_kept perform_step perform_inv)

text \<open>
  (C24) A message is accepted once: after a proposal has been accepted, another one with the same
  message identifier or with the same idempotency key is never accepted, at any later time, and
  leaves the database unchanged.
\<close>

theorem message_accepted_once:
  assumes "reachable E db" and acc: "append_ai_proposal E rid checked received v db = (Inr s, db')"
    and same: "env_message_id w = env_message_id v \<or> env_idempotency_key w = env_idempotency_key v"
  shows "\<not> is_ok (fst (append_ai_proposal E rid' checked' received' w (fold (perform E) calls db')))
     \<and> snd (append_ai_proposal E rid' checked' received' w (fold (perform E) calls db')) = fold (perform E) calls db'"
proof -
  let ?db = "fold (perform E) calls db'"
  have inv: "repo_inv E db" using assms(1) by (rule reachable_repo_inv)
  have inv': "repo_inv E db'" using keepsD [OF append_ai_proposal_keeps inv acc] .
  have inv2: "repo_inv E ?db" using inv' by (rule run_inv)
  have "\<exists>a \<in> set (ai_proposal_audits db'). a_message_id a = env_message_id v \<and> a_idempotency_key a = env_idempotency_key v"
    by (rule append_ai_proposal_success [OF inv acc]) simp
  then obtain a where "a \<in> set (ai_proposal_audits db')" "a_message_id a = env_message_id v" "a_idempotency_key a = env_idempotency_key v"
    by blast
  then have a: "a \<in> set (ai_proposal_audits ?db)" "a_message_id a = env_message_id v" "a_idempotency_key a = env_idempotency_key v"
    using run_audit_kept [OF inv'] by auto
  have refused: "r = Inl e" if "append_ai_proposal E rid' checked' received' w ?db = (r, db2)" "r = Inr x \<or> r = Inl e" for r db2 x e
  proof (rule ccontr)
    assume "r \<noteq> Inl e"
    then have "append_ai_proposal E rid' checked' received' w ?db = (Inr x, db2)" using that by simp
    then have "\<forall>y \<in> set (ai_proposal_audits ?db). a_message_id y \<noteq> env_message_id w \<and> a_idempotency_key y \<noteq> env_idempotency_key w"
      by (rule append_ai_proposal_success [OF inv2])
    with a same show False by auto
  qed
  obtain r db2 where eq: "append_ai_proposal E rid' checked' received' w ?db = (r, db2)" by fastforce
  then obtain e where r: "r = Inl e" using refused by (cases r) auto
  then have "db2 = ?db"
    using eq by (auto simp: append_ai_proposal_def Let_def split: sum.splits dest: transact_error_unchanged)
  with eq r show ?thesis by (simp add: is_ok_iff)
qed

theorem message_accepted_once_witness:
  "\<exists>s db'. append_ai_proposal example_extern 5 0 6 example_envelope example_db = (Inr s, db')
     \<and> snd (append_ai_proposal example_extern 7 0 8 example_envelope db') = db'"
proof -
  have "is_ok (fst (append_ai_proposal example_extern 5 0 6 example_envelope example_db))" by code_simp
  then obtain s db' where acc: "append_ai_proposal example_extern 5 0 6 example_envelope example_db = (Inr s, db')"
    by (metis is_ok_iff prod.collapse)
  with message_accepted_once [OF example_db_reachable acc, of example_envelope 7 0 8 "[]"] show ?thesis by auto
qed

section \<open>Root slugs and categories\<close>

definition example_capital_draft :: db where
  "example_capital_draft = example_site_db\<lparr>
     documents := [draft_row 2 20 1 (lit ''News'') 3],
     revisions := [revision_row_of (first_revision example_extern 2 1 (example_new\<lparr>new_slug := lit ''News''\<rparr>) 3) None],
     revision_categories := [\<lparr>p_revision_id = 1, p_document_id = 2, p_site_id = 20, p_category_id = None,
        p_assigned_by_user_id = None, p_assigned_at = 3\<rparr>]\<rparr>"

definition example_capital_db :: db where
  "example_capital_db = example_capital_draft\<lparr>
     categories := [\<lparr>c_id = 40, c_site_id = 20, c_slug = lit ''news'', c_title = lit ''News'', c_description = None,
        c_theme_profile = None, c_status = CategoryActive, c_created_by_user_id = 10, c_created_at = 5, c_updated_at = 5\<rparr>]\<rparr>"


end
