(* ===== verification/Store_Reads.thy ===== *)
theory Store_Reads
  imports Store_Admin
begin

text \<open>
  The remaining reads of the SQLite repository: the public entry points over the loads of the
  other theories, the paged metadata lists, the lists of a category, the home feed and the
  export of a site.
\<close>

section \<open>Entry points\<close>

definition get_user_by_id :: "db \<Rightarrow> uuid \<Rightarrow> RepositoryError + UserRecord" where
  "get_user_by_id db i = load_user_by_id db i"

definition list_sites :: "db \<Rightarrow> nat \<Rightarrow> SiteRecord list" where
  "list_sites db limit = load_sites db None limit"

definition get_site_by_id :: "db \<Rightarrow> uuid \<Rightarrow> RepositoryError + SiteRecord" where
  "get_site_by_id db i = load_site_by_id db i None"

definition list_owned_sites :: "db \<Rightarrow> uuid \<Rightarrow> nat \<Rightarrow> SiteRecord list" where
  "list_owned_sites db owner limit = load_sites db (Some owner) limit"

definition get_owned_site :: "db \<Rightarrow> uuid \<Rightarrow> uuid \<Rightarrow> RepositoryError + SiteRecord" where
  "get_owned_site db owner site = load_site_by_id db site (Some owner)"

definition get_site_membership :: "db \<Rightarrow> uuid \<Rightarrow> uuid \<Rightarrow> RepositoryError + SiteMembershipRecord" where
  "get_site_membership db user site = load_site_membership db site user"

definition owns_site :: "db \<Rightarrow> uuid \<Rightarrow> uuid \<Rightarrow> bool" where
  "owns_site db user site = owns_site_in_connection db user site"

definition get_admin_control_plane :: "db \<Rightarrow> RepositoryError + AdminControlPlaneRecord" where
  "get_admin_control_plane db = load_admin_control_plane db"

definition get_category_by_id :: "db \<Rightarrow> uuid \<Rightarrow> uuid \<Rightarrow> RepositoryError + CategoryRecord" where
  "get_category_by_id db site category = load_category_by_id db site category"

definition list_series :: "db \<Rightarrow> uuid \<Rightarrow> bool \<Rightarrow> nat \<Rightarrow> RepositoryError + SeriesRecord list" where
  "list_series db site include_archived limit =
     and_then (ensure_site_exists db site) (\<lambda>_. Inr (list_series_with_connection db site include_archived limit))"

definition get_series_by_id :: "db \<Rightarrow> uuid \<Rightarrow> uuid \<Rightarrow> RepositoryError + SeriesRecord" where
  "get_series_by_id db site i = load_series_by_id db site i"

definition get_series_by_slug :: "db \<Rightarrow> uuid \<Rightarrow> rstr \<Rightarrow> RepositoryError + SeriesRecord" where
  "get_series_by_slug db site slug =
     and_then (normalize_category_slug slug) (\<lambda>slug. load_series_by_slug db site slug)"

definition get_series_by_category_id :: "db \<Rightarrow> uuid \<Rightarrow> uuid \<Rightarrow> RepositoryError + SeriesRecord" where
  "get_series_by_category_id db site category = load_series_by_category_id db site category"

definition get_revision_category_placement ::
  "db \<Rightarrow> uuid \<Rightarrow> uuid \<Rightarrow> uuid \<Rightarrow> RepositoryError + RevisionCategoryPlacement" where
  "get_revision_category_placement db site document revision =
     and_then (ensure_document_in_site db site document) (\<lambda>_.
       load_revision_category_placement db site document revision)"

definition get_current_category :: "db \<Rightarrow> uuid \<Rightarrow> uuid \<Rightarrow> RepositoryError + CategoryRecord option" where
  "get_current_category db site document = load_document_category db site document SelectCurrent"

definition get_published_category :: "db \<Rightarrow> uuid \<Rightarrow> uuid \<Rightarrow> RepositoryError + CategoryRecord option" where
  "get_published_category db site document = load_document_category db site document SelectPublished"

definition list_documents_in_owned_site ::
  "db \<Rightarrow> uuid \<Rightarrow> uuid \<Rightarrow> nat \<Rightarrow> RepositoryError + DocumentSnapshot list" where
  "list_documents_in_owned_site db owner site limit =
     and_then (ensure_site_owner db owner site) (\<lambda>_.
       list_documents_with_selector db (Some site) limit SelectCurrent)"

definition list_documents_in_writable_site ::
  "db \<Rightarrow> uuid \<Rightarrow> uuid \<Rightarrow> nat \<Rightarrow> RepositoryError + DocumentSnapshot list" where
  "list_documents_in_writable_site db actor site limit =
     and_then (ensure_site_writer db actor site) (\<lambda>_.
       list_documents_with_selector db (Some site) limit SelectCurrent)"

definition list_published_across_sites :: "db \<Rightarrow> nat \<Rightarrow> RepositoryError + DocumentSnapshot list" where
  "list_published_across_sites db limit = list_documents_with_selector db None limit SelectPublished"

definition get_published_document_by_id :: "db \<Rightarrow> uuid \<Rightarrow> RepositoryError + DocumentSnapshot" where
  "get_published_document_by_id db document = load_document db document SelectPublished"

definition list_home_pins :: "db \<Rightarrow> HomePinRecord list" where
  "list_home_pins db = load_home_pins db"

section \<open>Metadata pages\<close>

definition page_parameter :: "nat \<Rightarrow> RepositoryError + nat" where
  "page_parameter value =
     (if value \<ge> 2 ^ 63 then Inl (Validation ''pagination offset or limit is too large'') else Inr value)"

definition page :: "nat \<Rightarrow> nat \<Rightarrow> 'a list \<Rightarrow> RepositoryError + 'a list" where
  "page limit offset rows =
     and_then (page_parameter limit) (\<lambda>limit.
     and_then (page_parameter offset) (\<lambda>offset.
       Inr (take limit (drop offset rows))))"

record SiteMetadataRecord =
  sm_id :: uuid
  sm_handle :: rstr
  sm_title :: rstr
  sm_created_at :: instant
  sm_updated_at :: instant

definition list_site_metadata_page :: "db \<Rightarrow> nat \<Rightarrow> nat \<Rightarrow> RepositoryError + SiteMetadataRecord list" where
  "list_site_metadata_page db offset limit =
     page limit offset (map (\<lambda>s. \<lparr>sm_id = st_id s, sm_handle = st_handle s, sm_title = st_title s,
         sm_created_at = st_created_at s, sm_updated_at = st_updated_at s\<rparr>)
       (order_by_desc (\<lambda>s. (st_created_at s, uint (st_id s))) (sites db)))"

record CategoryMetadataRecord =
  cmd_id :: uuid
  cmd_site_id :: uuid
  cmd_slug :: rstr
  cmd_title :: rstr
  cmd_status :: CategoryStatus
  cmd_created_at :: instant
  cmd_updated_at :: instant

definition list_category_metadata_page ::
  "db \<Rightarrow> uuid \<Rightarrow> bool \<Rightarrow> nat \<Rightarrow> nat \<Rightarrow> RepositoryError + CategoryMetadataRecord list" where
  "list_category_metadata_page db site include_archived offset limit =
     and_then (ensure_site_exists db site) (\<lambda>_.
       page limit offset (map (\<lambda>c. \<lparr>cmd_id = c_id c, cmd_site_id = c_site_id c, cmd_slug = c_slug c,
           cmd_title = c_title c, cmd_status = c_status c, cmd_created_at = c_created_at c,
           cmd_updated_at = c_updated_at c\<rparr>)
         (order_by category_sort_key
           (filter (\<lambda>c. c_site_id c = site \<and> (include_archived \<or> c_status c = CategoryActive)) (categories db)))))"

record CurrentDocumentMetadataRecord =
  dm_id :: uuid
  dm_site_id :: uuid
  dm_status :: DocumentStatus
  dm_current_revision_id :: uuid
  dm_published_revision_id :: "uuid option"
  dm_title :: rstr
  dm_slug :: rstr
  dm_revision_number :: nat
  dm_category_id :: "uuid option"
  dm_created_at :: instant
  dm_updated_at :: instant

text \<open>
  The join of a document with its current revision and placement. The title is read from the
  stored snapshot by \<open>json_extract\<close>; a revision number below zero does not convert to \<open>u64\<close>.
\<close>

definition json_title :: "json \<Rightarrow> rstr option" where
  "json_title j =
     (case j of
        JObj members \<Rightarrow> (case field_values (lit ''title'') members of JStr title # _ \<Rightarrow> Some title | _ \<Rightarrow> None)
      | _ \<Rightarrow> None)"

definition current_joins :: "db \<Rightarrow> (document_row \<times> revision_row \<times> RevisionCategoryPlacement) list" where
  "current_joins db =
     concat (map (\<lambda>d. concat (map (\<lambda>r. map (\<lambda>p. (d, r, p))
       (filter (\<lambda>p. p_revision_id p = d_current_revision_id d \<and> p_document_id p = d_id d \<and> p_site_id p = d_site_id d)
         (revision_categories db)))
       (filter (\<lambda>r. r_id r = d_current_revision_id d \<and> r_document_id r = d_id d) (revisions db)))) (documents db))"

definition current_metadata ::
  "document_row \<times> revision_row \<times> RevisionCategoryPlacement \<Rightarrow> RepositoryError + CurrentDocumentMetadataRecord" where
  "current_metadata j = (case j of (d, r, p) \<Rightarrow>
     and_then (ok_or (Storage ''Invalid column type Null'') (json_title (r_snapshot_json r))) (\<lambda>title.
     and_then (reject_if (r_revision_number r < 0) (Storage ''out of range integral type conversion attempted'')) (\<lambda>_.
       Inr \<lparr>dm_id = d_id d, dm_site_id = d_site_id d, dm_status = d_status d,
            dm_current_revision_id = d_current_revision_id d, dm_published_revision_id = d_published_revision_id d,
            dm_title = title, dm_slug = r_slug r, dm_revision_number = nat (r_revision_number r),
            dm_category_id = p_category_id p, dm_created_at = d_created_at d, dm_updated_at = d_updated_at d\<rparr>)))"

definition list_current_document_metadata_page ::
  "db \<Rightarrow> uuid \<Rightarrow> uuid option \<Rightarrow> nat \<Rightarrow> nat \<Rightarrow> RepositoryError + CurrentDocumentMetadataRecord list" where
  "list_current_document_metadata_page db site category offset limit =
     and_then (ensure_site_exists db site) (\<lambda>_.
     and_then (case category of None \<Rightarrow> Inr () | Some c \<Rightarrow> ensure_category_in_site db site c) (\<lambda>_.
     and_then (page limit offset
         (order_by_desc (\<lambda>(d, r, p). (d_updated_at d, uint (d_id d)))
           (filter (\<lambda>(d, r, p). d_site_id d = site \<and> p_category_id p = category) (current_joins db)))) (\<lambda>rows.
       collect_results current_metadata rows)))"

record RevisionMetadataRecord =
  rm_id :: uuid
  rm_document_id :: uuid
  rm_revision_number :: nat
  rm_slug :: rstr
  rm_created_at :: instant

definition revision_metadata :: "revision_row \<Rightarrow> RepositoryError + RevisionMetadataRecord" where
  "revision_metadata r =
     and_then (reject_if (r_revision_number r < 0) (Storage ''out of range integral type conversion attempted'')) (\<lambda>_.
       Inr \<lparr>rm_id = r_id r, rm_document_id = r_document_id r, rm_revision_number = nat (r_revision_number r),
            rm_slug = r_slug r, rm_created_at = r_created_at r\<rparr>)"

definition list_revision_metadata_page ::
  "db \<Rightarrow> uuid \<Rightarrow> nat \<Rightarrow> nat \<Rightarrow> RepositoryError + RevisionMetadataRecord list" where
  "list_revision_metadata_page db document offset limit =
     and_then (ensure_document_exists db document) (\<lambda>_.
     and_then (page limit offset
         (order_by_desc r_revision_number (filter (\<lambda>r. r_document_id r = document) (revisions db)))) (\<lambda>rows.
       collect_results revision_metadata rows))"

section \<open>Documents of a category\<close>

datatype CategoryPostOrder = NewestFirst | OldestFirst

definition published_category_documents :: "db \<Rightarrow> uuid \<Rightarrow> uuid \<Rightarrow> document_row list" where
  "published_category_documents db site category =
     filter (\<lambda>d. d_site_id d = site \<and> published_in_category db category d \<and> join_published db d \<noteq> None) (documents db)"

definition list_published_in_category_with_connection ::
  "db \<Rightarrow> uuid \<Rightarrow> uuid \<Rightarrow> nat \<Rightarrow> CategoryPostOrder \<Rightarrow> RepositoryError + DocumentSnapshot list" where
  "list_published_in_category_with_connection db site category limit order =
     (let rows = published_category_documents db site category;
          sorted_rows = (case order of
              NewestFirst \<Rightarrow> order_by_desc
                (\<lambda>d. (case join_published db d of None \<Rightarrow> 0 | Some r \<Rightarrow> r_created_at r, uint (d_id d))) rows
            | OldestFirst \<Rightarrow> order_by (\<lambda>d. (d_created_at d, uint (d_id d))) rows) in
      collect_results (\<lambda>d. load_document db (d_id d) SelectPublished) (take (min limit 500) sorted_rows))"

definition list_published_in_category ::
  "db \<Rightarrow> uuid \<Rightarrow> uuid \<Rightarrow> nat \<Rightarrow> RepositoryError + DocumentSnapshot list" where
  "list_published_in_category db site category limit =
     and_then (load_category_by_id db site category) (\<lambda>_.
       list_published_in_category_with_connection db site category limit NewestFirst)"

section \<open>The home feed\<close>

record HomeCategorySectionRecords =
  hc_category :: CategoryRecord
  hc_items :: "DocumentSnapshot list"

record HomeSeriesSectionRecords =
  hs_series :: SeriesRecord
  hs_items :: "DocumentSnapshot list"

record HomeFeedRecords =
  feed_pinned :: "DocumentSnapshot list"
  feed_recent :: "DocumentSnapshot list"
  feed_category_sections :: "HomeCategorySectionRecords list"
  feed_series_sections :: "HomeSeriesSectionRecords list"

fun pinned_documents :: "db \<Rightarrow> HomePinRecord list \<Rightarrow> RepositoryError + DocumentSnapshot list" where
  "pinned_documents db [] = Inr []"
| "pinned_documents db (pin # pins) =
     (case load_document db (pin_document_id pin) SelectPublished of
        Inr document \<Rightarrow>
          and_then (pinned_documents db pins) (\<lambda>later.
            Inr (if doc_status document \<noteq> Archived then document # later else later))
      | Inl e \<Rightarrow> if e = NotFound then pinned_documents db pins else Inl e)"

text \<open>
  The sections share a budget of documents: a section takes what is left of it, an empty section
  is dropped, and an exhausted budget ends the loop.
\<close>

fun home_sections ::
  "('c \<Rightarrow> nat \<Rightarrow> RepositoryError + DocumentSnapshot list) \<Rightarrow> uuid list \<Rightarrow> nat \<Rightarrow> 'c list \<Rightarrow>
   RepositoryError + ('c \<times> DocumentSnapshot list) list \<times> nat" where
  "home_sections fetch pinned remaining [] = Inr ([], remaining)"
| "home_sections fetch pinned remaining (c # later) =
     (if remaining = 0 then Inr ([], remaining)
      else and_then (fetch c (min (remaining + card (set pinned)) 500)) (\<lambda>documents.
        let items = take remaining (filter (\<lambda>d. doc_id d \<notin> set pinned) documents) in
        if items = [] then home_sections fetch pinned remaining later
        else and_then (home_sections fetch pinned (remaining - length items) later) (\<lambda>(sections, rest).
          Inr ((c, items) # sections, rest))))"

definition home_categories :: "db \<Rightarrow> uuid \<Rightarrow> CategoryRecord list" where
  "home_categories db site =
     take 500 (order_by (\<lambda>c. (c_created_at c, uint (c_id c)))
       (filter (\<lambda>c. c_site_id c = site \<and> c_status c = CategoryActive
          \<and> \<not> exists_where (\<lambda>s. s_site_id s = c_site_id c \<and> s_category_id s = c_id c) (series db)) (categories db)))"

definition home_feed :: "db \<Rightarrow> uuid \<Rightarrow> nat \<Rightarrow> RepositoryError + HomeFeedRecords" where
  "home_feed db site recent_limit =
     and_then (load_site_by_id db site None) (\<lambda>_.
     and_then (pinned_documents db (load_home_pins db)) (\<lambda>pinned.
     let pinned_ids = map doc_id pinned in
     and_then (list_documents_with_selector db None (min (recent_limit + card (set pinned_ids)) 500) SelectPublished) (\<lambda>newest.
     let recent = take (min recent_limit 500) (filter (\<lambda>d. doc_id d \<notin> set pinned_ids) newest) in
     and_then (home_sections (\<lambda>s. list_published_in_series_with_connection db site (sr_id s)) pinned_ids
        (min recent_limit 500) (list_series_with_connection db site False 500)) (\<lambda>(series_sections, remaining).
     and_then (home_sections (\<lambda>c limit. list_published_in_category_with_connection db site (c_id c) limit OldestFirst)
        pinned_ids remaining (home_categories db site)) (\<lambda>(category_sections, _).
       Inr \<lparr>feed_pinned = pinned, feed_recent = recent,
            feed_category_sections = map (\<lambda>(c, items). \<lparr>hc_category = c, hc_items = items\<rparr>) category_sections,
            feed_series_sections = map (\<lambda>(s, items). \<lparr>hs_series = s, hs_items = items\<rparr>) series_sections\<rparr>)))))"

section \<open>Export\<close>

record ExportedRoute =
  er_path :: rstr
  er_canonical :: bool
  er_created_at :: instant

record ExportedDocument =
  ed_current :: DocumentSnapshot
  ed_revisions :: "RevisionSnapshot list"
  ed_revision_category_placements :: "RevisionCategoryPlacement list"
  ed_ai_proposals :: "AiProposalAuditRecord list"
  ed_routes :: "ExportedRoute list"

record SiteExport =
  ex_schema_version :: rstr
  ex_site_id :: uuid
  ex_categories :: "CategoryRecord list"
  ex_series :: "SeriesRecord list"
  ex_series_items :: "SeriesItemRecord list"
  ex_documents :: "ExportedDocument list"

text \<open>\<open>ORDER BY series.home_position, series_id, position, document_id\<close> over the join with the series.\<close>

definition exported_series_items :: "db \<Rightarrow> uuid \<Rightarrow> SeriesItemRecord list" where
  "exported_series_items db site =
     map snd (order_by (\<lambda>(s, i). (s_home_position s, uint (i_series_id i), i_position i, uint (i_document_id i)))
       (concat (map (\<lambda>i. map (\<lambda>s. (s, i))
          (filter (\<lambda>s. s_id s = i_series_id i \<and> s_site_id s = i_site_id i) (series db)))
        (filter (\<lambda>i. i_site_id i = site) (series_items db)))))"

definition export_document :: "db \<Rightarrow> uuid \<Rightarrow> uuid \<Rightarrow> RepositoryError + ExportedDocument" where
  "export_document db site document =
     and_then (load_document db document SelectCurrent) (\<lambda>current.
     and_then (collect_results (\<lambda>r. ok_or (Storage ''invalid snapshot'') (revision_from_json (r_snapshot_json r)))
        (order_by r_revision_number (filter (\<lambda>r. r_document_id r = document) (revisions db)))) (\<lambda>snapshots.
     let exported_routes = map (\<lambda>rt. \<lparr>er_path = rt_path rt, er_canonical = rt_is_canonical rt, er_created_at = rt_created_at rt\<rparr>)
           (order_by (\<lambda>rt. (rt_created_at rt, rt_path rt)) (filter (\<lambda>rt. rt_document_id rt = document) (routes db))) in
     and_then (collect_results (\<lambda>r. load_revision_category_placement db site document (rev_id r)) snapshots) (\<lambda>placements.
     and_then (load_ai_proposals db document None AuditOldestFirst) (\<lambda>proposals.
       Inr \<lparr>ed_current = current, ed_revisions = snapshots, ed_revision_category_placements = placements,
            ed_ai_proposals = proposals, ed_routes = exported_routes\<rparr>))))"

text \<open>\<open>ORDER BY created_at\<close> leaves the order of equal instants open; the model keeps the order of the table.\<close>

definition export_site :: "db \<Rightarrow> uuid \<Rightarrow> RepositoryError + SiteExport" where
  "export_site db site =
     and_then (collect_results (\<lambda>d. export_document db site (d_id d))
        (order_by d_created_at (filter (\<lambda>d. d_site_id d = site) (documents db)))) (\<lambda>exported.
       Inr \<lparr>ex_schema_version = lit ''open-soverign-blog-export/4'', ex_site_id = site,
            ex_categories = order_by (\<lambda>c. (c_created_at c, uint (c_id c))) (filter (\<lambda>c. c_site_id c = site) (categories db)),
            ex_series = list_series_with_connection db site True 500,
            ex_series_items = exported_series_items db site, ex_documents = exported\<rparr>)"

end
