(* ===== verification/Blog.thy ===== *)
theory Blog
  imports Content_Types "HOL-Library.Sublist"
begin

text \<open>
  What the content repository is to its clients, without tables: documents with a growing
  history of revisions and at most one published revision, and public paths that lead to
  documents. The interface of a repository is a locale; its laws say that the implementation
  simulates this specification and that its public lookup is the one specified here. What
  clients rely on is proved from the laws.
\<close>

section \<open>The specification\<close>

record blog_document =
  bd_site :: uuid
  bd_history :: "RevisionSnapshot list"
  bd_published :: "uuid option"

record blog =
  blog_documents :: "uuid \<Rightarrow> blog_document option"
  blog_paths :: "uuid \<times> rstr \<Rightarrow> uuid option"

definition empty_blog :: blog where
  "empty_blog = \<lparr>blog_documents = (\<lambda>_. None), blog_paths = (\<lambda>_. None)\<rparr>"

text \<open>The flag says whether the step may publish.\<close>

inductive blog_step :: "bool \<Rightarrow> blog \<Rightarrow> blog \<Rightarrow> bool" for allow where
  stutter: "blog_step allow B B"
| create: "blog_documents B i = None \<Longrightarrow> rev_document_id s = i \<Longrightarrow> rev_revision_number s = 1 \<Longrightarrow>
     rev_parent_revision_id s = None \<Longrightarrow>
     blog_step allow B (B\<lparr>blog_documents := (blog_documents B)(i \<mapsto>
        \<lparr>bd_site = site, bd_history = [s], bd_published = None\<rparr>)\<rparr>)"
| append: "blog_documents B i = Some b \<Longrightarrow> rev_document_id s = i \<Longrightarrow>
     rev_parent_revision_id s = Some (rev_id (last (bd_history b))) \<Longrightarrow>
     rev_revision_number s = rev_revision_number (last (bd_history b)) + 1 \<Longrightarrow>
     rev_id s \<notin> rev_id ` set (bd_history b) \<Longrightarrow>
     blog_step allow B (B\<lparr>blog_documents := (blog_documents B)(i \<mapsto> b\<lparr>bd_history := bd_history b @ [s]\<rparr>)\<rparr>)"
| publish: "allow \<Longrightarrow> blog_documents B i = Some b \<Longrightarrow> rid \<in> rev_id ` set (bd_history b) \<Longrightarrow>
     blog_paths B (bd_site b, path) \<in> {None, Some i} \<Longrightarrow>
     blog_step allow B (B\<lparr>blog_documents := (blog_documents B)(i \<mapsto> b\<lparr>bd_published := Some rid\<rparr>),
        blog_paths := (blog_paths B)((bd_site b, path) \<mapsto> i)\<rparr>)"

inductive_cases blog_stepE: "blog_step allow B B'"

definition blog_lookup :: "blog \<Rightarrow> uuid \<Rightarrow> rstr \<Rightarrow> RevisionSnapshot option" where
  "blog_lookup B site path =
     (case blog_paths B (site, path) of None \<Rightarrow> None
      | Some i \<Rightarrow>
          (case blog_documents B i of None \<Rightarrow> None
           | Some b \<Rightarrow>
               (case bd_published b of None \<Rightarrow> None
                | Some rid \<Rightarrow> find (\<lambda>s. rev_id s = rid) (bd_history b))))"

section \<open>Well-formed specifications\<close>

definition blog_ok :: "blog \<Rightarrow> bool" where
  "blog_ok B \<longleftrightarrow>
     (\<forall>i b. blog_documents B i = Some b \<longrightarrow>
        bd_history b \<noteq> [] \<and> distinct (map rev_id (bd_history b)) \<and> (\<forall>s \<in> set (bd_history b). rev_document_id s = i)
        \<and> (\<forall>rid. bd_published b = Some rid \<longrightarrow> rid \<in> rev_id ` set (bd_history b)))
     \<and> (\<forall>p i. blog_paths B p = Some i \<longrightarrow>
        (\<exists>b. blog_documents B i = Some b \<and> bd_site b = fst p \<and> bd_published b \<noteq> None))"

lemma blog_step_ok: "blog_step allow B B' \<Longrightarrow> blog_ok B \<Longrightarrow> blog_ok B'"
proof (induction rule: blog_step.induct)
  case (create B i s site)
  then show ?case by (fastforce simp: blog_ok_def)
next
  case (append B i b s)
  have "bd_site b = fst p \<and> bd_published b \<noteq> None" if "blog_paths B p = Some i" for p
    using append.prems append.hyps(1) that unfolding blog_ok_def by fastforce
  with append show ?case by (auto simp: blog_ok_def)
next
  case (publish B i b rid path)
  have "bd_site b = fst p" if "blog_paths B p = Some i" for p
    using publish.prems publish.hyps(2) that unfolding blog_ok_def by fastforce
  with publish show ?case by (auto simp: blog_ok_def)
qed

text \<open>What a step keeps of a document and of a path.\<close>

lemma step_document:
  assumes "blog_step allow B B'" and "blog_documents B i = Some b"
  shows "\<exists>b'. blog_documents B' i = Some b' \<and> bd_site b' = bd_site b \<and> prefix (bd_history b) (bd_history b')
     \<and> (bd_published b \<noteq> None \<longrightarrow> bd_published b' \<noteq> None) \<and> (\<not> allow \<longrightarrow> bd_published b' = bd_published b)"
  using assms by (cases rule: blog_step.cases) auto

lemma step_path: "blog_step allow B B' \<Longrightarrow> blog_paths B p = Some i \<Longrightarrow> blog_paths B' p = Some i"
  by (erule blog_stepE) auto

lemma step_no_path: "blog_step False B B' \<Longrightarrow> blog_paths B' = blog_paths B"
  by (erule blog_stepE) auto

lemma find_append: "find p (xs @ ys) = (case find p xs of None \<Rightarrow> find p ys | Some x \<Rightarrow> Some x)"
  by (induction xs) simp_all

lemma find_map: "find p (map f xs) = map_option f (find (p \<circ> f) xs)"
  by (induction xs) simp_all

lemma find_prefix: "prefix xs ys \<Longrightarrow> find p xs = Some x \<Longrightarrow> find p ys = Some x"
  by (auto simp: prefix_def find_append)

lemma published_found:
  assumes "blog_ok B" and "blog_documents B i = Some b" and "bd_published b = Some rid"
  obtains s where "find (\<lambda>s. rev_id s = rid) (bd_history b) = Some s" "rev_id s = rid" "rev_document_id s = i"
proof -
  obtain s where "s \<in> set (bd_history b)" "rev_id s = rid" using assms unfolding blog_ok_def by fastforce
  then obtain s' where s': "find (\<lambda>s. rev_id s = rid) (bd_history b) = Some s'"
    by (cases "find (\<lambda>s. rev_id s = rid) (bd_history b)") (auto simp: find_None_iff)
  then have "s' \<in> set (bd_history b)" "rev_id s' = rid" by (auto simp: find_Some_iff)
  with s' assms show thesis by (intro that [of s']) (auto simp: blog_ok_def)
qed

lemma lookup_Some_iff:
  assumes "blog_ok B"
  shows "(\<exists>s. blog_lookup B site path = Some s) \<longleftrightarrow> blog_paths B (site, path) \<noteq> None"
proof (cases "blog_paths B (site, path)")
  case (Some i)
  then obtain b rid where b: "blog_documents B i = Some b" "bd_published b = Some rid" using assms unfolding blog_ok_def by fastforce
  with published_found [OF assms b] Some show ?thesis by (auto simp: blog_lookup_def)
qed (simp add: blog_lookup_def)

lemma lookup_document:
  "blog_ok B \<Longrightarrow> blog_lookup B site path = Some s \<Longrightarrow> blog_paths B (site, path) = Some (rev_document_id s)"
  by (auto simp: blog_lookup_def blog_ok_def find_Some_iff split: option.splits)

lemma step_lookup_quiet:
  assumes step: "blog_step False B B'" and ok: "blog_ok B"
  shows "blog_lookup B' site path = blog_lookup B site path"
proof (cases "blog_paths B (site, path)")
  case (Some i)
  then obtain b rid where b: "blog_documents B i = Some b" "bd_published b = Some rid" using ok unfolding blog_ok_def by fastforce
  obtain s where s: "find (\<lambda>s. rev_id s = rid) (bd_history b) = Some s" using published_found [OF ok b] by metis
  obtain b' where b': "blog_documents B' i = Some b'" "prefix (bd_history b) (bd_history b')" "bd_published b' = bd_published b"
    using step_document [OF step b(1)] by auto
  show ?thesis using b b' s Some find_prefix [OF b'(2) s] by (simp add: blog_lookup_def step_no_path [OF step])
qed (simp add: blog_lookup_def step_no_path [OF step])

section \<open>The interface of a repository\<close>

locale content_repository =
  fixes valid :: "'db \<Rightarrow> bool"
    and contents :: "'db \<Rightarrow> blog"
    and act :: "'call \<Rightarrow> 'db \<Rightarrow> 'db"
    and publishing :: "'call \<Rightarrow> bool"
    and look :: "'db \<Rightarrow> uuid \<Rightarrow> rstr \<Rightarrow> RevisionSnapshot option"
  assumes act_valid: "valid db \<Longrightarrow> valid (act call db)"
    and act_step: "valid db \<Longrightarrow> blog_step (publishing call) (contents db) (contents (act call db))"
    and contents_ok: "valid db \<Longrightarrow> blog_ok (contents db)"
    and look_contents: "valid db \<Longrightarrow> look db site path = blog_lookup (contents db) site path"
begin

lemma run_valid: "valid db \<Longrightarrow> valid (fold act calls db)"
  by (induction calls arbitrary: db) (auto intro: act_valid)

lemma run_path:
  "valid db \<Longrightarrow> blog_paths (contents db) p = Some i \<Longrightarrow> blog_paths (contents (fold act calls db)) p = Some i"
proof (induction calls arbitrary: db)
  case (Cons call calls)
  then show ?case using act_valid [of db call] step_path [OF act_step [of db call]] by simp
qed simp

lemma link_stays:
  assumes "valid db" and "look db site path = Some s"
  shows "\<exists>s'. look (fold act calls db) site path = Some s' \<and> rev_document_id s' = rev_document_id s"
proof -
  let ?db = "fold act calls db"
  have v: "valid ?db" using assms(1) by (rule run_valid)
  have "blog_paths (contents db) (site, path) = Some (rev_document_id s)"
    using assms by (intro lookup_document) (simp_all add: contents_ok look_contents)
  then have p: "blog_paths (contents ?db) (site, path) = Some (rev_document_id s)" using assms(1) run_path by blast
  then obtain s' where "blog_lookup (contents ?db) site path = Some s'"
    using lookup_Some_iff [OF contents_ok [OF v], of site path] by auto
  with p v show ?thesis using lookup_document [OF contents_ok [OF v]] by (auto simp: look_contents)
qed

lemma quiet_run:
  "valid db \<Longrightarrow> \<forall>call \<in> set calls. \<not> publishing call \<Longrightarrow> look (fold act calls db) site path = look db site path"
proof (induction calls arbitrary: db)
  case (Cons call calls)
  have "blog_step False (contents db) (contents (act call db))" using act_step [of db call] Cons.prems by simp
  from step_lookup_quiet [OF this contents_ok] Cons show ?case by (simp add: act_valid look_contents)
qed simp

end

end
