(* ===== verification/Store_Blog.thy ===== *)
theory Store_Blog
  imports Blog Store_Publishing
begin

text \<open>
  The content tables implement the blog of theory \<open>Blog\<close>: an abstraction function reads the
  blog off the tables, every call of a write operation is one step of the blog, and the reads
  answer what the blog says.
\<close>

section \<open>The blog in the tables\<close>

definition snapshot_of :: "revision_row \<Rightarrow> RevisionSnapshot" where
  "snapshot_of r = the (revision_from_json (r_snapshot_json r))"

definition history_rows :: "db \<Rightarrow> uuid \<Rightarrow> revision_row list" where
  "history_rows db i = order_by r_revision_number (filter (\<lambda>r. r_document_id r = i) (revisions db))"

definition document_of :: "db \<Rightarrow> document_row \<Rightarrow> blog_document" where
  "document_of db d = \<lparr>bd_site = d_site_id d, bd_history = map snapshot_of (history_rows db (d_id d)),
     bd_published = d_published_revision_id d\<rparr>"

definition blog_of :: "db \<Rightarrow> blog" where
  "blog_of db =
     \<lparr>blog_documents = (\<lambda>i. map_option (document_of db) (row_where (\<lambda>d. d_id d = i) (documents db))),
      blog_paths = (\<lambda>(site, path). map_option rt_document_id
         (row_where (\<lambda>rt. rt_site_id rt = site \<and> rt_path rt = path) (routes db)))\<rparr>"

lemma document_of_sel [simp]:
  "bd_site (document_of db d) = d_site_id d"
  "bd_history (document_of db d) = map snapshot_of (history_rows db (d_id d))"
  "bd_published (document_of db d) = d_published_revision_id d"
  by (simp_all add: document_of_def)

lemma blog_of_sel:
  "blog_documents (blog_of db) i = map_option (document_of db) (row_where (\<lambda>d. d_id d = i) (documents db))"
  "blog_paths (blog_of db) (site, path) = map_option rt_document_id
     (row_where (\<lambda>rt. rt_site_id rt = site \<and> rt_path rt = path) (routes db))"
  by (simp_all add: blog_of_def)

lemma snapshot_columns:
  assumes "snapshots_ok E db" and "r \<in> set (revisions db)"
  shows "revision_from_json (r_snapshot_json r) = Some (snapshot_of r)" "rev_id (snapshot_of r) = r_id r"
    "rev_document_id (snapshot_of r) = r_document_id r" "int (rev_revision_number (snapshot_of r)) = r_revision_number r"
    "rev_parent_revision_id (snapshot_of r) = r_parent_revision_id r"
proof -
  obtain s key where "r = revision_row_of s key"
    using assms unfolding snapshots_ok_def row_matches_snapshot_def by metis
  then show "revision_from_json (r_snapshot_json r) = Some (snapshot_of r)" "rev_id (snapshot_of r) = r_id r"
    "rev_document_id (snapshot_of r) = r_document_id r" "int (rev_revision_number (snapshot_of r)) = r_revision_number r"
    "rev_parent_revision_id (snapshot_of r) = r_parent_revision_id r"
    by (simp_all add: snapshot_of_def)
qed

lemma set_history_rows [simp]: "set (history_rows db i) = {r \<in> set (revisions db). r_document_id r = i}"
  by (auto simp: history_rows_def)

lemma history_rows_cong: "revisions db' = revisions db \<Longrightarrow> history_rows db' i = history_rows db i"
  by (simp add: history_rows_def)

lemma insort_key_snoc: "f x \<le> f y \<Longrightarrow> insort_key f x (xs @ [y]) = insort_key f x xs @ [y]"
  by (induction xs) auto

lemma sort_key_snoc: "\<forall>x \<in> set xs. f x \<le> f y \<Longrightarrow> sort_key f (xs @ [y]) = sort_key f xs @ [y]"
  by (induction xs) (auto simp: insort_key_snoc)

lemma history_rows_snoc:
  assumes "revisions db' = revisions db @ [r]"
    and "\<forall>x \<in> set (revisions db). r_document_id x = r_document_id r \<longrightarrow> r_revision_number x \<le> r_revision_number r"
  shows "history_rows db' i = history_rows db i @ (if r_document_id r = i then [r] else [])"
  using assms by (auto simp: history_rows_def order_by_def intro!: sort_key_snoc)

text \<open>The last entry of the history is the current revision.\<close>

lemma last_history:
  assumes inv: "db_inv E db" and d: "d \<in> set (documents db)"
    and c: "c \<in> set (revisions db)" "r_id c = d_current_revision_id d" "r_document_id c = d_id d"
  shows "history_rows db (d_id d) \<noteq> []" "last (history_rows db (d_id d)) = c"
proof -
  let ?h = "history_rows db (d_id d)"
  have ch: "c \<in> set ?h" using c by simp
  then show "?h \<noteq> []" by (metis empty_iff empty_set)
  then have lh: "last ?h \<in> set ?h" by (rule last_in_set)
  have "r_revision_number (last ?h) \<le> r_revision_number c"
    using inv d c lh unfolding db_inv_def numbering_ok_def by simp
  moreover have "r_revision_number c \<le> r_revision_number (last ?h)"
  proof -
    have "sorted (map r_revision_number ?h)" unfolding history_rows_def by (rule sorted_order_by)
    moreover obtain k where "k < length ?h" "?h ! k = c" using ch unfolding in_set_conv_nth by blast
    ultimately show ?thesis
      using \<open>?h \<noteq> []\<close> sorted_nth_mono [of "map r_revision_number ?h" k "length ?h - 1"] by (simp add: last_conv_nth)
  qed
  ultimately have "(r_document_id (last ?h), r_revision_number (last ?h)) = (r_document_id c, r_revision_number c)"
    using lh c by simp
  moreover have "distinct (map (\<lambda>r. (r_document_id r, r_revision_number r)) (revisions db))"
    using inv by (simp add: db_inv_def numbering_ok_def)
  ultimately show "last ?h = c" using distinct_key_eq [of "\<lambda>r. (r_document_id r, r_revision_number r)" "revisions db" "last ?h" c] lh c(1) by simp
qed

lemma document_of_row:
  "keys_ok db \<Longrightarrow> d \<in> set (documents db) \<Longrightarrow> blog_documents (blog_of db) (d_id d) = Some (document_of db d)"
  by (simp add: blog_of_sel row_where_unique keys_ok_def)

lemma blog_document_row:
  assumes "blog_documents (blog_of db) i = Some b"
  obtains d where "d \<in> set (documents db)" "d_id d = i" "b = document_of db d"
  using assms by (auto simp: blog_of_sel dest: row_where_Some)

lemma blog_of_ok:
  assumes inv: "db_inv E db"
  shows "blog_ok (blog_of db)"
  unfolding blog_ok_def
proof (intro conjI allI impI)
  have ok: "keys_ok db" "pointers_ok db" "snapshots_ok E db" "routes_ok db" "canonical_ok db"
    using inv by (simp_all add: db_inv_def)
  fix i b assume "blog_documents (blog_of db) i = Some b"
  then obtain d where d: "d \<in> set (documents db)" "d_id d = i" "b = document_of db d" by (rule blog_document_row)
  show "bd_history b \<noteq> []" using ok(2) d unfolding pointers_ok_def by (force simp flip: set_empty)
  have "distinct (map r_id (history_rows db i))"
    using ok(1) by (simp add: history_rows_def order_by_def keys_ok_def distinct_map inj_on_def)
  moreover have "map rev_id (bd_history b) = map r_id (history_rows db i)"
    using d snapshot_columns(2) [OF ok(3)] by simp
  ultimately show "distinct (map rev_id (bd_history b))" by simp
  show "\<forall>s \<in> set (bd_history b). rev_document_id s = i" using d snapshot_columns(3) [OF ok(3)] by auto
  show "rid \<in> rev_id ` set (bd_history b)" if "bd_published b = Some rid" for rid
    using ok(2) d that snapshot_columns(2) [OF ok(3)] unfolding pointers_ok_def by (fastforce simp: image_iff)
next
  have ok: "keys_ok db" "routes_ok db" "canonical_ok db" using inv by (simp_all add: db_inv_def)
  fix p i assume "blog_paths (blog_of db) p = Some i"
  then obtain rt where rt: "rt \<in> set (routes db)" "rt_site_id rt = fst p" "rt_document_id rt = i"
    by (cases p) (auto simp: blog_of_sel dest: row_where_Some)
  then obtain d where "d \<in> set (documents db)" "d_id d = i" "d_site_id d = fst p" using ok(2) unfolding routes_ok_def by metis
  moreover from this rt have "d_published_revision_id d \<noteq> None" using ok(3) unfolding canonical_ok_def by metis
  ultimately show "\<exists>b. blog_documents (blog_of db) i = Some b \<and> bd_site b = fst p \<and> bd_published b \<noteq> None"
    using document_of_row [OF ok(1)] by (metis document_of_sel(1,3))
qed

section \<open>Every call is a step of the blog\<close>

lemma blog_cong:
  assumes "documents db' = documents db" "revisions db' = revisions db" "routes db' = routes db"
  shows "blog_of db' = blog_of db"
proof -
  have "document_of db' = document_of db" using history_rows_cong [OF assms(2)] by (auto simp: document_of_def)
  then show ?thesis using assms by (simp add: blog_of_def)
qed

text \<open>An update of document rows that keeps identity, site and published revision.\<close>

lemma updated_documents:
  assumes tab: "documents db' = update_where p f (documents db)"
    and f: "\<And>x. d_id (f x) = d_id x \<and> d_site_id (f x) = d_site_id x \<and> d_published_revision_id (f x) = d_published_revision_id x"
  shows "blog_documents (blog_of db') i = map_option (document_of db') (row_where (\<lambda>d. d_id d = i) (documents db))"
proof -
  have "document_of db' (if p x then f x else x) = document_of db' x" for x by (simp add: document_of_def f)
  then have "document_of db' \<circ> (\<lambda>x. if p x then f x else x) = document_of db'" by auto
  then show ?thesis by (simp add: blog_of_sel tab row_where_update f option.map_comp)
qed

lemma created_blog_step:
  assumes inv: "db_inv E db" "db_inv E db'" and cr: "created E d r pl db db'"
  shows "blog_step allow (blog_of db) (blog_of db')"
proof -
  have tab: "documents db' = documents db @ [d]" "revisions db' = revisions db @ [r]" "routes db' = routes db"
    and new: "\<forall>x \<in> set (documents db). d_id x \<noteq> d_id d" "r_document_id r = d_id d" "d_published_revision_id d = None"
      "r_revision_number r = 1" "r_parent_revision_id r = None"
    using cr by (simp_all add: created_def)
  have none: "\<forall>x \<in> set (revisions db). r_document_id x \<noteq> d_id d"
    using inv(1) new(1) unfolding db_inv_def pointers_ok_def by metis
  have hist: "history_rows db' i = history_rows db i @ (if d_id d = i then [r] else [])" for i
    using history_rows_snoc [OF tab(2), of i] none new(2) by simp
  have fresh: "history_rows db (d_id d) = []" using none by (simp add: history_rows_def order_by_def)
  have s: "rev_id (snapshot_of r) = r_id r" "rev_document_id (snapshot_of r) = d_id d"
      "rev_revision_number (snapshot_of r) = 1" "rev_parent_revision_id (snapshot_of r) = None"
    using snapshot_columns [of E db' r] inv(2) new unfolding db_inv_def tab(2) by simp_all
  have old: "row_where (\<lambda>x. d_id x = d_id d) (documents db) = None" using new(1) by (simp add: row_where_None)
  have "blog_documents (blog_of db') i = ((blog_documents (blog_of db))(d_id d \<mapsto>
      \<lparr>bd_site = d_site_id d, bd_history = [snapshot_of r], bd_published = None\<rparr>)) i" for i
    using new hist fresh
    by (auto simp: blog_of_sel tab(1) row_where_append_fresh row_where_snoc_other document_of_def dest!: row_where_Some
        intro!: option.map_cong0)
  then have "blog_of db' = blog_of db\<lparr>blog_documents := (blog_documents (blog_of db))(d_id d \<mapsto>
      \<lparr>bd_site = d_site_id d, bd_history = [snapshot_of r], bd_published = None\<rparr>)\<rparr>"
    by (intro blog.equality) (auto simp: blog_of_sel tab(3))
  then show ?thesis using s old by (simp add: blog_step.create blog_of_sel)
qed

lemma appended_blog_step:
  assumes inv: "db_inv E db" "db_inv E db'" and ap: "appended E d r pl path now db db'"
  shows "blog_step allow (blog_of db) (blog_of db')"
proof -
  note tab = appended_tables [OF ap]
  have ok: "keys_ok db" "snapshots_ok E db" "numbering_ok db" "snapshots_ok E db'" using inv by (simp_all add: db_inv_def)
  obtain c where c: "c \<in> set (revisions db)" "r_id c = d_current_revision_id d" "r_document_id c = d_id d"
      "r_revision_number r = r_revision_number c + 1" and par: "r_parent_revision_id r = Some (r_id c)"
    using ap by (auto simp: appended_def)
  have "\<forall>x \<in> set (revisions db). r_document_id x = r_document_id r \<longrightarrow> r_revision_number x \<le> r_revision_number r"
    using ok(3) tab(6,8) c unfolding numbering_ok_def by force
  then have hist: "history_rows db' i = history_rows db i @ (if d_id d = i then [r] else [])" for i
    using history_rows_snoc [OF tab(2)] tab(8) by simp
  have last: "last (bd_history (document_of db d)) = snapshot_of c"
    using last_history [OF inv(1) tab(6) c(1,2,3)] by (simp add: last_map)
  have s: "rev_id (snapshot_of r) = r_id r" "rev_document_id (snapshot_of r) = d_id d"
      "rev_parent_revision_id (snapshot_of r) = Some (rev_id (snapshot_of c))"
      "rev_revision_number (snapshot_of r) = rev_revision_number (snapshot_of c) + 1"
    using snapshot_columns [OF ok(4), of r] snapshot_columns [OF ok(2) c(1)] tab(8) c(4) par unfolding tab(2) by simp_all
  have new: "rev_id (snapshot_of r) \<notin> rev_id ` set (bd_history (document_of db d))"
    using tab(9) snapshot_columns(2) [OF ok(2)] s(1) by (auto simp: fresh_revision_def)
  have docs: "blog_documents (blog_of db') i = map_option (document_of db') (row_where (\<lambda>d. d_id d = i) (documents db))" for i
    using updated_documents [OF tab(1)] by (simp add: appended_document_def)
  have row: "row_where (\<lambda>x. d_id x = d_id d) (documents db) = Some d"
    using ok(1) tab(6) by (simp add: row_where_unique keys_ok_def)
  let ?b = "document_of db d"
  have "blog_documents (blog_of db') i = ((blog_documents (blog_of db))(d_id d \<mapsto>
      ?b\<lparr>bd_history := bd_history ?b @ [snapshot_of r]\<rparr>)) i" for i
    unfolding docs using row hist by (auto simp: blog_of_sel document_of_def dest!: row_where_Some intro!: option.map_cong0)
  then have "blog_of db' = blog_of db\<lparr>blog_documents := (blog_documents (blog_of db))(d_id d \<mapsto>
      ?b\<lparr>bd_history := bd_history ?b @ [snapshot_of r]\<rparr>)\<rparr>"
    by (intro blog.equality) (auto simp: blog_of_sel tab(4))
  then show ?thesis
    using blog_step.append [OF document_of_row [OF ok(1) tab(6)] s(2) _ _ new] s last by simp
qed

lemma moved_blog:
  assumes mv: "moved d cat actor path now db db'"
  shows "blog_of db' = blog_of db"
proof -
  have tab: "revisions db' = revisions db" "routes db' = routes db"
    "documents db' = update_where
         (\<lambda>x. d_id x = d_id d \<and> d_site_id x = d_site_id d \<and> d_current_revision_id x = d_current_revision_id d)
         (\<lambda>x. x\<lparr>d_current_slug := path, d_updated_at := now\<rparr>) (documents db)"
    using mv by (simp_all add: moved_def)
  have "document_of db' = document_of db" using history_rows_cong [OF tab(1)] by (auto simp: document_of_def)
  then show ?thesis
    using updated_documents [OF tab(3)] by (intro blog.equality) (auto simp: blog_of_sel tab(2))
qed

lemma published_paths:
  assumes free: "path_free db site i path"
  shows "map_option rt_document_id (row_where (\<lambda>rt. rt_site_id rt = s \<and> rt_path rt = q)
       (route_published site path i now (routes db)))
     = (if (s, q) = (site, path) then Some i
        else map_option rt_document_id (row_where (\<lambda>rt. rt_site_id rt = s \<and> rt_path rt = q) (routes db)))"
  (is "_ = ?rhs")
proof -
  let ?p = "\<lambda>rt. rt_site_id rt = s \<and> rt_path rt = q"
  have old: "row_where ?p (map (reroute site path i) (routes db)) = map_option (reroute site path i) (row_where ?p (routes db))"
    unfolding row_where_def find_map by (simp add: o_def)
  show ?thesis
  proof (cases "row_where ?p (routes db)")
    case None
    then have "\<forall>rt \<in> set (routes db). \<not> ?p rt" by (simp add: row_where_None)
    with None old show ?thesis
      unfolding route_published_def row_where_def by (auto simp: find_append)
  next
    case (Some rt)
    then show ?thesis using old row_where_Some [OF Some] free
      by (auto simp: route_published_def row_where_def find_append path_free_def)
  qed
qed

lemma published_blog_step:
  assumes inv: "db_inv E db" and pub: "published_as d r path now db db'" and allow
  shows "blog_step allow (blog_of db) (blog_of db')"
proof -
  note tab = published_tables [OF pub]
  have ok: "keys_ok db" "snapshots_ok E db" using inv by (simp_all add: db_inv_def)
  have d: "d \<in> set (documents db)" "r \<in> set (revisions db)" "r_document_id r = d_id d"
    and free: "path_free db (d_site_id d) (d_id d) path" using pub by (auto simp: published_as_def)
  have row: "row_where (\<lambda>x. d_id x = d_id d) (documents db) = Some d"
    using ok(1) d(1) by (simp add: row_where_unique keys_ok_def)
  have hist: "history_rows db' i = history_rows db i" for i using tab(2) by (rule history_rows_cong)
  let ?b = "document_of db d"
  have rid: "r_id r \<in> rev_id ` set (bd_history ?b)"
    using d snapshot_columns(2) [OF ok(2) d(2)] by (force simp: image_iff)
  have upd: "row_where (\<lambda>x. d_id x = i) (documents db') =
      map_option (\<lambda>x. if d_id x = d_id d then published_document (r_id r) now x else x) (row_where (\<lambda>x. d_id x = i) (documents db))" for i
    unfolding tab(1) by (rule row_where_update) (simp add: published_document_def)
  have docs: "blog_documents (blog_of db') i = ((blog_documents (blog_of db))(d_id d \<mapsto> ?b\<lparr>bd_published := Some (r_id r)\<rparr>)) i" for i
    using row hist by (auto simp: upd blog_of_sel document_of_def published_document_def option.map_comp o_def
        dest!: row_where_Some intro!: option.map_cong)
  have "blog_paths (blog_of db') p = ((blog_paths (blog_of db))((d_site_id d, path) \<mapsto> d_id d)) p" for p
    using published_paths [OF free] by (cases p) (simp add: blog_of_sel tab(4))
  with docs have "blog_of db' = blog_of db\<lparr>blog_documents := (blog_documents (blog_of db))(d_id d \<mapsto> ?b\<lparr>bd_published := Some (r_id r)\<rparr>),
      blog_paths := (blog_paths (blog_of db))((bd_site ?b, path) \<mapsto> d_id d)\<rparr>"
    by (intro blog.equality) auto
  moreover have "blog_paths (blog_of db) (bd_site ?b, path) \<in> {None, Some (d_id d)}"
    using free by (cases "row_where (\<lambda>rt. rt_site_id rt = d_site_id d \<and> rt_path rt = path) (routes db)")
      (auto simp: blog_of_sel path_free_def dest!: row_where_Some)
  ultimately show ?thesis using blog_step.publish [OF \<open>allow\<close> document_of_row [OF ok(1) d(1)] rid] by simp
qed

lemma content_step_blog:
  assumes inv: "db_inv E db" "db_inv E db'" and "content_step E allow db db'"
  shows "blog_step allow (blog_of db) (blog_of db')"
  using assms(3)
proof cases
  case idle
  then have "blog_of db' = blog_of db" by (intro blog_cong) (auto simp: same_content_def)
  then show ?thesis by (simp add: blog_step.stutter)
next
  case (create d r pl)
  then show ?thesis by (rule created_blog_step [OF inv])
next
  case (append d r pl path now)
  then show ?thesis by (rule appended_blog_step [OF inv])
next
  case (propose d r pl path now db1 a)
  have "db_inv E db1" using propose inv(2) by simp
  from appended_blog_step [OF inv(1) this propose(1)] propose show ?thesis
    using blog_cong [of db' db1] by simp
next
  case (move d cat actor path now)
  then show ?thesis using moved_blog blog_step.stutter by metis
next
  case (publish d r path now)
  then show ?thesis by (intro published_blog_step [OF inv(1)])
qed

section \<open>The reads\<close>

lemma stored_snapshot:
  "snapshots_ok E db \<Longrightarrow> r \<in> set (revisions db) \<Longrightarrow> r_snapshot_json r = revision_to_json (snapshot_of r)"
  unfolding snapshots_ok_def row_matches_snapshot_def snapshot_of_def by (metis option.sel revision_codec revision_row_of_sel(6))

text \<open>The published revision of a row is the one the history holds under its identifier.\<close>

lemma published_in_history:
  assumes inv: "repo_inv E db" and d: "d \<in> set (documents db)" "d_published_revision_id d = Some rid"
  obtains r where "published_row db (d_id d) = Some r" "r \<in> set (revisions db)"
    "find (\<lambda>s. rev_id s = rid) (bd_history (document_of db d)) = Some (snapshot_of r)"
proof -
  have ok: "keys_ok db" "pointers_ok db" "snapshots_ok E db" "status_ok db" using inv by (simp_all add: repo_inv_def db_inv_def)
  obtain r where r: "r \<in> set (revisions db)" "r_id r = rid" "r_document_id r = d_id d"
    using ok(2) d unfolding pointers_ok_def by metis
  have "row_where (\<lambda>x. Some (r_id x) = d_published_revision_id d \<and> r_document_id x = d_id d) (revisions db) = Some r"
    by (rule row_where_unique_and [where key = r_id]) (use ok(1) r d in \<open>auto simp: keys_ok_def\<close>)
  moreover have "d_status d \<noteq> Archived" using ok(4) d by (simp add: status_ok_def)
  ultimately have "published_row db (d_id d) = Some r"
    using d document_row [OF ok(1) d(1)] by (simp add: published_row_def selected_revision_def)
  moreover have "distinct (map r_id (history_rows db (d_id d)))"
    using ok(1) by (simp add: history_rows_def order_by_def keys_ok_def distinct_map inj_on_def)
  then have "find (\<lambda>x. r_id x = rid) (history_rows db (d_id d)) = Some r"
    using row_where_unique [of r_id "history_rows db (d_id d)" r] r by (simp add: row_where_def)
  then have "find (\<lambda>s. rev_id s = rid) (bd_history (document_of db d)) = Some (snapshot_of r)"
    using find_cong [OF refl, of "history_rows db (d_id d)" "\<lambda>x. rev_id (snapshot_of x) = rid" "\<lambda>x. r_id x = rid"]
      snapshot_columns(2) [OF ok(3)] by (simp add: find_map o_def)
  ultimately show thesis using r(1) that by blast
qed

lemma published_revision_blog:
  assumes inv: "repo_inv E db"
  shows "published_revision db site path =
     (case blog_lookup (blog_of db) site path of None \<Rightarrow> Inl NotFound | Some s \<Rightarrow> Inr s)"
proof -
  have ok: "keys_ok db" "snapshots_ok E db" "routes_ok db" "canonical_ok db" using inv by (simp_all add: repo_inv_def db_inv_def)
  show ?thesis
  proof (cases "row_where (\<lambda>rt. rt_site_id rt = site \<and> rt_path rt = path) (routes db)")
    case None
    then show ?thesis by (simp add: published_revision_eq [OF ok(3)] blog_lookup_def blog_of_sel)
  next
    case (Some rt)
    then have rt: "rt \<in> set (routes db)" using row_where_Some by metis
    then obtain d where d: "d \<in> set (documents db)" "d_id d = rt_document_id rt" using ok(3) unfolding routes_ok_def by metis
    then obtain rid where rid: "d_published_revision_id d = Some rid" using rt ok(4) unfolding canonical_ok_def by (metis option.exhaust)
    obtain r where r: "published_row db (d_id d) = Some r" "r \<in> set (revisions db)"
        "find (\<lambda>s. rev_id s = rid) (bd_history (document_of db d)) = Some (snapshot_of r)"
      using published_in_history [OF inv d(1) rid] .
    have "blog_lookup (blog_of db) site path = Some (snapshot_of r)"
      using Some r(3) rid document_of_row [OF ok(1) d(1)] d(2) by (simp add: blog_lookup_def blog_of_sel(2))
    then show ?thesis
      using Some r d(2) snapshot_columns(1) [OF ok(2) r(2)] by (simp add: published_revision_eq [OF ok(3)])
  qed
qed

definition public_lookup :: "db \<Rightarrow> uuid \<Rightarrow> rstr \<Rightarrow> RevisionSnapshot option" where
  "public_lookup db site path = (case published_revision db site path of Inl _ \<Rightarrow> None | Inr s \<Rightarrow> Some s)"

lemma public_lookup_Some: "public_lookup db site path = Some s \<longleftrightarrow> published_revision db site path = Inr s"
  by (simp add: public_lookup_def split: sum.splits)

interpretation repository: content_repository "repo_inv E" blog_of "perform E" publishes public_lookup for E
proof
  fix db call assume inv: "repo_inv E db"
  then show kept: "repo_inv E (perform E call db)" by (rule perform_inv)
  show "blog_step (publishes call) (blog_of db) (blog_of (perform E call db))"
    using inv kept perform_step [OF inv] by (intro content_step_blog [where E = E]) (simp_all add: repo_inv_def)
  show "blog_ok (blog_of db)" using inv by (intro blog_of_ok [where E = E]) (simp add: repo_inv_def)
  show "public_lookup db site path = blog_lookup (blog_of db) site path" for site path
    by (simp add: public_lookup_def published_revision_blog [OF inv] split: option.splits)
qed

lemma list_revisions_blog:
  assumes inv: "repo_inv E db"
  shows "list_revisions db i limit =
     (case blog_documents (blog_of db) i of None \<Rightarrow> Inl NotFound
      | Some b \<Rightarrow> Inr (take (min limit 1000) (rev (bd_history b))))"
proof (cases "row_where (\<lambda>d. d_id d = i) (documents db)")
  case None
  then have "\<not> exists_where (\<lambda>d. d_id d = i) (documents db)" by (simp add: row_where_None exists_where_iff)
  with None show ?thesis by (simp add: list_revisions_def ensure_document_exists_def blog_of_sel reject_if_def)
next
  case (Some d)
  have ok: "snapshots_ok E db" using inv by (simp add: repo_inv_def db_inv_def)
  have rows: "order_by_desc r_revision_number (filter (\<lambda>r. r_document_id r = i) (revisions db)) = rev (history_rows db i)"
    by (simp add: history_rows_def order_by_desc_def order_by_def)
  have "collect_results (\<lambda>r. ok_or (Storage ''invalid snapshot'') (revision_from_json (r_snapshot_json r)))
      (take n (rev (history_rows db i))) = Inr (map snapshot_of (take n (rev (history_rows db i))))" for n
    by (rule collect_results_all_ok) (use snapshot_columns(1) [OF ok] in \<open>auto dest!: in_set_takeD\<close>)
  moreover have "exists_where (\<lambda>d. d_id d = i) (documents db)" "d_id d = i" using row_where_Some [OF Some] by (auto simp: exists_where_iff)
  ultimately show ?thesis
    using Some by (simp add: list_revisions_def ensure_document_exists_def blog_of_sel rows reject_if_def take_map rev_map)
qed

lemma get_document_blog:
  assumes inv: "repo_inv E db"
  shows "and_then (get_document db i) (\<lambda>snap. Inr (doc_site_id snap, doc_published_revision_id snap, doc_revision snap)) =
     (case blog_documents (blog_of db) i of None \<Rightarrow> Inl NotFound
      | Some b \<Rightarrow> Inr (bd_site b, bd_published b, last (bd_history b)))"
proof (cases "row_where (\<lambda>d. d_id d = i) (documents db)")
  case None
  then show ?thesis by (simp add: get_document_def load_document_def blog_of_sel)
next
  case (Some d)
  then have d: "d \<in> set (documents db)" "d_id d = i" using row_where_Some [OF Some] by simp_all
  have ok: "db_inv E db" "snapshots_ok E db" "pointers_ok db" using inv by (simp_all add: repo_inv_def db_inv_def)
  obtain c where c: "c \<in> set (revisions db)" "r_id c = d_current_revision_id d" "r_document_id c = d_id d"
    using ok(3) d(1) unfolding pointers_ok_def by metis
  show ?thesis
    using load_current [OF inv d(1) c stored_snapshot [OF ok(2) c(1)]] last_history [OF ok(1) d(1) c] Some d(2)
    by (simp add: get_document_def blog_of_sel last_map)
qed

section \<open>Properties\<close>

text \<open>
  (C4) The content repository refines the blog: the empty database is the empty blog, and on
  every reachable database every call, failed calls included, is one step of the blog, where
  only publishing calls may publish; documents are created with one revision, revisions are
  appended with the next number and the last revision as parent, and a published revision is
  one of the history.
\<close>

theorem repository_refines_blog:
  assumes "reachable E db"
  shows "blog_of empty_db = empty_blog \<and> blog_ok (blog_of db)
     \<and> blog_step (publishes call) (blog_of db) (blog_of (perform E call db))"
proof (intro conjI)
  show "blog_of empty_db = empty_blog"
    by (auto simp: blog_of_def empty_blog_def empty_db_def row_where_def)
  show "blog_ok (blog_of db)" by (rule repository.contents_ok [OF reachable_repo_inv [OF assms]])
  show "blog_step (publishes call) (blog_of db) (blog_of (perform E call db))"
    by (rule repository.act_step [OF reachable_repo_inv [OF assms]])
qed

theorem repository_refines_blog_witness:
  "blog_step True (blog_of example_db) (blog_of (perform example_extern (PublishRevision 2 1 4) example_db))"
  using repository_refines_blog [OF example_db_reachable, of "PublishRevision 2 1 4"] by (simp add: publishes_def)

text \<open>
  (C5) The reads answer what the blog holds: the public lookup is the lookup of the blog, the
  list of revisions is its history from the newest, and the document read carries the site, the
  published revision and the last revision of the history. Each answers \<open>NotFound\<close> exactly
  where the blog has nothing; no other error is possible.
\<close>

theorem reads_agree_with_blog:
  assumes "reachable E db"
  shows "published_revision db site path =
       (case blog_lookup (blog_of db) site path of None \<Rightarrow> Inl NotFound | Some s \<Rightarrow> Inr s)
     \<and> list_revisions db i limit =
       (case blog_documents (blog_of db) i of None \<Rightarrow> Inl NotFound
        | Some b \<Rightarrow> Inr (take (min limit 1000) (rev (bd_history b))))
     \<and> and_then (get_document db i) (\<lambda>snap. Inr (doc_site_id snap, doc_published_revision_id snap, doc_revision snap)) =
       (case blog_documents (blog_of db) i of None \<Rightarrow> Inl NotFound
        | Some b \<Rightarrow> Inr (bd_site b, bd_published b, last (bd_history b)))"
  using reachable_repo_inv [OF assms] by (intro conjI published_revision_blog list_revisions_blog get_document_blog)

theorem reads_agree_with_blog_witness:
  "published_revision example_published_db 20 (lit ''first'') =
     (case blog_lookup (blog_of example_published_db) 20 (lit ''first'') of None \<Rightarrow> Inl NotFound | Some s \<Rightarrow> Inr s)"
  using reads_agree_with_blog [OF example_published_reachable] by blast

text \<open>
  (C6) Links never break: a path that shows a document to visitors shows a published revision
  of the same document after any further calls, in any order.
\<close>

theorem links_never_break:
  assumes "reachable E db" and "published_revision db site path = Inr s"
  shows "\<exists>s'. published_revision (fold (perform E) calls db) site path = Inr s' \<and> rev_document_id s' = rev_document_id s"
  using repository.link_stays [OF reachable_repo_inv [OF assms(1)]] assms(2) by (simp add: public_lookup_Some)

theorem links_never_break_witness:
  "\<exists>s'. published_revision (fold (perform example_extern) [AppendRevision 5 6 example_draft_revision, PublishRevision 2 5 7]
      example_published_db) 20 (lit ''first'') = Inr s' \<and> rev_document_id s' = 2"
proof -
  have "case published_revision example_published_db 20 (lit ''first'') of Inl e \<Rightarrow> False | Inr s \<Rightarrow> rev_document_id s = 2"
    by code_simp
  then obtain s where "published_revision example_published_db 20 (lit ''first'') = Inr s" "rev_document_id s = 2"
    by (auto split: sum.splits)
  with links_never_break [OF example_published_reachable] show ?thesis by metis
qed

end
