(* ===== verification/Store_Export.thy ===== *)
theory Store_Export
  imports Store_Reads Store_Blog
begin

text \<open>
  The export of a site: it succeeds on every reachable database and loses nothing of the blog,
  of the category placements and of the accepted proposals.
\<close>

section \<open>The audit table reads back\<close>

definition audits_ok :: "db \<Rightarrow> bool" where
  "audits_ok db \<longleftrightarrow> (\<forall>a \<in> set (ai_proposal_audits db). audit_readable a)"

lemma audits_ok_step: "content_step E allow db db' \<Longrightarrow> audits_ok db \<Longrightarrow> audits_ok db'"
  by (erule content_stepE) (auto simp: audits_ok_def same_content_def effect_defs)

lemma reachable_audits_ok: "reachable E db \<Longrightarrow> audits_ok db"
proof (induction rule: reachable.induct)
  case reachable_init
  show ?case by (simp add: audits_ok_def empty_db_def)
next
  case (reachable_call db call)
  then show ?case using audits_ok_step [OF perform_step [OF reachable_repo_inv]] by blast
qed

definition read_audit :: "uuid \<Rightarrow> ai_audit_row \<Rightarrow> AiProposalAuditRecord" where
  "read_audit document a = projr (parse_audit_row document a)"

lemma audit_row_reads:
  "audit_readable a \<Longrightarrow> a_document_id a = i \<Longrightarrow> parse_audit_row i a = Inr (read_audit i a)"
  by (auto simp: audit_readable_def read_audit_def)

lemma read_audit_revision:
  "audit_readable a \<Longrightarrow> a_document_id a = i \<Longrightarrow>
   audit_accepted_revision_id (read_audit i a) = a_accepted_revision_id a
     \<and> envelope_from_json (a_envelope_json a) = Some (audit_envelope (read_audit i a))"
  by (auto simp: audit_readable_def read_audit_def parse_audit_row_def and_then_eq_Inr ok_or_eq_Inr reject_if_eq_Inr)

definition exported_audits :: "db \<Rightarrow> uuid \<Rightarrow> AiProposalAuditRecord list" where
  "exported_audits db i = map (read_audit i)
     (order_by (\<lambda>a. (a_received_at a, uint (a_accepted_revision_id a))) (filter (\<lambda>a. a_document_id a = i) (ai_proposal_audits db)))"

lemma load_all_proposals:
  assumes "audits_ok db"
  shows "load_ai_proposals db i None AuditOldestFirst = Inr (exported_audits db i)"
  unfolding load_ai_proposals_def exported_audits_def Let_def option.case AuditOrder.case
  by (rule collect_results_all_ok) (use assms in \<open>auto simp: audits_ok_def intro!: audit_row_reads\<close>)

lemma set_exported_audits:
  assumes "audits_ok db"
  shows "(\<lambda>r. (audit_accepted_revision_id r, Some (audit_envelope r))) ` set (exported_audits db i) =
     (\<lambda>a. (a_accepted_revision_id a, envelope_from_json (a_envelope_json a))) ` {a \<in> set (ai_proposal_audits db). a_document_id a = i}"
  using assms read_audit_revision unfolding audits_ok_def by (fastforce simp: exported_audits_def image_iff)

section \<open>One document\<close>

definition placement_of :: "db \<Rightarrow> uuid \<Rightarrow> RevisionCategoryPlacement" where
  "placement_of db rid = the (row_where (\<lambda>p. p_revision_id p = rid) (revision_categories db))"

lemma placement_loads:
  assumes inv: "repo_inv E db" and d: "d \<in> set (documents db)"
    and r: "r \<in> set (revisions db)" "r_document_id r = d_id d"
  shows "load_revision_category_placement db (d_site_id d) (d_id d) (r_id r) = Inr (placement_of db (r_id r))"
    "p_revision_id (placement_of db (r_id r)) = r_id r" "placement_of db (r_id r) \<in> set (revision_categories db)"
proof -
  have ok: "keys_ok db" "placements_ok db" using inv by (simp_all add: repo_inv_def db_inv_def)
  obtain p where p: "p \<in> set (revision_categories db)" "p_revision_id p = r_id r" "p_document_id p = d_id d"
    using ok(2) r unfolding placements_ok_def by metis
  then obtain d' where "d' \<in> set (documents db)" "d_id d' = d_id d" "d_site_id d' = p_site_id p"
    using ok(2) unfolding placements_ok_def by metis
  then have site: "p_site_id p = d_site_id d" using same_document [OF ok(1) d] by metis
  have dist: "distinct (map p_revision_id (revision_categories db))" using ok(1) by (simp add: keys_ok_def)
  have "row_where (\<lambda>x. p_revision_id x = r_id r) (revision_categories db) = Some p"
    using row_where_unique [OF dist p(1)] p(2) by simp
  moreover have "row_where (\<lambda>x. p_revision_id x = r_id r \<and> p_document_id x = d_id d \<and> p_site_id x = d_site_id d)
      (revision_categories db) = Some p"
    by (rule row_where_unique_and [OF dist p(1)]) (use p site in auto)
  ultimately show "load_revision_category_placement db (d_site_id d) (d_id d) (r_id r) = Inr (placement_of db (r_id r))"
    "p_revision_id (placement_of db (r_id r)) = r_id r" "placement_of db (r_id r) \<in> set (revision_categories db)"
    using p by (simp_all add: load_revision_category_placement_def placement_of_def)
qed

definition exported_routes :: "db \<Rightarrow> uuid \<Rightarrow> ExportedRoute list" where
  "exported_routes db i = map (\<lambda>rt. \<lparr>er_path = rt_path rt, er_canonical = rt_is_canonical rt, er_created_at = rt_created_at rt\<rparr>)
     (order_by (\<lambda>rt. (rt_created_at rt, rt_path rt)) (filter (\<lambda>rt. rt_document_id rt = i) (routes db)))"

definition faithful_export :: "db \<Rightarrow> ExportedDocument \<Rightarrow> bool" where
  "faithful_export db ed \<longleftrightarrow>
     (\<exists>b. blog_documents (blog_of db) (doc_id (ed_current ed)) = Some b
        \<and> doc_site_id (ed_current ed) = bd_site b \<and> doc_published_revision_id (ed_current ed) = bd_published b
        \<and> doc_revision (ed_current ed) = last (bd_history b) \<and> ed_revisions ed = bd_history b
        \<and> map p_revision_id (ed_revision_category_placements ed) = map rev_id (bd_history b)
        \<and> set (ed_revision_category_placements ed) \<subseteq> set (revision_categories db)
        \<and> (\<forall>path. path \<in> er_path ` set (ed_routes ed) \<longleftrightarrow>
             blog_paths (blog_of db) (bd_site b, path) = Some (doc_id (ed_current ed)))
        \<and> (\<lambda>r. (audit_accepted_revision_id r, Some (audit_envelope r))) ` set (ed_ai_proposals ed) =
             (\<lambda>a. (a_accepted_revision_id a, envelope_from_json (a_envelope_json a)))
               ` {a \<in> set (ai_proposal_audits db). a_document_id a = doc_id (ed_current ed)})"

lemma exported_paths:
  assumes inv: "repo_inv E db" and d: "d \<in> set (documents db)"
  shows "path \<in> er_path ` set (exported_routes db (d_id d)) \<longleftrightarrow> blog_paths (blog_of db) (d_site_id d, path) = Some (d_id d)"
proof -
  have ok: "keys_ok db" "routes_ok db" using inv by (simp_all add: repo_inv_def db_inv_def)
  have site: "rt_site_id rt = d_site_id d" if "rt \<in> set (routes db)" "rt_document_id rt = d_id d" for rt
    using that ok d same_document [OF ok(1)] unfolding routes_ok_def by metis
  have row: "row_where (\<lambda>x. rt_site_id x = rt_site_id rt \<and> rt_path x = rt_path rt) (routes db) = Some rt"
    if "rt \<in> set (routes db)" for rt
    by (rule row_where_unique_and [where key = "\<lambda>x. (rt_site_id x, rt_path x)"]) (use ok(1) that in \<open>auto simp: keys_ok_def\<close>)
  have "path \<in> er_path ` set (exported_routes db (d_id d)) \<longleftrightarrow> (\<exists>rt \<in> set (routes db). rt_document_id rt = d_id d \<and> rt_path rt = path)"
    by (force simp: exported_routes_def image_iff)
  also have "\<dots> \<longleftrightarrow> blog_paths (blog_of db) (d_site_id d, path) = Some (d_id d)"
  proof
    assume "\<exists>rt \<in> set (routes db). rt_document_id rt = d_id d \<and> rt_path rt = path"
    then obtain rt where "rt \<in> set (routes db)" "rt_document_id rt = d_id d" "rt_path rt = path" by blast
    then show "blog_paths (blog_of db) (d_site_id d, path) = Some (d_id d)" using row [of rt] site [of rt] by (simp add: blog_of_sel)
  qed (auto simp: blog_of_sel dest!: row_where_Some)
  finally show ?thesis .
qed

lemma export_document_faithful:
  assumes inv: "repo_inv E db" and audits: "audits_ok db" and d: "d \<in> set (documents db)"
  shows "\<exists>ed. export_document db (d_site_id d) (d_id d) = Inr ed \<and> doc_id (ed_current ed) = d_id d \<and> faithful_export db ed"
proof -
  have ok: "keys_ok db" "snapshots_ok E db" using inv by (simp_all add: repo_inv_def db_inv_def)
  let ?i = "d_id d" and ?h = "history_rows db (d_id d)"
  have doc: "blog_documents (blog_of db) ?i = Some (document_of db d)" using document_of_row [OF ok(1) d] .
  obtain current where cur: "get_document db ?i = Inr current" "doc_site_id current = d_site_id d"
      "doc_published_revision_id current = d_published_revision_id d" "doc_revision current = last (map snapshot_of ?h)"
    using get_document_blog [OF inv, of ?i] doc by (auto simp: and_then_eq_Inr)
  have id: "doc_id current = ?i" using cur(1)
    by (auto simp: get_document_def load_document_def and_then_eq_Inr)
  have snaps: "collect_results (\<lambda>r. ok_or (Storage ''invalid snapshot'') (revision_from_json (r_snapshot_json r))) ?h
      = Inr (map snapshot_of ?h)"
    by (rule collect_results_all_ok) (use snapshot_columns(1) [OF ok(2)] in auto)
  have "collect_results (\<lambda>s. load_revision_category_placement db (d_site_id d) ?i (rev_id s)) (map snapshot_of ?h)
      = Inr (map (\<lambda>s. placement_of db (rev_id s)) (map snapshot_of ?h))"
    by (rule collect_results_all_ok) (use snapshot_columns(2) [OF ok(2)] placement_loads(1) [OF inv d] in auto)
  moreover have "map p_revision_id (map (\<lambda>s. placement_of db (rev_id s)) (map snapshot_of ?h)) = map rev_id (map snapshot_of ?h)"
    "set (map (\<lambda>s. placement_of db (rev_id s)) (map snapshot_of ?h)) \<subseteq> set (revision_categories db)"
    using snapshot_columns(2) [OF ok(2)] placement_loads(2,3) [OF inv d] by auto
  ultimately show ?thesis
    using cur id doc snaps exported_paths [OF inv d] set_exported_audits [OF audits]
    by (simp add: export_document_def get_document_def history_rows_def [symmetric] Let_def load_all_proposals [OF audits]
        faithful_export_def exported_routes_def [symmetric])
qed

section \<open>The site\<close>

lemma collect_results_exists:
  "(\<And>x. x \<in> set xs \<Longrightarrow> \<exists>y. f x = Inr y \<and> P x y) \<Longrightarrow> \<exists>ys. collect_results f xs = Inr ys \<and> list_all2 P xs ys"
  by (induction xs) force+

text \<open>
  (C7) The export of a site succeeds on every reachable database and is complete: it carries each
  document of the site once, with its site, published revision and current revision, its whole
  history in order, one category placement for every revision, exactly the public paths that
  lead to it and every accepted proposal with the envelope as it was received; and it carries
  every category of the site.
\<close>

theorem export_is_complete:
  assumes "reachable E db"
  shows "\<exists>ex. export_site db site = Inr ex \<and> ex_site_id ex = site
     \<and> distinct (map (\<lambda>ed. doc_id (ed_current ed)) (ex_documents ex))
     \<and> set (map (\<lambda>ed. doc_id (ed_current ed)) (ex_documents ex)) = d_id ` {d \<in> set (documents db). d_site_id d = site}
     \<and> (\<forall>ed \<in> set (ex_documents ex). faithful_export db ed)
     \<and> set (ex_categories ex) = {c \<in> set (categories db). c_site_id c = site}"
proof -
  have inv: "repo_inv E db" and audits: "audits_ok db" using assms by (rule reachable_repo_inv, rule reachable_audits_ok)
  let ?ds = "order_by d_created_at (filter (\<lambda>d. d_site_id d = site) (documents db))"
  obtain eds where eds: "collect_results (\<lambda>d. export_document db site (d_id d)) ?ds = Inr eds"
      "list_all2 (\<lambda>d ed. doc_id (ed_current ed) = d_id d \<and> faithful_export db ed) ?ds eds"
    using collect_results_exists [of ?ds "\<lambda>d. export_document db site (d_id d)"
        "\<lambda>d ed. doc_id (ed_current ed) = d_id d \<and> faithful_export db ed"] export_document_faithful [OF inv audits] by auto
  have ids: "map (\<lambda>ed. doc_id (ed_current ed)) eds = map d_id ?ds"
    using eds(2) by (auto simp: list_all2_conv_all_nth intro: nth_equalityI)
  have "distinct (map d_id ?ds)"
    using inv by (simp add: repo_inv_def db_inv_def keys_ok_def order_by_def distinct_map inj_on_def)
  moreover have "\<forall>ed \<in> set eds. faithful_export db ed"
    using eds(2) by (auto simp: list_all2_conv_all_nth in_set_conv_nth)
  moreover have "set (map (\<lambda>ed. doc_id (ed_current ed)) eds) = d_id ` {d \<in> set (documents db). d_site_id d = site}"
    unfolding ids by simp
  ultimately show ?thesis using eds(1) by (simp add: export_site_def ids del: set_map)
qed

theorem export_is_complete_witness:
  "\<exists>ex. export_site example_published_db 20 = Inr ex \<and> map (\<lambda>ed. doc_id (ed_current ed)) (ex_documents ex) \<noteq> []"
proof -
  have "d_id ` {d \<in> set (documents example_published_db). d_site_id d = 20} \<noteq> {}"
    by (simp add: example_published_db_def published_document_def draft_row_def)
  then show ?thesis using export_is_complete [OF example_published_reachable, of 20] by (metis empty_set)
qed

end
