(* ===== verification/Store_Home.thy ===== *)
theory Store_Home
  imports Store_Reads Store_Publishing
begin

text \<open>
  The home feed: it can always be computed, shows only what visitors may read, repeats no pinned
  document and stays within its limit.
\<close>

section \<open>Lists of published documents\<close>

definition shown :: "db \<Rightarrow> DocumentSnapshot \<Rightarrow> bool" where
  "shown db x \<longleftrightarrow> load_document db (doc_id x) SelectPublished = Inr x"

lemma loaded_shown: "load_document db i SelectPublished = Inr x \<Longrightarrow> shown db x \<and> doc_id x = i"
  by (auto simp: shown_def load_document_def and_then_eq_Inr)

lemma published_loads:
  assumes inv: "repo_inv E db" and d: "d \<in> set (documents db)" "d_published_revision_id d \<noteq> None"
  shows "\<exists>x. load_document db (d_id d) SelectPublished = Inr x"
proof -
  have ok: "pointers_ok db" "snapshots_ok E db" using inv by (simp_all add: repo_inv_def db_inv_def)
  obtain r where r: "r \<in> set (revisions db)" "r_document_id r = d_id d" "d_published_revision_id d = Some (r_id r)"
    using ok(1) d unfolding pointers_ok_def by (metis option.exhaust)
  obtain s where "r_snapshot_json r = revision_to_json s"
    using ok(2) r(1) unfolding snapshots_ok_def row_matches_snapshot_def by (metis revision_row_of_sel(6))
  then show ?thesis using load_published [OF inv d(1) r(3,1,2)] by blast
qed

lemma load_published_cases:
  assumes inv: "repo_inv E db"
  shows "load_document db i SelectPublished = Inl NotFound \<or> (\<exists>x. load_document db i SelectPublished = Inr x)"
proof (cases "row_where (\<lambda>d. d_id d = i) (documents db)")
  case None
  then show ?thesis by (simp add: load_document_def)
next
  case (Some d)
  then have d: "d \<in> set (documents db)" "d_id d = i" using row_where_Some [OF Some] by simp_all
  show ?thesis
  proof (cases "d_published_revision_id d = None")
    case True
    then show ?thesis using Some by (simp add: load_document_def selected_revision_def)
  next
    case False
    then show ?thesis using published_loads [OF inv d(1)] d(2) by simp
  qed
qed

lemma collect_shown:
  assumes "\<And>y. y \<in> set ys \<Longrightarrow> \<exists>x. load_document db (f y) SelectPublished = Inr x"
  shows "\<exists>xs. collect_results (\<lambda>y. load_document db (f y) SelectPublished) ys = Inr xs \<and> (\<forall>x \<in> set xs. shown db x)"
  using assms
proof (induction ys)
  case (Cons y ys)
  obtain x where "load_document db (f y) SelectPublished = Inr x" using Cons.prems [of y] by auto
  with Cons loaded_shown show ?case by fastforce
qed simp

section \<open>The lists of the feed\<close>

lemma newest_shown:
  assumes inv: "repo_inv E db"
  shows "\<exists>xs. list_documents_with_selector db site limit SelectPublished = Inr xs \<and> (\<forall>x \<in> set xs. shown db x)"
  unfolding list_documents_with_selector_def Let_def RevisionSelector.case
  by (rule collect_shown) (use published_loads [OF inv] in \<open>auto dest!: in_set_takeD\<close>)

lemma category_shown:
  assumes inv: "repo_inv E db"
  shows "\<exists>xs. list_published_in_category_with_connection db site category limit order = Inr xs \<and> (\<forall>x \<in> set xs. shown db x)"
  unfolding list_published_in_category_with_connection_def Let_def
  by (rule collect_shown)
    (use published_loads [OF inv] in \<open>auto simp: published_category_documents_def published_in_category_def
      dest!: in_set_takeD split: CategoryPostOrder.splits\<close>)

lemma series_shown:
  assumes inv: "repo_inv E db"
  shows "\<exists>xs. list_published_in_series_with_connection db site i limit = Inr xs \<and> (\<forall>x \<in> set xs. shown db x)"
  unfolding list_published_in_series_with_connection_def list_published_series_items_with_connection_def
  by (rule collect_shown)
    (use published_loads [OF inv] in \<open>fastforce simp: published_series_item_def exists_where_iff dest!: in_set_takeD\<close>)

lemma pinned_shown:
  assumes inv: "repo_inv E db"
  shows "\<exists>xs. pinned_documents db pins = Inr xs \<and> (\<forall>x \<in> set xs. shown db x)"
proof (induction pins)
  case (Cons pin pins)
  then obtain xs where xs: "pinned_documents db pins = Inr xs" "\<forall>x \<in> set xs. shown db x" by blast
  show ?case using load_published_cases [OF inv, of "pin_document_id pin"]
  proof
    assume "\<exists>x. load_document db (pin_document_id pin) SelectPublished = Inr x"
    then show ?case using xs loaded_shown by fastforce
  qed (use xs in simp)
qed simp

definition section_size :: "('c \<times> DocumentSnapshot list) list \<Rightarrow> nat" where
  "section_size sections = sum_list (map (\<lambda>(_, items). length items) sections)"

definition sections_ok :: "db \<Rightarrow> uuid list \<Rightarrow> ('c \<times> DocumentSnapshot list) list \<Rightarrow> bool" where
  "sections_ok db pinned sections \<longleftrightarrow>
     (\<forall>(c, items) \<in> set sections. items \<noteq> [] \<and> (\<forall>x \<in> set items. shown db x \<and> doc_id x \<notin> set pinned))"

lemma sections_simps [simp]:
  "sections_ok db pinned []" "section_size [] = 0"
  "sections_ok db pinned ((c, items) # sections) \<longleftrightarrow>
     items \<noteq> [] \<and> (\<forall>x \<in> set items. shown db x \<and> doc_id x \<notin> set pinned) \<and> sections_ok db pinned sections"
  "section_size ((c, items) # sections) = length items + section_size sections"
  by (simp_all add: sections_ok_def section_size_def)

lemma home_sections_ok:
  assumes fetch: "\<And>c limit. \<exists>xs. fetch c limit = Inr xs \<and> (\<forall>x \<in> set xs. shown db x)"
  obtains sections rest where "home_sections fetch pinned n cs = Inr (sections, rest)"
    "rest + section_size sections = n" "sections_ok db pinned sections"
proof (induction cs arbitrary: n thesis)
  case Nil
  then show ?case by simp
next
  case (Cons c cs)
  obtain xs where xs: "fetch c (min (n + card (set pinned)) 500) = Inr xs" "\<forall>x \<in> set xs. shown db x" using fetch by blast
  define items where "items = take n (filter (\<lambda>d. doc_id d \<notin> set pinned) xs)"
  have items: "\<forall>x \<in> set items. shown db x \<and> doc_id x \<notin> set pinned" "length items \<le> n"
    using xs(2) by (auto simp: items_def dest!: in_set_takeD)
  have step: "home_sections fetch pinned n (c # cs) =
      (if n = 0 then Inr ([], n) else if items = [] then home_sections fetch pinned n cs
       else and_then (home_sections fetch pinned (n - length items) cs) (\<lambda>(sections, rest). Inr ((c, items) # sections, rest)))"
    by (simp only: home_sections.simps xs(1) and_then_simps Let_def items_def)
  obtain sections rest where rest: "home_sections fetch pinned (n - length items) cs = Inr (sections, rest)"
    "rest + section_size sections = n - length items" "sections_ok db pinned sections" by (rule Cons.IH)
  show ?case
  proof (cases "n = 0 \<or> items = []")
    case True
    then show ?thesis using Cons.prems [of "[]" n] Cons.prems [of sections rest] step rest by (auto split: if_splits)
  next
    case False
    then show ?thesis using step rest items by (intro Cons.prems [of "(c, items) # sections" rest]) simp_all
  qed
qed

section \<open>The feed\<close>

definition section_documents :: "HomeFeedRecords \<Rightarrow> DocumentSnapshot list" where
  "section_documents feed = concat (map hs_items (feed_series_sections feed)) @ concat (map hc_items (feed_category_sections feed))"

lemma sections_ok_documents:
  assumes "sections_ok db pinned sections"
  shows "\<forall>x \<in> set (concat (map (\<lambda>(_, items). items) sections)). shown db x \<and> doc_id x \<notin> set pinned"
    "[] \<notin> set (map (\<lambda>(_, items). items) sections)"
  using assms by (induction sections) auto

lemma image_append_disjoint:
  "\<forall>x \<in> set xs. P x \<and> f x \<notin> S \<Longrightarrow> \<forall>x \<in> set ys. P x \<and> f x \<notin> S \<Longrightarrow> f ` set (xs @ ys) \<inter> S = {}"
  by auto

lemma concat_section_size:
  "length (concat (map (\<lambda>(_, items). items) sections)) = section_size sections"
  by (simp add: section_size_def length_concat o_def case_prod_unfold)

text \<open>
  (C8) The home feed of a site can be computed on every reachable database, for every limit. It
  shows only published revisions as visitors may read them; the recent list has at most the
  limit, all sections together have at most the limit, and never more than 500; no section is
  empty; and no pinned document is repeated in the recent list or in a section.
\<close>

theorem home_feed_within_limits:
  assumes "reachable E db" and site: "load_site_by_id db site None = Inr s"
  shows "\<exists>feed. home_feed db site limit = Inr feed
     \<and> (\<forall>x \<in> set (feed_pinned feed @ feed_recent feed @ section_documents feed). shown db x)
     \<and> length (feed_recent feed) \<le> min limit 500 \<and> length (section_documents feed) \<le> min limit 500
     \<and> [] \<notin> set (map hs_items (feed_series_sections feed)) \<union> set (map hc_items (feed_category_sections feed))
     \<and> doc_id ` set (feed_recent feed @ section_documents feed) \<inter> doc_id ` set (feed_pinned feed) = {}"
proof -
  have inv: "repo_inv E db" using assms(1) by (rule reachable_repo_inv)
  obtain pinned where pinned: "pinned_documents db (load_home_pins db) = Inr pinned" "\<forall>x \<in> set pinned. shown db x"
    using pinned_shown [OF inv] by blast
  let ?ids = "map doc_id pinned"
  obtain newest where newest: "list_documents_with_selector db None (min (limit + card (set ?ids)) 500) SelectPublished = Inr newest"
      "\<forall>x \<in> set newest. shown db x"
    using newest_shown [OF inv] by blast
  obtain ss rest where ss: "home_sections (\<lambda>s. list_published_in_series_with_connection db site (sr_id s)) ?ids
        (min limit 500) (list_series_with_connection db site False 500) = Inr (ss, rest)" "rest + section_size ss = min limit 500"
      "sections_ok db ?ids ss"
    by (rule home_sections_ok) (rule series_shown [OF inv])
  obtain cs rest' where cs: "home_sections (\<lambda>c limit. list_published_in_category_with_connection db site (c_id c) limit OldestFirst)
        ?ids rest (home_categories db site) = Inr (cs, rest')" "rest' + section_size cs = rest"
      "sections_ok db ?ids cs"
    by (rule home_sections_ok) (rule category_shown [OF inv])
  define feed where "feed = \<lparr>feed_pinned = pinned, feed_recent = take (min limit 500) (filter (\<lambda>d. doc_id d \<notin> set ?ids) newest),
      feed_category_sections = map (\<lambda>(c, items). \<lparr>hc_category = c, hc_items = items\<rparr>) cs,
      feed_series_sections = map (\<lambda>(s, items). \<lparr>hs_series = s, hs_items = items\<rparr>) ss\<rparr>"
  have ok: "home_feed db site limit = Inr feed"
    using site pinned(1) newest(1) ss(1) cs(1) by (simp add: home_feed_def Let_def feed_def)
  have docs: "section_documents feed = concat (map (\<lambda>(_, items). items) ss) @ concat (map (\<lambda>(_, items). items) cs)"
      "map hs_items (feed_series_sections feed) = map (\<lambda>(_, items). items) ss"
      "map hc_items (feed_category_sections feed) = map (\<lambda>(_, items). items) cs"
    by (simp_all add: feed_def section_documents_def o_def case_prod_unfold)
  have sections: "\<forall>x \<in> set (section_documents feed). shown db x \<and> doc_id x \<notin> set ?ids"
    unfolding docs set_append using sections_ok_documents(1) [OF ss(3)] sections_ok_documents(1) [OF cs(3)] by blast
  have recent: "\<forall>x \<in> set (feed_recent feed). shown db x \<and> doc_id x \<notin> set ?ids"
    using newest(2) by (auto simp: feed_def dest!: in_set_takeD)
  have pinned': "\<forall>x \<in> set (feed_pinned feed). shown db x" "set ?ids = doc_id ` set (feed_pinned feed)"
    using pinned(2) by (simp_all add: feed_def)
  show ?thesis
  proof (intro exI [of _ feed] conjI ok)
    show "\<forall>x \<in> set (feed_pinned feed @ feed_recent feed @ section_documents feed). shown db x"
      using pinned'(1) recent sections by auto
    show "length (feed_recent feed) \<le> min limit 500" unfolding feed_def by (simp add: min_def)
    show "length (section_documents feed) \<le> min limit 500"
      unfolding docs using ss(2) cs(2) by (simp only: length_append concat_section_size)
    show "[] \<notin> set (map hs_items (feed_series_sections feed)) \<union> set (map hc_items (feed_category_sections feed))"
      unfolding docs using sections_ok_documents(2) [OF ss(3)] sections_ok_documents(2) [OF cs(3)] by blast
    show "doc_id ` set (feed_recent feed @ section_documents feed) \<inter> doc_id ` set (feed_pinned feed) = {}"
      using recent sections unfolding pinned'(2) by (rule image_append_disjoint)
  qed
qed

theorem home_feed_within_limits_witness:
  "\<exists>feed. home_feed example_published_db 20 1 = Inr feed \<and> length (feed_recent feed) \<le> 1"
proof -
  have "is_ok (load_site_by_id example_published_db 20 None)" by code_simp
  then obtain s where "load_site_by_id example_published_db 20 None = Inr s" by (auto simp: is_ok_iff)
  from home_feed_within_limits [OF example_published_reachable this, of 1] show ?thesis by auto
qed

end
