(* ===== verification/Plugin_Api.thy ===== *)
theory Plugin_Api
  imports Content_Types
begin

text \<open>
  The plugin manifest of \<open>crates/plugin-api\<close>: the data a manifest declares and the checks of
  \<open>PluginManifest::validate\<close>. A manifest requests capabilities; the checks decide which requests
  a host will look at. Semantic versions, URLs and the TOML reader are third-party packages and
  parameters here.
\<close>

section \<open>Enums\<close>

datatype ProvenanceOrigin = OriginOriginal | OriginCleanRoom | OriginThirdParty

datatype PluginKind =
    AuthProvider | AuthorizationPolicy | CommentsKind | SeoKind | AdProvider | RenderExtension | AiProvider
  | AiAgentKind | AiToolKind | CodeRunnerClient | Importer | Exporter | SearchProvider | StorageProvider | Automation

datatype Capability =
    ContentRead | ContentWrite | ContentPublish | AssetsRead | AssetsWrite | OntologyRead | OntologyWrite
  | CommentsRead | CommentsWrite | CommentsModerate | AiInvoke | AiTool | RenderSlotCapability | RoutePublic
  | RouteAdmin | JobsSchedule | NetworkConnect | SecretUse | StateRead | StateWrite | CodeExecute

datatype PermissionScope = ScopePublic | ScopePublished | ScopeDrafts | ScopeOwn | ScopeSite | ScopeAll

datatype HookDelivery = DeliverSync | DeliverAsync

datatype HookFailurePolicy = FailContinue | FailRetry | FailBlock

datatype HttpMethod = GET | POST | PUT | PATCH | DELETE

datatype RouteAudience = AudiencePublic | AudienceAuthenticated | AudienceAdmin

datatype RenderOutput = OutputModel | OutputSanitizedHtml | OutputSandboxedFrame

datatype RenderCache = CacheNone | CacheRevision | CacheSite

datatype UiPanelLocation = PanelSettings | PanelEditorSidebar | PanelEditorBlock | PanelDashboard

datatype UiSandbox = SandboxIframe

text \<open>A number of \<open>serde_json\<close> is kept as the JSON value it is.\<close>

datatype MetadataValue = MetaString rstr | MetaNumber json | MetaBoolean bool | MetaNull

datatype ManifestError =
    ManifestParse rstr
  | UnsupportedVersion
  | InvalidPluginId
  | InvalidVersion
  | InvalidField string
  | DuplicateOrExcessValue string
  | MissingCapabilityResource
  | UnsafeCapabilityResource
  | InvalidRuntime
  | UnsafePath
  | InvalidLimits

section \<open>Structs\<close>

record PluginProvenance =
  pp_origin :: ProvenanceOrigin
  pp_generated :: bool
  pp_generator :: "rstr option"
  pp_source_materials :: "rstr list"
  pp_notice_files :: "rstr list"
  pp_attestation :: "rstr option"

datatype PluginRuntime =
    BuiltIn rstr rstr
  | WasiComponent rstr rstr rstr rstr
  | JsonRpcStdio rstr rstr "rstr list" rstr

record PermissionRequest =
  perm_capability :: Capability
  perm_scope :: "PermissionScope option"
  perm_resources :: "rstr list option"
  perm_reason :: "rstr option"

record Author =
  author_name :: rstr
  author_email :: "rstr option"
  author_url :: "rstr option"

datatype SchemaReference = PackagePath rstr | InlineSchema "(rstr, json) btree_map"

record PluginConfig =
  config_schema :: SchemaReference
  config_defaults :: "(rstr, json) btree_map"
  config_secret_bindings :: "rstr list"

record Hook =
  hook_event :: rstr
  hook_handler :: rstr
  hook_delivery :: HookDelivery
  hook_failure_policy :: HookFailurePolicy
  hook_priority :: int

record PluginRoute =
  route_path :: rstr
  route_methods :: "HttpMethod list"
  route_audience :: RouteAudience
  route_handler :: rstr
  route_request_schema :: "SchemaReference option"
  route_response_schema :: "SchemaReference option"

record RenderSlot =
  slot_name :: rstr
  slot_handler :: rstr
  slot_output :: RenderOutput
  slot_cache :: RenderCache

record UiPanel =
  panel_id :: rstr
  panel_location :: UiPanelLocation

record PluginUi =
  ui_sandbox :: UiSandbox
  ui_entrypoint :: rstr
  ui_sha256 :: rstr
  ui_panels :: "UiPanel list"

record StateCollection =
  coll_name :: rstr
  coll_schema :: SchemaReference
  coll_indexes :: "rstr list list"

record PluginState =
  ps_version :: nat
  ps_collections :: "StateCollection list"

record StateMigration =
  mig_id :: rstr
  mig_from :: nat
  mig_to :: nat
  mig_handler :: rstr

record PluginDependency =
  dep_id :: rstr
  dep_version :: rstr
  dep_optional :: bool

record RuntimeLimits =
  lim_timeout_ms :: "nat option"
  lim_cpu_millis :: "nat option"
  lim_memory_mib :: "nat option"
  lim_pids :: "nat option"
  lim_output_kib :: "nat option"
  lim_concurrency :: "nat option"

record PluginManifest =
  pm_schema_uri :: "rstr option"
  pm_manifest_version :: nat
  pm_id :: rstr
  pm_name :: rstr
  pm_version :: rstr
  pm_license :: rstr
  pm_provenance :: PluginProvenance
  pm_plugin_api :: rstr
  pm_kinds :: "PluginKind list"
  pm_runtime :: PluginRuntime
  pm_permissions :: "PermissionRequest list"
  pm_description :: "rstr option"
  pm_core_compatibility :: "rstr option"
  pm_authors :: "Author list"
  pm_homepage :: "rstr option"
  pm_repository :: "rstr option"
  pm_config :: "PluginConfig option"
  pm_hooks :: "Hook list"
  pm_routes :: "PluginRoute list"
  pm_render_slots :: "RenderSlot list"
  pm_ui :: "PluginUi option"
  pm_state :: "PluginState option"
  pm_migrations :: "StateMigration list"
  pm_dependencies :: "PluginDependency list"
  pm_limits :: "RuntimeLimits option"
  pm_metadata :: "(rstr, MetadataValue) btree_map"

text \<open>
  The third-party functions the crate calls: \<open>semver\<close> (\<open>Version::parse\<close>, its order,
  \<open>VersionReq::parse\<close>, \<open>matches\<close>), \<open>Url\<close> (\<open>parse\<close> of the kernel's parameters, and whether a
  reference joins to the base of the manifest), \<open>Uuid::parse_str\<close>, and the TOML reader.
\<close>

record ('v, 'r) packages =
  pk_extern :: extern
  pk_version :: "rstr \<Rightarrow> 'v option"
  pk_less :: "'v \<Rightarrow> 'v \<Rightarrow> bool"
  pk_requirement :: "rstr \<Rightarrow> 'r option"
  pk_matches :: "'r \<Rightarrow> 'v \<Rightarrow> bool"
  pk_reference_joins :: "rstr \<Rightarrow> bool"
  pk_uuid_text :: "rstr \<Rightarrow> bool"
  pk_manifest_of_toml :: "rstr \<Rightarrow> PluginManifest option"

section \<open>Names and paths\<close>

definition PLUGIN_MANIFEST_VERSION :: nat where
  "PLUGIN_MANIFEST_VERSION = 1"

definition PLUGIN_API_VERSION :: rstr where
  "PLUGIN_API_VERSION = lit ''1''"

definition all_unique :: "'a list \<Rightarrow> bool" where
  "all_unique values = list_all (\<lambda>i. values ! i \<notin> set (take i values)) [0 ..< length values]"

definition first_then :: "(nat \<Rightarrow> bool) \<Rightarrow> (nat \<Rightarrow> bool) \<Rightarrow> rstr \<Rightarrow> bool" where
  "first_then p q s = (case s of [] \<Rightarrow> True | c # r \<Rightarrow> p c \<and> list_all q r)"

definition name_byte :: "nat \<Rightarrow> bool" where
  "name_byte c \<longleftrightarrow> is_ascii_lowercase c \<or> is_ascii_digit c \<or> c = 95 \<or> c = 46 \<or> c = 45"

definition valid_label :: "rstr \<Rightarrow> bool" where
  "valid_label label \<longleftrightarrow> label \<noteq> [] \<and> byte_len label \<le> 63 \<and> hd label \<noteq> 45 \<and> last label \<noteq> 45
     \<and> list_all (\<lambda>c. is_ascii_lowercase c \<or> is_ascii_digit c \<or> c = 45) label"

definition valid_plugin_id :: "rstr \<Rightarrow> bool" where
  "valid_plugin_id value \<longleftrightarrow> length value \<le> 190 \<and> length (split_on 46 value) \<ge> 3
     \<and> list_all valid_label (split_on 46 value)"

definition valid_crate_name :: "rstr \<Rightarrow> bool" where
  "valid_crate_name value \<longleftrightarrow> value \<noteq> [] \<and> byte_len value \<le> 128
     \<and> first_then is_ascii_lowercase (\<lambda>c. is_ascii_lowercase c \<or> is_ascii_digit c \<or> c = 95 \<or> c = 45) value"

definition qualified_name :: "rstr \<Rightarrow> bool" where
  "qualified_name value \<longleftrightarrow> value \<noteq> [] \<and> byte_len value \<le> 128 \<and> first_then is_ascii_lowercase name_byte value"

definition valid_metadata_key :: "rstr \<Rightarrow> bool" where
  "valid_metadata_key value \<longleftrightarrow> value \<noteq> [] \<and> byte_len value \<le> 64 \<and> first_then is_ascii_lowercase name_byte value"

definition path_byte :: "nat \<Rightarrow> bool" where
  "path_byte c \<longleftrightarrow> is_ascii_alphanumeric c \<or> c = 46 \<or> c = 95 \<or> c = 64 \<or> c = 43 \<or> c = 45"

definition safe_relative_path :: "rstr \<Rightarrow> bool" where
  "safe_relative_path value \<longleftrightarrow> value \<noteq> [] \<and> byte_len value \<le> 512 \<and> hd value \<noteq> 47
     \<and> 92 \<notin> set value \<and> 0 \<notin> set value
     \<and> list_all (\<lambda>segment. segment \<noteq> [] \<and> segment \<noteq> lit ''..'' \<and> list_all path_byte segment) (split_on 47 value)"

definition safe_route_path :: "rstr \<Rightarrow> bool" where
  "safe_route_path value \<longleftrightarrow> value \<noteq> [] \<and> length value \<le> 256 \<and> hd value = 47
     \<and> \<not> contains_str value (lit ''//'') \<and> list_all (\<lambda>segment. segment \<noteq> lit ''..'') (split_on 47 value)
     \<and> list_all (\<lambda>c. is_ascii_alphanumeric c \<or> c = 47 \<or> c = 95 \<or> c = 46 \<or> c = 123 \<or> c = 125 \<or> c = 58 \<or> c = 45) value"

text \<open>\<open>str::rsplit_once\<close>: the text before and after the last occurrence of the pattern.\<close>

fun rsplit_once :: "rstr \<Rightarrow> rstr \<Rightarrow> (rstr \<times> rstr) option" where
  "rsplit_once pat [] = (if pat = [] then Some ([], []) else None)"
| "rsplit_once pat (x # xs) =
     (case rsplit_once pat xs of
        Some (before, after) \<Rightarrow> Some (x # before, after)
      | None \<Rightarrow> if starts_with (x # xs) pat then Some ([], drop (length pat) (x # xs)) else None)"

definition valid_hook_event :: "rstr \<Rightarrow> bool" where
  "valid_hook_event value \<longleftrightarrow> 4 \<le> byte_len value \<and> byte_len value \<le> 160
     \<and> (case rsplit_once (lit ''.v'') value of None \<Rightarrow> False
        | Some (before, version) \<Rightarrow> first_then is_ascii_lowercase name_byte before
            \<and> version \<noteq> [] \<and> hd version \<noteq> 48 \<and> list_all is_ascii_digit version)"

definition valid_sha256 :: "rstr \<Rightarrow> bool" where
  "valid_sha256 value \<longleftrightarrow> byte_len value = 64 \<and> list_all (\<lambda>c. is_ascii_digit c \<or> (97 \<le> c \<and> c \<le> 102)) value"

definition valid_email_shape :: "rstr \<Rightarrow> bool" where
  "valid_email_shape value =
     (case split_once 64 value of None \<Rightarrow> False
      | Some (local_part, domain) \<Rightarrow> local_part \<noteq> [] \<and> domain \<noteq> [] \<and> hd domain \<noteq> 46 \<and> last domain \<noteq> 46
          \<and> \<not> list_ex is_whitespace value)"

definition valid_uri_reference :: "('v, 'r, 'z) packages_scheme \<Rightarrow> rstr \<Rightarrow> bool" where
  "valid_uri_reference K value \<longleftrightarrow> value \<noteq> [] \<and> length value \<le> 2048 \<and> \<not> list_ex is_whitespace value
     \<and> pk_reference_joins K value"

definition bounded_plain_text :: "rstr \<Rightarrow> nat \<Rightarrow> nat \<Rightarrow> bool" where
  "bounded_plain_text value minimum maximum \<longleftrightarrow>
     minimum \<le> length value \<and> length value \<le> maximum \<and> 0 \<notin> set value"

definition bounded_text :: "rstr \<Rightarrow> nat \<Rightarrow> nat \<Rightarrow> string \<Rightarrow> ManifestError + unit" where
  "bounded_text value minimum maximum field =
     (if bounded_plain_text value minimum maximum then Inr () else Inl (InvalidField field))"

definition optional_bounded_text :: "rstr option \<Rightarrow> nat \<Rightarrow> nat \<Rightarrow> string \<Rightarrow> ManifestError + unit" where
  "optional_bounded_text value minimum maximum field =
     (case value of None \<Rightarrow> Inr () | Some v \<Rightarrow> bounded_text v minimum maximum field)"

definition url_ok :: "('v, 'r, 'z) packages_scheme \<Rightarrow> rstr \<Rightarrow> bool" where
  "url_ok K uri \<longleftrightarrow> url_parse (pk_extern K) uri \<noteq> None"

definition optional_absolute_uri :: "('v, 'r, 'z) packages_scheme \<Rightarrow> rstr option \<Rightarrow> nat \<Rightarrow> string \<Rightarrow> ManifestError + unit" where
  "optional_absolute_uri K value maximum field =
     (case value of None \<Rightarrow> Inr ()
      | Some uri \<Rightarrow> if length uri > maximum \<or> \<not> url_ok K uri then Inl (InvalidField field) else Inr ())"

fun check_all :: "('a \<Rightarrow> 'e + unit) \<Rightarrow> 'a list \<Rightarrow> 'e + unit" where
  "check_all check [] = Inr ()"
| "check_all check (x # xs) = and_then (check x) (\<lambda>_. check_all check xs)"

definition validate_collection :: "'a list \<Rightarrow> nat \<Rightarrow> ('a \<Rightarrow> ManifestError + unit) \<Rightarrow> string \<Rightarrow> ManifestError + unit" where
  "validate_collection values maximum check field =
     and_then (reject_if (length values > maximum \<or> \<not> all_unique values) (DuplicateOrExcessValue field)) (\<lambda>_.
       check_all check values)"

section \<open>Validation of the parts\<close>

definition validate_provenance_record :: "('v, 'r, 'z) packages_scheme \<Rightarrow> PluginProvenance \<Rightarrow> ManifestError + unit" where
  "validate_provenance_record K p =
     and_then (optional_bounded_text (pp_generator p) 0 500 ''provenance.generator'') (\<lambda>_.
     and_then (optional_bounded_text (pp_attestation p) 0 2000 ''provenance.attestation'') (\<lambda>_.
       reject_if (length (pp_source_materials p) > 64 \<or> \<not> all_unique (pp_source_materials p)
         \<or> list_ex (\<lambda>uri. length uri > 2048 \<or> \<not> url_ok K uri) (pp_source_materials p)
         \<or> length (pp_notice_files p) > 64 \<or> \<not> all_unique (pp_notice_files p)
         \<or> list_ex (\<lambda>path. \<not> safe_relative_path path) (pp_notice_files p)) (InvalidField ''provenance'')))"

fun validate_runtime :: "PluginRuntime \<Rightarrow> ManifestError + unit" where
  "validate_runtime (BuiltIn crate_name extension) =
     reject_if (\<not> valid_crate_name crate_name \<or> \<not> qualified_name extension) InvalidRuntime"
| "validate_runtime (WasiComponent abi component world sha256) =
     reject_if (abi \<noteq> lit ''wasi-component@1'' \<or> \<not> safe_relative_path component \<or> \<not> qualified_name world
       \<or> \<not> valid_sha256 sha256) InvalidRuntime"
| "validate_runtime (JsonRpcStdio abi executable arguments sha256) =
     reject_if (abi \<noteq> lit ''jsonrpc-stdio@1'' \<or> \<not> safe_relative_path executable \<or> \<not> valid_sha256 sha256
       \<or> length arguments > 64 \<or> list_ex (\<lambda>v. length v > 1024 \<or> 0 \<in> set v) arguments) InvalidRuntime"

definition requires_resources :: "Capability \<Rightarrow> bool" where
  "requires_resources c \<longleftrightarrow>
     c \<in> {RenderSlotCapability, RoutePublic, RouteAdmin, NetworkConnect, SecretUse, CodeExecute}"

definition unsafe_resource :: "rstr \<Rightarrow> bool" where
  "unsafe_resource value \<longleftrightarrow> length value > 512 \<or> value = [] \<or> 0 \<in> set value \<or> 42 \<in> set value \<or> list_ex is_whitespace value"

definition validate_permission :: "PermissionRequest \<Rightarrow> ManifestError + unit" where
  "validate_permission p =
     and_then (reject_if (requires_resources (perm_capability p)
         \<and> (case perm_resources p of None \<Rightarrow> True | Some rs \<Rightarrow> rs = [])) MissingCapabilityResource) (\<lambda>_.
     and_then (reject_if (case perm_resources p of None \<Rightarrow> False
         | Some rs \<Rightarrow> rs = [] \<or> length rs > 128 \<or> \<not> all_unique rs \<or> list_ex unsafe_resource rs) UnsafeCapabilityResource) (\<lambda>_.
       optional_bounded_text (perm_reason p) 0 1000 ''permission.reason''))"

definition validate_author :: "('v, 'r, 'z) packages_scheme \<Rightarrow> Author \<Rightarrow> ManifestError + unit" where
  "validate_author K a =
     and_then (bounded_text (author_name a) 1 200 ''author.name'') (\<lambda>_.
     and_then (reject_if (case author_email a of None \<Rightarrow> False
         | Some email \<Rightarrow> length email > 320 \<or> \<not> valid_email_shape email) (InvalidField ''author.email'')) (\<lambda>_.
       optional_absolute_uri K (author_url a) 2048 ''author.url''))"

fun validate_schema_reference :: "SchemaReference \<Rightarrow> ManifestError + unit" where
  "validate_schema_reference (PackagePath path) = (if safe_relative_path path then Inr () else Inl UnsafePath)"
| "validate_schema_reference (InlineSchema _) = Inr ()"

definition validate_config :: "PluginConfig \<Rightarrow> ManifestError + unit" where
  "validate_config c =
     and_then (validate_schema_reference (config_schema c)) (\<lambda>_.
       reject_if (length (config_secret_bindings c) > 64 \<or> \<not> all_unique (config_secret_bindings c)
         \<or> list_ex (\<lambda>b. \<not> qualified_name b) (config_secret_bindings c)) (InvalidField ''config.secretBindings''))"

definition validate_hook :: "Hook \<Rightarrow> ManifestError + unit" where
  "validate_hook h = reject_if (\<not> valid_hook_event (hook_event h) \<or> \<not> qualified_name (hook_handler h)
     \<or> \<not> (-1000 \<le> hook_priority h \<and> hook_priority h \<le> 1000)) (InvalidField ''hooks'')"

definition optional_schema :: "SchemaReference option \<Rightarrow> ManifestError + unit" where
  "optional_schema s = (case s of None \<Rightarrow> Inr () | Some schema \<Rightarrow> validate_schema_reference schema)"

definition validate_route :: "PluginRoute \<Rightarrow> ManifestError + unit" where
  "validate_route r =
     and_then (reject_if (\<not> safe_route_path (route_path r) \<or> route_methods r = [] \<or> \<not> all_unique (route_methods r)
         \<or> \<not> qualified_name (route_handler r)) (InvalidField ''routes'')) (\<lambda>_.
     and_then (optional_schema (route_request_schema r)) (\<lambda>_. optional_schema (route_response_schema r)))"

definition validate_render_slot :: "RenderSlot \<Rightarrow> ManifestError + unit" where
  "validate_render_slot s =
     reject_if (\<not> qualified_name (slot_name s) \<or> \<not> qualified_name (slot_handler s)) (InvalidField ''renderSlots'')"

definition validate_ui :: "PluginUi \<Rightarrow> ManifestError + unit" where
  "validate_ui u = reject_if (\<not> safe_relative_path (ui_entrypoint u) \<or> \<not> valid_sha256 (ui_sha256 u)
     \<or> length (ui_panels u) > 32 \<or> \<not> all_unique (ui_panels u)
     \<or> list_ex (\<lambda>p. \<not> qualified_name (panel_id p)) (ui_panels u)) (InvalidField ''ui'')"

definition validate_state_collection :: "StateCollection \<Rightarrow> ManifestError + unit" where
  "validate_state_collection c =
     and_then (reject_if (\<not> qualified_name (coll_name c) \<or> length (coll_indexes c) > 16 \<or> \<not> all_unique (coll_indexes c)
         \<or> list_ex (\<lambda>index. index = [] \<or> length index > 8 \<or> \<not> all_unique index
             \<or> list_ex (\<lambda>f. f = [] \<or> length f > 128) index) (coll_indexes c)) (InvalidField ''state.collections'')) (\<lambda>_.
       validate_schema_reference (coll_schema c))"

definition validate_state :: "PluginState \<Rightarrow> ManifestError + unit" where
  "validate_state s =
     and_then (reject_if (ps_version s = 0 \<or> length (ps_collections s) > 64 \<or> \<not> all_unique (ps_collections s))
        (InvalidField ''state'')) (\<lambda>_. check_all validate_state_collection (ps_collections s))"

definition validate_migration :: "StateMigration \<Rightarrow> ManifestError + unit" where
  "validate_migration m =
     reject_if (\<not> qualified_name (mig_id m) \<or> mig_to m = 0 \<or> \<not> qualified_name (mig_handler m)) (InvalidField ''migrations'')"

definition validate_dependency :: "('v, 'r, 'z) packages_scheme \<Rightarrow> PluginDependency \<Rightarrow> ManifestError + unit" where
  "validate_dependency K d =
     reject_if (\<not> valid_plugin_id (dep_id d) \<or> \<not> bounded_plain_text (dep_version d) 1 128
       \<or> pk_requirement K (dep_version d) = None) (InvalidField ''dependencies'')"

definition out_of_range :: "nat option \<Rightarrow> nat \<Rightarrow> bool" where
  "out_of_range value maximum \<longleftrightarrow> (case value of None \<Rightarrow> False | Some v \<Rightarrow> \<not> (1 \<le> v \<and> v \<le> maximum))"

definition validate_limits :: "RuntimeLimits \<Rightarrow> ManifestError + unit" where
  "validate_limits l = reject_if (out_of_range (lim_timeout_ms l) 3600000 \<or> out_of_range (lim_cpu_millis l) 3600000
     \<or> out_of_range (lim_memory_mib l) 65536 \<or> out_of_range (lim_pids l) 4096
     \<or> out_of_range (lim_output_kib l) 1048576 \<or> out_of_range (lim_concurrency l) 1024) InvalidLimits"

section \<open>The manifest\<close>

definition optional_check :: "('a \<Rightarrow> 'e + unit) \<Rightarrow> 'a option \<Rightarrow> 'e + unit" where
  "optional_check check value = (case value of None \<Rightarrow> Inr () | Some v \<Rightarrow> check v)"

definition validate_manifest :: "('v, 'r, 'z) packages_scheme \<Rightarrow> PluginManifest \<Rightarrow> ManifestError + unit" where
  "validate_manifest K m =
     and_then (reject_if (pm_manifest_version m \<noteq> PLUGIN_MANIFEST_VERSION \<or> pm_plugin_api m \<noteq> PLUGIN_API_VERSION)
        UnsupportedVersion) (\<lambda>_.
     and_then (reject_if (\<not> valid_plugin_id (pm_id m)) InvalidPluginId) (\<lambda>_.
     and_then (bounded_text (pm_name m) 1 100 ''name'') (\<lambda>_.
     and_then (bounded_text (pm_license m) 1 200 ''license'') (\<lambda>_.
     and_then (reject_if (pk_version K (pm_version m) = None) InvalidVersion) (\<lambda>_.
     and_then (reject_if (case pm_schema_uri m of None \<Rightarrow> False | Some uri \<Rightarrow> \<not> valid_uri_reference K uri)
        (InvalidField ''$schema'')) (\<lambda>_.
     and_then (optional_bounded_text (pm_description m) 0 2000 ''description'') (\<lambda>_.
     and_then (optional_bounded_text (pm_core_compatibility m) 1 128 ''coreCompatibility'') (\<lambda>_.
     and_then (reject_if (case pm_core_compatibility m of None \<Rightarrow> False | Some r \<Rightarrow> pk_requirement K r = None)
        (InvalidField ''coreCompatibility'')) (\<lambda>_.
     and_then (optional_absolute_uri K (pm_homepage m) 2048 ''homepage'') (\<lambda>_.
     and_then (optional_absolute_uri K (pm_repository m) 2048 ''repository'') (\<lambda>_.
     and_then (reject_if (pm_kinds m = [] \<or> length (pm_kinds m) > 16 \<or> \<not> all_unique (pm_kinds m))
        (DuplicateOrExcessValue ''kinds'')) (\<lambda>_.
     and_then (reject_if (length (pm_permissions m) > 128 \<or> \<not> all_unique (pm_permissions m))
        (DuplicateOrExcessValue ''permissions'')) (\<lambda>_.
     and_then (validate_provenance_record K (pm_provenance m)) (\<lambda>_.
     and_then (validate_runtime (pm_runtime m)) (\<lambda>_.
     and_then (check_all validate_permission (pm_permissions m)) (\<lambda>_.
     and_then (validate_collection (pm_authors m) 32 (validate_author K) ''authors'') (\<lambda>_.
     and_then (optional_check validate_config (pm_config m)) (\<lambda>_.
     and_then (validate_collection (pm_hooks m) 128 validate_hook ''hooks'') (\<lambda>_.
     and_then (validate_collection (pm_routes m) 64 validate_route ''routes'') (\<lambda>_.
     and_then (validate_collection (pm_render_slots m) 64 validate_render_slot ''renderSlots'') (\<lambda>_.
     and_then (optional_check validate_ui (pm_ui m)) (\<lambda>_.
     and_then (optional_check validate_state (pm_state m)) (\<lambda>_.
     and_then (validate_collection (pm_migrations m) 256 validate_migration ''migrations'') (\<lambda>_.
     and_then (validate_collection (pm_dependencies m) 64 (validate_dependency K) ''dependencies'') (\<lambda>_.
     and_then (optional_check validate_limits (pm_limits m)) (\<lambda>_.
       reject_if (length (entries (pm_metadata m)) > 64 \<or> list_ex (\<lambda>(k, _). \<not> valid_metadata_key k) (entries (pm_metadata m)))
         (InvalidField ''metadata'')))))))))))))))))))))))))))"

definition manifest_from_toml :: "('v, 'r, 'z) packages_scheme \<Rightarrow> rstr \<Rightarrow> ManifestError + PluginManifest" where
  "manifest_from_toml K source =
     and_then (ok_or (ManifestParse []) (pk_manifest_of_toml K source)) (\<lambda>m.
     and_then (validate_manifest K m) (\<lambda>_. Inr m))"

definition supports_core :: "('v, 'r, 'z) packages_scheme \<Rightarrow> PluginManifest \<Rightarrow> rstr \<Rightarrow> ManifestError + bool" where
  "supports_core K m core_version =
     and_then (ok_or InvalidVersion (pk_version K core_version)) (\<lambda>core.
       case pm_core_compatibility m of None \<Rightarrow> Inr True
       | Some text \<Rightarrow> and_then (ok_or (InvalidField ''coreCompatibility'') (pk_requirement K text)) (\<lambda>r.
           Inr (pk_matches K r core)))"

section \<open>Lemmas\<close>

lemma all_unique_snoc: "all_unique (xs @ [x]) \<longleftrightarrow> all_unique xs \<and> x \<notin> set xs"
  by (auto simp: all_unique_def list_all_iff nth_append)

lemma all_unique_iff_distinct: "all_unique xs \<longleftrightarrow> distinct xs"
proof (induction xs rule: rev_induct)
  case Nil
  show ?case by (simp add: all_unique_def)
next
  case (snoc x xs)
  then show ?case by (auto simp: all_unique_snoc)
qed

lemma split_on_nonempty [simp]: "split_on c s \<noteq> []"
  by (induction c s rule: split_on.induct) (auto split: list.splits)

lemma split_on_separator: "piece \<in> set (split_on c s) \<Longrightarrow> c \<notin> set piece"
  by (induction c s arbitrary: piece rule: split_on.induct) (auto split: list.splits if_splits)

fun join_with :: "nat \<Rightarrow> rstr list \<Rightarrow> rstr" where
  "join_with c [] = []"
| "join_with c [piece] = piece"
| "join_with c (piece # pieces) = piece @ c # join_with c pieces"

lemma join_split: "join_with c (split_on c s) = s"
proof (induction c s rule: split_on.induct)
  case (2 c x xs)
  then show ?case by (cases "split_on c xs"; cases "tl (split_on c xs)") (auto split: list.splits)
qed simp

lemma rsplit_once_Some: "rsplit_once pat s = Some (a, b) \<Longrightarrow> s = a @ pat @ b"
proof (induction pat s arbitrary: a rule: rsplit_once.induct)
  case (2 pat x xs)
  then show ?case by (auto simp: starts_with_iff split: option.splits prod.splits if_splits)
qed (auto split: if_splits)

lemma check_all_ok [simp]: "check_all check xs = Inr u \<longleftrightarrow> (\<forall>x \<in> set xs. check x = Inr ())"
  by (induction xs) (auto simp: and_then_eq_Inr)

end
