(* ===== verification/Installation.thy ===== *)
theory Installation
  imports Plugin_Api Wire
begin

text \<open>
  The installation contract of \<open>crates/plugin-api\<close>: the intent an operator owns, the exact lock
  the tool generates, their checks, and the digest that seals the lock. The JSON form of the
  lock is the one its serde derivations give; it reads back.
\<close>

section \<open>Data\<close>

definition INSTALL_INTENT_SCHEMA_VERSION :: rstr where
  "INSTALL_INTENT_SCHEMA_VERSION = lit ''open-soverign-blog-install/1''"

definition INSTALL_LOCK_SCHEMA_VERSION :: rstr where
  "INSTALL_LOCK_SCHEMA_VERSION = lit ''open-soverign-blog-lock/1''"

datatype InstallationAdminAuth = AuthAccessKey | AuthExternal | AuthDisabled

datatype InstallationCache = InstallCacheNone | RedisStandalone | RedisManaged

datatype InstallationStyleKind = StyleNone | StyleBuiltin | StyleCustom

datatype InstalledDlcSourceKind = SourceBundled | SourceFile | SourceHttps

datatype DlcHistoryAction = DlcInstalled | DlcEnabled | DlcDisabled | DlcUpgraded | DlcRemoved

datatype InstallContractError =
    InstallParse
  | UnsupportedSchema rstr
  | InvalidContract string
  | DigestMismatch

record InstallationStyle =
  style_kind :: InstallationStyleKind
  style_id :: "rstr option"
  style_file :: "rstr option"
  style_sha256 :: "rstr option"

record InstallationSelection =
  sel_admin_auth :: InstallationAdminAuth
  sel_style :: InstallationStyle
  sel_cache :: InstallationCache

record RequestedDlc =
  rq_id :: rstr
  rq_version :: rstr
  rq_enabled :: bool

record InstallationIntent =
  int_schema_version :: rstr
  int_installation_id :: rstr
  int_site_id :: rstr
  int_created_with :: rstr
  int_selection :: InstallationSelection
  int_dlcs :: "RequestedDlc list"

record LockedEngine =
  eng_version :: rstr
  eng_config_schema_version :: rstr
  eng_database_schema_version :: nat
  eng_plugin_api :: rstr
  eng_source :: rstr
  eng_artifact_sha256 :: "rstr option"

record InstalledDlc =
  in_id :: rstr
  in_requested_version :: rstr
  in_version :: rstr
  in_core_compatibility :: rstr
  in_manifest_version :: nat
  in_plugin_api :: rstr
  in_source_kind :: InstalledDlcSourceKind
  in_source :: rstr
  in_manifest_sha256 :: rstr
  in_artifact_sha256 :: "rstr option"
  in_enabled :: bool
  in_approved_capabilities :: "rstr list"
  in_config_sha256 :: "rstr option"
  in_state_version :: "nat option"
  in_applied_migrations :: "rstr list"

record RetainedDlcState =
  rt_id :: rstr
  rt_removed_version :: rstr
  rt_state_version :: "nat option"
  rt_applied_migrations :: "rstr list"

record DlcHistoryRecord =
  hist_sequence :: nat
  hist_action :: DlcHistoryAction
  hist_dlc_id :: rstr
  hist_from_version :: "rstr option"
  hist_to_version :: "rstr option"
  hist_engine_version :: rstr

record InstallationLock =
  lk_schema_version :: rstr
  lk_installation_id :: rstr
  lk_engine :: LockedEngine
  lk_selection :: InstallationSelection
  lk_dlcs :: "InstalledDlc list"
  lk_retained_dlcs :: "RetainedDlcState list"
  lk_history :: "DlcHistoryRecord list"
  lk_lock_digest :: rstr

section \<open>Scalars of the contract\<close>

definition validate_uuid :: "('v, 'r, 'z) packages_scheme \<Rightarrow> string \<Rightarrow> rstr \<Rightarrow> InstallContractError + unit" where
  "validate_uuid K name value = reject_if (\<not> pk_uuid_text K value) (InvalidContract name)"

definition parse_version :: "('v, 'r, 'z) packages_scheme \<Rightarrow> string \<Rightarrow> rstr \<Rightarrow> InstallContractError + 'v" where
  "parse_version K name value = ok_or (InvalidContract name) (pk_version K value)"

definition parse_requirement :: "('v, 'r, 'z) packages_scheme \<Rightarrow> string \<Rightarrow> rstr \<Rightarrow> InstallContractError + 'r" where
  "parse_requirement K name value = ok_or (InvalidContract name) (pk_requirement K value)"

definition bounded_install_text :: "rstr \<Rightarrow> nat \<Rightarrow> nat \<Rightarrow> bool" where
  "bounded_install_text value minimum maximum \<longleftrightarrow>
     minimum \<le> byte_len value \<and> byte_len value \<le> maximum \<and> trim value = value \<and> \<not> list_ex is_control value"

definition valid_style_id :: "rstr \<Rightarrow> bool" where
  "valid_style_id value \<longleftrightarrow> 1 \<le> byte_len value \<and> byte_len value \<le> 64
     \<and> first_then is_ascii_lowercase (\<lambda>c. is_ascii_lowercase c \<or> is_ascii_digit c \<or> c = 45 \<or> c = 95) value"

definition valid_capability_name :: "rstr \<Rightarrow> bool" where
  "valid_capability_name value \<longleftrightarrow> 3 \<le> byte_len value \<and> byte_len value \<le> 128 \<and> 46 \<in> set value
     \<and> list_all (\<lambda>c. is_ascii_lowercase c \<or> is_ascii_digit c \<or> c = 46 \<or> c = 95 \<or> c = 45) value"

fun strictly_sorted_unique :: "rstr list \<Rightarrow> bool" where
  "strictly_sorted_unique (x # y # later) = (x < y \<and> strictly_sorted_unique (y # later))"
| "strictly_sorted_unique _ = True"

section \<open>The intent\<close>

definition validate_style :: "InstallationStyle \<Rightarrow> InstallContractError + unit" where
  "validate_style s =
     (case style_kind s of
        StyleNone \<Rightarrow> reject_if (style_id s \<noteq> None \<or> style_file s \<noteq> None \<or> style_sha256 s \<noteq> None)
          (InvalidContract ''style kind none cannot include id, file, or sha256'')
      | StyleBuiltin \<Rightarrow> reject_if (\<not> (case style_id s of None \<Rightarrow> False | Some i \<Rightarrow> valid_style_id i)
            \<or> style_file s \<noteq> None \<or> style_sha256 s \<noteq> None)
          (InvalidContract ''builtin style requires only a lowercase stable id'')
      | StyleCustom \<Rightarrow> reject_if (style_id s \<noteq> None
            \<or> \<not> (case style_file s of None \<Rightarrow> False | Some f \<Rightarrow> safe_relative_path f)
            \<or> \<not> (case style_sha256 s of None \<Rightarrow> False | Some h \<Rightarrow> valid_sha256 h))
          (InvalidContract ''custom style requires only a safe installed file and sha256''))"

definition validate_selection :: "InstallationSelection \<Rightarrow> InstallContractError + unit" where
  "validate_selection s = validate_style (sel_style s)"

definition validate_requested :: "('v, 'r, 'z) packages_scheme \<Rightarrow> RequestedDlc \<Rightarrow> InstallContractError + unit" where
  "validate_requested K d =
     and_then (reject_if (\<not> valid_plugin_id (rq_id d)) (InvalidContract ''requested DLC id is invalid'')) (\<lambda>_.
     and_then (parse_requirement K ''requested DLC version'' (rq_version d)) (\<lambda>_. Inr ()))"

fun check_requests :: "('v, 'r, 'z) packages_scheme \<Rightarrow> rstr list \<Rightarrow> RequestedDlc list \<Rightarrow> InstallContractError + unit" where
  "check_requests K ids [] = Inr ()"
| "check_requests K ids (d # later) =
     and_then (validate_requested K d) (\<lambda>_.
     and_then (reject_if (rq_id d \<in> set ids) (InvalidContract ''dlcs contains a duplicate id'')) (\<lambda>_.
       check_requests K (rq_id d # ids) later))"

definition validate_intent :: "('v, 'r, 'z) packages_scheme \<Rightarrow> InstallationIntent \<Rightarrow> InstallContractError + unit" where
  "validate_intent K i =
     and_then (reject_if (int_schema_version i \<noteq> INSTALL_INTENT_SCHEMA_VERSION) (UnsupportedSchema (int_schema_version i))) (\<lambda>_.
     and_then (validate_uuid K ''installation_id'' (int_installation_id i)) (\<lambda>_.
     and_then (validate_uuid K ''site_id'' (int_site_id i)) (\<lambda>_.
     and_then (parse_version K ''created_with'' (int_created_with i)) (\<lambda>_.
     and_then (validate_selection (int_selection i)) (\<lambda>_.
     and_then (reject_if (length (int_dlcs i) > 256) (InvalidContract ''dlcs exceeds 256 records'')) (\<lambda>_.
       check_requests K [] (int_dlcs i)))))))"

section \<open>The lock\<close>

definition bad_digest :: "rstr option \<Rightarrow> bool" where
  "bad_digest value \<longleftrightarrow> (case value of None \<Rightarrow> False | Some h \<Rightarrow> \<not> valid_sha256 h)"

definition validate_engine :: "('v, 'r, 'z) packages_scheme \<Rightarrow> LockedEngine \<Rightarrow> InstallContractError + unit" where
  "validate_engine K e =
     and_then (parse_version K ''engine.version'' (eng_version e)) (\<lambda>_.
     and_then (reject_if (eng_plugin_api e \<noteq> PLUGIN_API_VERSION) (InvalidContract ''engine plugin API is unsupported'')) (\<lambda>_.
       reject_if (eng_database_schema_version e = 0 \<or> \<not> bounded_install_text (eng_config_schema_version e) 1 128
         \<or> \<not> bounded_install_text (eng_source e) 1 2048 \<or> bad_digest (eng_artifact_sha256 e))
        (InvalidContract ''engine lock record is invalid'')))"

definition safe_https_source :: "('v, 'r, 'z) packages_scheme \<Rightarrow> rstr \<Rightarrow> bool" where
  "safe_https_source K source =
     (case url_parse (pk_extern K) source of None \<Rightarrow> False
      | Some u \<Rightarrow> url_scheme u = lit ''https'' \<and> url_host_str u \<noteq> None \<and> url_username u = []
          \<and> url_password u = None \<and> url_fragment u = None)"

definition validate_source :: "('v, 'r, 'z) packages_scheme \<Rightarrow> InstalledDlc \<Rightarrow> InstallContractError + unit" where
  "validate_source K d =
     (case in_source_kind d of
        SourceBundled \<Rightarrow> reject_if (\<not> bounded_install_text (in_source d) 1 512) (InvalidContract ''bundled DLC source is invalid'')
      | SourceFile \<Rightarrow> reject_if (\<not> safe_relative_path (in_source d) \<or> in_artifact_sha256 d = None)
          (InvalidContract ''file DLC requires a safe relative source and artifact digest'')
      | SourceHttps \<Rightarrow> reject_if (\<not> safe_https_source K (in_source d) \<or> in_artifact_sha256 d = None)
          (InvalidContract ''HTTPS DLC requires a safe URL and artifact digest''))"

definition validate_installed :: "('v, 'r, 'z) packages_scheme \<Rightarrow> 'v \<Rightarrow> InstalledDlc \<Rightarrow> InstallContractError + unit" where
  "validate_installed K engine_version d =
     and_then (reject_if (\<not> valid_plugin_id (in_id d)) (InvalidContract ''installed DLC id is invalid'')) (\<lambda>_.
     and_then (parse_requirement K ''installed DLC requested_version'' (in_requested_version d)) (\<lambda>requested.
     and_then (parse_version K ''installed DLC version'' (in_version d)) (\<lambda>version.
     and_then (parse_requirement K ''installed DLC core_compatibility'' (in_core_compatibility d)) (\<lambda>core.
     and_then (reject_if (\<not> pk_matches K requested version \<or> \<not> pk_matches K core engine_version)
        (InvalidContract ''installed DLC does not satisfy its requested or core version range'')) (\<lambda>_.
     and_then (reject_if (in_manifest_version d \<noteq> PLUGIN_MANIFEST_VERSION \<or> in_plugin_api d \<noteq> PLUGIN_API_VERSION
         \<or> \<not> valid_sha256 (in_manifest_sha256 d) \<or> bad_digest (in_artifact_sha256 d) \<or> bad_digest (in_config_sha256 d)
         \<or> in_state_version d = Some 0) (InvalidContract ''installed DLC lock material is invalid'')) (\<lambda>_.
     and_then (validate_source K d) (\<lambda>_.
       reject_if (\<not> strictly_sorted_unique (in_approved_capabilities d)
         \<or> list_ex (\<lambda>c. \<not> valid_capability_name c) (in_approved_capabilities d)
         \<or> \<not> all_unique (in_applied_migrations d) \<or> list_ex (\<lambda>m. \<not> qualified_name m) (in_applied_migrations d))
        (InvalidContract ''DLC capabilities or applied migrations are invalid''))))))))"

definition validate_retained :: "('v, 'r, 'z) packages_scheme \<Rightarrow> RetainedDlcState \<Rightarrow> InstallContractError + unit" where
  "validate_retained K r =
     reject_if (\<not> valid_plugin_id (rt_id r) \<or> pk_version K (rt_removed_version r) = None \<or> rt_state_version r = Some 0
       \<or> \<not> all_unique (rt_applied_migrations r) \<or> list_ex (\<lambda>m. \<not> qualified_name m) (rt_applied_migrations r))
      (InvalidContract ''retained DLC state is invalid'')"

definition valid_transition :: "('v, 'r, 'z) packages_scheme \<Rightarrow> DlcHistoryRecord \<Rightarrow> bool" where
  "valid_transition K h =
     (case hist_action h of
        DlcInstalled \<Rightarrow> hist_from_version h = None \<and> hist_to_version h \<noteq> None
      | DlcUpgraded \<Rightarrow>
          (case (hist_from_version h, hist_to_version h) of
             (Some from, Some to) \<Rightarrow>
               (case (pk_version K from, pk_version K to) of (Some f, Some t) \<Rightarrow> pk_less K f t | _ \<Rightarrow> False)
           | _ \<Rightarrow> False)
      | DlcRemoved \<Rightarrow> hist_from_version h \<noteq> None \<and> hist_to_version h = None
      | DlcEnabled \<Rightarrow> hist_from_version h \<noteq> None \<and> hist_from_version h = hist_to_version h
      | DlcDisabled \<Rightarrow> hist_from_version h \<noteq> None \<and> hist_from_version h = hist_to_version h)"

definition optional_version :: "('v, 'r, 'z) packages_scheme \<Rightarrow> string \<Rightarrow> rstr option \<Rightarrow> InstallContractError + unit" where
  "optional_version K name value =
     (case value of None \<Rightarrow> Inr () | Some v \<Rightarrow> and_then (parse_version K name v) (\<lambda>_. Inr ()))"

definition validate_history :: "('v, 'r, 'z) packages_scheme \<Rightarrow> DlcHistoryRecord \<Rightarrow> InstallContractError + unit" where
  "validate_history K h =
     and_then (reject_if (\<not> valid_plugin_id (hist_dlc_id h)) (InvalidContract ''DLC history id is invalid'')) (\<lambda>_.
     and_then (parse_version K ''DLC history engine_version'' (hist_engine_version h)) (\<lambda>_.
     and_then (optional_version K ''DLC history from_version'' (hist_from_version h)) (\<lambda>_.
     and_then (optional_version K ''DLC history to_version'' (hist_to_version h)) (\<lambda>_.
       reject_if (\<not> valid_transition K h) (InvalidContract ''DLC history version transition is invalid'')))))"

text \<open>The loops of \<open>InstallationLock::validate\<close>: the previous identifier, the expected sequence number.\<close>

fun check_installed ::
  "('v, 'r, 'z) packages_scheme \<Rightarrow> 'v \<Rightarrow> rstr option \<Rightarrow> InstalledDlc list \<Rightarrow> InstallContractError + unit" where
  "check_installed K engine previous [] = Inr ()"
| "check_installed K engine previous (d # later) =
     and_then (reject_if (case previous of None \<Rightarrow> False | Some p \<Rightarrow> in_id d \<le> p)
        (InvalidContract ''DLC lock records must be uniquely sorted by id'')) (\<lambda>_.
     and_then (validate_installed K engine d) (\<lambda>_. check_installed K engine (Some (in_id d)) later))"

fun check_retained ::
  "('v, 'r, 'z) packages_scheme \<Rightarrow> rstr list \<Rightarrow> rstr option \<Rightarrow> RetainedDlcState list \<Rightarrow> InstallContractError + unit" where
  "check_retained K active previous [] = Inr ()"
| "check_retained K active previous (r # later) =
     and_then (reject_if (case previous of None \<Rightarrow> False | Some p \<Rightarrow> rt_id r \<le> p)
        (InvalidContract ''retained DLC state must be uniquely sorted by id'')) (\<lambda>_.
     and_then (reject_if (rt_id r \<in> set active)
        (InvalidContract ''active and retained DLC records cannot share an id'')) (\<lambda>_.
     and_then (validate_retained K r) (\<lambda>_. check_retained K active (Some (rt_id r)) later)))"

fun check_history ::
  "('v, 'r, 'z) packages_scheme \<Rightarrow> nat \<Rightarrow> DlcHistoryRecord list \<Rightarrow> InstallContractError + unit" where
  "check_history K index [] = Inr ()"
| "check_history K index (h # later) =
     and_then (reject_if (hist_sequence h \<noteq> index + 1)
        (InvalidContract ''DLC history sequence must be contiguous and start at one'')) (\<lambda>_.
     and_then (validate_history K h) (\<lambda>_. check_history K (index + 1) later))"

section \<open>The JSON form of the lock\<close>

fun admin_auth_text :: "InstallationAdminAuth \<Rightarrow> rstr" where
  "admin_auth_text AuthAccessKey = lit ''access_key''"
| "admin_auth_text AuthExternal = lit ''external''"
| "admin_auth_text AuthDisabled = lit ''disabled''"

fun cache_text :: "InstallationCache \<Rightarrow> rstr" where
  "cache_text InstallCacheNone = lit ''none''"
| "cache_text RedisStandalone = lit ''redis_standalone''"
| "cache_text RedisManaged = lit ''redis_managed''"

definition redis_enabled :: "InstallationCache \<Rightarrow> bool" where
  "redis_enabled c \<longleftrightarrow> c \<noteq> InstallCacheNone"

fun style_kind_text :: "InstallationStyleKind \<Rightarrow> rstr" where
  "style_kind_text StyleNone = lit ''none''"
| "style_kind_text StyleBuiltin = lit ''builtin''"
| "style_kind_text StyleCustom = lit ''custom''"

fun source_kind_text :: "InstalledDlcSourceKind \<Rightarrow> rstr" where
  "source_kind_text SourceBundled = lit ''bundled''"
| "source_kind_text SourceFile = lit ''file''"
| "source_kind_text SourceHttps = lit ''https''"

fun history_action_text :: "DlcHistoryAction \<Rightarrow> rstr" where
  "history_action_text DlcInstalled = lit ''installed''"
| "history_action_text DlcEnabled = lit ''enabled''"
| "history_action_text DlcDisabled = lit ''disabled''"
| "history_action_text DlcUpgraded = lit ''upgraded''"
| "history_action_text DlcRemoved = lit ''removed''"

definition jnat :: "nat \<Rightarrow> json" where
  "jnat n = JNum (int n)"

definition style_to_json :: "InstallationStyle \<Rightarrow> json" where
  "style_to_json s = JObj
     ([(lit ''kind'', JStr (style_kind_text (style_kind s)))]
      @ skip_none (lit ''id'') JStr (style_id s)
      @ skip_none (lit ''file'') JStr (style_file s)
      @ skip_none (lit ''sha256'') JStr (style_sha256 s))"

definition selection_to_json :: "InstallationSelection \<Rightarrow> json" where
  "selection_to_json s = JObj
     [(lit ''admin_auth'', JStr (admin_auth_text (sel_admin_auth s))),
      (lit ''style'', style_to_json (sel_style s)), (lit ''cache'', JStr (cache_text (sel_cache s)))]"

definition engine_to_json :: "LockedEngine \<Rightarrow> json" where
  "engine_to_json e = JObj
     ([(lit ''version'', JStr (eng_version e)), (lit ''configSchemaVersion'', JStr (eng_config_schema_version e)),
       (lit ''databaseSchemaVersion'', jnat (eng_database_schema_version e)),
       (lit ''pluginApi'', JStr (eng_plugin_api e)), (lit ''source'', JStr (eng_source e))]
      @ skip_none (lit ''artifactSha256'') JStr (eng_artifact_sha256 e))"

definition installed_to_json :: "InstalledDlc \<Rightarrow> json" where
  "installed_to_json d = JObj
     ([(lit ''id'', JStr (in_id d)), (lit ''requestedVersion'', JStr (in_requested_version d)),
       (lit ''version'', JStr (in_version d)), (lit ''coreCompatibility'', JStr (in_core_compatibility d)),
       (lit ''manifestVersion'', jnat (in_manifest_version d)), (lit ''pluginApi'', JStr (in_plugin_api d)),
       (lit ''sourceKind'', JStr (source_kind_text (in_source_kind d))), (lit ''source'', JStr (in_source d)),
       (lit ''manifestSha256'', JStr (in_manifest_sha256 d))]
      @ skip_none (lit ''artifactSha256'') JStr (in_artifact_sha256 d)
      @ [(lit ''enabled'', JBool (in_enabled d)),
         (lit ''approvedCapabilities'', JArr (map JStr (in_approved_capabilities d)))]
      @ skip_none (lit ''configSha256'') JStr (in_config_sha256 d)
      @ skip_none (lit ''stateVersion'') jnat (in_state_version d)
      @ [(lit ''appliedMigrations'', JArr (map JStr (in_applied_migrations d)))])"

definition retained_to_json :: "RetainedDlcState \<Rightarrow> json" where
  "retained_to_json r = JObj
     ([(lit ''id'', JStr (rt_id r)), (lit ''removedVersion'', JStr (rt_removed_version r))]
      @ skip_none (lit ''stateVersion'') jnat (rt_state_version r)
      @ [(lit ''appliedMigrations'', JArr (map JStr (rt_applied_migrations r)))])"

definition history_to_json :: "DlcHistoryRecord \<Rightarrow> json" where
  "history_to_json h = JObj
     ([(lit ''sequence'', jnat (hist_sequence h)), (lit ''action'', JStr (history_action_text (hist_action h))),
       (lit ''dlcId'', JStr (hist_dlc_id h))]
      @ skip_none (lit ''fromVersion'') JStr (hist_from_version h)
      @ skip_none (lit ''toVersion'') JStr (hist_to_version h)
      @ [(lit ''engineVersion'', JStr (hist_engine_version h))])"

definition lock_to_json :: "InstallationLock \<Rightarrow> json" where
  "lock_to_json l = JObj
     ([(lit ''schemaVersion'', JStr (lk_schema_version l)), (lit ''installationId'', JStr (lk_installation_id l)),
       (lit ''engine'', engine_to_json (lk_engine l)), (lit ''selection'', selection_to_json (lk_selection l)),
       (lit ''dlcs'', JArr (map installed_to_json (lk_dlcs l)))]
      @ (if lk_retained_dlcs l = [] then [] else [(lit ''retainedDlcs'', JArr (map retained_to_json (lk_retained_dlcs l)))])
      @ [(lit ''history'', JArr (map history_to_json (lk_history l))), (lit ''lockDigest'', JStr (lk_lock_digest l))])"

text \<open>The readers: unknown fields are refused, missing \<open>default\<close> fields take their default.\<close>

definition text_enum :: "(rstr \<times> 'a) list \<Rightarrow> json \<Rightarrow> 'a option" where
  "text_enum table v = Option.bind (from_str v) (map_of table)"

definition admin_auth_from_json :: "json \<Rightarrow> InstallationAdminAuth option" where
  "admin_auth_from_json = text_enum (map (\<lambda>a. (admin_auth_text a, a)) [AuthAccessKey, AuthExternal, AuthDisabled])"

definition cache_from_json :: "json \<Rightarrow> InstallationCache option" where
  "cache_from_json = text_enum (map (\<lambda>c. (cache_text c, c)) [InstallCacheNone, RedisStandalone, RedisManaged])"

definition style_kind_from_json :: "json \<Rightarrow> InstallationStyleKind option" where
  "style_kind_from_json = text_enum (map (\<lambda>k. (style_kind_text k, k)) [StyleNone, StyleBuiltin, StyleCustom])"

definition source_kind_from_json :: "json \<Rightarrow> InstalledDlcSourceKind option" where
  "source_kind_from_json = text_enum (map (\<lambda>k. (source_kind_text k, k)) [SourceBundled, SourceFile, SourceHttps])"

definition history_action_from_json :: "json \<Rightarrow> DlcHistoryAction option" where
  "history_action_from_json = text_enum (map (\<lambda>a. (history_action_text a, a))
     [DlcInstalled, DlcEnabled, DlcDisabled, DlcUpgraded, DlcRemoved])"

definition style_from_json :: "json \<Rightarrow> InstallationStyle option" where
  "style_from_json = from_obj (\<lambda>obj. do {
     _ \<leftarrow> known_fields [lit ''kind'', lit ''id'', lit ''file'', lit ''sha256''] obj;
     kind \<leftarrow> req_field (lit ''kind'') style_kind_from_json obj;
     ident \<leftarrow> opt_field (lit ''id'') from_str obj;
     file \<leftarrow> opt_field (lit ''file'') from_str obj;
     sha \<leftarrow> opt_field (lit ''sha256'') from_str obj;
     Some \<lparr>style_kind = kind, style_id = ident, style_file = file, style_sha256 = sha\<rparr> })"

definition selection_from_json :: "json \<Rightarrow> InstallationSelection option" where
  "selection_from_json = from_obj (\<lambda>obj. do {
     _ \<leftarrow> known_fields [lit ''admin_auth'', lit ''style'', lit ''cache''] obj;
     auth \<leftarrow> req_field (lit ''admin_auth'') admin_auth_from_json obj;
     style \<leftarrow> req_field (lit ''style'') style_from_json obj;
     cache \<leftarrow> req_field (lit ''cache'') cache_from_json obj;
     Some \<lparr>sel_admin_auth = auth, sel_style = style, sel_cache = cache\<rparr> })"

definition engine_from_json :: "json \<Rightarrow> LockedEngine option" where
  "engine_from_json = from_obj (\<lambda>obj. do {
     _ \<leftarrow> known_fields [lit ''version'', lit ''configSchemaVersion'', lit ''databaseSchemaVersion'',
       lit ''pluginApi'', lit ''source'', lit ''artifactSha256''] obj;
     version \<leftarrow> req_field (lit ''version'') from_str obj;
     config \<leftarrow> req_field (lit ''configSchemaVersion'') from_str obj;
     database \<leftarrow> req_field (lit ''databaseSchemaVersion'') from_u64 obj;
     api \<leftarrow> req_field (lit ''pluginApi'') from_str obj;
     source \<leftarrow> req_field (lit ''source'') from_str obj;
     artifact \<leftarrow> opt_field (lit ''artifactSha256'') from_str obj;
     Some \<lparr>eng_version = version, eng_config_schema_version = config, eng_database_schema_version = database,
           eng_plugin_api = api, eng_source = source, eng_artifact_sha256 = artifact\<rparr> })"

definition installed_from_json :: "json \<Rightarrow> InstalledDlc option" where
  "installed_from_json = from_obj (\<lambda>obj. do {
     _ \<leftarrow> known_fields [lit ''id'', lit ''requestedVersion'', lit ''version'', lit ''coreCompatibility'',
       lit ''manifestVersion'', lit ''pluginApi'', lit ''sourceKind'', lit ''source'', lit ''manifestSha256'',
       lit ''artifactSha256'', lit ''enabled'', lit ''approvedCapabilities'', lit ''configSha256'',
       lit ''stateVersion'', lit ''appliedMigrations''] obj;
     ident \<leftarrow> req_field (lit ''id'') from_str obj;
     requested \<leftarrow> req_field (lit ''requestedVersion'') from_str obj;
     version \<leftarrow> req_field (lit ''version'') from_str obj;
     core \<leftarrow> req_field (lit ''coreCompatibility'') from_str obj;
     manifest \<leftarrow> req_field (lit ''manifestVersion'') from_u64 obj;
     api \<leftarrow> req_field (lit ''pluginApi'') from_str obj;
     kind \<leftarrow> req_field (lit ''sourceKind'') source_kind_from_json obj;
     source \<leftarrow> req_field (lit ''source'') from_str obj;
     manifest_sha \<leftarrow> req_field (lit ''manifestSha256'') from_str obj;
     artifact \<leftarrow> opt_field (lit ''artifactSha256'') from_str obj;
     enabled \<leftarrow> req_field (lit ''enabled'') from_bool obj;
     capabilities \<leftarrow> default_field (lit ''approvedCapabilities'') [] (from_arr from_str) obj;
     config \<leftarrow> opt_field (lit ''configSha256'') from_str obj;
     state \<leftarrow> opt_field (lit ''stateVersion'') from_u64 obj;
     migrations \<leftarrow> default_field (lit ''appliedMigrations'') [] (from_arr from_str) obj;
     Some \<lparr>in_id = ident, in_requested_version = requested, in_version = version, in_core_compatibility = core,
           in_manifest_version = manifest, in_plugin_api = api, in_source_kind = kind, in_source = source,
           in_manifest_sha256 = manifest_sha, in_artifact_sha256 = artifact, in_enabled = enabled,
           in_approved_capabilities = capabilities, in_config_sha256 = config, in_state_version = state,
           in_applied_migrations = migrations\<rparr> })"

definition retained_from_json :: "json \<Rightarrow> RetainedDlcState option" where
  "retained_from_json = from_obj (\<lambda>obj. do {
     _ \<leftarrow> known_fields [lit ''id'', lit ''removedVersion'', lit ''stateVersion'', lit ''appliedMigrations''] obj;
     ident \<leftarrow> req_field (lit ''id'') from_str obj;
     removed \<leftarrow> req_field (lit ''removedVersion'') from_str obj;
     state \<leftarrow> opt_field (lit ''stateVersion'') from_u64 obj;
     migrations \<leftarrow> default_field (lit ''appliedMigrations'') [] (from_arr from_str) obj;
     Some \<lparr>rt_id = ident, rt_removed_version = removed, rt_state_version = state, rt_applied_migrations = migrations\<rparr> })"

definition history_from_json :: "json \<Rightarrow> DlcHistoryRecord option" where
  "history_from_json = from_obj (\<lambda>obj. do {
     _ \<leftarrow> known_fields [lit ''sequence'', lit ''action'', lit ''dlcId'', lit ''fromVersion'', lit ''toVersion'',
       lit ''engineVersion''] obj;
     sequence \<leftarrow> req_field (lit ''sequence'') from_u64 obj;
     action \<leftarrow> req_field (lit ''action'') history_action_from_json obj;
     dlc \<leftarrow> req_field (lit ''dlcId'') from_str obj;
     from \<leftarrow> opt_field (lit ''fromVersion'') from_str obj;
     to \<leftarrow> opt_field (lit ''toVersion'') from_str obj;
     engine \<leftarrow> req_field (lit ''engineVersion'') from_str obj;
     Some \<lparr>hist_sequence = sequence, hist_action = action, hist_dlc_id = dlc, hist_from_version = from,
           hist_to_version = to, hist_engine_version = engine\<rparr> })"

definition lock_from_json :: "json \<Rightarrow> InstallationLock option" where
  "lock_from_json = from_obj (\<lambda>obj. do {
     _ \<leftarrow> known_fields [lit ''schemaVersion'', lit ''installationId'', lit ''engine'', lit ''selection'', lit ''dlcs'',
       lit ''retainedDlcs'', lit ''history'', lit ''lockDigest''] obj;
     schema \<leftarrow> req_field (lit ''schemaVersion'') from_str obj;
     installation \<leftarrow> req_field (lit ''installationId'') from_str obj;
     engine \<leftarrow> req_field (lit ''engine'') engine_from_json obj;
     selection \<leftarrow> req_field (lit ''selection'') selection_from_json obj;
     dlcs \<leftarrow> req_field (lit ''dlcs'') (from_arr installed_from_json) obj;
     retained \<leftarrow> default_field (lit ''retainedDlcs'') [] (from_arr retained_from_json) obj;
     history \<leftarrow> default_field (lit ''history'') [] (from_arr history_from_json) obj;
     digest \<leftarrow> req_field (lit ''lockDigest'') from_str obj;
     Some \<lparr>lk_schema_version = schema, lk_installation_id = installation, lk_engine = engine, lk_selection = selection,
           lk_dlcs = dlcs, lk_retained_dlcs = retained, lk_history = history, lk_lock_digest = digest\<rparr> })"

section \<open>The digest\<close>

text \<open>\<open>canonical_json\<close> sorts the members of every object by key.\<close>

fun canonical_json :: "json \<Rightarrow> json" where
  "canonical_json (JObj members) = JObj (entries (btree_collect (map (\<lambda>(k, v). (k, canonical_json v)) members)))"
| "canonical_json (JArr values) = JArr (map canonical_json values)"
| "canonical_json v = v"

definition expected_digest :: "('v, 'r, 'z) packages_scheme \<Rightarrow> InstallationLock \<Rightarrow> rstr" where
  "expected_digest K l = sha256_hex (pk_extern K)
     (json_text (pk_extern K) (canonical_json (lock_to_json (l\<lparr>lk_lock_digest := []\<rparr>))))"

definition refresh_digest :: "('v, 'r, 'z) packages_scheme \<Rightarrow> InstallationLock \<Rightarrow> InstallationLock" where
  "refresh_digest K l = (let l = l\<lparr>lk_lock_digest := []\<rparr> in l\<lparr>lk_lock_digest := expected_digest K l\<rparr>)"

definition validate_lock :: "('v, 'r, 'z) packages_scheme \<Rightarrow> InstallationLock \<Rightarrow> InstallContractError + unit" where
  "validate_lock K l =
     and_then (reject_if (lk_schema_version l \<noteq> INSTALL_LOCK_SCHEMA_VERSION) (UnsupportedSchema (lk_schema_version l))) (\<lambda>_.
     and_then (validate_uuid K ''installation_id'' (lk_installation_id l)) (\<lambda>_.
     and_then (validate_engine K (lk_engine l)) (\<lambda>_.
     and_then (validate_selection (lk_selection l)) (\<lambda>_.
     and_then (reject_if (length (lk_dlcs l) > 256) (InvalidContract ''DLC lock exceeds 256 records'')) (\<lambda>_.
     and_then (reject_if (length (lk_retained_dlcs l) > 256) (InvalidContract ''retained DLC state exceeds 256 records'')) (\<lambda>_.
     and_then (parse_version K ''engine.version'' (eng_version (lk_engine l))) (\<lambda>engine_version.
     and_then (check_installed K engine_version None (lk_dlcs l)) (\<lambda>_.
     and_then (check_retained K (map in_id (lk_dlcs l)) None (lk_retained_dlcs l)) (\<lambda>_.
     and_then (check_history K 0 (lk_history l)) (\<lambda>_.
       reject_if (\<not> valid_sha256 (lk_lock_digest l) \<or> lk_lock_digest l \<noteq> expected_digest K l) DigestMismatch))))))))))"

text \<open>The engine transition of the updater. The lock is changed in place, also where the last check fails.\<close>

definition record_engine_upgrade ::
  "('v, 'r, 'z) packages_scheme \<Rightarrow> rstr \<Rightarrow> rstr \<Rightarrow> rstr \<Rightarrow> rstr option \<Rightarrow> InstallationLock \<Rightarrow>
   (InstallContractError + unit) \<times> InstallationLock" where
  "record_engine_upgrade K from to source artifact l =
     (case and_then (validate_lock K l) (\<lambda>_.
           and_then (reject_if (eng_version (lk_engine l) \<noteq> from)
              (InvalidContract ''engine upgrade source version differs from the current lock'')) (\<lambda>_.
           and_then (parse_version K ''engine upgrade from'' from) (\<lambda>from_version.
           and_then (parse_version K ''engine upgrade to'' to) (\<lambda>to_version.
             reject_if (\<not> pk_less K from_version to_version)
               (InvalidContract ''engine upgrade target must be greater than its source''))))) of
        Inl e \<Rightarrow> (Inl e, l)
      | Inr _ \<Rightarrow>
          let l' = refresh_digest K (l\<lparr>lk_engine := (lk_engine l)\<lparr>eng_version := to, eng_source := source,
                eng_artifact_sha256 := artifact\<rparr>\<rparr>) in
          (validate_lock K l', l'))"

section \<open>The lock reads back\<close>

lemma jnat_not_null [simp]: "jnat n \<noteq> JNull" and from_u64_jnat [simp]: "from_u64 (jnat n) = Some n"
  by (simp_all add: jnat_def)

lemma list_all_skip_none [simp]:
  "list_all P (skip_none k enc v) \<longleftrightarrow> (\<forall>x. v = Some x \<longrightarrow> P (k, enc x))"
  by (simp add: skip_none_def split: option.splits)

lemma admin_auth_codec [simp]: "admin_auth_from_json (JStr (admin_auth_text a)) = Some a"
  by (cases a) (simp_all add: admin_auth_from_json_def text_enum_def)

lemma cache_codec [simp]: "cache_from_json (JStr (cache_text c)) = Some c"
  by (cases c) (simp_all add: cache_from_json_def text_enum_def)

lemma style_kind_codec [simp]: "style_kind_from_json (JStr (style_kind_text k)) = Some k"
  by (cases k) (simp_all add: style_kind_from_json_def text_enum_def)

lemma source_kind_codec [simp]: "source_kind_from_json (JStr (source_kind_text k)) = Some k"
  by (cases k) (simp_all add: source_kind_from_json_def text_enum_def)

lemma history_action_codec [simp]: "history_action_from_json (JStr (history_action_text a)) = Some a"
  by (cases a) (simp_all add: history_action_from_json_def text_enum_def)

lemmas codec_defs = field_defs known_fields_def default_field_option traverse_map_codec

lemma style_codec [simp]: "style_from_json (style_to_json s) = Some s"
  by (simp add: style_from_json_def style_to_json_def codec_defs)

lemma selection_codec [simp]: "selection_from_json (selection_to_json s) = Some s"
  by (simp add: selection_from_json_def selection_to_json_def codec_defs)

lemma engine_codec [simp]: "engine_from_json (engine_to_json e) = Some e"
  by (simp add: engine_from_json_def engine_to_json_def codec_defs)

lemma installed_codec [simp]: "installed_from_json (installed_to_json d) = Some d"
  by (simp add: installed_from_json_def installed_to_json_def codec_defs)

lemma retained_codec [simp]: "retained_from_json (retained_to_json r) = Some r"
  by (simp add: retained_from_json_def retained_to_json_def codec_defs)

lemma history_codec [simp]: "history_from_json (history_to_json h) = Some h"
  by (simp add: history_from_json_def history_to_json_def codec_defs)

lemma lock_codec [simp]: "lock_from_json (lock_to_json l) = Some l"
  by (simp add: lock_from_json_def lock_to_json_def codec_defs)

section \<open>What the loops of the validation check\<close>

lemma check_requests_ok:
  "check_requests K ids ds = Inr u \<longleftrightarrow>
     distinct (map rq_id ds) \<and> set (map rq_id ds) \<inter> set ids = {} \<and> (\<forall>d \<in> set ds. validate_requested K d = Inr ())"
  by (induction K ids ds rule: check_requests.induct) (auto simp: and_then_eq_Inr reject_if_eq_Inr)

lemma check_installed_ok:
  "check_installed K e previous ds = Inr u \<longleftrightarrow>
     sorted_wrt (<) (map in_id ds) \<and> (\<forall>p. previous = Some p \<longrightarrow> (\<forall>d \<in> set ds. p < in_id d))
     \<and> (\<forall>d \<in> set ds. validate_installed K e d = Inr ())"
  by (induction K e previous ds rule: check_installed.induct)
    (auto simp: and_then_eq_Inr reject_if_eq_Inr not_le split: option.splits dest: less_trans)

lemma check_retained_ok:
  "check_retained K active previous rs = Inr u \<longleftrightarrow>
     sorted_wrt (<) (map rt_id rs) \<and> (\<forall>p. previous = Some p \<longrightarrow> (\<forall>r \<in> set rs. p < rt_id r))
     \<and> (\<forall>r \<in> set rs. rt_id r \<notin> set active \<and> validate_retained K r = Inr ())"
  by (induction K active previous rs rule: check_retained.induct)
    (auto simp: and_then_eq_Inr reject_if_eq_Inr not_le split: option.splits dest: less_trans)

lemma sorted_less_distinct: "sorted_wrt (<) (xs :: 'a::linorder list) \<Longrightarrow> distinct xs"
  by (induction xs) auto

lemma refresh_digest_sel [simp]:
  "lk_schema_version (refresh_digest K l) = lk_schema_version l" "lk_installation_id (refresh_digest K l) = lk_installation_id l"
  "lk_engine (refresh_digest K l) = lk_engine l" "lk_selection (refresh_digest K l) = lk_selection l"
  "lk_dlcs (refresh_digest K l) = lk_dlcs l" "lk_retained_dlcs (refresh_digest K l) = lk_retained_dlcs l"
  "lk_history (refresh_digest K l) = lk_history l"
  by (simp_all add: refresh_digest_def Let_def)

lemma validate_lock_ok:
  assumes "validate_lock K l = Inr u"
  shows "sorted_wrt (<) (map in_id (lk_dlcs l))" "sorted_wrt (<) (map rt_id (lk_retained_dlcs l))"
    "\<forall>r \<in> set (lk_retained_dlcs l). rt_id r \<notin> in_id ` set (lk_dlcs l)"
    "\<forall>d \<in> set (lk_dlcs l). valid_plugin_id (in_id d) \<and> pk_version K (in_version d) \<noteq> None"
    "valid_sha256 (lk_lock_digest l)"
  using assms unfolding validate_lock_def
  by (auto simp: and_then_eq_Inr map_err_eq_Inr reject_if_eq_Inr check_installed_ok check_retained_ok
      validate_installed_def parse_version_def ok_or_eq_Inr)

lemma validate_intent_ok:
  "validate_intent K i = Inr u \<Longrightarrow> distinct (map rq_id (int_dlcs i))"
  by (auto simp: validate_intent_def and_then_eq_Inr check_requests_ok)

end
