(* ===== verification/Dlc_Environment.thy ===== *)
theory Dlc_Environment
  imports Plugin_Api "HOL-Library.Sublist"
begin

text \<open>
  The deployment environment file the DLC lifecycle reads and rewrites
  (\<open>apps/cli/src/bootstrap/dlc_lifecycle.rs\<close>): the projection of the managed values and the
  replacement of three of them in place. The file is its text; bytes that are not UTF-8 are
  refused before. The map of projected values is read by key only and is an association list
  without repeated keys.
\<close>

section \<open>Lines\<close>

text \<open>\<open>str::split_inclusive\<close>: pieces that keep their terminator.\<close>

fun split_inclusive :: "nat \<Rightarrow> rstr \<Rightarrow> rstr list" where
  "split_inclusive c [] = []"
| "split_inclusive c (x # xs) =
     (if x = c then [x] # split_inclusive c xs
      else (case split_inclusive c xs of [] \<Rightarrow> [[x]] | piece # pieces \<Rightarrow> (x # piece) # pieces))"

definition strip_suffix_char :: "nat \<Rightarrow> rstr \<Rightarrow> rstr option" where
  "strip_suffix_char c s = (if s \<noteq> [] \<and> last s = c then Some (butlast s) else None)"

text \<open>\<open>str::lines\<close>: a line feed, and a carriage return before it, end a line.\<close>

definition line_of :: "rstr \<Rightarrow> rstr" where
  "line_of segment =
     (case strip_suffix_char 10 segment of None \<Rightarrow> segment
      | Some line \<Rightarrow> (case strip_suffix_char 13 line of None \<Rightarrow> line | Some l \<Rightarrow> l))"

definition str_lines :: "rstr \<Rightarrow> rstr list" where
  "str_lines s = map line_of (split_inclusive 10 s)"

section \<open>Projection\<close>

definition MANAGED_ENV_KEYS :: "rstr list" where
  "MANAGED_ENV_KEYS = [lit ''OSB_DLC_IDS'', lit ''OSB_FEATURES'', lit ''OSB_INSTALL_LOCK_DIGEST'']"

definition wanted_keys :: "rstr list" where
  "wanted_keys = MANAGED_ENV_KEYS @ [lit ''OSB_AUTH_MODE'', lit ''OSB_COMMENTS'', lit ''OSB_COLLABORATION'']"

definition unquote :: "rstr \<Rightarrow> string + rstr" where
  "unquote value =
     (if value \<noteq> [] \<and> (hd value = 39 \<or> hd value = 34)
      then (if length value \<ge> 2 \<and> last value = hd value then Inr (butlast (tl value))
            else Inl ''managed environment value has an unterminated quote'')
      else Inr value)"

fun project_lines :: "(rstr \<times> rstr) list \<Rightarrow> rstr list \<Rightarrow> string + (rstr \<times> rstr) list" where
  "project_lines projected [] = Inr projected"
| "project_lines projected (line # later) =
     and_then (reject_if (byte_len line > 16 * 1024) ''.env line is too long'') (\<lambda>_.
     let line = trim line in
     if line = [] \<or> hd line = 35 then project_lines projected later
     else (case split_once 61 line of
         None \<Rightarrow> project_lines projected later
       | Some (name, raw) \<Rightarrow>
           if name \<notin> set wanted_keys then project_lines projected later
           else and_then (reject_if (name \<in> set (map fst projected)) ''.env contains duplicate managed value'') (\<lambda>_.
                and_then (unquote raw) (\<lambda>value. project_lines ((name, value) # projected) later))))"

definition project_environment :: "rstr \<Rightarrow> string + (rstr \<times> rstr) list" where
  "project_environment source = project_lines [] (str_lines source)"

section \<open>Replacement\<close>

definition safe_value_byte :: "nat \<Rightarrow> bool" where
  "safe_value_byte c \<longleftrightarrow> is_ascii_alphanumeric c \<or> c \<in> {46, 44, 45, 95, 58, 47, 61, 60, 62, 94, 32}"

text \<open>A segment as its line and its ending.\<close>

definition segment_parts :: "rstr \<Rightarrow> rstr \<times> rstr" where
  "segment_parts segment =
     (let (without_lf, ending) = (case strip_suffix_char 10 segment of None \<Rightarrow> (segment, []) | Some l \<Rightarrow> (l, [10])) in
      case strip_suffix_char 13 without_lf of None \<Rightarrow> (without_lf, ending) | Some l \<Rightarrow> (l, 13 # ending))"

fun replace_segments ::
  "(rstr \<times> rstr) list \<Rightarrow> rstr list \<Rightarrow> rstr list \<Rightarrow> string + rstr list \<times> rstr list" where
  "replace_segments updates replaced [] = Inr ([], replaced)"
| "replace_segments updates replaced (segment # later) =
     (let (line, ending) = segment_parts segment in
      case (case split_once 61 line of None \<Rightarrow> None
            | Some (name, _) \<Rightarrow> map_option (Pair name) (map_of updates name)) of
        Some (name, value) \<Rightarrow>
          and_then (reject_if (name \<in> set replaced) ''.env contains duplicate managed value'') (\<lambda>_.
          and_then (reject_if (\<not> list_all safe_value_byte value) ''refusing to render an unsafe managed environment value'') (\<lambda>_.
          and_then (replace_segments updates (name # replaced) later) (\<lambda>(output, replaced).
            Inr ((name @ 61 # value @ ending) # output, replaced))))
      | None \<Rightarrow>
          and_then (replace_segments updates replaced later) (\<lambda>(output, replaced). Inr (segment # output, replaced)))"

definition replace_environment_values :: "rstr \<Rightarrow> (rstr \<times> rstr) list \<Rightarrow> string + rstr" where
  "replace_environment_values original updates =
     and_then (replace_segments updates [] (split_inclusive 10 original)) (\<lambda>(output, replaced).
     and_then (reject_if (list_ex (\<lambda>(name, _). name \<notin> set replaced) updates) ''.env is missing managed value'') (\<lambda>_.
       Inr (concat output)))"

section \<open>Segments\<close>

text \<open>Pieces as \<open>split_inclusive\<close> yields them: not empty, a line feed only at the end, and there in all but the last.\<close>

fun segments :: "rstr list \<Rightarrow> bool" where
  "segments [] = True"
| "segments [x] = (x \<noteq> [] \<and> 10 \<notin> set (butlast x))"
| "segments (x # y # later) = (x \<noteq> [] \<and> 10 \<notin> set (butlast x) \<and> last x = 10 \<and> segments (y # later))"

lemma segments_split_inclusive: "segments (split_inclusive 10 s)"
proof (induction s)
  case (Cons c s)
  show ?case
  proof (cases "c = 10")
    case True
    with Cons show ?thesis by (cases "split_inclusive 10 s") auto
  next
    case False
    show ?thesis
    proof (cases "split_inclusive 10 s")
      case (Cons x later)
      with False \<open>segments (split_inclusive 10 s)\<close> show ?thesis by (cases later) auto
    qed (use False in simp)
  qed
qed simp

lemma split_inclusive_piece:
  "10 \<notin> set x \<Longrightarrow> x \<noteq> [] \<Longrightarrow> split_inclusive 10 x = [x]"
  "10 \<notin> set x \<Longrightarrow> split_inclusive 10 (x @ 10 # rest) = (x @ [10]) # split_inclusive 10 rest"
proof (induction x)
  case (Cons a x)
  {
    case 1
    with Cons(1) show ?case by (cases "x = []") auto
  next
    case 2
    with Cons(2) show ?case by simp
  }
qed simp_all

lemma split_inclusive_concat: "segments xs \<Longrightarrow> split_inclusive 10 (concat xs) = xs"
proof (induction xs rule: segments.induct)
  case (2 x)
  then have x: "x = butlast x @ [last x]" "10 \<notin> set (butlast x)" by auto
  show ?case
  proof (cases "last x = 10")
    case True
    with x split_inclusive_piece(2) [of "butlast x" "[]"] show ?thesis by simp
  next
    case False
    with x have "10 \<notin> set x" by (metis in_set_conv_decomp_last Un_iff set_append set_ConsD empty_iff list.set(1))
    with 2 show ?thesis by (simp add: split_inclusive_piece(1))
  qed
next
  case (3 x y later)
  then have x: "x = butlast x @ [10]" "10 \<notin> set (butlast x)" by (auto, metis append_butlast_last_id)
  have "split_inclusive 10 (x @ concat (y # later)) = x # split_inclusive 10 (concat (y # later))"
    using split_inclusive_piece(2) [OF x(2), of "concat (y # later)"] x(1) by (metis append_Cons append_Nil append_assoc)
  with 3 show ?case by simp
qed simp

text \<open>Segments replaced one by one by others that end in a line feed exactly where they did.\<close>

lemma segments_replace:
  "list_all2 (\<lambda>x y. y \<noteq> [] \<and> 10 \<notin> set (butlast y) \<and> (last x = 10 \<longrightarrow> last y = 10)) xs ys \<Longrightarrow> segments xs \<Longrightarrow> segments ys"
proof (induction xs arbitrary: ys rule: segments.induct)
  case (3 x y later)
  then obtain x' y' later' where "ys = x' # y' # later'" by (auto simp: list_all2_Cons1)
  with 3 show ?case by auto
qed (auto simp: list_all2_Cons1)

section \<open>The binding a line makes\<close>

definition binding :: "rstr \<Rightarrow> string + (rstr \<times> rstr) option" where
  "binding line =
     and_then (reject_if (byte_len line > 16 * 1024) ''.env line is too long'') (\<lambda>_.
     let line = trim line in
     if line = [] \<or> hd line = 35 then Inr None
     else (case split_once 61 line of None \<Rightarrow> Inr None
       | Some (name, raw) \<Rightarrow> if name \<notin> set wanted_keys then Inr None
           else and_then (unquote raw) (\<lambda>value. Inr (Some (name, value)))))"

fun bindings :: "rstr list \<Rightarrow> (rstr \<times> rstr) list option" where
  "bindings [] = Some []"
| "bindings (line # later) =
     (case binding line of Inl _ \<Rightarrow> None
      | Inr None \<Rightarrow> bindings later
      | Inr (Some b) \<Rightarrow> map_option (Cons b) (bindings later))"

lemma project_lines_Cons:
  "project_lines acc (line # later) = Inr out \<longleftrightarrow>
     (case binding line of Inl _ \<Rightarrow> False
      | Inr None \<Rightarrow> project_lines acc later = Inr out
      | Inr (Some (n, v)) \<Rightarrow> n \<notin> set (map fst acc) \<and> project_lines ((n, v) # acc) later = Inr out)"
  by (auto simp: binding_def and_then_def reject_if_def Let_def split: sum.split option.split prod.split)

declare project_lines.simps(2) [simp del]

lemma project_lines_bindings:
  "project_lines acc ls = Inr out \<longleftrightarrow>
     (\<exists>bs. bindings ls = Some bs \<and> out = rev bs @ acc \<and> distinct (map fst bs) \<and> set (map fst bs) \<inter> set (map fst acc) = {})"
proof (induction ls arbitrary: acc)
  case (Cons line ls)
  show ?case
  proof (cases "binding line")
    case (Inr b)
    show ?thesis
    proof (cases b)
      case (Some nv)
      with Inr Cons [of "nv # acc"] show ?thesis
        by (cases nv; cases "bindings ls") (auto simp: project_lines_Cons)
    qed (use Inr Cons in \<open>simp add: project_lines_Cons\<close>)
  qed (simp add: project_lines_Cons)
qed auto

section \<open>The rewritten file projects\<close>

definition matched :: "(rstr \<times> rstr) list \<Rightarrow> rstr \<Rightarrow> (rstr \<times> rstr) option" where
  "matched updates segment =
     (case split_once 61 (fst (segment_parts segment)) of None \<Rightarrow> None
      | Some (name, _) \<Rightarrow> map_option (Pair name) (map_of updates name))"

definition rewritten :: "(rstr \<times> rstr) list \<Rightarrow> rstr \<Rightarrow> rstr" where
  "rewritten updates segment =
     (case matched updates segment of None \<Rightarrow> segment
      | Some (name, value) \<Rightarrow> name @ 61 # value @ snd (segment_parts segment))"

lemma replace_segments_ok:
  "replace_segments updates replaced xs = Inr (out, replaced') \<Longrightarrow>
     out = map (rewritten updates) xs \<and> set replaced' = set replaced \<union> {n. \<exists>x \<in> set xs. \<exists>v. matched updates x = Some (n, v)}
     \<and> (\<forall>x \<in> set xs. \<forall>n v. matched updates x = Some (n, v) \<longrightarrow> list_all safe_value_byte v)"
proof (induction xs arbitrary: replaced out replaced')
  case (Cons x xs)
  show ?case
  proof (cases "matched updates x")
    case None
    then obtain out' where "out = x # out'" "replace_segments updates replaced xs = Inr (out', replaced')"
      using Cons.prems
      by (auto simp: matched_def and_then_eq_Inr Let_def split: prod.split_asm option.split_asm)
    with Cons.IH None show ?thesis by (auto simp: rewritten_def)
  next
    case (Some nv)
    obtain n v where nv: "nv = (n, v)" by fastforce
    then obtain out' where "out = (n @ 61 # v @ snd (segment_parts x)) # out'" "list_all safe_value_byte v"
        "replace_segments updates (n # replaced) xs = Inr (out', replaced')"
      using Cons.prems Some
      by (auto simp: matched_def and_then_eq_Inr reject_if_eq_Inr Let_def split: prod.split_asm option.split_asm)
    with Cons.IH Some nv show ?thesis by (fastforce simp: rewritten_def)
  qed
qed simp

lemma strip_suffix_char_simps [simp]:
  "strip_suffix_char c [] = None" "strip_suffix_char c [y] = (if y = c then Some [] else None)"
  "strip_suffix_char c (xs @ [y]) = (if y = c then Some xs else None)"
  "strip_suffix_char c (xs @ [x, y]) = (if y = c then Some (xs @ [x]) else None)"
  by (simp_all add: strip_suffix_char_def butlast_append)

lemma segment_cases:
  assumes "10 \<notin> set (butlast x)"
  obtains (plain) "10 \<notin> set x" "segment_parts x = (x, [])" "line_of x = x"
    | (feed) l where "x = l @ [10]" "10 \<notin> set l" "segment_parts x = (l, [10])" "line_of x = l"
    | (return) l where "x = l @ [13]" "10 \<notin> set l" "segment_parts x = (l, [13])" "line_of x = l @ [13]"
    | (both) l where "x = l @ [13, 10]" "10 \<notin> set l" "segment_parts x = (l, [13, 10])" "line_of x = l"
proof (cases x rule: rev_cases)
  case Nil
  then show thesis using plain by (simp add: segment_parts_def line_of_def)
next
  case (snoc y c)
  show thesis
  proof (cases y rule: rev_cases)
    case Nil
    then show thesis using snoc plain feed [of "[]"] return [of "[]"]
      by (cases "c = 10"; cases "c = 13") (simp_all add: segment_parts_def line_of_def)
  next
    case (snoc z e)
    with \<open>x = y @ [c]\<close> have x: "x = z @ [e, c]" by simp
    with assms have "10 \<notin> set z" "e \<noteq> 10" by (auto simp: butlast_append)
    then show thesis using x plain feed [of "z @ [e]"] return [of "z @ [e]"] both [of z]
      by (cases "c = 10"; cases "c = 13"; cases "e = 13") (simp_all add: segment_parts_def line_of_def)
  qed
qed

lemma segment_parts_eq:
  assumes "segment_parts x = (line, ending)" "10 \<notin> set (butlast x)"
  shows "x = line @ ending \<and> 10 \<notin> set line \<and> ending \<in> {[], [10], [13], [13, 10]} \<and> line_of x \<in> {line, line @ [13]}"
  using assms(2) by (cases rule: segment_cases) (use assms(1) in auto)

text \<open>The same line with the same ending around another text of the same kind.\<close>

lemma line_of_ending:
  assumes "ending \<in> {[], [10], [13], [13, 10 :: nat]}" "line \<noteq> []" "last line \<notin> {10, 13}"
  shows "line_of (line @ ending) = line \<or> line_of (line @ ending) = line @ [13]"
proof -
  obtain l c where "line = l @ [c]" "c \<notin> {10, 13}" using assms(2,3) by (cases line rule: rev_cases) auto
  with assms(1) show ?thesis using strip_suffix_char_simps(4) [of _ "l @ [c]"]
    by (auto simp: line_of_def)
qed

lemma trim_keyed:
  assumes "n \<noteq> []" "\<not> is_whitespace (hd n)"
  shows "trim (n @ 61 # r) = n @ 61 # trim_end r"
proof -
  have "trim_start (n @ 61 # r) = n @ 61 # r" using assms by (cases n) (auto simp: trim_start_def)
  then show ?thesis by (simp add: trim_def trim_end_def is_whitespace_def dropWhile_append3)
qed

lemma trim_end_no_whitespace:
  assumes "\<forall>c \<in> set v. \<not> is_whitespace c"
  shows "trim_end v = v" "trim_end (v @ [13]) = v"
proof -
  have "dropWhile is_whitespace (rev v) = rev v" using assms by (cases "rev v") (auto simp flip: set_rev [of v])
  then show "trim_end v = v" "trim_end (v @ [13]) = v" by (simp_all add: trim_end_def is_whitespace_def)
qed

lemma managed_key:
  assumes "n \<in> set MANAGED_ENV_KEYS"
  shows "n \<noteq> []" "\<not> is_whitespace (hd n)" "hd n \<noteq> 35" "61 \<notin> set n" "10 \<notin> set n" "n \<in> set wanted_keys"
  using assms by (auto simp: MANAGED_ENV_KEYS_def wanted_keys_def lit_def is_whitespace_def)

lemma safe_value_unquote: "list_all safe_value_byte v \<Longrightarrow> unquote v = Inr v"
  by (cases v) (auto simp: unquote_def safe_value_byte_def is_ascii_alphanumeric_def is_ascii_digit_def
      is_ascii_lowercase_def is_ascii_uppercase_def)

lemma safe_value_no_feed: "list_all safe_value_byte v \<Longrightarrow> 10 \<notin> set v"
  by (auto simp: list_all_iff safe_value_byte_def is_ascii_alphanumeric_def is_ascii_digit_def
      is_ascii_lowercase_def is_ascii_uppercase_def)

lemma binding_keyed:
  assumes "n \<in> set MANAGED_ENV_KEYS" "line = n @ 61 # r"
  shows "binding line = and_then (reject_if (byte_len line > 16 * 1024) ''.env line is too long'') (\<lambda>_.
    and_then (unquote (trim_end r)) (\<lambda>value. Inr (Some (n, value))))"
proof -
  note key = managed_key [OF assms(1)]
  have "trim line = n @ 61 # trim_end r" unfolding assms(2) by (rule trim_keyed [OF key(1,2)])
  moreover have "hd (n @ 61 # trim_end r) \<noteq> 35" using key(1,3) by simp
  ultimately show ?thesis using key by (simp add: binding_def split_once_keyed)
qed

lemma keyed_ending:
  assumes "ending \<in> {[], [10], [13], [13, 10 :: nat]}" "line \<noteq> []" "10 \<notin> set line"
  shows "10 \<notin> set (butlast (line @ ending))" "last (line @ ending) = 10 \<longleftrightarrow> last ending = 10 \<and> ending \<noteq> []"
proof -
  have "last line \<noteq> 10" using assms(2,3) by (metis last_in_set)
  with assms show "10 \<notin> set (butlast (line @ ending))" "last (line @ ending) = 10 \<longleftrightarrow> last ending = 10 \<and> ending \<noteq> []"
    by (auto simp: butlast_append dest: in_set_butlastD)
qed

text \<open>What the values must satisfy: no white space, and a line that is not too long.\<close>

definition fits :: "rstr \<times> rstr \<Rightarrow> bool" where
  "fits b \<longleftrightarrow> (\<forall>c \<in> set (snd b). \<not> is_whitespace c) \<and> byte_len (fst b @ 61 # snd b @ [13]) \<le> 16 * 1024"

lemma rewritten_segment:
  assumes "matched updates x = Some (n, v)" "10 \<notin> set (butlast x)" "n \<in> set MANAGED_ENV_KEYS"
    "list_all safe_value_byte v" "fits (n, v)"
  shows "binding (line_of (rewritten updates x)) = Inr (Some (n, v))"
    "rewritten updates x \<noteq> []" "10 \<notin> set (butlast (rewritten updates x))" "last x = 10 \<longrightarrow> last (rewritten updates x) = 10"
    "binding (line_of x) = Inr b \<Longrightarrow> \<exists>w. b = Some (n, w)"
proof -
  obtain line ending where parts: "segment_parts x = (line, ending)" by fastforce
  have sp: "x = line @ ending" "10 \<notin> set line" "ending \<in> {[], [10], [13], [13, 10]}" "line_of x \<in> {line, line @ [13]}"
    using segment_parts_eq [OF parts assms(2)] by blast+
  note key = managed_key [OF assms(3)]
  from assms(1) parts obtain raw where raw: "line = n @ 61 # raw"
    by (auto simp: matched_def split: option.splits prod.splits dest: split_once_SomeD)
  have new: "rewritten updates x = (n @ 61 # v) @ ending" using assms(1) parts by (simp add: rewritten_def)
  have white: "\<forall>c \<in> set v. \<not> is_whitespace c" and len: "byte_len (n @ 61 # v @ [13]) \<le> 16 * 1024"
    using assms(5) by (auto simp: fits_def)
  have "last (n @ 61 # v) \<notin> {10, 13}" 
  proof (cases "v = []")
    case False
    then have "\<not> is_whitespace (last v)" using white by simp
    then show ?thesis using False by (auto simp: is_whitespace_def)
  qed simp
  then have "line_of (rewritten updates x) \<in> {n @ 61 # v, n @ 61 # v @ [13]}"
    unfolding new using line_of_ending [OF sp(3), of "n @ 61 # v"] by auto
  then show "binding (line_of (rewritten updates x)) = Inr (Some (n, v))"
    using binding_keyed [OF assms(3), OF refl, of v] binding_keyed [OF assms(3), OF refl, of "v @ [13]"] len
      trim_end_no_whitespace [OF white] safe_value_unquote [OF assms(4)]
    by (auto simp: byte_len_def)
  have "10 \<notin> set (n @ 61 # v)" using key(5) safe_value_no_feed [OF assms(4)] by simp
  then show "10 \<notin> set (butlast (rewritten updates x))" "last x = 10 \<longrightarrow> last (rewritten updates x) = 10"
    using keyed_ending [OF sp(3), of "n @ 61 # v"] keyed_ending(2) [OF sp(3) _ sp(2)] raw
    by (simp_all only: new) (simp_all add: sp(1))
  show "rewritten updates x \<noteq> []" by (simp add: new)
  have "line_of x = n @ 61 # raw \<or> line_of x = n @ 61 # raw @ [13]"
    using sp(4) raw by auto
  then show "\<exists>w. b = Some (n, w)" if "binding (line_of x) = Inr b"
    using that binding_keyed [OF assms(3)] by (auto simp: and_then_eq_Inr)
qed

lemma rewritten_bindings:
  assumes "\<forall>x \<in> set xs. 10 \<notin> set (butlast x)" "bindings (map line_of xs) = Some bs"
    and "\<forall>x \<in> set xs. \<forall>n v. matched updates x = Some (n, v) \<longrightarrow>
      n \<in> set MANAGED_ENV_KEYS \<and> list_all safe_value_byte v \<and> fits (n, v)"
  shows "\<exists>bs'. bindings (map (\<lambda>x. line_of (rewritten updates x)) xs) = Some bs' \<and> map fst bs' = map fst bs
    \<and> (\<forall>x \<in> set xs. \<forall>n v. matched updates x = Some (n, v) \<longrightarrow> (n, v) \<in> set bs')
    \<and> (\<forall>k. map_of updates k = None \<longrightarrow> map_of bs' k = map_of bs k)"
  using assms
proof (induction xs arbitrary: bs)
  case (Cons x xs)
  obtain b where b: "binding (line_of x) = Inr b" using Cons.prems(2) by (auto split: sum.splits)
  obtain bs0 where bs0: "bindings (map line_of xs) = Some bs0" "bs = (case b of None \<Rightarrow> bs0 | Some nv \<Rightarrow> nv # bs0)"
    using Cons.prems(2) b by (auto split: option.splits)
  have later: "\<forall>x \<in> set xs. 10 \<notin> set (butlast x)" "\<forall>x \<in> set xs. \<forall>n v. matched updates x = Some (n, v) \<longrightarrow>
      n \<in> set MANAGED_ENV_KEYS \<and> list_all safe_value_byte v \<and> fits (n, v)"
    using Cons.prems(1,3) by (meson list.set_intros(2))+
  from Cons.IH [OF later(1) bs0(1) later(2)] obtain bs' where
    IH: "bindings (map (\<lambda>x. line_of (rewritten updates x)) xs) = Some bs'" "map fst bs' = map fst bs0"
      "\<forall>x \<in> set xs. \<forall>n v. matched updates x = Some (n, v) \<longrightarrow> (n, v) \<in> set bs'"
      "\<forall>k. map_of updates k = None \<longrightarrow> map_of bs' k = map_of bs0 k" by blast
  show ?case
  proof (cases "matched updates x")
    case None
    then have "rewritten updates x = x" by (simp add: rewritten_def)
    with None b bs0(2) IH show ?thesis by (cases b) auto
  next
    case (Some nv)
    obtain n v where nv: "nv = (n, v)" by fastforce
    have seg: "10 \<notin> set (butlast x)" "n \<in> set MANAGED_ENV_KEYS" "list_all safe_value_byte v" "fits (n, v)"
      using Cons.prems(1,3) Some nv by auto
    note new = rewritten_segment [OF Some [unfolded nv] seg]
    obtain w where "b = Some (n, w)" using new(5) [OF b] by blast
    moreover have "map_of updates n \<noteq> None"
      using Some nv by (auto simp: matched_def split: option.splits)
    ultimately show ?thesis using new(1) Some nv b bs0(2) IH by auto
  qed
qed simp

text \<open>
  The file after a replacement projects again: the replaced keys to their new values, every
  other key to the value it had.
\<close>

lemma replace_then_project:
  assumes "project_environment env = Inr vals" "replace_environment_values env updates = Inr env'"
    and "fst ` set updates \<subseteq> set MANAGED_ENV_KEYS" "distinct (map fst updates)" "\<forall>b \<in> set updates. fits b"
  shows "\<exists>vals'. project_environment env' = Inr vals' \<and> (\<forall>(k, v) \<in> set updates. map_of vals' k = Some v)
    \<and> (\<forall>k. k \<notin> fst ` set updates \<longrightarrow> map_of vals' k = map_of vals k)"
proof -
  let ?xs = "split_inclusive 10 env"
  obtain out replaced where rs: "replace_segments updates [] ?xs = Inr (out, replaced)" "env' = concat out"
      "\<forall>(k, v) \<in> set updates. k \<in> set replaced"
    using assms(2)
    by (auto simp: replace_environment_values_def and_then_eq_Inr reject_if_eq_Inr list_ex_iff split: prod.splits)
  note ok = replace_segments_ok [OF rs(1)]
  have out: "out = map (rewritten updates) ?xs" using ok by simp
  have pieces: "\<forall>x \<in> set ys. x \<noteq> [] \<and> 10 \<notin> set (butlast x)" if "segments ys" for ys
    using that by (induction ys rule: segments.induct) auto
  note segs = segments_split_inclusive [of env]
  have matches: "n \<in> set MANAGED_ENV_KEYS \<and> list_all safe_value_byte v \<and> fits (n, v)"
    if "x \<in> set ?xs" "matched updates x = Some (n, v)" for x n v
  proof -
    have "(n, v) \<in> set updates" using that(2) by (auto simp: matched_def dest: map_of_SomeD split: option.splits)
    then have "n \<in> set MANAGED_ENV_KEYS" "fits (n, v)" using assms(3,5) by (force, blast)
    moreover have "list_all safe_value_byte v" using ok that by blast
    ultimately show ?thesis by blast
  qed
  obtain bs where bs: "bindings (map line_of ?xs) = Some bs" "vals = rev bs" "distinct (map fst bs)"
    using assms(1) by (auto simp: project_environment_def str_lines_def project_lines_bindings)
  obtain bs' where bs': "bindings (map (\<lambda>x. line_of (rewritten updates x)) ?xs) = Some bs'" "map fst bs' = map fst bs"
      "\<forall>x \<in> set ?xs. \<forall>n v. matched updates x = Some (n, v) \<longrightarrow> (n, v) \<in> set bs'"
      "\<forall>k. map_of updates k = None \<longrightarrow> map_of bs' k = map_of bs k"
  proof -
    have "\<forall>x \<in> set ?xs. 10 \<notin> set (butlast x)" using pieces [OF segs] by blast
    from rewritten_bindings [OF this bs(1)] matches show thesis using that by blast
  qed
  have "list_all2 (\<lambda>x y. y \<noteq> [] \<and> 10 \<notin> set (butlast y) \<and> (last x = 10 \<longrightarrow> last y = 10)) ?xs out"
    unfolding out list_all2_map2
  proof (rule list.rel_refl_strong)
    fix x assume x: "x \<in> set ?xs"
    show "rewritten updates x \<noteq> [] \<and> 10 \<notin> set (butlast (rewritten updates x))
        \<and> (last x = 10 \<longrightarrow> last (rewritten updates x) = 10)"
    proof (cases "matched updates x")
      case None
      with x pieces [OF segs] show ?thesis by (simp add: rewritten_def)
    next
      case (Some nv)
      with x pieces [OF segs] matches [OF x] show ?thesis
        by (cases nv) (simp add: rewritten_segment(2,3,4))
    qed
  qed
  then have "segments out" using segs by (rule segments_replace)
  then have "str_lines env' = map (\<lambda>x. line_of (rewritten updates x)) ?xs"
    by (simp add: str_lines_def rs(2) split_inclusive_concat) (simp add: out comp_def)
  then have project: "project_environment env' = Inr (rev bs')"
    using bs' bs(3) by (simp add: project_environment_def project_lines_bindings)
  have rev_same: "map_of (rev ys) = map_of ys" if "distinct (map fst ys)" for ys :: "(rstr \<times> rstr) list"
    using that by (simp add: map_of_inject_set rev_map [symmetric])
  have "map_of (rev bs') k = Some v" if "(k, v) \<in> set updates" for k v
  proof -
    have "k \<in> set replaced" using rs(3) that by blast
    then obtain x w where "x \<in> set ?xs" "matched updates x = Some (k, w)" using ok by auto
    moreover from this have "w = v" using that assms(4) by (auto simp: matched_def split: option.splits)
    ultimately have "(k, v) \<in> set bs'" using bs'(3) by blast
    then show ?thesis using bs'(2) bs(3) by (simp add: rev_same)
  qed
  moreover have "map_of (rev bs') k = map_of vals k" if "k \<notin> fst ` set updates" for k
    using bs' bs that by (simp add: rev_same map_of_eq_None_iff)
  ultimately show ?thesis using project by auto
qed

end
