(* ===== verification/Dlc_Lifecycle.thy ===== *)
theory Dlc_Lifecycle
  imports Installation Dlc_Environment
begin

text \<open>
  The lifecycle of bundled modules (\<open>apps/cli/src/bootstrap/dlc_lifecycle.rs\<close> with the catalog
  and the pair check of \<open>apps/cli/src/bootstrap.rs\<close>): a deployment is loaded from three files,
  a command changes intent, lock and environment together, and \<open>persist\<close> checks the result and
  yields the three texts to write. A failing \<open>expect\<close> is the error \<open>panic\<close>.
\<close>

section \<open>The catalog\<close>

record OfficialDlc =
  od_alias :: rstr
  od_id :: rstr
  od_runtime_feature :: rstr
  od_source :: rstr

definition official :: "string \<Rightarrow> string \<Rightarrow> string \<Rightarrow> OfficialDlc" where
  "official alias name feature =
     \<lparr>od_alias = lit alias, od_id = lit (''org.open-soverign-blog.'' @ name), od_runtime_feature = lit feature,
      od_source = lit (''plugins/official/'' @ alias @ ''/plugin.toml'')\<rparr>"

definition OFFICIAL_DLCS :: "OfficialDlc list" where
  "OFFICIAL_DLCS =
     [official ''ads'' ''monetization-policy'' ''ads'',
      official ''ai-authorship'' ''ai-authorship'' ''ai_authorship'',
      official ''ai-summary'' ''ai-summary'' ''ai_summary'',
      official ''code-runner'' ''code-runner-client'' ''code_runner'',
      official ''comments'' ''comments'' ''comments'',
      official ''external-auth'' ''external-auth'' ''external_auth'',
      official ''home-curation'' ''home-curation'' ''home_curation'',
      official ''rbac'' ''rbac'' ''rbac'',
      official ''release-check'' ''release-check'' ''release_check'',
      official ''seo'' ''seo'' ''seo'',
      official ''social-embeds'' ''social-embeds'' ''social_embeds'']"

definition find_official_dlc :: "rstr \<Rightarrow> OfficialDlc option" where
  "find_official_dlc name =
     (let normalized = map (\<lambda>c. if c = 95 then 45 else c) (to_ascii_lowercase name) in
      find (\<lambda>d. od_id d = normalized \<or> od_alias d = normalized
        \<or> (od_alias d = lit ''code-runner'' \<and> normalized = lit ''code-runner-client'')
        \<or> (od_alias d = lit ''external-auth'' \<and> normalized = lit ''external'')) OFFICIAL_DLCS)"

text \<open>
  The tool of one release: its version, the manifests compiled into it (by their path), and the
  text forms of intent and lock, which the TOML and JSON crates own.
\<close>

record ('v, 'r) tool = "('v, 'r) packages" +
  tl_engine :: rstr
  tl_bundle :: "rstr \<Rightarrow> rstr"
  tl_intent_text :: "InstallationIntent \<Rightarrow> rstr"
  tl_intent_of_text :: "rstr \<Rightarrow> InstallationIntent option"
  tl_lock_text :: "json \<Rightarrow> rstr"
  tl_json_of_text :: "rstr \<Rightarrow> json option"

definition CONFIG_SCHEMA :: rstr where
  "CONFIG_SCHEMA = lit ''open-soverign-blog/2''"

definition DATABASE_SCHEMA_VERSION :: nat where
  "DATABASE_SCHEMA_VERSION = 9"

definition INTENT_LIMIT :: nat where
  "INTENT_LIMIT = 512 * 1024"

definition LOCK_LIMIT :: nat where
  "LOCK_LIMIT = 2 * 1024 * 1024"

definition ENV_LIMIT :: nat where
  "ENV_LIMIT = 1024 * 1024"

record Deployment =
  dp_intent_original :: rstr
  dp_lock_original :: rstr
  dp_env_original :: rstr
  dp_env_values :: "(rstr \<times> rstr) list"
  dp_intent :: InstallationIntent
  dp_lock :: InstallationLock

text \<open>The three files of a deployment.\<close>

record deployment_files =
  df_intent :: rstr
  df_lock :: rstr
  df_env :: rstr

section \<open>Resolution\<close>

definition official_manifest_text :: "('v, 'r) tool \<Rightarrow> OfficialDlc \<Rightarrow> rstr" where
  "official_manifest_text T d = tl_bundle T (od_source d)"

definition parse_official_manifest :: "('v, 'r) tool \<Rightarrow> OfficialDlc \<Rightarrow> string + PluginManifest" where
  "parse_official_manifest T d =
     map_err (\<lambda>_. ''bundled official manifest is invalid'') (manifest_from_toml T (official_manifest_text T d))"

definition official_manifest_digest :: "('v, 'r) tool \<Rightarrow> OfficialDlc \<Rightarrow> rstr" where
  "official_manifest_digest T d = sha256_hex (pk_extern T) (as_bytes (official_manifest_text T d))"

definition official_target :: "rstr \<Rightarrow> string + OfficialDlc" where
  "official_target raw =
     and_then (reject_if (47 \<in> set raw \<or> 58 \<in> set raw \<or> 92 \<in> set raw)
        ''DLC targets must be a stable bundled alias or full id; paths and URLs are rejected'') (\<lambda>_.
       ok_or ''unknown official DLC'' (find_official_dlc raw))"

definition parse_dlc_spec :: "('v, 'r) tool \<Rightarrow> rstr \<Rightarrow> rstr option \<Rightarrow> string + OfficialDlc \<times> rstr" where
  "parse_dlc_spec T raw explicit =
     (let (name, suffix) = (case rsplit_once [64] raw of None \<Rightarrow> (raw, None) | Some (name, version) \<Rightarrow> (name, Some version)) in
      and_then (reject_if (name = []) ''DLC id is required before @SEMVER_REQ'') (\<lambda>_.
      and_then (reject_if (explicit \<noteq> None \<and> suffix \<noteq> None)
         ''provide a SemVer request either with @SEMVER_REQ or --version, not both'') (\<lambda>_.
      and_then (official_target name) (\<lambda>d.
      and_then (parse_official_manifest T d) (\<lambda>manifest.
      let requirement = (case explicit of Some v \<Rightarrow> v
            | None \<Rightarrow> (case suffix of Some v \<Rightarrow> v | None \<Rightarrow> 94 # pm_version manifest)) in
      and_then (map_err (\<lambda>_. ''invalid request'') (validate_requested T
         \<lparr>rq_id = od_id d, rq_version = requirement, rq_enabled = True\<rparr>)) (\<lambda>_.
        Inr (d, requirement)))))))"

fun capability_text :: "Capability \<Rightarrow> rstr" where
  "capability_text ContentRead = lit ''content.read''"
| "capability_text ContentWrite = lit ''content.write''"
| "capability_text ContentPublish = lit ''content.publish''"
| "capability_text AssetsRead = lit ''assets.read''"
| "capability_text AssetsWrite = lit ''assets.write''"
| "capability_text OntologyRead = lit ''ontology.read''"
| "capability_text OntologyWrite = lit ''ontology.write''"
| "capability_text CommentsRead = lit ''comments.read''"
| "capability_text CommentsWrite = lit ''comments.write''"
| "capability_text CommentsModerate = lit ''comments.moderate''"
| "capability_text AiInvoke = lit ''ai.invoke''"
| "capability_text AiTool = lit ''ai.tool''"
| "capability_text RenderSlotCapability = lit ''render.slot''"
| "capability_text RoutePublic = lit ''route.public''"
| "capability_text RouteAdmin = lit ''route.admin''"
| "capability_text JobsSchedule = lit ''jobs.schedule''"
| "capability_text NetworkConnect = lit ''network.connect''"
| "capability_text SecretUse = lit ''secret.use''"
| "capability_text StateRead = lit ''state.read''"
| "capability_text StateWrite = lit ''state.write''"
| "capability_text CodeExecute = lit ''code.execute''"

fun schema_reference_to_json :: "SchemaReference \<Rightarrow> json" where
  "schema_reference_to_json (PackagePath p) = JStr p"
| "schema_reference_to_json (InlineSchema m) = JObj (entries m)"

definition config_to_json :: "PluginConfig \<Rightarrow> json" where
  "config_to_json c = JObj
     [(lit ''schema'', schema_reference_to_json (config_schema c)), (lit ''defaults'', JObj (entries (config_defaults c))),
      (lit ''secretBindings'', JArr (map JStr (config_secret_bindings c)))]"

definition resolve_official :: "('v, 'r) tool \<Rightarrow> OfficialDlc \<Rightarrow> rstr \<Rightarrow> bool \<Rightarrow> rstr \<Rightarrow> string + InstalledDlc" where
  "resolve_official T d requirement enabled engine_version =
     and_then (parse_official_manifest T d) (\<lambda>manifest.
     and_then (reject_if (pm_id manifest \<noteq> od_id d) ''bundled DLC catalog id mismatch'') (\<lambda>_.
     and_then (ok_or ''invalid SemVer request'' (pk_requirement T requirement)) (\<lambda>parsed.
     and_then (ok_or ''bundled DLC version is invalid'' (pk_version T (pm_version manifest))) (\<lambda>version.
     and_then (reject_if (\<not> pk_matches T parsed version) ''bundled DLC does not satisfy requested range'') (\<lambda>_.
     and_then (map_err (\<lambda>_. ''core version'') (supports_core T manifest engine_version)) (\<lambda>supported.
     and_then (reject_if (\<not> supported) ''bundled DLC is incompatible with engine'') (\<lambda>_.
       Inr \<lparr>in_id = pm_id manifest, in_requested_version = requirement, in_version = pm_version manifest,
            in_core_compatibility = (case pm_core_compatibility manifest of Some c \<Rightarrow> c | None \<Rightarrow> 61 # engine_version),
            in_manifest_version = pm_manifest_version manifest, in_plugin_api = pm_plugin_api manifest,
            in_source_kind = SourceBundled, in_source = od_source d, in_manifest_sha256 = official_manifest_digest T d,
            in_artifact_sha256 = None, in_enabled = enabled,
            in_approved_capabilities = remdups_adj (sort (map (capability_text \<circ> perm_capability) (pm_permissions manifest))),
            in_config_sha256 = map_option (\<lambda>c. sha256_hex (pk_extern T) (json_text (pk_extern T) (config_to_json c))) (pm_config manifest),
            in_state_version = map_option ps_version (pm_state manifest), in_applied_migrations = []\<rparr>)))))))"

section \<open>Checks of a deployment\<close>

definition verify_bundled_record :: "('v, 'r) tool \<Rightarrow> InstalledDlc \<Rightarrow> string + unit" where
  "verify_bundled_record T d =
     (if in_source_kind d \<noteq> SourceBundled then Inr ()
      else and_then (ok_or ''bundled DLC is not present in this CLI's official catalog'' (find_official_dlc (in_id d))) (\<lambda>o'.
        and_then (parse_official_manifest T o') (\<lambda>manifest.
          reject_if (\<not> (in_source d = od_source o' \<and> in_manifest_sha256 d = official_manifest_digest T o'
             \<and> in_id d = pm_id manifest \<and> in_version d = pm_version manifest
             \<and> in_manifest_version d = pm_manifest_version manifest \<and> in_plugin_api d = pm_plugin_api manifest
             \<and> pm_core_compatibility manifest = Some (in_core_compatibility d)))
            ''bundled DLC lock metadata does not match the manifest bytes compiled into this CLI'')))"

definition verify_bundled_official_manifest_bytes :: "('v, 'r) tool \<Rightarrow> InstallationLock \<Rightarrow> string + unit" where
  "verify_bundled_official_manifest_bytes T l = check_all (verify_bundled_record T) (lk_dlcs l)"

definition verify_intent_lock_pair :: "('v, 'r) tool \<Rightarrow> InstallationIntent \<Rightarrow> InstallationLock \<Rightarrow> string + unit" where
  "verify_intent_lock_pair T i l =
     and_then (map_err (\<lambda>_. ''installation contract is invalid'') (validate_intent T i)) (\<lambda>_.
     and_then (map_err (\<lambda>_. ''installation contract is invalid'') (validate_lock T l)) (\<lambda>_.
     and_then (verify_bundled_official_manifest_bytes T l) (\<lambda>_.
     and_then (reject_if (int_installation_id i \<noteq> lk_installation_id l) ''installation id differs between intent and lock'') (\<lambda>_.
     and_then (reject_if (int_selection i \<noteq> lk_selection l) ''structural selection differs between intent and lock'') (\<lambda>_.
       reject_if (btree_collect (map (\<lambda>d. (rq_id d, (rq_version d, rq_enabled d))) (int_dlcs i))
           \<noteq> btree_collect (map (\<lambda>d. (in_id d, (in_requested_version d, in_enabled d))) (lk_dlcs l)))
         ''requested DLC set differs from exact installed records'')))))"

definition ensure_bundled_official_records :: "('v, 'r) tool \<Rightarrow> InstallationLock \<Rightarrow> string + unit" where
  "ensure_bundled_official_records T l =
     and_then (verify_bundled_official_manifest_bytes T l) (\<lambda>_.
       check_all (\<lambda>d. and_then (ok_or ''DLC is not in this CLI's bundled official catalog'' (find_official_dlc (in_id d))) (\<lambda>o'.
         reject_if (\<not> (in_source_kind d = SourceBundled \<and> in_source d = od_source o'))
           ''DLC is not locked to its bundled official manifest'')) (lk_dlcs l))"

fun join_texts :: "rstr list \<Rightarrow> rstr" where
  "join_texts [] = []"
| "join_texts [t] = t"
| "join_texts (t # ts) = t @ 44 # join_texts ts"

definition enabled_composition :: "InstallationLock \<Rightarrow> string + rstr \<times> rstr" where
  "enabled_composition l =
     and_then (collect_results (\<lambda>d. and_then (ok_or ''unknown bundled DLC'' (find_official_dlc (in_id d))) (\<lambda>o'.
        Inr (in_id d, od_runtime_feature o'))) (filter in_enabled (lk_dlcs l))) (\<lambda>pairs.
       Inr (join_texts (map fst pairs), if pairs = [] then lit ''none'' else join_texts (map snd pairs)))"

fun check_projection :: "(rstr \<times> rstr) list \<Rightarrow> (rstr \<times> rstr) list \<Rightarrow> string + unit" where
  "check_projection values [] = Inr ()"
| "check_projection values ((name, expected) # later) =
     and_then (ok_or ''deployment environment is missing a managed value'' (map_of values name)) (\<lambda>actual.
     and_then (reject_if (actual \<noteq> expected) ''deployment environment differs from the verified installation lock'') (\<lambda>_.
       check_projection values later))"

definition managed_values :: "InstallationLock \<Rightarrow> rstr \<times> rstr \<Rightarrow> (rstr \<times> rstr) list" where
  "managed_values l composition = (case composition of (ids, features) \<Rightarrow>
     [(lit ''OSB_DLC_IDS'', ids), (lit ''OSB_FEATURES'', features), (lit ''OSB_INSTALL_LOCK_DIGEST'', lk_lock_digest l)])"

definition verify_environment_projection :: "InstallationLock \<Rightarrow> (rstr \<times> rstr) list \<Rightarrow> string + unit" where
  "verify_environment_projection l values =
     and_then (enabled_composition l) (\<lambda>composition. check_projection values (managed_values l composition))"

definition read_bounded :: "rstr \<Rightarrow> nat \<Rightarrow> string + rstr" where
  "read_bounded text limit = and_then (reject_if (byte_len text > limit) ''file exceeds its size limit'') (\<lambda>_. Inr text)"

definition intent_from_toml :: "('v, 'r) tool \<Rightarrow> rstr \<Rightarrow> string + InstallationIntent" where
  "intent_from_toml T text =
     and_then (ok_or ''installation contract could not be parsed'' (tl_intent_of_text T text)) (\<lambda>i.
     and_then (map_err (\<lambda>_. ''installation contract is invalid'') (validate_intent T i)) (\<lambda>_. Inr i))"

definition lock_from_text :: "('v, 'r) tool \<Rightarrow> rstr \<Rightarrow> string + InstallationLock" where
  "lock_from_text T text =
     and_then (ok_or ''installation contract could not be parsed'' (Option.bind (tl_json_of_text T text) lock_from_json)) (\<lambda>l.
     and_then (map_err (\<lambda>_. ''installation contract is invalid'') (validate_lock T l)) (\<lambda>_. Inr l))"

definition load_deployment :: "('v, 'r) tool \<Rightarrow> deployment_files \<Rightarrow> string + Deployment" where
  "load_deployment T fs =
     and_then (read_bounded (df_intent fs) INTENT_LIMIT) (\<lambda>intent_original.
     and_then (read_bounded (df_lock fs) LOCK_LIMIT) (\<lambda>lock_original.
     and_then (read_bounded (df_env fs) ENV_LIMIT) (\<lambda>env_original.
     and_then (intent_from_toml T intent_original) (\<lambda>i.
     and_then (lock_from_text T lock_original) (\<lambda>l.
     and_then (verify_intent_lock_pair T i l) (\<lambda>_.
     and_then (ensure_bundled_official_records T l) (\<lambda>_.
     and_then (project_environment env_original) (\<lambda>values.
     and_then (verify_environment_projection l values) (\<lambda>_.
       Inr \<lparr>dp_intent_original = intent_original, dp_lock_original = lock_original, dp_env_original = env_original,
            dp_env_values = values, dp_intent = i, dp_lock = l\<rparr>)))))))))"

definition ensure_cli_matches_lock :: "('v, 'r) tool \<Rightarrow> InstallationLock \<Rightarrow> string + unit" where
  "ensure_cli_matches_lock T l =
     reject_if (\<not> (eng_version (lk_engine l) = tl_engine T \<and> eng_config_schema_version (lk_engine l) = CONFIG_SCHEMA
        \<and> eng_database_schema_version (lk_engine l) = DATABASE_SCHEMA_VERSION
        \<and> eng_plugin_api (lk_engine l) = PLUGIN_API_VERSION))
       ''ordinary DLC maintenance requires the matching engine CLI''"

definition by_id :: "InstalledDlc list \<Rightarrow> rstr \<Rightarrow> InstalledDlc option" where
  "by_id ds i = row_where (\<lambda>d. in_id d = i) (rev ds)"

definition check_dependency :: "('v, 'r) tool \<Rightarrow> InstallationLock \<Rightarrow> PluginDependency \<Rightarrow> string + unit" where
  "check_dependency T l dep =
     and_then (ok_or ''enabled DLC requires missing DLC'' (by_id (lk_dlcs l) (dep_id dep))) (\<lambda>resolved.
     and_then (reject_if (\<not> in_enabled resolved) ''enabled DLC requires enabled DLC'') (\<lambda>_.
     and_then (ok_or ''official DLC dependency range is invalid'' (pk_requirement T (dep_version dep))) (\<lambda>requirement.
     and_then (ok_or ''locked DLC version is invalid'' (pk_version T (in_version resolved))) (\<lambda>version.
       reject_if (\<not> pk_matches T requirement version) ''enabled DLC requires another version''))))"

definition validate_enabled_dependencies :: "('v, 'r) tool \<Rightarrow> InstallationLock \<Rightarrow> string + unit" where
  "validate_enabled_dependencies T l =
     check_all (\<lambda>d. and_then (ok_or ''panic'' (find_official_dlc (in_id d))) (\<lambda>o'.
       and_then (parse_official_manifest T o') (\<lambda>manifest.
         check_all (check_dependency T l) (filter (\<lambda>dep. \<not> dep_optional dep) (pm_dependencies manifest)))))
      (filter in_enabled (lk_dlcs l))"

definition ensure_no_enabled_dependents :: "('v, 'r) tool \<Rightarrow> InstallationLock \<Rightarrow> rstr \<Rightarrow> string + unit" where
  "ensure_no_enabled_dependents T l target =
     check_all (\<lambda>d. and_then (ok_or ''panic'' (find_official_dlc (in_id d))) (\<lambda>o'.
       and_then (parse_official_manifest T o') (\<lambda>manifest.
         reject_if (list_ex (\<lambda>dep. \<not> dep_optional dep \<and> dep_id dep = target) (pm_dependencies manifest))
           ''cannot disable/remove; an enabled DLC depends on it'')))
      (filter (\<lambda>d. in_enabled d \<and> in_id d \<noteq> target) (lk_dlcs l))"

definition value_is_true :: "Deployment \<Rightarrow> rstr \<Rightarrow> bool" where
  "value_is_true dp name =
     (case map_of (dp_env_values dp) name of None \<Rightarrow> False | Some v \<Rightarrow> to_ascii_lowercase v = lit ''true'')"

definition ensure_not_required_by_runtime :: "Deployment \<Rightarrow> OfficialDlc \<Rightarrow> string + unit" where
  "ensure_not_required_by_runtime dp target =
     (if od_runtime_feature target = lit ''comments'' \<and> value_is_true dp (lit ''OSB_COMMENTS'')
      then Inl ''cannot disable/remove comments while OSB_COMMENTS=true''
      else if od_runtime_feature target = lit ''rbac'' \<and> value_is_true dp (lit ''OSB_COLLABORATION'')
      then Inl ''cannot disable/remove rbac while OSB_COLLABORATION=true''
      else if od_runtime_feature target = lit ''external_auth''
          \<and> (sel_admin_auth (int_selection (dp_intent dp)) = AuthExternal
             \<or> map_of (dp_env_values dp) (lit ''OSB_AUTH_MODE'') \<in> {Some (lit ''oauth''), Some (lit ''local_and_oauth'')})
      then Inl ''cannot disable/remove external-auth while administrator or reader OAuth is selected''
      else Inr ())"

section \<open>Changes\<close>

text \<open>\<open>iter_mut().find(..)\<close> and an assignment: the first match is changed.\<close>

fun update_first :: "('a \<Rightarrow> bool) \<Rightarrow> ('a \<Rightarrow> 'a) \<Rightarrow> 'a list \<Rightarrow> 'a list" where
  "update_first p f [] = []"
| "update_first p f (x # xs) = (if p x then f x # xs else x # update_first p f xs)"

definition push_history ::
  "InstallationLock \<Rightarrow> DlcHistoryAction \<Rightarrow> rstr \<Rightarrow> rstr option \<Rightarrow> rstr option \<Rightarrow> rstr \<Rightarrow> InstallationLock" where
  "push_history l action i from to engine = l\<lparr>lk_history := lk_history l @
     [\<lparr>hist_sequence = length (lk_history l) + 1, hist_action = action, hist_dlc_id = i, hist_from_version = from,
       hist_to_version = to, hist_engine_version = engine\<rparr>]\<rparr>"

definition normalize_contracts :: "Deployment \<Rightarrow> Deployment" where
  "normalize_contracts dp = dp\<lparr>
     dp_intent := (dp_intent dp)\<lparr>int_dlcs := sort_key rq_id (int_dlcs (dp_intent dp))\<rparr>,
     dp_lock := (dp_lock dp)\<lparr>lk_dlcs := sort_key in_id (lk_dlcs (dp_lock dp)),
       lk_retained_dlcs := sort_key rt_id (lk_retained_dlcs (dp_lock dp))\<rparr>\<rparr>"

definition intent_to_toml_pretty :: "('v, 'r) tool \<Rightarrow> InstallationIntent \<Rightarrow> string + rstr" where
  "intent_to_toml_pretty T i =
     and_then (map_err (\<lambda>_. ''installation contract is invalid'') (validate_intent T i)) (\<lambda>_.
       let rendered = tl_intent_text T i in
       Inr (if rendered \<noteq> [] \<and> last rendered = 10 then rendered else rendered @ [10]))"

definition lock_to_pretty_json :: "('v, 'r) tool \<Rightarrow> InstallationLock \<Rightarrow> string + rstr" where
  "lock_to_pretty_json T l =
     and_then (map_err (\<lambda>_. ''installation contract is invalid'') (validate_lock T l)) (\<lambda>_.
       Inr (tl_lock_text T (lock_to_json l) @ [10]))"

definition persist :: "('v, 'r) tool \<Rightarrow> Deployment \<Rightarrow> string + deployment_files" where
  "persist T dp =
     and_then (validate_enabled_dependencies T (dp_lock dp)) (\<lambda>_.
     let l = refresh_digest T (dp_lock dp) in
     and_then (verify_intent_lock_pair T (dp_intent dp) l) (\<lambda>_.
     and_then (intent_to_toml_pretty T (dp_intent dp)) (\<lambda>intent_text.
     and_then (lock_to_pretty_json T l) (\<lambda>lock_text.
     and_then (enabled_composition l) (\<lambda>composition.
     and_then (replace_environment_values (dp_env_original dp) (managed_values l composition)) (\<lambda>env_text.
       Inr \<lparr>df_intent = intent_text, df_lock = lock_text, df_env = env_text\<rparr>))))))"

definition unchanged_files :: "Deployment \<Rightarrow> deployment_files" where
  "unchanged_files dp = \<lparr>df_intent = dp_intent_original dp, df_lock = dp_lock_original dp, df_env = dp_env_original dp\<rparr>"

section \<open>Commands\<close>

definition add_dlc :: "('v, 'r) tool \<Rightarrow> rstr \<Rightarrow> rstr option \<Rightarrow> Deployment \<Rightarrow> string + Deployment option" where
  "add_dlc T raw version dp =
     and_then (ensure_cli_matches_lock T (dp_lock dp)) (\<lambda>_.
     and_then (parse_dlc_spec T raw version) (\<lambda>(d, requirement).
     and_then (reject_if (list_ex (\<lambda>r. rq_id r = od_id d) (int_dlcs (dp_intent dp)))
        ''DLC is already installed; use enable or upgrade'') (\<lambda>_.
     and_then (resolve_official T d requirement True (tl_engine T)) (\<lambda>resolved.
     let l = dp_lock dp;
         retained = row_where (\<lambda>r. rt_id r = od_id d) (lk_retained_dlcs l);
         l = (case retained of None \<Rightarrow> l | Some r \<Rightarrow> l\<lparr>lk_retained_dlcs := remove1 r (lk_retained_dlcs l)\<rparr>);
         resolved = (case retained of None \<Rightarrow> resolved
           | Some r \<Rightarrow> resolved\<lparr>in_state_version := rt_state_version r, in_applied_migrations := rt_applied_migrations r\<rparr>);
         i = (dp_intent dp)\<lparr>int_dlcs := int_dlcs (dp_intent dp) @ [\<lparr>rq_id = od_id d, rq_version = requirement, rq_enabled = True\<rparr>]\<rparr>;
         l = push_history l DlcInstalled (od_id d) None (Some (in_version resolved)) (tl_engine T);
         l = l\<lparr>lk_dlcs := lk_dlcs l @ [resolved]\<rparr> in
       Inr (Some (normalize_contracts (dp\<lparr>dp_intent := i, dp_lock := l\<rparr>)))))))"

definition set_enabled :: "('v, 'r) tool \<Rightarrow> rstr \<Rightarrow> bool \<Rightarrow> Deployment \<Rightarrow> string + Deployment option" where
  "set_enabled T raw enabled dp =
     and_then (ensure_cli_matches_lock T (dp_lock dp)) (\<lambda>_.
     and_then (official_target raw) (\<lambda>d.
     and_then (if enabled then Inr () else
        and_then (ensure_not_required_by_runtime dp d) (\<lambda>_. ensure_no_enabled_dependents T (dp_lock dp) (od_id d))) (\<lambda>_.
     and_then (ok_or ''DLC is not installed'' (row_where (\<lambda>r. rq_id r = od_id d) (int_dlcs (dp_intent dp)))) (\<lambda>_.
     and_then (ok_or ''panic'' (row_where (\<lambda>x. in_id x = od_id d) (lk_dlcs (dp_lock dp)))) (\<lambda>installed.
     if in_enabled installed = enabled then Inr None
     else
       let i = (dp_intent dp)\<lparr>int_dlcs := update_first (\<lambda>r. rq_id r = od_id d) (\<lambda>r. r\<lparr>rq_enabled := enabled\<rparr>) (int_dlcs (dp_intent dp))\<rparr>;
           l = (dp_lock dp)\<lparr>lk_dlcs := update_first (\<lambda>x. in_id x = od_id d) (\<lambda>x. x\<lparr>in_enabled := enabled\<rparr>) (lk_dlcs (dp_lock dp))\<rparr>;
           l = push_history l (if enabled then DlcEnabled else DlcDisabled) (od_id d)
             (Some (in_version installed)) (Some (in_version installed)) (tl_engine T) in
       Inr (Some (normalize_contracts (dp\<lparr>dp_intent := i, dp_lock := l\<rparr>))))))))"

definition carry_state :: "InstalledDlc \<Rightarrow> InstalledDlc \<Rightarrow> InstalledDlc" where
  "carry_state old new = new\<lparr>in_enabled := in_enabled old, in_applied_migrations := in_applied_migrations old\<rparr>"

definition ensure_immutable_release :: "InstalledDlc \<Rightarrow> InstalledDlc \<Rightarrow> string + unit" where
  "ensure_immutable_release old new =
     reject_if (in_version old = in_version new \<and> in_manifest_sha256 old \<noteq> in_manifest_sha256 new)
       ''official DLC has different manifest bytes in the candidate catalog''"

text \<open>One request resolved again: the new record and, where the version advances, the transition.\<close>

definition resolve_again ::
  "('v, 'r) tool \<Rightarrow> rstr \<Rightarrow> OfficialDlc \<Rightarrow> RequestedDlc \<Rightarrow> InstalledDlc \<Rightarrow>
   string + InstalledDlc \<times> (rstr \<times> rstr \<times> rstr) list" where
  "resolve_again T engine d request old =
     and_then (resolve_official T d (rq_version request) (rq_enabled request) engine) (\<lambda>new.
     let new = carry_state old new in
     and_then (ensure_immutable_release old new) (\<lambda>_.
     and_then (ok_or ''locked DLC version is invalid'' (pk_version T (in_version old))) (\<lambda>old_version.
     and_then (ok_or ''bundled DLC version is invalid'' (pk_version T (in_version new))) (\<lambda>new_version.
     and_then (reject_if (pk_less T new_version old_version) ''DLC would downgrade'') (\<lambda>_.
       Inr (new, if pk_less T old_version new_version then [(rq_id request, in_version old, in_version new)] else []))))))"

fun upgrade_requests ::
  "('v, 'r) tool \<Rightarrow> InstalledDlc list \<Rightarrow> rstr option \<Rightarrow> rstr option \<Rightarrow> RequestedDlc list \<Rightarrow>
   string + RequestedDlc list \<times> InstalledDlc list \<times> (rstr \<times> rstr \<times> rstr) list \<times> bool" where
  "upgrade_requests T olds target version [] = Inr ([], [], [], False)"
| "upgrade_requests T olds target version (request # later) =
     and_then (ok_or ''panic'' (by_id olds (rq_id request))) (\<lambda>old.
     if target \<noteq> None \<and> target \<noteq> Some (rq_id request)
     then and_then (upgrade_requests T olds target version later) (\<lambda>(requests, resolved, transitions, changed).
       Inr (request # requests, old # resolved, transitions, changed))
     else
       and_then (case version of None \<Rightarrow> Inr request
         | Some requirement \<Rightarrow>
             and_then (map_err (\<lambda>_. ''invalid request'') (validate_requested T (request\<lparr>rq_version := requirement\<rparr>))) (\<lambda>_.
               Inr (request\<lparr>rq_version := requirement\<rparr>))) (\<lambda>request.
       and_then (ok_or ''panic'' (find_official_dlc (rq_id request))) (\<lambda>d.
       and_then (resolve_again T (tl_engine T) d request old) (\<lambda>(new, transition).
       and_then (upgrade_requests T olds target version later) (\<lambda>(requests, resolved, transitions, changed).
         Inr (request # requests, new # resolved, transition @ transitions,
              new \<noteq> old \<or> rq_version request \<noteq> in_requested_version old \<or> changed))))))"

definition push_transitions :: "(rstr \<times> rstr \<times> rstr) list \<Rightarrow> rstr \<Rightarrow> InstallationLock \<Rightarrow> InstallationLock" where
  "push_transitions transitions engine l =
     fold (\<lambda>(i, from, to) l. push_history l DlcUpgraded i (Some from) (Some to) engine) transitions l"

definition upgrade_dlc :: "('v, 'r) tool \<Rightarrow> rstr option \<Rightarrow> rstr option \<Rightarrow> Deployment \<Rightarrow> string + Deployment option" where
  "upgrade_dlc T target version dp =
     and_then (ensure_cli_matches_lock T (dp_lock dp)) (\<lambda>_.
     and_then (map_transpose official_target target) (\<lambda>found.
     let target_id = map_option od_id found in
     and_then (reject_if (target_id = None \<and> version \<noteq> None) ''--version requires a single DLC target'') (\<lambda>_.
     and_then (case target_id of None \<Rightarrow> Inr ()
       | Some i \<Rightarrow> reject_if (\<not> list_ex (\<lambda>r. rq_id r = i) (int_dlcs (dp_intent dp))) ''DLC is not installed'') (\<lambda>_.
     and_then (upgrade_requests T (lk_dlcs (dp_lock dp)) target_id version (int_dlcs (dp_intent dp)))
       (\<lambda>(requests, resolved, transitions, changed).
     and_then (reject_if (target_id = None \<and> requests = []) ''no DLC is installed'') (\<lambda>_.
     if \<not> changed then Inr None
     else
       let i = (dp_intent dp)\<lparr>int_dlcs := requests\<rparr>;
           l = push_transitions transitions (tl_engine T) ((dp_lock dp)\<lparr>lk_dlcs := resolved\<rparr>) in
       Inr (Some (normalize_contracts (dp\<lparr>dp_intent := i, dp_lock := l\<rparr>)))))))))"

fun reconcile_requests ::
  "('v, 'r) tool \<Rightarrow> rstr \<Rightarrow> InstalledDlc list \<Rightarrow> RequestedDlc list \<Rightarrow>
   string + InstalledDlc list \<times> (rstr \<times> rstr \<times> rstr) list" where
  "reconcile_requests T to olds [] = Inr ([], [])"
| "reconcile_requests T to olds (request # later) =
     and_then (ok_or ''requested DLC is not bundled by candidate engine'' (find_official_dlc (rq_id request))) (\<lambda>d.
     and_then (ok_or ''panic'' (by_id olds (rq_id request))) (\<lambda>old.
     and_then (resolve_again T to d request old) (\<lambda>(new, transition).
     and_then (reconcile_requests T to olds later) (\<lambda>(resolved, transitions).
       Inr (new # resolved, transition @ transitions)))))"

definition reconcile ::
  "('v, 'r) tool \<Rightarrow> rstr \<Rightarrow> rstr \<Rightarrow> rstr \<Rightarrow> rstr option \<Rightarrow> Deployment \<Rightarrow> string + Deployment option" where
  "reconcile T from to source artifact dp =
     and_then (reject_if (to \<noteq> tl_engine T) ''candidate reconciliation must run from target CLI'') (\<lambda>_.
     and_then (reject_if (eng_version (lk_engine (dp_lock dp)) \<noteq> from)
        ''engine reconciliation source differs from the current lock'') (\<lambda>_.
     and_then (ok_or ''--from must be SemVer'' (pk_version T from)) (\<lambda>from_version.
     and_then (ok_or ''--to must be SemVer'' (pk_version T to)) (\<lambda>to_version.
     and_then (reject_if (\<not> pk_less T from_version to_version)
        ''candidate engine version must be greater than the source version'') (\<lambda>_.
     and_then (reject_if (bad_digest artifact) ''--artifact-sha256 must be 64 lowercase hex characters'') (\<lambda>_.
     and_then (reject_if (trim source = [] \<or> byte_len source > 2048) ''--source is invalid'') (\<lambda>_.
     and_then (reconcile_requests T to (lk_dlcs (dp_lock dp)) (int_dlcs (dp_intent dp))) (\<lambda>(resolved, transitions).
     let l = dp_lock dp;
         l = l\<lparr>lk_engine := \<lparr>eng_version = to, eng_config_schema_version = CONFIG_SCHEMA,
               eng_database_schema_version = DATABASE_SCHEMA_VERSION, eng_plugin_api = PLUGIN_API_VERSION,
               eng_source = source, eng_artifact_sha256 = artifact\<rparr>, lk_dlcs := resolved\<rparr>;
         l = push_transitions transitions to l in
       Inr (Some (normalize_contracts (dp\<lparr>dp_lock := l\<rparr>)))))))))))"

definition remove_dlc :: "('v, 'r) tool \<Rightarrow> rstr \<Rightarrow> Deployment \<Rightarrow> string + Deployment option" where
  "remove_dlc T raw dp =
     and_then (ensure_cli_matches_lock T (dp_lock dp)) (\<lambda>_.
     and_then (official_target raw) (\<lambda>d.
     and_then (ensure_not_required_by_runtime dp d) (\<lambda>_.
     and_then (ensure_no_enabled_dependents T (dp_lock dp) (od_id d)) (\<lambda>_.
     and_then (ok_or ''DLC is not installed'' (row_where (\<lambda>x. in_id x = od_id d) (lk_dlcs (dp_lock dp)))) (\<lambda>removed.
     let l = dp_lock dp;
         i = (dp_intent dp)\<lparr>int_dlcs := filter (\<lambda>r. rq_id r \<noteq> od_id d) (int_dlcs (dp_intent dp))\<rparr>;
         l = l\<lparr>lk_dlcs := remove1 removed (lk_dlcs l),
               lk_retained_dlcs := filter (\<lambda>r. rt_id r \<noteq> od_id d) (lk_retained_dlcs l) @
                 [\<lparr>rt_id = in_id removed, rt_removed_version = in_version removed,
                   rt_state_version = in_state_version removed, rt_applied_migrations = in_applied_migrations removed\<rparr>]\<rparr>;
         l = push_history l DlcRemoved (od_id d) (Some (in_version removed)) None (tl_engine T) in
       Inr (Some (normalize_contracts (dp\<lparr>dp_intent := i, dp_lock := l\<rparr>))))))))"

datatype DlcAction =
    AddDlc rstr "rstr option"
  | EnableDlc rstr
  | DisableDlc rstr
  | UpgradeDlc "rstr option" "rstr option"
  | ReconcileDlc rstr rstr rstr "rstr option"
  | RemoveDlc rstr

fun change :: "('v, 'r) tool \<Rightarrow> DlcAction \<Rightarrow> Deployment \<Rightarrow> string + Deployment option" where
  "change T (AddDlc dlc version) dp = add_dlc T dlc version dp"
| "change T (EnableDlc dlc) dp = set_enabled T dlc True dp"
| "change T (DisableDlc dlc) dp = set_enabled T dlc False dp"
| "change T (UpgradeDlc dlc version) dp = upgrade_dlc T dlc version dp"
| "change T (ReconcileDlc from to source artifact) dp = reconcile T from to source artifact dp"
| "change T (RemoveDlc dlc) dp = remove_dlc T dlc dp"

text \<open>A command: load, change, persist. Nothing to change leaves the files as they are.\<close>

definition run_dlc :: "('v, 'r) tool \<Rightarrow> DlcAction \<Rightarrow> deployment_files \<Rightarrow> string + deployment_files" where
  "run_dlc T action fs =
     and_then (load_deployment T fs) (\<lambda>dp.
     and_then (change T action dp) (\<lambda>changed.
       case changed of None \<Rightarrow> Inr fs | Some dp' \<Rightarrow> persist T dp'))"

end
