(* ===== verification/Dlc_Install.thy ===== *)
theory Dlc_Install
  imports Dlc_Lifecycle
begin

text \<open>
  The first lock of an installation and the engine transition the updater records
  (\<open>apps/cli/src/bootstrap.rs\<close>): the selection of modules for a new deployment, their resolution
  against the catalog, the intent and lock made of them, and \<open>record_engine_upgrade\<close>.
\<close>

section \<open>Selection\<close>

datatype Intent = Personal | Community | Delivery

datatype AuthChoice = AuthLocal | AuthOauth | AuthLocalAndOauth | AuthNone

definition oauth_enabled :: "AuthChoice \<Rightarrow> bool" where
  "oauth_enabled a \<longleftrightarrow> a = AuthOauth \<or> a = AuthLocalAndOauth"

definition RECOMMENDED_PERSONAL_DLCS :: "rstr list" where
  "RECOMMENDED_PERSONAL_DLCS =
     [lit ''seo'', lit ''home-curation'', lit ''ai-authorship'', lit ''social-embeds'', lit ''release-check'']"

text \<open>The arguments of \<open>bootstrap\<close> that the selection reads.\<close>

record BootstrapSelection =
  bs_dlcs :: "rstr list"
  bs_intent :: Intent
  bs_seo :: bool
  bs_collaboration :: bool

text \<open>The manifest of a module the code names itself; the map is a list of entries sorted by key.\<close>

definition recommend ::
  "('v, 'r) tool \<Rightarrow> rstr \<Rightarrow> (rstr \<times> rstr) list \<Rightarrow> string + (rstr \<times> rstr) list" where
  "recommend T alias selected =
     and_then (ok_or ''panic'' (find_official_dlc alias)) (\<lambda>d.
     and_then (parse_official_manifest T d) (\<lambda>manifest.
       Inr (insert_entry (od_id d) (94 # pm_version manifest) selected)))"

definition imply :: "('v, 'r) tool \<Rightarrow> rstr \<Rightarrow> (rstr \<times> rstr) list \<Rightarrow> string + (rstr \<times> rstr) list" where
  "imply T alias selected =
     and_then (ok_or ''panic'' (find_official_dlc alias)) (\<lambda>d.
     and_then (parse_official_manifest T d) (\<lambda>manifest.
       Inr (if od_id d \<in> set (map fst selected) then selected
            else insert_entry (od_id d) (61 # pm_version manifest) selected)))"

definition request_dlc ::
  "('v, 'r) tool \<Rightarrow> bool \<Rightarrow> rstr \<Rightarrow> (rstr \<times> rstr) list \<Rightarrow> string + (rstr \<times> rstr) list" where
  "request_dlc T seo raw selected =
     (let (name, suffix) = (case rsplit_once [64] raw of None \<Rightarrow> (raw, None) | Some (name, version) \<Rightarrow> (name, Some version)) in
      and_then (reject_if (name = []) ''--dlc requires an id before @'') (\<lambda>_.
      and_then (ok_or ''unknown official DLC'' (find_official_dlc name)) (\<lambda>d.
      and_then (reject_if (od_alias d = lit ''seo'' \<and> \<not> seo) ''--dlc seo conflicts with --seo disabled'') (\<lambda>_.
      and_then (parse_official_manifest T d) (\<lambda>manifest.
      let requirement = (case suffix of Some v \<Rightarrow> v | None \<Rightarrow> 94 # pm_version manifest) in
      and_then (map_err (\<lambda>_. ''invalid request'') (validate_requested T
         \<lparr>rq_id = od_id d, rq_version = requirement, rq_enabled = True\<rparr>)) (\<lambda>_.
        Inr (insert_entry (od_id d) requirement selected)))))))"

fun each_in_order :: "('a \<Rightarrow> 's \<Rightarrow> 'e + 's) \<Rightarrow> 'a list \<Rightarrow> 's \<Rightarrow> 'e + 's" where
  "each_in_order f [] s = Inr s"
| "each_in_order f (x # later) s = and_then (f x s) (each_in_order f later)"

definition implied :: "BootstrapSelection \<Rightarrow> AuthChoice \<Rightarrow> InstallationAdminAuth \<Rightarrow> bool \<Rightarrow> rstr list" where
  "implied args auth admin comments =
     (if bs_seo args then [lit ''seo''] else []) @ (if comments then [lit ''comments''] else [])
     @ (if bs_collaboration args then [lit ''rbac''] else [])
     @ (if oauth_enabled auth \<or> admin = AuthExternal then [lit ''external-auth''] else [])"

record ResolvedDlc =
  rd_requested :: RequestedDlc
  rd_installed :: InstalledDlc
  rd_runtime_feature :: rstr

definition resolve_selected_dlc :: "('v, 'r) tool \<Rightarrow> rstr \<times> rstr \<Rightarrow> string + ResolvedDlc" where
  "resolve_selected_dlc T selected = (case selected of (i, requirement) \<Rightarrow>
     and_then (ok_or ''panic'' (find_official_dlc i)) (\<lambda>d.
     and_then (parse_official_manifest T d) (\<lambda>manifest.
     and_then (map_err (\<lambda>_. ''core version'') (supports_core T manifest (tl_engine T))) (\<lambda>supported.
     and_then (reject_if (\<not> supported) ''DLC does not support engine'') (\<lambda>_.
       Inr \<lparr>rd_requested = \<lparr>rq_id = i, rq_version = requirement, rq_enabled = True\<rparr>,
            rd_installed = \<lparr>in_id = pm_id manifest, in_requested_version = requirement, in_version = pm_version manifest,
              in_core_compatibility = (case pm_core_compatibility manifest of Some c \<Rightarrow> c | None \<Rightarrow> 61 # tl_engine T),
              in_manifest_version = pm_manifest_version manifest, in_plugin_api = pm_plugin_api manifest,
              in_source_kind = SourceBundled, in_source = od_source d, in_manifest_sha256 = official_manifest_digest T d,
              in_artifact_sha256 = None, in_enabled = True,
              in_approved_capabilities = remdups_adj (sort (map (capability_text \<circ> perm_capability) (pm_permissions manifest))),
              in_config_sha256 = map_option (\<lambda>c. sha256_hex (pk_extern T) (json_text (pk_extern T) (config_to_json c))) (pm_config manifest),
              in_state_version = map_option ps_version (pm_state manifest), in_applied_migrations = []\<rparr>,
            rd_runtime_feature = od_runtime_feature d\<rparr>)))))"

definition resolve_dlcs ::
  "('v, 'r) tool \<Rightarrow> BootstrapSelection \<Rightarrow> AuthChoice \<Rightarrow> InstallationAdminAuth \<Rightarrow> bool \<Rightarrow> string + ResolvedDlc list" where
  "resolve_dlcs T args auth admin comments =
     (let none_requested = list_ex (\<lambda>v. to_ascii_lowercase v = lit ''none'') (bs_dlcs args) in
      and_then (reject_if (none_requested \<and> length (bs_dlcs args) \<noteq> 1) ''DLC value none cannot be combined with another --dlc'') (\<lambda>_.
      if none_requested then
        and_then (reject_if comments ''--dlc none conflicts with enabled comments'') (\<lambda>_.
        and_then (reject_if (bs_collaboration args) ''--dlc none conflicts with collaboration'') (\<lambda>_.
        and_then (reject_if (oauth_enabled auth \<or> admin = AuthExternal) ''--dlc none conflicts with OAuth/external administrator auth'')
          (\<lambda>_. Inr [])))
      else
        and_then (if bs_dlcs args = [] \<and> bs_intent args = Personal
          then each_in_order (recommend T) (filter (\<lambda>a. \<not> (a = lit ''seo'' \<and> \<not> bs_seo args)) RECOMMENDED_PERSONAL_DLCS) []
          else Inr []) (\<lambda>selected.
        and_then (each_in_order (imply T) (implied args auth admin comments) selected) (\<lambda>selected.
        and_then (each_in_order (request_dlc T (bs_seo args)) (bs_dlcs args) selected) (\<lambda>selected.
          collect_results (resolve_selected_dlc T) selected)))))"

section \<open>The first intent and lock\<close>

definition first_intent ::
  "('v, 'r) tool \<Rightarrow> rstr \<Rightarrow> rstr \<Rightarrow> InstallationSelection \<Rightarrow> ResolvedDlc list \<Rightarrow> InstallationIntent" where
  "first_intent T installation site selection dlcs =
     \<lparr>int_schema_version = INSTALL_INTENT_SCHEMA_VERSION, int_installation_id = installation, int_site_id = site,
      int_created_with = tl_engine T, int_selection = selection, int_dlcs = map rd_requested dlcs\<rparr>"

definition first_history :: "('v, 'r) tool \<Rightarrow> ResolvedDlc list \<Rightarrow> DlcHistoryRecord list" where
  "first_history T dlcs = map (\<lambda>(index, d).
     \<lparr>hist_sequence = index + 1, hist_action = DlcInstalled, hist_dlc_id = in_id (rd_installed d), hist_from_version = None,
      hist_to_version = Some (in_version (rd_installed d)), hist_engine_version = tl_engine T\<rparr>) (enumerate 0 dlcs)"

definition first_lock ::
  "('v, 'r) tool \<Rightarrow> rstr \<Rightarrow> rstr \<Rightarrow> InstallationSelection \<Rightarrow> ResolvedDlc list \<Rightarrow> InstallationLock" where
  "first_lock T source installation selection dlcs = refresh_digest T
     \<lparr>lk_schema_version = INSTALL_LOCK_SCHEMA_VERSION, lk_installation_id = installation,
      lk_engine = \<lparr>eng_version = tl_engine T, eng_config_schema_version = CONFIG_SCHEMA,
        eng_database_schema_version = DATABASE_SCHEMA_VERSION, eng_plugin_api = PLUGIN_API_VERSION,
        eng_source = source, eng_artifact_sha256 = None\<rparr>,
      lk_selection = selection, lk_dlcs = map rd_installed dlcs, lk_retained_dlcs = [], lk_history = first_history T dlcs,
      lk_lock_digest = []\<rparr>"

text \<open>The part of \<open>bootstrap\<close> that makes the pair; the files it renders besides are left out.\<close>

definition bootstrap_pair ::
  "('v, 'r) tool \<Rightarrow> BootstrapSelection \<Rightarrow> AuthChoice \<Rightarrow> bool \<Rightarrow> rstr \<Rightarrow> rstr \<Rightarrow> InstallationSelection \<Rightarrow>
   string + InstallationIntent \<times> InstallationLock" where
  "bootstrap_pair T args auth comments installation site selection =
     and_then (resolve_dlcs T args auth (sel_admin_auth selection) comments) (\<lambda>dlcs.
     let i = first_intent T installation site selection dlcs;
         l = first_lock T (lit ''source-checkout'') installation selection dlcs in
     and_then (map_err (\<lambda>_. ''installation contract is invalid'') (validate_lock T l)) (\<lambda>_.
     and_then (intent_to_toml_pretty T i) (\<lambda>_.
     and_then (lock_to_pretty_json T l) (\<lambda>_. Inr (i, l)))))"

section \<open>The engine transition\<close>

definition record_engine_upgrade_command ::
  "('v, 'r) tool \<Rightarrow> rstr \<Rightarrow> rstr \<Rightarrow> rstr \<Rightarrow> rstr option \<Rightarrow> InstallationIntent \<Rightarrow> InstallationLock \<Rightarrow> string + InstallationLock" where
  "record_engine_upgrade_command T from to source artifact i l =
     and_then (reject_if (to \<noteq> tl_engine T) ''record-engine-upgrade must run from the target CLI'') (\<lambda>_.
     and_then (verify_intent_lock_pair T i l) (\<lambda>_.
     case record_engine_upgrade T from to source artifact l of
       (Inl _, _) \<Rightarrow> Inl ''installation contract is invalid''
     | (Inr _, l) \<Rightarrow>
         let l = refresh_digest T (l\<lparr>lk_engine := (lk_engine l)\<lparr>eng_config_schema_version := CONFIG_SCHEMA,
               eng_database_schema_version := DATABASE_SCHEMA_VERSION, eng_plugin_api := PLUGIN_API_VERSION\<rparr>\<rparr>) in
         and_then (verify_intent_lock_pair T i l) (\<lambda>_. Inr l)))"

end
