(* ===== verification/Dlc_Registry.thy ===== *)
theory Dlc_Registry
  imports Dlc_Install
begin

text \<open>
  What the module lifecycle promises, without files, versions ranges or digests: a registry of
  active modules (version, enabled, migrations already run), the migrations of removed ones, and
  a log. Its steps, and what holds of every registry they reach from a first installation.
\<close>

record registry =
  rg_active :: "rstr \<Rightarrow> (rstr \<times> bool \<times> rstr list) option"
  rg_kept :: "rstr \<Rightarrow> rstr list option"
  rg_log :: "(DlcHistoryAction \<times> rstr \<times> rstr option) list"

inductive registry_step :: "registry \<Rightarrow> registry \<Rightarrow> bool" where
  install: "rg_active r i = None \<Longrightarrow>
    registry_step r (r\<lparr>rg_active := (rg_active r)(i \<mapsto> (v, True, case rg_kept r i of None \<Rightarrow> [] | Some ms \<Rightarrow> ms)),
      rg_kept := (rg_kept r)(i := None), rg_log := rg_log r @ [(DlcInstalled, i, Some v)]\<rparr>)"
| switch: "rg_active r i = Some (v, b, ms) \<Longrightarrow>
    registry_step r (r\<lparr>rg_active := (rg_active r)(i \<mapsto> (v, \<not> b, ms)),
      rg_log := rg_log r @ [(if b then DlcDisabled else DlcEnabled, i, Some v)]\<rparr>)"
| remove: "rg_active r i = Some (v, b, ms) \<Longrightarrow>
    registry_step r (r\<lparr>rg_active := (rg_active r)(i := None), rg_kept := (rg_kept r)(i \<mapsto> ms),
      rg_log := rg_log r @ [(DlcRemoved, i, None)]\<rparr>)"
| refresh: "registry_step r r"

inductive_cases registry_stepE: "registry_step r r'"

text \<open>The migrations a module has run, whether it is active or removed.\<close>

definition rg_migrations :: "registry \<Rightarrow> rstr \<Rightarrow> rstr list option" where
  "rg_migrations r i = (case rg_active r i of Some (_, _, ms) \<Rightarrow> Some ms | None \<Rightarrow> rg_kept r i)"

text \<open>The log read from the start: version and state of every active module.\<close>

fun replay_entry ::
  "DlcHistoryAction \<times> rstr \<times> rstr option \<Rightarrow> (rstr \<Rightarrow> (rstr \<times> bool) option) \<Rightarrow> rstr \<Rightarrow> (rstr \<times> bool) option" where
  "replay_entry (DlcInstalled, i, to) m = m(i := map_option (\<lambda>v. (v, True)) to)"
| "replay_entry (DlcUpgraded, i, to) m = m(i := (case (to, m i) of (Some v, Some (_, b)) \<Rightarrow> Some (v, b) | _ \<Rightarrow> None))"
| "replay_entry (DlcEnabled, i, to) m = m(i := map_option (\<lambda>v. (v, True)) to)"
| "replay_entry (DlcDisabled, i, to) m = m(i := map_option (\<lambda>v. (v, False)) to)"
| "replay_entry (DlcRemoved, i, to) m = m(i := None)"

definition replay :: "(DlcHistoryAction \<times> rstr \<times> rstr option) list \<Rightarrow> rstr \<Rightarrow> (rstr \<times> bool) option" where
  "replay log = fold replay_entry log (\<lambda>_. None)"

definition rg_state :: "registry \<Rightarrow> rstr \<Rightarrow> (rstr \<times> bool) option" where
  "rg_state r i = map_option (\<lambda>(v, b, _). (v, b)) (rg_active r i)"

definition rg_explained :: "registry \<Rightarrow> bool" where
  "rg_explained r \<longleftrightarrow> replay (rg_log r) = rg_state r"

lemma replay_snoc [simp]: "replay (xs @ [x]) = replay_entry x (replay xs)"
  by (simp add: replay_def)

lemma step_explained: "registry_step r r' \<Longrightarrow> rg_explained r \<Longrightarrow> rg_explained r'"
  by (induction rule: registry_step.induct) (auto simp: rg_explained_def rg_state_def fun_eq_iff)

lemma step_migrations: "registry_step r r' \<Longrightarrow> rg_migrations r i = Some ms \<Longrightarrow> rg_migrations r' i = Some ms"
  by (induction rule: registry_step.induct) (auto simp: rg_migrations_def split: option.splits)

lemma step_invents_no_migration:
  "registry_step r r' \<Longrightarrow> rg_migrations r i = None \<Longrightarrow> rg_migrations r' i \<in> {None, Some []}"
  by (induction rule: registry_step.induct) (auto simp: rg_migrations_def split: option.splits)

section \<open>The registry of a lock\<close>

definition active_entry :: "InstalledDlc \<Rightarrow> rstr \<times> rstr \<times> bool \<times> rstr list" where
  "active_entry d = (in_id d, in_version d, in_enabled d, in_applied_migrations d)"

definition kept_entry :: "RetainedDlcState \<Rightarrow> rstr \<times> rstr list" where
  "kept_entry r = (rt_id r, rt_applied_migrations r)"

definition log_entry :: "DlcHistoryRecord \<Rightarrow> DlcHistoryAction \<times> rstr \<times> rstr option" where
  "log_entry h = (hist_action h, hist_dlc_id h, hist_to_version h)"

definition registry_of :: "InstallationLock \<Rightarrow> registry" where
  "registry_of l = \<lparr>rg_active = map_of (map active_entry (lk_dlcs l)),
     rg_kept = map_of (map kept_entry (lk_retained_dlcs l)), rg_log = map log_entry (lk_history l)\<rparr>"

lemma entry_keys [simp]:
  "fst (active_entry d) = in_id d" "fst (kept_entry r) = rt_id r"
  "map (fst \<circ> active_entry) ds = map in_id ds" "map (fst \<circ> kept_entry) rs = map rt_id rs"
  by (simp_all add: active_entry_def kept_entry_def)

text \<open>The registry depends on the sets of records only, where identifiers are unique.\<close>

lemma map_of_entries_cong:
  assumes "distinct (map (fst \<circ> f) xs)" "distinct (map (fst \<circ> f) ys)" "f ` set xs = f ` set ys"
  shows "map_of (map f xs) = map_of (map f ys)"
  using assms by (subst map_of_inject_set) simp_all

lemma map_of_entry:
  assumes "distinct (map (fst \<circ> f) xs)" "x \<in> set xs"
  shows "map_of (map f xs) (fst (f x)) = Some (snd (f x))"
  using assms by (intro map_of_is_SomeI) (auto simp: image_iff)

lemma map_of_entries_insert:
  assumes "distinct (map (fst \<circ> f) (x # xs))" "distinct (map (fst \<circ> f) ys)" "f ` set ys = insert (f x) (f ` set xs)"
  shows "map_of (map f ys) = (map_of (map f xs))(fst (f x) \<mapsto> snd (f x))"
proof -
  have "map_of (map f ys) = map_of (map f (x # xs))" using assms by (intro map_of_entries_cong) auto
  then show ?thesis by (simp add: fun_upd_def prod.case_eq_if split_beta fun_eq_iff)
qed

lemma map_of_entries_delete:
  assumes "distinct (map (fst \<circ> f) xs)" "distinct (map (fst \<circ> f) ys)" "f ` set ys = {e \<in> f ` set xs. fst e \<noteq> k}"
  shows "map_of (map f ys) = (map_of (map f xs))(k := None)"
proof
  fix i
  have "map_of (map f ys) = map_of (filter (\<lambda>e. fst e \<noteq> k) (map f xs))"
    using assms by (subst map_of_inject_set) (auto intro: distinct_map_filter)
  then have "map_of (map f ys) i = map_of (filter (\<lambda>e. fst e \<noteq> k) (map f xs)) i" by simp
  also have "\<dots> = ((map_of (map f xs))(k := None)) i"
    by (induction xs) (auto simp: split_beta)
  finally show "map_of (map f ys) i = ((map_of (map f xs))(k := None)) i" .
qed

end
