(* ===== verification/Dlc_Refinement.thy ===== *)
theory Dlc_Refinement
  imports Dlc_Registry
begin

text \<open>
  The commands of \<open>dlc_lifecycle.rs\<close> are steps of the registry: what a loaded deployment
  satisfies, what each command does to the lock, and the simulation.
\<close>

section \<open>A loaded deployment\<close>

definition loaded :: "('v, 'r) tool \<Rightarrow> Deployment \<Rightarrow> bool" where
  "loaded T dp \<longleftrightarrow> verify_intent_lock_pair T (dp_intent dp) (dp_lock dp) = Inr ()
     \<and> ensure_bundled_official_records T (dp_lock dp) = Inr ()
     \<and> project_environment (dp_env_original dp) = Inr (dp_env_values dp)"

lemma load_deployment_ok:
  "load_deployment T fs = Inr dp \<Longrightarrow> loaded T dp \<and> dp_env_original dp = df_env fs
     \<and> dp_intent_original dp = df_intent fs \<and> dp_lock_original dp = df_lock fs"
  by (auto simp: load_deployment_def loaded_def read_bounded_def and_then_eq_Inr)

definition bundled :: "('v, 'r) tool \<Rightarrow> InstalledDlc \<Rightarrow> bool" where
  "bundled T d \<longleftrightarrow> in_source_kind d = SourceBundled \<and> (\<exists>x m. find_official_dlc (in_id d) = Some x
     \<and> parse_official_manifest T x = Inr m \<and> in_id d = pm_id m \<and> in_version d = pm_version m \<and> in_source d = od_source x)"

lemma bundled_records:
  "ensure_bundled_official_records T l = Inr u \<Longrightarrow> d \<in> set (lk_dlcs l) \<Longrightarrow> bundled T d"
  by (fastforce simp: ensure_bundled_official_records_def verify_bundled_official_manifest_bytes_def
      verify_bundled_record_def bundled_def and_then_eq_Inr reject_if_eq_Inr ok_or_eq_Inr)

lemma set_insert_entry: "k \<notin> fst ` set kvs \<Longrightarrow> set (insert_entry k v kvs) = insert (k, v) (set kvs)"
  by (induction k v kvs rule: insert_entry.induct) auto

lemma set_btree_collect:
  assumes "distinct (map fst kvs)"
  shows "set (entries (btree_collect kvs)) = set kvs"
proof -
  have "set (fold (\<lambda>(k, v). insert_entry k v) kvs acc) = set acc \<union> set kvs"
    if "distinct (map fst kvs)" "fst ` set kvs \<inter> fst ` set acc = {}" for acc
    using that
  proof (induction kvs arbitrary: acc)
    case (Cons kv kvs)
    obtain k v where kv: "kv = (k, v)" by fastforce
    have new: "set (insert_entry k v acc) = insert (k, v) (set acc)"
      using Cons.prems(2) kv by (intro set_insert_entry) auto
    then have "fst ` set kvs \<inter> fst ` set (insert_entry k v acc) = {}" using Cons.prems kv by auto
    with Cons.IH [OF _ this] Cons.prems(1) new kv show ?case by auto
  qed simp
  from this [of "[]"] assms show ?thesis by (simp add: btree_collect_def entries_fold_insert btree_empty.rep_eq)
qed

lemma pair_requests:
  assumes "verify_intent_lock_pair T i l = Inr u"
  shows "(\<lambda>d. (rq_id d, rq_version d, rq_enabled d)) ` set (int_dlcs i)
      = (\<lambda>d. (in_id d, in_requested_version d, in_enabled d)) ` set (lk_dlcs l)"
    and "distinct (map rq_id (int_dlcs i))" "distinct (map in_id (lk_dlcs l))"
    and "distinct (map rt_id (lk_retained_dlcs l))" "\<forall>r \<in> set (lk_retained_dlcs l). rt_id r \<notin> in_id ` set (lk_dlcs l)"
proof -
  have ok: "validate_intent T i = Inr ()" "validate_lock T l = Inr ()"
    "btree_collect (map (\<lambda>d. (rq_id d, (rq_version d, rq_enabled d))) (int_dlcs i))
      = btree_collect (map (\<lambda>d. (in_id d, (in_requested_version d, in_enabled d))) (lk_dlcs l))"
    using assms by (auto simp: verify_intent_lock_pair_def and_then_eq_Inr map_err_eq_Inr reject_if_eq_Inr)
  show req: "distinct (map rq_id (int_dlcs i))" by (rule validate_intent_ok [OF ok(1)])
  show ins: "distinct (map in_id (lk_dlcs l))" "distinct (map rt_id (lk_retained_dlcs l))"
    "\<forall>r \<in> set (lk_retained_dlcs l). rt_id r \<notin> in_id ` set (lk_dlcs l)"
    using validate_lock_ok [OF ok(2)] by (auto dest: sorted_less_distinct)
  have "set (map (\<lambda>d. (rq_id d, (rq_version d, rq_enabled d))) (int_dlcs i))
      = set (map (\<lambda>d. (in_id d, (in_requested_version d, in_enabled d))) (lk_dlcs l))"
    using arg_cong [OF ok(3), of "\<lambda>m. set (entries m)"] req ins(1)
    by (simp only: set_btree_collect map_map comp_def fst_conv)
  then show "(\<lambda>d. (rq_id d, rq_version d, rq_enabled d)) ` set (int_dlcs i)
      = (\<lambda>d. (in_id d, in_requested_version d, in_enabled d)) ` set (lk_dlcs l)" by simp
qed

lemma pair_ids:
  assumes "verify_intent_lock_pair T i l = Inr u"
  shows "rq_id ` set (int_dlcs i) = in_id ` set (lk_dlcs l)"
proof -
  have "fst ` (\<lambda>d. (rq_id d, rq_version d, rq_enabled d)) ` set (int_dlcs i)
      = fst ` (\<lambda>d. (in_id d, in_requested_version d, in_enabled d)) ` set (lk_dlcs l)"
    by (simp only: pair_requests(1) [OF assms])
  then show ?thesis by (simp add: image_image)
qed

section \<open>Resolution\<close>

lemma resolve_official_ok:
  assumes "resolve_official T x requirement enabled engine = Inr d"
  obtains m where "parse_official_manifest T x = Inr m" "pm_id m = od_id x" "in_id d = od_id x"
    "in_version d = pm_version m" "in_enabled d = enabled" "in_source_kind d = SourceBundled"
    "in_applied_migrations d = []"
  using assms by (auto simp: resolve_official_def and_then_eq_Inr ok_or_eq_Inr reject_if_eq_Inr)

definition version_order :: "('v, 'r) tool \<Rightarrow> bool" where
  "version_order T \<longleftrightarrow> (\<forall>v. \<not> pk_less T v v)"

text \<open>A record resolved again from the catalog it was loaded with is the same module in the same state.\<close>

lemma resolve_again_ok:
  assumes "resolve_again T engine x request old = Inr (new, transitions)"
    and "bundled T old" "find_official_dlc (in_id old) = Some x" "version_order T"
  shows "active_entry new = active_entry old" "in_source_kind new = SourceBundled" "transitions = []"
proof -
  obtain resolved where resolved: "resolve_official T x (rq_version request) (rq_enabled request) engine = Inr resolved"
    and new: "new = carry_state old resolved"
    and transitions: "transitions = [] \<or> (\<exists>v w. pk_version T (in_version old) = Some v
        \<and> pk_version T (in_version new) = Some w \<and> pk_less T v w)"
    using assms(1) by (auto simp: resolve_again_def and_then_eq_Inr ok_or_eq_Inr Let_def split: if_splits)
  from resolved obtain m where m: "parse_official_manifest T x = Inr m" "in_id resolved = od_id x" "pm_id m = od_id x"
    "in_version resolved = pm_version m" "in_source_kind resolved = SourceBundled"
    by (rule resolve_official_ok) blast
  have "in_id old = pm_id m" "in_version old = pm_version m" using assms(2,3) m(1) by (auto simp: bundled_def)
  with m new show entry: "active_entry new = active_entry old" "in_source_kind new = SourceBundled"
    by (simp_all add: carry_state_def active_entry_def)
  then show "transitions = []" using transitions assms(4) by (auto simp: active_entry_def version_order_def)
qed

lemma by_id_Some: "by_id ds i = Some d \<Longrightarrow> d \<in> set ds \<and> in_id d = i"
  unfolding by_id_def by (drule row_where_Some) simp

text \<open>The records of a list of requests, each that of an old record of the same module.\<close>

definition same_modules :: "InstalledDlc list \<Rightarrow> RequestedDlc list \<Rightarrow> InstalledDlc list \<Rightarrow> bool" where
  "same_modules olds requests news \<longleftrightarrow> list_all2 (\<lambda>request new. \<exists>old \<in> set olds. in_id old = rq_id request
     \<and> active_entry new = active_entry old \<and> in_source_kind new = SourceBundled) requests news"

lemma upgrade_requests_ok:
  assumes "upgrade_requests T olds target version requests = Inr (requests', news, transitions, changed)"
    and "\<forall>d \<in> set olds. bundled T d" "version_order T"
  shows "map rq_id requests' = map rq_id requests \<and> same_modules olds requests news \<and> transitions = []"
  using assms(1)
proof (induction requests arbitrary: requests' news transitions changed)
  case (Cons request requests)
  from Cons.prems obtain old where old: "by_id olds (rq_id request) = Some old"
    by (auto simp: and_then_eq_Inr ok_or_eq_Inr)
  then have mem: "old \<in> set olds" "in_id old = rq_id request" "bundled T old" using by_id_Some assms(2) by blast+
  show ?case
  proof (cases "target \<noteq> None \<and> target \<noteq> Some (rq_id request)")
    case True
    with Cons.prems old obtain requests0 news0 changed0 where
      "upgrade_requests T olds target version requests = Inr (requests0, news0, transitions, changed0)"
      "requests' = request # requests0" "news = old # news0"
      by (auto simp: and_then_eq_Inr split: prod.splits)
    with Cons.IH mem show ?thesis by (auto simp: same_modules_def bundled_def)
  next
    case False
    let ?prepared = "case version of None \<Rightarrow> Inr request
      | Some requirement \<Rightarrow> and_then (map_err (\<lambda>_. ''invalid request'') (validate_requested T (request\<lparr>rq_version := requirement\<rparr>)))
          (\<lambda>_. Inr (request\<lparr>rq_version := requirement\<rparr>))"
    obtain request0 where request0: "?prepared = Inr request0" "rq_id request0 = rq_id request"
      using Cons.prems old False
      by (cases "?prepared") (auto simp: and_then_eq_Inr split: option.split_asm)
    have "and_then (ok_or ''panic'' (find_official_dlc (rq_id request0))) (\<lambda>d.
       and_then (resolve_again T (tl_engine T) d request0 old) (\<lambda>(new, transition).
       and_then (upgrade_requests T olds target version requests) (\<lambda>(requests, resolved, transitions, changed).
         Inr (request0 # requests, new # resolved, transition @ transitions,
              new \<noteq> old \<or> rq_version request0 \<noteq> in_requested_version old \<or> changed))))
      = Inr (requests', news, transitions, changed)"
      using Cons.prems
      by (simp only: upgrade_requests.simps if_not_P [OF False] old ok_or_simps and_then_simps request0(1))
    then obtain x new tr requests0 news0 transitions0 changed0 where
      parts: "find_official_dlc (rq_id request0) = Some x"
        "resolve_again T (tl_engine T) x request0 old = Inr (new, tr)"
        "upgrade_requests T olds target version requests = Inr (requests0, news0, transitions0, changed0)"
        "requests' = request0 # requests0" "news = new # news0" "transitions = tr @ transitions0"
      by (auto simp: and_then_eq_Inr ok_or_eq_Inr simp del: disj_not1 intro: that)
    have "find_official_dlc (in_id old) = Some x" using parts(1) request0(2) mem(2) by simp
    with resolve_again_ok [OF parts(2) mem(3) _ assms(3)] Cons.IH [OF parts(3)] parts(4,5,6) request0(2) mem show ?thesis
      by (auto simp: same_modules_def)
  qed
qed (simp add: same_modules_def)

lemma reconcile_requests_ok:
  assumes "reconcile_requests T engine olds requests = Inr (news, transitions)"
    and "\<forall>d \<in> set olds. bundled T d" "version_order T"
  shows "same_modules olds requests news \<and> transitions = []"
  using assms(1)
proof (induction requests arbitrary: news transitions)
  case (Cons request requests)
  from Cons.prems obtain x old new tr news0 transitions0 where
    parts: "find_official_dlc (rq_id request) = Some x" "by_id olds (rq_id request) = Some old"
      "resolve_again T engine x request old = Inr (new, tr)"
      "reconcile_requests T engine olds requests = Inr (news0, transitions0)"
      "news = new # news0" "transitions = tr @ transitions0"
    by (auto simp: and_then_eq_Inr ok_or_eq_Inr split: prod.splits)
  have mem: "old \<in> set olds" "in_id old = rq_id request" "bundled T old" using by_id_Some [OF parts(2)] assms(2) by blast+
  with resolve_again_ok [OF parts(3) mem(3) _ assms(3)] Cons.IH [OF parts(4)] parts(1,5,6) show ?case
    by (auto simp: same_modules_def)
qed (simp add: same_modules_def)

lemma same_modules_entries:
  assumes "same_modules olds requests news" "distinct (map in_id olds)" "rq_id ` set requests = in_id ` set olds"
  shows "map in_id news = map rq_id requests" "active_entry ` set news = active_entry ` set olds"
    "\<forall>d \<in> set news. in_source_kind d = SourceBundled"
proof -
  have key: "in_id a = in_id b" if "active_entry a = active_entry b" for a b using that by (simp add: active_entry_def)
  have all2: "list_all2 (\<lambda>request new. \<exists>old \<in> set olds. in_id old = rq_id request
     \<and> active_entry new = active_entry old \<and> in_source_kind new = SourceBundled) requests news"
    using assms(1) by (simp add: same_modules_def)
  then show "map in_id news = map rq_id requests" by (induction rule: list_all2_induct) (auto dest: key)
  from all2 show "\<forall>d \<in> set news. in_source_kind d = SourceBundled" by (induction rule: list_all2_induct) auto
  show "active_entry ` set news = active_entry ` set olds"
  proof
    from all2 show "active_entry ` set news \<subseteq> active_entry ` set olds" by (induction rule: list_all2_induct) auto
    show "active_entry ` set olds \<subseteq> active_entry ` set news"
    proof
      fix e assume "e \<in> active_entry ` set olds"
      then obtain old where old: "old \<in> set olds" "e = active_entry old" by blast
      then obtain request where "request \<in> set requests" "rq_id request = in_id old" using assms(3) by (metis imageE imageI)
      then obtain k where k: "k < length requests" "rq_id (requests ! k) = in_id old" by (auto simp: in_set_conv_nth)
      then obtain old' where "old' \<in> set olds" "in_id old' = in_id old" "active_entry (news ! k) = active_entry old'"
        using list_all2_nthD [OF all2 k(1)] by auto
      moreover have "news ! k \<in> set news" using k(1) all2 by (simp add: list_all2_lengthD)
      moreover from calculation have "old' = old" using assms(2) old(1) by (auto simp: distinct_map inj_on_def)
      ultimately show "e \<in> active_entry ` set news" using old(2) by (metis imageI)
    qed
  qed
qed

lemma normalize_sel [simp]:
  "dp_env_original (normalize_contracts dp) = dp_env_original dp" "dp_env_values (normalize_contracts dp) = dp_env_values dp"
  "lk_history (dp_lock (normalize_contracts dp)) = lk_history (dp_lock dp)"
  "lk_dlcs (dp_lock (normalize_contracts dp)) = sort_key in_id (lk_dlcs (dp_lock dp))"
  "lk_retained_dlcs (dp_lock (normalize_contracts dp)) = sort_key rt_id (lk_retained_dlcs (dp_lock dp))"
  by (simp_all add: normalize_contracts_def)

lemma push_history_sel [simp]:
  "lk_dlcs (push_history l a i from to e) = lk_dlcs l" "lk_retained_dlcs (push_history l a i from to e) = lk_retained_dlcs l"
  "map log_entry (lk_history (push_history l a i from to e)) = map log_entry (lk_history l) @ [(a, i, to)]"
  by (simp_all add: push_history_def log_entry_def)

lemma distinct_sort_key: "distinct (map k (sort_key k xs)) \<longleftrightarrow> distinct (map k xs)"
  by (metis distinct_map distinct_sort set_sort)

section \<open>The commands\<close>

lemma active_lookup: "map_of (map active_entry ds) i = map_option (\<lambda>d. snd (active_entry d)) (row_where (\<lambda>d. in_id d = i) ds)"
  by (induction ds) (auto simp: row_where_def active_entry_def)

lemma kept_lookup: "map_of (map kept_entry rs) i = map_option rt_applied_migrations (row_where (\<lambda>r. rt_id r = i) rs)"
  by (induction rs) (auto simp: row_where_def kept_entry_def)

lemma sorted_active:
  "distinct (map in_id ds) \<Longrightarrow> map_of (map active_entry (sort_key in_id ds)) = map_of (map active_entry ds)"
  by (rule map_of_entries_cong) (simp_all add: distinct_sort_key)

lemma sorted_kept:
  "distinct (map rt_id rs) \<Longrightarrow> map_of (map kept_entry (sort_key rt_id rs)) = map_of (map kept_entry rs)"
  by (rule map_of_entries_cong) (simp_all add: distinct_sort_key)

lemma loaded_ids:
  assumes "loaded T dp"
  shows "distinct (map in_id (lk_dlcs (dp_lock dp)))" "distinct (map rt_id (lk_retained_dlcs (dp_lock dp)))"
    "rq_id ` set (int_dlcs (dp_intent dp)) = in_id ` set (lk_dlcs (dp_lock dp))"
    "distinct (map rq_id (int_dlcs (dp_intent dp)))"
    "\<forall>d \<in> set (lk_dlcs (dp_lock dp)). bundled T d"
    "\<forall>r \<in> set (lk_retained_dlcs (dp_lock dp)). rt_id r \<notin> in_id ` set (lk_dlcs (dp_lock dp))"
  using assms pair_requests [of T "dp_intent dp" "dp_lock dp"] pair_ids [of T "dp_intent dp" "dp_lock dp"] bundled_records
  by (auto simp: loaded_def)

text \<open>What a command yields: a step of the registry, bundled records only, the environment text untouched.\<close>

definition steps_to :: "Deployment \<Rightarrow> Deployment \<Rightarrow> bool" where
  "steps_to dp dp' \<longleftrightarrow> registry_step (registry_of (dp_lock dp)) (registry_of (dp_lock dp'))
     \<and> (\<forall>d \<in> set (lk_dlcs (dp_lock dp')). in_source_kind d = SourceBundled)
     \<and> dp_env_original dp' = dp_env_original dp \<and> dp_env_values dp' = dp_env_values dp"

definition without_kept :: "rstr \<Rightarrow> InstallationLock \<Rightarrow> InstallationLock" where
  "without_kept i l = (case row_where (\<lambda>r. rt_id r = i) (lk_retained_dlcs l) of None \<Rightarrow> l
     | Some r \<Rightarrow> l\<lparr>lk_retained_dlcs := remove1 r (lk_retained_dlcs l)\<rparr>)"

lemma without_kept_sel [simp]:
  "lk_dlcs (without_kept i l) = lk_dlcs l" "lk_history (without_kept i l) = lk_history l"
  by (simp_all add: without_kept_def split: option.split)

lemma without_kept_entries:
  assumes "distinct (map rt_id (lk_retained_dlcs l))"
  shows "distinct (map rt_id (lk_retained_dlcs (without_kept i l)))"
    "map_of (map kept_entry (lk_retained_dlcs (without_kept i l))) = (map_of (map kept_entry (lk_retained_dlcs l)))(i := None)"
proof -
  have "set (lk_retained_dlcs (without_kept i l)) = {r \<in> set (lk_retained_dlcs l). rt_id r \<noteq> i}
      \<and> distinct (map rt_id (lk_retained_dlcs (without_kept i l)))"
  proof (cases "row_where (\<lambda>r. rt_id r = i) (lk_retained_dlcs l)")
    case None
    then have "\<forall>r \<in> set (lk_retained_dlcs l). rt_id r \<noteq> i" by (simp only: row_where_None)
    with None assms show ?thesis by (auto simp: without_kept_def)
  next
    case (Some r)
    then have r: "r \<in> set (lk_retained_dlcs l)" "rt_id r = i" by (auto dest: row_where_Some)
    have inj: "inj_on rt_id (set (lk_retained_dlcs l))" "distinct (lk_retained_dlcs l)"
      using assms by (auto simp: distinct_map)
    then have "set (remove1 r (lk_retained_dlcs l)) = {x \<in> set (lk_retained_dlcs l). rt_id x \<noteq> i}"
      using r by (auto simp: inj_on_def)
    moreover from this have "inj_on rt_id (set (remove1 r (lk_retained_dlcs l)))" using inj(1) by (auto simp: inj_on_def)
    ultimately show ?thesis using Some inj by (auto simp: without_kept_def distinct_map)
  qed
  then show "distinct (map rt_id (lk_retained_dlcs (without_kept i l)))"
    "map_of (map kept_entry (lk_retained_dlcs (without_kept i l))) = (map_of (map kept_entry (lk_retained_dlcs l)))(i := None)"
    using assms by (auto intro!: map_of_entries_delete)
qed

definition restore_kept :: "rstr \<Rightarrow> InstallationLock \<Rightarrow> InstalledDlc \<Rightarrow> InstalledDlc" where
  "restore_kept i l resolved = (case row_where (\<lambda>r. rt_id r = i) (lk_retained_dlcs l) of None \<Rightarrow> resolved
     | Some r \<Rightarrow> resolved\<lparr>in_state_version := rt_state_version r, in_applied_migrations := rt_applied_migrations r\<rparr>)"

lemma restore_kept_version [simp]: "in_version (restore_kept i l resolved) = in_version resolved"
  by (simp add: restore_kept_def split: option.split)

lemma add_dlc_ok:
  assumes "add_dlc T raw version dp = Inr (Some dp')"
  obtains x requirement resolved where "resolve_official T x requirement True (tl_engine T) = Inr resolved"
    "od_id x \<notin> rq_id ` set (int_dlcs (dp_intent dp))"
    "dp_env_original dp' = dp_env_original dp" "dp_env_values dp' = dp_env_values dp"
    "lk_dlcs (dp_lock dp') = sort_key in_id (lk_dlcs (dp_lock dp) @ [restore_kept (od_id x) (dp_lock dp) resolved])"
    "lk_retained_dlcs (dp_lock dp') = sort_key rt_id (lk_retained_dlcs (without_kept (od_id x) (dp_lock dp)))"
    "map log_entry (lk_history (dp_lock dp')) = map log_entry (lk_history (dp_lock dp)) @ [(DlcInstalled, od_id x, Some (in_version resolved))]"
  using assms unfolding add_dlc_def Let_def without_kept_def [symmetric] restore_kept_def [symmetric]
  by (auto simp: and_then_eq_Inr reject_if_eq_Inr list_ex_iff intro!: that)

lemma add_steps:
  assumes "loaded T dp" "add_dlc T raw version dp = Inr (Some dp')"
  shows "steps_to dp dp'"
  using assms(2)
proof (rule add_dlc_ok)
  fix x requirement resolved
  assume res: "resolve_official T x requirement True (tl_engine T) = Inr resolved"
    and fresh: "od_id x \<notin> rq_id ` set (int_dlcs (dp_intent dp))"
    and env: "dp_env_original dp' = dp_env_original dp" "dp_env_values dp' = dp_env_values dp"
    and dlcs: "lk_dlcs (dp_lock dp') = sort_key in_id (lk_dlcs (dp_lock dp) @ [restore_kept (od_id x) (dp_lock dp) resolved])"
    and kept: "lk_retained_dlcs (dp_lock dp') = sort_key rt_id (lk_retained_dlcs (without_kept (od_id x) (dp_lock dp)))"
    and hist: "map log_entry (lk_history (dp_lock dp')) = map log_entry (lk_history (dp_lock dp)) @ [(DlcInstalled, od_id x, Some (in_version resolved))]"
  note ids = loaded_ids [OF assms(1)]
  let ?new = "restore_kept (od_id x) (dp_lock dp) resolved" and ?r = "registry_of (dp_lock dp)"
  have resolved: "in_id resolved = od_id x" "in_enabled resolved" "in_source_kind resolved = SourceBundled" "in_applied_migrations resolved = []"
    using res by (auto elim!: resolve_official_ok)
  have new: "active_entry ?new = (od_id x, in_version resolved, True, case rg_kept ?r (od_id x) of None \<Rightarrow> [] | Some ms \<Rightarrow> ms)"
    "in_source_kind ?new = SourceBundled"
    using resolved by (auto simp: restore_kept_def active_entry_def registry_of_def kept_lookup split: option.splits)
  then have key: "in_id ?new = od_id x" by (simp add: active_entry_def)
  have absent: "od_id x \<notin> in_id ` set (lk_dlcs (dp_lock dp))" using fresh ids(3) by simp
  have "map_of (map active_entry (lk_dlcs (dp_lock dp'))) = (map_of (map active_entry (lk_dlcs (dp_lock dp))))
      (fst (active_entry ?new) \<mapsto> snd (active_entry ?new))"
    using ids(1) absent key by (intro map_of_entries_insert) (auto simp: dlcs distinct_sort_key)
  then have "registry_of (dp_lock dp') = ?r\<lparr>rg_active := (rg_active ?r)(od_id x \<mapsto> (in_version resolved, True,
        case rg_kept ?r (od_id x) of None \<Rightarrow> [] | Some ms \<Rightarrow> ms)),
      rg_kept := (rg_kept ?r)(od_id x := None), rg_log := rg_log ?r @ [(DlcInstalled, od_id x, Some (in_version resolved))]\<rparr>"
    using without_kept_entries [OF ids(2), of "od_id x"] new(1) by (simp add: registry_of_def kept hist sorted_kept)
  moreover have "rg_active ?r (od_id x) = None" using absent by (simp add: registry_of_def map_of_eq_None_iff image_image)
  ultimately have "registry_step ?r (registry_of (dp_lock dp'))" by (simp only: registry_step.install)
  with env new(2) ids(5) show ?thesis by (auto simp: steps_to_def dlcs bundled_def)
qed

lemma update_first_map: "(\<And>x. k (f x) = k x) \<Longrightarrow> map k (update_first p f xs) = map k xs"
  by (induction xs) auto

lemma update_first_active:
  assumes "row_where (\<lambda>x. in_id x = i) ds = Some d" "\<And>x. in_id (f x) = in_id x"
  shows "map_of (map active_entry (update_first (\<lambda>x. in_id x = i) f ds)) = (map_of (map active_entry ds))(i \<mapsto> snd (active_entry (f d)))"
  using assms(1)
proof (induction ds)
  case (Cons x ds)
  have "active_entry y = (in_id y, snd (active_entry y))" for y by (simp add: active_entry_def)
  with Cons assms(2) show ?case
    by (cases "in_id x = i") (auto simp: row_where_def fun_upd_twist map_of.simps split_beta simp del: fun_upd_apply)
qed (simp add: row_where_def)

lemma in_update_first: "y \<in> set (update_first p f xs) \<Longrightarrow> y \<in> set xs \<or> y \<in> f ` set xs"
  by (induction xs) (auto split: if_splits)

lemma set_enabled_steps:
  assumes "loaded T dp" "set_enabled T raw enabled dp = Inr (Some dp')"
  shows "steps_to dp dp'"
proof -
  let ?set = "\<lambda>x. x\<lparr>in_enabled := enabled\<rparr>" and ?r = "registry_of (dp_lock dp)"
  obtain x d where x: "official_target raw = Inr x"
    and d: "row_where (\<lambda>y. in_id y = od_id x) (lk_dlcs (dp_lock dp)) = Some d" "in_enabled d \<noteq> enabled"
    using assms(2) unfolding set_enabled_def Let_def
    by (auto simp: and_then_eq_Inr ok_or_eq_Inr split: if_splits)
  have dp': "\<exists>i'. dp' = normalize_contracts (dp\<lparr>dp_intent := i', dp_lock := push_history
        ((dp_lock dp)\<lparr>lk_dlcs := update_first (\<lambda>y. in_id y = od_id x) ?set (lk_dlcs (dp_lock dp))\<rparr>)
        (if enabled then DlcEnabled else DlcDisabled) (od_id x) (Some (in_version d)) (Some (in_version d)) (tl_engine T)\<rparr>)"
    using assms(2) x d unfolding set_enabled_def Let_def
    by (cases enabled) (fastforce simp: and_then_eq_Inr ok_or_eq_Inr)+
  have lock: "lk_dlcs (dp_lock dp') = sort_key in_id (update_first (\<lambda>y. in_id y = od_id x) ?set (lk_dlcs (dp_lock dp)))"
      "lk_retained_dlcs (dp_lock dp') = sort_key rt_id (lk_retained_dlcs (dp_lock dp))"
      "map log_entry (lk_history (dp_lock dp')) = map log_entry (lk_history (dp_lock dp))
        @ [(if enabled then DlcEnabled else DlcDisabled, od_id x, Some (in_version d))]"
    and env: "dp_env_original dp' = dp_env_original dp" "dp_env_values dp' = dp_env_values dp"
    using dp' by auto
  note ids = loaded_ids [OF assms(1)]
  have "map_of (map active_entry (lk_dlcs (dp_lock dp'))) = (map_of (map active_entry (lk_dlcs (dp_lock dp))))
      (od_id x \<mapsto> snd (active_entry (?set d)))"
    using ids(1) by (simp add: lock(1) sorted_active update_first_map update_first_active [OF d(1)])
  then have "registry_of (dp_lock dp') = ?r\<lparr>rg_active := (rg_active ?r)(od_id x \<mapsto> (in_version d, \<not> in_enabled d, in_applied_migrations d)),
      rg_log := rg_log ?r @ [(if in_enabled d then DlcDisabled else DlcEnabled, od_id x, Some (in_version d))]\<rparr>"
    using d(2) ids(2) by (auto simp: registry_of_def lock sorted_kept active_entry_def)
  moreover have "rg_active ?r (od_id x) = Some (in_version d, in_enabled d, in_applied_migrations d)"
    using d(1) by (simp add: registry_of_def active_lookup active_entry_def)
  ultimately have "registry_step ?r (registry_of (dp_lock dp'))" by (simp only: registry_step.switch)
  with env ids(5) show ?thesis by (auto simp: steps_to_def lock(1) bundled_def dest!: in_update_first)
qed

lemma remove_steps:
  assumes "loaded T dp" "remove_dlc T raw dp = Inr (Some dp')"
  shows "steps_to dp dp'"
proof -
  let ?r = "registry_of (dp_lock dp)" and ?old = "\<lambda>d. \<lparr>rt_id = in_id d, rt_removed_version = in_version d,
    rt_state_version = in_state_version d, rt_applied_migrations = in_applied_migrations d\<rparr>"
  obtain x d where x: "official_target raw = Inr x"
    and row: "row_where (\<lambda>y. in_id y = od_id x) (lk_dlcs (dp_lock dp)) = Some d"
    using assms(2) unfolding remove_dlc_def Let_def by (auto simp: and_then_eq_Inr ok_or_eq_Inr)
  have dp': "\<exists>i'. dp' = normalize_contracts (dp\<lparr>dp_intent := i', dp_lock := push_history
        ((dp_lock dp)\<lparr>lk_dlcs := remove1 d (lk_dlcs (dp_lock dp)),
          lk_retained_dlcs := filter (\<lambda>r. rt_id r \<noteq> od_id x) (lk_retained_dlcs (dp_lock dp)) @ [?old d]\<rparr>)
        DlcRemoved (od_id x) (Some (in_version d)) None (tl_engine T)\<rparr>)"
    using assms(2) x row unfolding remove_dlc_def Let_def by (fastforce simp: and_then_eq_Inr ok_or_eq_Inr)
  have lock: "lk_dlcs (dp_lock dp') = sort_key in_id (remove1 d (lk_dlcs (dp_lock dp)))"
      "lk_retained_dlcs (dp_lock dp') = sort_key rt_id (filter (\<lambda>r. rt_id r \<noteq> od_id x) (lk_retained_dlcs (dp_lock dp)) @ [?old d])"
      "map log_entry (lk_history (dp_lock dp')) = map log_entry (lk_history (dp_lock dp)) @ [(DlcRemoved, od_id x, None)]"
    and env: "dp_env_original dp' = dp_env_original dp" "dp_env_values dp' = dp_env_values dp"
    using dp' by auto
  note ids = loaded_ids [OF assms(1)]
  have d: "d \<in> set (lk_dlcs (dp_lock dp))" "in_id d = od_id x" using row_where_Some [OF row] by auto
  have inj: "inj_on in_id (set (lk_dlcs (dp_lock dp)))" "distinct (lk_dlcs (dp_lock dp))" using ids(1) by (auto simp: distinct_map)
  have rest: "set (remove1 d (lk_dlcs (dp_lock dp))) = {y \<in> set (lk_dlcs (dp_lock dp)). in_id y \<noteq> od_id x}"
    using inj d by (auto simp: inj_on_def)
  have "distinct (map in_id (remove1 d (lk_dlcs (dp_lock dp))))"
    using inj rest by (auto simp: distinct_map inj_on_def)
  then have active: "map_of (map active_entry (lk_dlcs (dp_lock dp'))) = (map_of (map active_entry (lk_dlcs (dp_lock dp))))(od_id x := None)"
    using ids(1) rest by (intro map_of_entries_delete) (auto simp: lock(1) distinct_sort_key)
  have "od_id x \<notin> rt_id ` set (lk_retained_dlcs (dp_lock dp))" using ids(6) d by force
  moreover from this have "filter (\<lambda>r. rt_id r \<noteq> od_id x) (lk_retained_dlcs (dp_lock dp)) = lk_retained_dlcs (dp_lock dp)"
    by (auto simp: filter_id_conv image_iff)
  ultimately have kept: "map_of (map kept_entry (lk_retained_dlcs (dp_lock dp'))) = (map_of (map kept_entry (lk_retained_dlcs (dp_lock dp))))
      (fst (kept_entry (?old d)) \<mapsto> snd (kept_entry (?old d)))"
    using ids(2) d(2) by (intro map_of_entries_insert) (auto simp: lock(2) distinct_sort_key)
  have "registry_of (dp_lock dp') = ?r\<lparr>rg_active := (rg_active ?r)(od_id x := None),
      rg_kept := (rg_kept ?r)(od_id x \<mapsto> in_applied_migrations d), rg_log := rg_log ?r @ [(DlcRemoved, od_id x, None)]\<rparr>"
    using active kept d(2) by (simp add: registry_of_def lock(3) kept_entry_def)
  moreover have "rg_active ?r (od_id x) = Some (in_version d, in_enabled d, in_applied_migrations d)"
    using row by (simp add: registry_of_def active_lookup active_entry_def)
  ultimately have "registry_step ?r (registry_of (dp_lock dp'))" by (simp only: registry_step.remove)
  with env ids(5) rest show ?thesis by (auto simp: steps_to_def lock(1) bundled_def)
qed

lemma refreshed_steps:
  assumes "loaded T dp" "same_modules (lk_dlcs (dp_lock dp)) (int_dlcs (dp_intent dp)) news"
    "lk_dlcs (dp_lock dp') = sort_key in_id news"
    "lk_retained_dlcs (dp_lock dp') = sort_key rt_id (lk_retained_dlcs (dp_lock dp))"
    "lk_history (dp_lock dp') = lk_history (dp_lock dp)"
    "dp_env_original dp' = dp_env_original dp" "dp_env_values dp' = dp_env_values dp"
  shows "steps_to dp dp'"
proof -
  note ids = loaded_ids [OF assms(1)]
  note same = same_modules_entries [OF assms(2) ids(1,3)]
  have "map_of (map active_entry (sort_key in_id news)) = map_of (map active_entry (lk_dlcs (dp_lock dp)))"
    using ids(1,4) same(1,2) by (intro map_of_entries_cong) (simp_all add: distinct_sort_key)
  then have "registry_of (dp_lock dp') = registry_of (dp_lock dp)"
    using ids(2) by (simp add: registry_of_def assms(3-5) sorted_kept)
  then show ?thesis using same(3) assms(3,6,7) by (simp add: steps_to_def registry_step.refresh)
qed

lemma push_no_transition [simp]: "push_transitions [] engine l = l"
  by (simp add: push_transitions_def)

lemma upgrade_steps:
  assumes "loaded T dp" "version_order T" "upgrade_dlc T target version dp = Inr (Some dp')"
  shows "steps_to dp dp'"
proof -
  obtain target' requests news transitions changed where
    run: "upgrade_requests T (lk_dlcs (dp_lock dp)) target' version (int_dlcs (dp_intent dp)) = Inr (requests, news, transitions, changed)"
    and dp': "dp' = normalize_contracts (dp\<lparr>dp_intent := (dp_intent dp)\<lparr>int_dlcs := requests\<rparr>,
      dp_lock := push_transitions transitions (tl_engine T) ((dp_lock dp)\<lparr>lk_dlcs := news\<rparr>)\<rparr>)"
    using assms(3) unfolding upgrade_dlc_def Let_def
    by (auto simp: and_then_eq_Inr split: if_splits)
  have "same_modules (lk_dlcs (dp_lock dp)) (int_dlcs (dp_intent dp)) news" "transitions = []"
    using upgrade_requests_ok [OF run loaded_ids(5) [OF assms(1)] assms(2)] by auto
  with assms(1) show ?thesis by (auto simp: dp' intro: refreshed_steps)
qed

lemma reconcile_steps:
  assumes "loaded T dp" "version_order T" "reconcile T from to source artifact dp = Inr (Some dp')"
  shows "steps_to dp dp'"
proof -
  obtain news transitions e where
    run: "reconcile_requests T to (lk_dlcs (dp_lock dp)) (int_dlcs (dp_intent dp)) = Inr (news, transitions)"
    and dp': "dp' = normalize_contracts (dp\<lparr>dp_lock := push_transitions transitions to ((dp_lock dp)\<lparr>lk_engine := e, lk_dlcs := news\<rparr>)\<rparr>)"
    using assms(3) unfolding reconcile_def Let_def by (auto simp: and_then_eq_Inr)
  have "same_modules (lk_dlcs (dp_lock dp)) (int_dlcs (dp_intent dp)) news" "transitions = []"
    using reconcile_requests_ok [OF run loaded_ids(5) [OF assms(1)] assms(2)] by auto
  with assms(1) show ?thesis by (auto simp: dp' intro: refreshed_steps)
qed

lemma change_steps:
  assumes "loaded T dp" "version_order T" "change T action dp = Inr (Some dp')"
  shows "steps_to dp dp'"
  using assms by (cases action)
    (auto intro: add_steps set_enabled_steps upgrade_steps reconcile_steps remove_steps)

end
