(* ===== verification/Dlc_Reload.thy ===== *)
theory Dlc_Reload
  imports Dlc_Refinement
begin

text \<open>
  What \<open>persist\<close> writes loads again: the environment values fit on their lines, the records stay
  bundled, and the checks of \<open>load_deployment\<close> are those \<open>persist\<close> has made.
\<close>

section \<open>The composed values fit\<close>

definition plain :: "rstr \<Rightarrow> bool" where
  "plain s \<longleftrightarrow> (\<forall>c \<in> set s. c < 128 \<and> \<not> is_whitespace c)"

lemma plain_byte_len: "plain s \<Longrightarrow> byte_len s = length s"
  by (rule byte_len_ascii) (simp add: plain_def is_ascii_def list_all_iff)

lemma plain_append [simp]: "plain (s @ t) \<longleftrightarrow> plain s \<and> plain t" "plain (c # s) \<longleftrightarrow> c < 128 \<and> \<not> is_whitespace c \<and> plain s" "plain []"
  by (auto simp: plain_def)

lemma plain_join_with: "c < 128 \<Longrightarrow> \<not> is_whitespace c \<Longrightarrow> plain (join_with c ps) \<longleftrightarrow> (\<forall>p \<in> set ps. plain p)"
  by (induction c ps rule: join_with.induct) auto

lemma plain_lowercase: "list_all (\<lambda>c. is_ascii_lowercase c \<or> is_ascii_digit c \<or> c = 45) s \<Longrightarrow> plain s"
  by (auto simp: plain_def list_all_iff is_ascii_lowercase_def is_ascii_digit_def is_whitespace_def)

lemma valid_plugin_id_plain:
  assumes "valid_plugin_id s"
  shows "plain s" "length s \<le> 190"
proof -
  have "\<forall>p \<in> set (split_on 46 s). plain p"
    using assms by (auto simp: valid_plugin_id_def list_all_iff valid_label_def intro: plain_lowercase)
  then show "plain s" by (subst join_split [symmetric, of s 46]) (simp add: plain_join_with is_whitespace_def)
  show "length s \<le> 190" using assms by (simp add: valid_plugin_id_def)
qed

lemma join_texts_plain: "\<forall>t \<in> set ts. plain t \<Longrightarrow> plain (join_texts ts)"
  by (induction ts rule: join_texts.induct) (auto simp: is_whitespace_def)

lemma join_texts_length: "\<forall>t \<in> set ts. length t \<le> n \<Longrightarrow> length (join_texts ts) \<le> length ts * Suc n"
  by (induction ts rule: join_texts.induct) auto

lemma official_catalog:
  "find_official_dlc name = Some x \<Longrightarrow> x \<in> set OFFICIAL_DLCS"
  by (auto simp: find_official_dlc_def Let_def find_Some_iff)

lemma catalog_features: "x \<in> set OFFICIAL_DLCS \<Longrightarrow> plain (od_runtime_feature x) \<and> length (od_runtime_feature x) \<le> 190"
  by (auto simp: OFFICIAL_DLCS_def official_def lit_def is_whitespace_def)

text \<open>A lock has at most one record per module of the catalog.\<close>

lemma few_modules:
  assumes "\<forall>d \<in> set ds. bundled T d" "distinct (map in_id ds)"
  shows "length ds \<le> 11"
proof -
  let ?name = "\<lambda>x. pm_id (projr (parse_official_manifest T x))"
  have "in_id ` set ds \<subseteq> ?name ` set OFFICIAL_DLCS"
  proof
    fix i assume "i \<in> in_id ` set ds"
    then obtain x m where "find_official_dlc i = Some x" "parse_official_manifest T x = Inr m" "i = pm_id m"
      using assms(1) by (auto simp: bundled_def)
    then show "i \<in> ?name ` set OFFICIAL_DLCS" using official_catalog by (intro image_eqI [of _ _ x]) auto
  qed
  then have "card (in_id ` set ds) \<le> card (set OFFICIAL_DLCS)"
    by (meson List.finite_set card_image_le card_mono dual_order.trans finite_imageI)
  also have "\<dots> \<le> 11" using card_length [of OFFICIAL_DLCS] by (simp add: OFFICIAL_DLCS_def)
  finally show ?thesis using assms(2) by (metis distinct_card length_map list.set_map)
qed

lemma collect_results_ok: "collect_results f xs = Inr ys \<Longrightarrow> list_all2 (\<lambda>x y. f x = Inr y) xs ys"
  by (induction xs arbitrary: ys) (auto simp: and_then_eq_Inr)

lemma managed_fit:
  assumes "enabled_composition l = Inr composition" "\<forall>d \<in> set (lk_dlcs l). bundled T d" "distinct (map in_id (lk_dlcs l))"
    and "\<forall>d \<in> set (lk_dlcs l). valid_plugin_id (in_id d)" "valid_sha256 (lk_lock_digest l)"
  shows "\<forall>b \<in> set (managed_values l composition). fits b"
proof -
  obtain pairs where pairs: "list_all2 (\<lambda>d y. and_then (ok_or ''unknown bundled DLC'' (find_official_dlc (in_id d))) (\<lambda>x.
        Inr (in_id d, od_runtime_feature x)) = Inr y) (filter in_enabled (lk_dlcs l)) pairs"
    and composition: "composition = (join_texts (map fst pairs), if pairs = [] then lit ''none'' else join_texts (map snd pairs))"
    using assms(1) by (auto simp: enabled_composition_def and_then_eq_Inr dest!: collect_results_ok)
  have len: "length pairs \<le> 11"
    using list_all2_lengthD [OF pairs] few_modules [OF assms(2,3)] length_filter_le [of in_enabled "lk_dlcs l"] by linarith
  have each: "plain (fst p) \<and> length (fst p) \<le> 190 \<and> plain (snd p) \<and> length (snd p) \<le> 190" if "p \<in> set pairs" for p
  proof -
    obtain k where k: "k < length pairs" "p = pairs ! k" using \<open>p \<in> set pairs\<close> by (auto simp: in_set_conv_nth)
    let ?d = "filter in_enabled (lk_dlcs l) ! k"
    have "?d \<in> set (filter in_enabled (lk_dlcs l))" using k list_all2_lengthD [OF pairs] by (intro nth_mem) simp
    then have "valid_plugin_id (in_id ?d)" using assms(4) by simp
    moreover obtain x where "find_official_dlc (in_id ?d) = Some x" "p = (in_id ?d, od_runtime_feature x)"
      using list_all2_nthD2 [OF pairs k(1)] k(2) by (auto simp: and_then_eq_Inr ok_or_eq_Inr)
    ultimately show ?thesis using valid_plugin_id_plain catalog_features official_catalog by auto
  qed
  have texts: "plain (join_texts ts) \<and> length (join_texts ts) \<le> 2101" if "ts = map fst pairs \<or> ts = map snd pairs" for ts
  proof -
    have "\<forall>t \<in> set ts. plain t" "\<forall>t \<in> set ts. length t \<le> 190" using that each by auto
    note joined = join_texts_plain [OF this(1)] join_texts_length [OF this(2)]
    have "length ts * Suc 190 \<le> 11 * Suc 190" using that len by (intro mult_le_mono) auto
    with joined show ?thesis by simp
  qed
  have digest: "plain (lk_lock_digest l)" "length (lk_lock_digest l) \<le> 2101"
    using assms(5) byte_len_ge_length [of "lk_lock_digest l"]
    by (auto simp: valid_sha256_def plain_def list_all_iff is_ascii_digit_def is_whitespace_def)
  have fit: "fits (n, v)" if "plain n" "length n \<le> 100" "plain v" "length v \<le> 2101" for n v
  proof -
    have "byte_len (n @ 61 # v @ [13]) = byte_len n + byte_len v + 2" by (simp add: byte_len_def char_width_def)
    with that show ?thesis by (simp add: fits_def plain_byte_len) (simp add: plain_def)
  qed
  have none: "plain (lit ''none'')" "length (lit ''none'') \<le> 2101" by (simp_all add: lit_def is_whitespace_def)
  have keys: "plain (lit ''OSB_DLC_IDS'')" "length (lit ''OSB_DLC_IDS'') \<le> 100" "plain (lit ''OSB_FEATURES'')"
    "length (lit ''OSB_FEATURES'') \<le> 100" "plain (lit ''OSB_INSTALL_LOCK_DIGEST'')" "length (lit ''OSB_INSTALL_LOCK_DIGEST'') \<le> 100"
    by (simp_all add: lit_def is_whitespace_def)
  have "plain (fst composition) \<and> length (fst composition) \<le> 2101" "plain (snd composition) \<and> length (snd composition) \<le> 2101"
    using texts none by (simp_all add: composition)
  then have "fits (lit ''OSB_DLC_IDS'', fst composition)" "fits (lit ''OSB_FEATURES'', snd composition)"
    using fit keys by blast+
  moreover have "fits (lit ''OSB_INSTALL_LOCK_DIGEST'', lk_lock_digest l)" using fit keys digest by blast
  ultimately show ?thesis by (simp add: managed_values_def composition)
qed

section \<open>Loading what was written\<close>

text \<open>
  The TOML and JSON packages read back what they print: the intent with the line feed the tool
  adds where the text has none, the lock with its line feed.
\<close>

definition reads_back :: "('v, 'r) tool \<Rightarrow> Deployment \<Rightarrow> bool" where
  "reads_back T dp \<longleftrightarrow>
     (\<forall>rendered. intent_to_toml_pretty T (dp_intent dp) = Inr rendered \<longrightarrow> tl_intent_of_text T rendered = Some (dp_intent dp))
     \<and> (let j = lock_to_json (refresh_digest T (dp_lock dp)) in tl_json_of_text T (tl_lock_text T j @ [10]) = Some j)"

definition within_limits :: "deployment_files \<Rightarrow> bool" where
  "within_limits fs \<longleftrightarrow> byte_len (df_intent fs) \<le> INTENT_LIMIT \<and> byte_len (df_lock fs) \<le> LOCK_LIMIT
     \<and> byte_len (df_env fs) \<le> ENV_LIMIT"

lemma check_projection_ok:
  "check_projection vals bs = Inr u \<longleftrightarrow> (\<forall>(k, v) \<in> set bs. map_of vals k = Some v)"
  by (induction vals bs rule: check_projection.induct) (auto simp: and_then_eq_Inr ok_or_eq_Inr reject_if_eq_Inr)

lemma bundled_after_check:
  assumes "verify_bundled_official_manifest_bytes T l = Inr u" "\<forall>d \<in> set (lk_dlcs l). in_source_kind d = SourceBundled"
  shows "ensure_bundled_official_records T l = Inr ()"
  using assms
  by (fastforce simp: ensure_bundled_official_records_def verify_bundled_official_manifest_bytes_def
      verify_bundled_record_def and_then_eq_Inr reject_if_eq_Inr ok_or_eq_Inr)

lemma managed_keys: "map fst (managed_values l c) = MANAGED_ENV_KEYS"
  by (cases c) (simp add: managed_values_def MANAGED_ENV_KEYS_def)

lemma persist_ok:
  assumes "persist T dp = Inr fs"
  obtains composition where
    "validate_enabled_dependencies T (dp_lock dp) = Inr ()"
    "verify_intent_lock_pair T (dp_intent dp) (refresh_digest T (dp_lock dp)) = Inr ()"
    "intent_to_toml_pretty T (dp_intent dp) = Inr (df_intent fs)"
    "df_lock fs = tl_lock_text T (lock_to_json (refresh_digest T (dp_lock dp))) @ [10]"
    "enabled_composition (refresh_digest T (dp_lock dp)) = Inr composition"
    "replace_environment_values (dp_env_original dp) (managed_values (refresh_digest T (dp_lock dp)) composition) = Inr (df_env fs)"
  using assms unfolding persist_def lock_to_pretty_json_def Let_def by (auto simp: and_then_eq_Inr intro!: that)

lemma validate_refresh_dependencies [simp]:
  "validate_enabled_dependencies T (refresh_digest T l) = validate_enabled_dependencies T l"
proof -
  have "check_dependency T (refresh_digest T l) = check_dependency T l" by (simp add: fun_eq_iff check_dependency_def)
  then show ?thesis by (simp add: validate_enabled_dependencies_def)
qed

lemma persisted_loads:
  assumes "persist T dp = Inr fs" "project_environment (dp_env_original dp) = Inr vals"
    and "\<forall>d \<in> set (lk_dlcs (dp_lock dp)). in_source_kind d = SourceBundled"
    and "reads_back T dp" "within_limits fs"
  shows "\<exists>dp'. load_deployment T fs = Inr dp' \<and> dp_intent dp' = dp_intent dp
    \<and> dp_lock dp' = refresh_digest T (dp_lock dp) \<and> validate_enabled_dependencies T (dp_lock dp') = Inr ()
    \<and> (\<forall>k. k \<notin> set MANAGED_ENV_KEYS \<longrightarrow> map_of (dp_env_values dp') k = map_of vals k)"
  using assms(1)
proof (rule persist_ok)
  fix composition
  define l where "l = refresh_digest T (dp_lock dp)"
  assume "validate_enabled_dependencies T (dp_lock dp) = Inr ()"
    and "verify_intent_lock_pair T (dp_intent dp) (refresh_digest T (dp_lock dp)) = Inr ()"
    and rendered: "intent_to_toml_pretty T (dp_intent dp) = Inr (df_intent fs)"
    and "df_lock fs = tl_lock_text T (lock_to_json (refresh_digest T (dp_lock dp))) @ [10]"
    and "enabled_composition (refresh_digest T (dp_lock dp)) = Inr composition"
    and "replace_environment_values (dp_env_original dp) (managed_values (refresh_digest T (dp_lock dp)) composition) = Inr (df_env fs)"
  then have pair: "verify_intent_lock_pair T (dp_intent dp) l = Inr ()"
    and deps: "validate_enabled_dependencies T l = Inr ()"
    and lock_text: "df_lock fs = tl_lock_text T (lock_to_json l) @ [10]"
    and comp: "enabled_composition l = Inr composition"
    and env: "replace_environment_values (dp_env_original dp) (managed_values l composition) = Inr (df_env fs)"
    by (simp_all add: l_def)
  have valid: "validate_intent T (dp_intent dp) = Inr ()" "validate_lock T l = Inr ()"
    and bytes: "verify_bundled_official_manifest_bytes T l = Inr ()"
    using pair by (auto simp: verify_intent_lock_pair_def and_then_eq_Inr map_err_eq_Inr)
  have records: "ensure_bundled_official_records T l = Inr ()"
    using assms(3) by (intro bundled_after_check [OF bytes]) (simp add: l_def)
  have "\<forall>b \<in> set (managed_values l composition). fits b"
    using bundled_records [OF records] pair_requests(3) [OF pair] validate_lock_ok(4,5) [OF valid(2)]
    by (intro managed_fit [OF comp]) auto
  then obtain vals' where vals': "project_environment (df_env fs) = Inr vals'"
    "\<forall>(k, v) \<in> set (managed_values l composition). map_of vals' k = Some v"
    "\<forall>k. k \<notin> set MANAGED_ENV_KEYS \<longrightarrow> map_of vals' k = map_of vals k"
    using replace_then_project [OF assms(2) env] by (auto simp: managed_keys simp flip: set_map) (auto simp: MANAGED_ENV_KEYS_def lit_def)
  have projection: "verify_environment_projection l vals' = Inr ()"
    using comp vals'(2) by (simp add: verify_environment_projection_def check_projection_ok)
  have intent: "intent_from_toml T (df_intent fs) = Inr (dp_intent dp)"
    using assms(4) rendered valid(1) by (simp add: reads_back_def intent_from_toml_def)
  have lock: "lock_from_text T (df_lock fs) = Inr l"
    using assms(4) valid(2) by (simp add: reads_back_def lock_from_text_def lock_text l_def Let_def)
  have "read_bounded (df_intent fs) INTENT_LIMIT = Inr (df_intent fs)" "read_bounded (df_lock fs) LOCK_LIMIT = Inr (df_lock fs)"
    "read_bounded (df_env fs) ENV_LIMIT = Inr (df_env fs)"
    using assms(5) by (simp_all add: within_limits_def read_bounded_def)
  with intent lock pair records vals'(1) projection have
    "load_deployment T fs = Inr \<lparr>dp_intent_original = df_intent fs, dp_lock_original = df_lock fs, dp_env_original = df_env fs,
       dp_env_values = vals', dp_intent = dp_intent dp, dp_lock = l\<rparr>"
    by (simp add: load_deployment_def)
  with deps vals'(3) show ?thesis by (simp add: l_def)
qed

end
