(* ===== verification/Dlc_Transaction.thy ===== *)
theory Dlc_Transaction
  imports Prelude
begin

text \<open>
  The replacement of several files at once
  (\<open>apps/cli/src/bootstrap/dlc_lifecycle.rs\<close>, \<open>transactional_replace\<close> and the functions it calls)
  on a disk on which every system call may fail. A file is its text; a path is the pair of its
  directory and its name. The disk carries the outcomes of the coming calls: \<open>Some k\<close> fails
  (a write after \<open>k\<close> characters), \<open>None\<close> and an exhausted list succeed. Permissions and crashes of
  the process are left out.
\<close>

section \<open>The disk\<close>

type_synonym path = "rstr \<times> rstr"

datatype entry = RegularFile rstr | OtherEntry

record disk =
  dk_files :: "path \<Rightarrow> entry option"
  dk_faults :: "nat option list"

type_synonym 'a io = "disk \<Rightarrow> (string + 'a) \<times> disk"

definition io_then :: "'a io \<Rightarrow> ('a \<Rightarrow> 'b io) \<Rightarrow> 'b io" where
  "io_then m k d = (case m d of (Inl e, d') \<Rightarrow> (Inl e, d') | (Inr x, d') \<Rightarrow> k x d')"

definition io_result :: "string + 'a \<Rightarrow> 'a io" where
  "io_result r d = (r, d)"

text \<open>One system call: its outcome is taken from the front.\<close>

definition next_fault :: "disk \<Rightarrow> nat option \<times> disk" where
  "next_fault d = (case dk_faults d of [] \<Rightarrow> (None, d) | f # fs \<Rightarrow> (f, d\<lparr>dk_faults := fs\<rparr>))"

definition call :: "unit io" where
  "call d = (case next_fault d of (None, d') \<Rightarrow> (Inr (), d') | (Some _, d') \<Rightarrow> (Inl ''system call failed'', d'))"

definition put :: "path \<Rightarrow> entry option \<Rightarrow> unit io" where
  "put p v d = (Inr (), d\<lparr>dk_files := (dk_files d)(p := v)\<rparr>)"

definition lookup :: "path \<Rightarrow> entry io" where
  "lookup p d = (case dk_files d p of None \<Rightarrow> (Inl ''no such file'', d) | Some v \<Rightarrow> (Inr v, d))"

definition rename :: "path \<Rightarrow> path \<Rightarrow> unit io" where
  "rename a b = io_then call (\<lambda>_. io_then (lookup a) (\<lambda>v. io_then (put b (Some v)) (\<lambda>_. put a None)))"

definition read_file :: "path \<Rightarrow> rstr io" where
  "read_file p = io_then call (\<lambda>_. io_then (lookup p) (\<lambda>v.
     case v of RegularFile t \<Rightarrow> io_result (Inr t) | OtherEntry \<Rightarrow> io_result (Inl ''not a regular file'')))"

text \<open>\<open>let _ = fs::remove_file(..)\<close>: a failure leaves the file.\<close>

definition remove_file :: "path \<Rightarrow> disk \<Rightarrow> disk" where
  "remove_file p d = (case call d of (Inl _, d') \<Rightarrow> d' | (Inr _, d') \<Rightarrow> snd (put p None d'))"

section \<open>Operations\<close>

record Replacement =
  rp_path :: path
  rp_original :: rstr
  rp_replacement :: rstr

record PreparedReplacement =
  pr_path :: path
  pr_stage :: path
  pr_backup :: path
  pr_original :: rstr

datatype transaction_error = Refused string | RolledBack string | RollbackFailed string string

definition read_regular_bounded :: "path \<Rightarrow> nat \<Rightarrow> rstr io" where
  "read_regular_bounded p limit =
     io_then call (\<lambda>_. io_then (lookup p) (\<lambda>v.
       case v of OtherEntry \<Rightarrow> io_result (Inl ''must be a regular non-symlink file'')
       | RegularFile t \<Rightarrow> io_then (io_result (reject_if (byte_len t > limit) ''file exceeds its size limit'')) (\<lambda>_.
           io_then (read_file p) (\<lambda>t.
           io_then (io_result (reject_if (byte_len t > limit) ''file grew beyond its size limit while being read'')) (\<lambda>_.
             io_result (Inr t))))))"

definition stage_path :: "rstr \<Rightarrow> path \<Rightarrow> path" where
  "stage_path nonce p = (fst p, 46 # snd p @ 46 # nonce @ lit ''.stage'')"

definition backup_path :: "rstr \<Rightarrow> path \<Rightarrow> path" where
  "backup_path nonce p = (fst p, 46 # snd p @ 46 # nonce @ lit ''.backup'')"

definition create_new :: "path \<Rightarrow> unit io" where
  "create_new p = io_then call (\<lambda>_ d.
     if dk_files d p \<noteq> None then (Inl ''failed to create transaction file'', d) else put p (Some (RegularFile [])) d)"

definition write_all :: "path \<Rightarrow> rstr \<Rightarrow> unit io" where
  "write_all p text d =
     (case next_fault d of
        (None, d') \<Rightarrow> put p (Some (RegularFile text)) d'
      | (Some k, d') \<Rightarrow> (Inl ''write failed'', snd (put p (Some (RegularFile (take k text))) d')))"

text \<open>After the bytes the file is synchronised and gets its permissions.\<close>

definition write_staged :: "path \<Rightarrow> rstr \<Rightarrow> unit io" where
  "write_staged p text =
     io_then (create_new p) (\<lambda>_. io_then (write_all p text) (\<lambda>_. io_then call (\<lambda>_. call)))"

fun call_for_each :: "'a list \<Rightarrow> unit io" where
  "call_for_each [] = io_result (Inr ())"
| "call_for_each (_ # later) = io_then call (\<lambda>_. io_then call (\<lambda>_. call_for_each later))"

text \<open>Every distinct parent directory is opened and synchronised.\<close>

definition sync_parent_directories :: "path list \<Rightarrow> unit io" where
  "sync_parent_directories paths = call_for_each (remdups (map fst paths))"

definition cleanup_transaction_files :: "PreparedReplacement list \<Rightarrow> disk \<Rightarrow> disk" where
  "cleanup_transaction_files prepared =
     fold (\<lambda>item d. remove_file (pr_backup item) (remove_file (pr_stage item) d)) prepared"

definition prepare_one :: "rstr \<Rightarrow> Replacement \<Rightarrow> PreparedReplacement io" where
  "prepare_one nonce r =
     io_then (read_regular_bounded (rp_path r) (byte_len (rp_original r) + 1)) (\<lambda>current.
     io_then (io_result (reject_if (current \<noteq> rp_original r) ''file changed while the DLC transaction was being prepared'')) (\<lambda>_.
     io_then call (\<lambda>_.
     let stage = stage_path nonce (rp_path r); backup = backup_path nonce (rp_path r) in
     io_then (write_staged stage (rp_replacement r)) (\<lambda>_ d.
       case write_staged backup (rp_original r) d of
         (Inl e, d') \<Rightarrow> (Inl e, remove_file stage d')
       | (Inr _, d') \<Rightarrow> (Inr \<lparr>pr_path = rp_path r, pr_stage = stage, pr_backup = backup, pr_original = rp_original r\<rparr>, d')))))"

text \<open>The items prepared so far are kept also where a later one fails.\<close>

fun prepare_all ::
  "rstr \<Rightarrow> PreparedReplacement list \<Rightarrow> Replacement list \<Rightarrow> disk \<Rightarrow> (string + unit) \<times> PreparedReplacement list \<times> disk" where
  "prepare_all nonce prepared [] d =
     (case sync_parent_directories (concat (map (\<lambda>i. [pr_stage i, pr_backup i]) prepared)) d of (r, d') \<Rightarrow> (r, prepared, d'))"
| "prepare_all nonce prepared (x # later) d =
     (case prepare_one nonce x d of
        (Inl e, d') \<Rightarrow> (Inl e, prepared, d')
      | (Inr item, d') \<Rightarrow> prepare_all nonce (prepared @ [item]) later d')"

fun commit_all ::
  "(nat \<Rightarrow> string + unit) \<Rightarrow> nat \<Rightarrow> PreparedReplacement list \<Rightarrow> disk \<Rightarrow> (string + unit) \<times> nat \<times> disk" where
  "commit_all after_replace committed [] d = (Inr (), committed, d)"
| "commit_all after_replace committed (item # later) d =
     (case rename (pr_stage item) (pr_path item) d of
        (Inl e, d') \<Rightarrow> (Inl e, committed, d')
      | (Inr _, d') \<Rightarrow>
          (case after_replace (committed + 1) of
             Inl e \<Rightarrow> (Inl e, committed + 1, d')
           | Inr _ \<Rightarrow> commit_all after_replace (committed + 1) later d'))"

fun restore_all :: "PreparedReplacement list \<Rightarrow> unit io" where
  "restore_all [] = io_result (Inr ())"
| "restore_all (item # later) = io_then (rename (pr_backup item) (pr_path item)) (\<lambda>_. restore_all later)"

fun verify_restored :: "PreparedReplacement list \<Rightarrow> unit io" where
  "verify_restored [] = io_result (Inr ())"
| "verify_restored (item # later) =
     io_then (read_file (pr_path item)) (\<lambda>t.
     io_then (io_result (reject_if (t \<noteq> pr_original item) ''rollback verification failed'')) (\<lambda>_. verify_restored later))"

definition rollback_transaction :: "PreparedReplacement list \<Rightarrow> nat \<Rightarrow> unit io" where
  "rollback_transaction prepared committed =
     io_then (restore_all (take committed prepared)) (\<lambda>_.
     io_then (sync_parent_directories (map pr_path (take committed prepared))) (\<lambda>_.
     io_then (verify_restored (take committed prepared)) (\<lambda>_ d.
       (Inr (), cleanup_transaction_files prepared d))))"

text \<open>The renames and the synchronisation after them are one fallible block.\<close>

definition commit_and_sync ::
  "(nat \<Rightarrow> string + unit) \<Rightarrow> PreparedReplacement list \<Rightarrow> disk \<Rightarrow> (string + unit) \<times> nat \<times> disk" where
  "commit_and_sync after_replace prepared d =
     (case commit_all after_replace 0 prepared d of
        (Inl e, committed, d') \<Rightarrow> (Inl e, committed, d')
      | (Inr _, committed, d') \<Rightarrow>
          (case sync_parent_directories (map pr_path prepared) d' of (r, d'') \<Rightarrow> (r, committed, d'')))"

definition transactional_replace ::
  "rstr \<Rightarrow> Replacement list \<Rightarrow> (nat \<Rightarrow> string + unit) \<Rightarrow> disk \<Rightarrow> (transaction_error + unit) \<times> disk" where
  "transactional_replace nonce replacements after_replace d =
     (if replacements = [] then (Inl (Refused ''transaction requires at least one file''), d)
      else (case prepare_all nonce [] replacements d of
         (Inl e, prepared, d') \<Rightarrow> (Inl (Refused e), cleanup_transaction_files prepared d')
       | (Inr _, prepared, d') \<Rightarrow>
           (case commit_and_sync after_replace prepared d' of
              (Inl e, committed, d'') \<Rightarrow>
                (case rollback_transaction prepared committed d'' of
                   (Inr _, d3) \<Rightarrow> (Inl (RolledBack e), d3)
                 | (Inl e', d3) \<Rightarrow> (Inl (RollbackFailed e e'), d3))
            | (Inr _, _, d'') \<Rightarrow>
                (Inr (), snd (sync_parent_directories (map pr_path prepared) (cleanup_transaction_files prepared d''))))))"

section \<open>What the calls change\<close>

definition quiet :: "'a io \<Rightarrow> bool" where
  "quiet m \<longleftrightarrow> (\<forall>d. dk_files (snd (m d)) = dk_files d)"

named_theorems quiet_intros "operations that change no file"

lemma quietD: "quiet m \<Longrightarrow> m d = (r, d') \<Longrightarrow> dk_files d' = dk_files d"
  unfolding quiet_def by (metis snd_conv)

lemma io_then_eq:
  "io_then m k d = (r, d') \<longleftrightarrow>
     (\<exists>e. m d = (Inl e, d') \<and> r = Inl e) \<or> (\<exists>x d1. m d = (Inr x, d1) \<and> k x d1 = (r, d'))"
  by (auto simp: io_then_def split: prod.splits sum.splits)

lemma quiet_then [quiet_intros]: "quiet m \<Longrightarrow> (\<And>x. quiet (k x)) \<Longrightarrow> quiet (io_then m k)"
  by (auto simp: quiet_def io_then_def split: prod.split sum.split) (metis snd_conv)+

lemma io_then_quietE:
  assumes "quiet m" "io_then m k d = (r, d')"
  obtains e where "r = Inl e" "dk_files d' = dk_files d"
    | x d1 where "m d = (Inr x, d1)" "dk_files d1 = dk_files d" "k x d1 = (r, d')"
  using assms(2) by (auto simp: io_then_eq dest: quietD [OF assms(1)])

lemma quiet_result [quiet_intros]: "quiet (io_result r)"
  by (simp add: quiet_def io_result_def)

lemma next_fault_files: "next_fault d = (f, d') \<Longrightarrow> dk_files d' = dk_files d"
  by (auto simp: next_fault_def split: list.splits)

lemma quiet_call [quiet_intros]: "quiet call"
  by (auto simp: quiet_def call_def next_fault_files split: prod.split option.split)

lemma quiet_lookup [quiet_intros]: "quiet (lookup p)"
  by (simp add: quiet_def lookup_def split: option.split)

lemma quiet_read_file [quiet_intros]: "quiet (read_file p)"
  unfolding read_file_def by (intro quiet_intros) (simp add: quiet_result split: entry.split)

lemma quiet_read_regular_bounded [quiet_intros]: "quiet (read_regular_bounded p n)"
  unfolding read_regular_bounded_def
  by (intro quiet_intros) (auto split: entry.split intro!: quiet_intros)

lemma quiet_call_for_each: "quiet (call_for_each xs)"
  by (induction xs) (auto intro: quiet_intros)

lemma quiet_sync [quiet_intros]: "quiet (sync_parent_directories ps)"
  by (simp add: sync_parent_directories_def quiet_call_for_each)

lemma quiet_verify_restored [quiet_intros]: "quiet (verify_restored xs)"
  by (induction xs) (auto intro!: quiet_intros)

lemma lookup_eq: "lookup p d = (Inr v, d') \<longleftrightarrow> dk_files d p = Some v \<and> d' = d"
  by (auto simp: lookup_def split: option.splits)

lemma read_file_ok: "read_file p d = (Inr t, d') \<Longrightarrow> dk_files d p = Some (RegularFile t)"
  by (auto simp: read_file_def io_then_eq io_result_def lookup_eq split: entry.split_asm
      dest!: quietD [OF quiet_call]) (metis entry.exhaust)

lemma read_regular_bounded_ok:
  assumes "read_regular_bounded p n d = (Inr t, d')"
  shows "dk_files d p = Some (RegularFile t)"
proof -
  obtain d1 v where v: "call d = (Inr (), d1)" "dk_files d1 p = Some v"
    and more: "(case v of OtherEntry \<Rightarrow> io_result (Inl ''must be a regular non-symlink file'')
       | RegularFile t \<Rightarrow> io_then (io_result (reject_if (byte_len t > n) ''file exceeds its size limit'')) (\<lambda>_.
           io_then (read_file p) (\<lambda>t.
           io_then (io_result (reject_if (byte_len t > n) ''file grew beyond its size limit while being read'')) (\<lambda>_.
             io_result (Inr t))))) d1 = (Inr t, d')"
    using assms unfolding read_regular_bounded_def io_then_eq [of call] io_then_eq [of "lookup p"]
    by (auto simp: lookup_eq)
  have "\<exists>d2. read_file p d1 = (Inr t, d2)"
    using more by (cases v) (auto simp: io_then_eq io_result_def)
  with v show ?thesis
    using quietD [OF quiet_call v(1)] by (auto dest: read_file_ok)
qed

lemma rename_cases:
  assumes "rename a b d = (r, d')"
  obtains e where "r = Inl e" "dk_files d' = dk_files d"
    | "r = Inr ()" "dk_files d a \<noteq> None" "dk_files d' = (dk_files d)(b := dk_files d a, a := None)"
  using assms
  by (auto simp: rename_def io_then_eq lookup_def put_def split: option.splits dest!: quietD [OF quiet_call])

lemma write_staged_cases:
  assumes "write_staged p t d = (r, d')"
  obtains e where "r = Inl e" "dk_files d' = dk_files d"
    | v where "dk_files d p = None" "dk_files d' = (dk_files d)(p \<mapsto> v)" "r = Inr () \<longrightarrow> v = RegularFile t"
proof -
  consider e where "create_new p d = (Inl e, d')" "r = Inl e"
    | d1 where "create_new p d = (Inr (), d1)"
        "io_then (write_all p t) (\<lambda>_. io_then call (\<lambda>_. call)) d1 = (r, d')"
    using assms unfolding write_staged_def by (subst (asm) io_then_eq) auto
  then show thesis
  proof cases
    case 1
    then have "dk_files d' = dk_files d"
      by (auto simp: create_new_def io_then_eq put_def split: if_splits dest!: quietD [OF quiet_call])
    with 1 show thesis using that(1) by blast
  next
    case 2
    have created: "dk_files d p = None" "dk_files d1 = (dk_files d)(p \<mapsto> RegularFile [])"
      using 2(1) by (auto simp: create_new_def io_then_eq put_def split: if_splits dest!: quietD [OF quiet_call])
    have "\<exists>v. dk_files d' = (dk_files d1)(p \<mapsto> v) \<and> (r = Inr () \<longrightarrow> v = RegularFile t)"
      using 2(2) by (auto simp: io_then_eq write_all_def put_def split: prod.splits option.splits
          dest!: quietD [OF quiet_call] next_fault_files)
    with created show thesis using that(2) by auto
  qed
qed

lemma remove_file_cases:
  obtains "dk_files (remove_file p d) = dk_files d" | "dk_files (remove_file p d) = (dk_files d)(p := None)"
  by (cases "call d"; cases "fst (call d)") (auto simp: remove_file_def put_def dest!: quietD [OF quiet_call])

lemma remove_file_other: "q \<noteq> p \<Longrightarrow> dk_files (remove_file p d) q = dk_files d q"
  by (rule remove_file_cases [of p d]) auto

lemma cleanup_other:
  "p \<notin> pr_stage ` set xs \<Longrightarrow> p \<notin> pr_backup ` set xs \<Longrightarrow>
   dk_files (cleanup_transaction_files xs d) p = dk_files d p"
  by (induction xs arbitrary: d) (auto simp: cleanup_transaction_files_def remove_file_other)

section \<open>Preparation\<close>

definition prepared_of :: "rstr \<Rightarrow> Replacement \<Rightarrow> PreparedReplacement" where
  "prepared_of nonce x = \<lparr>pr_path = rp_path x, pr_stage = stage_path nonce (rp_path x),
     pr_backup = backup_path nonce (rp_path x), pr_original = rp_original x\<rparr>"

lemma prepared_of_sel [simp]:
  "pr_path (prepared_of nonce x) = rp_path x" "pr_stage (prepared_of nonce x) = stage_path nonce (rp_path x)"
  "pr_backup (prepared_of nonce x) = backup_path nonce (rp_path x)" "pr_original (prepared_of nonce x) = rp_original x"
  by (simp_all add: prepared_of_def)

lemma temporary_path_eq [simp]:
  "stage_path nonce p = stage_path nonce q \<longleftrightarrow> p = q" "backup_path nonce p = backup_path nonce q \<longleftrightarrow> p = q"
  by (auto simp: stage_path_def backup_path_def prod_eq_iff)

lemma stage_not_backup [simp]: "stage_path nonce p \<noteq> backup_path nonce q" "backup_path nonce q \<noteq> stage_path nonce p"
proof -
  have "last (snd (stage_path nonce p)) = 101" "last (snd (backup_path nonce q)) = 112"
    by (simp_all add: stage_path_def backup_path_def lit_def)
  then show "stage_path nonce p \<noteq> backup_path nonce q" "backup_path nonce q \<noteq> stage_path nonce p" by force+
qed

text \<open>The temporary paths of a transaction; the files that existed before, and all others, are as they were.\<close>

definition temporaries :: "rstr \<Rightarrow> Replacement list \<Rightarrow> path set" where
  "temporaries nonce xs = (stage_path nonce \<circ> rp_path) ` set xs \<union> (backup_path nonce \<circ> rp_path) ` set xs"

definition untouched :: "path set \<Rightarrow> disk \<Rightarrow> disk \<Rightarrow> bool" where
  "untouched S d0 d \<longleftrightarrow> (\<forall>p. dk_files d0 p \<noteq> None \<or> p \<notin> S \<longrightarrow> dk_files d p = dk_files d0 p)"

definition staged :: "rstr \<Rightarrow> disk \<Rightarrow> Replacement list \<Rightarrow> disk \<Rightarrow> bool" where
  "staged nonce d0 xs d \<longleftrightarrow> (\<forall>x \<in> set xs.
     dk_files d0 (rp_path x) = Some (RegularFile (rp_original x))
     \<and> dk_files d0 (stage_path nonce (rp_path x)) = None \<and> dk_files d0 (backup_path nonce (rp_path x)) = None
     \<and> dk_files d (stage_path nonce (rp_path x)) = Some (RegularFile (rp_replacement x))
     \<and> dk_files d (backup_path nonce (rp_path x)) = Some (RegularFile (rp_original x)))"

lemma untouched_paths_trans: "untouched S d0 d \<Longrightarrow> untouched S' d d' \<Longrightarrow> S' \<subseteq> S \<Longrightarrow> untouched S d0 d'"
  unfolding untouched_def by (metis subsetD)

lemma untouched_same: "dk_files d = dk_files d0 \<Longrightarrow> untouched S d0 d"
  by (simp add: untouched_def)

lemma remove_untouched: "untouched S d0 d \<Longrightarrow> p \<in> S \<Longrightarrow> dk_files d0 p = None \<Longrightarrow> untouched S d0 (remove_file p d)"
  by (rule remove_file_cases [of p d]) (auto simp: untouched_def)

lemma write_staged_untouched: "write_staged p t d = (r, d') \<Longrightarrow> p \<in> S \<Longrightarrow> untouched S d d'"
  by (erule write_staged_cases) (auto simp: untouched_def)

lemma write_staged_ok:
  "write_staged p t d = (Inr u, d') \<Longrightarrow> dk_files d p = None \<and> dk_files d' = (dk_files d)(p \<mapsto> RegularFile t)"
  by (erule write_staged_cases) auto

lemma prepare_one_unfold:
  assumes "prepare_one nonce x d = (r, d')"
  obtains e where "r = Inl e" "dk_files d' = dk_files d"
    | d1 where "dk_files d1 = dk_files d" "dk_files d (rp_path x) = Some (RegularFile (rp_original x))"
        "io_then (write_staged (stage_path nonce (rp_path x)) (rp_replacement x)) (\<lambda>_ d.
           case write_staged (backup_path nonce (rp_path x)) (rp_original x) d of
             (Inl e, d') \<Rightarrow> (Inl e, remove_file (stage_path nonce (rp_path x)) d')
           | (Inr _, d') \<Rightarrow> (Inr (prepared_of nonce x), d')) d1 = (r, d')"
  using assms unfolding prepare_one_def Let_def prepared_of_def [symmetric]
  by (elim io_then_quietE [OF quiet_read_regular_bounded] io_then_quietE [OF quiet_result] io_then_quietE [OF quiet_call])
    (simp_all add: io_result_def reject_if_eq_Inr read_regular_bounded_ok)

lemma prepare_one_spec:
  assumes "prepare_one nonce x d = (r, d')"
  shows "untouched (temporaries nonce [x]) d d'"
    and "r = Inr item \<Longrightarrow> item = prepared_of nonce x \<and> staged nonce d [x] d'"
proof -
  let ?stage = "stage_path nonce (rp_path x)" and ?backup = "backup_path nonce (rp_path x)"
  have mem: "?stage \<in> temporaries nonce [x]" "?backup \<in> temporaries nonce [x]"
    by (simp_all add: temporaries_def)
  have "untouched (temporaries nonce [x]) d d' \<and> (r = Inr item \<longrightarrow> item = prepared_of nonce x \<and> staged nonce d [x] d')"
    using assms
  proof (rule prepare_one_unfold)
    fix d1 assume same: "dk_files d1 = dk_files d" and current: "dk_files d (rp_path x) = Some (RegularFile (rp_original x))"
      and more: "io_then (write_staged ?stage (rp_replacement x)) (\<lambda>_ d.
           case write_staged ?backup (rp_original x) d of
             (Inl e, d') \<Rightarrow> (Inl e, remove_file ?stage d')
           | (Inr _, d') \<Rightarrow> (Inr (prepared_of nonce x), d')) d1 = (r, d')"
    have start: "untouched S d d2 = untouched S d1 d2" for S d2 by (simp add: untouched_def same)
    consider e where "write_staged ?stage (rp_replacement x) d1 = (Inl e, d')" "r = Inl e"
      | d2 d3 e where "write_staged ?stage (rp_replacement x) d1 = (Inr (), d2)"
          "write_staged ?backup (rp_original x) d2 = (Inl e, d3)" "d' = remove_file ?stage d3" "r = Inl e"
      | d2 where "write_staged ?stage (rp_replacement x) d1 = (Inr (), d2)"
          "write_staged ?backup (rp_original x) d2 = (Inr (), d')" "r = Inr (prepared_of nonce x)"
    proof (cases "write_staged ?stage (rp_replacement x) d1")
      case (Pair r2 d2)
      show thesis
        by (cases r2; cases "fst (write_staged ?backup (rp_original x) d2)"; cases "write_staged ?backup (rp_original x) d2")
          (use more Pair that in \<open>simp_all add: io_then_def\<close>)
    qed
    then show ?thesis
    proof cases
      case 1
      then show ?thesis using mem by (auto simp: start write_staged_untouched)
    next
      case 2
      have "dk_files d1 ?stage = None" using write_staged_ok [OF 2(1)] by simp
      moreover have "untouched (temporaries nonce [x]) d1 d3"
        using write_staged_untouched [OF 2(1) mem(1)] write_staged_untouched [OF 2(2) mem(2)]
        by (blast intro: untouched_paths_trans)
      ultimately show ?thesis using 2(3,4) mem(1) by (simp add: start remove_untouched)
    next
      case 3
      have "untouched (temporaries nonce [x]) d1 d'"
        using write_staged_untouched [OF 3(1) mem(1)] write_staged_untouched [OF 3(2) mem(2)]
        by (blast intro: untouched_paths_trans)
      moreover have "staged nonce d [x] d'"
        using write_staged_ok [OF 3(1)] write_staged_ok [OF 3(2)] current by (simp add: staged_def same split: if_splits)
      ultimately show ?thesis using 3(3) by (simp add: start)
    qed
  qed (simp add: untouched_same)
  then show "untouched (temporaries nonce [x]) d d'" "r = Inr item \<Longrightarrow> item = prepared_of nonce x \<and> staged nonce d [x] d'"
    by auto
qed

lemma staged_append: "staged nonce d0 (xs @ ys) d \<longleftrightarrow> staged nonce d0 xs d \<and> staged nonce d0 ys d"
  by (auto simp: staged_def)

lemma staged_later: "staged nonce d0 xs d \<Longrightarrow> untouched S d d' \<Longrightarrow> staged nonce d0 xs d'"
  unfolding staged_def untouched_def by (metis option.distinct(1))

lemma staged_earlier:
  assumes "untouched S d0 d" "staged nonce d [x] d'" "dk_files d0 (rp_path x) \<noteq> None"
  shows "staged nonce d0 [x] d'"
proof -
  have "dk_files d0 p = None" if "dk_files d p = None" for p
    using assms(1) that unfolding untouched_def by metis
  moreover have "dk_files d (rp_path x) = dk_files d0 (rp_path x)"
    using assms(1,3) unfolding untouched_def by blast
  ultimately show ?thesis using assms(2) by (simp add: staged_def)
qed

lemma prepare_all_spec:
  assumes "prepare_all nonce (map (prepared_of nonce) ys) xs d = (r, prepared, d')"
    and "staged nonce d0 ys d" "untouched S d0 d" "temporaries nonce xs \<subseteq> S"
    and "\<forall>x \<in> set xs. dk_files d0 (rp_path x) \<noteq> None"
  shows "\<exists>zs. prepared = map (prepared_of nonce) zs \<and> set zs \<subseteq> set ys \<union> set xs \<and> staged nonce d0 zs d'
    \<and> untouched S d0 d' \<and> (r = Inr () \<longrightarrow> zs = ys @ xs)"
  using assms
proof (induction xs arbitrary: ys d)
  case Nil
  then have "dk_files d' = dk_files d" "prepared = map (prepared_of nonce) ys"
    by (auto split: prod.splits dest: quietD [OF quiet_sync])
  with Nil show ?case by (auto simp: staged_def untouched_def)
next
  case (Cons x xs)
  obtain r1 d1 where one: "prepare_one nonce x d = (r1, d1)" by fastforce
  have quiet: "untouched (temporaries nonce [x]) d d1" by (rule prepare_one_spec(1) [OF one])
  have sub: "temporaries nonce [x] \<subseteq> S" "temporaries nonce xs \<subseteq> S" using Cons.prems(4) by (auto simp: temporaries_def)
  have now: "untouched S d0 d1" "staged nonce d0 ys d1"
    using untouched_paths_trans [OF Cons.prems(3) quiet sub(1)] staged_later [OF Cons.prems(2) quiet] by auto
  show ?case
  proof (cases r1)
    case (Inl e)
    with one Cons.prems(1) now show ?thesis by auto
  next
    case (Inr item)
    have item: "item = prepared_of nonce x" "staged nonce d0 [x] d1"
      using prepare_one_spec(2) [OF one Inr] staged_earlier [OF Cons.prems(3)] Cons.prems(5) by auto
    have "prepare_all nonce (map (prepared_of nonce) (ys @ [x])) xs d1 = (r, prepared, d')"
      using Cons.prems(1) one Inr item by simp
    from Cons.IH [OF this _ now(1) sub(2)] item(2) now(2) Cons.prems(5) show ?thesis
      by (auto simp: staged_append)
  qed
qed

lemma cleanup_untouched:
  assumes "staged nonce d0 zs d1" "untouched S d0 d" "temporaries nonce zs \<subseteq> S"
  shows "untouched S d0 (cleanup_transaction_files (map (prepared_of nonce) zs) d)"
  using assms
proof (induction zs arbitrary: d)
  case (Cons z zs)
  have "untouched S d0 (remove_file (backup_path nonce (rp_path z)) (remove_file (stage_path nonce (rp_path z)) d))"
    using Cons.prems by (intro remove_untouched) (auto simp: staged_def temporaries_def)
  moreover have "staged nonce d0 zs d1" "temporaries nonce zs \<subseteq> S"
    using Cons.prems(1,3) by (auto simp: staged_def temporaries_def)
  ultimately show ?case using Cons.IH by (simp add: cleanup_transaction_files_def)
qed (simp add: cleanup_transaction_files_def)

section \<open>Commit and rollback\<close>

text \<open>The effect of a sequence of renames on the files.\<close>

fun moved :: "(path \<times> path) list \<Rightarrow> (path \<Rightarrow> entry option) \<Rightarrow> path \<Rightarrow> entry option" where
  "moved [] m = m"
| "moved ((a, b) # later) m = moved later (m(b := m a, a := None))"

definition separate :: "(path \<times> path) list \<Rightarrow> bool" where
  "separate ms \<longleftrightarrow> distinct (map fst ms) \<and> distinct (map snd ms) \<and> fst ` set ms \<inter> snd ` set ms = {}"

lemma moved_other: "p \<notin> fst ` set ms \<Longrightarrow> p \<notin> snd ` set ms \<Longrightarrow> moved ms m p = m p"
  by (induction ms arbitrary: m) auto

lemma moved_target: "separate ms \<Longrightarrow> (a, b) \<in> set ms \<Longrightarrow> moved ms m b = m a"
proof (induction ms arbitrary: m)
  case (Cons x ms)
  obtain a' b' where x: "x = (a', b')" by (cases x)
  have sep: "separate ms" and new: "b' \<notin> fst ` set ms" "b' \<notin> snd ` set ms" "a' \<notin> fst ` set ms" "a' \<noteq> b'"
    using Cons.prems(1) by (auto simp: separate_def x)
  show ?case
  proof (cases "x = (a, b)")
    case True
    with new x show ?thesis by (simp add: moved_other)
  next
    case False
    then have "(a, b) \<in> set ms" using Cons.prems(2) by simp
    then have "a \<noteq> a'" "a \<noteq> b'" using new by force+
    with Cons.IH [OF sep \<open>(a, b) \<in> set ms\<close>] show ?thesis by (simp add: x)
  qed
qed simp

lemma commit_all_moved:
  "commit_all after n items d = (r, c, d') \<Longrightarrow>
   \<exists>k \<le> length items. c = n + k \<and> (r = Inr () \<longrightarrow> k = length items)
     \<and> dk_files d' = moved (map (\<lambda>i. (pr_stage i, pr_path i)) (take k items)) (dk_files d)"
proof (induction items arbitrary: n d)
  case (Cons x items)
  obtain r1 d1 where rn: "rename (pr_stage x) (pr_path x) d = (r1, d1)" by fastforce
  from rn show ?case
  proof (cases rule: rename_cases)
    case (1 e)
    with Cons.prems rn show ?thesis by (intro exI [of _ 0]) auto
  next
    case 2
    show ?thesis
    proof (cases "after (n + 1)")
      case (Inl e)
      with Cons.prems rn 2 show ?thesis by (intro exI [of _ 1]) auto
    next
      case (Inr u)
      with Cons.prems rn 2 have "commit_all after (n + 1) items d1 = (r, c, d')" by simp
      from Cons.IH [OF this] obtain k where "k \<le> length items" "c = n + 1 + k" "r = Inr () \<longrightarrow> k = length items"
        "dk_files d' = moved (map (\<lambda>i. (pr_stage i, pr_path i)) (take k items)) (dk_files d1)" by blast
      with 2 show ?thesis by (intro exI [of _ "Suc k"]) simp
    qed
  qed
qed simp

lemma restore_all_moved:
  "restore_all items d = (r, d') \<Longrightarrow>
   \<exists>k \<le> length items. (r = Inr () \<longrightarrow> k = length items)
     \<and> dk_files d' = moved (map (\<lambda>i. (pr_backup i, pr_path i)) (take k items)) (dk_files d)"
proof (induction items arbitrary: d)
  case (Cons x items)
  obtain r1 d1 where rn: "rename (pr_backup x) (pr_path x) d = (r1, d1)" by fastforce
  from rn show ?case
  proof (cases rule: rename_cases)
    case (1 e)
    with Cons.prems rn show ?thesis by (intro exI [of _ 0]) (auto simp: io_then_eq)
  next
    case 2
    with Cons.prems rn have "restore_all items d1 = (r, d')" by (auto simp: io_then_eq)
    from Cons.IH [OF this] obtain k where "k \<le> length items" "r = Inr () \<longrightarrow> k = length items"
      "dk_files d' = moved (map (\<lambda>i. (pr_backup i, pr_path i)) (take k items)) (dk_files d1)" by blast
    with 2 show ?thesis by (intro exI [of _ "Suc k"]) simp
  qed
qed (simp add: io_result_def)

text \<open>
  The files of a transaction after \<open>k\<close> renames, \<open>j\<close> of them taken back: the taken back ones and
  those never renamed hold what they held, the others the replacement, with the backup beside.
\<close>

definition halfway :: "rstr \<Rightarrow> disk \<Rightarrow> Replacement list \<Rightarrow> nat \<Rightarrow> nat \<Rightarrow> disk \<Rightarrow> bool" where
  "halfway nonce d0 xs j k d \<longleftrightarrow>
     (\<forall>x \<in> set (take j xs) \<union> set (drop k xs). dk_files d (rp_path x) = dk_files d0 (rp_path x))
     \<and> (\<forall>x \<in> set (drop j (take k xs)). dk_files d (rp_path x) = Some (RegularFile (rp_replacement x))
          \<and> dk_files d (backup_path nonce (rp_path x)) = Some (RegularFile (rp_original x)))
     \<and> (\<forall>p. p \<notin> rp_path ` set xs \<and> p \<notin> temporaries nonce xs \<longrightarrow> dk_files d p = dk_files d0 p)"

lemma staged_apart:
  assumes "staged nonce d0 xs d" "x \<in> set xs" "y \<in> set xs"
  shows "stage_path nonce (rp_path x) \<noteq> rp_path y" "backup_path nonce (rp_path x) \<noteq> rp_path y"
  using assms unfolding staged_def by (metis option.distinct(1))+

lemma separate_moves:
  assumes "staged nonce d0 xs d" "distinct (map rp_path xs)" "distinct ys" "set ys \<subseteq> set xs"
  shows "separate (map (\<lambda>x. (stage_path nonce (rp_path x), rp_path x)) ys)"
    "separate (map (\<lambda>x. (backup_path nonce (rp_path x), rp_path x)) ys)"
proof -
  have inj: "inj_on rp_path (set xs)" using assms(2) by (simp add: distinct_map)
  then show "separate (map (\<lambda>x. (stage_path nonce (rp_path x), rp_path x)) ys)"
    "separate (map (\<lambda>x. (backup_path nonce (rp_path x), rp_path x)) ys)"
    using assms(3,4) staged_apart [OF assms(1)]
    by (auto simp: separate_def distinct_map inj_on_def subset_iff) (metis subsetD)+
qed

lemma take_drop_apart:
  assumes "distinct (map rp_path xs)" "x \<in> set (take k xs)" "y \<in> set (drop k xs)"
  shows "rp_path x \<noteq> rp_path y"
proof -
  have "distinct (map rp_path (take k xs @ drop k xs))" using assms(1) by simp
  with assms(2,3) show ?thesis unfolding map_append distinct_append by force
qed

lemma commit_halfway:
  assumes st: "staged nonce d0 xs d1" and un: "untouched (temporaries nonce xs) d0 d1"
    and dist: "distinct (map rp_path xs)"
    and moves: "dk_files d2 = moved (map (\<lambda>x. (stage_path nonce (rp_path x), rp_path x)) (take k xs)) (dk_files d1)"
  shows "halfway nonce d0 xs 0 k d2"
    and "x \<in> set xs \<Longrightarrow> dk_files d2 (backup_path nonce (rp_path x)) = Some (RegularFile (rp_original x))"
proof -
  let ?ms = "map (\<lambda>x. (stage_path nonce (rp_path x), rp_path x)) (take k xs)"
  note apart = staged_apart [OF st]
  have taken: "y \<in> set xs" if "y \<in> set (take k xs)" for y using that by (rule in_set_takeD)
  have sep: "separate ?ms"
    by (rule separate_moves(1) [OF st dist]) (use dist taken in \<open>auto simp: distinct_map\<close>)
  have present: "dk_files d1 (rp_path y) = dk_files d0 (rp_path y)" if "y \<in> set xs" for y
    using un st that unfolding untouched_def staged_def by (metis option.distinct(1))
  have target: "dk_files d2 (rp_path y) = Some (RegularFile (rp_replacement y))" if "y \<in> set (take k xs)" for y
    using moved_target [OF sep, of "stage_path nonce (rp_path y)" "rp_path y" "dk_files d1"] that st taken [OF that]
    by (auto simp: moves staged_def)
  have rest: "dk_files d2 p = dk_files d1 p"
    if "p \<notin> (\<lambda>x. stage_path nonce (rp_path x)) ` set (take k xs)" "p \<notin> rp_path ` set (take k xs)" for p
    using moved_other [of p ?ms "dk_files d1"] that by (simp add: moves image_image)
  have backup: "dk_files d2 (backup_path nonce (rp_path y)) = Some (RegularFile (rp_original y))" if "y \<in> set xs" for y
    using st that by (subst rest) (auto simp: staged_def dest!: taken apart(2) [OF that])
  have later: "dk_files d2 (rp_path y) = dk_files d0 (rp_path y)" if y: "y \<in> set (drop k xs)" for y
  proof -
    have "y \<in> set xs" using y by (rule in_set_dropD)
    moreover have "rp_path y \<notin> rp_path ` set (take k xs)" using take_drop_apart [OF dist _ y] by force
    moreover have "rp_path y \<notin> (\<lambda>x. stage_path nonce (rp_path x)) ` set (take k xs)"
      using apart(1) [OF taken \<open>y \<in> set xs\<close>] by force
    ultimately show ?thesis by (simp add: rest present)
  qed
  have frame: "dk_files d2 p = dk_files d0 p" if "p \<notin> rp_path ` set xs" "p \<notin> temporaries nonce xs" for p
  proof -
    have "dk_files d1 p = dk_files d0 p" using un that(2) unfolding untouched_def by blast
    with that show ?thesis by (subst rest) (auto simp: temporaries_def dest: taken)
  qed
  show "halfway nonce d0 xs 0 k d2" using target later backup frame taken by (auto simp: halfway_def)
  show "x \<in> set xs \<Longrightarrow> dk_files d2 (backup_path nonce (rp_path x)) = Some (RegularFile (rp_original x))"
    by (rule backup)
qed

lemma rollback_halfway:
  assumes st: "staged nonce d0 xs d1" and dist: "distinct (map rp_path xs)"
    and half: "halfway nonce d0 xs 0 k d2" and "j \<le> k"
    and backups: "\<And>x. x \<in> set xs \<Longrightarrow> dk_files d2 (backup_path nonce (rp_path x)) = Some (RegularFile (rp_original x))"
    and moves: "dk_files d3 = moved (map (\<lambda>x. (backup_path nonce (rp_path x), rp_path x)) (take j xs)) (dk_files d2)"
  shows "halfway nonce d0 xs j k d3"
proof -
  let ?ms = "map (\<lambda>x. (backup_path nonce (rp_path x), rp_path x)) (take j xs)"
  note apart = staged_apart [OF st]
  have taken: "y \<in> set xs" if "y \<in> set (take j xs)" for y using that by (rule in_set_takeD)
  have sep: "separate ?ms"
    by (rule separate_moves(2) [OF st dist]) (use dist taken in \<open>auto simp: distinct_map\<close>)
  have restored: "dk_files d3 (rp_path y) = dk_files d0 (rp_path y)" if "y \<in> set (take j xs)" for y
    using moved_target [OF sep, of "backup_path nonce (rp_path y)" "rp_path y" "dk_files d2"] that st backups taken [OF that]
    by (auto simp: moves staged_def)
  have rest: "dk_files d3 p = dk_files d2 p"
    if "p \<notin> (\<lambda>x. backup_path nonce (rp_path x)) ` set (take j xs)" "p \<notin> rp_path ` set (take j xs)" for p
    using moved_other [of p ?ms "dk_files d2"] that by (simp add: moves image_image)
  have other: "dk_files d3 (rp_path y) = dk_files d2 (rp_path y)"
      "dk_files d3 (backup_path nonce (rp_path y)) = dk_files d2 (backup_path nonce (rp_path y))"
    if y: "y \<in> set (drop j xs)" for y
  proof -
    have "y \<in> set xs" using y by (rule in_set_dropD)
    moreover have "rp_path y \<notin> rp_path ` set (take j xs)" using take_drop_apart [OF dist _ y] by force
    ultimately show "dk_files d3 (rp_path y) = dk_files d2 (rp_path y)"
      "dk_files d3 (backup_path nonce (rp_path y)) = dk_files d2 (backup_path nonce (rp_path y))"
      using apart(2) [OF taken \<open>y \<in> set xs\<close>] apart(2) [OF \<open>y \<in> set xs\<close> taken]
      by (intro rest; force)+
  qed
  have "set (drop j (take k xs)) \<subseteq> set (drop 0 (take k xs))" using set_drop_subset [of j "take k xs"] by simp
  moreover have "set (drop k xs) \<subseteq> set (drop j xs)" using \<open>j \<le> k\<close> by (rule set_drop_subset_set_drop)
  moreover have "set (drop j (take k xs)) \<subseteq> set (drop j xs)" by (auto simp: drop_take dest: in_set_takeD)
  moreover have "dk_files d3 p = dk_files d0 p" if "p \<notin> rp_path ` set xs" "p \<notin> temporaries nonce xs" for p
  proof -
    have "dk_files d2 p = dk_files d0 p" using half that unfolding halfway_def by blast
    with that show ?thesis by (subst rest) (auto simp: temporaries_def dest: taken)
  qed
  ultimately show ?thesis
    using half restored other backups unfolding halfway_def by (simp add: subset_iff) (metis UnE Un_iff)
qed

lemma cleanup_halfway:
  assumes st: "staged nonce d0 xs d1" and half: "halfway nonce d0 xs k k d"
  shows "halfway nonce d0 xs k k (cleanup_transaction_files (map (prepared_of nonce) xs) d)"
proof -
  define d' where "d' = cleanup_transaction_files (map (prepared_of nonce) xs) d"
  have other: "dk_files d' p = dk_files d p" if "p \<notin> temporaries nonce xs" for p
    unfolding d'_def using that by (intro cleanup_other) (auto simp: temporaries_def)
  have "dk_files d' (rp_path x) = dk_files d (rp_path x)" if "x \<in> set xs" for x
    using staged_apart [OF st _ that] by (intro other) (force simp: temporaries_def)
  then have "dk_files d' (rp_path x) = dk_files d0 (rp_path x)" if "x \<in> set (take k xs) \<union> set (drop k xs)" for x
    using half that unfolding halfway_def by (metis UnE in_set_takeD in_set_dropD)
  moreover have "dk_files d' p = dk_files d0 p" if "p \<notin> rp_path ` set xs" "p \<notin> temporaries nonce xs" for p
    using half that other unfolding halfway_def by metis
  ultimately show ?thesis unfolding halfway_def d'_def [symmetric] by simp
qed

lemma rollback_transaction_spec:
  assumes st: "staged nonce d0 xs d1" and dist: "distinct (map rp_path xs)"
    and half: "halfway nonce d0 xs 0 k d2" and "k \<le> length xs"
    and backups: "\<And>x. x \<in> set xs \<Longrightarrow> dk_files d2 (backup_path nonce (rp_path x)) = Some (RegularFile (rp_original x))"
    and run: "rollback_transaction (map (prepared_of nonce) xs) k d2 = (r, d3)"
  shows "\<exists>j \<le> k. halfway nonce d0 xs j k d3 \<and> (r = Inr () \<longrightarrow> j = k)"
proof -
  let ?items = "map (prepared_of nonce) xs"
  obtain r1 e1 where restore: "restore_all (take k ?items) d2 = (r1, e1)" by fastforce
  have len: "length (take k ?items) = k" using \<open>k \<le> length xs\<close> by simp
  from restore_all_moved [OF restore, unfolded len] obtain j where j: "j \<le> k" "r1 = Inr () \<longrightarrow> j = k"
    and restored: "dk_files e1 = moved (map (\<lambda>i. (pr_backup i, pr_path i)) (take j (take k ?items))) (dk_files d2)"
    by blast
  have moves: "dk_files e1 = moved (map (\<lambda>x. (backup_path nonce (rp_path x), rp_path x)) (take j xs)) (dk_files d2)"
    using restored j(1) by (simp add: take_map comp_def min_absorb1)
  have now: "halfway nonce d0 xs j k e1"
    by (rule rollback_halfway [OF st dist half j(1) backups moves])
  have same: "halfway nonce d0 xs j k e" if "dk_files e = dk_files e1" for e
    using now that by (simp add: halfway_def)
  show ?thesis
  proof (cases r1)
    case (Inl e)
    with run restore have "d3 = e1" "r = Inl e" by (auto simp: rollback_transaction_def io_then_def)
    with now j(1) show ?thesis by auto
  next
    case (Inr u)
    with run restore have "io_then (sync_parent_directories (map pr_path (take k ?items))) (\<lambda>_.
       io_then (verify_restored (take k ?items)) (\<lambda>_ d. (Inr (), cleanup_transaction_files ?items d))) e1 = (r, d3)"
      by (simp add: rollback_transaction_def io_then_def)
    then show ?thesis
    proof (elim io_then_quietE [OF quiet_sync] io_then_quietE [OF quiet_verify_restored])
      fix e assume "r = Inl e" "dk_files d3 = dk_files e1"
      with same j(1) show ?thesis by auto
    next
      fix u d4 e assume "dk_files d4 = dk_files e1" "r = Inl e" "dk_files d3 = dk_files d4"
      with same j(1) show ?thesis by auto
    next
      fix u d4 v d5 assume "dk_files d4 = dk_files e1" "dk_files d5 = dk_files d4"
        and "(Inr (), cleanup_transaction_files ?items d5) = (r, d3)"
      then show ?thesis using Inr j same [of d5] cleanup_halfway [OF st, of k d5] by auto
    qed
  qed
qed

lemma commit_and_sync_spec:
  assumes "commit_and_sync after (map (prepared_of nonce) xs) d = (r, c, d')"
  shows "\<exists>k \<le> length xs. c = k \<and> (r = Inr () \<longrightarrow> k = length xs)
    \<and> dk_files d' = moved (map (\<lambda>x. (stage_path nonce (rp_path x), rp_path x)) (take k xs)) (dk_files d)"
proof -
  obtain r1 c1 d1 where commit: "commit_all after 0 (map (prepared_of nonce) xs) d = (r1, c1, d1)"
    by (cases "commit_all after 0 (map (prepared_of nonce) xs) d")
  have "c = c1 \<and> dk_files d' = dk_files d1 \<and> (r = Inr () \<longrightarrow> r1 = Inr ())"
    using assms commit by (cases r1) (auto simp: commit_and_sync_def split: prod.splits dest: quietD [OF quiet_sync])
  with commit_all_moved [OF commit] show ?thesis by (auto simp: take_map comp_def)
qed

text \<open>What a transaction that ended with the given result has done to the files.\<close>

definition outcome ::
  "rstr \<Rightarrow> disk \<Rightarrow> Replacement list \<Rightarrow> transaction_error + unit \<Rightarrow> disk \<Rightarrow> bool" where
  "outcome nonce d xs r d' \<longleftrightarrow>
     (\<forall>x \<in> set xs. case r of
        Inr _ \<Rightarrow> dk_files d (rp_path x) = Some (RegularFile (rp_original x))
          \<and> dk_files d' (rp_path x) = Some (RegularFile (rp_replacement x))
      | Inl (RollbackFailed _ _) \<Rightarrow> dk_files d' (rp_path x) = dk_files d (rp_path x)
          \<or> dk_files d' (rp_path x) = Some (RegularFile (rp_replacement x))
            \<and> dk_files d' (backup_path nonce (rp_path x)) = Some (RegularFile (rp_original x))
      | Inl _ \<Rightarrow> dk_files d' (rp_path x) = dk_files d (rp_path x))
     \<and> (\<forall>p. p \<notin> rp_path ` set xs \<and> p \<notin> temporaries nonce xs \<longrightarrow> dk_files d' p = dk_files d p)"

lemma untouched_outcome:
  assumes "untouched (temporaries nonce xs) d d'" "\<forall>x \<in> set xs. dk_files d (rp_path x) \<noteq> None"
  shows "outcome nonce d xs (Inl (Refused e)) d'"
  using assms unfolding outcome_def untouched_def by (simp del: split_paired_All)

lemma halfway_unchanged: "halfway nonce d xs k k d' \<Longrightarrow> outcome nonce d xs (Inl (RolledBack e)) d'"
  unfolding outcome_def halfway_def by simp (metis UnCI append_take_drop_id set_append Un_iff)

lemma halfway_part:
  assumes "halfway nonce d xs j k d'" "j \<le> k"
  shows "outcome nonce d xs (Inl (RollbackFailed e e')) d'"
proof -
  have "set xs = set (take j xs) \<union> set (drop j (take k xs)) \<union> set (drop k xs)"
    using \<open>j \<le> k\<close> by (metis append_take_drop_id set_append take_take min_absorb1)
  with assms(1) show ?thesis unfolding outcome_def halfway_def by (simp add: ball_Un)
qed

lemma halfway_done:
  assumes st: "staged nonce d xs d1" and half: "halfway nonce d xs 0 (length xs) d'"
  shows "outcome nonce d xs (Inr ()) (snd (sync_parent_directories ps (cleanup_transaction_files (map (prepared_of nonce) xs) d')))"
proof -
  define e where "e = snd (sync_parent_directories ps (cleanup_transaction_files (map (prepared_of nonce) xs) d'))"
  have other: "dk_files e p = dk_files d' p" if "p \<notin> temporaries nonce xs" for p
  proof -
    have "dk_files e = dk_files (cleanup_transaction_files (map (prepared_of nonce) xs) d')"
      unfolding e_def using quiet_sync [of ps] by (simp add: quiet_def)
    moreover have "dk_files (cleanup_transaction_files (map (prepared_of nonce) xs) d') p = dk_files d' p"
      using that by (intro cleanup_other) (auto simp: temporaries_def)
    ultimately show ?thesis by simp
  qed
  have "dk_files e (rp_path x) = dk_files d' (rp_path x)" if "x \<in> set xs" for x
    using staged_apart [OF st _ that] by (intro other) (force simp: temporaries_def)
  with st half other show ?thesis
    unfolding outcome_def e_def [symmetric] halfway_def staged_def by simp
qed

lemma transaction_outcome:
  assumes "transactional_replace nonce xs after d = (r, d')"
    and dist: "distinct (map rp_path xs)" and ex: "\<forall>x \<in> set xs. dk_files d (rp_path x) \<noteq> None"
  shows "outcome nonce d xs r d'"
proof (cases "xs = []")
  case True
  with assms(1) show ?thesis by (auto simp: transactional_replace_def outcome_def)
next
  case False
  obtain r1 ps d1 where prepare: "prepare_all nonce (map (prepared_of nonce) []) xs d = (r1, ps, d1)"
    by (cases "prepare_all nonce (map (prepared_of nonce) []) xs d")
  have empty: "staged nonce d [] d" "untouched (temporaries nonce xs) d d" by (simp_all add: staged_def untouched_def)
  obtain zs where zs: "ps = map (prepared_of nonce) zs" "set zs \<subseteq> set xs" "staged nonce d zs d1"
    "untouched (temporaries nonce xs) d d1" "r1 = Inr () \<Longrightarrow> zs = xs"
    using prepare_all_spec [OF prepare empty order_refl ex] by auto
  show ?thesis
  proof (cases r1)
    case (Inl e)
    have "temporaries nonce zs \<subseteq> temporaries nonce xs" using zs(2) by (auto simp: temporaries_def)
    then have "untouched (temporaries nonce xs) d (cleanup_transaction_files ps d1)"
      unfolding zs(1) by (rule cleanup_untouched [OF zs(3,4)])
    with Inl prepare False assms(1) ex show ?thesis
      by (auto simp: transactional_replace_def intro: untouched_outcome)
  next
    case prepared: (Inr u)
    then have all: "zs = xs" "staged nonce d xs d1" "ps = map (prepared_of nonce) xs" using zs by auto
    obtain r2 k d2 where commit: "commit_and_sync after (map (prepared_of nonce) xs) d1 = (r2, k, d2)"
      by (cases "commit_and_sync after (map (prepared_of nonce) xs) d1")
    then have k: "k \<le> length xs" "r2 = Inr () \<longrightarrow> k = length xs"
      and moves: "dk_files d2 = moved (map (\<lambda>x. (stage_path nonce (rp_path x), rp_path x)) (take k xs)) (dk_files d1)"
      using commit_and_sync_spec [OF commit] by auto
    note half = commit_halfway [OF all(2) zs(4) dist moves]
    show ?thesis
    proof (cases r2)
      case (Inl e)
      obtain r3 d3 where roll: "rollback_transaction (map (prepared_of nonce) xs) k d2 = (r3, d3)" by fastforce
      obtain j where "j \<le> k" "halfway nonce d xs j k d3" "r3 = Inr () \<longrightarrow> j = k"
        using rollback_transaction_spec [OF all(2) dist half(1) k(1) half(2) roll] by blast
      with Inl prepared commit prepare all(3) False assms(1) roll show ?thesis
        by (cases r3) (auto simp: transactional_replace_def intro: halfway_unchanged halfway_part)
    next
      case (Inr u)
      with k half(1) have "halfway nonce d xs 0 (length xs) d2" by auto
      from halfway_done [OF all(2) this] Inr prepared commit prepare all(3) False assms(1) show ?thesis
        by (auto simp: transactional_replace_def)
    qed
  qed
qed

section \<open>Without failing calls\<close>

lemma faultless_calls:
  assumes "dk_faults d = []"
  shows "call d = (Inr (), d)" "call_for_each ys d = (Inr (), d)" "sync_parent_directories ps d = (Inr (), d)"
proof -
  show call: "call d = (Inr (), d)" using assms by (simp add: call_def next_fault_def)
  have each: "call_for_each zs d = (Inr (), d)" for zs :: "'z list"
    by (induction zs) (simp_all add: io_result_def io_then_def call)
  show "call_for_each ys d = (Inr (), d)" "sync_parent_directories ps d = (Inr (), d)"
    by (simp_all add: each sync_parent_directories_def)
qed

lemma faultless_write:
  assumes "dk_faults d = []" "dk_files d p = None"
  shows "write_staged p t d = (Inr (), d\<lparr>dk_files := (dk_files d)(p \<mapsto> RegularFile t)\<rparr>)"
  using assms
  by (simp add: write_staged_def io_then_def create_new_def faultless_calls put_def write_all_def next_fault_def)

lemma faultless_prepare_one:
  assumes "dk_faults d = []" "dk_files d (rp_path x) = Some (RegularFile (rp_original x))"
    "dk_files d (stage_path nonce (rp_path x)) = None" "dk_files d (backup_path nonce (rp_path x)) = None"
  shows "prepare_one nonce x d = (Inr (prepared_of nonce x), d\<lparr>dk_files := (dk_files d)
    (stage_path nonce (rp_path x) \<mapsto> RegularFile (rp_replacement x), backup_path nonce (rp_path x) \<mapsto> RegularFile (rp_original x))\<rparr>)"
proof -
  have "read_regular_bounded (rp_path x) (byte_len (rp_original x) + 1) d = (Inr (rp_original x), d)"
    using assms(1,2)
    by (simp add: read_regular_bounded_def read_file_def io_then_def faultless_calls lookup_def io_result_def)
  then show ?thesis using assms
    by (simp add: prepare_one_def io_then_def faultless_calls io_result_def faultless_write prepared_of_def Let_def)
qed

text \<open>The targets hold their originals and the temporary names are free.\<close>

definition ready :: "rstr \<Rightarrow> Replacement list \<Rightarrow> disk \<Rightarrow> bool" where
  "ready nonce xs d \<longleftrightarrow> (\<forall>x \<in> set xs. dk_files d (rp_path x) = Some (RegularFile (rp_original x))
     \<and> dk_files d (stage_path nonce (rp_path x)) = None \<and> dk_files d (backup_path nonce (rp_path x)) = None)"

lemma faultless_prepare_all:
  assumes "dk_faults d = []" "ready nonce xs d" "distinct (map rp_path xs)"
  shows "\<exists>d'. prepare_all nonce ps xs d = (Inr (), ps @ map (prepared_of nonce) xs, d') \<and> dk_faults d' = []"
  using assms
proof (induction xs arbitrary: ps d)
  case Nil
  then show ?case by (simp add: faultless_calls)
next
  case (Cons x xs)
  let ?d = "d\<lparr>dk_files := (dk_files d)(stage_path nonce (rp_path x) \<mapsto> RegularFile (rp_replacement x),
    backup_path nonce (rp_path x) \<mapsto> RegularFile (rp_original x))\<rparr>"
  have one: "prepare_one nonce x d = (Inr (prepared_of nonce x), ?d)"
    using Cons.prems by (intro faultless_prepare_one) (auto simp: ready_def)
  have "rp_path y \<noteq> rp_path x" if "y \<in> set xs" for y using Cons.prems(3) that by (auto simp: image_iff)
  then have "ready nonce xs ?d" using Cons.prems(2) by (auto simp: ready_def)
  from Cons.IH [OF _ this, of "ps @ [prepared_of nonce x]"] Cons.prems(1,3) one show ?case by simp
qed

lemma faultless_commit_all:
  assumes "dk_faults d = []" "distinct (map rp_path xs)"
    "\<forall>x \<in> set xs. dk_files d (stage_path nonce (rp_path x)) \<noteq> None \<and> stage_path nonce (rp_path x) \<notin> rp_path ` Y"
    "set xs \<subseteq> Y"
  shows "\<exists>d'. commit_all (\<lambda>_. Inr ()) n (map (prepared_of nonce) xs) d = (Inr (), n + length xs, d') \<and> dk_faults d' = []"
  using assms
proof (induction xs arbitrary: n d)
  case (Cons x xs)
  let ?d = "d\<lparr>dk_files := (dk_files d)(rp_path x := dk_files d (stage_path nonce (rp_path x)), stage_path nonce (rp_path x) := None)\<rparr>"
  obtain v where v: "dk_files d (stage_path nonce (rp_path x)) = Some v" using Cons.prems(3) by auto
  have one: "rename (stage_path nonce (rp_path x)) (rp_path x) d = (Inr (), ?d)"
    using Cons.prems(1) v by (simp add: rename_def io_then_def faultless_calls lookup_def put_def)
  have "\<forall>y \<in> set xs. dk_files ?d (stage_path nonce (rp_path y)) \<noteq> None \<and> stage_path nonce (rp_path y) \<notin> rp_path ` Y"
    using Cons.prems(2-4) by (auto simp: image_iff)
  then have "\<exists>d'. commit_all (\<lambda>_. Inr ()) (n + 1) (map (prepared_of nonce) xs) ?d = (Inr (), n + 1 + length xs, d') \<and> dk_faults d' = []"
    by (intro Cons.IH) (use Cons.prems(1,2,4) in auto)
  with one show ?case by simp
qed simp

lemma faultless_transaction:
  assumes "dk_faults d = []" "ready nonce xs d" "distinct (map rp_path xs)" "xs \<noteq> []"
  shows "fst (transactional_replace nonce xs (\<lambda>_. Inr ()) d) = Inr ()"
proof -
  obtain d1 where prepare: "prepare_all nonce [] xs d = (Inr (), map (prepared_of nonce) xs, d1)" "dk_faults d1 = []"
    using faultless_prepare_all [OF assms(1-3), of "[]"] by auto
  have st: "staged nonce d xs d1"
    using prepare_all_spec [of nonce "[]" xs d "Inr ()" _ d1 d "temporaries nonce xs"] prepare(1) assms(2)
    by (auto simp: staged_def untouched_def ready_def)
  have "\<exists>d2. commit_all (\<lambda>_. Inr ()) 0 (map (prepared_of nonce) xs) d1 = (Inr (), 0 + length xs, d2) \<and> dk_faults d2 = []"
    by (intro faultless_commit_all [where Y = "set xs"] prepare(2) assms(3))
      (use st staged_apart(1) [OF st] in \<open>auto simp: staged_def\<close>)
  then obtain d2 where "commit_all (\<lambda>_. Inr ()) 0 (map (prepared_of nonce) xs) d1 = (Inr (), length xs, d2)" "dk_faults d2 = []"
    by auto
  then have "commit_and_sync (\<lambda>_. Inr ()) (map (prepared_of nonce) xs) d1 = (Inr (), length xs, d2)"
    by (simp add: commit_and_sync_def faultless_calls)
  with prepare(1) assms(4) show ?thesis by (simp add: transactional_replace_def)
qed

section \<open>Properties\<close>

definition example_replacements :: "Replacement list" where
  "example_replacements =
     [\<lparr>rp_path = (lit ''srv'', lit ''intent''), rp_original = lit ''old'', rp_replacement = lit ''new''\<rparr>,
      \<lparr>rp_path = (lit ''srv'', lit ''lock''), rp_original = lit ''1'', rp_replacement = lit ''22''\<rparr>]"

definition example_disk :: "nat option list \<Rightarrow> disk" where
  "example_disk faults = \<lparr>dk_files = (\<lambda>p.
     if p = (lit ''srv'', lit ''intent'') then Some (RegularFile (lit ''old''))
     else if p = (lit ''srv'', lit ''lock'') then Some (RegularFile (lit ''1'')) else None), dk_faults = faults\<rparr>"

lemma example_ready:
  "distinct (map rp_path example_replacements)" "\<forall>x \<in> set example_replacements. dk_files (example_disk fs) (rp_path x) \<noteq> None"
  "ready (lit ''n'') example_replacements (example_disk fs)"
  by (simp_all add: example_replacements_def example_disk_def ready_def stage_path_def backup_path_def lit_def)

text \<open>
  (C32) Whichever system calls fail, a transaction over existing, distinct files is atomic. Where it
  succeeds every file held the expected original and holds its replacement. Where it reports an
  error every file is as it was, except where the rollback itself failed; there each file is as
  it was or holds its replacement with the original bytes in the adjacent backup. No other file
  than the targets and the transaction's own temporary files changes.
\<close>

theorem transaction_is_atomic:
  assumes "transactional_replace nonce xs after_replace d = (r, d')"
    and "distinct (map rp_path xs)" and "\<forall>x \<in> set xs. dk_files d (rp_path x) \<noteq> None"
  shows "(\<forall>x \<in> set xs. case r of
        Inr _ \<Rightarrow> dk_files d (rp_path x) = Some (RegularFile (rp_original x))
          \<and> dk_files d' (rp_path x) = Some (RegularFile (rp_replacement x))
      | Inl (RollbackFailed _ _) \<Rightarrow> dk_files d' (rp_path x) = dk_files d (rp_path x)
          \<or> dk_files d' (rp_path x) = Some (RegularFile (rp_replacement x))
            \<and> dk_files d' (backup_path nonce (rp_path x)) = Some (RegularFile (rp_original x))
      | Inl _ \<Rightarrow> dk_files d' (rp_path x) = dk_files d (rp_path x))
     \<and> (\<forall>p. p \<notin> rp_path ` set xs \<and> p \<notin> temporaries nonce xs \<longrightarrow> dk_files d' p = dk_files d p)"
  using transaction_outcome [OF assms] unfolding outcome_def .

text \<open>The second rename fails; the first file, replaced by then, is restored.\<close>

theorem transaction_is_atomic_witness:
  "fst (transactional_replace (lit ''n'') example_replacements (\<lambda>_. Inr ()) (example_disk (replicate 25 None @ [Some 0])))
     = Inl (RolledBack ''system call failed'')
   \<and> dk_files (snd (transactional_replace (lit ''n'') example_replacements (\<lambda>_. Inr ())
       (example_disk (replicate 25 None @ [Some 0])))) (lit ''srv'', lit ''intent'') = Some (RegularFile (lit ''old''))"
proof -
  define run where "run = transactional_replace (lit ''n'') example_replacements (\<lambda>_. Inr ())
    (example_disk (replicate 25 None @ [Some 0]))"
  have run: "transactional_replace (lit ''n'') example_replacements (\<lambda>_. Inr ())
    (example_disk (replicate 25 None @ [Some 0])) = (fst run, snd run)" by (simp add: run_def)
  have "fst run = Inl (RolledBack ''system call failed'')" unfolding run_def by code_simp
  moreover have "\<lparr>rp_path = (lit ''srv'', lit ''intent''), rp_original = lit ''old'', rp_replacement = lit ''new''\<rparr>
      \<in> set example_replacements" by (simp add: example_replacements_def)
  ultimately have "dk_files (snd run) (lit ''srv'', lit ''intent'')
      = dk_files (example_disk (replicate 25 None @ [Some 0])) (lit ''srv'', lit ''intent'')"
    using transaction_is_atomic [OF run example_ready(1,2)] by fastforce
  with \<open>fst run = _\<close> show ?thesis unfolding run_def by (simp add: example_disk_def)
qed

end
