(* ===== verification/Dlc_Command.thy ===== *)
theory Dlc_Command
  imports Dlc_Reload Dlc_Transaction
begin

text \<open>
  A command of the module lifecycle on a disk (\<open>apps/cli/src/bootstrap/dlc_lifecycle.rs\<close>): the
  three files are read, the command is run on what they say, and the result replaces them in one
  transaction. Paths are canonical; the check of the environment file's permissions is left out.
\<close>

datatype command_error = CommandError string | CommandTransaction transaction_error

record deployment_paths =
  pt_intent :: path
  pt_lock :: path
  pt_env :: path

definition canonicalize :: "path \<Rightarrow> path io" where
  "canonicalize p = io_then call (\<lambda>_. io_then (lookup p) (\<lambda>_. io_result (Inr p)))"

definition ensure_distinct_paths :: "deployment_paths \<Rightarrow> unit io" where
  "ensure_distinct_paths ps =
     io_then (canonicalize (pt_intent ps)) (\<lambda>a. io_then (canonicalize (pt_lock ps)) (\<lambda>b. io_then (canonicalize (pt_env ps)) (\<lambda>c.
       io_result (reject_if (\<not> distinct [a, b, c]) ''intent, lock, and environment must be three distinct regular files''))))"

definition read_deployment :: "deployment_paths \<Rightarrow> deployment_files io" where
  "read_deployment ps =
     io_then (ensure_distinct_paths ps) (\<lambda>_.
     io_then (read_regular_bounded (pt_intent ps) INTENT_LIMIT) (\<lambda>i.
     io_then (read_regular_bounded (pt_lock ps) LOCK_LIMIT) (\<lambda>l.
     io_then (read_regular_bounded (pt_env ps) ENV_LIMIT) (\<lambda>e.
       io_result (Inr \<lparr>df_intent = i, df_lock = l, df_env = e\<rparr>)))))"

text \<open>The replacements \<open>persist\<close> asks for.\<close>

definition replacements :: "deployment_paths \<Rightarrow> deployment_files \<Rightarrow> deployment_files \<Rightarrow> Replacement list" where
  "replacements ps fs fs' =
     [\<lparr>rp_path = pt_intent ps, rp_original = df_intent fs, rp_replacement = df_intent fs'\<rparr>,
      \<lparr>rp_path = pt_lock ps, rp_original = df_lock fs, rp_replacement = df_lock fs'\<rparr>,
      \<lparr>rp_path = pt_env ps, rp_original = df_env fs, rp_replacement = df_env fs'\<rparr>]"

definition planned :: "('v, 'r) tool \<Rightarrow> DlcAction \<Rightarrow> deployment_files \<Rightarrow> string + deployment_files option" where
  "planned T action fs =
     and_then (load_deployment T fs) (\<lambda>dp.
     and_then (change T action dp) (\<lambda>changed.
       case changed of None \<Rightarrow> Inr None | Some dp' \<Rightarrow> and_then (persist T dp') (\<lambda>fs'. Inr (Some fs'))))"

definition dlc_command ::
  "('v, 'r) tool \<Rightarrow> rstr \<Rightarrow> deployment_paths \<Rightarrow> DlcAction \<Rightarrow> disk \<Rightarrow> (command_error + unit) \<times> disk" where
  "dlc_command T nonce ps action d =
     (case read_deployment ps d of
        (Inl e, d') \<Rightarrow> (Inl (CommandError e), d')
      | (Inr fs, d') \<Rightarrow>
          (case planned T action fs of
             Inl e \<Rightarrow> (Inl (CommandError e), d')
           | Inr None \<Rightarrow> (Inr (), d')
           | Inr (Some fs') \<Rightarrow>
               (case transactional_replace nonce (replacements ps fs fs') (\<lambda>_. Inr ()) d' of
                  (Inl e, d'') \<Rightarrow> (Inl (CommandTransaction e), d'')
                | (Inr _, d'') \<Rightarrow> (Inr (), d''))))"

section \<open>What a command leaves on the disk\<close>

definition files_at :: "deployment_paths \<Rightarrow> disk \<Rightarrow> deployment_files \<Rightarrow> bool" where
  "files_at ps d fs \<longleftrightarrow> dk_files d (pt_intent ps) = Some (RegularFile (df_intent fs))
     \<and> dk_files d (pt_lock ps) = Some (RegularFile (df_lock fs)) \<and> dk_files d (pt_env ps) = Some (RegularFile (df_env fs))"

lemma quiet_canonicalize [quiet_intros]: "quiet (canonicalize p)"
  unfolding canonicalize_def by (intro quiet_intros)

lemma quiet_ensure_distinct_paths [quiet_intros]: "quiet (ensure_distinct_paths ps)"
  unfolding ensure_distinct_paths_def by (intro quiet_intros)

lemma quiet_read_deployment: "quiet (read_deployment ps)"
  unfolding read_deployment_def by (intro quiet_intros)

lemma canonicalize_ok: "canonicalize p d = (Inr q, d') \<Longrightarrow> q = p"
  by (auto simp: canonicalize_def io_then_eq io_result_def)

lemma read_deployment_ok:
  assumes "read_deployment ps d = (Inr fs, d')"
  shows "files_at ps d fs" "distinct [pt_intent ps, pt_lock ps, pt_env ps]"
proof -
  obtain d1 d2 d3 d4 where distinct: "ensure_distinct_paths ps d = (Inr (), d1)"
    and reads: "read_regular_bounded (pt_intent ps) INTENT_LIMIT d1 = (Inr (df_intent fs), d2)"
      "read_regular_bounded (pt_lock ps) LOCK_LIMIT d2 = (Inr (df_lock fs), d3)"
      "read_regular_bounded (pt_env ps) ENV_LIMIT d3 = (Inr (df_env fs), d4)"
    using assms by (auto simp: read_deployment_def io_then_eq io_result_def)
  have "dk_files d1 = dk_files d" "dk_files d2 = dk_files d1" "dk_files d3 = dk_files d2"
    using quietD [OF quiet_ensure_distinct_paths distinct] reads(1,2)
    by (auto dest: quietD [OF quiet_read_regular_bounded])
  with reads show "files_at ps d fs" by (auto simp: files_at_def dest!: read_regular_bounded_ok)
  from distinct show "distinct [pt_intent ps, pt_lock ps, pt_env ps]"
    unfolding ensure_distinct_paths_def io_then_eq
    by (elim disjE exE conjE) (simp_all only: io_result_def reject_if_eq_Inr prod.inject sum.distinct not_not, metis canonicalize_ok)
qed

lemma files_at_same: "dk_files d' = dk_files d \<Longrightarrow> files_at ps d' fs \<longleftrightarrow> files_at ps d fs"
  by (simp add: files_at_def)

lemma files_at_unique: "files_at ps d fs \<Longrightarrow> files_at ps d fs' \<Longrightarrow> fs = fs'"
  by (simp add: files_at_def)

lemma dlc_command_files:
  assumes "files_at ps d fs" "dlc_command T nonce ps action d = (r, d')"
    and "\<And>e e'. r \<noteq> Inl (CommandTransaction (RollbackFailed e e'))"
  shows "files_at ps d' fs \<or> r = Inr () \<and> (\<exists>fs'. planned T action fs = Inr (Some fs') \<and> files_at ps d' fs')"
proof -
  obtain r1 d1 where read: "read_deployment ps d = (r1, d1)" by fastforce
  have same: "dk_files d1 = dk_files d" by (rule quietD [OF quiet_read_deployment read])
  show ?thesis
  proof (cases r1)
    case (Inl e)
    then have "d' = d1" using assms(2) read by (simp add: dlc_command_def)
    then show ?thesis using assms(1) files_at_same [OF same] by simp
  next
    case (Inr fs0)
    with read have fs0: "files_at ps d fs0" "distinct [pt_intent ps, pt_lock ps, pt_env ps]"
      using read_deployment_ok by blast+
    then have [simp]: "fs0 = fs" using assms(1) files_at_unique by blast
    show ?thesis
    proof (cases "\<exists>fs'. planned T action fs = Inr (Some fs')")
      case False
      then have "d' = d1" using assms(2) read Inr by (auto simp: dlc_command_def split: sum.split_asm option.split_asm)
      then show ?thesis using assms(1) files_at_same [OF same] by simp
    next
      case True
      then obtain fs' where fs': "planned T action fs = Inr (Some fs')" by blast
      obtain r2 d2 where tr: "transactional_replace nonce (replacements ps fs fs') (\<lambda>_. Inr ()) d1 = (r2, d2)" by fastforce
      have "outcome nonce d1 (replacements ps fs fs') r2 d2"
        using fs0(2) assms(1) same by (intro transaction_outcome [OF tr]) (auto simp: replacements_def files_at_def)
      then have "(case r2 of Inr _ \<Rightarrow> files_at ps d2 fs' | Inl (RollbackFailed _ _) \<Rightarrow> True | Inl _ \<Rightarrow> files_at ps d2 fs)"
      proof (cases r2)
        case (Inl e)
        with \<open>outcome nonce d1 (replacements ps fs fs') r2 d2\<close> assms(1) show ?thesis
          by (cases e) (simp_all add: outcome_def replacements_def files_at_def same)
      next
        case (Inr u)
        with \<open>outcome nonce d1 (replacements ps fs fs') r2 d2\<close> show ?thesis
          by (simp add: outcome_def replacements_def files_at_def)
      qed
      then show ?thesis using assms(2,3) read Inr fs' tr
        by (cases r2) (auto simp: dlc_command_def split: transaction_error.split_asm)
    qed
  qed
qed

section \<open>Without failing calls\<close>

lemma faultless_read:
  assumes "dk_faults d = []" "dk_files d p = Some (RegularFile t)" "byte_len t \<le> n"
  shows "read_regular_bounded p n d = (Inr t, d)" "canonicalize p d = (Inr p, d)"
  using assms
  by (simp_all add: read_regular_bounded_def read_file_def canonicalize_def io_then_def faultless_calls lookup_def io_result_def)

lemma faultless_read_deployment:
  assumes "dk_faults d = []" "files_at ps d fs" "within_limits fs" "distinct [pt_intent ps, pt_lock ps, pt_env ps]"
  shows "read_deployment ps d = (Inr fs, d)"
proof -
  have "read_regular_bounded (pt_intent ps) INTENT_LIMIT d = (Inr (df_intent fs), d)" "canonicalize (pt_intent ps) d = (Inr (pt_intent ps), d)"
    "read_regular_bounded (pt_lock ps) LOCK_LIMIT d = (Inr (df_lock fs), d)" "canonicalize (pt_lock ps) d = (Inr (pt_lock ps), d)"
    "read_regular_bounded (pt_env ps) ENV_LIMIT d = (Inr (df_env fs), d)" "canonicalize (pt_env ps) d = (Inr (pt_env ps), d)"
    using assms(2,3) by (auto intro!: faultless_read [OF assms(1)] simp: files_at_def within_limits_def)
  with assms(4) show ?thesis
    by (simp add: read_deployment_def ensure_distinct_paths_def io_then_def io_result_def)
qed

lemma loaded_within_limits: "load_deployment T fs = Inr dp \<Longrightarrow> within_limits fs"
  by (auto simp: load_deployment_def read_bounded_def within_limits_def and_then_eq_Inr reject_if_eq_Inr)

lemma faultless_command:
  assumes "dk_faults d = []" "files_at ps d fs" "distinct [pt_intent ps, pt_lock ps, pt_env ps]"
    and "\<forall>p \<in> {pt_intent ps, pt_lock ps, pt_env ps}. dk_files d (stage_path nonce p) = None \<and> dk_files d (backup_path nonce p) = None"
    and "planned T action fs = Inr (Some fs')"
  shows "fst (dlc_command T nonce ps action d) = Inr () \<and> files_at ps (snd (dlc_command T nonce ps action d)) fs'"
proof -
  have "within_limits fs" using assms(5) loaded_within_limits by (auto simp: planned_def and_then_eq_Inr)
  note read = faultless_read_deployment [OF assms(1,2) this assms(3)]
  obtain r d' where tr: "transactional_replace nonce (replacements ps fs fs') (\<lambda>_. Inr ()) d = (r, d')" by fastforce
  have paths: "distinct (map rp_path (replacements ps fs fs'))" using assms(3) by (simp add: replacements_def)
  have "ready nonce (replacements ps fs fs') d" using assms(2,4) by (simp add: ready_def replacements_def files_at_def)
  from faultless_transaction [OF assms(1) this paths] tr have r: "r = Inr ()" by (simp add: replacements_def)
  have "outcome nonce d (replacements ps fs fs') r d'"
    using assms(2) by (intro transaction_outcome [OF tr paths]) (auto simp: replacements_def files_at_def)
  then have "files_at ps d' fs'" by (simp add: outcome_def r replacements_def files_at_def)
  with r read assms(5) tr show ?thesis by (simp add: dlc_command_def)
qed

end
