(* ===== verification/Dlc_Properties.thy ===== *)
theory Dlc_Properties
  imports Dlc_Command Content
begin

text \<open>
  Properties of the module lifecycle: what holds of every lock it reaches, what a command leaves
  on the disk, and which deployments a newer tool refuses.
\<close>

section \<open>Locks the tool reaches\<close>

text \<open>
  A first installation, the commands of any release of the tool on the deployments that release
  loads, and recorded engine upgrades.
\<close>

inductive dlc_reachable :: "('v, 'r) tool set \<Rightarrow> InstallationLock \<Rightarrow> bool" for releases where
  installed: "T \<in> releases \<Longrightarrow>
    bootstrap_pair T args auth comments installation site selection = Inr (i, l) \<Longrightarrow> dlc_reachable releases l"
| commanded: "T \<in> releases \<Longrightarrow> dlc_reachable releases (dp_lock dp) \<Longrightarrow> load_deployment T fs = Inr dp \<Longrightarrow>
    change T action dp = Inr (Some dp') \<Longrightarrow> persist T dp' = Inr fs' \<Longrightarrow>
    dlc_reachable releases (refresh_digest T (dp_lock dp'))"
| upgraded: "T \<in> releases \<Longrightarrow> dlc_reachable releases l \<Longrightarrow>
    record_engine_upgrade_command T from to source artifact i l = Inr l' \<Longrightarrow> dlc_reachable releases l'"

lemma registry_of_refresh [simp]: "registry_of (refresh_digest T l) = registry_of l"
  by (simp add: registry_of_def)

lemma first_log: "map log_entry (first_history T dlcs) = map (\<lambda>d. (DlcInstalled, in_id (rd_installed d), Some (in_version (rd_installed d)))) dlcs"
proof -
  have "map (\<lambda>x. f (snd x)) (enumerate n xs) = map f xs" for f :: "ResolvedDlc \<Rightarrow> 'z" and n xs
    by (induction xs arbitrary: n) auto
  then show ?thesis by (simp add: first_history_def log_entry_def comp_def split_beta)
qed

lemma resolve_selected_enabled: "resolve_selected_dlc T kv = Inr d \<Longrightarrow> in_enabled (rd_installed d)"
  by (auto simp: resolve_selected_dlc_def and_then_eq_Inr split: prod.splits)

lemma collect_selected_enabled:
  "collect_results (resolve_selected_dlc T) kvs = Inr dlcs \<Longrightarrow> \<forall>d \<in> set dlcs. in_enabled (rd_installed d)"
  by (induction kvs arbitrary: dlcs) (auto simp: and_then_eq_Inr dest: resolve_selected_enabled)

lemma resolve_dlcs_enabled: "resolve_dlcs T args auth admin comments = Inr dlcs \<Longrightarrow> \<forall>d \<in> set dlcs. in_enabled (rd_installed d)"
  unfolding resolve_dlcs_def Let_def
  by (auto simp: and_then_eq_Inr split: if_splits dest: collect_selected_enabled)

lemma replay_installs:
  assumes "distinct (map in_id ds)" "\<forall>d \<in> set ds. in_enabled d"
  shows "replay (map (\<lambda>d. (DlcInstalled, in_id d, Some (in_version d))) ds)
    = (\<lambda>i. map_option (\<lambda>(v, b, _). (v, b)) (map_of (map active_entry ds) i))"
  using assms
proof (induction ds rule: rev_induct)
  case (snoc d ds)
  have new: "map_of (map active_entry (ds @ [d])) = (map_of (map active_entry ds))(in_id d \<mapsto> snd (active_entry d))"
    using snoc.prems(1) by (intro map_of_entries_insert [of active_entry d ds, unfolded entry_keys(1)]) auto
  have "snd (active_entry d) = (in_version d, True, in_applied_migrations d)" using snoc.prems(2) by (simp add: active_entry_def)
  then show ?case unfolding new using snoc by (auto simp: fun_eq_iff)
qed (simp add: replay_def)

lemma first_lock_explained:
  assumes "bootstrap_pair T args auth comments installation site selection = Inr (i, l)"
  shows "rg_explained (registry_of l)"
proof -
  obtain dlcs where dlcs: "resolve_dlcs T args auth (sel_admin_auth selection) comments = Inr dlcs"
    and l: "l = first_lock T (lit ''source-checkout'') installation selection dlcs" "validate_lock T l = Inr ()"
    using assms by (auto simp: bootstrap_pair_def and_then_eq_Inr map_err_eq_Inr Let_def)
  have sel: "lk_dlcs l = map rd_installed dlcs" "lk_history l = first_history T dlcs" by (simp_all add: l(1) first_lock_def)
  have "distinct (map in_id (map rd_installed dlcs))" using validate_lock_ok(1) [OF l(2)] sel(1) sorted_less_distinct by metis
  then have "replay (map (\<lambda>d. (DlcInstalled, in_id d, Some (in_version d))) (map rd_installed dlcs))
    = (\<lambda>i. map_option (\<lambda>(v, b, _). (v, b)) (map_of (map active_entry (map rd_installed dlcs)) i))"
    using resolve_dlcs_enabled [OF dlcs] by (intro replay_installs) auto
  then show ?thesis by (simp add: rg_explained_def rg_state_def registry_of_def sel first_log comp_def fun_eq_iff)
qed

lemma record_upgrade_registry:
  "record_engine_upgrade_command T from to source artifact i l = Inr l' \<Longrightarrow> registry_of l' = registry_of l"
  unfolding record_engine_upgrade_command_def record_engine_upgrade_def Let_def
  by (auto simp: and_then_eq_Inr registry_of_def split: sum.split_asm)

lemma reachable_explained:
  assumes "dlc_reachable releases l" "\<forall>T \<in> releases. version_order T"
  shows "rg_explained (registry_of l)"
  using assms(1)
proof (induction rule: dlc_reachable.induct)
  case (commanded T dp fs action dp' fs')
  then have "steps_to dp dp'" using change_steps load_deployment_ok assms(2) by blast
  with commanded.IH show ?case by (auto simp: steps_to_def intro: step_explained)
qed (auto simp: first_lock_explained record_upgrade_registry)

lemma registry_sel [simp]:
  "rg_log (registry_of l) = map log_entry (lk_history l)"
  "rg_state (registry_of l) i = map_option (\<lambda>d. (in_version d, in_enabled d)) (row_where (\<lambda>d. in_id d = i) (lk_dlcs l))"
  "rg_migrations (registry_of l) i = (case row_where (\<lambda>d. in_id d = i) (lk_dlcs l) of Some d \<Rightarrow> Some (in_applied_migrations d)
     | None \<Rightarrow> map_option rt_applied_migrations (row_where (\<lambda>r. rt_id r = i) (lk_retained_dlcs l)))"
  by (simp_all add: registry_of_def rg_state_def rg_migrations_def active_lookup kept_lookup active_entry_def
      option.map_comp comp_def split: option.split)

section \<open>An example\<close>

text \<open>A tool whose packages are concrete, a deployment without modules, and the one with search metadata added.\<close>

definition example_manifest :: PluginManifest where
  "example_manifest =
     \<lparr>pm_schema_uri = None, pm_manifest_version = 1, pm_id = [], pm_name = lit ''Module'', pm_version = lit ''1.0.0'',
      pm_license = lit ''MIT'',
      pm_provenance = \<lparr>pp_origin = OriginOriginal, pp_generated = False, pp_generator = None, pp_source_materials = [],
        pp_notice_files = [], pp_attestation = None\<rparr>,
      pm_plugin_api = PLUGIN_API_VERSION, pm_kinds = [SeoKind], pm_runtime = BuiltIn (lit ''osb'') (lit ''create''),
      pm_permissions = [], pm_description = None, pm_core_compatibility = Some (lit ''^1''), pm_authors = [], pm_homepage = None,
      pm_repository = None, pm_config = None, pm_hooks = [], pm_routes = [], pm_render_slots = [], pm_ui = None, pm_state = None,
      pm_migrations = [], pm_dependencies = [], pm_limits = None, pm_metadata = btree_empty\<rparr>"

definition example_selection :: InstallationSelection where
  "example_selection = \<lparr>sel_admin_auth = AuthAccessKey,
     sel_style = \<lparr>style_kind = StyleNone, style_id = None, style_file = None, style_sha256 = None\<rparr>, sel_cache = InstallCacheNone\<rparr>"

definition example_args :: BootstrapSelection where
  "example_args = \<lparr>bs_dlcs = [lit ''none''], bs_intent = Community, bs_seo = False, bs_collaboration = False\<rparr>"

definition example_intent :: "RequestedDlc list \<Rightarrow> InstallationIntent" where
  "example_intent requests = \<lparr>int_schema_version = INSTALL_INTENT_SCHEMA_VERSION, int_installation_id = lit ''a'', int_site_id = lit ''b'',
     int_created_with = lit ''1.0.0'', int_selection = example_selection, int_dlcs = requests\<rparr>"

definition example_lock :: "InstalledDlc list \<Rightarrow> DlcHistoryRecord list \<Rightarrow> InstallationLock" where
  "example_lock dlcs history = \<lparr>lk_schema_version = INSTALL_LOCK_SCHEMA_VERSION, lk_installation_id = lit ''a'',
     lk_engine = \<lparr>eng_version = lit ''1.0.0'', eng_config_schema_version = CONFIG_SCHEMA,
       eng_database_schema_version = DATABASE_SCHEMA_VERSION, eng_plugin_api = PLUGIN_API_VERSION,
       eng_source = lit ''source-checkout'', eng_artifact_sha256 = None\<rparr>,
     lk_selection = example_selection, lk_dlcs = dlcs, lk_retained_dlcs = [], lk_history = history,
     lk_lock_digest = replicate 64 50\<rparr>"

definition example_seo :: InstalledDlc where
  "example_seo = \<lparr>in_id = lit ''org.open-soverign-blog.seo'', in_requested_version = lit ''^1.0.0'', in_version = lit ''1.0.0'',
     in_core_compatibility = lit ''^1'', in_manifest_version = 1, in_plugin_api = PLUGIN_API_VERSION, in_source_kind = SourceBundled,
     in_source = lit ''plugins/official/seo/plugin.toml'', in_manifest_sha256 = replicate 64 54, in_artifact_sha256 = None,
     in_enabled = True, in_approved_capabilities = [], in_config_sha256 = None, in_state_version = None, in_applied_migrations = []\<rparr>"

definition example_request :: RequestedDlc where
  "example_request = \<lparr>rq_id = lit ''org.open-soverign-blog.seo'', rq_version = lit ''^1.0.0'', rq_enabled = True\<rparr>"

definition example_record :: DlcHistoryRecord where
  "example_record = \<lparr>hist_sequence = 1, hist_action = DlcInstalled, hist_dlc_id = lit ''org.open-soverign-blog.seo'',
     hist_from_version = None, hist_to_version = Some (lit ''1.0.0''), hist_engine_version = lit ''1.0.0''\<rparr>"

definition example_env :: rstr where
  "example_env = lit ''OSB_DLC_IDS='' @ [10] @ lit ''OSB_FEATURES=none'' @ [10] @ lit ''OSB_INSTALL_LOCK_DIGEST='' @ replicate 64 50 @ [10]"

definition example_deployment :: "RequestedDlc list \<Rightarrow> InstalledDlc list \<Rightarrow> DlcHistoryRecord list \<Rightarrow> Deployment" where
  "example_deployment requests dlcs history = \<lparr>dp_intent_original = lit ''none'', dp_lock_original = lit ''none'', dp_env_original = example_env,
     dp_env_values = [(lit ''OSB_INSTALL_LOCK_DIGEST'', replicate 64 50), (lit ''OSB_FEATURES'', lit ''none''), (lit ''OSB_DLC_IDS'', [])],
     dp_intent = example_intent requests, dp_lock = example_lock dlcs history\<rparr>"

abbreviation example_before :: Deployment where
  "example_before \<equiv> example_deployment [] [] []"

abbreviation example_added :: Deployment where
  "example_added \<equiv> example_deployment [example_request] [example_seo] [example_record]"

definition example_tool :: "rstr \<Rightarrow> (nat, unit) tool" where
  "example_tool module_version =
     \<lparr>pk_extern = example_extern, pk_version = (\<lambda>s. Some (length s)), pk_less = (<), pk_requirement = (\<lambda>_. Some ()),
      pk_matches = (\<lambda>_ _. True), pk_reference_joins = (\<lambda>_. True), pk_uuid_text = (\<lambda>_. True),
      pk_manifest_of_toml = (\<lambda>t. Some (example_manifest\<lparr>pm_id := t, pm_version := module_version\<rparr>)),
      tl_engine = lit ''1.0.0'',
      tl_bundle = (\<lambda>source. case find (\<lambda>d. od_source d = source) OFFICIAL_DLCS of None \<Rightarrow> [] | Some d \<Rightarrow> od_id d),
      tl_intent_text = (\<lambda>_. lit ''seo''),
      tl_intent_of_text = (\<lambda>t. if t = lit ''none'' then Some (example_intent []) else Some (example_intent [example_request])),
      tl_lock_text = (\<lambda>_. lit ''seo''),
      tl_json_of_text = (\<lambda>t. if t = lit ''none'' then Some (lock_to_json (example_lock [] []))
        else Some (lock_to_json (example_lock [example_seo] [example_record])))\<rparr>"

abbreviation example_release :: "(nat, unit) tool" where
  "example_release \<equiv> example_tool (lit ''1.0.0'')"

definition example_files :: deployment_files where
  "example_files = \<lparr>df_intent = lit ''none'', df_lock = lit ''none'', df_env = example_env\<rparr>"

lemma example_order: "version_order (example_tool v)"
  by (simp add: version_order_def example_tool_def)

lemma example_loads: "load_deployment example_release example_files = Inr example_before"
  by code_simp

lemma example_changes: "change example_release (AddDlc (lit ''seo'') None) example_before = Inr (Some example_added)"
  by code_simp

lemma example_digest [simp]: "refresh_digest (example_tool v) (example_lock dlcs history) = example_lock dlcs history"
  by (simp add: refresh_digest_def expected_digest_def example_tool_def example_extern_def example_lock_def Let_def)

lemma example_persists:
  "case persist example_release example_added of Inr fs \<Rightarrow> within_limits fs | Inl _ \<Rightarrow> False" by code_simp

lemma example_reads_back: "reads_back example_release example_added"
  by (auto simp: reads_back_def intent_to_toml_pretty_def and_then_eq_Inr example_deployment_def)
    (auto simp: example_tool_def lit_def)

definition example_paths :: deployment_paths where
  "example_paths = \<lparr>pt_intent = ([], [1]), pt_lock = ([], [2]), pt_env = ([], [3])\<rparr>"

definition example_deployment_disk :: disk where
  "example_deployment_disk = \<lparr>dk_files = [([], [1]) \<mapsto> RegularFile (df_intent example_files),
     ([], [2]) \<mapsto> RegularFile (df_lock example_files), ([], [3]) \<mapsto> RegularFile (df_env example_files)], dk_faults = []\<rparr>"

lemma example_on_disk: "files_at example_paths example_deployment_disk example_files"
  by (simp add: files_at_def example_paths_def example_deployment_disk_def)

lemma example_free:
  "\<forall>p \<in> {pt_intent example_paths, pt_lock example_paths, pt_env example_paths}.
     dk_files example_deployment_disk (stage_path (lit ''n'') p) = None \<and> dk_files example_deployment_disk (backup_path (lit ''n'') p) = None"
  "distinct [pt_intent example_paths, pt_lock example_paths, pt_env example_paths]" "dk_faults example_deployment_disk = []"
  by (simp_all add: example_paths_def example_deployment_disk_def stage_path_def backup_path_def lit_def)

lemma example_planned: "\<exists>fs. planned example_release (AddDlc (lit ''seo'') None) example_files = Inr (Some fs)"
  using example_persists by (cases "persist example_release example_added")
    (simp_all add: planned_def example_loads example_changes del: change.simps)

lemma example_command:
  "fst (dlc_command example_release (lit ''n'') example_paths (AddDlc (lit ''seo'') None) example_deployment_disk) = Inr ()"
  using example_planned faultless_command [OF example_free(3) example_on_disk example_free(2,1)] by blast

section \<open>Properties\<close>





text \<open>
  (C33) Every change of a loaded deployment is a step of the registry: a module is installed with the
  migrations kept for it, switched on or off, removed with its migrations kept, or its record is
  resolved again without changing version, state or migrations. Versions never move, because
  loading has already required the version of the running release.
\<close>

theorem dlc_changes_refine_registry:
  assumes "load_deployment T fs = Inr dp" and "version_order T" and "change T action dp = Inr (Some dp')"
  shows "registry_step (registry_of (dp_lock dp)) (registry_of (dp_lock dp'))"
  using change_steps [OF _ assms(2,3)] load_deployment_ok [OF assms(1)] by (simp add: steps_to_def)

theorem dlc_changes_refine_registry_witness:
  "registry_step (registry_of (example_lock [] [])) (registry_of (dp_lock example_added))"
  using dlc_changes_refine_registry [OF example_loads example_order example_changes] by (simp add: example_deployment_def)

text \<open>
  (C35) No change forgets a migration: what a module has run, active or removed, is still recorded
  after every command, and a module without a record starts with none.
\<close>

theorem migrations_are_never_forgotten:
  assumes "load_deployment T fs = Inr dp" and "version_order T" and "change T action dp = Inr (Some dp')"
  shows "(\<forall>ms. rg_migrations (registry_of (dp_lock dp)) i = Some ms \<longrightarrow> rg_migrations (registry_of (dp_lock dp')) i = Some ms)
    \<and> (rg_migrations (registry_of (dp_lock dp)) i = None \<longrightarrow> rg_migrations (registry_of (dp_lock dp')) i \<in> {None, Some []})"
proof -
  have "registry_step (registry_of (dp_lock dp)) (registry_of (dp_lock dp'))"
    using change_steps [OF _ assms(2,3)] load_deployment_ok [OF assms(1)] by (simp add: steps_to_def)
  then show ?thesis using step_migrations step_invents_no_migration by blast
qed

theorem migrations_are_never_forgotten_witness:
  "rg_migrations (registry_of (dp_lock example_added)) (lit ''org.open-soverign-blog.seo'') \<in> {None, Some []}"
proof -
  have "rg_migrations (registry_of (dp_lock example_before)) (lit ''org.open-soverign-blog.seo'') = None"
    by (simp add: example_deployment_def example_lock_def first_lock_def row_where_def)
  then show ?thesis
    using migrations_are_never_forgotten [OF example_loads example_order example_changes] by blast
qed

text \<open>
  (C34) The history of a lock explains its modules. Read from the start it yields, for every module,
  whether it is installed, in which version, and whether it is enabled: exactly the record of
  the lock, in every lock the releases of the tool reach.
\<close>

theorem history_explains_lock:
  assumes "dlc_reachable releases l" and "\<forall>T \<in> releases. version_order T"
  shows "replay (map log_entry (lk_history l)) i
    = map_option (\<lambda>d. (in_version d, in_enabled d)) (row_where (\<lambda>d. in_id d = i) (lk_dlcs l))"
  using reachable_explained [OF assms] by (simp add: rg_explained_def fun_eq_iff)

lemma example_installed: "dlc_reachable {example_release} (example_lock [] [])"
proof -
  have "(case bootstrap_pair example_release example_args AuthNone False (lit ''a'') (lit ''b'') example_selection of
      Inr (i, l) \<Rightarrow> l = example_lock [] [] | Inl _ \<Rightarrow> False)" by code_simp
  then obtain i where "bootstrap_pair example_release example_args AuthNone False (lit ''a'') (lit ''b'') example_selection = Inr (i, example_lock [] [])"
    by (auto split: sum.splits)
  then show ?thesis by (rule dlc_reachable.installed [rotated]) simp
qed

lemma example_reached: "dlc_reachable {example_release} (refresh_digest example_release (dp_lock example_added))"
proof -
  obtain fs' where "persist example_release example_added = Inr fs'"
    using example_persists by (cases "persist example_release example_added") auto
  with example_installed example_loads example_changes show ?thesis
    by (intro dlc_reachable.commanded [of example_release]) (simp_all add: example_deployment_def del: change.simps)
qed

theorem history_explains_lock_witness:
  "replay (map log_entry (lk_history (dp_lock example_added))) (lit ''org.open-soverign-blog.seo'') = Some (lit ''1.0.0'', True)"
proof -
  have "map_option (\<lambda>d. (in_version d, in_enabled d))
      (row_where (\<lambda>d. in_id d = lit ''org.open-soverign-blog.seo'') (lk_dlcs (dp_lock example_added))) = Some (lit ''1.0.0'', True)"
    by code_simp
  with history_explains_lock [OF example_reached, of "lit ''org.open-soverign-blog.seo''"] example_order show ?thesis by simp
qed

text \<open>
  (C37) A release whose catalog carries another version of an installed module refuses every command
  on the deployment, \<open>reconcile\<close> and \<open>upgrade\<close> included: loading compares the lock with the
  manifests compiled into the running tool before any command can resolve a newer version. So no
  command of any release moves a module from one version to another.
\<close>

theorem newer_catalog_refuses_every_command:
  assumes "lock_from_text T (df_lock fs) = Inr l" and "d \<in> set (lk_dlcs l)" and "in_source_kind d = SourceBundled"
    and "find_official_dlc (in_id d) = Some x" and "parse_official_manifest T x = Inr m" and "pm_version m \<noteq> in_version d"
  shows "\<exists>e. run_dlc T action fs = Inl e"
proof -
  have "load_deployment T fs \<noteq> Inr dp" for dp
  proof
    assume load: "load_deployment T fs = Inr dp"
    then have "dp_lock dp = l" using assms(1) by (auto simp: load_deployment_def read_bounded_def and_then_eq_Inr)
    then have "bundled T d" using load_deployment_ok [OF load] loaded_ids(5) assms(2) by blast
    then show False using assms(4-6) by (auto simp: bundled_def)
  qed
  then have "\<exists>e. load_deployment T fs = Inl e" by (cases "load_deployment T fs") auto
  then show ?thesis by (auto simp: run_dlc_def)
qed

lemma example_newer_lock:
  "lock_from_text (example_tool (lit ''2.0.0'')) (lit ''seo'') = Inr (example_lock [example_seo] [example_record])"
  by code_simp

lemma example_newer_record:
  "case find_official_dlc (in_id example_seo) of None \<Rightarrow> False | Some x \<Rightarrow>
     (case parse_official_manifest (example_tool (lit ''2.0.0'')) x of Inl _ \<Rightarrow> False | Inr m \<Rightarrow> pm_version m \<noteq> in_version example_seo)"
  by code_simp

theorem newer_catalog_refuses_every_command_witness:
  "\<exists>e. run_dlc (example_tool (lit ''2.0.0'')) (UpgradeDlc None None)
     \<lparr>df_intent = lit ''seo'', df_lock = lit ''seo'', df_env = []\<rparr> = Inl e"
proof -
  obtain x m where "find_official_dlc (in_id example_seo) = Some x"
    "parse_official_manifest (example_tool (lit ''2.0.0'')) x = Inr m" "pm_version m \<noteq> in_version example_seo"
    using example_newer_record by (auto split: option.splits sum.splits)
  moreover have "example_seo \<in> set (lk_dlcs (example_lock [example_seo] [example_record]))" "in_source_kind example_seo = SourceBundled"
    by (simp_all add: example_lock_def example_seo_def)
  ultimately show ?thesis
    by (intro newer_catalog_refuses_every_command [where l = "example_lock [example_seo] [example_record]"])
      (simp_all only: example_newer_lock deployment_files.simps)
qed

end
