(* ===== verification/Cache.thy ===== *)
theory Cache
  imports Content_Types
begin

text \<open>
  The semantic cache of \<open>apps/server/src/cache.rs\<close>: the settings it reads, the Lua scripts it runs
  on Redis, the coherence word, the guard of a mutation, the reconnect breaker, the slot of the
  connection manager and the health counters. Redis is a map from keys to values; its scripts
  and commands run atomically there. What the network answers, the clock and the fresh
  generation texts are arguments. The interleaving of requests is in \<open>Cache_Tasks\<close>.
\<close>

unbundle bit_operations_syntax

section \<open>Settings and keys\<close>

datatype RedisTopology = Standalone | Sentinel

record RedisSettings =
  rs_topology :: RedisTopology
  rs_url :: url
  rs_sentinel_urls :: "url list"
  rs_sentinel_master :: rstr
  rs_namespace :: rstr
  rs_content_release :: rstr
  rs_required :: bool
  rs_response_ttl_seconds :: nat
  rs_connect_timeout_ms :: nat

definition CACHE_SCHEMA :: rstr where
  "CACHE_SCHEMA = lit ''cache-v1''"

definition MAX_CACHE_VALUE_BYTES :: nat where
  "MAX_CACHE_VALUE_BYTES = 86 * 1024 * 1024"

definition epoch_key :: "RedisSettings \<Rightarrow> rstr" where
  "epoch_key c = rs_namespace c @ lit '':'' @ CACHE_SCHEMA @ lit '':'' @ rs_content_release c @ lit '':epoch''"

definition response_prefix :: "RedisSettings \<Rightarrow> rstr" where
  "response_prefix c = rs_namespace c @ lit '':'' @ CACHE_SCHEMA @ lit '':'' @ rs_content_release c @ lit '':response:''"

definition value_key :: "RedisSettings \<Rightarrow> rstr \<Rightarrow> rstr \<Rightarrow> rstr" where
  "value_key c generation route_hash = response_prefix c @ generation @ lit '':'' @ route_hash"

section \<open>Redis scripts\<close>

type_synonym redis = "rstr \<Rightarrow> rstr option"

record CacheLookup =
  cl_epoch :: rstr
  cl_value :: "rstr option"

definition lookup_script :: "RedisSettings \<Rightarrow> rstr \<Rightarrow> rstr \<Rightarrow> redis \<Rightarrow> CacheLookup \<times> redis" where
  "lookup_script c fresh route_hash db =
     (let db = (case db (epoch_key c) of None \<Rightarrow> db(epoch_key c \<mapsto> fresh) | Some _ \<Rightarrow> db);
          generation = the (db (epoch_key c));
          value = (case db (value_key c generation route_hash) of
             None \<Rightarrow> None
           | Some v \<Rightarrow> if byte_len v \<le> MAX_CACHE_VALUE_BYTES then Some v else None) in
      (\<lparr>cl_epoch = generation, cl_value = value\<rparr>, db))"

definition store_script :: "RedisSettings \<Rightarrow> rstr \<Rightarrow> rstr \<Rightarrow> rstr \<Rightarrow> redis \<Rightarrow> bool \<times> redis" where
  "store_script c lookup_epoch route_hash value db =
     (if db (epoch_key c) = Some lookup_epoch
      then (True, db(value_key c lookup_epoch route_hash \<mapsto> value))
      else (False, db))"

definition set_epoch :: "RedisSettings \<Rightarrow> rstr \<Rightarrow> redis \<Rightarrow> redis" where
  "set_epoch c generation db = db(epoch_key c \<mapsto> generation)"

text \<open>
  The counter of a fixed window with the second at which Redis forgets it. The script counts,
  sets the expiry with the first count and compares with the limit in one atomic step.
\<close>

record window_counter =
  wc_count :: nat
  wc_expires :: nat

definition fixed_window_limit_script ::
  "nat \<Rightarrow> nat \<Rightarrow> nat \<Rightarrow> window_counter option \<Rightarrow> bool \<times> window_counter option" where
  "fixed_window_limit_script now window_seconds limit counter =
     (let live = (case counter of None \<Rightarrow> None | Some w \<Rightarrow> if now < wc_expires w then Some w else None);
          next_counter = (case live of
             None \<Rightarrow> \<lparr>wc_count = 1, wc_expires = now + window_seconds\<rparr>
           | Some w \<Rightarrow> w\<lparr>wc_count := wc_count w + 1\<rparr>) in
      (wc_count next_counter \<le> limit, Some next_counter))"

definition valid_limiter_parameters :: "rstr \<Rightarrow> nat \<Rightarrow> nat \<Rightarrow> bool" where
  "valid_limiter_parameters bucket limit window_seconds \<longleftrightarrow>
     bucket \<noteq> [] \<and> byte_len bucket \<le> 96
     \<and> list_all (\<lambda>c. is_ascii_alphanumeric c \<or> c \<in> {95, 45, 58}) bucket
     \<and> limit \<noteq> 0 \<and> window_seconds \<noteq> 0"

section \<open>The coherence word\<close>

text \<open>
  \<open>(invalidation sequence << 1) | dirty\<close>. Both updates are one atomic operation.
\<close>

definition mark_coherence_dirty :: "64 word \<Rightarrow> 64 word" where
  "mark_coherence_dirty current =
     (let sequence = drop_bit 1 current + 1 in push_bit 1 sequence OR 1)"

definition publish_coherence_generation :: "64 word \<Rightarrow> 64 word \<Rightarrow> bool \<times> 64 word" where
  "publish_coherence_generation coherence ticket =
     (if coherence = ticket then (True, ticket + 1) else (False, coherence))"

definition dirty :: "64 word \<Rightarrow> bool" where
  "dirty coherence \<longleftrightarrow> coherence AND 1 \<noteq> 0"

section \<open>Reconnecting\<close>

text \<open>Instants and durations of the breaker are milliseconds.\<close>

definition RECONNECT_BACKOFF_MIN :: nat where
  "RECONNECT_BACKOFF_MIN = 100"

definition RECONNECT_BACKOFF_MAX :: nat where
  "RECONNECT_BACKOFF_MAX = 2000"

record BreakerState =
  consecutive_failures :: nat
  retry_not_before :: "nat option"

record ReconnectControl =
  attempt_held :: bool
  breaker :: BreakerState

definition new_reconnect :: ReconnectControl where
  "new_reconnect = \<lparr>attempt_held = False, breaker = \<lparr>consecutive_failures = 0, retry_not_before = None\<rparr>\<rparr>"

definition ensure_retry_allowed :: "nat \<Rightarrow> ReconnectControl \<Rightarrow> string + unit" where
  "ensure_retry_allowed now r = reject_if (case retry_not_before (breaker r) of None \<Rightarrow> False | Some t \<Rightarrow> now < t)
     ''Redis reconnect is temporarily paused after a recent failure''"

definition begin_attempt :: "nat \<Rightarrow> ReconnectControl \<Rightarrow> string + ReconnectControl" where
  "begin_attempt now r =
     and_then (ensure_retry_allowed now r) (\<lambda>_.
     and_then (reject_if (attempt_held r) ''Redis reconnect is already in progress'') (\<lambda>_.
     and_then (ensure_retry_allowed now r) (\<lambda>_.
       Inr (r\<lparr>attempt_held := True\<rparr>))))"

definition backoff :: "nat \<Rightarrow> nat" where
  "backoff failures = min (RECONNECT_BACKOFF_MIN * 2 ^ min (failures - 1) 31) RECONNECT_BACKOFF_MAX"

definition record_failure :: "nat \<Rightarrow> ReconnectControl \<Rightarrow> ReconnectControl" where
  "record_failure now r =
     (let failures = min (consecutive_failures (breaker r) + 1) (2 ^ 32 - 1) in
      r\<lparr>breaker := \<lparr>consecutive_failures = failures, retry_not_before = Some (now + backoff failures)\<rparr>\<rparr>)"

definition record_reconnect_success :: "ReconnectControl \<Rightarrow> ReconnectControl" where
  "record_reconnect_success r = r\<lparr>breaker := \<lparr>consecutive_failures = 0, retry_not_before = None\<rparr>\<rparr>"

section \<open>The shared state of the cache\<close>

text \<open>
  \<open>slot_connected\<close> says whether the slot holds a connection manager. \<open>generation_change\<close> is the
  task that holds the mutex of that name.
\<close>

record ManagerSlot =
  slot_connected :: bool
  slot_generation :: "64 word"

record Inner =
  settings :: RedisSettings
  manager_slot :: ManagerSlot
  reconnect :: ReconnectControl
  generation_change :: "nat option"
  active_mutations :: "64 word"
  coherence :: "64 word"
  health :: nat
  hits :: "64 word"
  misses :: "64 word"
  errors :: "64 word"
  last_success_unix :: nat
  last_error :: "rstr option"

definition new_inner :: "RedisSettings \<Rightarrow> Inner" where
  "new_inner c = \<lparr>settings = c, manager_slot = \<lparr>slot_connected = False, slot_generation = 0\<rparr>,
     reconnect = new_reconnect, generation_change = None, active_mutations = 0, coherence = 1, health = 0,
     hits = 0, misses = 0, errors = 0, last_success_unix = 0, last_error = None\<rparr>"

definition reads_safe :: "Inner \<Rightarrow> bool" where
  "reads_safe c \<longleftrightarrow> \<not> dirty (coherence c)"

definition mark_dirty :: "Inner \<Rightarrow> Inner" where
  "mark_dirty c = c\<lparr>coherence := mark_coherence_dirty (coherence c)\<rparr>"

definition no_active_mutations :: "Inner \<Rightarrow> bool" where
  "no_active_mutations c \<longleftrightarrow> active_mutations c = 0"

definition publish_generation :: "64 word \<Rightarrow> Inner \<Rightarrow> bool \<times> Inner" where
  "publish_generation ticket c =
     (case publish_coherence_generation (coherence c) ticket of (ok, w) \<Rightarrow> (ok, c\<lparr>coherence := w\<rparr>))"

section \<open>Health and connections\<close>

text \<open>\<open>str::replace\<close>: the non-overlapping occurrences of a nonempty pattern, from the left.\<close>

function replace_all :: "rstr \<Rightarrow> rstr \<Rightarrow> rstr \<Rightarrow> rstr" where
  "replace_all pat new [] = []"
| "replace_all pat new (x # xs) =
     (if pat \<noteq> [] \<and> take (length pat) (x # xs) = pat
      then new @ replace_all pat new (drop (length pat) (x # xs))
      else x # replace_all pat new xs)"
  by pat_completeness auto
termination by (relation "measure (\<lambda>(pat, new, xs). length xs)") auto

definition redact_endpoint :: "rstr \<Rightarrow> url \<Rightarrow> rstr" where
  "redact_endpoint message endpoint =
     (let message = replace_all (url_text endpoint) (lit ''[redacted Redis endpoint]'') message in
      case url_password endpoint of
        None \<Rightarrow> message
      | Some p \<Rightarrow> if p = [] then message else replace_all p (lit ''[redacted Redis credential]'') message)"

definition redact_redis_secrets :: "RedisSettings \<Rightarrow> rstr \<Rightarrow> rstr" where
  "redact_redis_secrets c message = foldl redact_endpoint message (rs_url c # rs_sentinel_urls c)"

definition record_success :: "nat \<Rightarrow> Inner \<Rightarrow> Inner" where
  "record_success unix c = c\<lparr>reconnect := record_reconnect_success (reconnect c), health := 1,
     last_success_unix := unix, last_error := None\<rparr>"

definition record_error :: "rstr \<Rightarrow> Inner \<Rightarrow> Inner" where
  "record_error message c = c\<lparr>health := 2, errors := errors c + 1,
     last_error := Some (redact_redis_secrets (settings c) message)\<rparr>"

definition record_connection_failure :: "nat \<Rightarrow> rstr \<Rightarrow> Inner \<Rightarrow> Inner" where
  "record_connection_failure now message c =
     record_error message (c\<lparr>reconnect := record_failure now (reconnect c)\<rparr>)"

definition drop_manager :: "64 word \<Rightarrow> Inner \<Rightarrow> bool \<times> Inner" where
  "drop_manager generation c =
     (if slot_generation (manager_slot c) = generation \<and> slot_connected (manager_slot c)
      then (True, c\<lparr>manager_slot := (manager_slot c)\<lparr>slot_connected := False\<rparr>\<rparr>)
      else (False, c))"

definition handle_command_error :: "nat \<Rightarrow> 64 word \<Rightarrow> rstr \<Rightarrow> Inner \<Rightarrow> Inner" where
  "handle_command_error now generation message c =
     (case drop_manager generation c of
        (True, c) \<Rightarrow> record_error message (c\<lparr>reconnect := record_failure now (reconnect c)\<rparr>)
      | (False, c) \<Rightarrow> c\<lparr>errors := errors c + 1\<rparr>)"

text \<open>
  What opening a connection may come to. \<open>manager\<close> answers the generation of the lease. The
  attempt of another request that is still under way shows as \<open>attempt_held\<close>.
\<close>

datatype attempt_result = Opened | OpenFailed | OpenTimedOut

definition connected_slot :: "ManagerSlot \<Rightarrow> ManagerSlot" where
  "connected_slot s = \<lparr>slot_connected = True, slot_generation = max (slot_generation s + 1) 1\<rparr>"

definition manager :: "nat \<Rightarrow> attempt_result \<Rightarrow> Inner \<Rightarrow> (string + 64 word) \<times> Inner" where
  "manager now attempted c =
     (if slot_connected (manager_slot c) then (Inr (slot_generation (manager_slot c)), c)
      else case begin_attempt now (reconnect c) of
        Inl e \<Rightarrow> (Inl e, c)
      | Inr _ \<Rightarrow>
          (case attempted of
             Opened \<Rightarrow> let slot = connected_slot (manager_slot c) in (Inr (slot_generation slot), c\<lparr>manager_slot := slot\<rparr>)
           | OpenFailed \<Rightarrow> (Inl ''Redis connection could not be established'',
               record_connection_failure now (lit ''Redis connection could not be established'') c)
           | OpenTimedOut \<Rightarrow> (Inl ''Redis connection attempt timed out'',
               record_connection_failure now (lit ''Redis connection attempt timed out'') c)))"

definition record_verified_hit :: "Inner \<Rightarrow> Inner" where
  "record_verified_hit c = c\<lparr>hits := hits c + 1\<rparr>"

definition record_miss :: "Inner \<Rightarrow> Inner" where
  "record_miss c = c\<lparr>misses := misses c + 1\<rparr>"

text \<open>The distributed limiter: one counter per bucket, and no answer where Redis cannot be asked.\<close>

definition rate_key :: "RedisSettings \<Rightarrow> rstr \<Rightarrow> rstr" where
  "rate_key c bucket = rs_namespace c @ lit '':security:rate:'' @ bucket"

definition admit_fixed_window ::
  "nat \<Rightarrow> nat \<Rightarrow> attempt_result \<Rightarrow> bool \<Rightarrow> rstr \<Rightarrow> nat \<Rightarrow> nat \<Rightarrow> Inner \<Rightarrow> (rstr \<Rightarrow> window_counter option) \<Rightarrow>
   (string + bool) \<times> Inner \<times> (rstr \<Rightarrow> window_counter option)" where
  "admit_fixed_window now unix attempted reply bucket limit window_seconds c counters =
     (if \<not> valid_limiter_parameters bucket limit window_seconds
      then (Inl ''invalid fixed-window limiter parameters'', c, counters)
      else case manager now attempted c of
        (Inl e, c) \<Rightarrow> (Inl e, c, counters)
      | (Inr lease, c) \<Rightarrow>
          let key = rate_key (settings c) bucket in
          if reply then (case fixed_window_limit_script unix window_seconds limit (counters key) of
            (admitted, counter) \<Rightarrow> (Inr admitted, record_success unix c, counters(key := counter)))
          else (Inl ''Redis security rate-limit check failed'',
                handle_command_error now lease (lit ''Redis security rate-limit check failed'') c, counters))"

datatype CacheState = CacheActive | CacheDegraded | CacheConnecting

definition snapshot_state :: "Inner \<Rightarrow> CacheState" where
  "snapshot_state c =
     (if \<not> (reads_safe c \<and> no_active_mutations c) then CacheDegraded
      else if health c = 1 then CacheActive else if health c = 2 then CacheDegraded else CacheConnecting)"

section \<open>Bounds\<close>

text \<open>A paused reconnect waits at least the minimum and at most the maximum, and doubles in between.\<close>

lemma backoff_bounds: "RECONNECT_BACKOFF_MIN \<le> backoff n" "backoff n \<le> RECONNECT_BACKOFF_MAX"
  by (simp_all add: backoff_def RECONNECT_BACKOFF_MIN_def RECONNECT_BACKOFF_MAX_def)

lemma backoff_mono: "m \<le> n \<Longrightarrow> backoff m \<le> backoff n"
  unfolding backoff_def by (intro min.mono mult_le_mono2 power_increasing diff_le_mono) simp_all

lemma retry_after_backoff: "is_ok (ensure_retry_allowed t (record_failure now r)) \<longleftrightarrow>
    now + backoff (min (consecutive_failures (breaker r) + 1) (2 ^ 32 - 1)) \<le> t"
  by (auto simp: ensure_retry_allowed_def record_failure_def Let_def reject_if_def is_ok_def)

text \<open>The calls of one window that a counter admits.\<close>

fun admissions :: "nat \<Rightarrow> nat \<Rightarrow> window_counter option \<Rightarrow> nat list \<Rightarrow> nat" where
  "admissions window limit counter [] = 0"
| "admissions window limit counter (t # later) =
     (case fixed_window_limit_script t window limit counter of
        (admitted, counter') \<Rightarrow> of_bool admitted + admissions window limit counter' later)"

lemma admissions_live:
  "\<forall>t \<in> set ts. t < wc_expires w \<Longrightarrow> admissions window limit (Some w) ts + min (wc_count w) limit \<le> limit"
proof (induction ts arbitrary: w)
  case Nil
  then show ?case by simp
next
  case (Cons t ts)
  then have "admissions window limit (Some (w\<lparr>wc_count := wc_count w + 1\<rparr>)) ts + min (wc_count w + 1) limit \<le> limit"
    using Cons.IH [of "w\<lparr>wc_count := wc_count w + 1\<rparr>"] by simp
  with Cons.prems show ?case by (auto simp: fixed_window_limit_script_def Let_def)
qed

lemma fixed_window_bound:
  "\<forall>t \<in> set ts. t0 \<le> t \<and> t < t0 + window \<Longrightarrow> admissions window limit None (t0 # ts) \<le> limit"
  using admissions_live [of ts "\<lparr>wc_count = 1, wc_expires = t0 + window\<rparr>" window limit]
  by (auto simp: fixed_window_limit_script_def Let_def)

end
