(* ===== verification/Cache_Response.thy ===== *)
theory Cache_Response
  imports Cache Wire
begin

text \<open>
  The public response cache of \<open>apps/server/src/main.rs\<close> as far as it does not run requests: which
  paths are cacheable, which requests change what the public sees, the signed entry that is
  stored for a response, and the response that is restored from an entry. Functions of
  third-party crates are the fields of \<open>codecs\<close>.
\<close>

section \<open>Entries\<close>

text \<open>
  SHA-256 of a byte string, the standard Base64 alphabet, the text \<open>serde_json\<close> prints and the tree
  it reads, and which texts the \<open>http\<close> crate accepts as a header value.
\<close>

record codecs =
  sha256 :: "byte list \<Rightarrow> byte list"
  base64_encode :: "byte list \<Rightarrow> rstr"
  base64_decode :: "rstr \<Rightarrow> byte list option"
  json_print :: "json \<Rightarrow> rstr"
  json_parse :: "rstr \<Rightarrow> json option"
  header_value_ok :: "rstr \<Rightarrow> bool"

text \<open>A response: status, the headers whose values are texts, and the body.\<close>

record Response =
  rp_status :: nat
  rp_headers :: "(rstr \<times> rstr) list"
  rp_body :: "byte list"

record CachedPublicResponse =
  cr_schema_version :: rstr
  cr_headers :: "(rstr, rstr) btree_map"
  cr_body_base64 :: rstr
  cr_signature :: rstr

definition HTTP_CACHE_SCHEMA :: rstr where
  "HTTP_CACHE_SCHEMA = lit ''open-soverign-blog-http-cache/4''"

definition MAX_PUBLIC_RESPONSE_BYTES :: nat where
  "MAX_PUBLIC_RESPONSE_BYTES = 64 * 1024 * 1024"

definition MAX_CACHED_ENTRY_BYTES :: nat where
  "MAX_CACHED_ENTRY_BYTES = 86 * 1024 * 1024"

definition CACHED_HEADERS :: "rstr list" where
  "CACHED_HEADERS = [lit ''content-type'', lit ''cache-control'', lit ''etag'', lit ''content-language'', lit ''vary'']"

definition cached_to_json :: "CachedPublicResponse \<Rightarrow> json" where
  "cached_to_json c = JObj [(lit ''schemaVersion'', JStr (cr_schema_version c)),
     (lit ''headers'', to_string_map (cr_headers c)), (lit ''bodyBase64'', JStr (cr_body_base64 c)),
     (lit ''signature'', JStr (cr_signature c))]"

definition cached_from_json :: "json \<Rightarrow> CachedPublicResponse option" where
  "cached_from_json = from_obj (\<lambda>obj. do {
     schema \<leftarrow> req_field (lit ''schemaVersion'') from_str obj;
     headers \<leftarrow> req_field (lit ''headers'') from_string_map obj;
     body \<leftarrow> req_field (lit ''bodyBase64'') from_str obj;
     signature \<leftarrow> req_field (lit ''signature'') from_str obj;
     Some \<lparr>cr_schema_version = schema, cr_headers = headers, cr_body_base64 = body, cr_signature = signature\<rparr> })"

definition signature_payload :: "CachedPublicResponse \<Rightarrow> rstr \<Rightarrow> rstr \<Rightarrow> json" where
  "signature_payload c route_hash generation = JObj [(lit ''routeHash'', JStr route_hash),
     (lit ''generation'', JStr generation), (lit ''schemaVersion'', JStr (cr_schema_version c)),
     (lit ''headers'', to_string_map (cr_headers c)), (lit ''bodyBase64'', JStr (cr_body_base64 c))]"

section \<open>Signatures\<close>

definition xor_pad :: "byte \<Rightarrow> byte list \<Rightarrow> byte list" where
  "xor_pad pad key = map (\<lambda>k. pad XOR k) key @ replicate (64 - length key) pad"

definition hmac_sha256 :: "codecs \<Rightarrow> byte list \<Rightarrow> byte list \<Rightarrow> byte list" where
  "hmac_sha256 W key message =
     sha256 W (xor_pad 0x5c key @ sha256 W (xor_pad 0x36 key @ message))"

definition sign_cached_response :: "codecs \<Rightarrow> CachedPublicResponse \<Rightarrow> byte list \<Rightarrow> rstr \<Rightarrow> rstr \<Rightarrow> rstr" where
  "sign_cached_response W c key route_hash generation =
     base64_encode W (hmac_sha256 W key (as_bytes (json_print W (signature_payload c route_hash generation))))"

definition verify_cached_response :: "codecs \<Rightarrow> CachedPublicResponse \<Rightarrow> byte list \<Rightarrow> rstr \<Rightarrow> rstr \<Rightarrow> bool" where
  "verify_cached_response W c key route_hash generation =
     (case base64_decode W (cr_signature c) of
        None \<Rightarrow> False
      | Some provided \<Rightarrow>
          (case base64_decode W (sign_cached_response W c key route_hash generation) of
             None \<Rightarrow> False
           | Some expected \<Rightarrow> length provided = length expected \<and> provided = expected))"

section \<open>Storing and restoring\<close>

definition header_of :: "Response \<Rightarrow> rstr \<Rightarrow> rstr option" where
  "header_of r name = map_of (rp_headers r) name"

definition cached_headers :: "Response \<Rightarrow> (rstr, rstr) btree_map" where
  "cached_headers r = fold (\<lambda>name m. case header_of r name of None \<Rightarrow> m | Some v \<Rightarrow> btree_insert name v m)
     CACHED_HEADERS btree_empty"

definition cache_entry :: "codecs \<Rightarrow> byte list \<Rightarrow> rstr \<Rightarrow> rstr \<Rightarrow> Response \<Rightarrow> rstr" where
  "cache_entry W key route_hash epoch r =
     (let c = \<lparr>cr_schema_version = HTTP_CACHE_SCHEMA, cr_headers = cached_headers r,
               cr_body_base64 = base64_encode W (rp_body r), cr_signature = []\<rparr>;
          c = c\<lparr>cr_signature := sign_cached_response W c key route_hash epoch\<rparr> in
      json_print W (cached_to_json c))"

definition etag_matches :: "rstr option \<Rightarrow> rstr \<Rightarrow> bool" where
  "etag_matches if_none_match etag =
     (case if_none_match of None \<Rightarrow> False
      | Some candidates \<Rightarrow> list_ex (\<lambda>c. trim c = etag \<or> trim c = lit ''*'') (split_on 44 candidates))"

fun restore_headers :: "codecs \<Rightarrow> (rstr, rstr) btree_map \<Rightarrow> rstr list \<Rightarrow> (rstr \<times> rstr) list option" where
  "restore_headers W headers [] = Some []"
| "restore_headers W headers (name # later) =
     (case btree_get headers name of
        None \<Rightarrow> restore_headers W headers later
      | Some v \<Rightarrow> if header_value_ok W v then map_option (Cons (name, v)) (restore_headers W headers later) else None)"

definition cached_response ::
  "codecs \<Rightarrow> CachedPublicResponse \<Rightarrow> rstr option \<Rightarrow> byte list \<Rightarrow> rstr \<Rightarrow> rstr \<Rightarrow> Response option" where
  "cached_response W c if_none_match key route_hash generation =
     (if \<not> verify_cached_response W c key route_hash generation then None
      else let not_modified = (case btree_get (cr_headers c) (lit ''etag'') of
                 None \<Rightarrow> False | Some etag \<Rightarrow> etag_matches if_none_match etag) in
      do {
        headers \<leftarrow> restore_headers W (cr_headers c) CACHED_HEADERS;
        body \<leftarrow> (if not_modified then Some []
          else if byte_len (cr_body_base64 c) > (MAX_PUBLIC_RESPONSE_BYTES + 2) div 3 * 4 then None
          else do {
            decoded \<leftarrow> base64_decode W (cr_body_base64 c);
            if length decoded > MAX_PUBLIC_RESPONSE_BYTES then None else Some decoded });
        Some \<lparr>rp_status = (if not_modified then 304 else 200), rp_headers = headers, rp_body = body\<rparr> })"

text \<open>What the middleware makes of a lookup: a verified response, or nothing.\<close>

definition verified_hit :: "codecs \<Rightarrow> byte list \<Rightarrow> rstr option \<Rightarrow> rstr \<Rightarrow> CacheLookup \<Rightarrow> Response option" where
  "verified_hit W key if_none_match route_hash l = do {
     bytes \<leftarrow> cl_value l;
     parsed \<leftarrow> (if byte_len bytes \<le> MAX_CACHED_ENTRY_BYTES then json_parse W bytes else None);
     c \<leftarrow> cached_from_json parsed;
     if cr_schema_version c = HTTP_CACHE_SCHEMA
     then cached_response W c if_none_match key route_hash (cl_epoch l) else None }"

section \<open>Which requests are cached\<close>

record PublicPaths =
  pp_article_base_path :: rstr
  pp_references :: bool

datatype Method = GET | HEAD | POST | PUT | PATCH | DELETE | OPTIONS

definition RESERVED_SEGMENTS :: "rstr list" where
  "RESERVED_SEGMENTS = [lit ''api'', lit ''assets'', lit ''blog'', lit ''docs'', lit ''healthz'', lit ''livez'',
     lit ''login'', lit ''media'', lit ''onboarding'', lit ''openapi'', lit ''providers'', lit ''readyz'',
     lit ''schemas'', lit ''studio'', lit ''vendor'']"

definition primary_category_public_path :: "PublicPaths \<Rightarrow> rstr \<Rightarrow> bool" where
  "primary_category_public_path P path =
     (case path of [] \<Rightarrow> False
      | c # rest \<Rightarrow>
          if c \<noteq> 47 then False
          else let rest = (if rest \<noteq> [] \<and> last rest = 47 then butlast rest else rest);
                   segments = split_on 47 rest;
                   category = hd segments;
                   article_root = hd (split_on 47 (trim_slashes (pp_article_base_path P))) in
            length segments \<le> 2
            \<and> list_all (\<lambda>post. post \<noteq> [] \<and> byte_len post \<le> 720) (tl segments)
            \<and> \<not> (category \<in> set RESERVED_SEGMENTS
                 \<or> (pp_references P \<and> category = lit ''references'')
                 \<or> category = article_root
                 \<or> \<not> (1 \<le> byte_len category \<and> byte_len category \<le> 40)
                 \<or> starts_with category (lit ''-'') \<or> ends_with category (lit ''-''))
            \<and> list_all (\<lambda>b. is_ascii_lowercase b \<or> is_ascii_digit b \<or> b = 45) category)"

definition public_cache_path :: "PublicPaths \<Rightarrow> rstr \<Rightarrow> bool" where
  "public_cache_path P path \<longleftrightarrow>
     starts_with path (lit ''/@'')
     \<or> primary_category_public_path P path
     \<or> path = lit ''/api/v1/home''
     \<or> path = lit ''/api/v1/references''
     \<or> (pp_references P \<and> (path = lit ''/references'' \<or> path = lit ''/references/''))
     \<or> path = lit ''/api/v1/feed''
     \<or> path = lit ''/api/v1/blogs''
     \<or> starts_with path (lit ''/api/v1/blogs/'')
     \<or> path = lit ''/api/v1/primary/categories''
     \<or> starts_with path (lit ''/api/v1/primary/categories/'')
     \<or> path = lit ''/api/v1/primary/series''
     \<or> starts_with path (lit ''/api/v1/primary/series/'')
     \<or> starts_with path (lit ''/api/v1/posts/'')
     \<or> path = lit ''/api/v1/posts''
     \<or> path = lit ''/robots.txt''
     \<or> path = lit ''/sitemap.xml''
     \<or> path = lit ''/agent.txt''
     \<or> path = lit ''/agents.txt''
     \<or> path = lit ''/llms.txt''
     \<or> starts_with path (lit ''/'' @ trim_slashes (pp_article_base_path P) @ lit ''/'')"

definition eq_ignore_ascii_case :: "rstr \<Rightarrow> rstr \<Rightarrow> bool" where
  "eq_ignore_ascii_case a b \<longleftrightarrow> to_ascii_lowercase a = to_ascii_lowercase b"

text \<open>The \<open>Accept\<close> header: absent, present but not a text, or a text.\<close>

definition request_accepts_html :: "rstr option option \<Rightarrow> bool" where
  "request_accepts_html accept =
     (case accept of None \<Rightarrow> True | Some None \<Rightarrow> False
      | Some (Some value) \<Rightarrow> list_ex (\<lambda>item.
          let media_range = trim (hd (split_on 59 item)) in
            eq_ignore_ascii_case media_range (lit ''text/html'') \<or> media_range = lit ''*/*'') (split_on 44 value))"

definition cacheable_request :: "PublicPaths \<Rightarrow> Method \<Rightarrow> rstr \<Rightarrow> rstr option option \<Rightarrow> bool" where
  "cacheable_request P method path accept \<longleftrightarrow>
     method = GET \<and> public_cache_path P path
     \<and> (\<not> primary_category_public_path P path \<or> request_accepts_html accept)"

definition mutation_changes_public :: "Method \<Rightarrow> rstr \<Rightarrow> bool" where
  "mutation_changes_public method path \<longleftrightarrow>
     method \<in> {POST, PUT, PATCH, DELETE} \<and>
     (path = lit ''/api/v1/blogs''
      \<or> path = lit ''/api/v1/posts''
      \<or> path = lit ''/api/v1/admin/home/pins''
      \<or> path = lit ''/api/v1/studio/settings''
      \<or> path = lit ''/api/v1/studio/categories''
      \<or> path = lit ''/api/v1/studio/series''
      \<or> path = lit ''/api/v1/studio/series/promote''
      \<or> (starts_with path (lit ''/api/v1/studio/categories/'')
          \<and> (ends_with path (lit ''/archive'') \<or> method = PUT))
      \<or> (starts_with path (lit ''/api/v1/studio/series/'')
          \<and> (ends_with path (lit ''/archive'') \<or> ends_with path (lit ''/items'') \<or> method = PUT))
      \<or> ends_with path (lit ''/publish'')
      \<or> (starts_with path (lit ''/api/v1/posts/'') \<and> ends_with path (lit ''/comments'')))"

section \<open>A stored response is restored\<close>

text \<open>
  What a client sees of a cached response: the body and the allowed headers, or \<open>304\<close> without a
  body where the entity tag matches.
\<close>

definition restored_headers :: "Response \<Rightarrow> (rstr \<times> rstr) list" where
  "restored_headers r = concat (map (\<lambda>name. case header_of r name of None \<Rightarrow> [] | Some v \<Rightarrow> [(name, v)]) CACHED_HEADERS)"

definition restored :: "rstr option \<Rightarrow> Response \<Rightarrow> Response" where
  "restored if_none_match r =
     (if (case header_of r (lit ''etag'') of None \<Rightarrow> False | Some etag \<Rightarrow> etag_matches if_none_match etag)
      then \<lparr>rp_status = 304, rp_headers = restored_headers r, rp_body = []\<rparr>
      else \<lparr>rp_status = 200, rp_headers = restored_headers r, rp_body = rp_body r\<rparr>)"

text \<open>The laws of the third-party encoders the cache relies on.\<close>

definition sound_codecs :: "codecs \<Rightarrow> bool" where
  "sound_codecs W \<longleftrightarrow> (\<forall>c. json_parse W (json_print W (cached_to_json c)) = Some (cached_to_json c))
     \<and> (\<forall>b. base64_decode W (base64_encode W b) = Some b)"

lemma cached_codec [simp]: "cached_from_json (cached_to_json c) = Some c"
  by (simp add: cached_from_json_def cached_to_json_def field_defs)

lemma cached_headers_get:
  "btree_get (cached_headers r) name = (if name \<in> set CACHED_HEADERS then header_of r name else None)"
proof -
  have "btree_get (fold (\<lambda>name m. case header_of r name of None \<Rightarrow> m | Some v \<Rightarrow> btree_insert name v m) names m) name =
      (case (if name \<in> set names then header_of r name else None) of None \<Rightarrow> btree_get m name | Some v \<Rightarrow> Some v)" for names m
    by (induction names arbitrary: m) (auto split: option.splits)
  then show ?thesis by (simp add: cached_headers_def split: option.splits)
qed

lemma restore_headers_map:
  "set names \<subseteq> set CACHED_HEADERS \<Longrightarrow> restore_headers W (cached_headers r) names =
     (if \<forall>name \<in> set names. \<forall>v. header_of r name = Some v \<longrightarrow> header_value_ok W v
      then Some (concat (map (\<lambda>name. case header_of r name of None \<Rightarrow> [] | Some v \<Rightarrow> [(name, v)]) names)) else None)"
  by (induction names) (auto simp: cached_headers_get split: option.splits)

lemma verify_own_signature:
  "sound_codecs W \<Longrightarrow> verify_cached_response W (c\<lparr>cr_signature := sign_cached_response W c key route g\<rparr>) key route g"
  by (simp add: verify_cached_response_def sign_cached_response_def signature_payload_def sound_codecs_def)

lemma verified_hit_entry:
  assumes "sound_codecs W"
    and "verified_hit W key inm route \<lparr>cl_epoch = g, cl_value = Some (cache_entry W key route g r)\<rparr> = Some r'"
  shows "r' = restored inm r"
  using assms
  by (auto simp: verified_hit_def cache_entry_def Let_def sound_codecs_def cached_response_def restored_def
      restored_headers_def restore_headers_map cached_headers_get CACHED_HEADERS_def
      split: if_splits option.splits bind_splits)

end
