(* ===== verification/Cache_Tasks.thy ===== *)
theory Cache_Tasks
  imports Cache_Response
begin

text \<open>
  Requests and mutations as interleaved tasks over the semantic cache: the middleware of
  \<open>apps/server/src/main.rs\<close> and the asynchronous operations of \<open>apps/server/src/cache.rs\<close>. A task is
  the place in the code where it stands; one step runs to the next access to shared state
  (an atomic word, the mutex, Redis, the database). Tasks are cancelled where the code awaits.
  A command to Redis whose reply is lost may still arrive there, at any later time. The process
  may be restarted at any moment; Redis and the database stay.
\<close>

section \<open>Tasks\<close>

record request =
  q_route :: rstr
  q_if_none_match :: "rstr option"

text \<open>What a repair of the generation continues with.\<close>

datatype goal = LookupGoal request | PingGoal

text \<open>The places in the loop of \<open>rotate_until_safe\<close>; a ticket is the coherence word that was read.\<close>

datatype rotation = RotateGuard | RotateTicket | RotateSet "64 word" | RotatePublish "64 word"

datatype progress = Continue rotation | Rotated | RotationFailed

text \<open>
  The number that goes with a request is the version of the database at its arrival. \<open>Fill\<close> is
  the detached task that stores a response.
\<close>

datatype task =
    CheckActive nat goal
  | CheckSafe nat goal
  | RepairActive nat goal
  | RepairSafe nat goal
  | RepairLock nat goal
  | RepairRecheck nat goal
  | RepairRotate rotation nat goal
  | Call nat goal
  | Origin nat request "rstr option"
  | Rendering nat request "rstr option" nat
  | Fill rstr rstr rstr
  | Answered nat request Response
  | MutationBegin
  | MutationMark
  | MutationRunning
  | GuardMark
  | GuardUncount
  | CompleteActive
  | CompleteLock
  | CompleteRecheck
  | CompleteRotate rotation
  | Finished

datatype command = SetEpoch rstr | LookupEpoch rstr rstr | StoreValue rstr rstr rstr | Ping

section \<open>The world\<close>

text \<open>
  The origin renders a route from the database states that were current while it rendered, and
  says whether the response may be cached.
\<close>

record 'd site =
  st_codecs :: codecs
  st_signing_key :: "byte list"
  st_origin :: "'d list \<Rightarrow> rstr \<Rightarrow> Response \<times> bool"

text \<open>
  \<open>canonical\<close> is the history of committed database states. \<open>detached\<close> counts repository workers
  whose request is gone. The last four fields only observe: the generation texts used so far,
  the version at which a generation became current in Redis, the number of dirty marks, and the
  version at the last of them or at the last start, which begins with a dirty word.
\<close>

record 'd world =
  inner :: Inner
  redis_db :: redis
  delayed :: "command list"
  canonical :: "'d list"
  tasks :: "task list"
  detached :: nat
  issued :: "rstr list"
  installed :: "rstr \<Rightarrow> nat option"
  marks :: nat
  fenced :: nat

definition version :: "'d world \<Rightarrow> nat" where
  "version w = length (canonical w) - 1"

text \<open>What the network and the clocks do during a step.\<close>

record io =
  io_now :: nat
  io_unix :: nat
  io_attempt :: attempt_result
  io_reply :: bool
  io_slot :: bool

fun run_command :: "RedisSettings \<Rightarrow> command \<Rightarrow> redis \<Rightarrow> redis" where
  "run_command c (SetEpoch generation) db = set_epoch c generation db"
| "run_command c (LookupEpoch fresh route) db = snd (lookup_script c fresh route db)"
| "run_command c (StoreValue epoch route value) db = snd (store_script c epoch route value db)"
| "run_command c Ping db = db"

text \<open>A command takes effect in Redis; a new current generation is noted.\<close>

definition deliver :: "command \<Rightarrow> 'd world \<Rightarrow> 'd world" where
  "deliver cmd w =
     (let c = settings (inner w); db = run_command c cmd (redis_db w) in
      w\<lparr>redis_db := db,
        installed := (case db (epoch_key c) of None \<Rightarrow> installed w
          | Some g \<Rightarrow> if redis_db w (epoch_key c) = Some g then installed w else (installed w)(g \<mapsto> version w))\<rparr>)"

definition redis_call :: "io \<Rightarrow> command \<Rightarrow> 'd world \<Rightarrow> bool \<times> 'd world" where
  "redis_call io cmd w =
     (case manager (io_now io) (io_attempt io) (inner w) of
        (Inl _, c) \<Rightarrow> (False, w\<lparr>inner := c\<rparr>)
      | (Inr lease, c) \<Rightarrow>
          if io_reply io then (True, deliver cmd (w\<lparr>inner := c\<rparr>))
          else (False, w\<lparr>inner := handle_command_error (io_now io) lease (lit ''Redis command failed'') c,
                         delayed := delayed w @ [cmd]\<rparr>))"

definition succeeded :: "io \<Rightarrow> 'd world \<Rightarrow> 'd world" where
  "succeeded io w = w\<lparr>inner := record_success (io_unix io) (inner w)\<rparr>"

definition fence :: "'d world \<Rightarrow> 'd world" where
  "fence w = w\<lparr>inner := mark_dirty (inner w), marks := marks w + 1, fenced := version w\<rparr>"

definition lock_free :: "'d world \<Rightarrow> bool" where
  "lock_free w \<longleftrightarrow> generation_change (inner w) = None"

definition set_lock :: "nat option \<Rightarrow> 'd world \<Rightarrow> 'd world" where
  "set_lock holder w = w\<lparr>inner := (inner w)\<lparr>generation_change := holder\<rparr>\<rparr>"

section \<open>Steps of a task\<close>

fun rotate_step :: "io \<Rightarrow> rstr \<Rightarrow> rotation \<Rightarrow> 'd world \<Rightarrow> progress \<times> 'd world" where
  "rotate_step io fresh RotateGuard w =
     (if no_active_mutations (inner w) then Continue RotateTicket else RotationFailed, w)"
| "rotate_step io fresh RotateTicket w =
     (let ticket = coherence (inner w) in
      (if \<not> dirty ticket then Rotated else Continue (RotateSet ticket), w))"
| "rotate_step io fresh (RotateSet ticket) w =
     (case redis_call io (SetEpoch fresh) w of
        (True, w) \<Rightarrow> (Continue (RotatePublish ticket), w)
      | (False, w) \<Rightarrow> (RotationFailed, w))"
| "rotate_step io fresh (RotatePublish ticket) w =
     (case publish_generation ticket (inner w) of (published, c) \<Rightarrow>
        (if published then Rotated else Continue RotateGuard, succeeded io (w\<lparr>inner := c\<rparr>)))"

fun give_up :: "nat \<Rightarrow> goal \<Rightarrow> task" where
  "give_up n (LookupGoal q) = Origin n q None"
| "give_up n PingGoal = Finished"

fun call_step :: "'d site \<Rightarrow> io \<Rightarrow> rstr \<Rightarrow> nat \<Rightarrow> goal \<Rightarrow> 'd world \<Rightarrow> task \<times> 'd world" where
  "call_step S io fresh n (LookupGoal q) w =
     (case redis_call io (LookupEpoch fresh (q_route q)) w of
        (False, w') \<Rightarrow> (Origin n q None, w')
      | (True, w') \<Rightarrow>
          let found = fst (lookup_script (settings (inner w)) fresh (q_route q) (redis_db w)); w' = succeeded io w' in
          case verified_hit (st_codecs S) (st_signing_key S) (q_if_none_match q) (q_route q) found of
            Some r \<Rightarrow> (Answered n q r, w'\<lparr>inner := record_verified_hit (inner w')\<rparr>)
          | None \<Rightarrow> (Origin n q (Some (cl_epoch found)), w'\<lparr>inner := record_miss (inner w')\<rparr>))"
| "call_step S io fresh n PingGoal w =
     (case redis_call io Ping w of (False, w') \<Rightarrow> (Finished, w') | (True, w') \<Rightarrow> (Finished, succeeded io w'))"

definition internal_error :: Response where
  "internal_error = \<lparr>rp_status = 500, rp_headers = [], rp_body = []\<rparr>"

definition render_step ::
  "'d site \<Rightarrow> io \<Rightarrow> nat \<Rightarrow> request \<Rightarrow> rstr option \<Rightarrow> nat \<Rightarrow> 'd world \<Rightarrow> task \<times> 'd world" where
  "render_step S io n q epoch k w =
     (case st_origin S (drop k (canonical w)) (q_route q) of (r, eligible) \<Rightarrow>
        if \<not> eligible \<or> rp_status r \<noteq> 200 then (Answered n q r, w)
        else if length (rp_body r) > MAX_PUBLIC_RESPONSE_BYTES then (Answered n q internal_error, w)
        else (Answered n q r,
          case epoch of None \<Rightarrow> w
          | Some g \<Rightarrow> if io_slot io
              then w\<lparr>tasks := tasks w @ [Fill (q_route q) g
                     (cache_entry (st_codecs S) (st_signing_key S) (q_route q) g r)]\<rparr>
              else w))"

definition count_mutation :: "'d world \<Rightarrow> 'd world" where
  "count_mutation w = w\<lparr>inner := (inner w)\<lparr>active_mutations := active_mutations (inner w) + 1\<rparr>\<rparr>"

definition uncount_mutation :: "'d world \<Rightarrow> 'd world" where
  "uncount_mutation w = w\<lparr>inner := (inner w)\<lparr>active_mutations := active_mutations (inner w) - 1\<rparr>\<rparr>"

fun task_step :: "'d site \<Rightarrow> io \<Rightarrow> rstr \<Rightarrow> nat \<Rightarrow> task \<Rightarrow> 'd world \<Rightarrow> task \<times> 'd world" where
  "task_step S io fresh i (CheckActive n g) w =
     (if no_active_mutations (inner w) then CheckSafe n g else give_up n g, w)"
| "task_step S io fresh i (CheckSafe n g) w =
     (if reads_safe (inner w) then Call n g else RepairActive n g, w)"
| "task_step S io fresh i (RepairActive n g) w =
     (if no_active_mutations (inner w) then RepairSafe n g else give_up n g, w)"
| "task_step S io fresh i (RepairSafe n g) w =
     (if reads_safe (inner w) then Call n g else RepairLock n g, w)"
| "task_step S io fresh i (RepairLock n g) w =
     (if lock_free w then (RepairRecheck n g, set_lock (Some i) w) else (RepairLock n g, w))"
| "task_step S io fresh i (RepairRecheck n g) w =
     (if no_active_mutations (inner w) then (RepairRotate RotateGuard n g, w)
      else (give_up n g, set_lock None w))"
| "task_step S io fresh i (RepairRotate r n g) w =
     (case rotate_step io fresh r w of
        (Continue r', w) \<Rightarrow> (RepairRotate r' n g, w)
      | (Rotated, w) \<Rightarrow> (Call n g, set_lock None w)
      | (RotationFailed, w) \<Rightarrow> (give_up n g, set_lock None w))"
| "task_step S io fresh i (Call n g) w = call_step S io fresh n g w"
| "task_step S io fresh i (Origin n q epoch) w = (Rendering n q epoch (version w), w)"
| "task_step S io fresh i (Rendering n q epoch k) w = render_step S io n q epoch k w"
| "task_step S io fresh i (Fill route epoch value) w =
     (case redis_call io (StoreValue epoch route value) w of
        (False, w) \<Rightarrow> (Finished, w) | (True, w) \<Rightarrow> (Finished, succeeded io w))"
| "task_step S io fresh i (Answered n q r) w = (Answered n q r, w)"
| "task_step S io fresh i MutationBegin w = (MutationMark, count_mutation w)"
| "task_step S io fresh i MutationMark w = (MutationRunning, fence w)"
| "task_step S io fresh i MutationRunning w = (GuardMark, w)"
| "task_step S io fresh i GuardMark w = (GuardUncount, fence w)"
| "task_step S io fresh i GuardUncount w = (CompleteActive, uncount_mutation w)"
| "task_step S io fresh i CompleteActive w =
     (if no_active_mutations (inner w) then CompleteLock else Finished, w)"
| "task_step S io fresh i CompleteLock w =
     (if lock_free w then (CompleteRecheck, set_lock (Some i) w) else (CompleteLock, w))"
| "task_step S io fresh i CompleteRecheck w =
     (if no_active_mutations (inner w) then (CompleteRotate RotateGuard, w) else (Finished, set_lock None w))"
| "task_step S io fresh i (CompleteRotate r) w =
     (case rotate_step io fresh r w of
        (Continue r', w) \<Rightarrow> (CompleteRotate r', w)
      | (Rotated, w) \<Rightarrow> (Finished, set_lock None w)
      | (RotationFailed, w) \<Rightarrow> (Finished, set_lock None w))"
| "task_step S io fresh i Finished w = (Finished, w)"

section \<open>Events\<close>

text \<open>
  \<open>Commit\<close> is a transaction of a running repository worker, \<open>Orphan\<close> one of a worker whose request
  was cancelled: \<open>spawn_blocking\<close> runs it to its end. Counting and marking are synchronous and
  cannot be cancelled.
\<close>

datatype 'd event =
    Arrive goal
  | Mutate
  | Advance nat io rstr
  | Commit nat 'd
  | Cancel nat
  | Deliver nat
  | Evict rstr
  | Orphan 'd
  | Restart

fun cancellable :: "task \<Rightarrow> bool" where
  "cancellable MutationBegin = False"
| "cancellable MutationMark = False"
| "cancellable MutationRunning = False"
| "cancellable GuardMark = False"
| "cancellable GuardUncount = False"
| "cancellable (Answered _ _ _) = False"
| "cancellable _ = True"

fun survives_restart :: "task \<Rightarrow> bool" where
  "survives_restart (Answered _ _ _) = True"
| "survives_restart _ = False"

fun cache_event :: "'d site \<Rightarrow> 'd event \<Rightarrow> 'd world \<Rightarrow> 'd world" where
  "cache_event S (Arrive g) w = w\<lparr>tasks := tasks w @ [CheckActive (version w) g]\<rparr>"
| "cache_event S Mutate w = w\<lparr>tasks := tasks w @ [MutationBegin]\<rparr>"
| "cache_event S (Advance i io fresh) w =
     (if i < length (tasks w)
      then case task_step S io fresh i (tasks w ! i) (w\<lparr>issued := fresh # issued w\<rparr>) of
        (t, w') \<Rightarrow> w'\<lparr>tasks := (tasks w')[i := t]\<rparr>
      else w)"
| "cache_event S (Commit i d) w =
     (if i < length (tasks w) \<and> tasks w ! i = MutationRunning then w\<lparr>canonical := canonical w @ [d]\<rparr> else w)"
| "cache_event S (Cancel i) w =
     (if i < length (tasks w)
      then if tasks w ! i = MutationRunning
        then w\<lparr>tasks := (tasks w)[i := GuardMark], detached := detached w + 1\<rparr>
        else if cancellable (tasks w ! i)
        then (if generation_change (inner w) = Some i then set_lock None w else w)\<lparr>tasks := (tasks w)[i := Finished]\<rparr>
        else w
      else w)"
| "cache_event S (Deliver k) w =
     (if k < length (delayed w)
      then deliver (delayed w ! k) (w\<lparr>delayed := take k (delayed w) @ drop (k + 1) (delayed w)\<rparr>) else w)"
| "cache_event S (Evict key) w = w\<lparr>redis_db := (redis_db w)(key := None)\<rparr>"
| "cache_event S (Orphan d) w =
     (if 0 < detached w then w\<lparr>canonical := canonical w @ [d], detached := detached w - 1\<rparr> else w)"
| "cache_event S Restart w =
     w\<lparr>inner := new_inner (settings (inner w)), detached := 0, fenced := version w,
       tasks := map (\<lambda>t. if survives_restart t then t else Finished) (tasks w)\<rparr>"

text \<open>Generation texts are fresh: 32 hexadecimal digits, never handed out twice.\<close>

definition fresh_generation :: "rstr \<Rightarrow> 'd world \<Rightarrow> bool" where
  "fresh_generation g w \<longleftrightarrow> g \<notin> set (issued w) \<and> length g = 32
     \<and> list_all (\<lambda>c. is_ascii_digit c \<or> 97 \<le> c \<and> c \<le> 102) g"

fun possible :: "'d event \<Rightarrow> 'd world \<Rightarrow> bool" where
  "possible (Advance i io fresh) w = fresh_generation fresh w"
| "possible _ w = True"

text \<open>A request is cancelled while its repository worker runs.\<close>

fun abandons :: "'d event \<Rightarrow> 'd world \<Rightarrow> bool" where
  "abandons (Cancel i) w = (i < length (tasks w) \<and> tasks w ! i = MutationRunning)"
| "abandons _ w = False"

definition initial_world :: "RedisSettings \<Rightarrow> 'd \<Rightarrow> 'd world" where
  "initial_world c d = \<lparr>inner = new_inner c, redis_db = (\<lambda>_. None), delayed = [], canonical = [d], tasks = [],
     detached = 0, issued = [], installed = (\<lambda>_. None), marks = 0, fenced = 0\<rparr>"

inductive cache_reachable :: "'d site \<Rightarrow> bool \<Rightarrow> 'd world \<Rightarrow> bool" for S :: "'d site" and orphans :: bool where
  cache_start: "cache_reachable S orphans (initial_world c d)"
| cache_next: "cache_reachable S orphans w \<Longrightarrow> possible ev w \<Longrightarrow> orphans \<or> \<not> abandons ev w \<Longrightarrow>
     cache_reachable S orphans (cache_event S ev w)"

end
