(* ===== verification/Cache_Coherence.thy ===== *)
theory Cache_Coherence
  imports Cache_Tasks
begin

text \<open>
  No answer is older than the request it answers. The invariant follows a generation of cache
  entries from the moment it becomes current in Redis: its entries are rendered afterwards, and
  the coherence word is clean only while the current generation is younger than the last dirty
  mark.
\<close>

section \<open>The coherence word\<close>

lemma dirty_iff_odd: "dirty c \<longleftrightarrow> odd (unat c)"
proof -
  have "c AND 1 = c mod 2" by (simp add: and_one_eq)
  then show ?thesis by (simp add: dirty_def word_unat_eq_iff unat_mod odd_iff_mod_2_eq_one)
qed

lemma unat_mark_dirty:
  assumes "unat c < 2 ^ 64 - 4"
  shows "unat (mark_coherence_dirty c) = 2 * (unat c div 2 + 1) + 1"
proof -
  define h where "h = drop_bit 1 c"
  have d: "unat h = unat c div 2" by (simp add: h_def drop_bit_eq_div unat_div)
  define x where "x = h + 1"
  have s: "unat x = unat c div 2 + 1"
    using assms by (simp add: x_def unat_word_ariths d)
  have "unat (x * 2) = unat x * 2 mod 2 ^ 64" by (simp add: unat_word_ariths)
  then have p: "unat (push_bit 1 x) = 2 * (unat c div 2 + 1)"
    using assms s by (simp add: push_bit_eq_mult)
  have "push_bit 1 x OR 1 = push_bit 1 x + (1 :: 64 word)"
    by (rule disjunctive_add [symmetric]) (auto simp only: bit_push_bit_iff bit_1_iff)
  then have "unat (mark_coherence_dirty c) = unat (push_bit 1 x + 1)"
    by (simp add: mark_coherence_dirty_def Let_def h_def x_def)
  also have "\<dots> = 2 * (unat c div 2 + 1) + 1"
    using assms p by (simp add: unat_word_ariths)
  finally show ?thesis .
qed

lemma mark_dirty_word:
  assumes "unat c < 2 ^ 64 - 4"
  shows "dirty (mark_coherence_dirty c)" and "unat c < unat (mark_coherence_dirty c)"
    and "unat (mark_coherence_dirty c) \<le> unat c + 3"
    and "dirty c \<Longrightarrow> unat (mark_coherence_dirty c) = unat c + 2"
  using unat_mark_dirty [OF assms] by (auto simp: dirty_iff_odd elim!: oddE evenE)

lemma publish_word:
  assumes "dirty t" and "unat t < 2 ^ 64 - 4"
  shows "\<not> dirty (t + 1)" and "unat (t + 1) = unat t + 1"
proof -
  show u: "unat (t + 1) = unat t + 1" using assms by (simp add: unat_word_ariths)
  show "\<not> dirty (t + 1)" using assms unfolding dirty_iff_odd u by simp
qed

section \<open>Keys\<close>

lemma value_key_inject:
  "58 \<notin> set g \<Longrightarrow> 58 \<notin> set g' \<Longrightarrow> value_key c g r = value_key c g' r' \<longleftrightarrow> g = g' \<and> r = r'"
  by (auto simp: value_key_def lit_def append_eq_append_conv2 append_eq_Cons_conv Cons_eq_append_conv)

lemma epoch_key_neq_value_key [simp]: "epoch_key c \<noteq> value_key c g r" "value_key c g r \<noteq> epoch_key c"
  by (auto simp: epoch_key_def value_key_def response_prefix_def lit_def)

section \<open>The invariant\<close>

text \<open>
  A response rendered from the states with the numbers \<open>k\<close> to \<open>l\<close>; an entry of a generation is
  such a response, rendered after the generation became current; an answer is one rendered after
  the request arrived.
\<close>

definition states_between :: "'a list \<Rightarrow> nat \<Rightarrow> nat \<Rightarrow> 'a list" where
  "states_between xs k l = drop k (take (Suc l) xs)"

definition renders :: "'d site \<Rightarrow> 'd world \<Rightarrow> rstr \<Rightarrow> nat \<Rightarrow> nat \<Rightarrow> Response \<Rightarrow> bool" where
  "renders S w route k l r \<longleftrightarrow> k \<le> l \<and> l < length (canonical w) \<and> fst (st_origin S (states_between (canonical w) k l) route) = r"

definition entry_ok :: "'d site \<Rightarrow> 'd world \<Rightarrow> rstr \<Rightarrow> rstr \<Rightarrow> rstr \<Rightarrow> bool" where
  "entry_ok S w g route value \<longleftrightarrow> (\<exists>v k l r. installed w g = Some v \<and> v \<le> k \<and> renders S w route k l r
     \<and> rp_status r = 200 \<and> value = cache_entry (st_codecs S) (st_signing_key S) route g r)"

definition answer_ok :: "'d site \<Rightarrow> 'd world \<Rightarrow> nat \<Rightarrow> request \<Rightarrow> Response \<Rightarrow> bool" where
  "answer_ok S w n q r \<longleftrightarrow> (\<exists>k l r'. n \<le> k \<and> renders S w (q_route q) k l r'
     \<and> (r = r' \<or> rp_status r' = 200 \<and> r = restored (q_if_none_match q) r'
        \<or> length (rp_body r') > MAX_PUBLIC_RESPONSE_BYTES \<and> r = internal_error))"

abbreviation epoch :: "'d world \<Rightarrow> rstr option" where
  "epoch w \<equiv> redis_db w (epoch_key (settings (inner w)))"

definition epoch_since :: "nat \<Rightarrow> 'd world \<Rightarrow> bool" where
  "epoch_since n w \<longleftrightarrow> (\<forall>g. epoch w = Some g \<longrightarrow> (\<exists>v. installed w g = Some v \<and> n \<le> v))"

fun generations_of :: "command \<Rightarrow> rstr list" where
  "generations_of (SetEpoch g) = [g]"
| "generations_of (LookupEpoch g route) = [g]"
| "generations_of (StoreValue g route v) = []"
| "generations_of Ping = []"

definition pending :: "'d world \<Rightarrow> rstr list" where
  "pending w = concat (map generations_of (delayed w))"

definition generations_ok :: "'d world \<Rightarrow> bool" where
  "generations_ok w \<longleftrightarrow> (\<forall>g \<in> set (issued w). 58 \<notin> set g) \<and> dom (installed w) \<subseteq> set (issued w)
     \<and> set (pending w) \<subseteq> set (issued w) \<and> distinct (pending w) \<and> set (pending w) \<inter> dom (installed w) = {}
     \<and> (\<forall>g v. installed w g = Some v \<longrightarrow> v \<le> version w) \<and> epoch_since 0 w"

definition entries_ok :: "'d site \<Rightarrow> 'd world \<Rightarrow> bool" where
  "entries_ok S w \<longleftrightarrow>
     (\<forall>g route v. 58 \<notin> set g \<longrightarrow> redis_db w (value_key (settings (inner w)) g route) = Some v \<longrightarrow> entry_ok S w g route v)
     \<and> (\<forall>g route v. StoreValue g route v \<in> set (delayed w) \<longrightarrow> entry_ok S w g route v)"

definition fence_ok :: "'d world \<Rightarrow> bool" where
  "fence_ok w \<longleftrightarrow> fenced w \<le> version w
     \<and> (\<not> dirty (coherence (inner w)) \<longrightarrow> epoch_since (fenced w) w)
     \<and> unat (coherence (inner w)) \<le> 4 * marks w + (if dirty (coherence (inner w)) then 1 else 2)"

definition shared_ok :: "'d site \<Rightarrow> 'd world \<Rightarrow> bool" where
  "shared_ok S w \<longleftrightarrow> canonical w \<noteq> [] \<and> generations_ok w \<and> entries_ok S w \<and> fence_ok w"

fun rotation_ok :: "'d world \<Rightarrow> rotation \<Rightarrow> bool" where
  "rotation_ok w (RotateSet t) \<longleftrightarrow> dirty t \<and> unat t \<le> unat (coherence (inner w))"
| "rotation_ok w (RotatePublish t) \<longleftrightarrow> dirty t \<and> unat t \<le> unat (coherence (inner w))
     \<and> (coherence (inner w) = t \<longrightarrow> epoch_since (fenced w) w)"
| "rotation_ok w _ \<longleftrightarrow> True"

definition epoch_known :: "'d world \<Rightarrow> nat \<Rightarrow> rstr option \<Rightarrow> bool" where
  "epoch_known w k e \<longleftrightarrow> (\<forall>g. e = Some g \<longrightarrow> (\<exists>v. installed w g = Some v \<and> v \<le> k))"

fun task_ok :: "'d site \<Rightarrow> 'd world \<Rightarrow> task \<Rightarrow> bool" where
  "task_ok S w (CheckActive n g) \<longleftrightarrow> n \<le> version w"
| "task_ok S w (CheckSafe n g) \<longleftrightarrow> n \<le> fenced w"
| "task_ok S w (RepairActive n g) \<longleftrightarrow> n \<le> fenced w"
| "task_ok S w (RepairSafe n g) \<longleftrightarrow> n \<le> fenced w"
| "task_ok S w (RepairLock n g) \<longleftrightarrow> n \<le> fenced w"
| "task_ok S w (RepairRecheck n g) \<longleftrightarrow> n \<le> fenced w"
| "task_ok S w (RepairRotate r n g) \<longleftrightarrow> n \<le> fenced w \<and> rotation_ok w r"
| "task_ok S w (Call n g) \<longleftrightarrow> n \<le> version w \<and> epoch_since n w"
| "task_ok S w (Origin n q e) \<longleftrightarrow> n \<le> version w \<and> epoch_known w (version w) e"
| "task_ok S w (Rendering n q e k) \<longleftrightarrow> n \<le> k \<and> k \<le> version w \<and> epoch_known w k e"
| "task_ok S w (Fill route g v) \<longleftrightarrow> entry_ok S w g route v"
| "task_ok S w (Answered n q r) \<longleftrightarrow> answer_ok S w n q r"
| "task_ok S w (CompleteRotate r) \<longleftrightarrow> rotation_ok w r"
| "task_ok S w _ \<longleftrightarrow> True"

section \<open>What only grows\<close>

text \<open>
  Everything a task knows stays true while the history and the generations grow, a new current
  generation is younger than all before, and a dirty mark changes the coherence word.
\<close>

definition grows :: "'d world \<Rightarrow> 'd world \<Rightarrow> bool" where
  "grows w w' \<longleftrightarrow> (\<exists>more. canonical w' = canonical w @ more) \<and> installed w \<subseteq>\<^sub>m installed w'
     \<and> fenced w \<le> fenced w' \<and> settings (inner w') = settings (inner w)
     \<and> (\<forall>g. epoch w' = Some g \<longrightarrow> epoch w = Some g \<or> (\<exists>v. installed w' g = Some v \<and> version w \<le> v))
     \<and> unat (coherence (inner w)) \<le> unat (coherence (inner w'))
     \<and> (coherence (inner w') = coherence (inner w) \<longrightarrow> fenced w' = fenced w)"

lemma states_between_append: "l < length xs \<Longrightarrow> states_between (xs @ ys) k l = states_between xs k l"
  by (simp add: states_between_def)

lemma grows_version: "grows w w' \<Longrightarrow> version w \<le> version w'"
  by (auto simp: grows_def version_def)

lemma grows_renders: "grows w w' \<Longrightarrow> renders S w route k l r \<Longrightarrow> renders S w' route k l r"
  by (auto simp: grows_def renders_def states_between_append)

lemma grows_installed: "grows w w' \<Longrightarrow> installed w g = Some v \<Longrightarrow> installed w' g = Some v"
  by (metis grows_def map_le_def domI)

lemma grows_entry: "grows w w' \<Longrightarrow> entry_ok S w g route v \<Longrightarrow> entry_ok S w' g route v"
  unfolding entry_ok_def by (blast intro: grows_renders grows_installed)

lemma grows_answer: "grows w w' \<Longrightarrow> answer_ok S w n q r \<Longrightarrow> answer_ok S w' n q r"
  unfolding answer_ok_def by (blast intro: grows_renders)

lemma grows_epoch_since:
  assumes "grows w w'" and "epoch_since n w" and "n \<le> version w"
  shows "epoch_since n w'"
  unfolding epoch_since_def
proof (intro allI impI)
  fix g assume "epoch w' = Some g"
  with assms(1) consider "epoch w = Some g" | v where "installed w' g = Some v" "version w \<le> v"
    unfolding grows_def by blast
  then show "\<exists>v. installed w' g = Some v \<and> n \<le> v"
  proof cases
    case 1
    with assms show ?thesis unfolding epoch_since_def by (blast intro: grows_installed)
  next
    case 2
    with assms(3) show ?thesis by (intro exI [of _ v]) simp
  qed
qed

lemma grows_epoch_known: "grows w w' \<Longrightarrow> epoch_known w k e \<Longrightarrow> k \<le> k' \<Longrightarrow> epoch_known w' k' e"
  by (fastforce simp: epoch_known_def dest: grows_installed)

lemma grows_rotation:
  assumes "grows w w'" and "rotation_ok w r" and "fenced w \<le> version w"
  shows "rotation_ok w' r"
proof (cases r)
  case (RotatePublish t)
  have "epoch_since (fenced w') w'" if "coherence (inner w') = t"
  proof -
    have "unat t \<le> unat (coherence (inner w))" using assms(2) RotatePublish by simp
    with assms(1) that have eq: "coherence (inner w) = t"
      by (simp add: grows_def word_unat_eq_iff)
    with assms that have "fenced w' = fenced w" by (simp add: grows_def)
    with eq assms RotatePublish show ?thesis by (simp add: grows_epoch_since)
  qed
  with assms RotatePublish show ?thesis by (auto simp: grows_def)
qed (use assms in \<open>auto simp: grows_def\<close>)

lemma grows_task:
  assumes "grows w w'" and "task_ok S w t" and "fenced w \<le> version w"
  shows "task_ok S w' t"
  using assms(2) grows_version [OF assms(1)] grows_rotation [OF assms(1) _ assms(3)]
    grows_epoch_since [OF assms(1)] grows_epoch_known [OF assms(1)] grows_entry [OF assms(1)]
    grows_answer [OF assms(1)] assms(1)
  by (cases t) (auto simp: grows_def intro: le_trans)

lemma grows_refl [simp]: "grows w w"
  by (simp add: grows_def)

lemma grows_trans:
  assumes "grows a b" and "grows b c"
  shows "grows a c"
proof -
  have "epoch a = Some g \<or> (\<exists>v. installed c g = Some v \<and> version a \<le> v)" if "epoch c = Some g" for g
  proof -
    from assms(2) that consider "epoch b = Some g" | v where "installed c g = Some v" "version b \<le> v"
      unfolding grows_def by blast
    then show ?thesis
    proof cases
      case 1
      with assms show ?thesis unfolding grows_def [of a b] by (blast intro: grows_installed)
    next
      case 2
      with grows_version [OF assms(1)] show ?thesis by (meson le_trans)
    qed
  qed
  moreover have "fenced c = fenced a" if "coherence (inner c) = coherence (inner a)"
    using assms that by (simp add: grows_def word_unat_eq_iff)
  ultimately show ?thesis using assms by (auto simp: grows_def intro: map_le_trans)
qed

section \<open>Health and locks do not matter\<close>

definition same_shared :: "'d world \<Rightarrow> 'd world \<Rightarrow> bool" where
  "same_shared w w' \<longleftrightarrow> redis_db w' = redis_db w \<and> delayed w' = delayed w \<and> canonical w' = canonical w
     \<and> issued w' = issued w \<and> installed w' = installed w \<and> marks w' = marks w \<and> fenced w' = fenced w
     \<and> settings (inner w') = settings (inner w) \<and> coherence (inner w') = coherence (inner w)"

lemma same_shared_facts:
  assumes "same_shared w w'"
  shows "version w' = version w" and "epoch_since n w' = epoch_since n w" and "entry_ok S w' = entry_ok S w"
    and "pending w' = pending w"
  using assms
  by (auto simp: same_shared_def version_def epoch_since_def pending_def entry_ok_def renders_def fun_eq_iff)

lemma same_shared_ok: "same_shared w w' \<Longrightarrow> shared_ok S w' \<longleftrightarrow> shared_ok S w"
  unfolding shared_ok_def generations_ok_def entries_ok_def fence_ok_def same_shared_facts
  by (simp add: same_shared_def)

lemma same_shared_grows: "same_shared w w' \<Longrightarrow> grows w w'"
  by (simp add: same_shared_def grows_def)

lemma same_shared_trans: "same_shared a b \<Longrightarrow> same_shared b c \<Longrightarrow> same_shared a c"
  by (simp add: same_shared_def)

lemma manager_frame:
  assumes "manager now a c = (x, c')"
  shows "settings c' = settings c" and "coherence c' = coherence c" and "active_mutations c' = active_mutations c"
  using assms
  by (auto simp: manager_def record_connection_failure_def record_error_def Let_def
      split: if_splits sum.splits attempt_result.splits)

lemma health_frame [simp]:
  "settings (record_success u c) = settings c" "coherence (record_success u c) = coherence c"
  "active_mutations (record_success u c) = active_mutations c"
  "settings (handle_command_error now l m c) = settings c" "coherence (handle_command_error now l m c) = coherence c"
  "active_mutations (handle_command_error now l m c) = active_mutations c"
  "settings (record_verified_hit c) = settings c" "coherence (record_verified_hit c) = coherence c"
  "active_mutations (record_verified_hit c) = active_mutations c"
  "settings (record_miss c) = settings c" "coherence (record_miss c) = coherence c"
  "active_mutations (record_miss c) = active_mutations c"
  by (simp_all add: record_success_def handle_command_error_def drop_manager_def record_error_def
      record_verified_hit_def record_miss_def)

section \<open>Commands\<close>

definition command_ok :: "'d site \<Rightarrow> 'd world \<Rightarrow> command \<Rightarrow> bool" where
  "command_ok S w cmd \<longleftrightarrow>
     (\<forall>g \<in> set (generations_of cmd). g \<in> set (issued w) \<and> g \<notin> set (pending w) \<and> g \<notin> dom (installed w))
     \<and> (\<forall>g route v. cmd = StoreValue g route v \<longrightarrow> entry_ok S w g route v)"

definition install :: "rstr \<Rightarrow> 'd world \<Rightarrow> 'd world" where
  "install g w = w\<lparr>redis_db := (redis_db w)(epoch_key (settings (inner w)) \<mapsto> g),
     installed := (installed w)(g \<mapsto> version w)\<rparr>"

lemma install_grows: "g \<notin> dom (installed w) \<Longrightarrow> grows w (install g w)"
  by (auto simp: grows_def install_def map_le_def)

lemma install_since: "epoch_since (version w) (install g w)"
  by (simp add: epoch_since_def install_def)

lemma install_ok:
  assumes "shared_ok S w" and "g \<in> set (issued w)" and "g \<notin> set (pending w)" and "g \<notin> dom (installed w)"
  shows "shared_ok S (install g w)"
proof -
  note grow = install_grows [OF assms(4)]
  have "generations_ok (install g w)"
    using assms by (auto simp: shared_ok_def generations_ok_def install_def pending_def version_def epoch_since_def)
  moreover have "entries_ok S (install g w)"
    using assms(1) grows_entry [OF grow, of S] by (auto simp: shared_ok_def entries_ok_def install_def)
  moreover have "fence_ok (install g w)"
    using assms(1) by (auto simp: shared_ok_def fence_ok_def install_def version_def epoch_since_def)
  ultimately show ?thesis using assms(1) by (simp add: shared_ok_def install_def)
qed

lemma store_ok:
  assumes "shared_ok S w" and "entry_ok S w g route v"
  shows "shared_ok S (w\<lparr>redis_db := (redis_db w)(value_key (settings (inner w)) g route \<mapsto> v)\<rparr>)" (is "shared_ok S ?w")
proof -
  have e: "epoch_since n ?w = epoch_since n w" "entry_ok S ?w = entry_ok S w" "version ?w = version w"
      "pending ?w = pending w" for n
    by (simp_all add: epoch_since_def entry_ok_def renders_def version_def pending_def fun_eq_iff)
  have "58 \<notin> set g"
    using assms by (auto simp: shared_ok_def generations_ok_def entry_ok_def)
  then have "entries_ok S ?w"
    using assms by (auto simp: shared_ok_def entries_ok_def e value_key_inject)
  then show ?thesis using assms(1) by (simp add: shared_ok_def generations_ok_def fence_ok_def e)
qed

lemma deliver_cases:
  assumes "shared_ok S w" and "command_ok S w cmd"
  obtains "deliver cmd w = w" "\<And>g. cmd \<noteq> SetEpoch g"
  | g where "deliver cmd w = install g w" "g \<in> set (generations_of cmd)"
  | g route v where "cmd = StoreValue g route v"
      "deliver cmd w = w\<lparr>redis_db := (redis_db w)(value_key (settings (inner w)) g route \<mapsto> v)\<rparr>"
proof (cases cmd)
  case (SetEpoch g)
  have "epoch w \<noteq> Some g"
    using assms by (auto simp: shared_ok_def generations_ok_def epoch_since_def command_ok_def SetEpoch)
  then have "deliver cmd w = install g w"
    by (simp add: SetEpoch deliver_def install_def set_epoch_def Let_def)
  with that(2) SetEpoch show thesis by simp
next
  case (LookupEpoch g route)
  show thesis
  proof (cases "epoch w")
    case None
    then have "deliver cmd w = install g w"
      by (simp add: LookupEpoch deliver_def install_def lookup_script_def Let_def)
    with that(2) LookupEpoch show thesis by simp
  next
    case (Some e)
    then have "deliver cmd w = w" by (simp add: LookupEpoch deliver_def lookup_script_def Let_def)
    with that(1) LookupEpoch show thesis by simp
  qed
next
  case (StoreValue g route v)
  show thesis
  proof (cases "epoch w = Some g")
    case True
    then have "deliver cmd w = w\<lparr>redis_db := (redis_db w)(value_key (settings (inner w)) g route \<mapsto> v)\<rparr>"
      by (simp add: StoreValue deliver_def store_script_def Let_def)
    with that(3) StoreValue show thesis by simp
  next
    case False
    then have "deliver cmd w = w"
      by (simp add: StoreValue deliver_def store_script_def Let_def split: option.split)
    with that(1) StoreValue show thesis by simp
  qed
next
  case Ping
  then have "deliver cmd w = w" by (simp add: deliver_def Let_def split: option.split)
  with that(1) Ping show thesis by simp
qed

lemma deliver_ok:
  assumes "shared_ok S w" and "command_ok S w cmd"
  shows "shared_ok S (deliver cmd w)" and "grows w (deliver cmd w)"
proof -
  have "shared_ok S (deliver cmd w) \<and> grows w (deliver cmd w)"
    using assms
  proof (cases rule: deliver_cases)
    case (2 g)
    then show ?thesis using assms install_ok [of S w g] install_grows [of g w] by (auto simp: command_ok_def)
  next
    case (3 g route v)
    then show ?thesis using assms store_ok [of S w g route v] by (auto simp: command_ok_def grows_def)
  qed (use assms in simp)
  then show "shared_ok S (deliver cmd w)" "grows w (deliver cmd w)" by auto
qed

lemma delay_ok:
  assumes "shared_ok S w" and "command_ok S w cmd"
  shows "shared_ok S (w\<lparr>delayed := delayed w @ [cmd]\<rparr>)" (is "shared_ok S ?w")
proof -
  have e: "epoch_since n ?w = epoch_since n w" "entry_ok S ?w = entry_ok S w" "version ?w = version w"
      "pending ?w = pending w @ generations_of cmd" for n
    by (simp_all add: epoch_since_def entry_ok_def renders_def version_def pending_def fun_eq_iff)
  have "distinct (generations_of cmd)" by (cases cmd) auto
  then have "generations_ok ?w"
    using assms by (auto simp: shared_ok_def generations_ok_def e command_ok_def)
  moreover have "entries_ok S ?w" using assms by (auto simp: shared_ok_def entries_ok_def e command_ok_def)
  ultimately show ?thesis using assms(1) by (simp add: shared_ok_def fence_ok_def e)
qed

text \<open>What a call of Redis and the bookkeeping around it leave alone.\<close>

definition steady :: "'d world \<Rightarrow> 'd world \<Rightarrow> bool" where
  "steady w w' \<longleftrightarrow> tasks w' = tasks w \<and> canonical w' = canonical w \<and> detached w' = detached w \<and> marks w' = marks w
     \<and> fenced w' = fenced w \<and> active_mutations (inner w') = active_mutations (inner w)"

lemma steady_version: "steady w w' \<Longrightarrow> version w' = version w"
  by (simp add: steady_def version_def)

lemma deliver_steady [simp]: "steady w (deliver cmd w)"
  by (simp add: steady_def deliver_def Let_def)

lemma redis_call_ok:
  assumes "shared_ok S w" and "command_ok S w cmd" and "redis_call io cmd w = (ok, w')"
  shows "shared_ok S w'" and "grows w w'" and "steady w w'" and "ok \<Longrightarrow> same_shared (deliver cmd w) w'"
proof -
  obtain x c where m: "manager (io_now io) (io_attempt io) (inner w) = (x, c)" by fastforce
  note f = manager_frame [OF m]
  let ?c = "w\<lparr>inner := c\<rparr>"
  have same: "same_shared w ?c" using f by (simp add: same_shared_def)
  consider (lost) "\<not> ok" "w' = ?c"
    | (sent) l where "\<not> ok" "w' = ?c\<lparr>inner := handle_command_error (io_now io) l (lit ''Redis command failed'') c,
        delayed := delayed w @ [cmd]\<rparr>"
    | (answered) "ok" "w' = deliver cmd ?c"
    using assms(3) m by (auto simp: redis_call_def split: sum.splits if_splits)
  then have "shared_ok S w' \<and> grows w w' \<and> steady w w' \<and> (ok \<longrightarrow> same_shared (deliver cmd w) w')"
  proof cases
    case lost
    with assms(1) same f show ?thesis by (simp add: same_shared_ok same_shared_grows steady_def)
  next
    case sent
    have s: "same_shared (w\<lparr>delayed := delayed w @ [cmd]\<rparr>) w'" using sent f by (simp add: same_shared_def)
    have "grows w (w\<lparr>delayed := delayed w @ [cmd]\<rparr>)" by (simp add: grows_def)
    with same_shared_grows [OF s] have "grows w w'" by (rule grows_trans [rotated])
    with delay_ok [OF assms(1,2)] same_shared_ok [OF s, of S] sent f show ?thesis by (simp add: steady_def)
  next
    case answered
    have s: "same_shared (deliver cmd w) w'"
      using answered f by (simp add: same_shared_def deliver_def Let_def version_def split: option.split)
    with deliver_ok [OF assms(1,2)] same_shared_ok [OF s, of S] same_shared_grows [OF s]
    show ?thesis using answered f by (auto simp: steady_def deliver_def Let_def intro: grows_trans)
  qed
  then show "shared_ok S w'" "grows w w'" "steady w w'" "ok \<Longrightarrow> same_shared (deliver cmd w) w'" by auto
qed

lemma succeeded_same [simp]: "same_shared w (succeeded io w)" "steady w (succeeded io w)"
  by (simp_all add: same_shared_def steady_def succeeded_def)

section \<open>Marks and publications\<close>

lemma coherence_bounded:
  "shared_ok S w \<Longrightarrow> marks w < 2 ^ 61 \<Longrightarrow> unat (coherence (inner w)) < 2 ^ 64 - 4"
  by (simp add: shared_ok_def fence_ok_def split: if_splits)

lemma fence_keeps:
  assumes "shared_ok S w" and "marks w < 2 ^ 61"
  shows "shared_ok S (fence w)" and "grows w (fence w)"
proof -
  note m = mark_dirty_word [OF coherence_bounded [OF assms]]
  have c: "coherence (inner (fence w)) = mark_coherence_dirty (coherence (inner w))"
    "settings (inner (fence w)) = settings (inner w)" "fenced (fence w) = version w" "version (fence w) = version w"
    "epoch_since n (fence w) = epoch_since n w" "entry_ok S (fence w) = entry_ok S w" "pending (fence w) = pending w"
    "canonical (fence w) = canonical w" "issued (fence w) = issued w" "installed (fence w) = installed w"
    "redis_db (fence w) = redis_db w" "delayed (fence w) = delayed w" "marks (fence w) = marks w + 1" for n
    by (simp_all add: fence_def mark_dirty_def version_def epoch_since_def entry_ok_def renders_def pending_def fun_eq_iff)
  have "unat (mark_coherence_dirty (coherence (inner w))) \<le> 4 * (marks w + 1) + 1"
  proof (cases "dirty (coherence (inner w))")
    case True
    with m(4) assms(1) show ?thesis by (simp add: shared_ok_def fence_ok_def)
  next
    case False
    with m(3) assms(1) show ?thesis by (simp add: shared_ok_def fence_ok_def)
  qed
  with m(1) assms(1) show "shared_ok S (fence w)"
    by (simp add: shared_ok_def generations_ok_def entries_ok_def fence_ok_def c)
  from m(2) have "unat (coherence (inner w)) \<le> unat (mark_coherence_dirty (coherence (inner w)))"
    "mark_coherence_dirty (coherence (inner w)) \<noteq> coherence (inner w)" by auto
  with assms(1) show "grows w (fence w)" by (simp add: grows_def c shared_ok_def fence_ok_def)
qed

definition cleaned :: "64 word \<Rightarrow> 'd world \<Rightarrow> 'd world" where
  "cleaned t w = w\<lparr>inner := (inner w)\<lparr>coherence := t + 1\<rparr>\<rparr>"

lemma cleaned_keeps:
  assumes "shared_ok S w" and "marks w < 2 ^ 61" and "rotation_ok w (RotatePublish t)" and "coherence (inner w) = t"
  shows "shared_ok S (cleaned t w)" and "grows w (cleaned t w)" and "epoch_since (fenced w) (cleaned t w)"
proof -
  note b = coherence_bounded [OF assms(1,2), unfolded assms(4)]
  have t: "dirty t" "epoch_since (fenced w) w" using assms(3,4) by simp_all
  note p = publish_word [OF t(1) b]
  have c: "epoch_since n (cleaned t w) = epoch_since n w" "entry_ok S (cleaned t w) = entry_ok S w" "pending (cleaned t w) = pending w"
    "version (cleaned t w) = version w" for n
    by (simp_all add: cleaned_def version_def epoch_since_def entry_ok_def renders_def pending_def fun_eq_iff)
  have f: "coherence (inner (cleaned t w)) = t + 1" "settings (inner (cleaned t w)) = settings (inner w)"
    "fenced (cleaned t w) = fenced w" "canonical (cleaned t w) = canonical w" "issued (cleaned t w) = issued w"
    "installed (cleaned t w) = installed w" "redis_db (cleaned t w) = redis_db w" "delayed (cleaned t w) = delayed w"
    "marks (cleaned t w) = marks w"
    by (simp_all add: cleaned_def)
  show "epoch_since (fenced w) (cleaned t w)" using t(2) by (simp add: c)
  from assms(1,4) t p show "shared_ok S (cleaned t w)"
    by (simp add: shared_ok_def generations_ok_def entries_ok_def fence_ok_def c f)
  from assms(4) p(2) show "grows w (cleaned t w)" by (simp add: grows_def f)
qed

lemma epoch_since_mono: "epoch_since n w \<Longrightarrow> m \<le> n \<Longrightarrow> epoch_since m w"
  unfolding epoch_since_def by (meson le_trans)

section \<open>Steps of a task\<close>

definition unused :: "rstr \<Rightarrow> 'd world \<Rightarrow> bool" where
  "unused g w \<longleftrightarrow> g \<in> set (issued w) \<and> g \<notin> set (pending w) \<and> g \<notin> dom (installed w)"

lemma rotate_step_ok:
  assumes "shared_ok S w" and "rotation_ok w r" and "unused fresh w" and "marks w < 2 ^ 61"
    and "rotate_step io fresh r w = (p, w')"
  shows "shared_ok S w'" and "grows w w'" and "steady w w'"
    and "\<And>r'. p = Continue r' \<Longrightarrow> rotation_ok w' r'" and "p = Rotated \<Longrightarrow> epoch_since (fenced w') w'"
proof -
  have "shared_ok S w' \<and> grows w w' \<and> steady w w' \<and> (\<forall>r'. p = Continue r' \<longrightarrow> rotation_ok w' r')
    \<and> (p = Rotated \<longrightarrow> epoch_since (fenced w') w')"
  proof (cases r)
    case RotateGuard
    with assms show ?thesis by (auto simp: steady_def split: if_splits)
  next
    case RotateTicket
    with assms show ?thesis by (auto simp: steady_def Let_def shared_ok_def fence_ok_def split: if_splits)
  next
    case (RotateSet t)
    have cmd: "command_ok S w (SetEpoch fresh)" using assms(3) by (simp add: command_ok_def unused_def)
    obtain ok w1 where call: "redis_call io (SetEpoch fresh) w = (ok, w1)" by fastforce
    note c = redis_call_ok [OF assms(1) cmd call]
    have "rotation_ok w' (RotatePublish t)" if ok
    proof -
      have w': "w' = w1" using assms(5) RotateSet call that by simp
      have "deliver (SetEpoch fresh) w = install fresh w"
        using assms(1) cmd by (cases rule: deliver_cases) auto
      then have "epoch_since (version w) (deliver (SetEpoch fresh) w)" by (simp add: install_since)
      then have "epoch_since (version w) w'" using c(4) [OF that] w' by (simp add: same_shared_facts)
      moreover have "fenced w' \<le> version w" using c(3) w' assms(1) by (simp add: steady_def shared_ok_def fence_ok_def)
      ultimately have "epoch_since (fenced w') w'" by (rule epoch_since_mono)
      moreover have "unat (coherence (inner w)) \<le> unat (coherence (inner w'))" using c(2) w' by (simp add: grows_def)
      ultimately show ?thesis using assms(2) RotateSet by simp
    qed
    with c assms(5) RotateSet call show ?thesis by (cases ok) auto
  next
    case (RotatePublish t)
    show ?thesis
    proof (cases "coherence (inner w) = t")
      case True
      note k = cleaned_keeps [OF assms(1,4) assms(2) [unfolded RotatePublish] True]
      have w': "p = Rotated" "w' = succeeded io (cleaned t w)"
        using assms(5) RotatePublish True
        by (simp_all add: publish_generation_def publish_coherence_generation_def cleaned_def)
      have s: "same_shared (cleaned t w) w'" by (simp add: w')
      have "steady w w'" by (simp add: w' steady_def succeeded_def cleaned_def)
      with k s w'(1) show ?thesis
        using same_shared_grows [OF s] by (auto simp: same_shared_ok same_shared_facts steady_def intro: grows_trans)
    next
      case False
      then have w': "p = Continue RotateGuard" "same_shared w w'" "steady w w'"
        using assms(5) RotatePublish
        by (auto simp: publish_generation_def publish_coherence_generation_def same_shared_def steady_def succeeded_def)
      with assms(1) show ?thesis by (simp add: same_shared_ok same_shared_grows)
    qed
  qed
  then show "shared_ok S w'" "grows w w'" "steady w w'" "\<And>r'. p = Continue r' \<Longrightarrow> rotation_ok w' r'"
    "p = Rotated \<Longrightarrow> epoch_since (fenced w') w'" by auto
qed

lemma found_entry:
  assumes "shared_ok S w" and "unused fresh w" and "epoch_since n w"
    and "fst (lookup_script (settings (inner w)) fresh route (redis_db w)) = found" and "cl_value found = Some v"
  shows "\<exists>k l r. n \<le> k \<and> renders S w route k l r \<and> rp_status r = 200
     \<and> v = cache_entry (st_codecs S) (st_signing_key S) route (cl_epoch found) r"
proof -
  define g where "g = (case epoch w of None \<Rightarrow> fresh | Some g \<Rightarrow> g)"
  have g: "cl_epoch found = g" "redis_db w (value_key (settings (inner w)) g route) = Some v"
    using assms(4,5) by (auto simp: lookup_script_def Let_def g_def split: option.splits if_splits)
  have "g \<in> set (issued w)"
    using assms(1,2) by (auto simp: g_def unused_def shared_ok_def generations_ok_def epoch_since_def split: option.splits)
  then have "58 \<notin> set g" using assms(1) by (auto simp: shared_ok_def generations_ok_def)
  with g(2) assms(1) have "entry_ok S w g route v" by (auto simp: shared_ok_def entries_ok_def)
  then obtain v0 k l r where e: "installed w g = Some v0" "v0 \<le> k" "renders S w route k l r" "rp_status r = 200"
      "v = cache_entry (st_codecs S) (st_signing_key S) route g r" unfolding entry_ok_def by blast
  with assms(2) have "epoch w = Some g" by (auto simp: g_def unused_def split: option.splits)
  with assms(3) e(1) have "n \<le> v0" by (auto simp: epoch_since_def)
  with e g(1) show ?thesis by (intro exI [of _ k] exI [of _ l] exI [of _ r]) simp
qed

lemma epoch_after_lookup:
  "epoch (deliver (LookupEpoch fresh route) w) =
     Some (cl_epoch (fst (lookup_script (settings (inner w)) fresh route (redis_db w))))"
  by (simp add: deliver_def lookup_script_def Let_def split: option.split)

lemma epoch_known_current: "shared_ok S w \<Longrightarrow> epoch w = Some g \<Longrightarrow> epoch_known w (version w) (Some g)"
  unfolding epoch_known_def shared_ok_def generations_ok_def epoch_since_def by blast

lemma call_step_ok:
  assumes "shared_ok S w" and "n \<le> version w" and "epoch_since n w" and "unused fresh w"
    and "sound_codecs (st_codecs S)" and "call_step S io fresh n g w = (t, w')"
  shows "shared_ok S w' \<and> grows w w' \<and> steady w w' \<and> task_ok S w' t"
proof (cases g)
  case (LookupGoal q)
  define cmd where "cmd = LookupEpoch fresh (q_route q)"
  have cmd: "command_ok S w cmd" using assms(4) by (simp add: cmd_def command_ok_def unused_def)
  obtain ok w1 where call: "redis_call io cmd w = (ok, w1)" by fastforce
  note c = redis_call_ok [OF assms(1) cmd call]
  show ?thesis
  proof (cases ok)
    case False
    with assms(6) LookupGoal call have "t = Origin n q None" "w' = w1" by (simp_all add: cmd_def)
    with c assms(2) show ?thesis by (simp add: epoch_known_def steady_version)
  next
    case True
    define found where "found = fst (lookup_script (settings (inner w)) fresh (q_route q) (redis_db w))"
    have d: "same_shared (deliver cmd w) w1" using c(4) True by blast
    have s: "same_shared w1 w'" "steady w1 w'"
      using assms(6) LookupGoal call True
      by (auto simp: cmd_def Let_def same_shared_def steady_def succeeded_def split: option.splits)
    have keep: "shared_ok S w'" "grows w w'" "steady w w'"
      using c s same_shared_ok [OF s(1), of S] grows_trans [OF c(2) same_shared_grows [OF s(1)]] by (auto simp: steady_def)
    have epoch: "epoch w' = Some (cl_epoch found)"
      using s(1) d epoch_after_lookup [of fresh "q_route q" w] by (simp add: same_shared_def cmd_def found_def)
    have "task_ok S w' t"
    proof (cases "verified_hit (st_codecs S) (st_signing_key S) (q_if_none_match q) (q_route q) found")
      case None
      then have "t = Origin n q (Some (cl_epoch found))"
        using assms(6) LookupGoal call True by (simp add: cmd_def found_def [symmetric] Let_def)
      with epoch_known_current [OF keep(1) epoch] grows_version [OF keep(2)] assms(2) show ?thesis by simp
    next
      case (Some r)
      then have t: "t = Answered n q r"
        using assms(6) LookupGoal call True by (simp add: cmd_def found_def [symmetric] Let_def)
      from Some obtain v where v: "cl_value found = Some v" by (auto simp: verified_hit_def bind_eq_Some_conv)
      obtain k l r' where e: "n \<le> k" "renders S w (q_route q) k l r'" "rp_status r' = 200"
          "v = cache_entry (st_codecs S) (st_signing_key S) (q_route q) (cl_epoch found) r'"
        using found_entry [OF assms(1,4,3) found_def [symmetric] v] by blast
      have "found = \<lparr>cl_epoch = cl_epoch found,
          cl_value = Some (cache_entry (st_codecs S) (st_signing_key S) (q_route q) (cl_epoch found) r')\<rparr>"
        using v e(4) by simp
      with Some have "r = restored (q_if_none_match q) r'" by (metis verified_hit_entry [OF assms(5)])
      with e have "answer_ok S w n q r" unfolding answer_ok_def by blast
      with keep(2) t show ?thesis by (simp add: grows_answer)
    qed
    with keep show ?thesis by blast
  qed
next
  case PingGoal
  have cmd: "command_ok S w Ping" by (simp add: command_ok_def)
  obtain ok w1 where call: "redis_call io Ping w = (ok, w1)" by fastforce
  note c = redis_call_ok [OF assms(1) cmd call]
  have "t = Finished \<and> (w' = w1 \<or> w' = succeeded io w1)"
    using assms(6) PingGoal call by (cases ok) simp_all
  with c show ?thesis
    using same_shared_ok [OF succeeded_same(1), of S io w1] grows_trans [OF c(2) same_shared_grows [OF succeeded_same(1)]]
    by (auto simp: steady_def succeeded_def)
qed

lemma fill_step_ok:
  assumes "shared_ok S w" and "entry_ok S w g route v" and "task_step S io fresh i (Fill route g v) w = (t, w')"
  shows "shared_ok S w' \<and> grows w w' \<and> steady w w' \<and> task_ok S w' t"
proof -
  have cmd: "command_ok S w (StoreValue g route v)" using assms(2) by (simp add: command_ok_def)
  obtain ok w1 where call: "redis_call io (StoreValue g route v) w = (ok, w1)" by fastforce
  note c = redis_call_ok [OF assms(1) cmd call]
  have "t = Finished \<and> (w' = w1 \<or> w' = succeeded io w1)" using assms(3) call by (cases ok) simp_all
  with c show ?thesis
    using same_shared_ok [OF succeeded_same(1), of S io w1] grows_trans [OF c(2) same_shared_grows [OF succeeded_same(1)]]
    by (auto simp: steady_def succeeded_def)
qed

lemma render_step_ok:
  assumes "shared_ok S w" and "n \<le> k" and "k \<le> version w" and "epoch_known w k e"
    and "render_step S io n q e k w = (t, w')"
  shows "same_shared w w' \<and> active_mutations (inner w') = active_mutations (inner w) \<and> detached w' = detached w
     \<and> task_ok S w' t \<and> (tasks w' = tasks w \<or> (\<exists>g v. tasks w' = tasks w @ [Fill (q_route q) g v] \<and> entry_ok S w g (q_route q) v))"
proof -
  obtain r eligible where o: "st_origin S (drop k (canonical w)) (q_route q) = (r, eligible)" by fastforce
  have len: "version w < length (canonical w)" using assms(1) by (cases "canonical w") (auto simp: shared_ok_def version_def)
  then have "states_between (canonical w) k (version w) = drop k (canonical w)"
    by (simp add: states_between_def version_def)
  with o len assms(3) have r: "renders S w (q_route q) k (version w) r" by (simp add: renders_def)
  have same: "same_shared w w'" "active_mutations (inner w') = active_mutations (inner w)" "detached w' = detached w"
    using assms(5) o by (auto simp: render_step_def same_shared_def split: if_splits option.splits)
  have "answer_ok S w n q x" if "x = r \<or> x = internal_error \<and> length (rp_body r) > MAX_PUBLIC_RESPONSE_BYTES" for x
    unfolding answer_ok_def using that r assms(2) by blast
  moreover have "\<exists>x. t = Answered n q x \<and> (x = r \<or> x = internal_error \<and> length (rp_body r) > MAX_PUBLIC_RESPONSE_BYTES)"
    using assms(5) o by (auto simp: render_step_def split: if_splits option.splits)
  ultimately have "task_ok S w' t" using grows_answer [OF same_shared_grows [OF same(1)]] by auto
  moreover have "entry_ok S w g (q_route q) (cache_entry (st_codecs S) (st_signing_key S) (q_route q) g r)"
    if "e = Some g" "rp_status r = 200" for g
    using that assms(4) r unfolding entry_ok_def epoch_known_def by blast
  then have "tasks w' = tasks w \<or> (\<exists>g v. tasks w' = tasks w @ [Fill (q_route q) g v] \<and> entry_ok S w g (q_route q) v)"
    using assms(5) o by (auto simp: render_step_def split: if_splits option.splits)
  ultimately show ?thesis using same by blast
qed

text \<open>Tasks that the counter of mutations counts, and those whose worker may have committed unmarked.\<close>

fun counted :: "task \<Rightarrow> bool" where
  "counted MutationMark = True"
| "counted MutationRunning = True"
| "counted GuardMark = True"
| "counted GuardUncount = True"
| "counted _ = False"

fun writing :: "task \<Rightarrow> bool" where
  "writing MutationRunning = True"
| "writing GuardMark = True"
| "writing _ = False"

definition step_ok :: "'d site \<Rightarrow> 'd world \<Rightarrow> task \<Rightarrow> 'd world \<Rightarrow> task \<Rightarrow> bool" where
  "step_ok S w t w' t' \<longleftrightarrow> shared_ok S w' \<and> grows w w' \<and> task_ok S w' t' \<and> canonical w' = canonical w
     \<and> detached w' = detached w \<and> marks w \<le> marks w'
     \<and> (\<exists>new. tasks w' = tasks w @ new \<and> (\<forall>x \<in> set new. task_ok S w' x \<and> \<not> counted x))
     \<and> active_mutations (inner w') = active_mutations (inner w) + of_bool (counted t') - of_bool (counted t)
     \<and> (writing t \<longrightarrow> writing t' \<or> fenced w' = version w')"

lemma steady_step_ok:
  "shared_ok S w' \<and> grows w w' \<and> steady w w' \<and> task_ok S w' t' \<Longrightarrow> counted t' = counted t \<Longrightarrow> \<not> writing t \<or> writing t' \<Longrightarrow>
   step_ok S w t w' t'"
  by (simp add: step_ok_def steady_def)

lemma lock_same [simp]: "same_shared w (set_lock h w)" "steady w (set_lock h w)"
  by (simp_all add: same_shared_def steady_def set_lock_def)

lemma lock_step_ok:
  assumes "shared_ok S w" and "w' \<in> {w, set_lock None w, set_lock (Some i) w}" and "task_ok S w t'"
    and "counted t' = counted t" and "\<not> writing t"
  shows "step_ok S w t w' t'"
proof -
  have same: "same_shared w w'" "steady w w'" using assms(2) by (auto simp: same_shared_def steady_def set_lock_def)
  have f: "fenced w \<le> version w" using assms(1) by (simp add: shared_ok_def fence_ok_def)
  have "task_ok S w' t'" by (rule grows_task [OF same_shared_grows [OF same(1)] assms(3) f])
  with assms same show ?thesis
    by (intro steady_step_ok) (simp_all add: same_shared_ok [OF same(1)] same_shared_grows)
qed

lemma counting_same [simp]: "same_shared w (count_mutation w)" "same_shared w (uncount_mutation w)"
  by (simp_all add: same_shared_def count_mutation_def uncount_mutation_def)

lemma give_up_ok: "n \<le> version w \<Longrightarrow> task_ok S w (give_up n g)" "\<not> counted (give_up n g)" "\<not> writing (give_up n g)"
  by (cases g; simp add: epoch_known_def)+

lemma rotation_step_ok:
  assumes "shared_ok S w" and "rotation_ok w r" and "unused fresh w" and "marks w < 2 ^ 61"
    and "rotate_step io fresh r w = (p, w1)"
    and after: "\<And>r'. p = Continue r' \<Longrightarrow> w' = w1 \<and> (rotation_ok w1 r' \<longrightarrow> task_ok S w1 t')"
      "p = Rotated \<Longrightarrow> w' = set_lock None w1 \<and> (epoch_since (fenced w1) w1 \<longrightarrow> task_ok S w1 t')"
      "p = RotationFailed \<Longrightarrow> w' = set_lock None w1 \<and> task_ok S w1 t'"
    and "\<not> counted t" "\<not> counted t'" "\<not> writing t"
  shows "step_ok S w t w' t'"
proof -
  note k = rotate_step_ok [OF assms(1-5)]
  have t': "task_ok S w1 t'" and w': "w' = w1 \<or> w' = set_lock None w1" using k(4,5) after by (cases p; auto)+
  have f: "fenced w1 \<le> version w1" using k(1) by (simp add: shared_ok_def fence_ok_def)
  have "same_shared w1 w'" "steady w1 w'" using w' by (auto simp: same_shared_def steady_def set_lock_def)
  note s = this
  have "task_ok S w' t'" by (rule grows_task [OF same_shared_grows [OF s(1)] t' f])
  moreover have "shared_ok S w'" using k(1) same_shared_ok [OF s(1)] by simp
  moreover have "grows w w'" by (rule grows_trans [OF k(2) same_shared_grows [OF s(1)]])
  moreover have "steady w w'" using k(3) s(2) by (simp add: steady_def)
  ultimately show ?thesis using assms(9-11) by (intro steady_step_ok) auto
qed

lemma call_step_uncounted: "call_step S io fresh n g w = (t, w') \<Longrightarrow> \<not> counted t"
  by (cases g) (auto simp: Let_def split: prod.splits bool.splits option.splits)

lemma task_step_ok:
  assumes ok: "shared_ok S w" and t: "task_ok S w t" and fresh: "unused fresh w" and marks: "marks w < 2 ^ 61"
    and quiet: "no_active_mutations (inner w) \<Longrightarrow> fenced w = version w" and codecs: "sound_codecs (st_codecs S)"
    and step: "task_step S io fresh i t w = (t', w')"
  shows "step_ok S w t w' t'"
proof -
  have f: "fenced w \<le> version w" using ok by (simp add: shared_ok_def fence_ok_def)
  have clean: "epoch_since n w" if "reads_safe (inner w)" "n \<le> fenced w" for n
    using ok that by (auto simp: shared_ok_def fence_ok_def reads_safe_def intro: epoch_since_mono)
  show ?thesis
  proof (cases t)
    case (CheckActive n g)
    show ?thesis
      by (rule lock_step_ok [OF ok, of _ i]) (use step t quiet clean f CheckActive in \<open>auto simp: give_up_ok split: if_splits\<close>)
  next
    case (CheckSafe n g)
    show ?thesis
      by (rule lock_step_ok [OF ok, of _ i]) (use step t quiet clean f CheckSafe in \<open>auto simp: give_up_ok split: if_splits\<close>)
  next
    case (RepairActive n g)
    show ?thesis
      by (rule lock_step_ok [OF ok, of _ i]) (use step t quiet clean f RepairActive in \<open>auto simp: give_up_ok split: if_splits\<close>)
  next
    case (RepairSafe n g)
    show ?thesis
      by (rule lock_step_ok [OF ok, of _ i]) (use step t quiet clean f RepairSafe in \<open>auto simp: give_up_ok split: if_splits\<close>)
  next
    case (RepairLock n g)
    show ?thesis
      by (rule lock_step_ok [OF ok, of _ i]) (use step t quiet clean f RepairLock in \<open>auto simp: give_up_ok split: if_splits\<close>)
  next
    case (RepairRecheck n g)
    show ?thesis
      by (rule lock_step_ok [OF ok, of _ i]) (use step t quiet clean f RepairRecheck in \<open>auto simp: give_up_ok split: if_splits\<close>)
  next
    case (RepairRotate r n g)
    obtain p w1 where r: "rotate_step io fresh r w = (p, w1)" by fastforce
    have v: "steady w w1" using rotate_step_ok(3) [OF ok _ fresh marks r] t RepairRotate by simp
    show ?thesis
      by (rule rotation_step_ok [OF ok _ fresh marks r])
        (use t step RepairRotate r v f in \<open>auto simp: steady_def steady_version [OF v] give_up_ok intro: epoch_since_mono give_up_ok(1) split: progress.splits\<close>)
  next
    case (Call n g)
    with call_step_ok [OF ok _ _ fresh codecs, of n io g t' w'] step t show ?thesis
      using call_step_uncounted [of S io fresh n g w t' w'] by (intro steady_step_ok) auto
  next
    case (Origin n q e)
    show ?thesis
      by (rule lock_step_ok [OF ok, of _ i]) (use step t quiet clean f Origin in \<open>auto simp: give_up_ok split: if_splits\<close>)
  next
    case (Rendering n q e k)
    from render_step_ok [OF ok, of n k e io q t' w'] step t Rendering
    have r: "same_shared w w'" "active_mutations (inner w') = active_mutations (inner w)" "detached w' = detached w"
      "task_ok S w' t'" "tasks w' = tasks w \<or>
        (\<exists>g v. tasks w' = tasks w @ [Fill (q_route q) g v] \<and> entry_ok S w g (q_route q) v)" by auto
    have "\<exists>x. t' = Answered n q x"
      using step Rendering by (auto simp: render_step_def split: prod.splits if_splits)
    moreover have "\<exists>new. tasks w' = tasks w @ new \<and> (\<forall>x \<in> set new. task_ok S w' x \<and> \<not> counted x)"
      using r(5) same_shared_facts(3) [OF r(1)] by fastforce
    ultimately show ?thesis
      using r(1-4) ok Rendering same_shared_ok [OF r(1), of S] same_shared_grows [OF r(1)]
      by (auto simp: step_ok_def same_shared_def)
  next
    case (Fill route g v)
    have "t' = Finished" using step Fill by (auto split: prod.splits bool.splits)
    with fill_step_ok [OF ok, of g route v io fresh i t' w'] step t Fill show ?thesis
      by (intro steady_step_ok) auto
  next
    case (Answered n q r)
    show ?thesis
      by (rule lock_step_ok [OF ok, of _ i]) (use step t quiet clean f Answered in \<open>auto simp: give_up_ok split: if_splits\<close>)
  next
    case MutationBegin
    with step ok show ?thesis using same_shared_ok [OF counting_same(1), of S w] same_shared_ok [OF counting_same(2), of S w]
      by (auto simp: step_ok_def grows_def count_mutation_def uncount_mutation_def)
  next
    case MutationMark
    with step fence_keeps [OF ok marks] show ?thesis by (auto simp: step_ok_def fence_def mark_dirty_def version_def)
  next
    case MutationRunning
    with step ok show ?thesis by (auto simp: step_ok_def)
  next
    case GuardMark
    with step fence_keeps [OF ok marks] show ?thesis by (auto simp: step_ok_def fence_def mark_dirty_def version_def)
  next
    case GuardUncount
    with step ok show ?thesis using same_shared_ok [OF counting_same(1), of S w] same_shared_ok [OF counting_same(2), of S w]
      by (auto simp: step_ok_def grows_def count_mutation_def uncount_mutation_def)
  next
    case CompleteActive
    show ?thesis
      by (rule lock_step_ok [OF ok, of _ i]) (use step t quiet clean f CompleteActive in \<open>auto simp: give_up_ok split: if_splits\<close>)
  next
    case CompleteLock
    show ?thesis
      by (rule lock_step_ok [OF ok, of _ i]) (use step t quiet clean f CompleteLock in \<open>auto simp: give_up_ok split: if_splits\<close>)
  next
    case CompleteRecheck
    show ?thesis
      by (rule lock_step_ok [OF ok, of _ i]) (use step t quiet clean f CompleteRecheck in \<open>auto simp: give_up_ok split: if_splits\<close>)
  next
    case (CompleteRotate r)
    obtain p w1 where r: "rotate_step io fresh r w = (p, w1)" by fastforce
    show ?thesis
      by (rule rotation_step_ok [OF ok _ fresh marks r])
        (use t step CompleteRotate r in \<open>auto split: progress.splits\<close>)
  next
    case Finished
    show ?thesis
      by (rule lock_step_ok [OF ok, of _ i]) (use step t quiet clean f Finished in \<open>auto simp: give_up_ok split: if_splits\<close>)
  qed
qed

section \<open>Every reachable world\<close>

definition world_ok :: "'d site \<Rightarrow> 'd world \<Rightarrow> bool" where
  "world_ok S w \<longleftrightarrow> shared_ok S w \<and> (\<forall>t \<in> set (tasks w). task_ok S w t) \<and> detached w = 0
     \<and> active_mutations (inner w) = of_nat (length (filter counted (tasks w)))
     \<and> (fenced w < version w \<longrightarrow> (\<exists>t \<in> set (tasks w). writing t))"

text \<open>The counters have not wrapped around: fewer than \<open>2^61\<close> dirty marks and \<open>2^64\<close> tasks so far.\<close>

definition within_counters :: "'d world \<Rightarrow> bool" where
  "within_counters w \<longleftrightarrow> marks w < 2 ^ 61 \<and> length (tasks w) < 2 ^ 64"

lemma writing_counted: "writing t \<Longrightarrow> counted t"
  by (cases t) simp_all

lemma world_quiet:
  assumes "world_ok S w" and "within_counters w" and "no_active_mutations (inner w)"
  shows "fenced w = version w"
proof -
  let ?n = "length (filter counted (tasks w))"
  have "?n < 2 ^ 64" using assms(2) unfolding within_counters_def by (meson le_less_trans length_filter_le)
  moreover have "(of_nat ?n :: 64 word) = 0" using assms(1,3) by (simp add: world_ok_def no_active_mutations_def)
  then have "(2 :: nat) ^ 64 dvd ?n" by (simp add: word_of_nat_eq_0_iff)
  ultimately have "?n = 0" by (meson nat_dvd_not_less not_gr_zero)
  then have "\<forall>t \<in> set (tasks w). \<not> writing t" by (auto simp: filter_empty_conv dest: writing_counted)
  with assms(1) show ?thesis by (auto simp: world_ok_def shared_ok_def fence_ok_def)
qed

lemma count_update:
  assumes "i < length xs"
  shows "(of_nat (length (filter P (xs[i := t]))) :: 64 word) =
    of_nat (length (filter P xs)) + of_bool (P t) - of_bool (P (xs ! i))"
proof -
  have "filter P xs = filter P (take i xs) @ filter P [xs ! i] @ filter P (drop (Suc i) xs)"
    by (subst id_take_nth_drop [OF assms]) simp
  moreover have "filter P (xs[i := t]) = filter P (take i xs) @ filter P [t] @ filter P (drop (Suc i) xs)"
    by (subst upd_conv_take_nth_drop [OF assms]) simp
  ultimately show ?thesis by simp
qed

lemma same_shared_world:
  assumes "shared_ok S w" and "grows w w'" and "shared_ok S w'" and "\<forall>t \<in> set (tasks w). task_ok S w t"
  shows "\<forall>t \<in> set (tasks w). task_ok S w' t"
  using assms by (auto simp: shared_ok_def fence_ok_def intro: grows_task)

lemma advance_ok:
  assumes "world_ok S w" and "within_counters w" and "unused fresh w" and "sound_codecs (st_codecs S)"
    and "i < length (tasks w)" and "task_step S io fresh i (tasks w ! i) w = (t, w')"
  shows "world_ok S (w'\<lparr>tasks := (tasks w')[i := t]\<rparr>)" (is "world_ok S ?w")
proof -
  have inv: "shared_ok S w" "\<forall>x \<in> set (tasks w). task_ok S w x" "marks w < 2 ^ 61"
    using assms(1,2) by (auto simp: world_ok_def within_counters_def)
  have "step_ok S w (tasks w ! i) w' t"
    using inv assms world_quiet [OF assms(1,2)] by (intro task_step_ok [of S w _ fresh io i]) auto
  then obtain new where k: "shared_ok S w'" "grows w w'" "task_ok S w' t" "canonical w' = canonical w" "detached w' = detached w"
      "tasks w' = tasks w @ new" "\<forall>x \<in> set new. task_ok S w' x \<and> \<not> counted x"
      "active_mutations (inner w') = active_mutations (inner w) + of_bool (counted t) - of_bool (counted (tasks w ! i))"
      "writing (tasks w ! i) \<longrightarrow> writing t \<or> fenced w' = version w'"
    unfolding step_ok_def by blast
  have same: "same_shared w' ?w" by (simp add: same_shared_def)
  have f: "fenced w' \<le> version w'" using k(1) by (simp add: shared_ok_def fence_ok_def)
  have "\<forall>x \<in> set (tasks w'). task_ok S w' x"
    using same_shared_world [OF inv(1) k(2,1) inv(2)] k(6,7) by auto
  then have "\<forall>x \<in> set (tasks ?w). task_ok S w' x" using k(3) set_update_subset_insert by fastforce
  then have tasks: "\<forall>x \<in> set (tasks ?w). task_ok S ?w x"
    using grows_task [OF same_shared_grows [OF same] _ f] by blast
  have "filter counted new = []" using k(7) by (simp add: filter_empty_conv)
  then have active: "active_mutations (inner ?w) = of_nat (length (filter counted (tasks ?w)))"
    using assms(1,5) k(6,8) count_update [OF assms(5), of counted t] by (simp add: world_ok_def list_update_append)
  have "\<exists>x \<in> set (tasks ?w). writing x" if "fenced w' < version w'"
  proof -
    have "fenced w < version w" using that k(2,4) by (auto simp: grows_def version_def)
    then obtain j where j: "j < length (tasks w)" "writing (tasks w ! j)"
      using assms(1) by (auto simp: world_ok_def in_set_conv_nth)
    have "j < length (tasks ?w)" "writing (tasks ?w ! j)"
      using j k(6,9) that assms(5) by (auto simp: nth_list_update nth_append)
    then show ?thesis by (meson nth_mem)
  qed
  then have "fenced ?w < version ?w \<longrightarrow> (\<exists>x \<in> set (tasks ?w). writing x)" by (simp add: version_def)
  with tasks active k(1,5) assms(1) same_shared_ok [OF same, of S] show ?thesis by (simp add: world_ok_def)
qed

lemma issue_ok:
  assumes "world_ok S w" and "fresh_generation fresh w"
  shows "world_ok S (w\<lparr>issued := fresh # issued w\<rparr>)" (is "world_ok S ?w") and "unused fresh (w\<lparr>issued := fresh # issued w\<rparr>)"
proof -
  have e: "epoch_since n ?w = epoch_since n w" "entry_ok S ?w = entry_ok S w" "version ?w = version w" "pending ?w = pending w" for n
    by (simp_all add: epoch_since_def entry_ok_def renders_def version_def pending_def fun_eq_iff)
  have "58 \<notin> set fresh" using assms(2) by (auto simp: fresh_generation_def list_all_iff is_ascii_digit_def)
  then have "shared_ok S ?w"
    using assms(1) by (auto simp: world_ok_def shared_ok_def generations_ok_def entries_ok_def fence_ok_def e)
  moreover have "grows w ?w" by (simp add: grows_def)
  ultimately show "world_ok S ?w"
    using assms(1) same_shared_world [of S w ?w] by (simp add: world_ok_def e)
  show "unused fresh ?w"
    using assms by (auto simp: unused_def e world_ok_def shared_ok_def generations_ok_def fresh_generation_def)
qed

lemma keep_tasks_world:
  assumes "world_ok S w" and "shared_ok S w'" and "grows w w'" and "tasks w' = tasks w" and "detached w' = detached w"
    and "active_mutations (inner w') = active_mutations (inner w)"
    and "fenced w' < version w' \<longrightarrow> fenced w < version w \<or> (\<exists>t \<in> set (tasks w). writing t)"
  shows "world_ok S w'"
  using assms same_shared_world [of S w w'] by (auto simp: world_ok_def)

lemma commit_ok:
  assumes "world_ok S w" and "MutationRunning \<in> set (tasks w)"
  shows "world_ok S (w\<lparr>canonical := canonical w @ [d]\<rparr>)" (is "world_ok S ?w")
proof (rule keep_tasks_world [OF assms(1)])
  show g: "grows w ?w" by (simp add: grows_def)
  have ok: "shared_ok S w" using assms(1) by (simp add: world_ok_def)
  have e: "epoch_since n ?w = epoch_since n w" "pending ?w = pending w" for n
    by (simp_all add: epoch_since_def pending_def)
  have v: "version w \<le> version ?w" by (rule grows_version [OF g])
  have "entries_ok S ?w" using ok grows_entry [OF g, of S] by (auto simp: shared_ok_def entries_ok_def)
  moreover have "\<forall>g n. installed w g = Some n \<longrightarrow> n \<le> version ?w"
    using ok v unfolding shared_ok_def generations_ok_def by (meson le_trans)
  then have "generations_ok ?w" using ok by (simp add: shared_ok_def generations_ok_def e)
  moreover have "fence_ok ?w" using ok le_trans [OF _ v] by (simp add: shared_ok_def fence_ok_def e)
  ultimately show "shared_ok S ?w" by (simp add: shared_ok_def)
  have "\<exists>t \<in> set (tasks w). writing t" using assms(2) by (rule rev_bexI) simp
  then show "fenced ?w < version ?w \<longrightarrow> fenced w < version w \<or> (\<exists>t \<in> set (tasks w). writing t)" by simp
qed simp_all

lemma cancel_ok:
  assumes "world_ok S w" and "i < length (tasks w)" and "cancellable (tasks w ! i)"
  shows "world_ok S ((if b then set_lock None w else w)\<lparr>tasks := (tasks w)[i := Finished]\<rparr>)" (is "world_ok S ?w")
proof -
  have same: "same_shared w ?w" by (simp add: same_shared_def set_lock_def)
  have c: "\<not> counted (tasks w ! i)" using assms(3) by (cases "tasks w ! i") simp_all
  have ok: "shared_ok S w" "\<forall>t \<in> set (tasks w). task_ok S w t" using assms(1) by (simp_all add: world_ok_def)
  have "\<forall>t \<in> set (tasks ?w). task_ok S w t" using ok(2) set_update_subset_insert by fastforce
  then have "\<forall>t \<in> set (tasks ?w). task_ok S ?w t"
    using ok(1) grows_task [OF same_shared_grows [OF same], of S] by (auto simp: shared_ok_def fence_ok_def)
  moreover have "\<exists>x \<in> set (tasks ?w). writing x" if "\<exists>x \<in> set (tasks w). writing x"
  proof -
    from that obtain j where j: "j < length (tasks w)" "writing (tasks w ! j)" by (auto simp: in_set_conv_nth)
    with c have "i \<noteq> j" by (auto dest: writing_counted)
    with j have "j < length (tasks ?w)" "writing (tasks ?w ! j)" by auto
    then show ?thesis by (meson nth_mem)
  qed
  moreover have "detached ?w = detached w" "active_mutations (inner ?w) = active_mutations (inner w)"
    "version ?w = version w" "fenced ?w = fenced w"
    by (simp_all add: set_lock_def version_def)
  moreover have "(of_nat (length (filter counted (tasks ?w))) :: 64 word) = of_nat (length (filter counted (tasks w)))"
    using count_update [OF assms(2), of counted Finished] c by simp
  ultimately show ?thesis
    using assms(1) ok(1) same_shared_ok [OF same, of S] by (simp add: world_ok_def)
qed

lemma late_delivery_ok:
  assumes "world_ok S w" and "k < length (delayed w)"
  shows "world_ok S (deliver (delayed w ! k) (w\<lparr>delayed := take k (delayed w) @ drop (k + 1) (delayed w)\<rparr>))"
proof -
  define cmd where "cmd = delayed w ! k"
  define rest where "rest = take k (delayed w) @ drop (k + 1) (delayed w)"
  define x where "x = w\<lparr>delayed := rest\<rparr>"
  have split: "delayed w = take k (delayed w) @ cmd # drop (k + 1) (delayed w)"
    using id_take_nth_drop [OF assms(2)] by (simp add: cmd_def)
  have "concat (map generations_of (delayed w)) =
      concat (map generations_of (take k (delayed w))) @ generations_of cmd @ concat (map generations_of (drop (k + 1) (delayed w)))"
    by (subst split) simp
  then have p: "set (pending w) = set (pending x) \<union> set (generations_of cmd)"
      "distinct (pending w) \<longleftrightarrow> distinct (pending x) \<and> distinct (generations_of cmd) \<and> set (pending x) \<inter> set (generations_of cmd) = {}"
    by (auto simp: pending_def x_def rest_def)
  have f: "delayed x = rest" "redis_db x = redis_db w" "canonical x = canonical w" "issued x = issued w"
      "installed x = installed w" "marks x = marks w" "fenced x = fenced w" "inner x = inner w" by (simp_all add: x_def)
  have e: "epoch_since n x = epoch_since n w" "entry_ok S x = entry_ok S w" "version x = version w" for n
    by (simp_all add: f epoch_since_def entry_ok_def renders_def version_def fun_eq_iff)
  have ok: "shared_ok S w" using assms(1) by (simp add: world_ok_def)
  have sub: "set rest \<subseteq> set (delayed w)" "cmd \<in> set (delayed w)"
    using assms(2) set_take_subset [of k "delayed w"] set_drop_subset [of "k + 1" "delayed w"]
    by (auto simp: rest_def cmd_def)
  have "generations_ok x" using ok unfolding shared_ok_def generations_ok_def e f p by auto
  moreover have "entries_ok S x" using ok sub by (auto simp: shared_ok_def entries_ok_def e f)
  ultimately have w: "shared_ok S x" using ok by (simp add: shared_ok_def fence_ok_def e f)
  have cmd: "command_ok S x cmd"
    using ok p sub(2) unfolding command_ok_def e f shared_ok_def generations_ok_def entries_ok_def by auto
  have "grows w x" by (simp add: grows_def f)
  then have "grows w (deliver cmd x)" by (rule grows_trans [OF _ deliver_ok(2) [OF w cmd]])
  with deliver_ok(1) [OF w cmd] have "world_ok S (deliver cmd x)"
    by (rule keep_tasks_world [OF assms(1)]) (simp_all add: deliver_def Let_def version_def x_def)
  then show ?thesis by (simp add: x_def rest_def cmd_def)
qed

lemma evict_ok:
  assumes "world_ok S w"
  shows "world_ok S (w\<lparr>redis_db := (redis_db w)(key := None)\<rparr>)" (is "world_ok S ?w")
proof (rule keep_tasks_world [OF assms])
  have ok: "shared_ok S w" using assms by (simp add: world_ok_def)
  have e: "epoch_since n w \<Longrightarrow> epoch_since n ?w" "entry_ok S ?w = entry_ok S w" "version ?w = version w" "pending ?w = pending w" for n
    by (simp_all add: epoch_since_def entry_ok_def renders_def version_def pending_def fun_eq_iff)
  show "shared_ok S ?w"
    using ok by (auto simp: shared_ok_def generations_ok_def entries_ok_def fence_ok_def e)
  show "grows w ?w" by (simp add: grows_def)
qed (simp_all add: version_def)

lemma restart_ok:
  assumes "world_ok S w"
  shows "world_ok S (cache_event S' Restart w)"
proof -
  define x where "x = cache_event S' Restart w"
  have f: "redis_db x = redis_db w" "delayed x = delayed w" "canonical x = canonical w" "issued x = issued w"
      "installed x = installed w" "marks x = marks w" "fenced x = version w" "settings (inner x) = settings (inner w)"
      "coherence (inner x) = 1" "active_mutations (inner x) = 0" "detached x = 0"
      "tasks x = map (\<lambda>t. if survives_restart t then t else Finished) (tasks w)"
    by (simp_all add: x_def new_inner_def)
  have e: "epoch_since n x = epoch_since n w" "entry_ok S x = entry_ok S w" "answer_ok S x = answer_ok S w"
      "version x = version w" "pending x = pending w" for n
    by (simp_all add: f epoch_since_def entry_ok_def answer_ok_def renders_def version_def pending_def fun_eq_iff)
  have "dirty 1" by (simp add: dirty_def)
  with assms have "shared_ok S x"
    by (simp add: world_ok_def shared_ok_def generations_ok_def entries_ok_def fence_ok_def e f)
  moreover have "task_ok S x t" if "t \<in> set (tasks x)" for t
  proof -
    from that consider "t = Finished" | "survives_restart t" "t \<in> set (tasks w)" by (auto simp: f split: if_splits)
    then show ?thesis using assms by cases (auto simp: world_ok_def e elim!: survives_restart.elims(2))
  qed
  moreover have "filter counted (tasks x) = []"
    by (auto simp: f filter_empty_conv elim!: survives_restart.elims(2))
  ultimately show ?thesis unfolding x_def [symmetric] by (simp add: world_ok_def e f)
qed

lemma spawn_ok:
  assumes "world_ok S w" and "task_ok S w t" and "\<not> counted t"
  shows "world_ok S (w\<lparr>tasks := tasks w @ [t]\<rparr>)" (is "world_ok S ?w")
proof -
  have same: "same_shared w ?w" by (simp add: same_shared_def)
  have ok: "shared_ok S w" "\<forall>x \<in> set (tasks w @ [t]). task_ok S w x" using assms by (simp_all add: world_ok_def)
  then have "\<forall>x \<in> set (tasks ?w). task_ok S ?w x"
    using grows_task [OF same_shared_grows [OF same], of S] by (auto simp: shared_ok_def fence_ok_def)
  with assms(1,3) same_shared_ok [OF same, of S] show ?thesis
    by (simp add: world_ok_def version_def)
qed

lemma redis_call_frame: "redis_call io cmd w = (ok, w') \<Longrightarrow> marks w' = marks w \<and> tasks w' = tasks w"
  by (auto simp: redis_call_def deliver_def Let_def split: prod.splits sum.splits if_splits)

lemma rotate_step_frame: "rotate_step io fresh r w = (p, w') \<Longrightarrow> marks w' = marks w \<and> tasks w' = tasks w"
  by (cases r) (auto simp: succeeded_def Let_def split: prod.splits bool.splits dest: redis_call_frame)

lemma task_step_counters:
  assumes "task_step S io fresh i t w = (t', w')"
  shows "marks w \<le> marks w' \<and> length (tasks w) \<le> length (tasks w')"
proof (cases t)
  case (Call n g)
  with assms show ?thesis
    by (cases g) (auto simp: succeeded_def Let_def split: prod.splits bool.splits option.splits dest: redis_call_frame)
next
  case (Rendering n q e k)
  with assms show ?thesis by (auto simp: render_step_def split: prod.splits if_splits option.splits)
qed (use assms in \<open>auto simp: set_lock_def count_mutation_def uncount_mutation_def fence_def succeeded_def
  split: prod.splits bool.splits progress.splits if_splits dest!: redis_call_frame rotate_step_frame\<close>)

lemma event_counters: "within_counters (cache_event S ev w) \<Longrightarrow> within_counters w"
proof (cases ev)
  case (Advance i io fresh)
  assume "within_counters (cache_event S ev w)"
  with Advance show ?thesis
    using task_step_counters [of S io fresh i "tasks w ! i" "w\<lparr>issued := fresh # issued w\<rparr>"]
    by (fastforce simp: within_counters_def split: if_splits prod.splits)
qed (auto simp: within_counters_def set_lock_def deliver_def Let_def split: if_splits)

lemma event_ok:
  assumes "world_ok S w" and "within_counters w" and "possible ev w" and "\<not> abandons ev w"
    and "sound_codecs (st_codecs S)"
  shows "world_ok S (cache_event S ev w)"
proof (cases ev)
  case (Advance i io fresh)
  let ?w = "w\<lparr>issued := fresh # issued w\<rparr>"
  have "within_counters ?w" using assms(2) by (simp add: within_counters_def)
  with Advance show ?thesis
    using assms issue_ok [of S w fresh] advance_ok [of S ?w fresh i io] by (auto split: prod.split)
next
  case (Commit i d)
  with assms(1) show ?thesis by (auto intro!: commit_ok dest: nth_mem)
next
  case (Cancel i)
  with assms(1,4) show ?thesis using cancel_ok [of S w i "generation_change (inner w) = Some i"] by simp
next
  case Restart
  with assms(1) show ?thesis using restart_ok by blast
next
  case (Orphan d)
  with assms(1) show ?thesis by (simp add: world_ok_def)
next
  case (Arrive g)
  with assms(1) show ?thesis by (simp add: spawn_ok)
next
  case Mutate
  with assms(1) show ?thesis by (simp add: spawn_ok)
qed (use assms(1) late_delivery_ok evict_ok in \<open>auto\<close>)

lemma reachable_world_ok:
  assumes "cache_reachable S False w" and "within_counters w" and "sound_codecs (st_codecs S)"
  shows "world_ok S w"
  using assms(1,2)
proof induction
  case (cache_start c d)
  have "dirty 1" by (simp add: dirty_def)
  then show ?case
    by (simp add: world_ok_def shared_ok_def generations_ok_def entries_ok_def fence_ok_def initial_world_def
        new_inner_def pending_def version_def epoch_since_def)
next
  case (cache_next w ev)
  then show ?case using event_counters event_ok assms(3) by blast
qed

end
