(* ===== verification/Cache_Properties.thy ===== *)
theory Cache_Properties
  imports Cache_Coherence
begin

text \<open>
  Properties of the semantic cache: answers are never stale as long as no request is cancelled
  under its repository worker, what happens when one is, and that a lookup ends whatever Redis
  does. The examples run whole schedules of events on a small site.
\<close>

section \<open>Schedules\<close>

fun run_events :: "'d site \<Rightarrow> bool \<Rightarrow> 'd event list \<Rightarrow> 'd world \<Rightarrow> 'd world option" where
  "run_events S orphans [] w = Some w"
| "run_events S orphans (ev # later) w =
     (if possible ev w \<and> (orphans \<or> \<not> abandons ev w) then run_events S orphans later (cache_event S ev w) else None)"

lemma run_events_reachable:
  "run_events S orphans evs w = Some w' \<Longrightarrow> cache_reachable S orphans w \<Longrightarrow> cache_reachable S orphans w'"
  by (induction evs arbitrary: w) (auto split: if_splits intro: cache_next)

section \<open>An example site\<close>

text \<open>Encoders that keep the laws: length-prefixed blocks for the JSON text, a marked copy for Base64.\<close>

definition block :: "rstr \<Rightarrow> rstr" where
  "block s = length s # s"

function unblock :: "rstr \<Rightarrow> rstr list" where
  "unblock [] = []"
| "unblock (n # r) = take n r # unblock (drop n r)"
  by pat_completeness auto
termination by (relation "measure length") auto

lemma unblock_blocks: "unblock (concat (map block xs)) = xs"
  by (induction xs) (simp_all add: block_def)

fun pairs :: "'a list \<Rightarrow> ('a \<times> 'a) list" where
  "pairs (a # b # r) = (a, b) # pairs r"
| "pairs _ = []"

lemma pairs_concat: "pairs (concat (map (\<lambda>(k, v). [k, v]) kvs)) = kvs"
  by (induction kvs) auto

definition example_print :: "json \<Rightarrow> rstr" where
  "example_print j = (case cached_from_json j of None \<Rightarrow> [0]
     | Some c \<Rightarrow> concat (map block (cr_schema_version c # cr_body_base64 c # cr_signature c #
         concat (map (\<lambda>(k, v). [k, v]) (entries (cr_headers c))))))"

definition example_parse :: "rstr \<Rightarrow> json option" where
  "example_parse t = (case unblock t of
      schema # body # signature # headers \<Rightarrow> Some (cached_to_json
        \<lparr>cr_schema_version = schema, cr_headers = btree_collect (pairs headers), cr_body_base64 = body, cr_signature = signature\<rparr>)
    | _ \<Rightarrow> None)"

definition example_codecs :: codecs where
  "example_codecs = \<lparr>sha256 = id, base64_encode = (\<lambda>b. 61 # map unat b), base64_decode = (\<lambda>t. Some (map of_nat (tl t))),
     json_print = example_print, json_parse = example_parse, header_value_ok = (\<lambda>_. True)\<rparr>"

lemma example_codecs_sound: "sound_codecs example_codecs"
proof -
  have "example_parse (example_print (cached_to_json c)) = Some (cached_to_json c)" for c
    unfolding example_print_def example_parse_def cached_codec option.case unblock_blocks
    by (simp add: pairs_concat cached_to_json_def)
  moreover have "map (of_nat \<circ> unat) b = b" for b :: "byte list" by (induction b) simp_all
  ultimately show ?thesis by (simp add: sound_codecs_def example_codecs_def)
qed

definition example_settings :: RedisSettings where
  "example_settings = \<lparr>rs_topology = Standalone,
     rs_url = \<lparr>url_text = [], url_scheme = [], url_host_str = None, url_username = [], url_password = None, url_path = [],
       url_query = None, url_fragment = None\<rparr>,
     rs_sentinel_urls = [], rs_sentinel_master = [], rs_namespace = lit ''b'', rs_content_release = lit ''1'',
     rs_required = False, rs_response_ttl_seconds = 60, rs_connect_timeout_ms = 100\<rparr>"

definition example_site :: "byte list site" where
  "example_site = \<lparr>st_codecs = example_codecs, st_signing_key = [],
     st_origin = (\<lambda>ds route. (\<lparr>rp_status = 200, rp_headers = [], rp_body = last ds\<rparr>, True))\<rparr>"

definition example_io :: io where
  "example_io = \<lparr>io_now = 0, io_unix = 0, io_attempt = Opened, io_reply = True, io_slot = True\<rparr>"

definition example_generation :: "nat \<Rightarrow> rstr" where
  "example_generation k = replicate 30 48 @ [48 + k div 10, 48 + k mod 10]"

definition advances :: "nat \<Rightarrow> nat \<Rightarrow> nat \<Rightarrow> byte list event list" where
  "advances i from count = map (\<lambda>k. Advance i example_io (example_generation (from + k))) [0 ..< count]"

definition example_visit :: request where
  "example_visit = \<lparr>q_route = lit ''/'', q_if_none_match = None\<rparr>"

text \<open>
  A client disconnects while its publication runs; the next visitor repairs the generation and
  fills the cache with the old page; then the worker commits, and another visitor arrives.
\<close>

definition disconnect_schedule :: "byte list event list" where
  "disconnect_schedule = [Mutate] @ advances 0 0 2 @ [Cancel 0] @ advances 0 2 2 @ [Cancel 0]
     @ [Arrive (LookupGoal example_visit)] @ advances 1 4 13 @ advances 2 17 1
     @ [Orphan [2]] @ [Arrive (LookupGoal example_visit)] @ advances 3 18 3"

definition disconnect_world :: "byte list world option" where
  "disconnect_world = run_events example_site True disconnect_schedule (initial_world example_settings [1])"

lemma disconnect_outcome:
  "(case disconnect_world of None \<Rightarrow> False
    | Some w \<Rightarrow> tasks w ! 3 = Answered 1 example_visit \<lparr>rp_status = 200, rp_headers = [], rp_body = [1]\<rparr>
        \<and> 3 < length (tasks w) \<and> canonical w = [[1], [2]])"
  by code_simp

text \<open>The same visitors, with a publication that is not disturbed and a cached page in between.\<close>

definition quiet_schedule :: "byte list event list" where
  "quiet_schedule = [Arrive (LookupGoal example_visit)] @ advances 0 0 13 @ advances 1 13 1
     @ [Arrive (LookupGoal example_visit)] @ advances 2 14 3"

definition quiet_world :: "byte list world option" where
  "quiet_world = run_events example_site False quiet_schedule (initial_world example_settings [1])"

lemma quiet_outcome:
  "(case quiet_world of None \<Rightarrow> False
    | Some w \<Rightarrow> tasks w ! 2 = Answered 0 example_visit \<lparr>rp_status = 200, rp_headers = [], rp_body = [1]\<rparr>
        \<and> length (tasks w) = 3 \<and> marks w = 0 \<and> hits (inner w) = 1)"
  by code_simp

section \<open>Coherence\<close>

text \<open>
  (C14) No answer of the response cache is older than its request: in every interleaving of
  requests, fills, mutations, lost and late Redis commands, evictions and restarts in which no
  request is cancelled under its repository worker, the answer to a request, from the cache or
  from the origin, is the origin's rendering of database states that were current after the
  request arrived. The counters must not have wrapped around, and JSON and Base64 read back what
  they wrote.
\<close>

theorem answers_are_never_stale:
  assumes "cache_reachable S False w" and "within_counters w" and "sound_codecs (st_codecs S)"
    and "Answered n q r \<in> set (tasks w)"
  shows "\<exists>k l r'. n \<le> k \<and> k \<le> l \<and> l < length (canonical w)
     \<and> r' = fst (st_origin S (states_between (canonical w) k l) (q_route q))
     \<and> (r = r' \<or> rp_status r' = 200 \<and> r = restored (q_if_none_match q) r'
        \<or> length (rp_body r') > MAX_PUBLIC_RESPONSE_BYTES \<and> r = internal_error)"
proof -
  have "answer_ok S w n q r"
    using reachable_world_ok [OF assms(1-3)] assms(4) by (force simp: world_ok_def)
  then show ?thesis unfolding answer_ok_def renders_def by blast
qed

theorem answers_are_never_stale_witness:
  "case quiet_world of None \<Rightarrow> False
   | Some w \<Rightarrow> (\<exists>k l. k \<le> l \<and> l < length (canonical w)
       \<and> rp_body (fst (st_origin example_site (states_between (canonical w) k l) (lit ''/''))) = [1])"
proof -
  obtain w where w0: "quiet_world = Some w" using quiet_outcome by (cases quiet_world) simp_all
  have w: "tasks w ! 2 = Answered 0 example_visit \<lparr>rp_status = 200, rp_headers = [], rp_body = [1]\<rparr>"
      "length (tasks w) = 3" "marks w = 0"
    using quiet_outcome unfolding w0 option.case by blast+
  have "cache_reachable example_site False w"
    using w0 cache_start unfolding quiet_world_def by (rule run_events_reachable)
  moreover have "within_counters w" using w by (simp add: within_counters_def)
  moreover have "sound_codecs (st_codecs example_site)" by (simp add: example_site_def example_codecs_sound)
  moreover have "Answered 0 example_visit \<lparr>rp_status = 200, rp_headers = [], rp_body = [1]\<rparr> \<in> set (tasks w)"
    using w(1,2) nth_mem [of 2 "tasks w"] by simp
  ultimately obtain k l r' where r: "k \<le> l" "l < length (canonical w)"
      "r' = fst (st_origin example_site (states_between (canonical w) k l) (q_route example_visit))"
      "\<lparr>rp_status = 200, rp_headers = [], rp_body = [1]\<rparr> = r'
       \<or> rp_status r' = 200 \<and> \<lparr>rp_status = 200, rp_headers = [], rp_body = [1]\<rparr> = restored (q_if_none_match example_visit) r'
       \<or> length (rp_body r') > MAX_PUBLIC_RESPONSE_BYTES \<and> \<lparr>rp_status = 200, rp_headers = [], rp_body = [1]\<rparr> = internal_error"
    using answers_are_never_stale [of example_site w 0 example_visit] by blast
  have "rp_body r' = [1]"
    using r(4) by - (elim disjE conjE; drule arg_cong [where f = rp_body]; auto simp: restored_def internal_error_def split: if_splits)
  moreover have "q_route example_visit = lit ''/''" by (simp add: example_visit_def)
  ultimately have "k \<le> l \<and> l < length (canonical w)
      \<and> rp_body (fst (st_origin example_site (states_between (canonical w) k l) (lit ''/''))) = [1]" using r(1-3) by simp
  then show ?thesis unfolding w0 option.case by (intro exI [of _ k] exI [of _ l])
qed


section \<open>Entries\<close>

text \<open>
  (C39) A cached response is served again: the entry the middleware stores for a successful response
  within the size limits passes verification for the same route and generation and restores the
  response with its allowed headers, or answers 304 without a body where the client holds it.
\<close>

theorem cached_response_round_trip:
  assumes "sound_codecs W" and "rp_status r = 200" and "length (rp_body r) \<le> MAX_PUBLIC_RESPONSE_BYTES"
    and "byte_len (base64_encode W (rp_body r)) = (length (rp_body r) + 2) div 3 * 4"
    and "\<forall>name \<in> set CACHED_HEADERS. \<forall>v. header_of r name = Some v \<longrightarrow> header_value_ok W v"
    and "byte_len (cache_entry W key route g r) \<le> MAX_CACHED_ENTRY_BYTES"
  shows "verified_hit W key inm route \<lparr>cl_epoch = g, cl_value = Some (cache_entry W key route g r)\<rparr> =
     Some (restored inm r)"
proof -
  let ?c = "\<lparr>cr_schema_version = HTTP_CACHE_SCHEMA, cr_headers = cached_headers r,
    cr_body_base64 = base64_encode W (rp_body r), cr_signature = []\<rparr>"
  let ?s = "?c\<lparr>cr_signature := sign_cached_response W ?c key route g\<rparr>"
  have entry: "cache_entry W key route g r = json_print W (cached_to_json ?s)"
    by (simp add: cache_entry_def Let_def)
  have headers: "restore_headers W (cached_headers r) CACHED_HEADERS = Some (restored_headers r)"
    using assms(5) by (simp add: restore_headers_map restored_headers_def)
  have small: "byte_len (base64_encode W (rp_body r)) \<le> (MAX_PUBLIC_RESPONSE_BYTES + 2) div 3 * 4"
    using assms(3,4) by (simp add: div_le_mono)
  have etag: "btree_get (cached_headers r) (lit ''etag'') = header_of r (lit ''etag'')"
    by (simp add: cached_headers_get CACHED_HEADERS_def)
  have "cached_response W ?s inm key route g = Some (restored inm r)"
    using verify_own_signature [OF assms(1), of ?c key route g] headers small assms(1,3)
    by (simp add: cached_response_def Let_def etag restored_def sound_codecs_def split: option.split)
  moreover have "json_parse W (json_print W (cached_to_json ?s)) = Some (cached_to_json ?s)"
    using assms(1) unfolding sound_codecs_def by blast
  ultimately show ?thesis using assms(6) by (simp add: verified_hit_def entry)
qed

definition example_page :: Response where
  "example_page = \<lparr>rp_status = 200, rp_headers = [(lit ''etag'', lit ''x''), (lit ''set-cookie'', lit ''y'')], rp_body = [1, 2, 3]\<rparr>"

theorem cached_response_round_trip_witness:
  "verified_hit example_codecs [7] (Some (lit ''x'')) (lit ''r'')
     \<lparr>cl_epoch = lit ''g'', cl_value = Some (cache_entry example_codecs [7] (lit ''r'') (lit ''g'') example_page)\<rparr> =
     Some (restored (Some (lit ''x'')) example_page)"
proof (rule cached_response_round_trip)
  show "sound_codecs example_codecs" by (rule example_codecs_sound)
  show "byte_len (cache_entry example_codecs [7] (lit ''r'') (lit ''g'') example_page) \<le> MAX_CACHED_ENTRY_BYTES" by code_simp
  show "byte_len (base64_encode example_codecs (rp_body example_page)) = (length (rp_body example_page) + 2) div 3 * 4" by code_simp
  show "length (rp_body example_page) \<le> MAX_PUBLIC_RESPONSE_BYTES" by code_simp
qed (simp_all add: example_page_def example_codecs_def)

section \<open>Lookups end\<close>

fun lookup_rank :: "task \<Rightarrow> nat" where
  "lookup_rank (CheckActive _ _) = 13"
| "lookup_rank (CheckSafe _ _) = 12"
| "lookup_rank (RepairActive _ _) = 11"
| "lookup_rank (RepairSafe _ _) = 10"
| "lookup_rank (RepairLock _ _) = 9"
| "lookup_rank (RepairRecheck _ _) = 8"
| "lookup_rank (RepairRotate RotateGuard _ _) = 7"
| "lookup_rank (RepairRotate RotateTicket _ _) = 6"
| "lookup_rank (RepairRotate (RotateSet _) _ _) = 5"
| "lookup_rank (RepairRotate (RotatePublish _) _ _) = 4"
| "lookup_rank (Call _ _) = 3"
| "lookup_rank (Origin _ _ _) = 2"
| "lookup_rank (Rendering _ _ _ _) = 1"
| "lookup_rank _ = 0"

fun in_lookup :: "nat \<Rightarrow> request \<Rightarrow> task \<Rightarrow> bool" where
  "in_lookup n q (CheckActive n' g) = (n' = n \<and> g = LookupGoal q)"
| "in_lookup n q (CheckSafe n' g) = (n' = n \<and> g = LookupGoal q)"
| "in_lookup n q (RepairActive n' g) = (n' = n \<and> g = LookupGoal q)"
| "in_lookup n q (RepairSafe n' g) = (n' = n \<and> g = LookupGoal q)"
| "in_lookup n q (RepairLock n' g) = (n' = n \<and> g = LookupGoal q)"
| "in_lookup n q (RepairRecheck n' g) = (n' = n \<and> g = LookupGoal q)"
| "in_lookup n q (RepairRotate r n' g) = (n' = n \<and> g = LookupGoal q)"
| "in_lookup n q (Call n' g) = (n' = n \<and> g = LookupGoal q)"
| "in_lookup n q (Origin n' q' e) = (n' = n \<and> q' = q)"
| "in_lookup n q (Rendering n' q' e k) = (n' = n \<and> q' = q)"
| "in_lookup n q (Answered n' q' r) = (n' = n \<and> q' = q)"
| "in_lookup n q _ = False"

text \<open>Nobody else holds the mutex or marks the word while the lookup runs.\<close>

fun undisturbed :: "'d world \<Rightarrow> task \<Rightarrow> bool" where
  "undisturbed w (RepairRotate (RotateSet t) _ _) = (coherence (inner w) = t)"
| "undisturbed w (RepairRotate (RotatePublish t) _ _) = (coherence (inner w) = t)"
| "undisturbed w t = (9 \<le> lookup_rank t \<longrightarrow> lock_free w)"

lemma redis_call_coherence: "redis_call io cmd w = (ok, w') \<Longrightarrow> coherence (inner w') = coherence (inner w)"
  by (auto simp: redis_call_def deliver_def Let_def split: prod.splits sum.splits if_splits dest: manager_frame(2))

lemma lookup_step:
  assumes "in_lookup n q t" and "undisturbed w t" and "task_step S io fresh i t w = (t', w')"
  shows "in_lookup n q t' \<and> undisturbed w' t' \<and> (lookup_rank t' < lookup_rank t \<or> t' = t \<and> lookup_rank t = 0)"
proof (cases t)
  case (RepairRotate r m g)
  show ?thesis
  proof (cases r)
    case (RotateSet k)
    obtain ok w1 where c: "redis_call io (SetEpoch fresh) w = (ok, w1)" by fastforce
    with assms RepairRotate RotateSet redis_call_coherence [OF c] show ?thesis by (cases ok) auto
  qed (use assms RepairRotate in \<open>auto simp: Let_def publish_generation_def publish_coherence_generation_def
    split: if_splits\<close>)
next
  case (Call m g)
  obtain ok w1 where c: "redis_call io (LookupEpoch fresh (q_route q)) w = (ok, w1)" by fastforce
  with assms Call show ?thesis by (cases ok) (auto simp: Let_def split: option.splits)
next
  case (Rendering m p e k)
  with assms show ?thesis by (auto simp: render_step_def split: prod.splits if_splits)
qed (use assms in \<open>auto simp: set_lock_def lock_free_def split: if_splits\<close>)

lemma lookup_run:
  assumes "i < length (tasks w)" and "in_lookup n q (tasks w ! i)" and "undisturbed w (tasks w ! i)"
    and "lookup_rank (tasks w ! i) \<le> length steps"
  shows "\<exists>r. tasks (fold (\<lambda>(io, fresh). cache_event S (Advance i io fresh)) steps w) ! i = Answered n q r"
  using assms
proof (induction steps arbitrary: w)
  case Nil
  then show ?case by (cases "tasks w ! i") (auto elim: lookup_rank.elims)
next
  case (Cons step steps)
  obtain io fresh where st: "step = (io, fresh)" by fastforce
  obtain t w1 where s: "task_step S io fresh i (tasks w ! i) (w\<lparr>issued := fresh # issued w\<rparr>) = (t, w1)" by fastforce
  have u: "undisturbed (w\<lparr>issued := fresh # issued w\<rparr>) (tasks w ! i)"
    using Cons.prems(3) by (cases "(w, tasks w ! i)" rule: undisturbed.cases) (auto simp: lock_free_def)
  note l = lookup_step [OF Cons.prems(2) u s]
  let ?w = "w1\<lparr>tasks := (tasks w1)[i := t]\<rparr>"
  have len: "i < length (tasks w1)"
    using task_step_counters [OF s] Cons.prems(1) by simp
  have "undisturbed ?w t"
    using l by (cases "(w1, t)" rule: undisturbed.cases) (auto simp: lock_free_def)
  moreover have "lookup_rank t \<le> length steps" using l Cons.prems(4) by auto
  ultimately have "\<exists>r. tasks (fold (\<lambda>(io, fresh). cache_event S (Advance i io fresh)) steps ?w) ! i = Answered n q r"
    using len l by (intro Cons.IH) auto
  moreover have "cache_event S (Advance i io fresh) w = ?w" using Cons.prems(1) s by simp
  ultimately show ?case by (simp only: st fold_simps prod.case)
qed


definition lost_io :: io where
  "lost_io = \<lparr>io_now = 0, io_unix = 0, io_attempt = OpenFailed, io_reply = False, io_slot = True\<rparr>"


end
