(* ===== verification/Request.thy ===== *)
theory Request
  imports Store_Authority Store_Reads Moderation Admission
begin

text \<open>
  What the HTTP handlers of \<open>apps/server/src/community.rs\<close> and \<open>apps/server/src/main.rs\<close> share:
  the application state, request headers, errors, validators, the worker tasks that call the
  repository, and the resolution of sessions. A handler is a function on a server state; other
  requests may call the repository before each of its own calls.
\<close>

section \<open>Third-party functions and configuration\<close>

text \<open>
  SHA-256, unpadded URL-safe Base64, the texts of UUIDs (\<open>Uuid::to_string\<close>, \<open>Uuid::parse_str\<close> and
  the path extractor), Argon2, the Markdown renderer, and the absolute URL of a public route. \<open>pf_dummy_phc\<close> is the hash the process
  computes once for unknown accounts.
\<close>

datatype ViewMode = IntentView | MarkdownView | MarkdownSourceView

record PublishArtifact =
  artifact_view :: ViewMode
  artifact_html :: rstr
  artifact_source_hash :: rstr
  artifact_hash :: rstr
  artifact_renderer_version :: rstr
  artifact_sanitizer_policy_version :: rstr
  artifact_required_style_assets :: "rstr list"
  artifact_required_script_assets :: "rstr list"

record platform =
  pf_sha256 :: "byte list \<Rightarrow> byte list"
  pf_base64_encode :: "byte list \<Rightarrow> rstr"
  pf_base64_decode :: "rstr \<Rightarrow> byte list option"
  pf_uuid_text :: "uuid \<Rightarrow> rstr"
  pf_uuid_bytes :: "uuid \<Rightarrow> byte list"
  pf_uuid_parse :: "rstr \<Rightarrow> uuid option"
  pf_path_uuid :: "rstr \<Rightarrow> uuid option"
  pf_hash_password :: "byte list \<Rightarrow> rstr \<Rightarrow> string + rstr"
  pf_verify_password :: "rstr \<Rightarrow> rstr \<Rightarrow> string + bool"
  pf_dummy_phc :: rstr
  pf_render_markdown :: "rstr \<Rightarrow> rstr"
  pf_render_revision :: "RevisionSnapshot \<Rightarrow> ViewMode \<Rightarrow> PublishArtifact"
  pf_summarize_markdown :: "rstr \<Rightarrow> nat \<Rightarrow> rstr"
  pf_public_route_url :: "rstr \<Rightarrow> rstr"

text \<open>The administration mode of the running server, \<open>config::AdminAuthMode\<close>.\<close>

datatype RuntimeAuthMode = RuntimeAccessKey | RuntimeExternal | RuntimeDisabled

record AppState =
  app_site_id :: uuid
  app_delivery_only :: bool
  app_registration_open :: bool
  app_local_auth_enabled :: bool
  app_admin_auth_mode :: RuntimeAuthMode
  app_binding_fingerprint :: "byte list"
  app_comments_enabled :: bool
  app_collaboration_enabled :: bool
  app_custom_css_enabled :: bool
  app_features :: "rstr list"
  app_article_base_path :: rstr
  app_public_origin :: rstr
  app_public_path :: rstr
  app_secure_session_cookie :: bool
  app_mcp_token_hash :: "byte list option"

definition is_active :: "AppState \<Rightarrow> string \<Rightarrow> bool" where
  "is_active A feature \<longleftrightarrow> lit feature \<in> set (app_features A)"

text \<open>A header value is visible ASCII text or opaque bytes (\<open>HeaderValue::to_str\<close>).\<close>

datatype header_value = HeaderText rstr | HeaderOpaque

fun to_str :: "header_value \<Rightarrow> rstr option" where
  "to_str (HeaderText t) = Some t"
| "to_str HeaderOpaque = None"

definition header_text :: "header_value option \<Rightarrow> rstr option" where
  "header_text v = Option.bind v to_str"

record HeaderMap =
  hdr_cookie :: "header_value option"
  hdr_origin :: "header_value option"
  hdr_authorization :: "header_value option"

section \<open>Errors\<close>

datatype CommunityApiError =
    Unauthorized
  | Forbidden string
  | InvalidLogin
  | RateLimited
  | RegistrationClosed
  | ReadOnly
  | ApiNotFound
  | Conflict string
  | BadRequest string
  | PayloadTooLarge string
  | UnsupportedMediaType string
  | AiSummaryRateLimited
  | AiSummaryTimeout
  | AiSummaryProviderFailed string
  | AiSummaryUnavailable
  | Internal string

fun repository_error_text :: "RepositoryError \<Rightarrow> string" where
  "repository_error_text NotFound = ''content was not found''"
| "repository_error_text DuplicateSlug = ''the slug already exists''"
| "repository_error_text RevisionConflict = ''the base revision is stale''"
| "repository_error_text DuplicateIdempotencyKey = ''the request was already accepted''"
| "repository_error_text (Validation m) = ''invalid content: '' @ m"
| "repository_error_text (Storage m) = ''storage error: '' @ m"

fun community_error :: "RepositoryError \<Rightarrow> CommunityApiError" where
  "community_error NotFound = ApiNotFound"
| "community_error DuplicateSlug = Conflict (repository_error_text DuplicateSlug)"
| "community_error RevisionConflict = Conflict (repository_error_text RevisionConflict)"
| "community_error DuplicateIdempotencyKey = Conflict (repository_error_text DuplicateIdempotencyKey)"
| "community_error (Validation m) = BadRequest m"
| "community_error (Storage m) = Internal m"

section \<open>Validators\<close>

definition validate_email :: "rstr \<Rightarrow> CommunityApiError + rstr" where
  "validate_email value =
     (let normalized = to_ascii_lowercase (trim value) in
      if is_ascii normalized \<and> 3 \<le> byte_len normalized \<and> byte_len normalized \<le> 254
         \<and> \<not> list_ex is_control normalized
         \<and> (case split_once 64 normalized of None \<Rightarrow> False
            | Some (local_part, domain) \<Rightarrow> local_part \<noteq> [] \<and> 46 \<in> set domain \<and> last domain \<noteq> 46)
      then Inr normalized else Inl (BadRequest ''email must be a valid ASCII address''))"

definition validate_handle :: "rstr \<Rightarrow> string \<Rightarrow> CommunityApiError + unit" where
  "validate_handle value label =
     (if 3 \<le> byte_len value \<and> byte_len value \<le> 40
         \<and> list_all (\<lambda>c. is_ascii_lowercase c \<or> is_ascii_digit c \<or> c = 45) value
         \<and> is_ascii_alphanumeric (hd value) \<and> is_ascii_alphanumeric (last value)
      then Inr ()
      else Inl (BadRequest (label @ '' must be 3-40 lowercase ASCII letters, digits, or interior hyphens'')))"

definition category_slug_conflicts_with_article_route :: "rstr \<Rightarrow> rstr \<Rightarrow> bool" where
  "category_slug_conflicts_with_article_route slug article_base_path \<longleftrightarrow>
     to_ascii_lowercase (trim slug) = to_ascii_lowercase (hd (split_on 47 (trim_slashes article_base_path)))"

definition validate_text :: "rstr \<Rightarrow> string \<Rightarrow> nat \<Rightarrow> CommunityApiError + rstr" where
  "validate_text value label maximum =
     (let value = trim value in
      if 1 \<le> length value \<and> length value \<le> maximum \<and> \<not> list_ex is_control value then Inr value
      else Inl (BadRequest (label @ '' must be 1-'' @ decimal maximum @ '' non-control characters'')))"

definition validate_password :: "rstr \<Rightarrow> CommunityApiError + unit" where
  "validate_password value =
     (if 8 \<le> byte_len value \<and> byte_len value \<le> 1024 \<and> \<not> contains_nul value then Inr ()
      else Inl (BadRequest ''password must be 8-1024 bytes''))"

definition validate_password_for_login :: "rstr \<Rightarrow> CommunityApiError + unit" where
  "validate_password_for_login value =
     (if value = [] \<or> byte_len value > 4096 \<or> contains_nul value then Inl InvalidLogin else Inr ())"

text \<open>The embed contracts of the social embeds module, \<open>social_embeds.rs\<close>.\<close>

definition validate_youtube :: "EmbedReference \<Rightarrow> string + unit" where
  "validate_youtube e =
     (let resource = embed_resource_id e in
      if byte_len resource \<noteq> 11 \<or> \<not> list_all (\<lambda>c. is_ascii_alphanumeric c \<or> c = 95 \<or> c = 45) resource
      then Inl ''YouTube embed resourceId must be an 11-character video ID''
      else if url_text (embed_canonical_url e) \<noteq> lit ''https://www.youtube.com/watch?v='' @ resource
      then Inl ''YouTube embed canonicalUrl must use the normalized watch URL''
      else Inr ())"

text \<open>\<open>Url::path_segments\<close>: none for a path that does not start with a slash.\<close>

definition path_segments :: "url \<Rightarrow> rstr list" where
  "path_segments u = (case url_path u of [] \<Rightarrow> [] | c # path \<Rightarrow> if c = 47 then split_on 47 path else [])"

definition validate_x :: "EmbedReference \<Rightarrow> string + unit" where
  "validate_x e =
     (let resource = embed_resource_id e; u = embed_canonical_url e; segments = path_segments u in
      if resource = [] \<or> byte_len resource > 30 \<or> \<not> list_all is_ascii_digit resource
      then Inl ''X embed resourceId must be a numeric status ID''
      else if url_scheme u \<noteq> lit ''https'' \<or> url_host_str u \<noteq> Some (lit ''x.com'') \<or> url_username u \<noteq> []
        \<or> url_password u \<noteq> None \<or> url_query u \<noteq> None \<or> url_fragment u \<noteq> None
      then Inl ''X embed canonicalUrl must be a normalized x.com status URL''
      else (case segments of
          [handle, status, i] \<Rightarrow>
            if status \<noteq> lit ''status'' \<or> i \<noteq> resource \<or> handle = [] \<or> byte_len handle > 15
               \<or> \<not> list_all (\<lambda>c. is_ascii_alphanumeric c \<or> c = 95) handle
            then Inl ''X embed canonicalUrl must contain a valid handle and matching status ID''
            else Inr ()
        | _ \<Rightarrow> Inl ''X embed canonicalUrl must contain a valid handle and matching status ID''))"

definition validate_official_embed :: "EmbedReference \<Rightarrow> string + unit" where
  "validate_official_embed e =
     (if embed_provider e = lit ''youtube'' then validate_youtube e
      else if embed_provider e = lit ''x'' then validate_x e
      else Inr ())"

definition validate_official_embeds :: "EmbedReference list \<Rightarrow> string + unit" where
  "validate_official_embeds embeds =
     and_then (collect_results validate_official_embed embeds) (\<lambda>_. Inr ())"

section \<open>Requests and the repository\<close>

text \<open>
  Before a call of the repository other requests may have called it; the call reads the clock,
  takes fresh identifiers and random bytes, and finds a free password worker or not. \<open>te_attempts\<close>
  are the admissions and resets of other requests.
\<close>

datatype attempt = Attempt key nat | Forget key

record task_env =
  te_others :: "repo_call list"
  te_attempts :: "attempt list"
  te_now :: "nat \<Rightarrow> instant"
  te_ticks :: nat
  te_id :: "nat \<Rightarrow> uuid"
  te_random :: "nat \<Rightarrow> byte list"
  te_worker_free :: bool

text \<open>
  The repository and the limiter of authentication attempts are shared; the rest belongs to one
  request: how far it is, whether it holds the cache mutation guard, and its own repository calls
  with the guard, the database before and the database after.
\<close>

record server =
  srv_db :: db
  srv_attempts :: KeyedRateLimiter
  srv_env :: "nat \<Rightarrow> task_env"
  srv_tick :: nat
  srv_guarded :: bool
  srv_steps :: "(bool \<times> db \<times> db) list"

type_synonym ('e, 'a) action = "server \<Rightarrow> ('e + 'a) \<times> server"

definition received :: "db \<Rightarrow> KeyedRateLimiter \<Rightarrow> (nat \<Rightarrow> task_env) \<Rightarrow> server" where
  "received db limiter env =
     \<lparr>srv_db = db, srv_attempts = limiter, srv_env = env, srv_tick = 0, srv_guarded = False, srv_steps = []\<rparr>"

definition req_of :: "'e + 'a \<Rightarrow> ('e, 'a) action" where
  "req_of r s = (r, s)"

abbreviation req_ok :: "'a \<Rightarrow> ('e, 'a) action" where
  "req_ok x \<equiv> req_of (Inr x)"

abbreviation req_err :: "'e \<Rightarrow> ('e, 'a) action" where
  "req_err e \<equiv> req_of (Inl e)"

definition req_then :: "('e, 'a) action \<Rightarrow> ('a \<Rightarrow> ('e, 'b) action) \<Rightarrow> ('e, 'b) action" where
  "req_then m k s = (case m s of (Inl e, s') \<Rightarrow> (Inl e, s') | (Inr x, s') \<Rightarrow> k x s')"

definition req_map_err :: "('e \<Rightarrow> 'f) \<Rightarrow> ('e, 'a) action \<Rightarrow> ('f, 'a) action" where
  "req_map_err f m s = (case m s of (r, s') \<Rightarrow> (map_err f r, s'))"

fun req_collect :: "('a \<Rightarrow> ('e, 'b) action) \<Rightarrow> 'a list \<Rightarrow> ('e, 'b list) action" where
  "req_collect f [] = req_ok []"
| "req_collect f (x # xs) = req_then (f x) (\<lambda>y. req_then (req_collect f xs) (\<lambda>ys. req_ok (y # ys)))"

text \<open>One call of the repository, and one that only reads.\<close>

definition repo :: "extern \<Rightarrow> (task_env \<Rightarrow> db \<Rightarrow> (RepositoryError + 'a) \<times> db) \<Rightarrow> (RepositoryError, 'a) action" where
  "repo E f s =
     (let env = srv_env s (srv_tick s);
          before = fold (perform E) (te_others env) (srv_db s);
          (r, after) = f env before in
      (r, s\<lparr>srv_db := after, srv_tick := srv_tick s + 1, srv_steps := srv_steps s @ [(srv_guarded s, before, after)]\<rparr>))"

definition reads :: "extern \<Rightarrow> (db \<Rightarrow> RepositoryError + 'a) \<Rightarrow> (RepositoryError, 'a) action" where
  "reads E f = repo E (\<lambda>env db. (f db, db))"

definition repository_task :: "(RepositoryError, 'a) action \<Rightarrow> (CommunityApiError, 'a) action" where
  "repository_task m = req_map_err community_error m"

definition repository_optional :: "(RepositoryError, 'a) action \<Rightarrow> (CommunityApiError, 'a option) action" where
  "repository_optional m s =
     (case m s of
        (Inr x, s') \<Rightarrow> (Inr (Some x), s')
      | (Inl e, s') \<Rightarrow> (if e = NotFound then Inr None else Inl (community_error e), s'))"

text \<open>The guard is held from here to the end of the handler.\<close>

definition begin_public_mutation :: "('e, unit) action" where
  "begin_public_mutation s = (Inr (), s\<lparr>srv_guarded := True\<rparr>)"

text \<open>The admission of authentication attempts, \<open>MemberAuthAdmission\<close>.\<close>

definition MEMBER_AUTH_BUCKET_LIMIT :: nat where
  "MEMBER_AUTH_BUCKET_LIMIT = 4096"

definition MEMBER_AUTH_ATTEMPTS_PER_MINUTE :: nat where
  "MEMBER_AUTH_ATTEMPTS_PER_MINUTE = 10"

definition member_auth_admission :: KeyedRateLimiter where
  "member_auth_admission = \<lparr>buckets = [], maximum_buckets = MEMBER_AUTH_BUCKET_LIMIT,
     attempts_per_window = MEMBER_AUTH_ATTEMPTS_PER_MINUTE, window = 60000\<rparr>"

fun other_attempt :: "attempt \<Rightarrow> KeyedRateLimiter \<Rightarrow> KeyedRateLimiter" where
  "other_attempt (Attempt k now) l = snd (admit_at k now l)"
| "other_attempt (Forget k) l = forget k l"

definition admit_member :: "key \<Rightarrow> (CommunityApiError, unit) action" where
  "admit_member k s =
     (let env = srv_env s (srv_tick s);
          (ok, l) = admit_at k (te_ticks env) (fold other_attempt (te_attempts env) (srv_attempts s)) in
      (if ok then Inr () else Inl RateLimited, s\<lparr>srv_attempts := l, srv_tick := srv_tick s + 1\<rparr>))"

definition forget_member :: "key \<Rightarrow> ('e, unit) action" where
  "forget_member k s =
     (let env = srv_env s (srv_tick s) in
      (Inr (), s\<lparr>srv_attempts := forget k (fold other_attempt (te_attempts env) (srv_attempts s)),
                 srv_tick := srv_tick s + 1\<rparr>))"

text \<open>The random bytes, the clock and the password workers a handler uses outside the repository.\<close>

definition ask :: "(task_env \<Rightarrow> 'e + 'a) \<Rightarrow> ('e, 'a) action" where
  "ask f s = (f (srv_env s (srv_tick s)), s\<lparr>srv_tick := srv_tick s + 1\<rparr>)"

section \<open>Sessions of requests\<close>

definition SESSION_COOKIE :: rstr where
  "SESSION_COOKIE = lit ''osb_session''"

definition session_hash_from_headers :: "platform \<Rightarrow> HeaderMap \<Rightarrow> byte list option" where
  "session_hash_from_headers P headers =
     Option.bind (header_text (hdr_cookie headers)) (\<lambda>cookie.
     Option.bind (map_of (List.map_filter (\<lambda>part. split_once 61 (trim part)) (split_on 59 cookie)) SESSION_COOKIE) (\<lambda>encoded.
     Option.bind (pf_base64_decode P encoded) (\<lambda>decoded.
       if length decoded = 32 then Some (pf_sha256 P decoded) else None)))"

definition ensure_mutable :: "AppState \<Rightarrow> CommunityApiError + unit" where
  "ensure_mutable A = (if app_delivery_only A then Inl ReadOnly else Inr ())"

record ResolvedSession =
  rs_user :: UserRecord
  rs_instance_administrator :: bool

fun method_enabled :: "AppState \<Rightarrow> SessionAuthMethod \<Rightarrow> bool" where
  "method_enabled A LegacySession = app_local_auth_enabled A"
| "method_enabled A AccessKeySession = (app_admin_auth_mode A = RuntimeAccessKey)"
| "method_enabled A ExternalSession = (app_admin_auth_mode A = RuntimeExternal)"

definition resolve_session_user ::
  "extern \<Rightarrow> platform \<Rightarrow> AppState \<Rightarrow> HeaderMap \<Rightarrow> (CommunityApiError, ResolvedSession option) action" where
  "resolve_session_user E P A headers =
     (if app_delivery_only A then req_ok None
      else case session_hash_from_headers P headers of
        None \<Rightarrow> req_ok None
      | Some token_hash \<Rightarrow> repository_optional (
          req_then (repo E (\<lambda>env db. (get_session db (te_now env 0) token_hash, db))) (\<lambda>session.
            if \<not> method_enabled A (ss_auth_method session) then req_err NotFound
            else req_then (reads E (\<lambda>db. get_user_by_id db (ss_user_id session))) (\<lambda>user.
              req_ok \<lparr>rs_user = user, rs_instance_administrator = (ss_auth_method session \<noteq> LegacySession)\<rparr>))))"

definition require_user ::
  "extern \<Rightarrow> platform \<Rightarrow> AppState \<Rightarrow> HeaderMap \<Rightarrow> (CommunityApiError, UserRecord) action" where
  "require_user E P A headers =
     req_then (req_of (ensure_mutable A)) (\<lambda>_.
     req_then (resolve_session_user E P A headers) (\<lambda>session.
       req_of (ok_or Unauthorized (map_option rs_user session))))"

definition require_instance_administrator ::
  "extern \<Rightarrow> platform \<Rightarrow> AppState \<Rightarrow> HeaderMap \<Rightarrow> (CommunityApiError, UserRecord) action" where
  "require_instance_administrator E P A headers =
     req_then (req_of (ensure_mutable A)) (\<lambda>_.
     req_then (req_of (ok_or Unauthorized (session_hash_from_headers P headers))) (\<lambda>token_hash.
     req_map_err (\<lambda>e. if e = ApiNotFound then Unauthorized else e) (repository_task (
       req_then (repo E (\<lambda>env db. (get_session db (te_now env 0) token_hash, db))) (\<lambda>session.
       req_then (reads E get_admin_control_plane) (\<lambda>control.
       case session_method (cp_auth_mode control) of
         None \<Rightarrow> req_err NotFound
       | Some expected \<Rightarrow>
           if ss_user_id session \<noteq> cp_owner_user_id control \<or> ss_auth_method session \<noteq> expected
           then req_err NotFound
           else reads E (\<lambda>db. get_user_by_id db (ss_user_id session))))))))"

text \<open>The check of the request origin, \<open>admin_auth.rs\<close>.\<close>

definition request_origin_is_valid :: "AppState \<Rightarrow> HeaderMap \<Rightarrow> bool" where
  "request_origin_is_valid A headers \<longleftrightarrow>
     (case hdr_origin headers of None \<Rightarrow> True | Some v \<Rightarrow> to_str v = Some (app_public_origin A))"

definition origin_guard :: "AppState \<Rightarrow> HeaderMap \<Rightarrow> (CommunityApiError, 'a) action \<Rightarrow> (CommunityApiError, 'a) action" where
  "origin_guard A headers run = (if \<not> request_origin_is_valid A headers then req_err Unauthorized else run)"

definition delivery_guard :: "AppState \<Rightarrow> (CommunityApiError, 'a) action \<Rightarrow> (CommunityApiError, 'a) action" where
  "delivery_guard A run = (if app_delivery_only A then req_err ReadOnly else run)"

definition authenticated_user_guard ::
  "extern \<Rightarrow> platform \<Rightarrow> AppState \<Rightarrow> HeaderMap \<Rightarrow> (CommunityApiError, 'a) action \<Rightarrow> (CommunityApiError, 'a) action" where
  "authenticated_user_guard E P A headers run = req_then (require_user E P A headers) (\<lambda>_. run)"

end
