(* ===== verification/Request_Logic.thy ===== *)
theory Request_Logic
  imports Request
begin

text \<open>
  A program logic for handlers. A policy says which repository calls a request may make after
  what it has seen; a triple says that a handler obeys the policy, whatever other requests do
  between its calls, and what it knows when it succeeds.
\<close>

type_synonym trace = "(bool \<times> db \<times> db) list"

definition trace_ok :: "extern \<Rightarrow> (trace \<Rightarrow> bool \<Rightarrow> repo_call \<Rightarrow> bool) \<Rightarrow> trace \<Rightarrow> bool" where
  "trace_ok E allowed steps \<longleftrightarrow>
     (\<forall>pre g db db' post. steps = pre @ (g, db, db') # post \<longrightarrow>
        reachable E db \<and> (db' = db \<or> (\<exists>call. allowed pre g call \<and> db' = perform E call db)))"

lemma trace_ok_Nil [simp]: "trace_ok E allowed []"
  by (simp add: trace_ok_def)

lemma snoc_split:
  "xs @ [x] = pre @ y # post \<longleftrightarrow> (pre = xs \<and> y = x \<and> post = []) \<or> (\<exists>rest. post = rest @ [x] \<and> xs = pre @ y # rest)"
  by (cases post rule: rev_cases) auto

lemma trace_ok_snoc:
  "trace_ok E allowed (steps @ [(g, db, db')]) \<longleftrightarrow>
     trace_ok E allowed steps \<and> reachable E db \<and> (db' = db \<or> (\<exists>call. allowed steps g call \<and> db' = perform E call db))"
  unfolding trace_ok_def snoc_split by blast

text \<open>What some step of the request has seen before and after it.\<close>

definition seen :: "trace \<Rightarrow> (db \<Rightarrow> db \<Rightarrow> bool) \<Rightarrow> bool" where
  "seen tr Q \<longleftrightarrow> (\<exists>g db db'. (g, db, db') \<in> set tr \<and> Q db db')"

lemma seen_append [simp]: "seen (tr @ later) Q \<longleftrightarrow> seen tr Q \<or> seen later Q"
  unfolding seen_def by auto

lemma seen_single [simp]: "seen [(g, db, db')] Q \<longleftrightarrow> Q db db'"
  by (simp add: seen_def)

text \<open>What a request knows depends on its steps and its guard, and stays known.\<close>

type_synonym knowledge = "trace \<Rightarrow> bool \<Rightarrow> bool"

definition stable :: "knowledge \<Rightarrow> bool" where
  "stable K \<longleftrightarrow> (\<forall>tr g more. K tr g \<longrightarrow> K (tr @ more) g)"

definition obeys ::
  "extern \<Rightarrow> (trace \<Rightarrow> bool \<Rightarrow> repo_call \<Rightarrow> bool) \<Rightarrow> knowledge \<Rightarrow> ('e, 'a) action \<Rightarrow> ('a \<Rightarrow> knowledge) \<Rightarrow> bool" where
  "obeys E allowed K m R \<longleftrightarrow>
     (\<forall>s. reachable E (srv_db s) \<longrightarrow> trace_ok E allowed (srv_steps s) \<longrightarrow> K (srv_steps s) (srv_guarded s) \<longrightarrow>
        reachable E (srv_db (snd (m s))) \<and> trace_ok E allowed (srv_steps (snd (m s)))
        \<and> (\<forall>x. fst (m s) = Inr x \<longrightarrow> R x (srv_steps (snd (m s))) (srv_guarded (snd (m s)))))"

locale request_policy =
  fixes E :: extern and allowed :: "trace \<Rightarrow> bool \<Rightarrow> repo_call \<Rightarrow> bool"
begin

lemma obeys_of: "(\<And>tr g x. K tr g \<Longrightarrow> r = Inr x \<Longrightarrow> R x tr g) \<Longrightarrow> obeys E allowed K (req_of r) R"
  by (simp add: obeys_def req_of_def)

lemma obeys_then:
  assumes "obeys E allowed K m Q" and "\<And>x. obeys E allowed (Q x) (k x) R"
  shows "obeys E allowed K (req_then m k) R"
  using assms unfolding obeys_def req_then_def by (auto split: prod.splits sum.splits)

lemma obeys_map_err: "obeys E allowed K m R \<Longrightarrow> obeys E allowed K (req_map_err f m) R"
  unfolding obeys_def req_map_err_def by (auto simp: map_err_eq_Inr split: prod.splits)

lemma obeys_task: "obeys E allowed K m R \<Longrightarrow> obeys E allowed K (repository_task m) R"
  unfolding repository_task_def by (rule obeys_map_err)

lemma obeys_optional:
  "obeys E allowed K m R \<Longrightarrow>
   obeys E allowed K (repository_optional m) (\<lambda>x tr g. case x of None \<Rightarrow> True | Some y \<Rightarrow> R y tr g)"
  unfolding obeys_def repository_optional_def by (fastforce split: prod.splits sum.splits option.splits)

lemma obeys_repo:
  assumes "\<And>tr g env db. K tr g \<Longrightarrow> reachable E db \<Longrightarrow>
      snd (f env db) = db \<or> (\<exists>call. allowed tr g call \<and> snd (f env db) = perform E call db)"
    and "\<And>tr g env db x db'. K tr g \<Longrightarrow> reachable E db \<Longrightarrow> f env db = (Inr x, db') \<Longrightarrow> R x (tr @ [(g, db, db')]) g"
  shows "obeys E allowed K (repo E f) R"
  unfolding obeys_def
proof (intro allI impI)
  fix s :: server assume s: "reachable E (srv_db s)" "trace_ok E allowed (srv_steps s)" "K (srv_steps s) (srv_guarded s)"
  let ?env = "srv_env s (srv_tick s)"
  let ?db = "fold (perform E) (te_others ?env) (srv_db s)"
  obtain r db' where f: "f ?env ?db = (r, db')" by fastforce
  have run: "repo E f s = (r, s\<lparr>srv_db := db', srv_tick := srv_tick s + 1,
      srv_steps := srv_steps s @ [(srv_guarded s, ?db, db')]\<rparr>)"
    using f by (simp add: repo_def)
  have at: "reachable E ?db" using s(1) by (rule reachable_run)
  have ok: "db' = ?db \<or> (\<exists>call. allowed (srv_steps s) (srv_guarded s) call \<and> db' = perform E call ?db)"
    using assms(1) [OF s(3) at, of ?env] f by simp
  then have "reachable E db'" using at by (auto intro: reachable_call)
  with s ok at assms(2) [OF s(3) at] f run show
    "reachable E (srv_db (snd (repo E f s))) \<and> trace_ok E allowed (srv_steps (snd (repo E f s)))
     \<and> (\<forall>x. fst (repo E f s) = Inr x \<longrightarrow> R x (srv_steps (snd (repo E f s))) (srv_guarded (snd (repo E f s))))"
    by (auto simp: trace_ok_snoc)
qed

lemma obeys_reads:
  assumes "\<And>tr g db x. K tr g \<Longrightarrow> reachable E db \<Longrightarrow> f db = Inr x \<Longrightarrow> R x (tr @ [(g, db, db)]) g"
  shows "obeys E allowed K (reads E f) R"
  unfolding reads_def by (rule obeys_repo) (auto intro: assms)

lemma obeys_call:
  assumes "stable K" and "\<And>tr g env db. K tr g \<Longrightarrow> allowed tr g (c env)"
    and "\<And>env db. snd (f env db) = perform E (c env) db"
  shows "obeys E allowed K (repo E f) (\<lambda>_. K)"
proof (rule obeys_repo)
  show "snd (f env db) = db \<or> (\<exists>call. allowed tr g call \<and> snd (f env db) = perform E call db)" if "K tr g" for tr g env db
    using assms(2) [OF that] assms(3) by blast
qed (use assms(1) in \<open>auto simp: stable_def\<close>)

lemma obeys_read: "stable K \<Longrightarrow> obeys E allowed K (reads E f) (\<lambda>_. K)"
  by (rule obeys_reads) (auto simp: stable_def)

lemma obeys_begin: "(\<And>tr g. K tr g \<Longrightarrow> R () tr True) \<Longrightarrow> obeys E allowed K begin_public_mutation R"
  by (auto simp: obeys_def begin_public_mutation_def)

lemma obeys_ask: "(\<And>tr g env x. K tr g \<Longrightarrow> f env = Inr x \<Longrightarrow> R x tr g) \<Longrightarrow> obeys E allowed K (ask f) R"
  by (auto simp: obeys_def ask_def)

lemma obeys_admit: "(\<And>tr g. K tr g \<Longrightarrow> R () tr g) \<Longrightarrow> obeys E allowed K (admit_member k) R"
  by (auto simp: obeys_def admit_member_def Let_def split: prod.splits)

lemma obeys_forget: "(\<And>tr g. K tr g \<Longrightarrow> R () tr g) \<Longrightarrow> obeys E allowed K (forget_member k) R"
  by (auto simp: obeys_def forget_member_def Let_def)

lemma obeys_collect:
  assumes "\<And>x. obeys E allowed K (f x) (\<lambda>_. K)"
  shows "obeys E allowed K (req_collect f xs) (\<lambda>_. K)"
  by (induction xs) (auto intro!: obeys_of obeys_then [OF assms] obeys_then)

lemma obeys_collect_all:
  assumes "\<And>x. obeys E allowed K (f x) (\<lambda>y tr g. K tr g \<and> Q x y)"
  shows "obeys E allowed K (req_collect f xs) (\<lambda>ys tr g. K tr g \<and> list_all2 Q xs ys)"
proof (induction xs)
  case Nil
  show ?case by (auto intro: obeys_of)
next
  case (Cons x xs)
  have rest: "obeys E allowed (\<lambda>tr g. K tr g \<and> Q x y) (req_collect f xs) (\<lambda>ys tr g. K tr g \<and> list_all2 Q xs ys \<and> Q x y)" for y
    using Cons.IH unfolding obeys_def by blast
  show ?case by (simp, rule obeys_then [OF assms], rule obeys_then [OF rest], rule obeys_of) auto
qed

lemma obeys_weaken:
  assumes "obeys E allowed K' m R'" and "\<And>tr g. K tr g \<Longrightarrow> K' tr g" and "\<And>x tr g. R' x tr g \<Longrightarrow> R x tr g"
  shows "obeys E allowed K m R"
  using assms unfolding obeys_def by blast

lemma obeys_if: "obeys E allowed K m R \<Longrightarrow> obeys E allowed K m' R \<Longrightarrow> obeys E allowed K (if b then m else m') R"
  by simp

lemma obeys_cond:
  "(b \<Longrightarrow> obeys E allowed K m R) \<Longrightarrow> (\<not> b \<Longrightarrow> obeys E allowed K m' R) \<Longrightarrow> obeys E allowed K (if b then m else m') R"
  by simp

lemma obeys_result:
  assumes "obeys E allowed (\<lambda>tr g. True) m R" and "reachable E db" and "m (received db limiter env) = (Inr x, s')"
  shows "R x (srv_steps s') (srv_guarded s')"
  using assms(1) [unfolded obeys_def, rule_format, of "received db limiter env"] assms(2,3) by (simp add: received_def)

lemma obeys_run:
  assumes "obeys E allowed (\<lambda>tr g. True) m R" and "reachable E db" and "m (received db limiter env) = (r, s')"
  shows "reachable E (srv_db s') \<and> trace_ok E allowed (srv_steps s')"
  using assms(1) [unfolded obeys_def, rule_format, of "received db limiter env"] assms(2,3) by (simp add: received_def)

text \<open>The operations of the repository, each as the call it is.\<close>

lemma create_category_obeys:
  assumes "stable K" and "\<And>tr g x0 x1. K tr g \<Longrightarrow> allowed tr g (CreateCategory x0 x1 owner site input)"
  shows "obeys E allowed K (repo E (\<lambda>env db. create_category (f0 env) (f1 env) owner site input db)) (\<lambda>_. K)"
  using assms by (intro obeys_call [where c = "\<lambda>env. CreateCategory (f0 env) (f1 env) owner site input"]) auto

lemma update_category_obeys:
  assumes "stable K" and "\<And>tr g x0. K tr g \<Longrightarrow> allowed tr g (UpdateCategory x0 owner site cat input)"
  shows "obeys E allowed K (repo E (\<lambda>env db. update_category (f0 env) owner site cat input db)) (\<lambda>_. K)"
  using assms by (intro obeys_call [where c = "\<lambda>env. UpdateCategory (f0 env) owner site cat input"]) auto

lemma archive_category_obeys:
  assumes "stable K" and "\<And>tr g x0. K tr g \<Longrightarrow> allowed tr g (ArchiveCategory x0 owner site cat)"
  shows "obeys E allowed K (repo E (\<lambda>env db. archive_category (f0 env) owner site cat db)) (\<lambda>_. K)"
  using assms by (intro obeys_call [where c = "\<lambda>env. ArchiveCategory (f0 env) owner site cat"]) auto

lemma create_series_obeys:
  assumes "stable K" and "\<And>tr g x0 x1 x2 x3. K tr g \<Longrightarrow> allowed tr g (CreateSeries x0 x1 x2 x3 owner site input)"
  shows "obeys E allowed K (repo E (\<lambda>env db. create_series (f0 env) (f1 env) (f2 env) (f3 env) owner site input db)) (\<lambda>_. K)"
  using assms by (intro obeys_call [where c = "\<lambda>env. CreateSeries (f0 env) (f1 env) (f2 env) (f3 env) owner site input"]) auto

lemma promote_category_to_series_obeys:
  assumes "stable K" and "\<And>tr g x0 x1. K tr g \<Longrightarrow> allowed tr g (PromoteCategory x0 x1 owner site cat)"
  shows "obeys E allowed K (repo E (\<lambda>env db. promote_category_to_series (f0 env) (f1 env) owner site cat db)) (\<lambda>_. K)"
  using assms by (intro obeys_call [where c = "\<lambda>env. PromoteCategory (f0 env) (f1 env) owner site cat"]) auto

lemma update_series_obeys:
  assumes "stable K" and "\<And>tr g x0. K tr g \<Longrightarrow> allowed tr g (UpdateSeries x0 owner site j input)"
  shows "obeys E allowed K (repo E (\<lambda>env db. update_series (f0 env) owner site j input db)) (\<lambda>_. K)"
  using assms by (intro obeys_call [where c = "\<lambda>env. UpdateSeries (f0 env) owner site j input"]) auto

lemma archive_series_obeys:
  assumes "stable K" and "\<And>tr g x0. K tr g \<Longrightarrow> allowed tr g (ArchiveSeries x0 owner site j)"
  shows "obeys E allowed K (repo E (\<lambda>env db. archive_series (f0 env) owner site j db)) (\<lambda>_. K)"
  using assms by (intro obeys_call [where c = "\<lambda>env. ArchiveSeries (f0 env) owner site j"]) auto

lemma replace_series_order_obeys:
  assumes "stable K" and "\<And>tr g x0. K tr g \<Longrightarrow> allowed tr g (ReplaceSeriesOrder x0 owner site j ids)"
  shows "obeys E allowed K (repo E (\<lambda>env db. replace_series_order (f0 env) owner site j ids db)) (\<lambda>_. K)"
  using assms by (intro obeys_call [where c = "\<lambda>env. ReplaceSeriesOrder (f0 env) owner site j ids"]) auto

lemma change_site_theme_obeys:
  assumes "stable K" and "\<And>tr g x0. K tr g \<Longrightarrow> allowed tr g (ChangeTheme x0 owner site theme)"
  shows "obeys E allowed K (repo E (\<lambda>env db. change_site_theme (f0 env) owner site theme db)) (\<lambda>_. K)"
  using assms by (intro obeys_call [where c = "\<lambda>env. ChangeTheme (f0 env) owner site theme"]) auto

lemma change_site_appearance_obeys:
  assumes "stable K" and "\<And>tr g x0. K tr g \<Longrightarrow> allowed tr g (ChangeAppearance x0 owner site theme css)"
  shows "obeys E allowed K (repo E (\<lambda>env db. change_site_appearance (f0 env) owner site theme css db)) (\<lambda>_. K)"
  using assms by (intro obeys_call [where c = "\<lambda>env. ChangeAppearance (f0 env) owner site theme css"]) auto

lemma add_site_collaborator_obeys:
  assumes "stable K" and "\<And>tr g x0. K tr g \<Longrightarrow> allowed tr g (AddCollaborator x0 owner site email role)"
  shows "obeys E allowed K (repo E (\<lambda>env db. add_site_collaborator (f0 env) owner site email role db)) (\<lambda>_. K)"
  using assms by (intro obeys_call [where c = "\<lambda>env. AddCollaborator (f0 env) owner site email role"]) auto

lemma remove_site_collaborator_obeys:
  assumes "stable K" and "\<And>tr g. K tr g \<Longrightarrow> allowed tr g (RemoveCollaborator owner site collaborator)"
  shows "obeys E allowed K (repo E (\<lambda>env db. remove_site_collaborator owner site collaborator db)) (\<lambda>_. K)"
  using assms by (intro obeys_call [where c = "\<lambda>env. RemoveCollaborator owner site collaborator"]) auto

lemma create_document_in_writable_site_with_category_obeys:
  assumes "stable K" and "\<And>tr g x0 x1 x2. K tr g \<Longrightarrow> allowed tr g (CreateInCategory x0 x1 x2 actor doc cat)"
  shows "obeys E allowed K (repo E (\<lambda>env db. create_document_in_writable_site_with_category E (f0 env) (f1 env) (f2 env) actor doc cat db)) (\<lambda>_. K)"
  using assms by (intro obeys_call [where c = "\<lambda>env. CreateInCategory (f0 env) (f1 env) (f2 env) actor doc cat"]) auto

lemma revise_document_in_writable_site_with_category_obeys:
  assumes "stable K" and "\<And>tr g x0 x1. K tr g \<Longrightarrow> allowed tr g (ReviseInCategory x0 x1 actor site proposal selection)"
  shows "obeys E allowed K (repo E (\<lambda>env db. revise_document_in_writable_site_with_category E (f0 env) (f1 env) actor site proposal selection db)) (\<lambda>_. K)"
  using assms by (intro obeys_call [where c = "\<lambda>env. ReviseInCategory (f0 env) (f1 env) actor site proposal selection"]) auto

lemma publish_document_in_owned_site_obeys:
  assumes "stable K" and "\<And>tr g x0. K tr g \<Longrightarrow> allowed tr g (PublishInOwnedSite x0 owner site doc rid)"
  shows "obeys E allowed K (repo E (\<lambda>env db. publish_document_in_owned_site (f0 env) owner site doc rid db)) (\<lambda>_. K)"
  using assms by (intro obeys_call [where c = "\<lambda>env. PublishInOwnedSite (f0 env) owner site doc rid"]) auto

lemma create_site_obeys:
  assumes "stable K" and "\<And>tr g x0 x1. K tr g \<Longrightarrow> allowed tr g (CreateSite x0 x1 owner handle title description theme)"
  shows "obeys E allowed K (repo E (\<lambda>env db. create_site (f0 env) (f1 env) owner handle title description theme db)) (\<lambda>_. K)"
  using assms by (intro obeys_call [where c = "\<lambda>env. CreateSite (f0 env) (f1 env) owner handle title description theme"]) auto

lemma complete_primary_owner_setup_obeys:
  assumes "stable K" and "\<And>tr g x0 x1 x2. K tr g \<Longrightarrow> allowed tr g (AdminCall (CompleteOwnerSetup x0 x1 x2 owner handle title description theme))"
  shows "obeys E allowed K (repo E (\<lambda>env db. complete_primary_owner_setup (f0 env) (f1 env) (f2 env) owner handle title description theme db)) (\<lambda>_. K)"
  using assms by (intro obeys_call [where c = "\<lambda>env. AdminCall (CompleteOwnerSetup (f0 env) (f1 env) (f2 env) owner handle title description theme)"]) auto

lemma create_comment_obeys:
  assumes "stable K" and "\<And>tr g x0 x1. K tr g \<Longrightarrow> allowed tr g (AdminCall (CreateComment x0 x1 author site doc markdown))"
  shows "obeys E allowed K (repo E (\<lambda>env db. create_comment (f0 env) (f1 env) author site doc markdown db)) (\<lambda>_. K)"
  using assms by (intro obeys_call [where c = "\<lambda>env. AdminCall (CreateComment (f0 env) (f1 env) author site doc markdown)"]) auto

lemma replace_home_pins_obeys:
  assumes "stable K" and "\<And>tr g x0. K tr g \<Longrightarrow> allowed tr g (AdminCall (ReplaceHomePins x0 administrator ids))"
  shows "obeys E allowed K (repo E (\<lambda>env db. replace_home_pins (f0 env) administrator ids db)) (\<lambda>_. K)"
  using assms by (intro obeys_call [where c = "\<lambda>env. AdminCall (ReplaceHomePins (f0 env) administrator ids)"]) auto

lemma create_user_obeys:
  assumes "stable K" and "\<And>tr g x0 x1. K tr g \<Longrightarrow> allowed tr g (CreateUser x0 x1 email handle name phc)"
  shows "obeys E allowed K (repo E (\<lambda>env db. create_user (f0 env) (f1 env) email handle name phc db)) (\<lambda>_. K)"
  using assms by (intro obeys_call [where c = "\<lambda>env. CreateUser (f0 env) (f1 env) email handle name phc"]) auto

lemma revoke_session_obeys:
  assumes "stable K" and "\<And>tr g x0. K tr g \<Longrightarrow> allowed tr g (AdminCall (RevokeSession x0 hash))"
  shows "obeys E allowed K (repo E (\<lambda>env db. revoke_session (f0 env) hash db)) (\<lambda>_. K)"
  using assms by (intro obeys_call [where c = "\<lambda>env. AdminCall (RevokeSession (f0 env) hash)"]) auto

lemma create_session_obeys:
  assumes "stable K" and "\<And>tr g x0 x1 x2 x3. K tr g \<Longrightarrow> allowed tr g (AdminCall (CreateSession x0 x1 x2 x3 user hash expires))"
  shows "obeys E allowed K (repo E (\<lambda>env db. create_session (f0 env) (f1 env) (f2 env) (f3 env) user hash expires db)) (\<lambda>_. K)"
  using assms by (intro obeys_call [where c = "\<lambda>env. AdminCall (CreateSession (f0 env) (f1 env) (f2 env) (f3 env) user hash expires)"]) auto

lemma ensure_legacy_site_obeys:
  assumes "stable K" and "\<And>tr g now. K tr g \<Longrightarrow> allowed tr g (EnsureLegacySite i now)"
  shows "obeys E allowed K (repo E (\<lambda>env db. ensure_legacy_site i (n env) db)) (\<lambda>_. K)"
  using assms by (intro obeys_call [where c = "\<lambda>env. EnsureLegacySite i (n env)"]) auto

lemma create_document_obeys:
  assumes "stable K" and "\<And>tr g x0 x1 x2. K tr g \<Longrightarrow> allowed tr g (CreateDocument x0 x1 x2 doc)"
  shows "obeys E allowed K (repo E (\<lambda>env db. create_document E (f0 env) (f1 env) (f2 env) doc db)) (\<lambda>_. K)"
  using assms by (intro obeys_call [where c = "\<lambda>env. CreateDocument (f0 env) (f1 env) (f2 env) doc"]) auto

lemma append_revision_obeys:
  assumes "stable K" and "\<And>tr g x0 x1. K tr g \<Longrightarrow> allowed tr g (AppendRevision x0 x1 proposal)"
  shows "obeys E allowed K (repo E (\<lambda>env db. append_revision E (f0 env) (f1 env) proposal db)) (\<lambda>_. K)"
  using assms by (intro obeys_call [where c = "\<lambda>env. AppendRevision (f0 env) (f1 env) proposal"]) auto

lemma append_ai_proposal_obeys:
  assumes "stable K" and "\<And>tr g x0 x1 x2. K tr g \<Longrightarrow> allowed tr g (AppendAiProposal x0 x1 x2 envelope)"
  shows "obeys E allowed K (repo E (\<lambda>env db. append_ai_proposal E (f0 env) (f1 env) (f2 env) envelope db)) (\<lambda>_. K)"
  using assms by (intro obeys_call [where c = "\<lambda>env. AppendAiProposal (f0 env) (f1 env) (f2 env) envelope"]) auto

lemma publish_obeys:
  assumes "stable K" and "\<And>tr g now. K tr g \<Longrightarrow> allowed tr g (PublishRevision doc rid now)"
  shows "obeys E allowed K (repo E (\<lambda>env db. publish doc rid (n env) db)) (\<lambda>_. K)"
  using assms by (intro obeys_call [where c = "\<lambda>env. PublishRevision doc rid (n env)"]) auto

lemmas operations_obey = create_category_obeys update_category_obeys archive_category_obeys create_series_obeys promote_category_to_series_obeys update_series_obeys archive_series_obeys replace_series_order_obeys change_site_theme_obeys change_site_appearance_obeys add_site_collaborator_obeys remove_site_collaborator_obeys create_document_in_writable_site_with_category_obeys revise_document_in_writable_site_with_category_obeys publish_document_in_owned_site_obeys create_site_obeys complete_primary_owner_setup_obeys create_comment_obeys replace_home_pins_obeys create_user_obeys revoke_session_obeys create_session_obeys ensure_legacy_site_obeys create_document_obeys append_revision_obeys append_ai_proposal_obeys publish_obeys

end

end
