(* ===== verification/Studio.thy ===== *)
theory Studio
  imports Request
begin

text \<open>
  The handlers of \<open>apps/server/src/community.rs\<close> that authenticate members and serve the studio,
  the comments of members and the pins of the home page, with the router that decides which of
  them exist and which guards run before them.
\<close>

section \<open>Views\<close>

record UserSummary =
  us_id :: uuid
  us_handle :: rstr
  us_display_name :: rstr

definition user_summary :: "UserRecord \<Rightarrow> UserSummary" where
  "user_summary user = \<lparr>us_id = u_id user, us_handle = u_handle user, us_display_name = u_display_name user\<rparr>"

record BlogSummary =
  bs_id :: uuid
  bs_handle :: rstr
  bs_title :: rstr
  bs_description :: "rstr option"
  bs_owner :: UserSummary
  bs_preset_id :: ThemeProfile
  bs_custom_css_url :: "rstr option"
  bs_is_primary :: bool
  bs_created_at :: instant

definition blog_summary :: "SiteRecord \<Rightarrow> UserRecord \<Rightarrow> uuid \<Rightarrow> BlogSummary" where
  "blog_summary site owner primary_site =
     \<lparr>bs_id = site_id site, bs_handle = site_handle site, bs_title = site_title site,
      bs_description = site_description site, bs_owner = user_summary owner,
      bs_preset_id = site_theme_profile site, bs_custom_css_url = None,
      bs_is_primary = (site_id site = primary_site), bs_created_at = site_created_at site\<rparr>"

record CategorySummary =
  cs_id :: uuid
  cs_slug :: rstr
  cs_title :: rstr
  cs_description :: "rstr option"
  cs_theme_preset :: "ThemeProfile option"
  cs_status :: CategoryStatus

definition category_summary :: "CategoryRecord \<Rightarrow> CategorySummary" where
  "category_summary c = \<lparr>cs_id = c_id c, cs_slug = c_slug c, cs_title = c_title c, cs_description = c_description c,
     cs_theme_preset = c_theme_profile c, cs_status = c_status c\<rparr>"

record SeriesSummary =
  zs_id :: uuid
  zs_category_id :: uuid
  zs_slug :: rstr
  zs_title :: rstr
  zs_description :: "rstr option"
  zs_theme_preset :: "ThemeProfile option"
  zs_status :: CategoryStatus
  zs_home_position :: int
  zs_created_at :: instant
  zs_updated_at :: instant

definition series_summary :: "SeriesRecord \<Rightarrow> SeriesSummary" where
  "series_summary s = \<lparr>zs_id = sr_id s, zs_category_id = sr_category_id s, zs_slug = sr_slug s, zs_title = sr_title s,
     zs_description = sr_description s, zs_theme_preset = sr_theme_profile s, zs_status = sr_status s,
     zs_home_position = sr_home_position s, zs_created_at = sr_created_at s, zs_updated_at = sr_updated_at s\<rparr>"

record StudioDocumentView =
  sv_document :: DocumentSnapshot
  sv_category_id :: "uuid option"

definition studio_document_view :: "extern \<Rightarrow> DocumentSnapshot \<Rightarrow> (RepositoryError, StudioDocumentView) action" where
  "studio_document_view E document =
     req_then (reads E (\<lambda>db. get_current_category db (doc_site_id document) (doc_id document))) (\<lambda>category.
       req_ok \<lparr>sv_document = document, sv_category_id = map_option c_id category\<rparr>)"

record StudioSettings =
  sg_blog_id :: uuid
  sg_theme_preset :: ThemeProfile
  sg_theme_revision :: int
  sg_custom_css_enabled :: bool
  sg_custom_css :: "rstr option"

definition studio_settings :: "SiteRecord \<Rightarrow> bool \<Rightarrow> StudioSettings" where
  "studio_settings site enabled =
     \<lparr>sg_blog_id = site_id site, sg_theme_preset = site_theme_profile site, sg_theme_revision = site_theme_revision site,
      sg_custom_css_enabled = enabled, sg_custom_css = (if enabled then site_custom_css site else None)\<rparr>"

record CollaboratorView =
  cv_user_id :: uuid
  cv_email :: rstr
  cv_handle :: rstr
  cv_display_name :: rstr
  cv_role :: SiteMembershipRole
  cv_created_at :: instant

definition collaborator_view :: "SiteMembershipRecord \<Rightarrow> UserRecord \<Rightarrow> CollaboratorView" where
  "collaborator_view membership user =
     \<lparr>cv_user_id = u_id user, cv_email = u_email user, cv_handle = u_handle user, cv_display_name = u_display_name user,
      cv_role = m_role membership, cv_created_at = m_created_at membership\<rparr>"

record CommentView =
  vw_id :: uuid
  vw_post_id :: uuid
  vw_author :: UserSummary
  vw_source_markdown :: rstr
  vw_artifact_html :: rstr
  vw_created_at :: instant
  vw_updated_at :: instant
  vw_can_edit :: bool
  vw_can_delete :: bool

definition comment_view :: "platform \<Rightarrow> CommentRecord \<Rightarrow> UserRecord \<Rightarrow> bool \<Rightarrow> CommentView" where
  "comment_view P comment author can_edit =
     (let renderable = \<lparr>comment_id = cm_id comment, comment_site_id = cm_site_id comment,
            comment_document_id = cm_document_id comment, comment_author_reference = pf_uuid_text P (u_id author),
            comment_source_markdown = cm_source_markdown comment, comment_status = CommentApproved,
            comment_created_at = cm_created_at comment, comment_updated_at = cm_updated_at comment\<rparr> in
      \<lparr>vw_id = cm_id comment, vw_post_id = cm_document_id comment, vw_author = user_summary author,
       vw_source_markdown = cm_source_markdown comment,
       vw_artifact_html = (case render_if_approved (pf_render_markdown P) renderable of None \<Rightarrow> [] | Some h \<Rightarrow> h),
       vw_created_at = cm_created_at comment, vw_updated_at = cm_updated_at comment,
       vw_can_edit = can_edit, vw_can_delete = can_edit\<rparr>)"

section \<open>Sessions and accounts\<close>

record AuthenticatedSession =
  as_registration_open :: bool
  as_user :: UserSummary
  as_blog :: "BlogSummary option"
  as_membership_role :: "SiteMembershipRole option"
  as_instance_administrator :: bool

datatype SessionPayload = Anonymous bool | Authenticated AuthenticatedSession

text \<open>The site of a user in the studio: owned, or with collaboration also joined.\<close>

definition first_site :: "extern \<Rightarrow> AppState \<Rightarrow> uuid \<Rightarrow> (RepositoryError, SiteRecord option) action" where
  "first_site E A user =
     req_then (reads E (\<lambda>db. if app_collaboration_enabled A then list_accessible_sites db user 1
                        else Inr (list_owned_sites db user 1))) (\<lambda>found.
       req_ok (case found of [] \<Rightarrow> None | site # _ \<Rightarrow> Some site))"

definition session_payload ::
  "extern \<Rightarrow> AppState \<Rightarrow> ResolvedSession option \<Rightarrow> (CommunityApiError, SessionPayload) action" where
  "session_payload E A session =
     (case session of
        None \<Rightarrow> req_ok (Anonymous (app_registration_open A \<and> \<not> app_delivery_only A))
      | Some resolved \<Rightarrow>
          if app_delivery_only A then req_ok (Anonymous (app_registration_open A \<and> \<not> app_delivery_only A))
          else let user = rs_user resolved in
            req_then (repository_task (
              req_then (reads E (\<lambda>db. case get_admin_control_plane db of
                   Inr control \<Rightarrow> Inr (cp_owner_user_id control = u_id user \<and> \<not> cp_setup_complete control)
                 | Inl e \<Rightarrow> if e = NotFound then Inr False else Inl e)) (\<lambda>setup_pending.
              if setup_pending then req_ok (None, None)
              else req_then (first_site E A (u_id user)) (\<lambda>found.
                case found of
                  None \<Rightarrow> req_ok (None, None)
                | Some site \<Rightarrow>
                    req_then (reads E (\<lambda>db. get_site_membership db (u_id user) (site_id site))) (\<lambda>membership.
                    req_then (reads E (\<lambda>db. get_user_by_id db (site_owner_user_id site))) (\<lambda>owner.
                      req_ok (Some (blog_summary site owner (app_site_id A)), Some (m_role membership)))))))) (\<lambda>(blog, role).
              req_ok (Authenticated
                \<lparr>as_registration_open = app_registration_open A, as_user = user_summary user, as_blog = blog,
                 as_membership_role = role, as_instance_administrator = rs_instance_administrator resolved\<rparr>)))"

definition SESSION_LIFETIME_DAYS :: int where
  "SESSION_LIFETIME_DAYS = 30"

definition days :: "int \<Rightarrow> instant" where
  "days n = minutes (n * 24 * 60)"

definition session_cookie :: "rstr \<Rightarrow> bool \<Rightarrow> rstr \<Rightarrow> nat \<Rightarrow> rstr" where
  "session_cookie token secure path max_age_seconds =
     SESSION_COOKIE @ lit ''='' @ token @ lit ''; HttpOnly; SameSite=Lax; Path='' @ path @ lit ''; Max-Age=''
     @ lit (decimal max_age_seconds) @ (if secure then lit ''; Secure'' else [])"

definition clear_session_cookie :: "bool \<Rightarrow> rstr \<Rightarrow> rstr" where
  "clear_session_cookie secure path =
     SESSION_COOKIE @ lit ''=; HttpOnly; SameSite=Lax; Path='' @ path
     @ lit ''; Max-Age=0; Expires=Thu, 01 Jan 1970 00:00:00 GMT'' @ (if secure then lit ''; Secure'' else [])"

definition session_cookie_path :: "AppState \<Rightarrow> rstr" where
  "session_cookie_path A =
     (let path = List.rev (dropWhile (\<lambda>c. c = 47) (List.rev (app_public_path A))) in if path = [] then lit ''/'' else path)"

text \<open>A new session: the answer carries the payload and the cookie with the token.\<close>

definition authenticated_response ::
  "extern \<Rightarrow> platform \<Rightarrow> AppState \<Rightarrow> UserRecord \<Rightarrow> (CommunityApiError, SessionPayload \<times> rstr) action" where
  "authenticated_response E P A user =
     req_then (ask (\<lambda>env. Inr (te_random env 0, te_now env 0))) (\<lambda>(raw_token, now).
     let token_hash = pf_sha256 P raw_token; token = pf_base64_encode P raw_token;
         expires_at = now + days SESSION_LIFETIME_DAYS in
     req_then (repository_task (repo E (\<lambda>env db.
        create_session (te_id env 0) (te_now env 0) (te_now env 1) (te_now env 2) (u_id user) token_hash expires_at db))) (\<lambda>_.
     req_then (session_payload E A (Some \<lparr>rs_user = user, rs_instance_administrator = False\<rparr>)) (\<lambda>payload.
       req_ok (payload, session_cookie token (app_secure_session_cookie A) (session_cookie_path A)
         (nat (SESSION_LIFETIME_DAYS * 24 * 60 * 60))))))"

definition session_handler ::
  "extern \<Rightarrow> platform \<Rightarrow> AppState \<Rightarrow> HeaderMap \<Rightarrow> (CommunityApiError, SessionPayload) action" where
  "session_handler E P A headers = req_then (resolve_session_user E P A headers) (session_payload E A)"

record RegisterInput =
  ri_email :: rstr
  ri_password :: rstr
  ri_handle :: rstr
  ri_display_name :: rstr

record LoginInput =
  li_email :: rstr
  li_password :: rstr

definition member_auth_key :: "platform \<Rightarrow> string \<Rightarrow> rstr \<Rightarrow> byte list" where
  "member_auth_key P purpose email =
     pf_sha256 P (as_bytes (lit ''open-soverign-blog/member-auth-admission/v1'') @ [0] @ as_bytes (lit purpose) @ [0]
       @ as_bytes email)"

definition hash_password :: "platform \<Rightarrow> rstr \<Rightarrow> (CommunityApiError, rstr) action" where
  "hash_password P password = ask (\<lambda>env.
     if \<not> te_worker_free env then Inl RateLimited
     else map_err (\<lambda>e. Internal (''password hashing failed: '' @ e)) (pf_hash_password P (te_random env 0) password))"

definition verify_password :: "platform \<Rightarrow> rstr \<Rightarrow> rstr option \<Rightarrow> (CommunityApiError, bool) action" where
  "verify_password P supplied expected_phc = ask (\<lambda>env.
     if \<not> te_worker_free env then Inl RateLimited
     else map_err (\<lambda>e. Internal (''stored password hash is invalid: '' @ e))
       (pf_verify_password P (case expected_phc of None \<Rightarrow> pf_dummy_phc P | Some phc \<Rightarrow> phc) supplied))"

definition register ::
  "extern \<Rightarrow> platform \<Rightarrow> AppState \<Rightarrow> RegisterInput \<Rightarrow> (CommunityApiError, SessionPayload \<times> rstr) action" where
  "register E P A input =
     req_then (req_of (ensure_mutable A)) (\<lambda>_.
     req_then (req_of (reject_if (\<not> app_registration_open A) RegistrationClosed)) (\<lambda>_.
     req_then (req_of (validate_email (ri_email input))) (\<lambda>email.
     let admission_key = member_auth_key P ''register'' email in
     req_then (admit_member admission_key) (\<lambda>_.
     req_then (req_of (validate_handle (ri_handle input) ''user handle'')) (\<lambda>_.
     req_then (req_of (validate_text (ri_display_name input) ''display name'' 80)) (\<lambda>display_name.
     req_then (req_of (validate_password (ri_password input))) (\<lambda>_.
     req_then (hash_password P (ri_password input)) (\<lambda>password_phc.
     req_then (repository_task (repo E (\<lambda>env db.
        create_user (te_id env 0) (te_now env 0) email (ri_handle input) display_name password_phc db))) (\<lambda>user.
     req_then (authenticated_response E P A user) (\<lambda>response.
     req_then (forget_member admission_key) (\<lambda>_.
       req_ok response)))))))))))"

definition login ::
  "extern \<Rightarrow> platform \<Rightarrow> AppState \<Rightarrow> LoginInput \<Rightarrow> (CommunityApiError, SessionPayload \<times> rstr) action" where
  "login E P A input =
     req_then (req_of (ensure_mutable A)) (\<lambda>_.
     req_then (req_of (validate_email (li_email input))) (\<lambda>email.
     let admission_key = member_auth_key P ''login'' email in
     req_then (admit_member admission_key) (\<lambda>_.
     req_then (req_of (validate_password_for_login (li_password input))) (\<lambda>_.
     req_then (repository_optional (reads E (\<lambda>db. find_user_by_email db email))) (\<lambda>candidate.
     req_then (verify_password P (li_password input) (map_option u_password_phc candidate)) (\<lambda>verified.
     req_then (req_of (ok_or InvalidLogin (if verified then candidate else None))) (\<lambda>user.
     req_then (authenticated_response E P A user) (\<lambda>response.
     req_then (forget_member admission_key) (\<lambda>_.
       req_ok response)))))))))"

definition logout :: "extern \<Rightarrow> platform \<Rightarrow> AppState \<Rightarrow> HeaderMap \<Rightarrow> (CommunityApiError, SessionPayload \<times> rstr) action" where
  "logout E P A headers =
     req_then (req_of (ensure_mutable A)) (\<lambda>_.
     req_then (case session_hash_from_headers P headers of
         None \<Rightarrow> req_ok ()
       | Some h \<Rightarrow> req_then (repository_task (repo E (\<lambda>env db. revoke_session (te_now env 0) h db))) (\<lambda>_. req_ok ())) (\<lambda>_.
       req_ok (Anonymous (app_registration_open A),
         clear_session_cookie (app_secure_session_cookie A) (session_cookie_path A))))"

section \<open>Access to the studio\<close>

record StudioAccess =
  sa_site :: SiteRecord
  sa_role :: SiteMembershipRole

definition studio_access :: "extern \<Rightarrow> AppState \<Rightarrow> uuid \<Rightarrow> (CommunityApiError, StudioAccess) action" where
  "studio_access E A user =
     req_map_err (\<lambda>e. if e = ApiNotFound then BadRequest ''create a blog before using Studio'' else e) (repository_task (
       req_then (first_site E A user) (\<lambda>found.
       req_then (req_of (ok_or NotFound found)) (\<lambda>site.
       req_then (reads E (\<lambda>db. get_site_membership db user (site_id site))) (\<lambda>membership.
         req_ok \<lparr>sa_site = site, sa_role = m_role membership\<rparr>)))))"

definition owner_studio_access :: "extern \<Rightarrow> AppState \<Rightarrow> uuid \<Rightarrow> (CommunityApiError, StudioAccess) action" where
  "owner_studio_access E A user =
     req_then (studio_access E A user) (\<lambda>access.
       if sa_role access = Owner then req_ok access
       else req_err (Forbidden ''only the blog owner can publish or manage settings and collaborators''))"

definition revision_actor :: "platform \<Rightarrow> UserRecord \<Rightarrow> RevisionActor" where
  "revision_actor P user =
     \<lparr>actor_kind = RevisionHuman, actor_id = pf_uuid_text P (u_id user), actor_display_name = Some (u_display_name user)\<rparr>"

record StudioDocumentInput =
  di_title :: rstr
  di_slug :: rstr
  di_source_markdown :: rstr
  di_embeds :: "EmbedReference list"
  di_intent :: "IntentLayer option"
  di_ontology :: "OntologySidecar option"
  di_ai_summary :: "AiSummary option"
  di_category_id :: "uuid option"
  di_authorship :: PublicAuthorship

definition new_document :: "platform \<Rightarrow> uuid \<Rightarrow> UserRecord \<Rightarrow> StudioDocumentInput \<Rightarrow> NewDocument" where
  "new_document P site user input =
     \<lparr>new_site_id = site, new_title = di_title input, new_slug = di_slug input,
      new_source_markdown = di_source_markdown input, new_embeds = di_embeds input, new_intent = di_intent input,
      new_ontology = di_ontology input, new_ai_summary = di_ai_summary input, new_authorship = di_authorship input,
      new_actor = revision_actor P user\<rparr>"

text \<open>A field of a request that may be absent, null or a value.\<close>

record 'a update =
  upd_provided :: bool
  upd_value :: "'a option"

record StudioRevisionInput =
  vi_base_revision_id :: uuid
  vi_title :: rstr
  vi_slug :: rstr
  vi_source_markdown :: rstr
  vi_embeds :: "EmbedReference list"
  vi_intent :: "IntentLayer option"
  vi_ontology :: "OntologySidecar option"
  vi_ai_summary :: "AiSummary option"
  vi_category_id :: "uuid update"
  vi_authorship :: PublicAuthorship
  vi_idempotency_key :: "rstr option"

definition checked_embeds :: "AppState \<Rightarrow> EmbedReference list \<Rightarrow> CommunityApiError + unit" where
  "checked_embeds A embeds =
     (if is_active A ''social_embeds'' then map_err BadRequest (validate_official_embeds embeds) else Inr ())"

end
