(* ===== verification/Studio_Routes.thy ===== *)
theory Studio_Routes
  imports Studio
begin

text \<open>
  The handlers of the studio, of blog creation, comments and home pins in
  \<open>apps/server/src/community.rs\<close>, and the part of its router they belong to.
\<close>

section \<open>Reads of the studio\<close>

definition list_studio_documents ::
  "extern \<Rightarrow> platform \<Rightarrow> AppState \<Rightarrow> HeaderMap \<Rightarrow> (CommunityApiError, StudioDocumentView list) action" where
  "list_studio_documents E P A headers =
     req_then (require_user E P A headers) (\<lambda>user.
     req_then (studio_access E A (u_id user)) (\<lambda>access.
       repository_task (
         req_then (reads E (\<lambda>db. list_documents_in_writable_site db (u_id user) (site_id (sa_site access)) 500)) (\<lambda>found.
           req_collect (studio_document_view E) found))))"

definition get_studio_document ::
  "extern \<Rightarrow> platform \<Rightarrow> AppState \<Rightarrow> HeaderMap \<Rightarrow> uuid \<Rightarrow> (CommunityApiError, StudioDocumentView) action" where
  "get_studio_document E P A headers document =
     req_then (require_user E P A headers) (\<lambda>user.
     req_then (studio_access E A (u_id user)) (\<lambda>access.
       repository_task (
         req_then (reads E (\<lambda>db. get_document_in_writable_site db (u_id user) (site_id (sa_site access)) document))
           (studio_document_view E))))"

definition list_studio_categories ::
  "extern \<Rightarrow> platform \<Rightarrow> AppState \<Rightarrow> HeaderMap \<Rightarrow> (CommunityApiError, CategorySummary list) action" where
  "list_studio_categories E P A headers =
     req_then (require_user E P A headers) (\<lambda>user.
     req_then (studio_access E A (u_id user)) (\<lambda>access.
     req_then (repository_task (reads E (\<lambda>db. list_categories db (site_id (sa_site access)) True 500))) (\<lambda>found.
       req_ok (map category_summary found))))"

definition list_studio_series ::
  "extern \<Rightarrow> platform \<Rightarrow> AppState \<Rightarrow> HeaderMap \<Rightarrow> (CommunityApiError, SeriesSummary list) action" where
  "list_studio_series E P A headers =
     req_then (require_user E P A headers) (\<lambda>user.
     req_then (studio_access E A (u_id user)) (\<lambda>access.
     req_then (repository_task (reads E (\<lambda>db. list_series db (site_id (sa_site access)) True 500))) (\<lambda>found.
       req_ok (map series_summary found))))"

definition list_studio_series_items ::
  "extern \<Rightarrow> platform \<Rightarrow> AppState \<Rightarrow> HeaderMap \<Rightarrow> uuid \<Rightarrow> (CommunityApiError, StudioDocumentView list) action" where
  "list_studio_series_items E P A headers i =
     req_then (require_user E P A headers) (\<lambda>user.
     req_then (studio_access E A (u_id user)) (\<lambda>access.
       repository_task (
         req_then (reads E (\<lambda>db. list_published_in_series db (site_id (sa_site access)) i 500)) (\<lambda>found.
           req_collect (studio_document_view E) found))))"

definition get_studio_settings ::
  "extern \<Rightarrow> platform \<Rightarrow> AppState \<Rightarrow> HeaderMap \<Rightarrow> (CommunityApiError, StudioSettings) action" where
  "get_studio_settings E P A headers =
     req_then (require_user E P A headers) (\<lambda>user.
     req_then (owner_studio_access E A (u_id user)) (\<lambda>access.
       req_ok (studio_settings (sa_site access) (app_custom_css_enabled A))))"

definition list_studio_collaborators ::
  "extern \<Rightarrow> platform \<Rightarrow> AppState \<Rightarrow> HeaderMap \<Rightarrow> (CommunityApiError, CollaboratorView list) action" where
  "list_studio_collaborators E P A headers =
     req_then (require_user E P A headers) (\<lambda>user.
     req_then (owner_studio_access E A (u_id user)) (\<lambda>access.
       repository_task (
         req_then (reads E (\<lambda>db. list_site_memberships db (u_id user) (site_id (sa_site access)) 500)) (\<lambda>members.
           req_collect (\<lambda>membership.
             req_then (reads E (\<lambda>db. get_user_by_id db (m_user_id membership))) (\<lambda>member.
               req_ok (collaborator_view membership member)))
             (filter (\<lambda>m. m_role m \<noteq> Owner) members)))))"

definition get_home_pins :: "extern \<Rightarrow> platform \<Rightarrow> AppState \<Rightarrow> HeaderMap \<Rightarrow> (CommunityApiError, uuid list) action" where
  "get_home_pins E P A headers =
     req_then (require_instance_administrator E P A headers) (\<lambda>_.
       repository_task (reads E (\<lambda>db. Inr (map pin_document_id (list_home_pins db)))))"

section \<open>Blogs and settings\<close>

record CreateBlogInput =
  bi_handle :: rstr
  bi_title :: rstr
  bi_description :: "rstr option"
  bi_theme_preset :: ThemeProfile

definition create_blog ::
  "extern \<Rightarrow> platform \<Rightarrow> AppState \<Rightarrow> HeaderMap \<Rightarrow> CreateBlogInput \<Rightarrow> (CommunityApiError, BlogSummary) action" where
  "create_blog E P A headers input =
     req_then (require_user E P A headers) (\<lambda>user.
     req_then (req_of (validate_handle (bi_handle input) ''blog handle'')) (\<lambda>_.
     req_then (req_of (validate_text (bi_title input) ''blog title'' 100)) (\<lambda>title.
     req_then (req_of (map_transpose (\<lambda>v. validate_text v ''blog description'' 240) (bi_description input))) (\<lambda>description.
     req_then begin_public_mutation (\<lambda>_.
     req_then (repository_task (
       req_then (reads E (\<lambda>db. case get_admin_control_plane db of
            Inr control \<Rightarrow> Inr (cp_owner_user_id control = u_id user \<and> \<not> cp_setup_complete control)
          | Inl e \<Rightarrow> if e = NotFound then Inr False else Inl e)) (\<lambda>setup_pending.
       if setup_pending
       then repo E (\<lambda>env db. complete_primary_owner_setup (te_now env 0) (te_now env 1) (te_now env 2) (u_id user)
              (bi_handle input) title description (bi_theme_preset input) db)
       else
         req_then (reads E (\<lambda>db. Inr (list_owned_sites db (u_id user) 1))) (\<lambda>owned.
         if owned \<noteq> [] then req_err (Validation ''an account can own one blog in this deployment'')
         else repo E (\<lambda>env db. create_site (te_id env 0) (te_now env 0) (u_id user) (bi_handle input) title description
                (bi_theme_preset input) db))))) (\<lambda>site.
       req_ok (blog_summary site user (app_site_id A))))))))"

record UpdateStudioSettingsInput =
  ui_theme_preset :: ThemeProfile
  ui_custom_css :: "rstr update"

definition update_studio_settings ::
  "extern \<Rightarrow> platform \<Rightarrow> AppState \<Rightarrow> HeaderMap \<Rightarrow> UpdateStudioSettingsInput \<Rightarrow> (CommunityApiError, StudioSettings) action" where
  "update_studio_settings E P A headers input =
     req_then (require_user E P A headers) (\<lambda>user.
     req_then (owner_studio_access E A (u_id user)) (\<lambda>access.
     req_then (req_of (reject_if (\<not> app_custom_css_enabled A \<and> upd_provided (ui_custom_css input))
        (BadRequest ''custom CSS is disabled for this deployment''))) (\<lambda>_.
     req_then begin_public_mutation (\<lambda>_.
     req_then (if upd_provided (ui_custom_css input)
         then repository_task (repo E (\<lambda>env db. change_site_appearance (te_now env 0) (u_id user) (site_id (sa_site access))
                (ui_theme_preset input) (upd_value (ui_custom_css input)) db))
         else repository_task (repo E (\<lambda>env db. change_site_theme (te_now env 0) (u_id user) (site_id (sa_site access))
                (ui_theme_preset input) db))) (\<lambda>site.
       req_ok (studio_settings site (app_custom_css_enabled A)))))))"

definition add_studio_collaborator ::
  "extern \<Rightarrow> platform \<Rightarrow> AppState \<Rightarrow> HeaderMap \<Rightarrow> rstr \<Rightarrow> SiteMembershipRole \<Rightarrow> (CommunityApiError, CollaboratorView) action" where
  "add_studio_collaborator E P A headers email role =
     req_then (require_user E P A headers) (\<lambda>user.
     req_then (owner_studio_access E A (u_id user)) (\<lambda>access.
     req_then (req_of (validate_email email)) (\<lambda>email.
       repository_task (
         req_then (repo E (\<lambda>env db.
            add_site_collaborator (te_now env 0) (u_id user) (site_id (sa_site access)) email role db)) (\<lambda>membership.
         req_then (reads E (\<lambda>db. get_user_by_id db (m_user_id membership))) (\<lambda>member.
           req_ok (collaborator_view membership member)))))))"

definition remove_studio_collaborator ::
  "extern \<Rightarrow> platform \<Rightarrow> AppState \<Rightarrow> HeaderMap \<Rightarrow> uuid \<Rightarrow> (CommunityApiError, CollaboratorView) action" where
  "remove_studio_collaborator E P A headers collaborator =
     req_then (require_user E P A headers) (\<lambda>user.
     req_then (owner_studio_access E A (u_id user)) (\<lambda>access.
       repository_task (
         req_then (repo E (\<lambda>env db.
            remove_site_collaborator (u_id user) (site_id (sa_site access)) collaborator db)) (\<lambda>membership.
         req_then (reads E (\<lambda>db. get_user_by_id db (m_user_id membership))) (\<lambda>member.
           req_ok (collaborator_view membership member))))))"

section \<open>Categories and series\<close>

definition create_studio_category ::
  "extern \<Rightarrow> platform \<Rightarrow> AppState \<Rightarrow> HeaderMap \<Rightarrow> CreateCategoryInput \<Rightarrow> (CommunityApiError, CategorySummary) action" where
  "create_studio_category E P A headers input =
     req_then (require_user E P A headers) (\<lambda>user.
     req_then (owner_studio_access E A (u_id user)) (\<lambda>access.
     req_then (req_of (reject_if (category_slug_conflicts_with_article_route (cc_slug input) (app_article_base_path A))
        (BadRequest ''category slug conflicts with the configured article route''))) (\<lambda>_.
     req_then begin_public_mutation (\<lambda>_.
     req_then (repository_task (repo E (\<lambda>env db.
        create_category (te_id env 0) (te_now env 0) (u_id user) (site_id (sa_site access)) input db))) (\<lambda>category.
       req_ok (category_summary category))))))"

definition update_studio_category ::
  "extern \<Rightarrow> platform \<Rightarrow> AppState \<Rightarrow> HeaderMap \<Rightarrow> uuid \<Rightarrow> UpdateCategoryInput \<Rightarrow> (CommunityApiError, CategorySummary) action" where
  "update_studio_category E P A headers category input =
     req_then (require_user E P A headers) (\<lambda>user.
     req_then (owner_studio_access E A (u_id user)) (\<lambda>access.
     req_then begin_public_mutation (\<lambda>_.
     req_then (repository_task (repo E (\<lambda>env db.
        update_category (te_now env 0) (u_id user) (site_id (sa_site access)) category input db))) (\<lambda>category.
       req_ok (category_summary category)))))"

definition archive_studio_category ::
  "extern \<Rightarrow> platform \<Rightarrow> AppState \<Rightarrow> HeaderMap \<Rightarrow> uuid \<Rightarrow> (CommunityApiError, CategorySummary) action" where
  "archive_studio_category E P A headers category =
     req_then (require_user E P A headers) (\<lambda>user.
     req_then (owner_studio_access E A (u_id user)) (\<lambda>access.
     req_then begin_public_mutation (\<lambda>_.
     req_then (repository_task (repo E (\<lambda>env db.
        archive_category (te_now env 0) (u_id user) (site_id (sa_site access)) category db))) (\<lambda>category.
       req_ok (category_summary category)))))"

definition create_studio_series ::
  "extern \<Rightarrow> platform \<Rightarrow> AppState \<Rightarrow> HeaderMap \<Rightarrow> CreateCategoryInput \<Rightarrow> (CommunityApiError, SeriesSummary) action" where
  "create_studio_series E P A headers input =
     req_then (require_user E P A headers) (\<lambda>user.
     req_then (owner_studio_access E A (u_id user)) (\<lambda>access.
     req_then (req_of (reject_if (category_slug_conflicts_with_article_route (cc_slug input) (app_article_base_path A))
        (BadRequest ''series slug conflicts with the configured article route''))) (\<lambda>_.
     req_then begin_public_mutation (\<lambda>_.
     req_then (repository_task (repo E (\<lambda>env db.
        create_series (te_id env 0) (te_id env 1) (te_now env 0) (te_now env 1) (u_id user) (site_id (sa_site access)) input db))) (\<lambda>s.
       req_ok (series_summary s))))))"

definition promote_studio_category_to_series ::
  "extern \<Rightarrow> platform \<Rightarrow> AppState \<Rightarrow> HeaderMap \<Rightarrow> uuid \<Rightarrow> (CommunityApiError, SeriesSummary) action" where
  "promote_studio_category_to_series E P A headers category =
     req_then (require_user E P A headers) (\<lambda>user.
     req_then (owner_studio_access E A (u_id user)) (\<lambda>access.
     req_then begin_public_mutation (\<lambda>_.
     req_then (repository_task (repo E (\<lambda>env db.
        promote_category_to_series (te_id env 0) (te_now env 0) (u_id user) (site_id (sa_site access)) category db))) (\<lambda>s.
       req_ok (series_summary s)))))"

definition update_studio_series ::
  "extern \<Rightarrow> platform \<Rightarrow> AppState \<Rightarrow> HeaderMap \<Rightarrow> uuid \<Rightarrow> UpdateCategoryInput \<Rightarrow> (CommunityApiError, SeriesSummary) action" where
  "update_studio_series E P A headers i input =
     req_then (require_user E P A headers) (\<lambda>user.
     req_then (owner_studio_access E A (u_id user)) (\<lambda>access.
     req_then begin_public_mutation (\<lambda>_.
     req_then (repository_task (repo E (\<lambda>env db.
        update_series (te_now env 0) (u_id user) (site_id (sa_site access)) i input db))) (\<lambda>s.
       req_ok (series_summary s)))))"

definition archive_studio_series ::
  "extern \<Rightarrow> platform \<Rightarrow> AppState \<Rightarrow> HeaderMap \<Rightarrow> uuid \<Rightarrow> (CommunityApiError, SeriesSummary) action" where
  "archive_studio_series E P A headers i =
     req_then (require_user E P A headers) (\<lambda>user.
     req_then (owner_studio_access E A (u_id user)) (\<lambda>access.
     req_then begin_public_mutation (\<lambda>_.
     req_then (repository_task (repo E (\<lambda>env db.
        archive_series (te_now env 0) (u_id user) (site_id (sa_site access)) i db))) (\<lambda>s.
       req_ok (series_summary s)))))"

definition replace_studio_series_order ::
  "extern \<Rightarrow> platform \<Rightarrow> AppState \<Rightarrow> HeaderMap \<Rightarrow> uuid \<Rightarrow> uuid list \<Rightarrow> (CommunityApiError, StudioDocumentView list) action" where
  "replace_studio_series_order E P A headers i ids =
     req_then (require_user E P A headers) (\<lambda>user.
     req_then (owner_studio_access E A (u_id user)) (\<lambda>access.
     req_then begin_public_mutation (\<lambda>_.
       repository_task (
         req_then (repo E (\<lambda>env db.
            replace_series_order (te_now env 0) (u_id user) (site_id (sa_site access)) i ids db)) (\<lambda>_.
         req_then (reads E (\<lambda>db. list_published_in_series db (site_id (sa_site access)) i 500)) (\<lambda>found.
           req_collect (studio_document_view E) found))))))"

section \<open>Documents, comments and pins\<close>

definition create_studio_document ::
  "extern \<Rightarrow> platform \<Rightarrow> AppState \<Rightarrow> HeaderMap \<Rightarrow> StudioDocumentInput \<Rightarrow> (CommunityApiError, StudioDocumentView) action" where
  "create_studio_document E P A headers input =
     req_then (require_user E P A headers) (\<lambda>user.
     req_then (studio_access E A (u_id user)) (\<lambda>access.
     req_then (req_of (checked_embeds A (di_embeds input))) (\<lambda>_.
       repository_task (
         req_then (repo E (\<lambda>env db. create_document_in_writable_site_with_category E (te_id env 0) (te_id env 1) (te_now env 0)
            (u_id user) (new_document P (site_id (sa_site access)) user input) (di_category_id input) db)) (\<lambda>document.
         req_then (reads E (\<lambda>db. get_document_in_writable_site db (u_id user) (doc_site_id document) (doc_id document)))
           (studio_document_view E))))))"

definition create_studio_revision ::
  "extern \<Rightarrow> platform \<Rightarrow> AppState \<Rightarrow> HeaderMap \<Rightarrow> uuid \<Rightarrow> StudioRevisionInput \<Rightarrow> (CommunityApiError, StudioDocumentView) action" where
  "create_studio_revision E P A headers document input =
     req_then (require_user E P A headers) (\<lambda>user.
     req_then (studio_access E A (u_id user)) (\<lambda>access.
     req_then (req_of (checked_embeds A (vi_embeds input))) (\<lambda>_.
     let proposal = \<lparr>prop_document_id = document, prop_base_revision_id = vi_base_revision_id input,
            prop_title = vi_title input, prop_slug = vi_slug input, prop_source_markdown = vi_source_markdown input,
            prop_embeds = vi_embeds input, prop_intent = vi_intent input, prop_ontology = vi_ontology input,
            prop_ai_summary = vi_ai_summary input, prop_authorship = vi_authorship input,
            prop_actor = revision_actor P user, prop_idempotency_key = vi_idempotency_key input\<rparr>;
         category = (if upd_provided (vi_category_id input) then Some (upd_value (vi_category_id input)) else None) in
       repository_task (
         req_then (repo E (\<lambda>env db. revise_document_in_writable_site_with_category E (te_id env 0) (te_now env 0)
            (u_id user) (site_id (sa_site access)) proposal category db)) (\<lambda>_.
         req_then (reads E (\<lambda>db. get_document_in_writable_site db (u_id user) (site_id (sa_site access)) document))
           (studio_document_view E))))))"

definition publish_studio_document ::
  "extern \<Rightarrow> platform \<Rightarrow> AppState \<Rightarrow> HeaderMap \<Rightarrow> uuid \<Rightarrow> uuid \<Rightarrow> (CommunityApiError, StudioDocumentView) action" where
  "publish_studio_document E P A headers document revision =
     req_then (require_user E P A headers) (\<lambda>user.
     req_then (owner_studio_access E A (u_id user)) (\<lambda>access.
     req_then begin_public_mutation (\<lambda>_.
       repository_task (
         req_then (repo E (\<lambda>env db. publish_document_in_owned_site (te_now env 0) (u_id user) (site_id (sa_site access))
            document revision db))
           (studio_document_view E)))))"

definition preview_studio ::
  "extern \<Rightarrow> platform \<Rightarrow> AppState \<Rightarrow> HeaderMap \<Rightarrow> StudioDocumentInput \<Rightarrow> (CommunityApiError, PublishArtifact) action" where
  "preview_studio E P A headers input =
     req_then (require_user E P A headers) (\<lambda>user.
     req_then (studio_access E A (u_id user)) (\<lambda>access.
     req_then (req_of (checked_embeds A (di_embeds input))) (\<lambda>_.
     let input = new_document P (site_id (sa_site access)) user input in
     req_then (req_of (map_err (\<lambda>e. BadRequest (content_error_text e)) (validate_new_document E input))) (\<lambda>_.
     req_then (ask (\<lambda>env. Inr (te_id env 0, te_id env 1, te_now env 0))) (\<lambda>(rid, i, now).
       req_ok (pf_render_revision P (with_computed_hash E
         \<lparr>rev_schema_version = CONTENT_SCHEMA_VERSION, rev_id = rid, rev_document_id = i, rev_revision_number = 1,
          rev_parent_revision_id = None, rev_title = new_title input, rev_slug = new_slug input,
          rev_source_markdown = new_source_markdown input, rev_embeds = new_embeds input,
          rev_intent = new_intent input, rev_ontology = new_ontology input, rev_ai_summary = new_ai_summary input,
          rev_authorship = new_authorship input, rev_actor = new_actor input, rev_content_hash = [],
          rev_created_at = now\<rparr>) IntentView))))))"

fun comment_error_text :: "CommentError \<Rightarrow> string" where
  "comment_error_text InvalidAuthor = ''comment author reference is invalid''"
| "comment_error_text InvalidBody = ''comment body is invalid''"
| "comment_error_text InvalidTransition = ''comment moderation transition is invalid''"

definition create_member_comment ::
  "extern \<Rightarrow> platform \<Rightarrow> AppState \<Rightarrow> HeaderMap \<Rightarrow> uuid \<Rightarrow> rstr \<Rightarrow> (CommunityApiError, CommentView) action" where
  "create_member_comment E P A headers i markdown =
     req_then (require_user E P A headers) (\<lambda>user.
     req_then begin_public_mutation (\<lambda>_.
     req_then (repository_task (
       req_then (reads E (\<lambda>db. get_published_document_by_id db i)) (\<lambda>document.
       req_then (reads E (\<lambda>db. get_site_by_id db (doc_site_id document))) (\<lambda>_.
       req_then (req_of (map_err (\<lambda>e. Validation (comment_error_text e)) (validate_submission
          \<lparr>sub_site_id = doc_site_id document, sub_document_id = doc_id document,
           sub_author_reference = pf_uuid_text P (u_id user), sub_source_markdown = markdown\<rparr>))) (\<lambda>_.
         repo E (\<lambda>env db. create_comment (te_id env 0) (te_now env 0) (u_id user) (doc_site_id document) (doc_id document)
           markdown db)))))) (\<lambda>comment.
       req_ok (comment_view P comment user True))))"

definition replace_pins ::
  "extern \<Rightarrow> platform \<Rightarrow> AppState \<Rightarrow> HeaderMap \<Rightarrow> uuid list \<Rightarrow> (CommunityApiError, uuid list) action" where
  "replace_pins E P A headers ids =
     req_then (require_instance_administrator E P A headers) (\<lambda>administrator.
     req_then begin_public_mutation (\<lambda>_.
     req_then (repository_task (repo E (\<lambda>env db. replace_home_pins (te_now env 0) (u_id administrator) ids db))) (\<lambda>pins.
       req_ok (map pin_document_id pins))))"

section \<open>The router\<close>

datatype private_read =
    SessionRequest
  | ListDocuments
  | GetDocument uuid
  | ListCategories
  | ListSeries
  | ListSeriesItems uuid
  | GetSettings
  | ListCollaborators
  | GetHomePins

datatype auth_mutation =
    Register RegisterInput
  | Login LoginInput
  | Logout

datatype taxonomy_mutation =
    CreateStudioCategory CreateCategoryInput
  | UpdateStudioCategory uuid UpdateCategoryInput
  | ArchiveStudioCategory uuid
  | CreateStudioSeries CreateCategoryInput
  | PromoteStudioSeries uuid
  | UpdateStudioSeries uuid UpdateCategoryInput
  | ArchiveStudioSeries uuid
  | ReplaceStudioSeriesOrder uuid "uuid list"

datatype studio_mutation =
    CreateBlog CreateBlogInput
  | UpdateSettings UpdateStudioSettingsInput
  | AddStudioCollaborator rstr SiteMembershipRole
  | RemoveStudioCollaborator uuid
  | CreateStudioDocument StudioDocumentInput
  | CreateStudioRevision uuid StudioRevisionInput
  | PublishStudioDocument uuid uuid
  | PreviewStudio StudioDocumentInput
  | PostComment uuid rstr
  | ReplacePins "uuid list"
  | Taxonomy taxonomy_mutation

text \<open>The three groups of routes.\<close>

datatype community_request = PrivateRead private_read | PublicAuthMutation auth_mutation | AuthenticatedMutation studio_mutation

datatype community_response =
    SessionAnswer SessionPayload
  | CookieAnswer SessionPayload rstr
  | DocumentAnswer StudioDocumentView
  | DocumentsAnswer "StudioDocumentView list"
  | CategoryAnswer CategorySummary
  | CategoriesAnswer "CategorySummary list"
  | SeriesAnswer SeriesSummary
  | SeriesListAnswer "SeriesSummary list"
  | SettingsAnswer StudioSettings
  | CollaboratorAnswer CollaboratorView
  | CollaboratorsAnswer "CollaboratorView list"
  | PinsAnswer "uuid list"
  | BlogAnswer BlogSummary
  | PreviewAnswer PublishArtifact
  | CommentAnswer CommentView

definition req_map :: "('a \<Rightarrow> 'b) \<Rightarrow> ('e, 'a) action \<Rightarrow> ('e, 'b) action" where
  "req_map f m = req_then m (\<lambda>x. req_ok (f x))"

primrec read_handler :: "extern \<Rightarrow> platform \<Rightarrow> AppState \<Rightarrow> HeaderMap \<Rightarrow> private_read \<Rightarrow> (CommunityApiError, community_response) action" where
  "read_handler E P A headers SessionRequest = req_map SessionAnswer (session_handler E P A headers)"
| "read_handler E P A headers ListDocuments = req_map DocumentsAnswer (list_studio_documents E P A headers)"
| "read_handler E P A headers (GetDocument i) = req_map DocumentAnswer (get_studio_document E P A headers i)"
| "read_handler E P A headers ListCategories = req_map CategoriesAnswer (list_studio_categories E P A headers)"
| "read_handler E P A headers ListSeries = req_map SeriesListAnswer (list_studio_series E P A headers)"
| "read_handler E P A headers (ListSeriesItems i) = req_map DocumentsAnswer (list_studio_series_items E P A headers i)"
| "read_handler E P A headers GetSettings = req_map SettingsAnswer (get_studio_settings E P A headers)"
| "read_handler E P A headers ListCollaborators = req_map CollaboratorsAnswer (list_studio_collaborators E P A headers)"
| "read_handler E P A headers GetHomePins = req_map PinsAnswer (get_home_pins E P A headers)"

primrec auth_handler :: "extern \<Rightarrow> platform \<Rightarrow> AppState \<Rightarrow> HeaderMap \<Rightarrow> auth_mutation \<Rightarrow> (CommunityApiError, community_response) action" where
  "auth_handler E P A headers (Register input) = req_map (case_prod CookieAnswer) (register E P A input)"
| "auth_handler E P A headers (Login input) = req_map (case_prod CookieAnswer) (login E P A input)"
| "auth_handler E P A headers Logout = req_map (case_prod CookieAnswer) (logout E P A headers)"

primrec taxonomy_handler :: "extern \<Rightarrow> platform \<Rightarrow> AppState \<Rightarrow> HeaderMap \<Rightarrow> taxonomy_mutation \<Rightarrow> (CommunityApiError, community_response) action" where
  "taxonomy_handler E P A headers (CreateStudioCategory input) = req_map CategoryAnswer (create_studio_category E P A headers input)"
| "taxonomy_handler E P A headers (UpdateStudioCategory i input) = req_map CategoryAnswer (update_studio_category E P A headers i input)"
| "taxonomy_handler E P A headers (ArchiveStudioCategory i) = req_map CategoryAnswer (archive_studio_category E P A headers i)"
| "taxonomy_handler E P A headers (CreateStudioSeries input) = req_map SeriesAnswer (create_studio_series E P A headers input)"
| "taxonomy_handler E P A headers (PromoteStudioSeries i) = req_map SeriesAnswer (promote_studio_category_to_series E P A headers i)"
| "taxonomy_handler E P A headers (UpdateStudioSeries i input) = req_map SeriesAnswer (update_studio_series E P A headers i input)"
| "taxonomy_handler E P A headers (ArchiveStudioSeries i) = req_map SeriesAnswer (archive_studio_series E P A headers i)"
| "taxonomy_handler E P A headers (ReplaceStudioSeriesOrder i ids) =
     req_map DocumentsAnswer (replace_studio_series_order E P A headers i ids)"

primrec studio_handler :: "extern \<Rightarrow> platform \<Rightarrow> AppState \<Rightarrow> HeaderMap \<Rightarrow> studio_mutation \<Rightarrow> (CommunityApiError, community_response) action" where
  "studio_handler E P A headers (CreateBlog input) = req_map BlogAnswer (create_blog E P A headers input)"
| "studio_handler E P A headers (UpdateSettings input) = req_map SettingsAnswer (update_studio_settings E P A headers input)"
| "studio_handler E P A headers (AddStudioCollaborator email role) =
     req_map CollaboratorAnswer (add_studio_collaborator E P A headers email role)"
| "studio_handler E P A headers (RemoveStudioCollaborator user) =
     req_map CollaboratorAnswer (remove_studio_collaborator E P A headers user)"
| "studio_handler E P A headers (CreateStudioDocument input) = req_map DocumentAnswer (create_studio_document E P A headers input)"
| "studio_handler E P A headers (CreateStudioRevision i input) = req_map DocumentAnswer (create_studio_revision E P A headers i input)"
| "studio_handler E P A headers (PublishStudioDocument i revision) =
     req_map DocumentAnswer (publish_studio_document E P A headers i revision)"
| "studio_handler E P A headers (PreviewStudio input) = req_map PreviewAnswer (preview_studio E P A headers input)"
| "studio_handler E P A headers (PostComment i markdown) = req_map CommentAnswer (create_member_comment E P A headers i markdown)"
| "studio_handler E P A headers (ReplacePins ids) = req_map PinsAnswer (replace_pins E P A headers ids)"
| "studio_handler E P A headers (Taxonomy q) = taxonomy_handler E P A headers q"

text \<open>The routes that exist.\<close>

definition registered :: "AppState \<Rightarrow> community_request \<Rightarrow> bool" where
  "registered A q =
     (case q of
        PublicAuthMutation (Register _) \<Rightarrow> app_local_auth_enabled A
      | PublicAuthMutation (Login _) \<Rightarrow> app_local_auth_enabled A
      | PrivateRead ListCollaborators \<Rightarrow> app_collaboration_enabled A
      | AuthenticatedMutation (AddStudioCollaborator _ _) \<Rightarrow> app_collaboration_enabled A
      | AuthenticatedMutation (RemoveStudioCollaborator _) \<Rightarrow> app_collaboration_enabled A
      | AuthenticatedMutation (PostComment _ _) \<Rightarrow> app_comments_enabled A
      | PrivateRead GetHomePins \<Rightarrow> is_active A ''home_curation''
      | AuthenticatedMutation (ReplacePins _) \<Rightarrow> is_active A ''home_curation''
      | _ \<Rightarrow> True)"

text \<open>A route with the guards of its group.\<close>

primrec community_route ::
  "extern \<Rightarrow> platform \<Rightarrow> AppState \<Rightarrow> HeaderMap \<Rightarrow> community_request \<Rightarrow> (CommunityApiError, community_response) action" where
  "community_route E P A headers (PrivateRead q) = read_handler E P A headers q"
| "community_route E P A headers (PublicAuthMutation q) =
     origin_guard A headers (delivery_guard A (auth_handler E P A headers q))"
| "community_route E P A headers (AuthenticatedMutation q) =
     origin_guard A headers (delivery_guard A (authenticated_user_guard E P A headers (studio_handler E P A headers q)))"

text \<open>A request without a route is answered by the fallback, here \<open>None\<close>.\<close>

definition community_serve ::
  "extern \<Rightarrow> platform \<Rightarrow> AppState \<Rightarrow> HeaderMap \<Rightarrow> community_request \<Rightarrow> server \<Rightarrow>
   (CommunityApiError + community_response) option \<times> server" where
  "community_serve E P A headers q s =
     (if registered A q then apfst Some (community_route E P A headers q s) else (None, s))"

end
