(* ===== verification/Admin_Api.thy ===== *)
theory Admin_Api
  imports Request
begin

text \<open>
  The routes of \<open>apps/server/src/main.rs\<close> for the primary site: the owner works with an
  administration session, the MCP server with a bearer token that opens six routes.
\<close>

section \<open>Principals\<close>

datatype MutationPrincipal = HumanOwner | McpAgent

datatype ApiError =
    AdminUnauthorized
  | AdminReadOnly
  | AdminBadRequest string
  | AdminRepository RepositoryError
  | AdminInternal string
  | AdminServiceUnavailable string
  | AdminUpstream string

fun principal_actor :: "MutationPrincipal \<Rightarrow> RevisionActor" where
  "principal_actor HumanOwner = \<lparr>actor_kind = RevisionHuman, actor_id = lit ''owner'', actor_display_name = None\<rparr>"
| "principal_actor McpAgent = \<lparr>actor_kind = RevisionAgent, actor_id = lit ''osb-mcp'', actor_display_name = None\<rparr>"

fun resolve_authorship :: "MutationPrincipal \<Rightarrow> PublicAuthorship option \<Rightarrow> ApiError + PublicAuthorship" where
  "resolve_authorship McpAgent None =
     Inl (AdminBadRequest ''MCP create and revise requests require explicit public authorship'')"
| "resolve_authorship _ (Some authorship) = Inr authorship"
| "resolve_authorship HumanOwner None = Inr default_authorship"

datatype http_method = GET | POST | OtherMethod

definition strip_prefix :: "rstr \<Rightarrow> rstr \<Rightarrow> rstr option" where
  "strip_prefix p s = (if starts_with s p then Some (drop (length p) s) else None)"

definition strip_suffix :: "rstr \<Rightarrow> rstr \<Rightarrow> rstr option" where
  "strip_suffix p s = (if ends_with s p then Some (take (length s - length p) s) else None)"

definition uuid_path :: "platform \<Rightarrow> rstr \<Rightarrow> string \<Rightarrow> string \<Rightarrow> bool" where
  "uuid_path P path prefix suffix =
     (case Option.bind (strip_prefix (lit prefix) path) (strip_suffix (lit suffix)) of
        None \<Rightarrow> False
      | Some segment \<Rightarrow> segment \<noteq> [] \<and> 47 \<notin> set segment \<and> pf_uuid_parse P segment \<noteq> None)"

fun mcp_content_route :: "platform \<Rightarrow> http_method \<Rightarrow> rstr \<Rightarrow> bool" where
  "mcp_content_route P GET path =
     (path = lit ''/api/v1/admin/documents''
      \<or> uuid_path P path ''/api/v1/admin/documents/'' ''''
      \<or> uuid_path P path ''/api/v1/admin/documents/'' ''/revisions'')"
| "mcp_content_route P POST path =
     (path = lit ''/api/v1/posts''
      \<or> uuid_path P path ''/api/v1/documents/'' ''/revisions''
      \<or> uuid_path P path ''/api/v1/documents/'' ''/publish'')"
| "mcp_content_route P OtherMethod path = False"

definition bearer_token_hash :: "platform \<Rightarrow> HeaderMap \<Rightarrow> byte list option" where
  "bearer_token_hash P headers =
     map_option (\<lambda>provided. pf_sha256 P (as_bytes provided))
       (Option.bind (header_text (hdr_authorization headers)) (strip_prefix (lit ''Bearer '')))"

definition admin_task :: "(RepositoryError, 'a) action \<Rightarrow> (ApiError, 'a) action" where
  "admin_task m = req_map_err AdminRepository m"

text \<open>Whether the cookie carries a session of the primary owner; an error counts as no.\<close>

definition owner_authenticated :: "extern \<Rightarrow> platform \<Rightarrow> HeaderMap \<Rightarrow> (ApiError, bool) action" where
  "owner_authenticated E P headers =
     (case session_hash_from_headers P headers of
        None \<Rightarrow> req_ok False
      | Some h \<Rightarrow> admin_task (repo E (\<lambda>env db. (Inr (is_ok (get_primary_owner_session db (te_now env 0) h)), db))))"

definition require_admin ::
  "extern \<Rightarrow> platform \<Rightarrow> AppState \<Rightarrow> HeaderMap \<Rightarrow> http_method \<Rightarrow> rstr \<Rightarrow> (ApiError, MutationPrincipal) action" where
  "require_admin E P A headers meth path =
     (if app_delivery_only A \<or> app_admin_auth_mode A = RuntimeDisabled then req_err AdminReadOnly
      else req_then (owner_authenticated E P headers) (\<lambda>authenticated.
        if authenticated then req_ok HumanOwner
        else (case bearer_token_hash P headers of
            Some provided \<Rightarrow>
              if mcp_content_route P meth path \<and> app_mcp_token_hash A = Some provided then req_ok McpAgent
              else req_err AdminUnauthorized
          | None \<Rightarrow> req_err AdminUnauthorized)))"

section \<open>Handlers\<close>

record CreatePostRequest =
  np_title :: rstr
  np_slug :: rstr
  np_source_markdown :: rstr
  np_embeds :: "EmbedReference list"
  np_intent :: "IntentLayer option"
  np_ontology :: "OntologySidecar option"
  np_ai_summary :: "AiSummary option"
  np_authorship :: "PublicAuthorship option"

record ProposeRevisionRequest =
  pr_base_revision_id :: uuid
  pr_title :: rstr
  pr_slug :: rstr
  pr_source_markdown :: rstr
  pr_embeds :: "EmbedReference list"
  pr_intent :: "IntentLayer option"
  pr_ontology :: "OntologySidecar option"
  pr_ai_summary :: "AiSummary option"
  pr_authorship :: "PublicAuthorship option"
  pr_idempotency_key :: "rstr option"

definition admin_embeds :: "AppState \<Rightarrow> EmbedReference list \<Rightarrow> ApiError + unit" where
  "admin_embeds A embeds =
     (if is_active A ''social_embeds'' then map_err AdminBadRequest (validate_official_embeds embeds) else Inr ())"

definition create_post ::
  "extern \<Rightarrow> AppState \<Rightarrow> MutationPrincipal \<Rightarrow> CreatePostRequest \<Rightarrow> (ApiError, DocumentSnapshot) action" where
  "create_post E A who input =
     req_then (req_of (admin_embeds A (np_embeds input))) (\<lambda>_.
     req_then (req_of (resolve_authorship who (np_authorship input))) (\<lambda>authorship.
     let document = \<lparr>new_site_id = app_site_id A, new_title = np_title input, new_slug = np_slug input,
           new_source_markdown = np_source_markdown input, new_embeds = np_embeds input, new_intent = np_intent input,
           new_ontology = np_ontology input, new_ai_summary = np_ai_summary input, new_authorship = authorship,
           new_actor = principal_actor who\<rparr> in
     req_then begin_public_mutation (\<lambda>_.
       admin_task (
         req_then (repo E (\<lambda>env db. ensure_legacy_site (new_site_id document) (te_now env 0) db)) (\<lambda>_.
           repo E (\<lambda>env db. create_document E (te_id env 0) (te_id env 1) (te_now env 0) document db))))))"

text \<open>The document must belong to the primary site.\<close>

definition in_primary_site :: "extern \<Rightarrow> AppState \<Rightarrow> uuid \<Rightarrow> (RepositoryError, DocumentSnapshot) action" where
  "in_primary_site E A i =
     req_then (reads E (\<lambda>db. get_document db i)) (\<lambda>document.
       if doc_site_id document \<noteq> app_site_id A then req_err NotFound else req_ok document)"

definition propose_revision ::
  "extern \<Rightarrow> AppState \<Rightarrow> MutationPrincipal \<Rightarrow> uuid \<Rightarrow> ProposeRevisionRequest \<Rightarrow> (ApiError, RevisionSnapshot) action" where
  "propose_revision E A who i input =
     req_then (req_of (admin_embeds A (pr_embeds input))) (\<lambda>_.
     req_then (req_of (resolve_authorship who (pr_authorship input))) (\<lambda>authorship.
     let proposal = \<lparr>prop_document_id = i, prop_base_revision_id = pr_base_revision_id input, prop_title = pr_title input,
           prop_slug = pr_slug input, prop_source_markdown = pr_source_markdown input, prop_embeds = pr_embeds input,
           prop_intent = pr_intent input, prop_ontology = pr_ontology input, prop_ai_summary = pr_ai_summary input,
           prop_authorship = authorship, prop_actor = principal_actor who,
           prop_idempotency_key = pr_idempotency_key input\<rparr> in
       admin_task (
         req_then (in_primary_site E A i) (\<lambda>_.
           repo E (\<lambda>env db. append_revision E (te_id env 0) (te_now env 0) proposal db)))))"

definition ai2ai_proposal :: "extern \<Rightarrow> AppState \<Rightarrow> Ai2AiEnvelope \<Rightarrow> (ApiError, RevisionSnapshot) action" where
  "ai2ai_proposal E A envelope =
     (if \<not> is_active A ''ai_authorship'' then req_err (AdminRepository NotFound)
      else req_then (ask (\<lambda>env. map_err (\<lambda>e. AdminBadRequest (ai_error_text e)) (validate_envelope E (te_now env 0) envelope))) (\<lambda>_.
        req_then (req_of (admin_embeds A (prop_embeds (env_proposal envelope)))) (\<lambda>_.
          admin_task (
            req_then (in_primary_site E A (prop_document_id (env_proposal envelope))) (\<lambda>_.
              repo E (\<lambda>env db. append_ai_proposal E (te_id env 0) (te_now env 0) (te_now env 1) envelope db))))))"

definition publish_revision :: "extern \<Rightarrow> AppState \<Rightarrow> uuid \<Rightarrow> uuid \<Rightarrow> (ApiError, DocumentSnapshot) action" where
  "publish_revision E A i revision =
     req_then begin_public_mutation (\<lambda>_.
       admin_task (
         req_then (in_primary_site E A i) (\<lambda>_.
           repo E (\<lambda>env db. publish i revision (te_now env 0) db))))"

definition list_admin_documents :: "extern \<Rightarrow> AppState \<Rightarrow> (ApiError, DocumentSnapshot list) action" where
  "list_admin_documents E A = admin_task (reads E (\<lambda>db. list_documents db (app_site_id A) 500))"

definition get_admin_document :: "extern \<Rightarrow> AppState \<Rightarrow> uuid \<Rightarrow> (ApiError, DocumentSnapshot) action" where
  "get_admin_document E A i = admin_task (in_primary_site E A i)"

definition list_admin_revisions :: "extern \<Rightarrow> AppState \<Rightarrow> uuid \<Rightarrow> (ApiError, RevisionSnapshot list) action" where
  "list_admin_revisions E A i =
     admin_task (req_then (in_primary_site E A i) (\<lambda>_. reads E (\<lambda>db. list_revisions db i 1000)))"

section \<open>Routes\<close>

text \<open>A request names the raw segment of its path where the route has a parameter.\<close>

datatype admin_request =
    ListAdminDocuments
  | GetAdminDocument rstr
  | ListAdminRevisions rstr
  | CreatePost CreatePostRequest
  | ProposeRevision rstr ProposeRevisionRequest
  | PublishPrimary rstr uuid
  | Ai2AiProposal Ai2AiEnvelope

datatype admin_response =
    DocumentSnapshots "DocumentSnapshot list"
  | OneDocument DocumentSnapshot
  | RevisionSnapshots "RevisionSnapshot list"
  | OneRevision RevisionSnapshot

fun admin_route :: "admin_request \<Rightarrow> http_method \<times> rstr" where
  "admin_route ListAdminDocuments = (GET, lit ''/api/v1/admin/documents'')"
| "admin_route (GetAdminDocument i) = (GET, lit ''/api/v1/admin/documents/'' @ i)"
| "admin_route (ListAdminRevisions i) = (GET, lit ''/api/v1/admin/documents/'' @ i @ lit ''/revisions'')"
| "admin_route (CreatePost _) = (POST, lit ''/api/v1/posts'')"
| "admin_route (ProposeRevision i _) = (POST, lit ''/api/v1/documents/'' @ i @ lit ''/revisions'')"
| "admin_route (PublishPrimary i _) = (POST, lit ''/api/v1/documents/'' @ i @ lit ''/publish'')"
| "admin_route (Ai2AiProposal _) = (POST, lit ''/api/v1/ai2ai/proposals'')"

text \<open>The extractor of a UUID in the path answers 400 itself.\<close>

definition with_path_uuid :: "platform \<Rightarrow> rstr \<Rightarrow> (uuid \<Rightarrow> (ApiError, 'a) action) \<Rightarrow> (ApiError, 'a) action" where
  "with_path_uuid P segment run =
     (case pf_path_uuid P segment of None \<Rightarrow> req_err (AdminBadRequest ''Invalid URL'') | Some i \<Rightarrow> run i)"

definition as_response :: "('a \<Rightarrow> admin_response) \<Rightarrow> (ApiError, 'a) action \<Rightarrow> (ApiError, admin_response) action" where
  "as_response f m = req_then m (\<lambda>x. req_ok (f x))"

fun admin_handler ::
  "extern \<Rightarrow> platform \<Rightarrow> AppState \<Rightarrow> MutationPrincipal \<Rightarrow> admin_request \<Rightarrow> (ApiError, admin_response) action" where
  "admin_handler E P A who ListAdminDocuments = as_response DocumentSnapshots (list_admin_documents E A)"
| "admin_handler E P A who (GetAdminDocument i) = with_path_uuid P i (\<lambda>i. as_response OneDocument (get_admin_document E A i))"
| "admin_handler E P A who (ListAdminRevisions i) =
     with_path_uuid P i (\<lambda>i. as_response RevisionSnapshots (list_admin_revisions E A i))"
| "admin_handler E P A who (CreatePost input) = as_response OneDocument (create_post E A who input)"
| "admin_handler E P A who (ProposeRevision i input) =
     with_path_uuid P i (\<lambda>i. as_response OneRevision (propose_revision E A who i input))"
| "admin_handler E P A who (PublishPrimary i revision) =
     with_path_uuid P i (\<lambda>i. as_response OneDocument (publish_revision E A i revision))"
| "admin_handler E P A who (Ai2AiProposal envelope) = as_response OneRevision (ai2ai_proposal E A envelope)"

definition admin_guard ::
  "extern \<Rightarrow> platform \<Rightarrow> AppState \<Rightarrow> HeaderMap \<Rightarrow> admin_request \<Rightarrow> (MutationPrincipal \<Rightarrow> (ApiError, 'a) action) \<Rightarrow>
   (ApiError, 'a) action" where
  "admin_guard E P A headers q run =
     (let (meth, path) = admin_route q in
      if meth \<noteq> GET \<and> \<not> request_origin_is_valid A headers then req_err AdminUnauthorized
      else req_then (require_admin E P A headers meth path) run)"

definition admin_serve ::
  "extern \<Rightarrow> platform \<Rightarrow> AppState \<Rightarrow> HeaderMap \<Rightarrow> admin_request \<Rightarrow> (ApiError, admin_response) action" where
  "admin_serve E P A headers q = admin_guard E P A headers q (\<lambda>who. admin_handler E P A who q)"

end
