(* ===== verification/Api_Authority.thy ===== *)
theory Api_Authority
  imports Request_Logic Studio_Routes Admin_Api
begin

text \<open>
  What requests may do to the repository: the policies of the members' routes and of the routes
  for the primary site, and that every handler obeys its policy.
\<close>

section \<open>The policy of members' requests\<close>

text \<open>The cookie of the request named a live session at one of the request's own steps.\<close>

definition session_at :: "platform \<Rightarrow> HeaderMap \<Rightarrow> trace \<Rightarrow> SessionRecord \<Rightarrow> bool" where
  "session_at P headers tr session \<longleftrightarrow>
     (\<exists>h now. session_hash_from_headers P headers = Some h \<and> seen tr (\<lambda>db db'. get_session db now h = Inr session))"

definition enabled_session :: "platform \<Rightarrow> AppState \<Rightarrow> HeaderMap \<Rightarrow> trace \<Rightarrow> bool" where
  "enabled_session P A headers tr \<longleftrightarrow>
     (\<exists>session. session_at P headers tr session \<and> method_enabled A (ss_auth_method session))"

definition known_user :: "platform \<Rightarrow> AppState \<Rightarrow> HeaderMap \<Rightarrow> uuid \<Rightarrow> trace \<Rightarrow> bool" where
  "known_user P A headers user tr \<longleftrightarrow>
     enabled_session P A headers tr \<and> (\<exists>session. session_at P headers tr session \<and> ss_user_id session = user)"

text \<open>The calls a user may cause: those that act for the user.\<close>

definition on_behalf :: "uuid \<Rightarrow> repo_call \<Rightarrow> bool" where
  "on_behalf user call \<longleftrightarrow>
     (\<exists>site owner. acts_for call = Some (user, site, owner))
     \<or> (\<exists>i now handle title description theme. call = CreateSite i now user handle title description theme)
     \<or> (\<exists>now now' now'' handle title description theme.
          call = AdminCall (CompleteOwnerSetup now now' now'' user handle title description theme))
     \<or> (\<exists>i now site doc markdown. call = AdminCall (CreateComment i now user site doc markdown))
     \<or> (\<exists>now ids. call = AdminCall (ReplaceHomePins now user ids))"

text \<open>The calls made without the cache mutation guard.\<close>

definition unguarded_call :: "repo_call \<Rightarrow> bool" where
  "unguarded_call call =
     (case call of
        CreateInCategory _ _ _ _ _ _ \<Rightarrow> True
      | ReviseInCategory _ _ _ _ _ _ \<Rightarrow> True
      | AppendRevision _ _ _ \<Rightarrow> True
      | AppendAiProposal _ _ _ _ \<Rightarrow> True
      | AddCollaborator _ _ _ _ _ \<Rightarrow> True
      | RemoveCollaborator _ _ _ \<Rightarrow> True
      | CreateUser _ _ _ _ _ _ \<Rightarrow> True
      | AdminCall (CreateSession _ _ _ _ _ _ _) \<Rightarrow> True
      | AdminCall (RevokeSession _ _) \<Rightarrow> True
      | _ \<Rightarrow> False)"

definition member_policy :: "platform \<Rightarrow> AppState \<Rightarrow> HeaderMap \<Rightarrow> trace \<Rightarrow> bool \<Rightarrow> repo_call \<Rightarrow> bool" where
  "member_policy P A headers tr g call \<longleftrightarrow>
     (g \<or> unguarded_call call) \<and> (\<exists>user. known_user P A headers user tr \<and> on_behalf user call)"

interpretation member: request_policy E "member_policy P A headers" for E P A headers .

lemma session_at_append: "session_at P headers tr session \<Longrightarrow> session_at P headers (tr @ later) session"
  unfolding session_at_def by auto

lemma enabled_session_append: "enabled_session P A headers tr \<Longrightarrow> enabled_session P A headers (tr @ later)"
  unfolding enabled_session_def using session_at_append by blast

lemma known_user_append: "known_user P A headers user tr \<Longrightarrow> known_user P A headers user (tr @ later)"
  unfolding known_user_def using session_at_append enabled_session_append by blast

lemmas knowledge_append = session_at_append enabled_session_append known_user_append

lemma stable_known [intro!]: "stable (\<lambda>tr g. known_user P A headers user tr)"
  unfolding stable_def using known_user_append by blast

lemma stable_known_guarded [intro!]: "stable (\<lambda>tr g. known_user P A headers user tr \<and> g)"
  using stable_known unfolding stable_def by blast

lemma get_user_by_id_sel: "get_user_by_id db i = Inr user \<Longrightarrow> u_id user = i"
  by (auto simp: get_user_by_id_def load_user_by_id_def ok_or_eq_Inr dest: row_where_Some)

context request_policy
begin

lemma pure: "obeys E allowed K (req_of r) (\<lambda>_. K)"
  by (rule obeys_of)

lemma obeys_given:
  "(\<And>x. r = Inr x \<Longrightarrow> obeys E allowed K (k x) R) \<Longrightarrow> obeys E allowed K (req_then (req_of r) k) R"
  by (cases r) (auto simp: obeys_def req_then_def req_of_def)

lemma asked: "obeys E allowed K (ask f) (\<lambda>_. K)"
  by (rule obeys_ask)

lemma obeys_prod: "(\<And>a b. obeys E allowed K (k a b) R) \<Longrightarrow> obeys E allowed K (case x of (a, b) \<Rightarrow> k a b) R"
  by (cases x) simp

lemma obeys_option:
  "obeys E allowed K m R \<Longrightarrow> (\<And>x. obeys E allowed K (k x) R) \<Longrightarrow>
   obeys E allowed K (case found of None \<Rightarrow> m | Some x \<Rightarrow> k x) R"
  by (cases found) simp_all

lemma finished: "obeys E allowed K (req_of r) (\<lambda>_ _ _. True)"
  by (rule obeys_of) simp

lemma forgets: "obeys E allowed K m R \<Longrightarrow> obeys E allowed K m (\<lambda>_ _ _. True)"
  by (erule obeys_weaken) simp_all

lemma resolve_session_obeys:
  "obeys E allowed K (resolve_session_user E P A headers)
     (\<lambda>found tr g. case found of None \<Rightarrow> True | Some session \<Rightarrow> known_user P A headers (u_id (rs_user session)) tr)"
proof (cases "app_delivery_only A \<or> session_hash_from_headers P headers = None")
  case True
  then show ?thesis unfolding resolve_session_user_def by (auto intro!: obeys_of split: option.splits)
next
  case False
  then obtain h where h: "session_hash_from_headers P headers = Some h" "\<not> app_delivery_only A" by auto
  let ?at = "\<lambda>session tr (g :: bool). session_at P headers tr session"
  have live: "obeys E allowed K (repo E (\<lambda>env db. (get_session db (te_now env 0) h, db))) ?at"
    by (rule obeys_repo) (auto simp: session_at_def h)
  have user: "obeys E allowed (?at session) (if \<not> method_enabled A (ss_auth_method session) then req_err NotFound
      else req_then (reads E (\<lambda>db. get_user_by_id db (ss_user_id session))) (\<lambda>user.
        req_ok \<lparr>rs_user = user, rs_instance_administrator = (ss_auth_method session \<noteq> LegacySession)\<rparr>))
      (\<lambda>found tr g. known_user P A headers (u_id (rs_user found)) tr)" for session
  proof (cases "method_enabled A (ss_auth_method session)")
    case True
    have read: "obeys E allowed (?at session) (reads E (\<lambda>db. get_user_by_id db (ss_user_id session)))
        (\<lambda>user tr g. known_user P A headers (u_id user) tr)"
      by (rule obeys_reads) (use True in \<open>auto simp: known_user_def enabled_session_def dest!: get_user_by_id_sel dest: session_at_append\<close>)
    show ?thesis using True by (auto intro!: obeys_then [OF read] obeys_of)
  next
    case False
    then show ?thesis by (auto intro!: obeys_of)
  qed
  show ?thesis
    unfolding resolve_session_user_def using h by (simp, intro obeys_optional obeys_then [OF live] user)
qed

lemma require_user_obeys:
  "obeys E allowed K (require_user E P A headers) (\<lambda>user tr g. known_user P A headers (u_id user) tr)"
  unfolding require_user_def
  by (rule obeys_then [OF pure], rule obeys_then [OF resolve_session_obeys], rule obeys_of)
    (auto simp: ok_or_eq_Inr)

lemma require_instance_administrator_obeys:
  "obeys E allowed (\<lambda>tr g. enabled_session P A headers tr) (require_instance_administrator E P A headers)
     (\<lambda>user tr g. known_user P A headers (u_id user) tr)"
proof -
  let ?at = "\<lambda>session tr (g :: bool). enabled_session P A headers tr \<and> session_at P headers tr session"
  have stable_at: "stable (?at session)" for session
    unfolding stable_def using knowledge_append by blast
  have live: "obeys E allowed (\<lambda>tr g. enabled_session P A headers tr)
      (repo E (\<lambda>env db. (get_session db (te_now env 0) h, db))) ?at"
    if "session_hash_from_headers P headers = Some h" for h
    by (rule obeys_repo) (use that in \<open>auto simp: session_at_def intro: enabled_session_append\<close>)
  have user: "obeys E allowed (?at session) (reads E (\<lambda>db. get_user_by_id db (ss_user_id session)))
      (\<lambda>user tr g. known_user P A headers (u_id user) tr)" for session
    by (rule obeys_reads)
      (auto simp: known_user_def dest!: get_user_by_id_sel dest: session_at_append intro: enabled_session_append)
  have owner: "obeys E allowed (?at session) (case session_method (cp_auth_mode control) of
         None \<Rightarrow> req_err NotFound
       | Some expected \<Rightarrow>
           if ss_user_id session \<noteq> cp_owner_user_id control \<or> ss_auth_method session \<noteq> expected
           then req_err NotFound else reads E (\<lambda>db. get_user_by_id db (ss_user_id session)))
      (\<lambda>user tr g. known_user P A headers (u_id user) tr)" for session control
    by (cases "session_method (cp_auth_mode control)"; simp only: option.case; intro obeys_if obeys_of user; simp)
  show ?thesis
    unfolding require_instance_administrator_def
    by (intro obeys_given obeys_map_err obeys_task, unfold ok_or_eq_Inr)
      (rule obeys_then [OF live], assumption, rule obeys_then [OF obeys_read [OF stable_at]], rule owner)
qed

lemma first_site_obeys: "stable K \<Longrightarrow> obeys E allowed K (first_site E A user) (\<lambda>_. K)"
  unfolding first_site_def by (rule obeys_then [OF obeys_read pure])

lemma studio_access_obeys: "stable K \<Longrightarrow> obeys E allowed K (studio_access E A user) (\<lambda>_. K)"
  unfolding studio_access_def
  by (intro obeys_map_err obeys_task obeys_then [OF first_site_obeys] obeys_then [OF pure] obeys_then [OF obeys_read] pure)

lemma owner_studio_access_obeys: "stable K \<Longrightarrow> obeys E allowed K (owner_studio_access E A user) (\<lambda>_. K)"
  unfolding owner_studio_access_def by (intro obeys_then [OF studio_access_obeys] obeys_if pure)

lemma studio_document_view_obeys: "stable K \<Longrightarrow> obeys E allowed K (studio_document_view E document) (\<lambda>_. K)"
  unfolding studio_document_view_def by (rule obeys_then [OF obeys_read pure])

lemma guarded: "obeys E allowed (\<lambda>tr g. F tr) begin_public_mutation (\<lambda>_ tr g. F tr \<and> g)"
  by (rule obeys_begin) simp

end

section \<open>The handlers of members\<close>

lemma member_allows_guarded:
  "known_user P A headers user tr \<and> g \<Longrightarrow> on_behalf user call \<Longrightarrow> member_policy P A headers tr g call"
  by (auto simp: member_policy_def)

lemma member_allows_unguarded:
  "known_user P A headers user tr \<Longrightarrow> on_behalf user call \<Longrightarrow> unguarded_call call \<Longrightarrow> member_policy P A headers tr g call"
  by (auto simp: member_policy_def)

lemma acting_calls:
  "acts_for call = Some (user, site, owner) \<Longrightarrow> on_behalf user call"
  "on_behalf user (CreateSite i now user handle title description theme)"
  "on_behalf user (AdminCall (CompleteOwnerSetup now now' now'' user handle title description theme))"
  "on_behalf user (AdminCall (CreateComment i now user site doc markdown))"
  "on_behalf user (AdminCall (ReplaceHomePins now user ids))"
  by (auto simp: on_behalf_def)

lemma unguarded_calls:
  "unguarded_call (CreateInCategory i rid now actor doc cat)"
  "unguarded_call (ReviseInCategory rid now actor site proposal selection)"
  "unguarded_call (AppendRevision rid now proposal)"
  "unguarded_call (AppendAiProposal rid checked now envelope)"
  "unguarded_call (AddCollaborator now owner site email role)"
  "unguarded_call (RemoveCollaborator owner site collaborator)"
  "unguarded_call (CreateUser i now email handle name phc)"
  "unguarded_call (AdminCall (CreateSession i checked checked' now user hash expires))"
  "unguarded_call (AdminCall (RevokeSession now hash))"
  by (simp_all add: unguarded_call_def)

text \<open>The rules that take a handler apart, in the order they are tried.\<close>

lemmas member_rules = stable_known stable_known_guarded
  member_allows_guarded member_allows_unguarded unguarded_calls acting_calls(2-) acting_calls(1) acts_for.simps
  member.obeys_then [OF member.require_user_obeys] member.obeys_then [OF member.require_instance_administrator_obeys]
  member.obeys_then [OF member.owner_studio_access_obeys] member.obeys_then [OF member.studio_access_obeys]
  member.obeys_given member.obeys_then [OF member.guarded] member.obeys_task
  member.operations_obey member.obeys_read
  member.finished member.forgets [OF member.studio_document_view_obeys]
  member.forgets [OF member.obeys_collect [OF member.studio_document_view_obeys]] member.obeys_if member.obeys_prod member.asked member.obeys_then
  member.forgets [OF member.operations_obey(14)] member.forgets [OF member.operations_obey(16)]
  member.forgets [OF member.operations_obey(17)] member.forgets [OF member.operations_obey(18)]

lemma create_studio_category_obeys:
  "obeys E (member_policy P A headers) K (create_studio_category E P A headers input) (\<lambda>_ _ _. True)"
  unfolding create_studio_category_def Let_def by (rule member_rules | assumption)+

lemma update_studio_category_obeys:
  "obeys E (member_policy P A headers) K (update_studio_category E P A headers i input) (\<lambda>_ _ _. True)"
  unfolding update_studio_category_def Let_def by (rule member_rules | assumption)+

lemma archive_studio_category_obeys:
  "obeys E (member_policy P A headers) K (archive_studio_category E P A headers i) (\<lambda>_ _ _. True)"
  unfolding archive_studio_category_def Let_def by (rule member_rules | assumption)+

lemma create_studio_series_obeys:
  "obeys E (member_policy P A headers) K (create_studio_series E P A headers input) (\<lambda>_ _ _. True)"
  unfolding create_studio_series_def Let_def by (rule member_rules | assumption)+

lemma promote_studio_category_to_series_obeys:
  "obeys E (member_policy P A headers) K (promote_studio_category_to_series E P A headers i) (\<lambda>_ _ _. True)"
  unfolding promote_studio_category_to_series_def Let_def by (rule member_rules | assumption)+

lemma update_studio_series_obeys:
  "obeys E (member_policy P A headers) K (update_studio_series E P A headers i input) (\<lambda>_ _ _. True)"
  unfolding update_studio_series_def Let_def by (rule member_rules | assumption)+

lemma archive_studio_series_obeys:
  "obeys E (member_policy P A headers) K (archive_studio_series E P A headers i) (\<lambda>_ _ _. True)"
  unfolding archive_studio_series_def Let_def by (rule member_rules | assumption)+

lemma replace_studio_series_order_obeys:
  "obeys E (member_policy P A headers) K (replace_studio_series_order E P A headers i ids) (\<lambda>_ _ _. True)"
  unfolding replace_studio_series_order_def Let_def by (rule member_rules | assumption)+

lemma update_studio_settings_obeys:
  "obeys E (member_policy P A headers) K (update_studio_settings E P A headers input) (\<lambda>_ _ _. True)"
  unfolding update_studio_settings_def Let_def by (rule member_rules | assumption)+

lemma add_studio_collaborator_obeys:
  "obeys E (member_policy P A headers) K (add_studio_collaborator E P A headers email role) (\<lambda>_ _ _. True)"
  unfolding add_studio_collaborator_def Let_def by (rule member_rules | assumption)+

lemma remove_studio_collaborator_obeys:
  "obeys E (member_policy P A headers) K (remove_studio_collaborator E P A headers user) (\<lambda>_ _ _. True)"
  unfolding remove_studio_collaborator_def Let_def by (rule member_rules | assumption)+

lemma create_studio_document_obeys:
  "obeys E (member_policy P A headers) K (create_studio_document E P A headers document) (\<lambda>_ _ _. True)"
  unfolding create_studio_document_def Let_def by (rule member_rules | assumption)+

lemma create_studio_revision_obeys:
  "obeys E (member_policy P A headers) K (create_studio_revision E P A headers i input) (\<lambda>_ _ _. True)"
  unfolding create_studio_revision_def Let_def by (rule member_rules | assumption)+

lemma publish_studio_document_obeys:
  "obeys E (member_policy P A headers) K (publish_studio_document E P A headers i rid) (\<lambda>_ _ _. True)"
  unfolding publish_studio_document_def Let_def by (rule member_rules | assumption)+

lemma preview_studio_obeys:
  "obeys E (member_policy P A headers) K (preview_studio E P A headers document) (\<lambda>_ _ _. True)"
  unfolding preview_studio_def Let_def by (rule member_rules | assumption)+

lemma create_member_comment_obeys:
  "obeys E (member_policy P A headers) K (create_member_comment E P A headers i markdown) (\<lambda>_ _ _. True)"
  unfolding create_member_comment_def Let_def by (rule member_rules | assumption)+

lemma create_blog_obeys:
  "obeys E (member_policy P A headers) K (create_blog E P A headers input) (\<lambda>_ _ _. True)"
  unfolding create_blog_def Let_def by (rule member_rules | assumption)+

lemma replace_pins_obeys:
  "obeys E (member_policy P A headers) (\<lambda>tr g. enabled_session P A headers tr) (replace_pins E P A headers ids) (\<lambda>_ _ _. True)"
  unfolding replace_pins_def by (rule member_rules | assumption)+

lemmas studio_obeys = update_studio_settings_obeys add_studio_collaborator_obeys remove_studio_collaborator_obeys
  create_studio_document_obeys create_studio_revision_obeys publish_studio_document_obeys preview_studio_obeys
  create_member_comment_obeys create_blog_obeys replace_pins_obeys

lemmas taxonomy_obeys = create_studio_category_obeys update_studio_category_obeys archive_studio_category_obeys
  create_studio_series_obeys promote_studio_category_to_series_obeys update_studio_series_obeys
  archive_studio_series_obeys replace_studio_series_order_obeys

lemma taxonomy_handler_obeys:
  "obeys E (member_policy P A headers) K (taxonomy_handler E P A headers q) (\<lambda>_ _ _. True)"
  by (cases q; simp only: taxonomy_handler.simps req_map_def; rule member.obeys_then, rule taxonomy_obeys, rule member.finished)

lemma studio_handler_obeys:
  "obeys E (member_policy P A headers) (\<lambda>tr g. enabled_session P A headers tr) (studio_handler E P A headers q) (\<lambda>_ _ _. True)"
  by (cases q; simp only: studio_handler.simps req_map_def; (rule taxonomy_handler_obeys)?;
    (rule member.obeys_then, rule studio_obeys)?; rule member.finished)

section \<open>Reads\<close>

interpretation silent: request_policy E "\<lambda>_ _ _. False" for E .

section \<open>Accounts\<close>

text \<open>
  A login may open a session for the account whose stored password hash accepted the password; a
  registration may add an account and open a session for it; a logout may end the own session.
\<close>

definition password_checked :: "platform \<Rightarrow> LoginInput \<Rightarrow> trace \<Rightarrow> uuid \<Rightarrow> bool" where
  "password_checked P input tr user \<longleftrightarrow>
     (\<exists>email u. validate_email (li_email input) = Inr email \<and> seen tr (\<lambda>db db'. find_user_by_email db email = Inr u)
        \<and> u_id u = user \<and> pf_verify_password P (u_password_phc u) (li_password input) = Inr True)"

definition account_added :: "trace \<Rightarrow> uuid \<Rightarrow> bool" where
  "account_added tr user \<longleftrightarrow>
     seen tr (\<lambda>db db'. (\<forall>u \<in> set (users db). u_id u \<noteq> user) \<and> (\<exists>u \<in> set (users db'). u_id u = user))"

definition opens_session :: "(uuid \<Rightarrow> bool) \<Rightarrow> repo_call \<Rightarrow> bool" where
  "opens_session who call \<longleftrightarrow>
     (\<exists>i checked checked' now user hash expires.
        call = AdminCall (CreateSession i checked checked' now user hash expires) \<and> who user)"

definition auth_policy :: "platform \<Rightarrow> AppState \<Rightarrow> HeaderMap \<Rightarrow> auth_mutation \<Rightarrow> trace \<Rightarrow> bool \<Rightarrow> repo_call \<Rightarrow> bool" where
  "auth_policy P A headers q tr g call =
     (case q of
        Register input \<Rightarrow> app_registration_open A
          \<and> ((\<exists>i now email name phc. call = CreateUser i now email (ri_handle input) name phc
                 \<and> validate_email (ri_email input) = Inr email)
              \<or> opens_session (account_added tr) call)
      | Login input \<Rightarrow> opens_session (password_checked P input tr) call
      | Logout \<Rightarrow> \<exists>now h. session_hash_from_headers P headers = Some h \<and> call = AdminCall (RevokeSession now h))"

interpretation auth: request_policy E "auth_policy P A headers q" for E P A headers q .

context request_policy
begin

lemma session_payload_obeys: "stable K \<Longrightarrow> obeys E allowed K (session_payload E A session) (\<lambda>_. K)"
  unfolding session_payload_def Let_def
  by (cases session; simp only: option.case)
    ((rule pure obeys_if obeys_then [OF obeys_task] obeys_then [OF obeys_read] obeys_then [OF first_site_obeys] obeys_prod
       | assumption | (rule obeys_option))+)

lemma authenticated_response_obeys:
  assumes "stable K"
    and "\<And>tr g i checked checked' now hash expires. K tr g \<Longrightarrow>
      allowed tr g (AdminCall (CreateSession i checked checked' now (u_id user) hash expires))"
  shows "obeys E allowed K (authenticated_response E P A user) (\<lambda>_. K)"
  unfolding authenticated_response_def Let_def
  by (rule obeys_then [OF asked], rule obeys_prod, rule obeys_then [OF obeys_task [OF create_session_obeys [OF assms]]], assumption,
      rule obeys_then [OF session_payload_obeys [OF assms(1)]], rule pure)

end

lemma stable_checked: "stable (\<lambda>tr g. password_checked P input tr user)" "stable (\<lambda>tr g. account_added tr user)"
  unfolding stable_def password_checked_def account_added_def by auto

lemma create_user_Inr:
  assumes "create_user i now email handle name phc db = (Inr user, db')"
  shows "u_id user = i \<and> (\<forall>u \<in> set (users db). u_id u \<noteq> i) \<and> (\<exists>u \<in> set (users db'). u_id u = i)"
  using assms
  by (auto simp: create_user_def load_user_by_id_def and_then_eq_Inr map_err_eq_Inr ok_or_eq_Inr split: sum.splits
      dest!: sql_insert_user_effect dest: row_where_Some)

lemma register_obeys: "obeys E (auth_policy P A headers (Register input)) K (register E P A input) (\<lambda>_ _ _. True)"
proof -
  have added: "obeys E (auth_policy P A headers (Register input)) (\<lambda>_ _. True)
     (repo E (\<lambda>env db. create_user (te_id env 0) (te_now env 0) email (ri_handle input) name phc db))
     (\<lambda>user tr g. account_added tr (u_id user))"
    if "app_registration_open A" "validate_email (ri_email input) = Inr email" for email name phc
  proof (rule auth.obeys_repo)
    show "snd (create_user (te_id env 0) (te_now env 0) email (ri_handle input) name phc db) = db
      \<or> (\<exists>call. auth_policy P A headers (Register input) tr g call
          \<and> snd (create_user (te_id env 0) (te_now env 0) email (ri_handle input) name phc db) = perform E call db)" for env db tr g
      using that by (intro disjI2 exI [of _ "CreateUser (te_id env 0) (te_now env 0) email (ri_handle input) name phc"])
        (auto simp: auth_policy_def)
  qed (simp add: account_added_def, metis create_user_Inr)
  have open_session: "obeys E (auth_policy P A headers (Register input)) (\<lambda>tr g. account_added tr (u_id user))
      (authenticated_response E P A user) (\<lambda>_ _ _. True)" if "app_registration_open A" for user
    by (rule auth.forgets [OF auth.authenticated_response_obeys [OF stable_checked(2)]])
      (use that in \<open>auto simp: auth_policy_def opens_session_def\<close>)
  show ?thesis
    unfolding register_def Let_def hash_password_def
    by (rule auth.obeys_given, rule auth.obeys_given, rule auth.obeys_given, rule auth.obeys_then [OF auth.obeys_admit],
        rule TrueI, rule auth.obeys_given, rule auth.obeys_given, rule auth.obeys_given, rule auth.obeys_then [OF auth.asked],
        rule auth.obeys_then [OF auth.obeys_task [OF added]], simp add: reject_if_eq_Inr, assumption,
        rule auth.obeys_then [OF open_session], simp add: reject_if_eq_Inr, rule auth.obeys_then [OF auth.obeys_forget],
        rule TrueI, rule auth.finished)
qed

lemma login_obeys: "obeys E (auth_policy P A headers (Login input)) K (login E P A input) (\<lambda>_ _ _. True)"
proof -
  let ?found = "\<lambda>email candidate tr (g :: bool).
    case candidate of None \<Rightarrow> True | Some u \<Rightarrow> seen tr (\<lambda>db db'. find_user_by_email db email = Inr u)"
  let ?checked = "\<lambda>user tr (g :: bool). password_checked P input tr (u_id user)"
  have find: "obeys E (auth_policy P A headers (Login input)) (\<lambda>_ _. True)
      (repository_optional (reads E (\<lambda>db. find_user_by_email db email))) (?found email)" for email
    by (rule auth.obeys_optional [OF auth.obeys_reads]) simp
  have verify: "obeys E (auth_policy P A headers (Login input)) (?found email candidate)
      (verify_password P (li_password input) (map_option u_password_phc candidate))
      (\<lambda>verified tr g. ?found email candidate tr g \<and>
         (verified \<longrightarrow> (\<forall>u. candidate = Some u \<longrightarrow> pf_verify_password P (u_password_phc u) (li_password input) = Inr True)))"
    for email candidate
    unfolding verify_password_def by (rule auth.obeys_ask) (auto simp: map_err_eq_Inr split: if_splits)
  have pick: "obeys E (auth_policy P A headers (Login input))
      (\<lambda>tr g. ?found email candidate tr g \<and>
         (verified \<longrightarrow> (\<forall>u. candidate = Some u \<longrightarrow> pf_verify_password P (u_password_phc u) (li_password input) = Inr True)))
      (req_of (ok_or InvalidLogin (if verified then candidate else None))) ?checked"
    if "validate_email (li_email input) = Inr email" for email candidate verified
    by (rule auth.obeys_of) (use that in \<open>auto simp: ok_or_eq_Inr password_checked_def split: if_splits\<close>)
  have open_session: "obeys E (auth_policy P A headers (Login input)) (?checked user)
      (authenticated_response E P A user) (\<lambda>_ _ _. True)" for user
    by (rule auth.forgets [OF auth.authenticated_response_obeys [OF stable_checked(1)]])
      (auto simp: auth_policy_def opens_session_def)
  show ?thesis
    unfolding login_def Let_def
    by (rule auth.obeys_given, rule auth.obeys_given, rule auth.obeys_then [OF auth.obeys_admit], rule TrueI,
        rule auth.obeys_given, rule auth.obeys_then [OF find], rule auth.obeys_then [OF verify],
        rule auth.obeys_then [OF pick], assumption, rule auth.obeys_then [OF open_session],
        rule auth.obeys_then [OF auth.obeys_forget], rule TrueI, rule auth.finished)
qed

lemma logout_obeys: "obeys E (auth_policy P A headers Logout) K (logout E P A headers) (\<lambda>_ _ _. True)"
proof (cases "session_hash_from_headers P headers")
  case None
  then show ?thesis unfolding logout_def by (simp, intro auth.obeys_given auth.finished)
next
  case (Some h)
  have "obeys E (auth_policy P A headers Logout) (\<lambda>_ _. True) (repo E (\<lambda>env db. revoke_session (te_now env 0) h db)) (\<lambda>_ _ _. True)"
    by (rule auth.forgets [OF auth.revoke_session_obeys]) (use Some in \<open>auto simp: stable_def auth_policy_def\<close>)
  then have revoke: "obeys E (auth_policy P A headers Logout) K (repo E (\<lambda>env db. revoke_session (te_now env 0) h db)) (\<lambda>_ _ _. True)"
    by (rule auth.obeys_weaken) simp_all
  show ?thesis unfolding logout_def Some option.case
    by (rule auth.obeys_given, rule auth.obeys_then [OF auth.obeys_then [OF auth.obeys_task [OF revoke]]],
        rule auth.finished, rule auth.finished)
qed

lemma auth_handler_obeys: "obeys E (auth_policy P A headers q) K (auth_handler E P A headers q) (\<lambda>_ _ _. True)"
  by (cases q; simp only: auth_handler.simps req_map_def; rule auth.obeys_then, rule register_obeys login_obeys logout_obeys,
      rule auth.finished)

end
