(* ===== verification/Api_Reads.thy ===== *)
theory Api_Reads
  imports Api_Authority
begin

text \<open>
  The private reads change nothing, and the documents the studio shows belong to a site the user
  of the session is a member of.
\<close>

section \<open>Documents of a site\<close>

lemma load_document_sel:
  assumes inv: "repo_inv E db" and load: "load_document db i sel = Inr x"
    and d: "d \<in> set (documents db)" "d_id d = i"
  shows "doc_site_id x = d_site_id d"
proof -
  have "distinct (map d_id (documents db))" using inv by (simp add: repo_inv_def db_inv_def keys_ok_def)
  then have "row_where (\<lambda>x. d_id x = i) (documents db) = Some d" using row_where_unique d by metis
  with load show ?thesis by (auto simp: load_document_def and_then_eq_Inr ok_or_eq_Inr)
qed

lemma collect_results_all:
  assumes "collect_results f xs = Inr ys" and "\<And>x y. x \<in> set xs \<Longrightarrow> f x = Inr y \<Longrightarrow> Q y"
  shows "\<forall>y \<in> set ys. Q y"
  using assms
proof (induction xs arbitrary: ys)
  case (Cons x xs)
  from Cons.prems(1) obtain y zs where y: "f x = Inr y" "collect_results f xs = Inr zs" "ys = y # zs"
    by (auto simp: and_then_eq_Inr)
  then show ?case using Cons.IH [OF y(2)] Cons.prems(2) by auto
qed simp

lemma writable_documents_in_site:
  assumes inv: "repo_inv E db" and list: "list_documents_in_writable_site db user site limit = Inr found"
  shows "\<forall>d \<in> set found. doc_site_id d = site"
proof -
  have "list_documents_with_selector db (Some site) limit SelectCurrent = Inr found"
    using list by (auto simp: list_documents_in_writable_site_def and_then_eq_Inr)
  then show ?thesis
    unfolding list_documents_with_selector_def Let_def
    by (elim collect_results_all) (auto simp: load_document_sel [OF inv] dest!: in_set_takeD)
qed

lemma writable_document_in_site:
  assumes inv: "repo_inv E db" and get: "get_document_in_writable_site db user site i = Inr found"
  shows "doc_site_id found = site"
  using get by (auto simp: get_document_in_writable_site_def and_then_eq_Inr ensure_document_in_site_def reject_if_eq_Inr
      exists_where_iff load_document_sel [OF inv])

lemma series_documents_in_site:
  assumes inv: "repo_inv E db" and list: "list_published_in_series db site i limit = Inr found"
  shows "\<forall>d \<in> set found. doc_site_id d = site"
proof -
  have "collect_results (\<lambda>x. load_document db (i_document_id x) SelectPublished)
      (list_published_series_items_with_connection db site i limit) = Inr found"
    using list by (auto simp: list_published_in_series_def list_published_in_series_with_connection_def and_then_eq_Inr)
  then show ?thesis
    unfolding list_published_series_items_with_connection_def
    by (elim collect_results_all)
      (auto simp: load_document_sel [OF inv] published_series_item_def exists_where_iff dest!: in_set_takeD)
qed

section \<open>The reads of the studio\<close>

text \<open>The user of the session of this request was seen to be a member of the site of the document.\<close>

definition shown_to_member :: "platform \<Rightarrow> HeaderMap \<Rightarrow> trace \<Rightarrow> DocumentSnapshot \<Rightarrow> bool" where
  "shown_to_member P headers tr document \<longleftrightarrow>
     (\<exists>session. session_at P headers tr session
        \<and> seen tr (\<lambda>db db'. authorized db (ss_user_id session) (doc_site_id document) False))"

definition in_studio :: "platform \<Rightarrow> AppState \<Rightarrow> HeaderMap \<Rightarrow> uuid \<Rightarrow> uuid \<Rightarrow> trace \<Rightarrow> bool" where
  "in_studio P A headers user site tr \<longleftrightarrow>
     known_user P A headers user tr \<and> seen tr (\<lambda>db db'. authorized db user site False)"

lemma stable_in_studio: "stable (\<lambda>tr g. in_studio P A headers user site tr)"
  unfolding stable_def in_studio_def using known_user_append by simp

lemma in_studio_shown: "in_studio P A headers user (doc_site_id document) tr \<Longrightarrow> shown_to_member P headers tr document"
  unfolding in_studio_def known_user_def shown_to_member_def by blast

lemma studio_access_member:
  "obeys E (\<lambda>_ _ _. False) (\<lambda>tr g. known_user P A headers user tr) (studio_access E A user)
     (\<lambda>access tr g. in_studio P A headers user (site_id (sa_site access)) tr)"
proof -
  have member: "obeys E (\<lambda>_ _ _. False) (\<lambda>tr g. known_user P A headers user tr)
     (reads E (\<lambda>db. get_site_membership db user site)) (\<lambda>_ tr g. in_studio P A headers user site tr)" for site
    by (rule silent.obeys_reads)
      (auto simp: in_studio_def known_user_append authorized_def get_site_membership_def load_site_membership_def ok_or_eq_Inr
        dest!: row_where_Some)
  show ?thesis
    unfolding studio_access_def
    by (intro silent.obeys_map_err silent.obeys_task silent.obeys_then [OF silent.first_site_obeys] stable_known
        silent.obeys_given silent.obeys_then [OF member]) (rule silent.obeys_of, auto)
qed

lemma views_obey:
  "stable K \<Longrightarrow> obeys E (\<lambda>_ _ _. False) K (studio_document_view E document) (\<lambda>v tr g. K tr g \<and> sv_document v = document)"
  unfolding studio_document_view_def
  by (rule silent.obeys_then [OF silent.obeys_read], assumption, rule silent.obeys_of) auto

lemma all_views_obey:
  assumes "stable K"
  shows "obeys E (\<lambda>_ _ _. False) K (req_collect (studio_document_view E) found)
     (\<lambda>vs tr g. K tr g \<and> map sv_document vs = found)"
proof (rule silent.obeys_weaken [OF silent.obeys_collect_all [OF views_obey [OF assms]]])
  show "K tr g \<and> map sv_document vs = found"
    if "K tr g \<and> list_all2 (\<lambda>document v. sv_document v = document) found vs" for vs tr g
    using that by (auto simp: list_all2_conv_all_nth intro!: nth_equalityI)
qed

definition answers_members :: "platform \<Rightarrow> HeaderMap \<Rightarrow> StudioDocumentView list \<Rightarrow> knowledge" where
  "answers_members P headers vs tr g \<longleftrightarrow> (\<forall>v \<in> set vs. shown_to_member P headers tr (sv_document v))"

lemma listed_documents:
  assumes "\<And>db found. repo_inv E db \<Longrightarrow> f db = Inr found \<Longrightarrow> \<forall>d \<in> set found. doc_site_id d = site"
  shows "obeys E (\<lambda>_ _ _. False) (\<lambda>tr g. in_studio P A headers user site tr)
     (repository_task (req_then (reads E f) (\<lambda>found. req_collect (studio_document_view E) found))) (answers_members P headers)"
proof -
  let ?K = "\<lambda>found tr (g :: bool). in_studio P A headers user site tr \<and> (\<forall>d \<in> set found. doc_site_id d = site)"
  have read: "obeys E (\<lambda>_ _ _. False) (\<lambda>tr g. in_studio P A headers user site tr) (reads E f) ?K"
    by (rule silent.obeys_reads)
      (use assms stable_in_studio [of P A headers user site] in \<open>auto simp: stable_def dest: reachable_repo_inv\<close>)
  have "stable (?K found)" for found using stable_in_studio [of P A headers user site] by (auto simp: stable_def)
  then have "obeys E (\<lambda>_ _ _. False) (?K found) (req_collect (studio_document_view E) found)
      (\<lambda>vs tr g. ?K found tr g \<and> map sv_document vs = found)" for found
    by (rule all_views_obey)
  then have "obeys E (\<lambda>_ _ _. False) (?K found) (req_collect (studio_document_view E) found) (answers_members P headers)" for found
    by (rule silent.obeys_weaken) (auto simp: answers_members_def intro: in_studio_shown)
  then show ?thesis by (intro silent.obeys_task silent.obeys_then [OF read])
qed

lemma list_studio_documents_obeys:
  "obeys E (\<lambda>_ _ _. False) K (list_studio_documents E P A headers) (answers_members P headers)"
  unfolding list_studio_documents_def
  by (rule silent.obeys_then [OF silent.require_user_obeys], rule silent.obeys_then [OF studio_access_member], rule listed_documents)
    (rule writable_documents_in_site)

lemma list_studio_series_items_obeys:
  "obeys E (\<lambda>_ _ _. False) K (list_studio_series_items E P A headers i) (answers_members P headers)"
  unfolding list_studio_series_items_def
  by (rule silent.obeys_then [OF silent.require_user_obeys], rule silent.obeys_then [OF studio_access_member], rule listed_documents)
    (rule series_documents_in_site)

lemma get_studio_document_obeys:
  "obeys E (\<lambda>_ _ _. False) K (get_studio_document E P A headers i) (\<lambda>v. answers_members P headers [v])"
proof -
  let ?K = "\<lambda>user site found tr (g :: bool). in_studio P A headers user site tr \<and> doc_site_id found = site"
  have read: "obeys E (\<lambda>_ _ _. False) (\<lambda>tr g. in_studio P A headers user site tr)
      (reads E (\<lambda>db. get_document_in_writable_site db user site i)) (?K user site)" for user site
    by (rule silent.obeys_reads)
      (use writable_document_in_site stable_in_studio [of P A headers user site] in \<open>auto simp: stable_def dest: reachable_repo_inv\<close>)
  have view: "obeys E (\<lambda>_ _ _. False) (?K user site found) (studio_document_view E found) (\<lambda>v. answers_members P headers [v])"
    for user site found
    by (rule silent.obeys_weaken [OF views_obey [of "?K user site found"]])
      (use stable_in_studio [of P A headers user site] in \<open>auto simp: stable_def answers_members_def intro: in_studio_shown\<close>)
  show ?thesis
    unfolding get_studio_document_def
    by (rule silent.obeys_then [OF silent.require_user_obeys], rule silent.obeys_then [OF studio_access_member],
        rule silent.obeys_task, rule silent.obeys_then [OF read], rule view)
qed

text \<open>The documents of an answer.\<close>

fun answered_documents :: "community_response \<Rightarrow> DocumentSnapshot list" where
  "answered_documents (DocumentAnswer v) = [sv_document v]"
| "answered_documents (DocumentsAnswer vs) = map sv_document vs"
| "answered_documents _ = []"

definition read_answer :: "platform \<Rightarrow> HeaderMap \<Rightarrow> community_response \<Rightarrow> knowledge" where
  "read_answer P headers r tr g \<longleftrightarrow> (\<forall>d \<in> set (answered_documents r). shown_to_member P headers tr d)"

lemma stable_True: "stable (\<lambda>_ _. True)"
  by (simp add: stable_def)

lemma administrator_read_obeys:
  "stable K \<Longrightarrow> obeys E (\<lambda>_ _ _. False) K (require_instance_administrator E P A headers) (\<lambda>_. K)"
  unfolding require_instance_administrator_def reads_def
  by (intro silent.obeys_given silent.obeys_map_err silent.obeys_task silent.obeys_then [OF silent.obeys_repo [where R = "\<lambda>_. K"]]
      silent.obeys_option silent.obeys_if silent.pure silent.obeys_repo) (auto simp: stable_def)

lemmas silent_rules = stable_True stable_known silent.obeys_then [OF silent.require_user_obeys]
  silent.obeys_then [OF administrator_read_obeys]
  silent.obeys_then [OF silent.owner_studio_access_obeys] silent.obeys_then [OF silent.studio_access_obeys]
  silent.obeys_given silent.obeys_task silent.obeys_read silent.finished silent.pure
  silent.forgets [OF silent.obeys_collect] silent.obeys_then silent.forgets [OF silent.obeys_read]

lemma other_reads_obey:
  "obeys E (\<lambda>_ _ _. False) K (list_studio_categories E P A headers) (\<lambda>_ _ _. True)"
  "obeys E (\<lambda>_ _ _. False) K (list_studio_series E P A headers) (\<lambda>_ _ _. True)"
  "obeys E (\<lambda>_ _ _. False) K (get_studio_settings E P A headers) (\<lambda>_ _ _. True)"
  "obeys E (\<lambda>_ _ _. False) K (list_studio_collaborators E P A headers) (\<lambda>_ _ _. True)"
  "obeys E (\<lambda>_ _ _. False) (\<lambda>_ _. True) (get_home_pins E P A headers) (\<lambda>_ _ _. True)"
  unfolding list_studio_categories_def list_studio_series_def get_studio_settings_def list_studio_collaborators_def
    get_home_pins_def
  by ((rule silent_rules | assumption)+)

lemma session_handler_obeys: "obeys E (\<lambda>_ _ _. False) K (session_handler E P A headers) (\<lambda>_ _ _. True)"
proof -
  have "obeys E (\<lambda>_ _ _. False) K' (session_payload E A found) (\<lambda>_ _ _. True)" for K' found
    by (rule silent.obeys_weaken [OF silent.session_payload_obeys [OF stable_True]]) simp_all
  then show ?thesis unfolding session_handler_def by (rule silent.obeys_then [OF silent.resolve_session_obeys])
qed

lemma answer_obeys:
  assumes "obeys E allowed K m R" and "\<And>x tr g. R x tr g \<Longrightarrow> read_answer P headers (f x) tr g"
  shows "obeys E allowed K (req_map f m) (read_answer P headers)"
  unfolding req_map_def by (rule request_policy.obeys_then [OF assms(1)], rule request_policy.obeys_of) (auto intro: assms(2))

lemma read_handler_obeys:
  "obeys E (\<lambda>_ _ _. False) (\<lambda>_ _. True) (read_handler E P A headers q) (read_answer P headers)"
  by (cases q; simp only: read_handler.simps; rule answer_obeys, rule session_handler_obeys other_reads_obey
      list_studio_documents_obeys get_studio_document_obeys list_studio_series_items_obeys)
    (auto simp: read_answer_def answers_members_def)

section \<open>Serving a member's request\<close>

definition community_policy :: "platform \<Rightarrow> AppState \<Rightarrow> HeaderMap \<Rightarrow> community_request \<Rightarrow> trace \<Rightarrow> bool \<Rightarrow> repo_call \<Rightarrow> bool" where
  "community_policy P A headers q tr g call \<longleftrightarrow>
     \<not> app_delivery_only A \<and> request_origin_is_valid A headers \<and> registered A q \<and> (g \<or> unguarded_call call)
     \<and> (case q of
          PrivateRead _ \<Rightarrow> False
        | PublicAuthMutation m \<Rightarrow> auth_policy P A headers m tr g call
        | AuthenticatedMutation _ \<Rightarrow> \<exists>user. known_user P A headers user tr \<and> on_behalf user call)"

lemma trace_ok_mono:
  "trace_ok E allowed steps \<Longrightarrow> (\<And>tr g call. allowed tr g call \<Longrightarrow> allowed' tr g call) \<Longrightarrow> trace_ok E allowed' steps"
  unfolding trace_ok_def by metis

lemma auth_calls_unguarded: "auth_policy P A headers q tr g call \<Longrightarrow> unguarded_call call"
  by (auto simp: auth_policy_def opens_session_def unguarded_calls split: auth_mutation.splits)

lemma studio_run:
  assumes "reachable E db"
    and "authenticated_user_guard E P A headers (studio_handler E P A headers q) (received db limiter env) = (r, s')"
  shows "reachable E (srv_db s') \<and> trace_ok E (member_policy P A headers) (srv_steps s')"
proof -
  have user: "obeys E (member_policy P A headers) (\<lambda>_ _. True) (require_user E P A headers)
      (\<lambda>_ tr g. enabled_session P A headers tr)"
    by (rule member.obeys_weaken [OF member.require_user_obeys]) (auto simp: known_user_def)
  have "obeys E (member_policy P A headers) (\<lambda>_ _. True)
      (authenticated_user_guard E P A headers (studio_handler E P A headers q)) (\<lambda>_ _ _. True)"
    unfolding authenticated_user_guard_def by (rule member.obeys_then [OF user studio_handler_obeys])
  from member.obeys_run [OF this assms] show ?thesis .
qed

lemma community_run:
  assumes "reachable E db" and "community_serve E P A headers q (received db limiter env) = (r, s')"
  shows "reachable E (srv_db s') \<and> trace_ok E (community_policy P A headers q) (srv_steps s')"
proof (cases "registered A q")
  case False
  with assms show ?thesis by (auto simp: community_serve_def received_def)
next
  case True
  then obtain r' where run: "community_route E P A headers q (received db limiter env) = (r', s')"
    using assms(2) by (auto simp: community_serve_def apfst_def map_prod_def split: prod.splits)
  show ?thesis
  proof (cases q)
    case (PrivateRead x)
    with run have "read_handler E P A headers x (received db limiter env) = (r', s')" by simp
    from silent.obeys_run [OF read_handler_obeys assms(1) this] show ?thesis by (auto elim: trace_ok_mono)
  next
    case (PublicAuthMutation x)
    then show ?thesis
      using run True auth.obeys_run [OF auth_handler_obeys assms(1), of P A headers x limiter env r' s'] assms(1)
      by (auto simp: origin_guard_def delivery_guard_def req_of_def received_def community_policy_def
          elim!: trace_ok_mono intro: auth_calls_unguarded split: if_splits)
  next
    case (AuthenticatedMutation x)
    then show ?thesis
      using run True studio_run [OF assms(1), of P A headers x limiter env r' s'] assms(1)
      by (auto simp: origin_guard_def delivery_guard_def req_of_def received_def community_policy_def member_policy_def
          elim!: trace_ok_mono split: if_splits)
  qed
qed

end
