(* ===== verification/Api_Primary.thy ===== *)
theory Api_Primary
  imports Request_Logic Api_Authority
begin

text \<open>The routes for the primary site obey their policy.\<close>

section \<open>The policy\<close>

text \<open>
  The owner is proved by a session of the primary owner seen at one of the request's steps, the
  agent by the bearer token on one of the six content routes.
\<close>

definition proved_principal ::
  "platform \<Rightarrow> AppState \<Rightarrow> HeaderMap \<Rightarrow> http_method \<times> rstr \<Rightarrow> MutationPrincipal \<Rightarrow> trace \<Rightarrow> bool" where
  "proved_principal P A headers route who tr =
     (case who of
        HumanOwner \<Rightarrow> \<exists>h now. session_hash_from_headers P headers = Some h
          \<and> seen tr (\<lambda>db db'. is_ok (get_primary_owner_session db now h))
      | McpAgent \<Rightarrow> (\<exists>provided. bearer_token_hash P headers = Some provided \<and> app_mcp_token_hash A = Some provided)
          \<and> mcp_content_route P (fst route) (snd route))"

definition of_primary_site :: "AppState \<Rightarrow> uuid \<Rightarrow> trace \<Rightarrow> bool" where
  "of_primary_site A i tr \<longleftrightarrow>
     seen tr (\<lambda>db db'. \<exists>d \<in> set (documents db). d_id d = i \<and> d_site_id d = app_site_id A)"

fun primary_call :: "platform \<Rightarrow> AppState \<Rightarrow> MutationPrincipal \<Rightarrow> admin_request \<Rightarrow> trace \<Rightarrow> repo_call \<Rightarrow> bool" where
  "primary_call P A who (CreatePost input) tr call \<longleftrightarrow>
     (\<exists>now. call = EnsureLegacySite (app_site_id A) now)
     \<or> (\<exists>i rid now doc. call = CreateDocument i rid now doc \<and> new_site_id doc = app_site_id A
          \<and> new_actor doc = principal_actor who \<and> resolve_authorship who (np_authorship input) = Inr (new_authorship doc))"
| "primary_call P A who (ProposeRevision segment input) tr call \<longleftrightarrow>
     (\<exists>i rid now proposal. call = AppendRevision rid now proposal \<and> pf_path_uuid P segment = Some i
        \<and> prop_document_id proposal = i \<and> of_primary_site A i tr \<and> prop_actor proposal = principal_actor who
        \<and> resolve_authorship who (pr_authorship input) = Inr (prop_authorship proposal))"
| "primary_call P A who (PublishPrimary segment revision) tr call \<longleftrightarrow>
     (\<exists>i now. call = PublishRevision i revision now \<and> pf_path_uuid P segment = Some i \<and> of_primary_site A i tr)"
| "primary_call P A who (Ai2AiProposal envelope) tr call \<longleftrightarrow>
     is_active A ''ai_authorship'' \<and> of_primary_site A (prop_document_id (env_proposal envelope)) tr
     \<and> (\<exists>rid checked received. call = AppendAiProposal rid checked received envelope)"
| "primary_call P A who _ tr call \<longleftrightarrow> False"

definition primary_policy :: "platform \<Rightarrow> AppState \<Rightarrow> HeaderMap \<Rightarrow> admin_request \<Rightarrow> trace \<Rightarrow> bool \<Rightarrow> repo_call \<Rightarrow> bool" where
  "primary_policy P A headers q tr g call \<longleftrightarrow>
     \<not> app_delivery_only A \<and> app_admin_auth_mode A \<noteq> RuntimeDisabled \<and> request_origin_is_valid A headers
     \<and> (g \<or> unguarded_call call)
     \<and> (\<exists>who. proved_principal P A headers (admin_route q) who tr \<and> primary_call P A who q tr call)"

interpretation primary: request_policy E "primary_policy P A headers q" for E P A headers q .

section \<open>The handlers\<close>

lemma primary_append:
  "proved_principal P A headers route who tr \<Longrightarrow> proved_principal P A headers route who (tr @ later)"
  "of_primary_site A i tr \<Longrightarrow> of_primary_site A i (tr @ later)"
  by (auto simp: proved_principal_def of_primary_site_def split: MutationPrincipal.splits)

text \<open>What is known after the guard.\<close>

definition admitted :: "platform \<Rightarrow> AppState \<Rightarrow> HeaderMap \<Rightarrow> admin_request \<Rightarrow> MutationPrincipal \<Rightarrow> trace \<Rightarrow> bool" where
  "admitted P A headers q who tr \<longleftrightarrow>
     \<not> app_delivery_only A \<and> app_admin_auth_mode A \<noteq> RuntimeDisabled
     \<and> (fst (admin_route q) \<noteq> GET \<longrightarrow> request_origin_is_valid A headers)
     \<and> proved_principal P A headers (admin_route q) who tr"

lemma stable_admitted:
  "stable (\<lambda>tr g. admitted P A headers q who tr)" "stable (\<lambda>tr g. admitted P A headers q who tr \<and> g)"
  "stable (\<lambda>tr g. admitted P A headers q who tr \<and> of_primary_site A i tr)"
  "stable (\<lambda>tr g. admitted P A headers q who tr \<and> g \<and> of_primary_site A i tr)"
  by (auto simp: stable_def admitted_def primary_append)

lemma require_admin_obeys:
  assumes "fst (admin_route q) \<noteq> GET \<longrightarrow> request_origin_is_valid A headers"
  shows "obeys E (primary_policy P A headers q) K (require_admin E P A headers (fst (admin_route q)) (snd (admin_route q)))
     (\<lambda>who tr g. admitted P A headers q who tr)"
proof (cases "app_delivery_only A \<or> app_admin_auth_mode A = RuntimeDisabled")
  case True
  then show ?thesis unfolding require_admin_def by (auto intro!: primary.obeys_of)
next
  case False
  let ?R = "\<lambda>authenticated tr (g :: bool). authenticated \<longrightarrow> proved_principal P A headers (admin_route q) HumanOwner tr"
  have owner: "obeys E (primary_policy P A headers q) K (owner_authenticated E P headers) ?R"
    unfolding owner_authenticated_def admin_task_def
    by (cases "session_hash_from_headers P headers"; simp; intro primary.obeys_of primary.obeys_map_err primary.obeys_repo)
      (auto simp: proved_principal_def)
  have token: "obeys E (primary_policy P A headers q) K'
      (case bearer_token_hash P headers of
         Some provided \<Rightarrow> if mcp_content_route P (fst (admin_route q)) (snd (admin_route q)) \<and> app_mcp_token_hash A = Some provided
            then req_ok McpAgent else req_err AdminUnauthorized
       | None \<Rightarrow> req_err AdminUnauthorized) (\<lambda>who tr g. admitted P A headers q who tr)" for K'
    using False assms by (auto intro!: primary.obeys_of simp: admitted_def proved_principal_def split: option.splits)
  have pick: "obeys E (primary_policy P A headers q) (?R b)
      (if b then req_ok HumanOwner else (case bearer_token_hash P headers of
         Some provided \<Rightarrow> if mcp_content_route P (fst (admin_route q)) (snd (admin_route q)) \<and> app_mcp_token_hash A = Some provided
            then req_ok McpAgent else req_err AdminUnauthorized
       | None \<Rightarrow> req_err AdminUnauthorized)) (\<lambda>who tr g. admitted P A headers q who tr)" for b
    by (rule primary.obeys_cond [OF primary.obeys_of token]) (use False assms in \<open>auto simp: admitted_def\<close>)
  show ?thesis unfolding require_admin_def if_not_P [OF False] by (rule primary.obeys_then [OF owner pick])
qed

lemma in_primary_site_obeys:
  assumes "stable K"
  shows "obeys E (primary_policy P A headers q) K (in_primary_site E A i) (\<lambda>document tr g. K tr g \<and> of_primary_site A i tr)"
proof -
  have read: "obeys E (primary_policy P A headers q) K (reads E (\<lambda>db. get_document db i))
      (\<lambda>document tr g. K tr g \<and> (doc_site_id document = app_site_id A \<longrightarrow> of_primary_site A i tr))"
    by (rule primary.obeys_reads)
      (use assms in \<open>auto simp: stable_def of_primary_site_def get_document_def load_document_def and_then_eq_Inr ok_or_eq_Inr
        dest!: row_where_Some\<close>)
  show ?thesis unfolding in_primary_site_def
    by (rule primary.obeys_then [OF read]) (auto intro!: primary.obeys_of)
qed

lemma primary_allows:
  "admitted P A headers q who tr \<Longrightarrow> fst (admin_route q) = POST \<Longrightarrow> g \<or> unguarded_call call \<Longrightarrow>
   primary_call P A who q tr call \<Longrightarrow> primary_policy P A headers q tr g call"
  by (auto simp: primary_policy_def admitted_def)

lemma create_post_obeys:
  "obeys E (primary_policy P A headers (CreatePost input)) (\<lambda>tr g. admitted P A headers (CreatePost input) who tr)
     (create_post E A who input) (\<lambda>_ _ _. True)"
  unfolding create_post_def Let_def admin_task_def
  by (rule primary.obeys_given, rule primary.obeys_given, rule primary.obeys_then [OF primary.guarded], rule primary.obeys_map_err,
      rule primary.obeys_then, rule primary.ensure_legacy_site_obeys, rule stable_admitted)
    (auto intro!: primary_allows primary.forgets [OF primary.create_document_obeys] stable_admitted)

lemma propose_revision_obeys:
  assumes "pf_path_uuid P segment = Some i"
  shows "obeys E (primary_policy P A headers (ProposeRevision segment input))
     (\<lambda>tr g. admitted P A headers (ProposeRevision segment input) who tr) (propose_revision E A who i input) (\<lambda>_ _ _. True)"
  unfolding propose_revision_def Let_def admin_task_def
  by (rule primary.obeys_given, rule primary.obeys_given, rule primary.obeys_map_err,
      rule primary.obeys_then [OF in_primary_site_obeys], rule stable_admitted)
    (auto intro!: primary_allows primary.forgets [OF primary.append_revision_obeys] stable_admitted unguarded_calls simp: assms)

lemma publish_revision_obeys:
  assumes "pf_path_uuid P segment = Some i"
  shows "obeys E (primary_policy P A headers (PublishPrimary segment revision))
     (\<lambda>tr g. admitted P A headers (PublishPrimary segment revision) who tr) (publish_revision E A i revision) (\<lambda>_ _ _. True)"
  unfolding publish_revision_def admin_task_def
  by (rule primary.obeys_then [OF primary.guarded], rule primary.obeys_map_err,
      rule primary.obeys_then [OF in_primary_site_obeys], rule stable_admitted)
    (auto intro!: primary_allows primary.forgets [OF primary.publish_obeys] stable_admitted simp: assms)

lemma ai2ai_proposal_obeys:
  "obeys E (primary_policy P A headers (Ai2AiProposal envelope)) (\<lambda>tr g. admitted P A headers (Ai2AiProposal envelope) who tr)
     (ai2ai_proposal E A envelope) (\<lambda>_ _ _. True)"
proof (cases "is_active A ''ai_authorship''")
  case True
  then show ?thesis unfolding ai2ai_proposal_def admin_task_def
    by (simp, intro primary.obeys_then [OF primary.asked] primary.obeys_given primary.obeys_map_err
        primary.obeys_then [OF in_primary_site_obeys] stable_admitted)
      (auto intro!: primary_allows primary.forgets [OF primary.append_ai_proposal_obeys] stable_admitted unguarded_calls)
qed (simp add: ai2ai_proposal_def primary.finished)

lemma primary_reads_obey:
  "obeys E (primary_policy P A headers q) (\<lambda>_ _. True) (list_admin_documents E A) (\<lambda>_ _ _. True)"
  "obeys E (primary_policy P A headers q) (\<lambda>_ _. True) (get_admin_document E A i) (\<lambda>_ _ _. True)"
  "obeys E (primary_policy P A headers q) (\<lambda>_ _. True) (list_admin_revisions E A i) (\<lambda>_ _ _. True)"
proof -
  have true: "stable (\<lambda>_ _. True)" by (simp add: stable_def)
  have site: "obeys E (primary_policy P A headers q) (\<lambda>_ _. True) (in_primary_site E A i) (\<lambda>_ _ _. True)"
    by (rule primary.forgets [OF in_primary_site_obeys [OF true]])
  show "obeys E (primary_policy P A headers q) (\<lambda>_ _. True) (list_admin_documents E A) (\<lambda>_ _ _. True)"
    unfolding list_admin_documents_def admin_task_def by (rule primary.obeys_map_err, rule primary.obeys_read [OF true])
  show "obeys E (primary_policy P A headers q) (\<lambda>_ _. True) (get_admin_document E A i) (\<lambda>_ _ _. True)"
    unfolding get_admin_document_def admin_task_def by (rule primary.obeys_map_err, rule site)
  show "obeys E (primary_policy P A headers q) (\<lambda>_ _. True) (list_admin_revisions E A i) (\<lambda>_ _ _. True)"
    unfolding list_admin_revisions_def admin_task_def
    by (rule primary.obeys_map_err, rule primary.obeys_then [OF site], rule primary.obeys_read [OF true])
qed

lemma answered: "obeys E (primary_policy P A headers q) K m R \<Longrightarrow> obeys E (primary_policy P A headers q) K (as_response f m) (\<lambda>_ _ _. True)"
  unfolding as_response_def by (rule primary.obeys_then, assumption, rule primary.finished)

lemma answered_read:
  assumes "obeys E (primary_policy P A headers q) (\<lambda>_ _. True) m (\<lambda>_ _ _. True)"
  shows "obeys E (primary_policy P A headers q) K (as_response f m) (\<lambda>_ _ _. True)"
  by (rule primary.obeys_weaken [OF answered [OF assms]]) simp_all

lemma obeys_path:
  "(\<And>i. pf_path_uuid P segment = Some i \<Longrightarrow> obeys E (primary_policy P A headers q) K (run i) (\<lambda>_ _ _. True)) \<Longrightarrow>
   obeys E (primary_policy P A headers q) K
     (case pf_path_uuid P segment of None \<Rightarrow> req_err (AdminBadRequest ''Invalid URL'') | Some i \<Rightarrow> run i) (\<lambda>_ _ _. True)"
  by (cases "pf_path_uuid P segment") (auto intro: primary.finished)

lemma admin_handler_obeys:
  "obeys E (primary_policy P A headers q) (\<lambda>tr g. admitted P A headers q who tr) (admin_handler E P A who q) (\<lambda>_ _ _. True)"
  by (cases q; simp only: admin_handler.simps with_path_uuid_def; (rule obeys_path)?)
    (auto intro: answered_read primary_reads_obey answered create_post_obeys propose_revision_obeys publish_revision_obeys
      ai2ai_proposal_obeys)

lemma primary_run:
  assumes "reachable E db" and "admin_serve E P A headers q (received db limiter env) = (r, s')"
  shows "reachable E (srv_db s') \<and> trace_ok E (primary_policy P A headers q) (srv_steps s')"
proof -
  have "obeys E (primary_policy P A headers q) (\<lambda>_ _. True) (admin_serve E P A headers q) (\<lambda>_ _ _. True)"
    unfolding admin_serve_def admin_guard_def case_prod_beta Let_def
    by (rule primary.obeys_cond [OF primary.finished primary.obeys_then [OF require_admin_obeys admin_handler_obeys]]) blast
  from primary.obeys_run [OF this assms] show ?thesis .
qed

end
