(* ===== verification/Api_Effects.thy ===== *)
theory Api_Effects
  imports Api_Reads Api_Primary
begin

text \<open>
  What the calls of requests do to the tables: a call without the cache mutation guard leaves the
  data behind public pages as it was, and a call of an agent adds only revisions of the agent.
\<close>

section \<open>The data behind public pages\<close>

definition public_documents :: "document_row list \<Rightarrow> (uuid \<times> uuid \<times> uuid option) list" where
  "public_documents ds =
     map (\<lambda>d. (d_id d, d_site_id d, d_published_revision_id d)) (filter (\<lambda>d. d_published_revision_id d \<noteq> None) ds)"

definition public_data :: "db \<Rightarrow> (uuid \<times> uuid \<times> uuid option) list \<times> route_row list \<times> CategoryRecord list \<times> series_row list
    \<times> SeriesItemRecord list \<times> site_row list \<times> theme_revision_row list \<times> CommentRecord list \<times> home_pin_row list" where
  "public_data db =
     (public_documents (documents db), routes db, categories db, series db, series_items db, sites db, site_theme_revisions db, comments db, home_pins db)"

text \<open>The other tables public pages are joined with only grow at their end.\<close>

definition keeps_public :: "db \<Rightarrow> db \<Rightarrow> bool" where
  "keeps_public db db' \<longleftrightarrow>
     public_data db' = public_data db
     \<and> (\<exists>rs pls us. revisions db' = revisions db @ rs \<and> revision_categories db' = revision_categories db @ pls
          \<and> users db' = users db @ us)"

interpretation public: step_relation E keeps_public for E
  by unfold_locales (simp add: keeps_public_def)

lemma published_documents_update:
  assumes "\<And>d. d_id (f d) = d_id d \<and> d_site_id (f d) = d_site_id d \<and> d_published_revision_id (f d) = d_published_revision_id d"
  shows "public_documents (update_where p f ds) = public_documents ds"
  using assms by (induction ds) (auto simp: update_where_def public_documents_def)

lemma effects_keep_public:
  "created E d r pl db db' \<Longrightarrow> keeps_public db db'"
  "appended E d r pl path now db db' \<Longrightarrow> keeps_public db db'"
proof -
  show "keeps_public db db'" if "created E d r pl db db'"
    using that by (auto simp: keeps_public_def public_data_def public_documents_def created_def)
  show "keeps_public db db'" if "appended E d r pl path now db db'"
    using that unfolding keeps_public_def public_data_def appended_def
    by (simp add: published_documents_update appended_document_def)
qed

lemma content_keeps_public:
  "create_document_in_transaction E i rid input now initial key db = Inr (x, db') \<Longrightarrow> keeps_public db db'"
  "repo_inv E db \<Longrightarrow> append_revision_in_transaction_with_category E rid input' now selection db = Inr (y, db') \<Longrightarrow> keeps_public db db'"
  by (erule create_effect, erule effects_keep_public(1))
    (metis append_effect effects_keep_public(2) repo_inv_def)

lemma keeps_public_frame [simp]:
  "keeps_public db (db'\<lparr>ai_proposal_audits := a\<rparr>) = keeps_public db db'"
  "keeps_public db (db'\<lparr>sessions := b\<rparr>) = keeps_public db db'"
  "keeps_public db (db'\<lparr>site_memberships := c\<rparr>) = keeps_public db db'"
  by (simp_all add: keeps_public_def public_data_def)

lemma users_added_keep_public: "keeps_public db (db\<lparr>users := users db @ [u]\<rparr>)"
  by (simp add: keeps_public_def public_data_def)

lemma content_calls_keep_public:
  "related keeps_public E (create_document_in_writable_site_with_category E i rid now actor doc cat)"
  "related keeps_public E (revise_document_in_writable_site_with_category E rid now actor site proposal selection)"
  "related keeps_public E (append_revision E rid now proposal)"
  "related keeps_public E (append_ai_proposal E rid checked accepted envelope)"
proof -
  show "related keeps_public E (create_document_in_writable_site_with_category E i rid now actor doc cat)"
    unfolding create_document_in_writable_site_with_category_def
    by (intro public.validated [where h = "\<lambda>e. Validation (content_error_text e)"] public.guarded) (rule content_keeps_public(1))
  show "related keeps_public E (revise_document_in_writable_site_with_category E rid now actor site proposal selection)"
    unfolding revise_document_in_writable_site_with_category_def
    by (intro public.validated [where h = "\<lambda>e. Validation (content_error_text e)"] public.guarded_twice)
      (rule content_keeps_public(2))
  show "related keeps_public E (append_revision E rid now proposal)"
    unfolding append_revision_def append_revision_in_transaction_def
    by (intro public.validated [where h = "\<lambda>e. Validation (content_error_text e)"] public.transaction)
      (rule content_keeps_public(2))
  show "related keeps_public E (append_ai_proposal E rid checked accepted envelope)"
    unfolding append_ai_proposal_def append_revision_in_transaction_def Let_def
    by (intro public.validated [where h = "\<lambda>e. Validation (ai_error_text e)"]
        public.validated [where h = "\<lambda>e. Validation (content_error_text e)"] public.transaction)
      (auto simp: and_then_eq_Inr insert_ai_proposal_def map_err_eq_Inr dest!: sql_insert_ai_audit_effect content_keeps_public(2))
qed

lemma account_calls_keep_public:
  "related keeps_public E (create_user i now email handle name phc)"
  "related keeps_public E (add_site_collaborator now owner site email role)"
  "related keeps_public E (remove_site_collaborator owner site collaborator)"
  "related keeps_public E (create_session i checked checked' now user hash expires)"
  "related keeps_public E (revoke_session now hash)"
proof -
  show "related keeps_public E (create_user i now email handle name phc)"
    unfolding related_def create_user_def
    by (auto simp: and_then_eq_Inr map_err_eq_Inr public.unchanged dest!: sql_insert_user_effect intro: users_added_keep_public
        split: sum.splits)
  show "related keeps_public E (add_site_collaborator now owner site email role)"
    unfolding related_def add_site_collaborator_def transact_def
    by (auto simp: and_then_eq_Inr map_err_eq_Inr public.unchanged dest!: sql_insert_membership_effect split: sum.splits prod.splits)
  show "related keeps_public E (remove_site_collaborator owner site collaborator)"
    unfolding remove_site_collaborator_def
    by (intro public.transaction) (auto simp: and_then_eq_Inr Let_def public.unchanged)
  show "related keeps_public E (create_session i checked checked' now user hash expires)"
    unfolding related_def create_session_def
    by (auto simp: and_then_eq_Inr public.unchanged dest!: insert_session_effect split: sum.splits)
  show "related keeps_public E (revoke_session now hash)"
    unfolding related_def revoke_session_def Let_def by (auto simp: public.unchanged split: sum.splits)
qed

lemmas unguarded_keep_public = content_calls_keep_public account_calls_keep_public

lemma unguarded_call_keeps_public:
  assumes "repo_inv E db" and "unguarded_call call"
  shows "keeps_public db (perform E call db)"
proof (cases "\<exists>c. call = AdminCall c")
  case True
  then obtain c where c: "call = AdminCall c" ..
  with assms show ?thesis
    by (cases c) (auto simp: unguarded_call_def intro: unguarded_keep_public [unfolded related_def, rule_format])
next
  case False
  with assms show ?thesis
    by (cases call) (auto simp: unguarded_call_def intro: unguarded_keep_public [unfolded related_def, rule_format])
qed

section \<open>Revisions of agents\<close>

text \<open>Every revision a step adds was stored for an agent.\<close>

definition adds_agent_revisions :: "db \<Rightarrow> db \<Rightarrow> bool" where
  "adds_agent_revisions db db' \<longleftrightarrow>
     (\<forall>r \<in> set (revisions db'). r \<in> set (revisions db)
        \<or> (\<exists>s. revision_from_json (r_snapshot_json r) = Some s \<and> actor_kind (rev_actor s) = RevisionAgent))"

interpretation agent: step_relation E adds_agent_revisions for E
  by unfold_locales (simp add: adds_agent_revisions_def)

lemma revision_actor_sel [simp]:
  "rev_actor (with_computed_hash E s) = rev_actor s"
  by (simp add: with_computed_hash_def)

lemma agent_created:
  assumes "actor_kind (new_actor input) = RevisionAgent"
    and "create_document_in_transaction E i rid input now initial key db = Inr (x, db')"
  shows "adds_agent_revisions db db'"
  using assms(2)
proof (rule create_effect)
  fix c pl
  assume "created E (draft_row i (new_site_id input) rid (category_route_path c (new_slug input)) now)
       (revision_row_of (first_revision E i rid input now) key) pl db db'"
  then have "revisions db' = revisions db @ [revision_row_of (first_revision E i rid input now) key]"
    by (simp add: created_def)
  then show ?thesis using assms(1) by (auto simp: adds_agent_revisions_def first_revision_def)
qed

lemma created_by_agent:
  assumes "actor_kind (new_actor input) = RevisionAgent"
  shows "related adds_agent_revisions E (create_document E i rid now input)"
  unfolding create_document_def
  by (intro agent.validated [where h = "\<lambda>e. Validation (content_error_text e)"] agent.transaction) (rule agent_created [OF assms])

lemma agent_appended:
  assumes "repo_inv E db" and "actor_kind (prop_actor input) = RevisionAgent"
    and "append_revision_in_transaction_with_category E rid input now selection db = Inr (x, db')"
  shows "adds_agent_revisions db db'"
proof -
  have "db_inv E db" using assms(1) by (simp add: repo_inv_def)
  then obtain c :: revision_row and d pl path where
    x: "x = next_revision E rid input (r_revision_number c) now"
    and app: "appended E d (revision_row_of x (prop_idempotency_key input)) pl path now db db'"
    using assms(3) by (elim append_effect) blast
  from app have "revisions db' = revisions db @ [revision_row_of x (prop_idempotency_key input)]" by (simp add: appended_def)
  then show ?thesis using assms(2) x by (auto simp: adds_agent_revisions_def)
qed

lemma appended_by_agent:
  assumes "actor_kind (prop_actor input) = RevisionAgent"
  shows "related adds_agent_revisions E (append_revision E rid now input)"
  unfolding append_revision_def append_revision_in_transaction_def
  by (intro agent.validated [where h = "\<lambda>e. Validation (content_error_text e)"] agent.transaction)
    (rule agent_appended [OF _ assms])

lemma proposed_by_agent: "related adds_agent_revisions E (append_ai_proposal E rid checked accepted envelope)"
  unfolding append_ai_proposal_def append_revision_in_transaction_def Let_def
proof (intro agent.validated [where h = "\<lambda>e. Validation (ai_error_text e)"]
    agent.validated [where h = "\<lambda>e. Validation (content_error_text e)"] agent.transaction)
  fix db x db'
  assume inv: "repo_inv E db" and run: "and_then (append_revision_in_transaction_with_category E rid (proposal_of_envelope envelope) accepted None db)
      (\<lambda>(revision, db). and_then (insert_ai_proposal
          \<lparr>audit_schema_version = AI_PROPOSAL_AUDIT_SCHEMA_VERSION, audit_document_id = rev_document_id revision,
           audit_accepted_revision_id = rev_id revision, audit_received_at = accepted, audit_envelope = envelope\<rparr> db)
        (\<lambda>db. Inr (revision, db))) = Inr (x, db')"
  then obtain s db1 a where "append_revision_in_transaction_with_category E rid (proposal_of_envelope envelope) accepted None db = Inr (s, db1)"
    and "db' = db1\<lparr>ai_proposal_audits := a\<rparr>"
    by (auto simp: and_then_eq_Inr insert_ai_proposal_def map_err_eq_Inr dest!: sql_insert_ai_audit_effect)
  moreover from this(1) have "adds_agent_revisions db db1"
    by (rule agent_appended [OF inv, rotated]) (simp add: proposal_of_envelope_sel)
  ultimately show "adds_agent_revisions db db'" by (simp add: adds_agent_revisions_def)
qed

lemma same_revisions_by_agent: "revisions db' = revisions db \<Longrightarrow> adds_agent_revisions db db'"
  by (simp add: adds_agent_revisions_def)

lemma published_adds_no_revision: "related adds_agent_revisions E (publish i rid now)"
proof -
  have "adds_agent_revisions db db'" if "repo_inv E db" "publish_in_transaction i rid now db = Inr (x, db')" for db x db'
    using that unfolding publish_in_transaction_def repo_inv_def
    by (elim conjE publish_effect) (auto simp: published_as_def intro: same_revisions_by_agent)
  then have "related adds_agent_revisions E (\<lambda>db. then_load (\<lambda>db. load_document db i SelectPublished)
      (transact (publish_in_transaction i rid now) db))" by (rule agent.loaded [OF agent.transaction])
  then show ?thesis unfolding publish_def then_load_def .
qed

lemma legacy_site_adds_no_revision: "related adds_agent_revisions E (ensure_legacy_site i now)"
  unfolding related_def ensure_legacy_site_def Let_def
  by (auto intro!: agent.loaded_step intro: agent.unchanged split: sum.splits)
    (auto simp: and_then_eq_Inr map_err_eq_Inr same_content_def dest!: or_ignore_idle intro: same_revisions_by_agent)

lemmas agent_operations = legacy_site_adds_no_revision published_adds_no_revision proposed_by_agent
  created_by_agent appended_by_agent

text \<open>A call for the primary site made for the agent.\<close>

lemma agent_call_adds_agent_revisions:
  assumes "repo_inv E db" and "primary_call P A McpAgent q tr call"
  shows "adds_agent_revisions db (perform E call db)"
  using assms by (cases q) (auto intro!: agent_operations [unfolded related_def, rule_format])

end
