(* ===== verification/Api_Properties.thy ===== *)
theory Api_Properties
  imports Api_Effects
begin

text \<open>
  The properties of the HTTP interface over the repository. A request is served between the
  calls of other requests; what is stated of its steps holds for the calls the request itself
  makes, whatever the others do.
\<close>

section \<open>A concrete server\<close>

text \<open>Ann owns the primary site and sends the cookie of her administration session.\<close>

definition example_platform :: platform where
  "example_platform =
     \<lparr>pf_sha256 = (\<lambda>_. replicate 32 9), pf_base64_encode = (\<lambda>_. lit ''token''),
      pf_base64_decode = (\<lambda>t. if t = lit ''token'' then Some (replicate 32 0) else None),
      pf_uuid_text = (\<lambda>_. lit ''id''), pf_uuid_bytes = (\<lambda>_. []), pf_uuid_parse = (\<lambda>_. Some 2),
      pf_path_uuid = (\<lambda>_. Some 2), pf_hash_password = (\<lambda>_ password. Inr password),
      pf_verify_password = (\<lambda>phc password. Inr (phc = password)), pf_dummy_phc = [],
      pf_render_markdown = (\<lambda>markdown. markdown),
      pf_render_revision = (\<lambda>_ view. \<lparr>artifact_view = view, artifact_html = [], artifact_source_hash = [],
         artifact_hash = [], artifact_renderer_version = [], artifact_sanitizer_policy_version = [],
         artifact_required_style_assets = [], artifact_required_script_assets = []\<rparr>),
      pf_summarize_markdown = (\<lambda>markdown _. markdown), pf_public_route_url = (\<lambda>path. path)\<rparr>"

definition example_app :: AppState where
  "example_app =
     \<lparr>app_site_id = 20, app_delivery_only = False, app_registration_open = True, app_local_auth_enabled = True,
      app_admin_auth_mode = RuntimeAccessKey, app_binding_fingerprint = replicate 32 7, app_comments_enabled = True,
      app_collaboration_enabled = True, app_custom_css_enabled = True, app_features = [lit ''social_embeds''],
      app_article_base_path = lit ''/posts'', app_public_origin = lit ''https://blog.example'',
      app_public_path = lit ''/'', app_secure_session_cookie = True, app_mcp_token_hash = Some (replicate 32 9)\<rparr>"

definition example_headers :: HeaderMap where
  "example_headers = \<lparr>hdr_cookie = Some (HeaderText (lit ''a=b; osb_session=token'')), hdr_origin = None, hdr_authorization = None\<rparr>"

definition quiet_env :: "nat \<Rightarrow> task_env" where
  "quiet_env tick = \<lparr>te_others = [], te_attempts = [], te_now = (\<lambda>_. 50), te_ticks = tick,
     te_id = (\<lambda>k. of_nat (100 + 10 * tick + k)), te_random = (\<lambda>_. replicate 32 0), te_worker_free = True\<rparr>"

definition example_category :: CreateCategoryInput where
  "example_category = \<lparr>cc_slug = lit ''essays'', cc_title = lit ''Essays'', cc_description = None, cc_theme_profile = None\<rparr>"

definition example_desk_db :: db where
  "example_desk_db = example_db\<lparr>admin_control_plane := Some example_control, sessions := [example_session]\<rparr>"

definition example_received :: server where
  "example_received = received example_desk_db member_auth_admission quiet_env"

definition example_owner :: UserRecord where
  "example_owner = hd (users example_site_db)"

definition desk_site :: SiteRecord where
  "desk_site = hd (site_rows example_site_db)"

lemma example_desk_reachable: "reachable example_extern example_desk_db"
proof -
  have "snd (create_document example_extern 2 1 3 example_new example_admin_db) = example_desk_db" by code_simp
  with reachable_call [OF example_admin_reachable, of "CreateDocument 2 1 3 example_new"] show ?thesis by simp
qed

lemma example_hash: "session_hash_from_headers example_platform example_headers = Some (replicate 32 9)"
  by code_simp

lemma example_reads:
  "get_session example_desk_db 50 (replicate 32 9) = Inr (parse_session_row example_session)"
  "get_user_by_id example_desk_db 10 = Inr example_owner"
  "list_accessible_sites example_desk_db 10 1 = Inr [desk_site]"
  "get_site_membership example_desk_db 10 20 = Inr \<lparr>m_site_id = 20, m_user_id = 10, m_role = Owner, m_created_at = 2\<rparr>"
  by code_simp+

lemma example_ids: "u_id example_owner = 10" "site_id desk_site = 20" "ss_user_id (parse_session_row example_session) = 10"
    "ss_auth_method (parse_session_row example_session) = AccessKeySession"
  by code_simp+

text \<open>Running a handler where no other request is served: reads, and one call that writes.\<close>

definition looked :: "nat \<Rightarrow> server \<Rightarrow> server" where
  "looked n s = s\<lparr>srv_tick := srv_tick s + n, srv_steps := srv_steps s @ replicate n (srv_guarded s, srv_db s, srv_db s)\<rparr>"

definition quiet_at :: "db \<Rightarrow> server \<Rightarrow> bool" where
  "quiet_at db s \<longleftrightarrow> srv_db s = db \<and> srv_env s = quiet_env"

lemma looked_quiet [simp]: "quiet_at db (looked n s) = quiet_at db s" "looked m (looked n s) = looked (n + m) s"
  by (simp_all add: looked_def quiet_at_def replicate_add)

lemma run_then: "m s = (Inr x, s') \<Longrightarrow> req_then m k s = k x s'"
  by (simp add: req_then_def)

lemma run_reads: "quiet_at db s \<Longrightarrow> f db = Inr x \<Longrightarrow> req_then (reads E f) k s = k x (looked 1 s)"
  by (auto simp: req_then_def reads_def repo_def looked_def quiet_at_def quiet_env_def)

lemma run_repo_read:
  "quiet_at db s \<Longrightarrow> f (quiet_env (srv_tick s)) db = (Inr x, db) \<Longrightarrow> req_then (repo E f) k s = k x (looked 1 s)"
  by (auto simp: req_then_def repo_def looked_def quiet_at_def quiet_env_def)

lemma run_task: "m s = (Inr x, s') \<Longrightarrow> repository_task m s = (Inr x, s')"
  by (simp add: repository_task_def req_map_err_def map_err_def)

lemma run_map_err: "m s = (Inr x, s') \<Longrightarrow> req_map_err f m s = (Inr x, s')"
  by (simp add: req_map_err_def map_err_def)

lemma run_optional: "m s = (Inr x, s') \<Longrightarrow> repository_optional m s = (Inr (Some x), s')"
  by (simp add: repository_optional_def)

lemma run_map: "m s = (Inr x, s') \<Longrightarrow> req_map f m s = (Inr (f x), s')"
  by (simp add: req_map_def req_then_def req_of_def)

lemma quiet_env_now [simp]: "te_now (quiet_env n) k = 50"
  by (simp add: quiet_env_def)

lemma example_require_user:
  assumes "quiet_at example_desk_db s"
  shows "require_user example_extern example_platform example_app example_headers s = (Inr example_owner, looked 2 s)"
proof -
  have "req_then (repo example_extern (\<lambda>env db. (get_session db (te_now env 0) (replicate 32 9), db))) (\<lambda>session.
          if \<not> method_enabled example_app (ss_auth_method session) then req_err NotFound
          else req_then (reads example_extern (\<lambda>db. get_user_by_id db (ss_user_id session))) (\<lambda>user.
            req_ok \<lparr>rs_user = user, rs_instance_administrator = (ss_auth_method session \<noteq> LegacySession)\<rparr>)) s
    = (Inr \<lparr>rs_user = example_owner, rs_instance_administrator = True\<rparr>, looked 2 s)"
    by (subst run_repo_read [OF assms], simp add: example_reads)
      (simp add: example_ids example_app_def run_reads [of example_desk_db] example_reads assms req_of_def numeral_2_eq_2)
  then show ?thesis
    by (simp add: require_user_def resolve_session_user_def ensure_mutable_def example_app_def example_hash
        run_then [OF run_optional] req_of_def run_then ok_or_def)
qed

lemma example_studio_access:
  assumes "quiet_at example_desk_db s"
  shows "studio_access example_extern example_app 10 s = (Inr \<lparr>sa_site = desk_site, sa_role = Owner\<rparr>, looked 2 s)"
proof -
  have first: "first_site example_extern example_app 10 s = (Inr (Some desk_site), looked 1 s)"
    unfolding first_site_def by (subst run_reads [OF assms, where x = "[desk_site]"]) (simp_all add: example_app_def example_reads req_of_def del: One_nat_def)
  show ?thesis unfolding studio_access_def
    by (rule run_map_err, rule run_task) (simp add: run_then first run_reads [of example_desk_db] assms example_reads
      example_ids req_of_def ok_or_def numeral_2_eq_2)
qed

lemma example_owner_access:
  assumes "quiet_at example_desk_db s"
  shows "owner_studio_access example_extern example_app 10 s = (Inr \<lparr>sa_site = desk_site, sa_role = Owner\<rparr>, looked 2 s)"
  unfolding owner_studio_access_def by (simp add: run_then example_studio_access [OF assms] req_of_def)

section \<open>Steps of a served request\<close>

lemma trace_okD:
  "trace_ok E allowed steps \<Longrightarrow> steps = pre @ (g, before, after) # post \<Longrightarrow>
   reachable E before \<and> (after = before \<or> (\<exists>call. allowed pre g call \<and> after = perform E call before))"
  unfolding trace_ok_def by blast

lemma trace_ok_step:
  assumes "trace_ok E allowed steps" and "(g, before, after) \<in> set steps" and "after \<noteq> before"
  obtains pre call where "allowed pre g call" "after = perform E call before" "reachable E before"
proof -
  from assms(2) obtain pre post where "steps = pre @ (g, before, after) # post" by (meson split_list)
  from trace_okD [OF assms(1) this] assms(3) that show thesis by blast
qed

text \<open>
  (C9) What a member's request changes, it changes with credentials. A server for delivery only
  and a request from a foreign origin change nothing, nor does any read. A registration adds an
  account, where registration is open, and opens a session for the account it added; a login
  opens a session only for the account whose stored hash accepted the password; a logout ends
  the session of the request. Every other request acts for the user whose live session, of an
  enabled method, its cookie named at an earlier step; and where the call is one on a site, that
  user is a member of the site, or its owner where the operation takes the owner, in the very
  database the call changes.
\<close>

theorem member_change_needs_credentials:
  assumes "reachable E db" and "community_serve E P A headers q (received db limiter env) = (r, s')"
    and "srv_steps s' = pre @ (g, before, after) # post" and "after \<noteq> before"
  shows "\<not> app_delivery_only A \<and> request_origin_is_valid A headers
     \<and> (\<exists>call. after = perform E call before \<and> (g \<or> unguarded_call call)
          \<and> (case q of
               PrivateRead _ \<Rightarrow> False
             | PublicAuthMutation m \<Rightarrow> auth_policy P A headers m pre g call
             | AuthenticatedMutation _ \<Rightarrow> (\<exists>user. known_user P A headers user pre \<and> on_behalf user call
                 \<and> (\<forall>actor site owner. acts_for call = Some (actor, site, owner) \<longrightarrow>
                      actor = user \<and> authorized before user site owner))))"
proof -
  obtain call where pol: "community_policy P A headers q pre g call" and call: "after = perform E call before"
    using trace_okD [OF _ assms(3)] community_run [OF assms(1,2)] assms(4) by blast
  have auth: "actor = user \<and> authorized before user site owner"
    if "on_behalf user call" "acts_for call = Some (actor, site, owner)" for user actor site owner
    using that unauthorized_call_refused [of call actor site owner before E] assms(4) call by (auto simp: on_behalf_def)
  show ?thesis
    using pol call auth unfolding community_policy_def
    by (intro conjI exI [of _ call]; cases q) (simp_all, blast+)
qed

definition category_request :: community_request where
  "category_request = AuthenticatedMutation (Taxonomy (CreateStudioCategory example_category))"

lemma category_request_changes:
  obtains after where
    "srv_steps (snd (community_serve example_extern example_platform example_app example_headers category_request example_received))
       = replicate 6 (False, example_desk_db, example_desk_db) @ (True, example_desk_db, after) # []"
    "map c_slug (categories after) = [lit ''essays'']"
proof -
  define after where "after = snd (create_category 160 50 10 20 example_category example_desk_db)"
  have "case create_category 160 50 10 20 example_category example_desk_db of
      (Inr _, db) \<Rightarrow> map c_slug (categories db) = [lit ''essays''] | _ \<Rightarrow> False" by code_simp
  then obtain c where c: "create_category 160 50 10 20 example_category example_desk_db = (Inr c, after)"
    and essays: "map c_slug (categories after) = [lit ''essays'']"
    by (auto simp: after_def split: prod.splits sum.splits)
  have slug: "\<not> category_slug_conflicts_with_article_route (cc_slug example_category) (app_article_base_path example_app)"
    by code_simp
  have desk: "quiet_at example_desk_db example_received" by (simp add: quiet_at_def example_received_def received_def)
  have looked6: "srv_tick (looked 6 example_received) = 6"
      "srv_steps (looked 6 example_received) = replicate 6 (False, example_desk_db, example_desk_db)"
    by (simp_all add: looked_def example_received_def received_def)
  have stored: "repository_task (repo example_extern (\<lambda>env db. create_category (te_id env 0) (te_now env 0) 10 20 example_category db))
      ((looked 6 example_received)\<lparr>srv_guarded := True\<rparr>) = (Inr c, (looked 6 example_received)\<lparr>srv_guarded := True, srv_db := after,
         srv_tick := 7, srv_steps := replicate 6 (False, example_desk_db, example_desk_db) @ [(True, example_desk_db, after)]\<rparr>)"
    by (rule run_task) (use c in \<open>simp add: repo_def looked6 quiet_env_def looked_def example_received_def received_def\<close>)
  have made: "create_studio_category example_extern example_platform example_app example_headers example_category (looked 2 example_received) =
      (Inr (category_summary c), (looked 6 example_received)\<lparr>srv_guarded := True, srv_db := after, srv_tick := 7,
         srv_steps := replicate 6 (False, example_desk_db, example_desk_db) @ [(True, example_desk_db, after)]\<rparr>)"
    unfolding create_studio_category_def
    by (simp add: run_then example_require_user example_owner_access desk example_ids slug reject_if_def req_of_def
        begin_public_mutation_def stored)
  have "community_serve example_extern example_platform example_app example_headers category_request example_received =
    (Some (Inr (CategoryAnswer (category_summary c))), (looked 6 example_received)\<lparr>srv_guarded := True, srv_db := after, srv_tick := 7,
         srv_steps := replicate 6 (False, example_desk_db, example_desk_db) @ [(True, example_desk_db, after)]\<rparr>)"
    using run_map [where m = "create_studio_category example_extern example_platform example_app example_headers example_category",
        OF made, of CategoryAnswer]
    by (simp add: community_serve_def category_request_def registered_def origin_guard_def delivery_guard_def
        authenticated_user_guard_def request_origin_is_valid_def run_then example_require_user desk)
       (simp add: example_headers_def example_app_def)
  then have "srv_steps (snd (community_serve example_extern example_platform example_app example_headers category_request
      example_received)) = replicate 6 (False, example_desk_db, example_desk_db) @ (True, example_desk_db, after) # []"
    by simp
  then show thesis using essays by (rule that)
qed

theorem member_change_needs_credentials_witness:
  "\<exists>after call user. after = perform example_extern call example_desk_db \<and> map c_slug (categories after) = [lit ''essays'']
     \<and> known_user example_platform example_app example_headers user (replicate 6 (False, example_desk_db, example_desk_db))
     \<and> on_behalf user call"
proof (rule category_request_changes)
  fix after
  assume steps: "srv_steps (snd (community_serve example_extern example_platform example_app example_headers category_request
      example_received)) = replicate 6 (False, example_desk_db, example_desk_db) @ (True, example_desk_db, after) # []"
    and changed: "map c_slug (categories after) = [lit ''essays'']"
  have "categories example_desk_db = []"
    by (simp add: example_desk_db_def example_db_def example_site_db_def empty_db_def)
  with changed have "after \<noteq> example_desk_db" by auto
  from member_change_needs_credentials [OF example_desk_reachable surjective_pairing steps [unfolded example_received_def] this]
  obtain call user where "after = perform example_extern call example_desk_db"
    "known_user example_platform example_app example_headers user (replicate 6 (False, example_desk_db, example_desk_db))"
    "on_behalf user call"
    unfolding category_request_def by (elim conjE exE) (simp, blast)
  with changed show ?thesis by metis
qed

text \<open>
  (C10) The routes for the primary site take its owner or the agent. A change needs an enabled
  administration, a server that is not for delivery only and the own origin; it is made for the
  owner, proved by a session of the current epoch at an earlier step of the request, or for the
  agent, proved by the bearer token on one of its six routes; and it is the call of the route,
  on the primary site or on a document that was seen there, with the actor of the principal.
\<close>

theorem primary_change_needs_principal:
  assumes "reachable E db" and "admin_serve E P A headers q (received db limiter env) = (r, s')"
    and "srv_steps s' = pre @ (g, before, after) # post" and "after \<noteq> before"
  shows "\<not> app_delivery_only A \<and> app_admin_auth_mode A \<noteq> RuntimeDisabled \<and> request_origin_is_valid A headers
     \<and> (\<exists>who call. after = perform E call before \<and> (g \<or> unguarded_call call)
          \<and> proved_principal P A headers (admin_route q) who pre \<and> primary_call P A who q pre call)"
  using trace_okD [OF _ assms(3)] primary_run [OF assms(1,2)] assms(4) unfolding primary_policy_def by blast

definition post_request :: admin_request where
  "post_request = CreatePost \<lparr>np_title = lit ''B'', np_slug = lit ''b'', np_source_markdown = lit ''x'', np_embeds = [],
     np_intent = None, np_ontology = None, np_ai_summary = None,
     np_authorship = Some \<lparr>authorship_kind = AiGenerated, authorship_generator = Some (lit ''m''), authorship_human_reviewed = False\<rparr>\<rparr>"

definition token_headers :: HeaderMap where
  "token_headers = \<lparr>hdr_cookie = None, hdr_origin = None, hdr_authorization = Some (HeaderText (lit ''Bearer secret''))\<rparr>"

definition agent_document :: NewDocument where
  "agent_document = \<lparr>new_site_id = 20, new_title = lit ''B'', new_slug = lit ''b'', new_source_markdown = lit ''x'',
     new_embeds = [], new_intent = None, new_ontology = None, new_ai_summary = None,
     new_authorship = \<lparr>authorship_kind = AiGenerated, authorship_generator = Some (lit ''m''), authorship_human_reviewed = False\<rparr>,
     new_actor = principal_actor McpAgent\<rparr>"

definition agent_posted :: db where
  "agent_posted = snd (create_document example_extern 110 111 50 agent_document example_desk_db)"

lemma agent_post:
  "case create_document example_extern 110 111 50 agent_document example_desk_db of
     (Inr _, db) \<Rightarrow> map r_id (revisions db) = [1, 111] | _ \<Rightarrow> False"
  by code_simp

lemma agent_post_revisions:
  "map r_id (revisions agent_posted) = [1, 111]" "map r_id (revisions example_desk_db) = [1]"
  using agent_post
  by (auto simp: agent_posted_def example_desk_db_def example_db_def split: prod.splits sum.splits)

lemma example_site_kept: "ensure_legacy_site 20 50 example_desk_db = (Inr desk_site, example_desk_db)"
  by code_simp

lemma token_admitted:
  "session_hash_from_headers example_platform token_headers = None"
  "bearer_token_hash example_platform token_headers = Some (replicate 32 9)"
  "mcp_content_route example_platform POST (lit ''/api/v1/posts'')"
  by code_simp+

lemma post_request_run:
  "srv_steps (snd (admin_serve example_extern example_platform example_app token_headers post_request
     (received example_desk_db member_auth_admission quiet_env)))
   = [(True, example_desk_db, example_desk_db)] @ (True, example_desk_db, agent_posted) # []"
proof -
  let ?s = "received example_desk_db member_auth_admission quiet_env"
  obtain d where d: "create_document example_extern 110 111 50 agent_document example_desk_db = (Inr d, agent_posted)"
    using agent_post by (auto simp: agent_posted_def split: prod.splits sum.splits)
  have principal: "require_admin example_extern example_platform example_app token_headers POST (lit ''/api/v1/posts'') ?s = (Inr McpAgent, ?s)"
    by (simp add: require_admin_def owner_authenticated_def token_admitted req_then_def req_of_def example_app_def)
  have site: "quiet_at example_desk_db (?s\<lparr>srv_guarded := True\<rparr>)" by (simp add: quiet_at_def received_def)
  have stored: "admin_task (req_then (repo example_extern (\<lambda>env db. ensure_legacy_site 20 (te_now env 0) db)) (\<lambda>_.
        repo example_extern (\<lambda>env db. create_document example_extern (te_id env 0) (te_id env 1) (te_now env 0) agent_document db)))
      (?s\<lparr>srv_guarded := True\<rparr>) = (Inr d, ?s\<lparr>srv_guarded := True, srv_db := agent_posted, srv_tick := 2,
        srv_steps := [(True, example_desk_db, example_desk_db), (True, example_desk_db, agent_posted)]\<rparr>)"
    unfolding admin_task_def using site d by (intro run_map_err) (simp add: run_repo_read [of example_desk_db] example_site_kept,
      simp add: repo_def looked_def received_def quiet_env_def)
  have posted: "create_post example_extern example_app McpAgent (case post_request of CreatePost input \<Rightarrow> input) ?s =
      (Inr d, ?s\<lparr>srv_guarded := True, srv_db := agent_posted, srv_tick := 2,
        srv_steps := [(True, example_desk_db, example_desk_db), (True, example_desk_db, agent_posted)]\<rparr>)"
    using stored
    by (simp add: create_post_def post_request_def admin_embeds_def validate_official_embeds_def run_then req_of_def
        begin_public_mutation_def Let_def example_app_def agent_document_def)
  show ?thesis
    using posted principal
    by (simp add: admin_serve_def admin_guard_def post_request_def request_origin_is_valid_def token_headers_def run_then as_response_def
        req_of_def)
qed

lemma agent_post_changes: "agent_posted \<noteq> example_desk_db"
  using agent_post_revisions by auto

theorem primary_change_needs_principal_witness:
  "\<exists>who call. agent_posted = perform example_extern call example_desk_db
     \<and> proved_principal example_platform example_app token_headers (admin_route post_request) who
         [(True, example_desk_db, example_desk_db)]
     \<and> primary_call example_platform example_app who post_request [(True, example_desk_db, example_desk_db)] call"
  using primary_change_needs_principal [OF example_desk_reachable surjective_pairing post_request_run agent_post_changes]
  by (elim conjE exE) (intro exI conjI)

text \<open>
  (C11) The bearer token cannot write in the owner's name: every revision that a request without a
  session cookie adds is stored with an agent as its actor.
\<close>

theorem token_writes_as_agent:
  assumes "reachable E db" and "admin_serve E P A headers q (received db limiter env) = (r, s')"
    and "session_hash_from_headers P headers = None"
    and "(g, before, after) \<in> set (srv_steps s')" and "row \<in> set (revisions after) - set (revisions before)"
  shows "\<exists>s. revision_from_json (r_snapshot_json row) = Some s \<and> actor_kind (rev_actor s) = RevisionAgent"
proof -
  have "after \<noteq> before" using assms(5) by auto
  with primary_run [OF assms(1,2)] assms(4) obtain pre call
    where pol: "primary_policy P A headers q pre g call" and call: "after = perform E call before" "reachable E before"
    by (elim conjE trace_ok_step)
  from pol obtain who where who: "proved_principal P A headers (admin_route q) who pre" "primary_call P A who q pre call"
    by (auto simp: primary_policy_def)
  with assms(3) have "primary_call P A McpAgent q pre call" by (cases who) (simp_all add: proved_principal_def)
  from agent_call_adds_agent_revisions [OF reachable_repo_inv [OF call(2)] this] show ?thesis
    using assms(5) call(1) by (auto simp: adds_agent_revisions_def)
qed

theorem token_writes_as_agent_witness:
  "\<exists>row \<in> set (revisions agent_posted). r_id row = 111
     \<and> (\<exists>s. revision_from_json (r_snapshot_json row) = Some s \<and> actor_kind (rev_actor s) = RevisionAgent)"
proof -
  obtain row :: revision_row where row: "row \<in> set (revisions agent_posted)" "r_id row = 111"
    using agent_post_revisions(1) by (metis in_set_conv_nth imageE list.set_intros list.set_map)
  moreover have "row \<in> set (revisions agent_posted) - set (revisions example_desk_db)" using row agent_post_revisions(2) by auto
  then have "\<exists>s. revision_from_json (r_snapshot_json row) = Some s \<and> actor_kind (rev_actor s) = RevisionAgent"
  proof (rule token_writes_as_agent [OF example_desk_reachable surjective_pairing token_admitted(1), rotated])
    show "(True, example_desk_db, agent_posted) \<in> set (srv_steps (snd (admin_serve example_extern example_platform example_app
        token_headers post_request (received example_desk_db member_auth_admission quiet_env))))"
      by (simp add: post_request_run)
  qed
  ultimately show ?thesis by (intro bexI [of _ row]) auto
qed

text \<open>
  (C12) What visitors see changes only under the cache mutation guard: a repository call that a
  request makes without the guard leaves the published documents with their revisions, the
  paths, categories, series, sites with their appearance, comments and pins as they were, and
  every table they are joined with keeps its rows.
\<close>

theorem unguarded_step_keeps_public_data:
  assumes "reachable E db"
    and "(False, before, after) \<in> set (srv_steps (snd (community_serve E P A headers q (received db limiter env))))
      \<or> (False, before, after) \<in> set (srv_steps (snd (admin_serve E P A headers q' (received db limiter env))))"
  shows "public_data after = public_data before
     \<and> (\<exists>rs pls us. revisions after = revisions before @ rs
          \<and> revision_categories after = revision_categories before @ pls \<and> users after = users before @ us)"
proof -
  have "keeps_public before after"
  proof (cases "after = before")
    case False
    have member: "\<exists>call. unguarded_call call \<and> after = perform E call before \<and> reachable E before"
      if "(False, before, after) \<in> set (srv_steps (snd (community_serve E P A headers q (received db limiter env))))"
      using community_run [OF assms(1) surjective_pairing, of P A headers q limiter env]
      by (elim conjE trace_ok_step [OF _ that False]) (auto simp: community_policy_def)
    have primary: "\<exists>call. unguarded_call call \<and> after = perform E call before \<and> reachable E before"
      if "(False, before, after) \<in> set (srv_steps (snd (admin_serve E P A headers q' (received db limiter env))))"
      using primary_run [OF assms(1) surjective_pairing, of P A headers q' limiter env]
      by (elim conjE trace_ok_step [OF _ that False]) (auto simp: primary_policy_def)
    from assms(2) member primary show ?thesis
      by (auto intro: unguarded_call_keeps_public dest: reachable_repo_inv)
  qed (simp add: public.unchanged)
  then show ?thesis by (simp add: keeps_public_def)
qed

lemma logout_changes:
  "case srv_steps (snd (community_serve example_extern example_platform example_app example_headers (PublicAuthMutation Logout)
      example_received)) of [] \<Rightarrow> False
   | (g, before, after) # later \<Rightarrow> \<not> g \<and> map se_revoked_at (sessions after) = [Some 50]"
  by code_simp

theorem unguarded_step_keeps_public_data_witness:
  "\<exists>(before :: db) (after :: db). map se_revoked_at (sessions after) = [Some 50] \<and> public_data after = public_data before"
proof -
  let ?steps = "srv_steps (snd (community_serve example_extern example_platform example_app example_headers (PublicAuthMutation Logout)
      (received example_desk_db member_auth_admission quiet_env)))"
  obtain before after later where "?steps = (False, before, after) # later" "map se_revoked_at (sessions after) = [Some 50]"
    using logout_changes unfolding example_received_def by (auto split: list.splits)
  moreover from this(1) have "public_data after = public_data before"
    using unguarded_step_keeps_public_data [OF example_desk_reachable, of before after example_platform example_app example_headers
      "PublicAuthMutation Logout" member_auth_admission quiet_env] by simp
  ultimately show ?thesis by (intro exI [of _ before] exI [of _ after] conjI)
qed

text \<open>
  (C13) The studio shows a document only to members of its site: every document in the answer to
  a read belongs to a site of which the user of the request's own session was a member at a step
  of the request.
\<close>

theorem studio_shows_own_documents:
  assumes "reachable E db"
    and "community_serve E P A headers (PrivateRead q) (received db limiter env) = (Some (Inr answer), s')"
    and "d \<in> set (answered_documents answer)"
  shows "shown_to_member P headers (srv_steps s') d"
proof -
  have "read_handler E P A headers q (received db limiter env) = (Inr answer, s')"
    using assms(2) by (auto simp: community_serve_def apfst_def map_prod_def split: if_splits prod.splits)
  from silent.obeys_result [OF read_handler_obeys assms(1) this] assms(3) show ?thesis
    by (simp add: read_answer_def)
qed

lemma example_document:
  "case list_documents_in_writable_site example_desk_db 10 20 500 of
     Inr [d] \<Rightarrow> doc_id d = 2 \<and> get_current_category example_desk_db (doc_site_id d) (doc_id d) = Inr None | _ \<Rightarrow> False"
  by code_simp

lemma list_answers:
  obtains d s' where "community_serve example_extern example_platform example_app example_headers (PrivateRead ListDocuments)
      (received example_desk_db member_auth_admission quiet_env) =
      (Some (Inr (DocumentsAnswer [\<lparr>sv_document = d, sv_category_id = None\<rparr>])), s')" "doc_id d = 2"
proof -
  let ?s = "received example_desk_db member_auth_admission quiet_env"
  obtain d where d: "list_documents_in_writable_site example_desk_db 10 20 500 = Inr [d]" "doc_id d = 2"
    "get_current_category example_desk_db (doc_site_id d) (doc_id d) = Inr None"
    using example_document by (auto split: sum.splits list.splits)
  have desk: "quiet_at example_desk_db ?s" by (simp add: quiet_at_def received_def)
  have view: "studio_document_view example_extern d (looked 5 ?s) = (Inr \<lparr>sv_document = d, sv_category_id = None\<rparr>, looked 6 ?s)"
    unfolding studio_document_view_def by (simp add: run_reads [of example_desk_db] desk d(3) req_of_def)
  have found: "req_then (reads example_extern (\<lambda>db. list_documents_in_writable_site db 10 20 500))
      (req_collect (studio_document_view example_extern)) (looked 4 ?s)
      = (Inr [\<lparr>sv_document = d, sv_category_id = None\<rparr>], looked 6 ?s)"
    by (simp add: run_reads [of example_desk_db] desk d(1) run_then view req_of_def)
  have "list_studio_documents example_extern example_platform example_app example_headers ?s
      = (Inr [\<lparr>sv_document = d, sv_category_id = None\<rparr>], looked 6 ?s)"
    unfolding list_studio_documents_def
    by (simp add: run_then example_require_user example_studio_access desk example_ids run_task found)
  then have "community_serve example_extern example_platform example_app example_headers (PrivateRead ListDocuments) ?s
      = (Some (Inr (DocumentsAnswer [\<lparr>sv_document = d, sv_category_id = None\<rparr>])), looked 6 ?s)"
    by (simp add: community_serve_def registered_def run_map)
  then show thesis using d(2) by (rule that)
qed

theorem studio_shows_own_documents_witness:
  "\<exists>(s' :: server) (d :: DocumentSnapshot). doc_id d = 2 \<and> shown_to_member example_platform example_headers (srv_steps s') d"
proof (rule list_answers)
  fix d s'
  assume run: "community_serve example_extern example_platform example_app example_headers (PrivateRead ListDocuments)
      (received example_desk_db member_auth_admission quiet_env) =
      (Some (Inr (DocumentsAnswer [\<lparr>sv_document = d, sv_category_id = None\<rparr>])), s')" and d: "doc_id d = 2"
  from studio_shows_own_documents [OF example_desk_reachable run, of d] d show ?thesis by auto
qed

end
