(* ===== verification/Mcp.thy ===== *)
theory Mcp
  imports Admin_Api
begin

text \<open>
  The MCP adapter, \<open>apps/mcp/src/lib.rs\<close>: a JSON-RPC server on standard input that offers the
  content tools of the blog to a model and calls the HTTP interface of the blog for them.
\<close>

section \<open>JSON\<close>

text \<open>\<open>serde_json::Value\<close>; the entries of an object are in the order of their keys.\<close>

datatype number = Integer int | Float "64 word"

datatype Value = Null | Boolean bool | Number number | Str rstr | Array "Value list" | Object "(rstr \<times> Value) list"

fun as_object :: "Value \<Rightarrow> (rstr \<times> Value) list option" where
  "as_object (Object obj) = Some obj"
| "as_object _ = None"

fun as_str :: "Value \<Rightarrow> rstr option" where
  "as_str (Str s) = Some s"
| "as_str _ = None"

fun as_bool :: "Value \<Rightarrow> bool option" where
  "as_bool (Boolean b) = Some b"
| "as_bool _ = None"

fun as_array :: "Value \<Rightarrow> Value list option" where
  "as_array (Array items) = Some items"
| "as_array _ = None"

fun is_string_or_number :: "Value \<Rightarrow> bool" where
  "is_string_or_number (Str _) = True"
| "is_string_or_number (Number _) = True"
| "is_string_or_number _ = False"

definition field :: "(rstr \<times> Value) list \<Rightarrow> string \<Rightarrow> Value option" where
  "field obj name = map_of obj (lit name)"

definition value_get :: "Value \<Rightarrow> string \<Rightarrow> Value option" where
  "value_get v name = Option.bind (as_object v) (\<lambda>obj. field obj name)"

text \<open>The \<open>json!\<close> macro: an object with these fields; an absent value is null.\<close>

definition insert_field :: "string \<Rightarrow> Value \<Rightarrow> (rstr \<times> Value) list \<Rightarrow> (rstr \<times> Value) list" where
  "insert_field name v obj = insert_entry (lit name) v obj"

definition json_object :: "(string \<times> Value) list \<Rightarrow> Value" where
  "json_object members = Object (fold (\<lambda>(name, v). insert_field name v) members [])"

abbreviation text_value :: "string \<Rightarrow> Value" where
  "text_value s \<equiv> Str (lit s)"

abbreviation int_value :: "int \<Rightarrow> Value" where
  "int_value n \<equiv> Number (Integer n)"

definition or_null :: "Value option \<Rightarrow> Value" where
  "or_null v = (case v of None \<Rightarrow> Null | Some x \<Rightarrow> x)"

section \<open>Configuration\<close>

definition MCP_PROTOCOL_VERSION :: rstr where
  "MCP_PROTOCOL_VERSION = lit ''2025-11-25''"

definition SUPPORTED_PROTOCOL_VERSIONS :: "rstr list" where
  "SUPPORTED_PROTOCOL_VERSIONS = [MCP_PROTOCOL_VERSION, lit ''2025-06-18'', lit ''2025-03-26'', lit ''2024-11-05'']"

definition MAX_MARKDOWN_BYTES :: nat where
  "MAX_MARKDOWN_BYTES = 10 * 1024 * 1024"

definition MAX_STDIO_FRAME_BYTES :: nat where
  "MAX_STDIO_FRAME_BYTES = 12 * 1024 * 1024"

definition MAX_API_RESPONSE_BYTES :: nat where
  "MAX_API_RESPONSE_BYTES = 32 * 1024 * 1024"

datatype AccessMode = ReadMode | WriteMode

definition access_mode_from_str :: "rstr \<Rightarrow> rstr + AccessMode" where
  "access_mode_from_str v =
     (if v = lit ''read'' then Inr ReadMode
      else if v = lit ''write'' then Inr WriteMode
      else Inl (lit ''mode must be either `read` or `write`''))"

text \<open>The parts of a parsed URL the adapter looks at.\<close>

datatype Host = Domain rstr | Ipv4 "32 word" | Ipv6 "128 word"

record BaseUrl =
  base_scheme :: rstr
  base_host :: "Host option"
  base_username :: rstr
  base_password :: "rstr option"
  base_path :: rstr
  base_query :: "rstr option"
  base_fragment :: "rstr option"

definition is_loopback_url :: "BaseUrl \<Rightarrow> bool" where
  "is_loopback_url u =
     (case base_host u of
        Some (Domain host) \<Rightarrow> to_ascii_lowercase host = lit ''localhost''
      | Some (Ipv4 address) \<Rightarrow> drop_bit 24 address = 127
      | Some (Ipv6 address) \<Rightarrow> address = 1
      | None \<Rightarrow> False)"

record McpConfig =
  cfg_base_url :: BaseUrl
  cfg_mode :: AccessMode
  cfg_bearer_token :: "rstr option"
  cfg_timeout :: nat
  cfg_requests_per_minute :: nat

text \<open>
  The crates \<open>url\<close>, \<open>uuid\<close>, \<open>serde_json\<close> and \<open>http\<close>, the text of the address a request goes to,
  and the version and repository the build was made from.
\<close>

record mcp_platform =
  mp_parse_url :: "rstr \<Rightarrow> rstr + BaseUrl"
  mp_uuid_parse :: "rstr \<Rightarrow> uuid option"
  mp_uuid_text :: "uuid \<Rightarrow> rstr"
  mp_from_str :: "rstr \<Rightarrow> Value option"
  mp_from_slice :: "byte list \<Rightarrow> rstr + Value"
  mp_to_string_pretty :: "Value \<Rightarrow> rstr option"
  mp_canonical_reason :: "nat \<Rightarrow> rstr option"
  mp_address :: "rstr list \<Rightarrow> (rstr \<times> rstr) list \<Rightarrow> rstr"
  mp_version :: rstr
  mp_repository :: rstr

definition trim_end_slashes :: "rstr \<Rightarrow> rstr" where
  "trim_end_slashes s = rev (dropWhile (\<lambda>c. c = 47) (rev s))"

definition config_new :: "mcp_platform \<Rightarrow> rstr \<Rightarrow> AccessMode \<Rightarrow> rstr option \<Rightarrow> nat \<Rightarrow> nat \<Rightarrow> rstr + McpConfig" where
  "config_new P base_url mode bearer_token timeout requests_per_minute =
     and_then (map_err (\<lambda>e. lit ''OSB MCP base URL is invalid: '' @ e) (mp_parse_url P base_url)) (\<lambda>base_url.
     and_then (reject_if (\<not> (base_scheme base_url = lit ''http'' \<or> base_scheme base_url = lit ''https'') \<or> base_host base_url = None)
        (lit ''OSB MCP base URL must be an absolute HTTP(S) URL'')) (\<lambda>_.
     and_then (reject_if (mode = WriteMode \<and> base_scheme base_url = lit ''http'' \<and> \<not> is_loopback_url base_url)
        (lit ''MCP write mode requires HTTPS unless the base URL uses localhost or a loopback IP'')) (\<lambda>_.
     and_then (reject_if (base_username base_url \<noteq> [] \<or> base_password base_url \<noteq> None \<or> base_query base_url \<noteq> None
          \<or> base_fragment base_url \<noteq> None)
        (lit ''OSB MCP base URL cannot contain credentials, a query, or a fragment'')) (\<lambda>_.
     let base_url = base_url\<lparr>base_path := trim_end_slashes (base_path base_url) @ lit ''/''\<rparr>;
         bearer_token = Option.bind (map_option trim bearer_token) (\<lambda>token. if token = [] then None else Some token) in
     and_then (reject_if (opt_any (\<lambda>token. byte_len token > 8192 \<or> list_ex (\<lambda>c. c < 32 \<or> c = 127) token) bearer_token)
        (lit ''OSB MCP bearer token contains invalid characters or is too long'')) (\<lambda>_.
     and_then (reject_if (mode = WriteMode \<and> bearer_token = None)
        (lit ''write mode requires OSB_MCP_TOKEN; secrets are intentionally not accepted as CLI flags'')) (\<lambda>_.
     and_then (reject_if (\<not> (1 \<le> timeout \<and> timeout \<le> 300)) (lit ''timeout must be between 1 and 300 seconds'')) (\<lambda>_.
     and_then (reject_if (\<not> (1 \<le> requests_per_minute \<and> requests_per_minute \<le> 10000))
        (lit ''requests per minute must be between 1 and 10000'')) (\<lambda>_.
       Inr \<lparr>cfg_base_url = base_url, cfg_mode = mode, cfg_bearer_token = bearer_token, cfg_timeout = timeout,
            cfg_requests_per_minute = requests_per_minute\<rparr>))))))))"

text \<open>\<open>str::parse::<u64>\<close>.\<close>

definition parse_u64 :: "rstr \<Rightarrow> nat option" where
  "parse_u64 s =
     (let digits = (case s of [] \<Rightarrow> [] | c # r \<Rightarrow> if c = 43 then r else s) in
      if digits = [] \<or> \<not> list_all is_ascii_digit digits then None
      else let n = foldl (\<lambda>n c. 10 * n + (c - 48)) 0 digits in
        if n < 2 ^ 64 then Some n else None)"

datatype env_var = NotPresent | NotUnicode rstr | Present rstr

definition env_number :: "(string \<Rightarrow> env_var) \<Rightarrow> string \<Rightarrow> nat \<Rightarrow> rstr + nat" where
  "env_number env name fallback =
     (case env name of
        Present v \<Rightarrow> ok_or (lit name @ lit '' must be an integer'') (parse_u64 v)
      | NotPresent \<Rightarrow> Inr fallback
      | NotUnicode e \<Rightarrow> Inl (lit ''could not read '' @ lit name @ lit '': '' @ e))"

definition env_text :: "(string \<Rightarrow> env_var) \<Rightarrow> string \<Rightarrow> string \<Rightarrow> rstr" where
  "env_text env name fallback = (case env name of Present v \<Rightarrow> v | _ \<Rightarrow> lit fallback)"

record mcp_settings =
  set_base_url :: rstr
  set_mode :: rstr
  set_timeout_seconds :: nat
  set_requests_per_minute :: nat

fun parse_arguments :: "rstr list \<Rightarrow> mcp_settings \<Rightarrow> rstr + mcp_settings" where
  "parse_arguments [] s = Inr s"
| "parse_arguments [flag] s = Inl (flag @ lit '' requires a value'')"
| "parse_arguments (flag # v # rest) s =
     (if flag = lit ''--base-url'' then parse_arguments rest (s\<lparr>set_base_url := v\<rparr>)
      else if flag = lit ''--mode'' then parse_arguments rest (s\<lparr>set_mode := v\<rparr>)
      else if flag = lit ''--timeout-seconds'' then
        and_then (ok_or (lit ''--timeout-seconds must be an integer'') (parse_u64 v)) (\<lambda>n.
          parse_arguments rest (s\<lparr>set_timeout_seconds := n\<rparr>))
      else if flag = lit ''--requests-per-minute'' then
        and_then (ok_or (lit ''--requests-per-minute must be an integer'') (parse_u64 v)) (\<lambda>n.
          parse_arguments rest (s\<lparr>set_requests_per_minute := n\<rparr>))
      else Inl (lit ''unknown argument `'' @ flag @ lit ''`; run osb-mcp --help''))"

definition from_process :: "mcp_platform \<Rightarrow> (string \<Rightarrow> env_var) \<Rightarrow> rstr list \<Rightarrow> rstr + McpConfig" where
  "from_process P env arguments =
     and_then (env_number env ''OSB_MCP_TIMEOUT_SECONDS'' 30) (\<lambda>timeout_seconds.
     and_then (env_number env ''OSB_MCP_REQUESTS_PER_MINUTE'' 120) (\<lambda>requests_per_minute.
     and_then (parse_arguments arguments
        \<lparr>set_base_url = env_text env ''OSB_MCP_BASE_URL'' ''http://127.0.0.1:3000'',
         set_mode = env_text env ''OSB_MCP_MODE'' ''read'', set_timeout_seconds = timeout_seconds,
         set_requests_per_minute = requests_per_minute\<rparr>) (\<lambda>s.
     and_then (reject_if (\<not> set_requests_per_minute s < 2 ^ 32) (lit ''requests per minute is too large'')) (\<lambda>_.
     and_then (access_mode_from_str (set_mode s)) (\<lambda>mode.
       config_new P (set_base_url s) mode (case env ''OSB_MCP_TOKEN'' of Present t \<Rightarrow> Some t | _ \<Rightarrow> None)
         (set_timeout_seconds s) (set_requests_per_minute s))))))"

end
