(* ===== verification/Mcp_Tools.thy ===== *)
theory Mcp_Tools
  imports Mcp
begin

text \<open>
  The tools of the MCP adapter: their published schemas, the validation of arguments into
  commands, the HTTP request of a command and the shape of its result.
\<close>

section \<open>Commands\<close>

datatype ApiCommand =
    ListPublished
  | ListAll
  | ReadPublished rstr rstr
  | ReadDocument uuid
  | Create Value
  | Revise uuid Value
  | Publish uuid uuid

definition truncate_text :: "rstr \<Rightarrow> nat \<Rightarrow> rstr" where
  "truncate_text v maximum_chars = (if length v > maximum_chars then take maximum_chars v @ [8230] else v)"

section \<open>Arguments\<close>

definition ensure_only :: "(rstr \<times> Value) list \<Rightarrow> string list \<Rightarrow> rstr + unit" where
  "ensure_only arguments allowed =
     (case List.find (\<lambda>name. name \<notin> set (map lit allowed)) (map fst arguments) of
        Some name \<Rightarrow> Inl (lit ''unknown argument `'' @ name @ lit ''`'')
      | None \<Rightarrow> Inr ())"

definition required_string :: "(rstr \<times> Value) list \<Rightarrow> string \<Rightarrow> rstr + rstr" where
  "required_string arguments name = ok_or (lit name @ lit '' must be a string'') (Option.bind (field arguments name) as_str)"

definition optional_string :: "(rstr \<times> Value) list \<Rightarrow> string \<Rightarrow> rstr + rstr option" where
  "optional_string arguments name =
     (case field arguments name of
        Some v \<Rightarrow> ok_or (lit name @ lit '' must be a string'') (map_option Some (as_str v))
      | None \<Rightarrow> Inr None)"

definition optional_bool :: "(rstr \<times> Value) list \<Rightarrow> string \<Rightarrow> rstr + bool option" where
  "optional_bool arguments name =
     (case field arguments name of
        Some v \<Rightarrow> ok_or (lit name @ lit '' must be a boolean'') (map_option Some (as_bool v))
      | None \<Rightarrow> Inr None)"

definition validate_bounded_text :: "string \<Rightarrow> rstr \<Rightarrow> nat \<Rightarrow> nat \<Rightarrow> rstr + unit" where
  "validate_bounded_text name v minimum maximum =
     (let n = length (trim v) in
      reject_if (\<not> (minimum \<le> n \<and> n \<le> maximum) \<or> contains_nul v)
        (lit (name @ '' must contain '' @ decimal minimum @ ''..='' @ decimal maximum @ '' characters'')))"

definition validate_tool_slug :: "rstr \<Rightarrow> rstr + unit" where
  "validate_tool_slug v =
     (let v = trim v in
      reject_if (v = [] \<or> byte_len v > 240 \<or> starts_with v (lit ''.'') \<or> ends_with v (lit ''.'')
         \<or> 47 \<in> set v \<or> 92 \<in> set v \<or> contains_nul v \<or> list_ex is_control v)
        (lit ''slug must be a safe path segment of at most 240 bytes''))"

definition parse_uuid :: "mcp_platform \<Rightarrow> string \<Rightarrow> rstr \<Rightarrow> rstr + uuid" where
  "parse_uuid P name v = ok_or (lit name @ lit '' must be a UUID'') (mp_uuid_parse P v)"

definition require_write :: "AccessMode \<Rightarrow> rstr + unit" where
  "require_write mode = (if mode = WriteMode then Inr () else Inl (lit ''this operation is unavailable in MCP read mode''))"

definition validate_public_authorship :: "Value \<Rightarrow> rstr + unit" where
  "validate_public_authorship v =
     and_then (ok_or (lit ''authorship must be an object'') (as_object v)) (\<lambda>authorship.
     and_then (ensure_only authorship [''kind'', ''generator'', ''humanReviewed'']) (\<lambda>_.
     and_then (required_string authorship ''kind'') (\<lambda>kind.
     and_then (reject_if (\<not> opt_any (\<lambda>v. as_bool v \<noteq> None) (field authorship ''humanReviewed''))
        (lit ''authorship.humanReviewed must be a boolean'')) (\<lambda>_.
     if kind = lit ''human'' then
       reject_if (field authorship ''generator'' \<noteq> None) (lit ''human authorship must not include a generator'')
     else if kind = lit ''ai_generated'' \<or> kind = lit ''ai_assisted'' \<or> kind = lit ''imported'' then
       and_then (ok_or (lit ''non-human authorship requires a generator string'')
          (Option.bind (field authorship ''generator'') as_str)) (\<lambda>generator.
         reject_if (trim generator = [] \<or> byte_len generator > 300 \<or> list_ex is_control generator)
           (lit ''authorship.generator must contain 1..=300 bytes without control characters''))
     else Inl (lit ''authorship.kind must be human, ai_generated, ai_assisted, or imported'')))))"

definition optional_content :: "(rstr \<times> Value) list \<Rightarrow> string \<Rightarrow> (rstr \<times> Value) list \<Rightarrow> rstr + (rstr \<times> Value) list" where
  "optional_content arguments name body =
     (case field arguments name of
        None \<Rightarrow> Inr body
      | Some v \<Rightarrow>
          let valid_shape = (if name = ''embeds'' then as_array v \<noteq> None else as_object v \<noteq> None \<or> v = Null) in
          if \<not> valid_shape then Inl (lit name @ lit '' has an invalid JSON shape'')
          else Inr (insert_field name v body))"

definition content_body :: "(rstr \<times> Value) list \<Rightarrow> rstr + (rstr \<times> Value) list" where
  "content_body arguments =
     and_then (required_string arguments ''title'') (\<lambda>title.
     and_then (validate_bounded_text ''title'' title 1 300) (\<lambda>_.
     and_then (required_string arguments ''slug'') (\<lambda>slug.
     and_then (validate_tool_slug slug) (\<lambda>_.
     and_then (required_string arguments ''sourceMarkdown'') (\<lambda>markdown.
     and_then (reject_if (byte_len markdown > MAX_MARKDOWN_BYTES \<or> contains_nul markdown)
        (lit ''sourceMarkdown is too large or contains a NUL byte'')) (\<lambda>_.
     let body = insert_field ''sourceMarkdown'' (Str markdown) (insert_field ''slug'' (Str slug)
           (insert_field ''title'' (Str title) [])) in
     and_then (ok_or (lit ''authorship is required for MCP create and revise operations'') (field arguments ''authorship'')) (\<lambda>authorship.
     and_then (validate_public_authorship authorship) (\<lambda>_.
     let body = insert_field ''authorship'' authorship body in
     and_then (optional_content arguments ''embeds'' body) (\<lambda>body.
     and_then (optional_content arguments ''intent'' body) (\<lambda>body.
       optional_content arguments ''ontology'' body))))))))))"

definition CONTENT_ARGUMENTS :: "string list" where
  "CONTENT_ARGUMENTS = [''title'', ''slug'', ''sourceMarkdown'', ''embeds'', ''intent'', ''ontology'', ''authorship'']"

definition parse_list :: "(rstr \<times> Value) list \<Rightarrow> AccessMode \<Rightarrow> rstr + ApiCommand" where
  "parse_list arguments mode =
     and_then (ensure_only arguments [''includeDrafts'']) (\<lambda>_.
     and_then (optional_bool arguments ''includeDrafts'') (\<lambda>include_drafts.
       if include_drafts = Some True then and_then (require_write mode) (\<lambda>_. Inr ListAll) else Inr ListPublished))"

definition parse_read :: "mcp_platform \<Rightarrow> (rstr \<times> Value) list \<Rightarrow> AccessMode \<Rightarrow> rstr + ApiCommand" where
  "parse_read P arguments mode =
     and_then (ensure_only arguments [''slug'', ''documentId'', ''view'']) (\<lambda>_.
     and_then (optional_string arguments ''slug'') (\<lambda>slug.
     and_then (optional_string arguments ''documentId'') (\<lambda>document_id.
     case (slug, document_id) of
       (Some slug, None) \<Rightarrow>
         and_then (validate_tool_slug slug) (\<lambda>_.
         and_then (optional_string arguments ''view'') (\<lambda>view.
         let view = (case view of None \<Rightarrow> lit ''markdown_source'' | Some v \<Rightarrow> v) in
         if view \<notin> {lit ''intent'', lit ''markdown'', lit ''markdown_source''}
         then Inl (lit ''view must be intent, markdown, or markdown_source'')
         else Inr (ReadPublished slug view)))
     | (None, Some document_id) \<Rightarrow>
         and_then (require_write mode) (\<lambda>_.
         and_then (parse_uuid P ''documentId'' document_id) (\<lambda>i. Inr (ReadDocument i)))
     | _ \<Rightarrow> Inl (lit ''provide exactly one of slug or documentId''))))"

definition parse_create :: "(rstr \<times> Value) list \<Rightarrow> AccessMode \<Rightarrow> rstr + ApiCommand" where
  "parse_create arguments mode =
     and_then (require_write mode) (\<lambda>_.
     and_then (ensure_only arguments CONTENT_ARGUMENTS) (\<lambda>_.
     and_then (content_body arguments) (\<lambda>body. Inr (Create (Object body)))))"

definition parse_revise :: "mcp_platform \<Rightarrow> (rstr \<times> Value) list \<Rightarrow> AccessMode \<Rightarrow> rstr + ApiCommand" where
  "parse_revise P arguments mode =
     and_then (require_write mode) (\<lambda>_.
     and_then (ensure_only arguments ([''documentId'', ''baseRevisionId'', ''idempotencyKey''] @ CONTENT_ARGUMENTS)) (\<lambda>_.
     and_then (required_string arguments ''documentId'') (\<lambda>document.
     and_then (parse_uuid P ''documentId'' document) (\<lambda>document_id.
     and_then (content_body arguments) (\<lambda>body.
     and_then (required_string arguments ''baseRevisionId'') (\<lambda>base.
     and_then (parse_uuid P ''baseRevisionId'' base) (\<lambda>base_revision_id.
     let body = insert_field ''baseRevisionId'' (Str (mp_uuid_text P base_revision_id)) body in
     and_then (required_string arguments ''idempotencyKey'') (\<lambda>idempotency_key.
     and_then (validate_bounded_text ''idempotencyKey'' idempotency_key 1 200) (\<lambda>_.
       Inr (Revise document_id (Object (insert_field ''idempotencyKey'' (Str idempotency_key) body))))))))))))"

definition parse_publish :: "mcp_platform \<Rightarrow> (rstr \<times> Value) list \<Rightarrow> AccessMode \<Rightarrow> rstr + ApiCommand" where
  "parse_publish P arguments mode =
     and_then (require_write mode) (\<lambda>_.
     and_then (ensure_only arguments [''documentId'', ''revisionId'']) (\<lambda>_.
     and_then (required_string arguments ''documentId'') (\<lambda>document.
     and_then (parse_uuid P ''documentId'' document) (\<lambda>document_id.
     and_then (required_string arguments ''revisionId'') (\<lambda>revision.
     and_then (parse_uuid P ''revisionId'' revision) (\<lambda>revision_id.
       Inr (Publish document_id revision_id)))))))"

definition parse_command :: "mcp_platform \<Rightarrow> rstr \<Rightarrow> (rstr \<times> Value) list \<Rightarrow> AccessMode \<Rightarrow> rstr + ApiCommand" where
  "parse_command P name arguments mode =
     (if name = lit ''osb_content_list'' then parse_list arguments mode
      else if name = lit ''osb_content_read'' then parse_read P arguments mode
      else if name = lit ''osb_content_create'' then parse_create arguments mode
      else if name = lit ''osb_content_revise'' then parse_revise P arguments mode
      else if name = lit ''osb_content_publish'' then parse_publish P arguments mode
      else Inl (lit ''unknown tool `'' @ name @ lit ''`''))"

definition tool_names :: "AccessMode \<Rightarrow> rstr list" where
  "tool_names mode =
     [lit ''osb_content_list'', lit ''osb_content_read'']
     @ (if mode = WriteMode then [lit ''osb_content_create'', lit ''osb_content_revise'', lit ''osb_content_publish''] else [])"

section \<open>The published schemas\<close>

definition schema_type :: "string \<Rightarrow> Value" where
  "schema_type t = json_object [(''type'', text_value t)]"

definition string_schema :: "nat \<Rightarrow> nat \<Rightarrow> Value" where
  "string_schema least most =
     json_object [(''type'', text_value ''string''), (''minLength'', int_value (int least)), (''maxLength'', int_value (int most))]"

definition uuid_schema :: Value where
  "uuid_schema = json_object [(''type'', text_value ''string''), (''format'', text_value ''uuid'')]"

definition public_authorship_schema :: Value where
  "public_authorship_schema = json_object
     [(''type'', text_value ''object''), (''additionalProperties'', Boolean False),
      (''required'', Array [text_value ''kind'', text_value ''humanReviewed'']),
      (''properties'', json_object
        [(''kind'', json_object [(''type'', text_value ''string''),
            (''enum'', Array [text_value ''human'', text_value ''ai_generated'', text_value ''ai_assisted'', text_value ''imported''])]),
         (''generator'', json_object [(''type'', text_value ''string''), (''minLength'', int_value 1), (''maxLength'', int_value 300),
            (''description'', text_value ''Portable provider/model or import-source label; never an internal actor, session, or agent ID.'')]),
         (''humanReviewed'', schema_type ''boolean'')]),
      (''allOf'', Array
        [json_object [(''if'', json_object [(''properties'', json_object [(''kind'', json_object [(''const'', text_value ''human'')])]),
                              (''required'', Array [text_value ''kind''])]),
               (''then'', json_object [(''properties'', json_object [(''generator'', Boolean False)])])],
         json_object [(''if'', json_object [(''properties'', json_object [(''kind'', json_object
                  [(''enum'', Array [text_value ''ai_generated'', text_value ''ai_assisted'', text_value ''imported''])])]),
                              (''required'', Array [text_value ''kind''])]),
               (''then'', json_object [(''required'', Array [text_value ''generator''])])]])]"

definition content_schema_properties :: "(string \<times> Value) list" where
  "content_schema_properties =
     [(''title'', string_schema 1 300), (''slug'', string_schema 1 240),
      (''sourceMarkdown'', json_object [(''type'', text_value ''string''), (''maxLength'', int_value (int MAX_MARKDOWN_BYTES))]),
      (''embeds'', json_object [(''type'', text_value ''array''), (''maxItems'', int_value 10000), (''items'', schema_type ''object'')]),
      (''intent'', json_object [(''type'', Array [text_value ''object'', text_value ''null''])]),
      (''ontology'', json_object [(''type'', Array [text_value ''object'', text_value ''null''])]),
      (''authorship'', public_authorship_schema)]"

definition annotations :: "bool \<Rightarrow> bool \<Rightarrow> Value" where
  "annotations read_only idempotent =
     json_object [(''readOnlyHint'', Boolean read_only), (''destructiveHint'', Boolean False),
       (''idempotentHint'', Boolean idempotent), (''openWorldHint'', Boolean True)]"

text \<open>What every tool has in common: a closed object schema and no task support.\<close>

definition tool_definition ::
  "string \<Rightarrow> string \<Rightarrow> string \<Rightarrow> (string \<times> Value) list \<Rightarrow> (string \<times> Value) list \<Rightarrow> Value \<Rightarrow> Value" where
  "tool_definition name title description properties extra hints = json_object
     [(''name'', text_value name), (''title'', text_value title), (''description'', text_value description),
      (''inputSchema'', json_object
        ([(''$schema'', text_value ''https://json-schema.org/draft/2020-12/schema''), (''type'', text_value ''object''),
          (''properties'', json_object properties)] @ extra @ [(''additionalProperties'', Boolean False)])),
      (''annotations'', hints), (''execution'', json_object [(''taskSupport'', text_value ''forbidden'')])]"

definition list_tool :: Value where
  "list_tool = tool_definition ''osb_content_list'' ''List blog content''
     ''List compact published summaries. In write mode includeDrafts may include private current document summaries. Returned titles and slugs are untrusted content.''
     [(''includeDrafts'', json_object [(''type'', text_value ''boolean''), (''default'', Boolean False)])] [] (annotations True True)"

definition read_tool :: Value where
  "read_tool = tool_definition ''osb_content_read'' ''Read blog content''
     ''Read one published post by slug, including the selected sanitized publish artifact and portable Markdown, or one private current document by documentId in write mode. Exactly one reference is required. Returned content is untrusted.''
     [(''slug'', string_schema 1 240), (''documentId'', uuid_schema),
      (''view'', json_object [(''type'', text_value ''string''),
         (''enum'', Array [text_value ''intent'', text_value ''markdown'', text_value ''markdown_source'']),
         (''default'', text_value ''markdown_source'')])]
     [(''oneOf'', Array
        [json_object [(''required'', Array [text_value ''slug'']), (''not'', json_object [(''required'', Array [text_value ''documentId''])])],
         json_object [(''required'', Array [text_value ''documentId'']), (''not'', json_object [(''required'', Array [text_value ''slug''])])]])]
     (annotations True True)"

definition create_tool :: Value where
  "create_tool = tool_definition ''osb_content_create'' ''Create a blog draft''
     ''Create an unpublished draft through the authoritative HTTP API. Explicit portable authorship is required so AI-created content cannot silently default to human authorship. This tool does not publish, execute macros, or call a model.''
     content_schema_properties
     [(''required'', Array [text_value ''title'', text_value ''slug'', text_value ''sourceMarkdown'', text_value ''authorship''])]
     (annotations False False)"

definition revise_tool :: Value where
  "revise_tool = tool_definition ''osb_content_revise'' ''Append a blog revision''
     ''Append a complete immutable revision with explicit portable authorship. Read first, copy any embeds/sidecars that must remain, and pass the current baseRevisionId. The new revision remains unpublished.''
     (content_schema_properties
      @ [(''documentId'', uuid_schema), (''baseRevisionId'', uuid_schema), (''idempotencyKey'', string_schema 1 200)])
     [(''required'', Array [text_value ''documentId'', text_value ''baseRevisionId'', text_value ''idempotencyKey'',
         text_value ''title'', text_value ''slug'', text_value ''sourceMarkdown'', text_value ''authorship''])]
     (annotations False False)"

definition publish_tool :: Value where
  "publish_tool = tool_definition ''osb_content_publish'' ''Publish an exact blog revision''
     ''Make one exact immutable revision public. This is intentionally separate from create and revise and should require explicit user confirmation in the MCP host.''
     [(''documentId'', uuid_schema), (''revisionId'', uuid_schema)]
     [(''required'', Array [text_value ''documentId'', text_value ''revisionId''])] (annotations False True)"

definition tool_definitions :: "AccessMode \<Rightarrow> Value list" where
  "tool_definitions mode =
     [list_tool, read_tool] @ (if mode = WriteMode then [create_tool, revise_tool, publish_tool] else [])"

section \<open>Results\<close>

definition pointer :: "Value \<Rightarrow> string \<Rightarrow> string \<Rightarrow> Value option" where
  "pointer v outer inner = Option.bind (value_get v outer) (\<lambda>x. value_get x inner)"

definition compact_items :: "Value \<Rightarrow> bool \<Rightarrow> Value list" where
  "compact_items v full =
     (case as_array v of
        None \<Rightarrow> []
      | Some items \<Rightarrow> map (\<lambda>item.
          if full then json_object
            [(''id'', or_null (value_get item ''id'')), (''status'', or_null (value_get item ''status'')),
             (''currentRevisionId'', or_null (value_get item ''currentRevisionId'')),
             (''publishedRevisionId'', or_null (value_get item ''publishedRevisionId'')),
             (''title'', or_null (pointer item ''revision'' ''title'')), (''slug'', or_null (pointer item ''revision'' ''slug'')),
             (''updatedAt'', or_null (value_get item ''updatedAt''))]
          else item) items)"

definition compact_published :: "Value \<Rightarrow> Value" where
  "compact_published v = json_object (map (\<lambda>name. (name, or_null (value_get v name)))
     [''id'', ''title'', ''canonicalSlug'', ''requestedSlug'', ''revisionId'', ''markdown'', ''embeds'', ''ontology'', ''artifact''])"

fun shape_result :: "ApiCommand \<Rightarrow> Value \<Rightarrow> Value" where
  "shape_result ListPublished v = json_object [(''scope'', text_value ''published''), (''items'', Array (compact_items v False))]"
| "shape_result ListAll v = json_object [(''scope'', text_value ''all''), (''items'', Array (compact_items v True))]"
| "shape_result (ReadPublished _ _) v = json_object [(''scope'', text_value ''published''), (''item'', compact_published v)]"
| "shape_result (ReadDocument _) v = json_object [(''scope'', text_value ''private''), (''item'', v)]"
| "shape_result (Create _) v = json_object [(''document'', v)]"
| "shape_result (Revise _ _) v = json_object [(''revision'', v)]"
| "shape_result (Publish _ _) v = json_object [(''document'', v)]"

definition tool_success :: "mcp_platform \<Rightarrow> Value \<Rightarrow> Value" where
  "tool_success P structured =
     (let t = (case mp_to_string_pretty P structured of None \<Rightarrow> lit ''{\"error\":\"could not serialize result\"}'' | Some t \<Rightarrow> t) in
      json_object [(''content'', Array [json_object [(''type'', text_value ''text''), (''text'', Str t)]]),
        (''structuredContent'', structured), (''isError'', Boolean False)])"

definition tool_error :: "rstr \<Rightarrow> Value" where
  "tool_error message =
     json_object [(''content'', Array [json_object [(''type'', text_value ''text''), (''text'', Str (truncate_text message 4000))]]),
       (''isError'', Boolean True)]"

section \<open>The HTTP client\<close>

text \<open>A request to the blog: the path segments below the base URL, and the token where it is sent.\<close>

record http_request =
  hr_method :: http_method
  hr_segments :: "rstr list"
  hr_query :: "(rstr \<times> rstr) list"
  hr_body :: "Value option"
  hr_bearer :: "rstr option"

fun command_request :: "mcp_platform \<Rightarrow> ApiCommand \<Rightarrow> http_method \<times> rstr list \<times> (rstr \<times> rstr) list \<times> Value option \<times> bool" where
  "command_request P ListPublished = (GET, [lit ''api'', lit ''v1'', lit ''posts''], [], None, False)"
| "command_request P ListAll = (GET, [lit ''api'', lit ''v1'', lit ''admin'', lit ''documents''], [], None, True)"
| "command_request P (ReadPublished slug view) =
     (GET, [lit ''api'', lit ''v1'', lit ''posts'', slug], [(lit ''view'', view)], None, False)"
| "command_request P (ReadDocument i) =
     (GET, [lit ''api'', lit ''v1'', lit ''admin'', lit ''documents'', mp_uuid_text P i], [], None, True)"
| "command_request P (Create body) = (POST, [lit ''api'', lit ''v1'', lit ''posts''], [], Some body, True)"
| "command_request P (Revise i body) =
     (POST, [lit ''api'', lit ''v1'', lit ''documents'', mp_uuid_text P i, lit ''revisions''], [], Some body, True)"
| "command_request P (Publish i revision) =
     (POST, [lit ''api'', lit ''v1'', lit ''documents'', mp_uuid_text P i, lit ''publish''], [],
      Some (json_object [(''revisionId'', Str (mp_uuid_text P revision))]), True)"

text \<open>What the network gives back: no answer, or a status, a length and the chunks of the body.\<close>

datatype upstream = Unreachable rstr | Answered nat "nat option" "(rstr + byte list) list"

fun read_chunks :: "byte list \<Rightarrow> (rstr + byte list) list \<Rightarrow> rstr + byte list" where
  "read_chunks bytes [] = Inr bytes"
| "read_chunks bytes (Inl e # _) = Inl (lit ''could not read upstream response: '' @ e)"
| "read_chunks bytes (Inr chunk # rest) =
     (if length bytes + length chunk > MAX_API_RESPONSE_BYTES then Inl (lit ''upstream response exceeds the MCP safety limit'')
      else read_chunks (bytes @ chunk) rest)"

definition failure_message :: "mcp_platform \<Rightarrow> nat \<Rightarrow> rstr + Value \<Rightarrow> rstr" where
  "failure_message P status payload =
     (let told = (case payload of
          Inl _ \<Rightarrow> None
        | Inr v \<Rightarrow> (case Option.bind (value_get v ''message'') as_str of
              Some m \<Rightarrow> Some m
            | None \<Rightarrow> Option.bind (value_get v ''error'') as_str)) in
      case told of Some m \<Rightarrow> m
      | None \<Rightarrow> (case mp_canonical_reason P status of Some r \<Rightarrow> r | None \<Rightarrow> lit ''upstream error''))"

definition api_failure :: "rstr \<Rightarrow> rstr" where
  "api_failure message = truncate_text message 4000"

definition response_json :: "mcp_platform \<Rightarrow> nat \<Rightarrow> nat option \<Rightarrow> (rstr + byte list) list \<Rightarrow> rstr + Value" where
  "response_json P status content_length chunks = map_err api_failure (
     if opt_any (\<lambda>n. n > MAX_API_RESPONSE_BYTES) content_length
     then Inl (lit ''upstream response exceeds the MCP safety limit'')
     else and_then (read_chunks [] chunks) (\<lambda>bytes.
       let payload = mp_from_slice P bytes in
       if \<not> (200 \<le> status \<and> status \<le> 299)
       then Inl (lit (''OpenSoverignBlog API returned '' @ decimal status @ '': '') @ failure_message P status payload)
       else map_err (\<lambda>e. lit ''OpenSoverignBlog API returned invalid JSON: '' @ e) payload))"

text \<open>The result of a command and the request that was sent for it, if any.\<close>

definition execute ::
  "mcp_platform \<Rightarrow> rstr option \<Rightarrow> (http_request \<Rightarrow> upstream) \<Rightarrow> ApiCommand \<Rightarrow> (rstr + Value) \<times> http_request option" where
  "execute P bearer_token upstream command =
     (case command_request P command of (meth, segments, query, body, authenticated) \<Rightarrow>
        if authenticated \<and> bearer_token = None then (Inl (api_failure (lit ''this operation requires MCP write mode'')), None)
        else
          let request = \<lparr>hr_method = meth, hr_segments = segments, hr_query = query, hr_body = body,
                hr_bearer = (if authenticated then bearer_token else None)\<rparr> in
          (case upstream request of
             Unreachable e \<Rightarrow> Inl (api_failure (lit ''could not reach '' @ mp_address P segments query @ lit '': '' @ e))
           | Answered status content_length chunks \<Rightarrow> response_json P status content_length chunks,
           Some request))"

end
