(* ===== verification/Mcp_Properties.thy ===== *)
theory Mcp_Properties
  imports Mcp_Adapter
begin

text \<open>
  The properties of the MCP adapter: what it answers, what it may send to the blog, and that the
  server admits what it sends.
\<close>

section \<open>Objects\<close>

lemma field_insert_field [simp]: "field (insert_field name v obj) name' = (if name' = name then Some v else field obj name')"
  by (auto simp: field_def insert_field_def map_of_insert_entry)

lemma field_fold_insert:
  "field (fold (\<lambda>(name, v). insert_field name v) members obj) name =
     (case map_of (rev members) name of None \<Rightarrow> field obj name | Some v \<Rightarrow> Some v)"
  by (induction members arbitrary: obj) (auto simp: map_add_def split: option.splits)

lemma value_get_json_object: "value_get (json_object members) name = map_of (rev members) name"
  by (simp add: value_get_def json_object_def field_fold_insert split: option.splits) (simp add: field_def)

section \<open>Answers\<close>

text \<open>The identifier the answer to a message carries; a notification has no answer.\<close>

definition answered_id :: "Value \<Rightarrow> Value option" where
  "answered_id message =
     (case as_object message of
        None \<Rightarrow> Some Null
      | Some obj \<Rightarrow>
          if Option.bind (field obj ''jsonrpc'') as_str \<noteq> Some (lit ''2.0'') then Some Null
          else (case field obj ''id'' of
              None \<Rightarrow> None
            | Some i \<Rightarrow> if is_string_or_number i then Some i else Some Null))"

definition answers :: "Value \<Rightarrow> Value \<Rightarrow> bool" where
  "answers i r \<longleftrightarrow> value_get r ''id'' = Some i \<and> value_get r ''jsonrpc'' = Some (text_value ''2.0'')
     \<and> (value_get r ''result'' = None) \<noteq> (value_get r ''error'' = None)"

lemma answers_rpc [simp]: "answers i (rpc_result i v)" "answers i (rpc_error i code message)"
  by (simp_all add: answers_def rpc_result_def rpc_error_def value_get_json_object)

lemma initialize_answers: "answers i (fst (initialize P i params a))"
  by (simp add: initialize_def Let_def split: option.splits)

lemma call_tool_answers: "answers i (fst (call_tool P blog now now' i params a))"
  by (simp add: call_tool_def Let_def split: option.splits sum.splits prod.splits)

lemma handle_request_answers: "answers i (fst (handle_request P blog now now' i meth params a))"
  by (simp add: handle_request_def initialize_answers call_tool_answers list_tools_def)

section \<open>Invariants of a connection\<close>

locale mcp_invariant =
  fixes P :: mcp_platform and blog :: upstream_blog and Inv :: "McpAdapter \<Rightarrow> bool"
  assumes initialized: "Inv a \<Longrightarrow> Inv (snd (initialize P i params a))"
    and notified: "Inv a \<Longrightarrow> Inv (handle_notification meth a)"
    and called: "Inv a \<Longrightarrow> ad_lifecycle a = Ready \<Longrightarrow> Inv (snd (call_tool P blog now now' i params a))"
begin

lemma requested: "Inv a \<Longrightarrow> Inv (snd (handle_request P blog now now' i meth params a))"
  by (simp add: handle_request_def initialized called)

lemma messaged: "Inv a \<Longrightarrow> Inv (snd (handle_message P blog now now' message a))"
  by (auto simp: handle_message_def Let_def requested notified split: option.splits)

lemma lined: "Inv a \<Longrightarrow> Inv (snd (handle_line P blog input a))"
  by (auto simp: handle_line_def messaged split: prod.splits option.splits)

lemma ran: "Inv a \<Longrightarrow> Inv (snd (run_stdio P blog inputs a))"
proof (induction inputs arbitrary: a)
  case (Cons input inputs)
  then have "Inv (snd (handle_line P blog input a))" by (intro lined)
  from Cons.IH [OF this] show ?case by (simp add: case_prod_beta Let_def)
qed simp

end

text \<open>What one call of a tool does to the adapter.\<close>

lemma call_tool_effect:
  "(\<exists>limiter. snd (call_tool P blog now now' i params a) = a\<lparr>ad_limiter := limiter\<rparr>)
   \<or> (\<exists>limiter name arguments command r. parse_command P name arguments (ad_mode a) = Inr command
        \<and> snd (execute P (ad_token a) (blog (ad_sent a)) command) = Some r
        \<and> snd (call_tool P blog now now' i params a) = a\<lparr>ad_limiter := limiter, ad_sent := ad_sent a @ [r]\<rparr>)"
proof (cases "\<exists>limiter. snd (call_tool P blog now now' i params a) = a\<lparr>ad_limiter := limiter\<rparr>")
  case False
  then have busy: "snd (call_tool P blog now now' i params a) \<noteq> a\<lparr>ad_limiter := limiter\<rparr>" for limiter by blast
  from busy [of "ad_limiter a"] obtain fs where fs: "Option.bind params as_object = Some fs"
    by (cases "Option.bind params as_object") (simp_all add: call_tool_def)
  with busy [of "ad_limiter a"] obtain name where name: "Option.bind (field fs ''name'') as_str = Some name"
    by (cases "Option.bind (field fs ''name'') as_str") (simp_all add: call_tool_def)
  with fs busy [of "ad_limiter a"] have known: "name \<in> set (tool_names (ad_mode a))"
    by (rule_tac ccontr) (simp add: call_tool_def)
  obtain arguments where args: "as_object (case field fs ''arguments'' of None \<Rightarrow> json_object [] | Some v \<Rightarrow> v) = Some arguments"
    using fs name known busy [of "ad_limiter a"]
    by (cases "as_object (case field fs ''arguments'' of None \<Rightarrow> json_object [] | Some v \<Rightarrow> v)") (simp_all add: call_tool_def)
  obtain ok limiter where limiter: "allow now now' (ad_limiter a) = (ok, limiter)" by fastforce
  note run = fs name known args limiter
  have ok using run busy [of limiter] by (rule_tac ccontr) (simp add: call_tool_def)
  with run busy [of limiter] obtain command where command: "parse_command P name arguments (ad_mode a) = Inr command"
    by (cases "parse_command P name arguments (ad_mode a)") (simp_all add: call_tool_def)
  obtain result sent where executed: "execute P (ad_token a) (blog (ad_sent a)) command = (result, sent)" by fastforce
  have state: "snd (call_tool P blog now now' i params a) =
      a\<lparr>ad_limiter := limiter, ad_sent := ad_sent a @ (case sent of None \<Rightarrow> [] | Some r \<Rightarrow> [r])\<rparr>"
    using run \<open>ok\<close> command executed by (simp add: call_tool_def Let_def split: sum.splits)
  with busy [of limiter] obtain r where "sent = Some r" by (cases sent) simp_all
  with executed have "snd (execute P (ad_token a) (blog (ad_sent a)) command) = Some r" by simp
  moreover have "snd (call_tool P blog now now' i params a) = a\<lparr>ad_limiter := limiter, ad_sent := ad_sent a @ [r]\<rparr>"
    using state \<open>sent = Some r\<close> by simp
  ultimately show ?thesis using command by blast
qed blast

lemma execute_request:
  assumes "snd (execute P token up command) = Some r"
  shows "case command_request P command of (meth, segments, query, body, authenticated) \<Rightarrow>
     hr_method r = meth \<and> hr_segments r = segments \<and> hr_body r = body
     \<and> hr_bearer r = (if authenticated then token else None) \<and> (authenticated \<longrightarrow> token \<noteq> None)"
  using assms by (auto simp: execute_def Let_def split: prod.splits if_splits)

lemma lifecycle_only:
  "\<exists>l. snd (initialize P i params a) = a\<lparr>ad_lifecycle := l\<rparr>" "\<exists>l. handle_notification meth a = a\<lparr>ad_lifecycle := l\<rparr>"
proof -
  have "\<exists>l. a = a\<lparr>ad_lifecycle := l\<rparr>" by (intro exI [of _ "ad_lifecycle a"]) simp
  then show "\<exists>l. snd (initialize P i params a) = a\<lparr>ad_lifecycle := l\<rparr>" "\<exists>l. handle_notification meth a = a\<lparr>ad_lifecycle := l\<rparr>"
    by (auto simp: initialize_def handle_notification_def Let_def split: option.splits)
qed

section \<open>What the adapter sends\<close>

definition public_read :: "http_request \<Rightarrow> bool" where
  "public_read r \<longleftrightarrow> hr_method r = GET \<and> hr_bearer r = None \<and> hr_body r = None
     \<and> take 3 (hr_segments r) = [lit ''api'', lit ''v1'', lit ''posts'']"

text \<open>The path of a request below the base URL, and the authorship its body declares.\<close>

definition request_path :: "http_request \<Rightarrow> rstr" where
  "request_path r = concat (map (\<lambda>segment. 47 # segment) (hr_segments r))"

definition declares_authorship :: "http_request \<Rightarrow> bool" where
  "declares_authorship r \<longleftrightarrow>
     (\<exists>obj v. hr_body r = Some (Object obj) \<and> field obj ''authorship'' = Some v \<and> validate_public_authorship v = Inr ())"

text \<open>The text of an identifier is one path segment that the server reads back.\<close>

definition uuid_texts :: "mcp_platform \<Rightarrow> platform \<Rightarrow> bool" where
  "uuid_texts P P' \<longleftrightarrow>
     (\<forall>u. mp_uuid_text P u \<noteq> [] \<and> 47 \<notin> set (mp_uuid_text P u) \<and> pf_uuid_parse P' (mp_uuid_text P u) \<noteq> None)"

definition agent_request :: "mcp_platform \<Rightarrow> rstr option \<Rightarrow> AccessMode \<Rightarrow> http_request \<Rightarrow> bool" where
  "agent_request P token mode r \<longleftrightarrow>
     public_read r
     \<or> (mode = WriteMode \<and> hr_bearer r = token \<and> token \<noteq> None
        \<and> (\<exists>command. command_request P command = (hr_method r, hr_segments r, [], hr_body r, True)
             \<and> ((\<exists>body. command = Create body) \<or> (\<exists>i body. command = Revise i body) \<longrightarrow> declares_authorship r)))"

lemma optional_content_keeps:
  "optional_content arguments name body = Inr body' \<Longrightarrow> name' \<noteq> name \<Longrightarrow> field body' name' = field body name'"
  by (auto simp: optional_content_def Let_def split: option.splits if_splits)

lemma content_body_authorship:
  assumes "content_body arguments = Inr body"
  shows "\<exists>v. field body ''authorship'' = Some v \<and> validate_public_authorship v = Inr ()"
  using assms unfolding content_body_def Let_def and_then_eq_Inr
  by (elim exE conjE) (drule optional_content_keeps [where name' = "''authorship''"], simp,
    drule optional_content_keeps [where name' = "''authorship''"], simp,
    drule optional_content_keeps [where name' = "''authorship''"], simp, auto)

lemma parsed_commands:
  assumes "parse_command P name arguments mode = Inr command"
  shows "mode = WriteMode \<or> command = ListPublished \<or> (\<exists>slug view. command = ReadPublished slug view)"
    and "command = Create body \<or> command = Revise i body \<Longrightarrow>
      \<exists>obj v. body = Object obj \<and> field obj ''authorship'' = Some v \<and> validate_public_authorship v = Inr ()"
  using assms content_body_authorship
  by (auto simp: parse_command_def parse_list_def parse_read_def parse_create_def parse_revise_def parse_publish_def
      require_write_def Let_def and_then_eq_Inr split: if_splits option.splits)

lemma sent_request:
  assumes "parse_command P name arguments mode = Inr command" and "snd (execute P token up command) = Some r"
  shows "agent_request P token mode r"
proof (cases "command = ListPublished \<or> (\<exists>slug view. command = ReadPublished slug view)")
  case True
  then show ?thesis using execute_request [OF assms(2)]
    by (elim disjE exE) (simp_all add: agent_request_def public_read_def)
next
  case False
  then have allowed: "mode = WriteMode" using parsed_commands(1) [OF assms(1)] by blast
  have request: "command_request P command = (hr_method r, hr_segments r, [], hr_body r, True) \<and> hr_bearer r = token \<and> token \<noteq> None"
    using execute_request [OF assms(2)] False by (cases command) simp_all
  have "declares_authorship r" if "(\<exists>body. command = Create body) \<or> (\<exists>i body. command = Revise i body)"
    using that request parsed_commands(2) [OF assms(1)] by (auto simp: declares_authorship_def) metis+
  with allowed request show ?thesis unfolding agent_request_def by blast
qed

definition sends_for_agent :: "mcp_platform \<Rightarrow> rstr option \<Rightarrow> AccessMode \<Rightarrow> McpAdapter \<Rightarrow> bool" where
  "sends_for_agent P token mode a \<longleftrightarrow>
     ad_token a = token \<and> ad_mode a = mode \<and> (\<forall>r \<in> set (ad_sent a). agent_request P token mode r)
     \<and> (ad_sent a \<noteq> [] \<longrightarrow> ad_lifecycle a = Ready)"

interpretation sends: mcp_invariant P blog "sends_for_agent P token mode" for P blog token mode
proof
  fix a :: McpAdapter and i :: Value and params :: "Value option" and meth :: rstr and now now' :: nat
  assume inv: "sends_for_agent P token mode a"
  show "sends_for_agent P token mode (snd (initialize P i params a))"
    using inv by (auto simp: sends_for_agent_def initialize_def Let_def split: option.splits)
  show "sends_for_agent P token mode (handle_notification meth a)"
    using inv by (auto simp: sends_for_agent_def handle_notification_def)
  assume ready: "ad_lifecycle a = Ready"
  from call_tool_effect [of P blog now now' i params a] show "sends_for_agent P token mode (snd (call_tool P blog now now' i params a))"
    using inv ready by (auto simp: sends_for_agent_def dest: sent_request)
qed

lemma sent_by_run:
  "sends_for_agent P (cfg_bearer_token config) (cfg_mode config) (snd (run_stdio P blog inputs (adapter_new config now)))"
  by (rule sends.ran) (simp add: sends_for_agent_def adapter_new_def)

section \<open>A concrete connection\<close>

text \<open>The client sends the lines \<open>i\<close>, \<open>n\<close> and \<open>p\<close> or \<open>d\<close>: initialize, initialized, and a list without or with drafts.\<close>

definition call_message :: "(string \<times> Value) list \<Rightarrow> Value" where
  "call_message arguments = json_object [(''jsonrpc'', text_value ''2.0''), (''id'', int_value 2), (''method'', text_value ''tools/call''),
     (''params'', json_object [(''name'', text_value ''osb_content_list''), (''arguments'', json_object arguments)])]"

definition mcp_example :: mcp_platform where
  "mcp_example = \<lparr>mp_parse_url = (\<lambda>_. Inr \<lparr>base_scheme = lit ''http'', base_host = Some (Ipv4 2130706433), base_username = [],
        base_password = None, base_path = lit ''/'', base_query = None, base_fragment = None\<rparr>),
     mp_uuid_parse = (\<lambda>_. Some 2), mp_uuid_text = (\<lambda>_. lit ''u''),
     mp_from_str = (\<lambda>line.
       if line = lit ''i'' then Some (json_object [(''jsonrpc'', text_value ''2.0''), (''id'', int_value 1),
         (''method'', text_value ''initialize''), (''params'', json_object [(''protocolVersion'', text_value ''x''),
            (''capabilities'', json_object []), (''clientInfo'', json_object [])])])
       else if line = lit ''n'' then Some (json_object [(''jsonrpc'', text_value ''2.0''),
         (''method'', text_value ''notifications/initialized'')])
       else if line = lit ''p'' then Some (call_message [])
       else if line = lit ''d'' then Some (call_message [(''includeDrafts'', Boolean True)])
       else None),
     mp_from_slice = (\<lambda>_. Inr Null), mp_to_string_pretty = (\<lambda>_. None), mp_canonical_reason = (\<lambda>_. None),
     mp_address = (\<lambda>_ _. []), mp_version = [], mp_repository = []\<rparr>"

definition mcp_config :: "AccessMode \<Rightarrow> McpConfig" where
  "mcp_config mode = \<lparr>cfg_base_url = \<lparr>base_scheme = lit ''http'', base_host = Some (Ipv4 2130706433), base_username = [],
        base_password = None, base_path = lit ''/'', base_query = None, base_fragment = None\<rparr>,
     cfg_mode = mode, cfg_bearer_token = Some (lit ''t''), cfg_timeout = 30, cfg_requests_per_minute = 120\<rparr>"

definition mcp_lines :: "rstr \<Rightarrow> (rstr \<times> nat \<times> nat) list" where
  "mcp_lines call = [(lit ''i'', 0, 0), (lit ''n'', 1, 1), (call, 2, 2)]"

definition mcp_sent :: "AccessMode \<Rightarrow> rstr \<Rightarrow> http_request list" where
  "mcp_sent mode call =
     ad_sent (snd (run_stdio mcp_example (\<lambda>_ _. Unreachable []) (mcp_lines call) (adapter_new (mcp_config mode) 0)))"

lemma mcp_sent_public: "mcp_sent ReadMode (lit ''p'') = [\<lparr>hr_method = GET, hr_segments = [lit ''api'', lit ''v1'', lit ''posts''],
    hr_query = [], hr_body = None, hr_bearer = None\<rparr>]"
  by code_simp

lemma mcp_sent_drafts: "mcp_sent WriteMode (lit ''d'') =
    [\<lparr>hr_method = GET, hr_segments = [lit ''api'', lit ''v1'', lit ''admin'', lit ''documents''],
      hr_query = [], hr_body = None, hr_bearer = Some (lit ''t'')\<rparr>]"
  by code_simp

lemma mcp_config_ok: "config_new mcp_example [] WriteMode (Some (lit '' t '')) 30 120 = Inr (mcp_config WriteMode)"
  by code_simp

lemma mcp_config_mode: "cfg_mode (mcp_config mode) = mode"
  by (simp add: mcp_config_def)

section \<open>Properties\<close>

text \<open>
  (C16) An adapter in read mode only reads what is public: whatever lines it is given and whatever
  the blog answers, every request it sends is a GET on the public posts without a token and
  without a body.
\<close>

theorem read_mode_only_reads:
  assumes "cfg_mode config = ReadMode" and "r \<in> set (ad_sent (snd (run_stdio P blog inputs (adapter_new config now))))"
  shows "public_read r"
  using sent_by_run [of P config blog inputs now] assms by (auto simp: sends_for_agent_def agent_request_def)

theorem read_mode_only_reads_witness:
  "\<exists>r. r \<in> set (mcp_sent ReadMode (lit ''p'')) \<and> public_read r"
proof -
  obtain r where r: "r \<in> set (mcp_sent ReadMode (lit ''p''))" using mcp_sent_public by simp
  from read_mode_only_reads [OF mcp_config_mode this [unfolded mcp_sent_def]] r show ?thesis by blast
qed

text \<open>
  (C17) The token leaves the process only where it may. From an accepted configuration every
  request with a token is made in write mode with the configured token, over HTTPS or to the own
  machine, after the client has finished the handshake.
\<close>

theorem token_stays_protected:
  assumes "config_new P base_url mode token timeout limit = Inr config"
    and "r \<in> set (ad_sent (snd (run_stdio P blog inputs (adapter_new config now))))" and "hr_bearer r \<noteq> None"
  shows "mode = WriteMode \<and> hr_bearer r = map_option trim token
     \<and> (base_scheme (cfg_base_url config) = lit ''https'' \<or> is_loopback_url (cfg_base_url config))
     \<and> ad_lifecycle (snd (run_stdio P blog inputs (adapter_new config now))) = Ready"
proof -
  note sent = sent_by_run [of P config blog inputs now]
  have agent: "agent_request P (cfg_bearer_token config) (cfg_mode config) r"
    using sent assms(2) by (simp add: sends_for_agent_def)
  have ready: "ad_lifecycle (snd (run_stdio P blog inputs (adapter_new config now))) = Ready"
    using sent assms(2) by (auto simp: sends_for_agent_def)
  from agent assms(3) have allowed: "cfg_mode config = WriteMode" "hr_bearer r = cfg_bearer_token config"
    by (auto simp: agent_request_def public_read_def)
  with assms(1,3) ready show ?thesis
    by (auto simp: config_new_def Let_def and_then_eq_Inr reject_if_eq_Inr is_loopback_url_def split: if_splits bind_splits)
qed

theorem token_stays_protected_witness:
  "\<exists>r. r \<in> set (mcp_sent WriteMode (lit ''d'')) \<and> hr_bearer r = Some (trim (lit '' t ''))"
proof -
  obtain r where r: "r \<in> set (mcp_sent WriteMode (lit ''d''))" "hr_bearer r \<noteq> None" using mcp_sent_drafts by simp
  from token_stays_protected [OF mcp_config_ok r(1) [unfolded mcp_sent_def] r(2)] r(1) show ?thesis by auto
qed

section \<open>Client and server\<close>

definition agent_headers :: "rstr \<Rightarrow> HeaderMap" where
  "agent_headers token = \<lparr>hdr_cookie = None, hdr_origin = None, hdr_authorization = Some (HeaderText (lit ''Bearer '' @ token))\<rparr>"

lemma strip_append: "strip_prefix p (p @ s) = Some s" "strip_suffix p (s @ p) = Some s"
  by (simp_all add: strip_prefix_def strip_suffix_def starts_with_iff ends_with_iff)

lemma uuid_path_text:
  assumes "uuid_texts P P'"
  shows "uuid_path P' (lit prefix @ mp_uuid_text P u @ lit suffix) prefix suffix"
  using assms by (auto simp: uuid_path_def strip_append uuid_texts_def)

lemma agent_routes:
  assumes "uuid_texts P P'" and "command_request P command = (hr_method r, hr_segments r, query, body, True)"
  shows "mcp_content_route P' (hr_method r) (request_path r)"
proof -
  note path = uuid_path_text [OF assms(1), of "''/api/v1/admin/documents/''" _ "''''"]
    uuid_path_text [OF assms(1), of "''/api/v1/documents/''" _ "''/revisions''"]
    uuid_path_text [OF assms(1), of "''/api/v1/documents/''" _ "''/publish''"]
  show ?thesis
    using assms(2) [symmetric] path by (cases command) (auto simp: request_path_def lit_def)
qed

text \<open>
  (C15) The server admits what the adapter sends. Where both sides share the token and read the
  same identifiers, every request with a token that the adapter sends, whatever lines it was
  given, is on one of the routes the token opens: the guard of the server lets it pass as the
  agent. And a request that creates or revises content declares its authorship.
\<close>

theorem server_admits_adapter:
  assumes "uuid_texts P P'" and "r \<in> set (ad_sent (snd (run_stdio P blog inputs (adapter_new config now))))"
    and "hr_bearer r = Some token" and "app_mcp_token_hash A = Some (pf_sha256 P' (as_bytes token))"
    and "\<not> app_delivery_only A" and "app_admin_auth_mode A \<noteq> RuntimeDisabled"
  shows "require_admin E P' A (agent_headers token) (hr_method r) (request_path r) s = (Inr McpAgent, s)
     \<and> (hr_method r = POST \<longrightarrow> last (hr_segments r) \<noteq> lit ''publish'' \<longrightarrow> declares_authorship r)"
proof -
  have "agent_request P (cfg_bearer_token config) (cfg_mode config) r"
    using sent_by_run [of P config blog inputs now] assms(2) by (simp add: sends_for_agent_def)
  with assms(3) obtain command where
    command: "command_request P command = (hr_method r, hr_segments r, [], hr_body r, True)"
    and authorship: "(\<exists>body. command = Create body) \<or> (\<exists>i body. command = Revise i body) \<longrightarrow> declares_authorship r"
    by (auto simp: agent_request_def public_read_def)
  have "bearer_token_hash P' (agent_headers token) = Some (pf_sha256 P' (as_bytes token))"
      "session_hash_from_headers P' (agent_headers token) = None"
    by (simp_all add: bearer_token_hash_def session_hash_from_headers_def agent_headers_def header_text_def strip_append)
  then have "require_admin E P' A (agent_headers token) (hr_method r) (request_path r) s = (Inr McpAgent, s)"
    using assms(4-6) agent_routes [OF assms(1) command]
    by (simp add: require_admin_def owner_authenticated_def req_then_def req_of_def)
  moreover have "hr_method r = POST \<longrightarrow> last (hr_segments r) \<noteq> lit ''publish'' \<longrightarrow> declares_authorship r"
    using command [symmetric] authorship by (cases command) auto
  ultimately show ?thesis by blast
qed

definition mcp_server :: platform where
  "mcp_server = \<lparr>pf_sha256 = (\<lambda>b. b), pf_base64_encode = (\<lambda>_. []), pf_base64_decode = (\<lambda>_. None), pf_uuid_text = (\<lambda>_. lit ''u''),
     pf_uuid_bytes = (\<lambda>_. []), pf_uuid_parse = (\<lambda>t. if t = lit ''u'' then Some 2 else None), pf_path_uuid = (\<lambda>_. Some 2),
     pf_hash_password = (\<lambda>_ p. Inr p), pf_verify_password = (\<lambda>_ _. Inr False), pf_dummy_phc = [], pf_render_markdown = (\<lambda>m. m),
     pf_render_revision = (\<lambda>_ view. \<lparr>artifact_view = view, artifact_html = [], artifact_source_hash = [],
         artifact_hash = [], artifact_renderer_version = [], artifact_sanitizer_policy_version = [],
         artifact_required_style_assets = [], artifact_required_script_assets = []\<rparr>),
     pf_summarize_markdown = (\<lambda>m _. m), pf_public_route_url = (\<lambda>p. p)\<rparr>"

definition mcp_app :: AppState where
  "mcp_app = \<lparr>app_site_id = 20, app_delivery_only = False, app_registration_open = False, app_local_auth_enabled = False,
      app_admin_auth_mode = RuntimeAccessKey, app_binding_fingerprint = [], app_comments_enabled = False,
      app_collaboration_enabled = False, app_custom_css_enabled = False, app_features = [], app_article_base_path = lit ''/posts'',
      app_public_origin = lit ''https://blog.example'', app_public_path = lit ''/'', app_secure_session_cookie = True,
      app_mcp_token_hash = Some (as_bytes (lit ''t''))\<rparr>"

theorem server_admits_adapter_witness:
  "\<exists>r. r \<in> set (mcp_sent WriteMode (lit ''d'')) \<and> (\<forall>s. require_admin example_extern mcp_server mcp_app (agent_headers (lit ''t''))
     (hr_method r) (request_path r) s
     = (Inr McpAgent, s))"
proof -
  have texts: "uuid_texts mcp_example mcp_server" by (simp add: uuid_texts_def mcp_example_def mcp_server_def lit_def)
  obtain r where r: "r \<in> set (mcp_sent WriteMode (lit ''d''))" "hr_bearer r = Some (lit ''t'')" using mcp_sent_drafts by simp
  have app: "app_mcp_token_hash mcp_app = Some (pf_sha256 mcp_server (as_bytes (lit ''t'')))" "\<not> app_delivery_only mcp_app"
      "app_admin_auth_mode mcp_app \<noteq> RuntimeDisabled"
    by (simp_all add: mcp_app_def mcp_server_def)
  from server_admits_adapter [OF texts r(1) [unfolded mcp_sent_def] r(2) app] r(1) show ?thesis by blast
qed

text \<open>
  Every message is answered as JSON-RPC asks. A request with a text or a number as its
  identifier gets exactly one answer with that identifier, which holds either a result or an
  error; a message that is not a request gets an error without an identifier; a notification
  gets no answer, whatever its method.
\<close>

theorem message_is_answered:
  "case (fst (handle_message P blog now now' message a), answered_id message) of
     (None, None) \<Rightarrow> True | (Some r, Some i) \<Rightarrow> answers i r | _ \<Rightarrow> False"
proof (cases "as_object message")
  case None
  then show ?thesis by (simp add: handle_message_def answered_id_def invalid_request_def)
next
  case (Some obj)
  show ?thesis
  proof (cases "Option.bind (field obj ''jsonrpc'') as_str = Some (lit ''2.0'')")
    case False
    with Some show ?thesis by (simp add: handle_message_def answered_id_def invalid_request_def)
  next
    case True
    with Some show ?thesis
      using handle_request_answers [of _ P blog now now' _ "field obj ''params''" a]
      by (cases "field obj ''id''"; cases "Option.bind (field obj ''method'') as_str")
        (auto simp: handle_message_def answered_id_def invalid_request_def Let_def)
  qed
qed

section \<open>Schemas\<close>

definition tool_arguments :: "Value \<Rightarrow> rstr list" where
  "tool_arguments t = (case Option.bind (pointer t ''inputSchema'' ''properties'') as_object of None \<Rightarrow> [] | Some obj \<Rightarrow> map fst obj)"

definition tool_required :: "Value \<Rightarrow> rstr list" where
  "tool_required t = (case Option.bind (pointer t ''inputSchema'' ''required'') as_array of None \<Rightarrow> []
     | Some items \<Rightarrow> List.map_filter as_str items)"

lemma keys_fold_insert:
  "fst ` set (fold (\<lambda>(name, v). insert_field name v) members obj) = fst ` set obj \<union> lit ` fst ` set members"
proof (induction members arbitrary: obj)
  case (Cons member members)
  have "fst ` set (insert_entry k v kvs) = insert k (fst ` set kvs)" for k :: rstr and v :: Value and kvs
    using keys_insert_entry [of k v kvs] by simp
  with Cons show ?case by (simp add: insert_field_def case_prod_beta)
qed simp

lemma tool_definition_arguments:
  assumes "\<forall>x \<in> set extra. fst x \<noteq> ''properties''"
  shows "set (tool_arguments (tool_definition name title description properties extra hints)) = lit ` fst ` set properties"
proof -
  have "map_of (rev extra) ''properties'' = None"
    using assms by (auto simp: map_of_eq_None_iff)
  then have "pointer (tool_definition name title description properties extra hints) ''inputSchema'' ''properties''
      = Some (json_object properties)"
    by (simp add: pointer_def tool_definition_def value_get_json_object map_add_def)
  then show ?thesis
    using keys_fold_insert [of properties "[]"] by (simp add: tool_arguments_def json_object_def)
qed

lemma tool_definition_required:
  "map_of (rev extra) ''required'' = v \<Longrightarrow>
   tool_required (tool_definition name title description properties extra hints) =
     (case Option.bind v as_array of None \<Rightarrow> [] | Some items \<Rightarrow> List.map_filter as_str items)"
  by (auto simp: tool_required_def pointer_def tool_definition_def value_get_json_object map_add_def split: option.splits)

lemmas tool_defs = list_tool_def read_tool_def create_tool_def revise_tool_def publish_tool_def

lemma tool_listed:
  "value_get list_tool ''name'' = Some (text_value ''osb_content_list'')"
  "value_get read_tool ''name'' = Some (text_value ''osb_content_read'')"
  "value_get create_tool ''name'' = Some (text_value ''osb_content_create'')"
  "value_get revise_tool ''name'' = Some (text_value ''osb_content_revise'')"
  "value_get publish_tool ''name'' = Some (text_value ''osb_content_publish'')"
  by (simp_all add: tool_defs tool_definition_def value_get_json_object)

lemma tool_schemas:
  "set (tool_arguments list_tool) = lit ` {''includeDrafts''}" "tool_required list_tool = []"
  "set (tool_arguments read_tool) = lit ` {''slug'', ''documentId'', ''view''}" "tool_required read_tool = []"
  "set (tool_arguments create_tool) = lit ` set CONTENT_ARGUMENTS"
  "tool_required create_tool = map lit [''title'', ''slug'', ''sourceMarkdown'', ''authorship'']"
  "set (tool_arguments revise_tool) = lit ` set ([''documentId'', ''baseRevisionId'', ''idempotencyKey''] @ CONTENT_ARGUMENTS)"
  "tool_required revise_tool = map lit [''documentId'', ''baseRevisionId'', ''idempotencyKey'', ''title'', ''slug'', ''sourceMarkdown'',
     ''authorship'']"
  "set (tool_arguments publish_tool) = lit ` {''documentId'', ''revisionId''}"
  "tool_required publish_tool = map lit [''documentId'', ''revisionId'']"
  unfolding tool_defs
  by (simp_all add: tool_definition_arguments tool_definition_required content_schema_properties_def CONTENT_ARGUMENTS_def
      List.map_filter_simps insert_commute)

lemma ensure_only_keys: "ensure_only arguments allowed = Inr () \<Longrightarrow> fst ` set arguments \<subseteq> lit ` set allowed"
  by (auto simp: ensure_only_def find_None_iff split: option.splits)

lemma field_given: "field arguments name = Some v \<Longrightarrow> lit name \<in> fst ` set arguments"
  by (auto simp: field_def intro: rev_image_eqI dest!: map_of_SomeD)

lemma required_given: "required_string arguments name = Inr v \<Longrightarrow> lit name \<in> fst ` set arguments"
  by (auto simp: required_string_def ok_or_eq_Inr bind_eq_Some_conv intro: field_given)

lemma content_given:
  assumes "content_body arguments = Inr body"
  shows "lit ` {''title'', ''slug'', ''sourceMarkdown'', ''authorship''} \<subseteq> fst ` set arguments"
  using assms by (auto simp: content_body_def Let_def and_then_eq_Inr ok_or_eq_Inr intro: required_given field_given)

text \<open>
  (C18) The adapter accepts what it advertises. A call that is turned into a command names a tool
  that the adapter lists in its mode, every argument of the call is a property of the listed
  schema, and every property the schema requires is given.
\<close>

theorem accepted_call_matches_schema:
  assumes "parse_command P name arguments mode = Inr command"
  shows "\<exists>t \<in> set (tool_definitions mode). value_get t ''name'' = Some (Str name)
     \<and> fst ` set arguments \<subseteq> set (tool_arguments t) \<and> set (tool_required t) \<subseteq> fst ` set arguments"
proof -
  consider (list) "name = lit ''osb_content_list''" "parse_list arguments mode = Inr command"
    | (read) "name = lit ''osb_content_read''" "parse_read P arguments mode = Inr command"
    | (create) "name = lit ''osb_content_create''" "parse_create arguments mode = Inr command"
    | (revise) "name = lit ''osb_content_revise''" "parse_revise P arguments mode = Inr command"
    | (publish) "name = lit ''osb_content_publish''" "parse_publish P arguments mode = Inr command"
    using assms by (auto simp: parse_command_def split: if_splits)
  then show ?thesis
  proof cases
    case list
    then have "fst ` set arguments \<subseteq> lit ` {''includeDrafts''}"
      by (auto simp: parse_list_def and_then_eq_Inr dest!: ensure_only_keys)
    with list show ?thesis by (intro bexI [of _ list_tool])
      (auto simp: tool_schemas tool_listed tool_definitions_def)
  next
    case read
    then have "fst ` set arguments \<subseteq> lit ` {''slug'', ''documentId'', ''view''}"
      by (auto simp: parse_read_def and_then_eq_Inr dest!: ensure_only_keys)
    with read show ?thesis by (intro bexI [of _ read_tool])
      (auto simp: tool_schemas tool_listed tool_definitions_def)
  next
    case create
    then obtain body where mode: "mode = WriteMode" and only: "ensure_only arguments CONTENT_ARGUMENTS = Inr ()"
      and body: "content_body arguments = Inr body"
      by (auto simp: parse_create_def and_then_eq_Inr require_write_def split: if_splits)
    from ensure_only_keys [OF only] content_given [OF body] mode create(1)
    show ?thesis by (intro bexI [of _ create_tool]) (auto simp: tool_schemas tool_listed tool_definitions_def)
  next
    case revise
    then obtain body d b k where mode: "mode = WriteMode" and body: "content_body arguments = Inr body"
      and only: "ensure_only arguments ([''documentId'', ''baseRevisionId'', ''idempotencyKey''] @ CONTENT_ARGUMENTS) = Inr ()"
      and given: "required_string arguments ''documentId'' = Inr d" "required_string arguments ''baseRevisionId'' = Inr b"
        "required_string arguments ''idempotencyKey'' = Inr k"
      by (auto simp: parse_revise_def and_then_eq_Inr require_write_def Let_def split: if_splits)
    from ensure_only_keys [OF only] content_given [OF body] given [THEN required_given] mode revise(1)
    show ?thesis by (intro bexI [of _ revise_tool]) (auto simp: tool_schemas tool_listed tool_definitions_def)
  next
    case publish
    then obtain d b where mode: "mode = WriteMode" and only: "ensure_only arguments [''documentId'', ''revisionId''] = Inr ()"
      and given: "required_string arguments ''documentId'' = Inr d" "required_string arguments ''revisionId'' = Inr b"
      by (auto simp: parse_publish_def and_then_eq_Inr require_write_def split: if_splits)
    from ensure_only_keys [OF only] given [THEN required_given] mode publish(1)
    show ?thesis by (intro bexI [of _ publish_tool]) (auto simp: tool_schemas tool_listed tool_definitions_def)
  qed
qed

definition publish_arguments :: "(rstr \<times> Value) list" where
  "publish_arguments = [(lit ''documentId'', text_value ''u''), (lit ''revisionId'', text_value ''u'')]"

theorem accepted_call_matches_schema_witness:
  "\<exists>t \<in> set (tool_definitions WriteMode). value_get t ''name'' = Some (text_value ''osb_content_publish'')
     \<and> fst ` set publish_arguments \<subseteq> set (tool_arguments t) \<and> set (tool_required t) \<subseteq> fst ` set publish_arguments"
proof -
  have "parse_command mcp_example (lit ''osb_content_publish'') publish_arguments WriteMode = Inr (Publish 2 2)" by code_simp
  then show ?thesis by (rule accepted_call_matches_schema)
qed

end
