(* ===== verification/Spec2Isabelle.thy ===== *)
theory Spec2Isabelle
  imports Policy Moderation Admission Store_Authority Store_Export Store_Home Dlc_Properties Cache_Properties Api_Properties
    Mcp_Properties
begin

text \<open>
  Verification of OpenSoverignBlog, a self-hosted blog server with portable modules. The Rust
  sources are under \<open>src/\<close>; this library models them as HOL functions and proves what makes
  them correct. Each theory opens with the source files it models.

  \<^bold>\<open>The program and its theories.\<close>

  \<^item> The kernel (\<open>crates/kernel/src\<close>) holds the content model: documents, immutable revisions,
    validators, content hashes and the AI-to-AI envelope. \<open>Content_Types\<close> has its structs and
    enums, \<open>Wire\<close> the JSON form serde derives for them, \<open>Content\<close> the validators, the framed
    hash input and the AI summary gate, \<open>Ai2ai\<close> the envelope with its policy, receipts and
    checks. \<open>Policy\<close> has the access policy port with its single-owner, role-based
    (\<open>features/rbac\<close>) and external-identity (\<open>features/external-auth\<close>) implementations,
    \<open>Moderation\<close> the comment state machine (\<open>features/comments\<close>), \<open>Admission\<close> the rate limiter
    (\<open>apps/server/src/admission.rs\<close>).
  \<^item> The repository (\<open>crates/storage-sqlite/src/lib.rs\<close>). \<open>Store\<close> has the tables after the last
    migration, every primary key, unique index, check, trigger and foreign key (immediate and
    deferred), transactions, and the shared reads and guards. \<open>Store_Documents\<close>,
    \<open>Store_Sites\<close>, \<open>Store_Admin\<close> and \<open>Store_Reads\<close> have the operations in the order of the code;
    \<open>Custom_Css\<close> has the stylesheet validator. Tables are lists of rows, a statement is a list
    operation, a failed transaction leaves the database as it was.
  \<^item> The module lifecycle of the command line tool. \<open>Plugin_Api\<close> and \<open>Installation\<close> have the
    manifest, intent and lock of \<open>crates/plugin-api/src/lib.rs\<close>; \<open>Dlc_Environment\<close>,
    \<open>Dlc_Lifecycle\<close>, \<open>Dlc_Transaction\<close>, \<open>Dlc_Command\<close> the commands and the file transaction of
    \<open>apps/cli/src/bootstrap/dlc_lifecycle.rs\<close>; \<open>Dlc_Install\<close> the first installation of
    \<open>apps/cli/src/bootstrap.rs\<close>.
  \<^item> The response cache (\<open>apps/server/src/cache.rs\<close> and the cache middleware of
    \<open>apps/server/src/main.rs\<close>). \<open>Cache\<close> has the Redis scripts, the coherence word, the mutation
    guard and the reconnect breaker, \<open>Cache_Response\<close> the signed entries and the cacheable
    paths, \<open>Cache_Tasks\<close> requests and mutations as tasks that interleave at every access of a
    shared word or of Redis.
  \<^item> The HTTP interface of members, of the studio and of the primary site. \<open>Request\<close> has the
    application state, headers, errors, validators, session resolution and the worker tasks that
    call the repository, \<open>Studio\<close> and \<open>Studio_Routes\<close> the handlers and routes of
    \<open>apps/server/src/community.rs\<close>, \<open>Admin_Api\<close> the routes of \<open>apps/server/src/main.rs\<close> for the
    owner and the agent. A handler is a function on a server state that records its own
    repository calls; the calls of other requests happen before each of them.
  \<^item> The MCP adapter (\<open>apps/mcp/src/lib.rs\<close>), a separate process that offers the blog to a model and
    calls the HTTP interface for it. \<open>Mcp\<close> has the JSON values and the configuration, \<open>Mcp_Tools\<close>
    the tools with their schemas, the checks of their arguments, the HTTP request of each command
    and the reading of the answer, \<open>Mcp_Adapter\<close> the life cycle of a connection, the call limit,
    the messages and the loop over standard input. The adapter records the requests it sends; the
    answer of the blog may depend on all of them.

  \<^bold>\<open>What the lemmas show.\<close> \<open>Store_Invariant\<close>, \<open>Store_Effects\<close>, \<open>Store_Steps\<close> and \<open>Store_Calls\<close> prove
  the invariant of the tables for every call sequence; \<open>Store_History\<close> and \<open>Store_Sessions\<close> say
  what calls may do to histories and to sessions; \<open>Store_Properties\<close>, \<open>Store_Publishing\<close>,
  \<open>Store_Access\<close> and \<open>Store_Authority\<close> hold the properties. \<open>Blog\<close> is the abstract specification
  of the repository as a locale; \<open>Store_Blog\<close> interprets it on the tables, which gives the
  refinement. \<open>Store_Export\<close> and \<open>Store_Home\<close> show that the export is complete and the home feed
  bounded. \<open>Dlc_Registry\<close> is the abstract module registry, \<open>Dlc_Refinement\<close> the simulation,
  \<open>Dlc_Reload\<close> that written deployments load again, \<open>Dlc_Properties\<close> the properties of commands
  on a disk whose calls may fail. \<open>Cache_Coherence\<close> and \<open>Cache_Properties\<close> show that answers are never
  older than the request. \<open>Request_Logic\<close> is a program logic for handlers, a locale over a policy
  of allowed calls; \<open>Api_Authority\<close>, \<open>Api_Reads\<close> and \<open>Api_Primary\<close> interpret it on the policies of
  the routes, \<open>Api_Effects\<close> says what the allowed calls do to the tables, and \<open>Api_Properties\<close>
  holds the properties. \<open>Mcp_Properties\<close> has an invariant of connections as a locale, interpreted on
  the requests the adapter may send, and composes the adapter with the guard of the server.

  \<^bold>\<open>Parameters.\<close> Code of third-party crates is a parameter with its documented laws as
  hypotheses: SHA-256, Argon2, the text of JSON, TOML and UUIDs, URL parsing, semantic versions, Base64. Clocks,
  identifiers, nonces, generation texts and the outcome of system and network calls are
  arguments of the operations, so the theorems hold for every outcome.

  \<^bold>\<open>Bounds.\<close> Loops are structural recursions or have a measure; no operation uses fuel. Counters
  keep their width where the code relies on it; the coherence word of the cache packs a counter
  of mutations into 64 bits, and its theorems assume fewer than \<open>2 ^ 61\<close> marks in the life of a
  process.

  \<^bold>\<open>Not modelled.\<close> The extraction of requests by \<open>axum\<close>, the assembly of pages, feeds and
  metadata for visitors, Markdown rendering (\<open>pulldown-cmark\<close>, \<open>ammonia\<close>), uploads, AI summaries,
  the code runner, the login of the administrator, process control, prompts and the opening and
  migration of the SQLite file: they call third-party code or perform input and output only, or
  are left out as the manifest says.
\<close>

end
